(* ===== verification/Subtilis_Prelude.thy ===== *)
theory Subtilis_Prelude
  imports Main "HOL-Library.Word"
begin

text \<open>
  Shared ground of the development: the C types the compiler uses, the result type of a fallible
  C function, and the generic lemmas on words, bits and lists that the components share.
\<close>

unbundle bit_operations_syntax

section \<open>C types\<close>

text \<open>
  \<^verbatim>\<open>uint8_t\<close>, \<^verbatim>\<open>uint16_t\<close>, \<^verbatim>\<open>uint32_t\<close> and a 64-bit \<^verbatim>\<open>size_t\<close> are kept at their width.
  A register number (\<^verbatim>\<open>subtilis_arm_reg_t\<close>) is a \<^verbatim>\<open>size_t\<close>. A \<^verbatim>\<open>size_t\<close> that only counts
  or indexes elements of an array held in memory is a \<open>nat\<close>.
\<close>

type_synonym u8 = "8 word"
type_synonym u16 = "16 word"
type_synonym u32 = "32 word"
type_synonym u64 = "64 word"

section \<open>Errors\<close>

text \<open>
  The error codes of common/error.h that the modelled code sets. \<open>Undefined\<close> is no error of the
  program: it marks a C operation with undefined behaviour (an access outside an array, a
  dereference of a null pointer), so that a theorem can say that it does not happen.
\<close>

datatype subtilis_error =
    ERROR_OOM
  | ERROR_ASSERTION_FAILED
  | ERROR_BAD_INSTRUCTION u32
  | ERROR_TOO_MANY_BLOCKS
  | ERROR_ASS_BAD_ALIGNMENT
  | ERROR_ASS_BAD_ADR
  | ERROR_TYPE_ALREADY_DEFINED
  | ERROR_ALREADY_DEFINED
  | ERROR_DIVIDE_BY_ZERO
  | ERROR_BAD_EXPRESSION
  | ERROR_BAD_CONVERSION

datatype c_exc = Error subtilis_error | Undefined

type_synonym 'a c_result = "c_exc + 'a"

definition rbind :: "'e + 'a \<Rightarrow> ('a \<Rightarrow> 'e + 'b) \<Rightarrow> 'e + 'b" where
  "rbind r f = (case r of Inl e \<Rightarrow> Inl e | Inr x \<Rightarrow> f x)"

lemma rbind_simps [simp]:
  "rbind (Inl e) f = Inl e"
  "rbind (Inr x) f = f x"
  by (simp_all add: rbind_def)

lemma rbind_eq_Inr: "rbind r f = Inr y \<longleftrightarrow> (\<exists>x. r = Inr x \<and> f x = Inr y)"
  by (cases r) simp_all

lemma rbind_eq_Inl: "rbind r f = Inl e \<longleftrightarrow> r = Inl e \<or> (\<exists>x. r = Inr x \<and> f x = Inl e)"
  by (cases r) simp_all

lemma rbind_assoc: "rbind (rbind r f) g = rbind r (\<lambda>x. rbind (f x) g)"
  by (cases r) simp_all

lemma rbind_cong [fundef_cong]:
  "r = r' \<Longrightarrow> (\<And>x. r' = Inr x \<Longrightarrow> f x = f' x) \<Longrightarrow> rbind r f = rbind r' f'"
  by (cases r') simp_all

text \<open>
  \<open>ensure b e\<close> is the C idiom \<^verbatim>\<open>if (!b) { subtilis_error_set...(err); return; }\<close>.
\<close>

definition ensure :: "bool \<Rightarrow> 'e \<Rightarrow> 'e + unit" where
  "ensure b e = (if b then Inr () else Inl e)"

lemma ensure_simps [simp]:
  "ensure True e = Inr ()"
  "ensure False e = Inl e"
  "ensure b e = Inr u \<longleftrightarrow> b"
  "ensure b e = Inl e' \<longleftrightarrow> \<not> b \<and> e' = e"
  by (auto simp: ensure_def)

abbreviation assertion_failed :: c_exc where
  "assertion_failed \<equiv> Error ERROR_ASSERTION_FAILED"

abbreviation oom :: c_exc where
  "oom \<equiv> Error ERROR_OOM"

text \<open>Reading and writing an array element; outside the array the behaviour is undefined.\<close>

definition array_get :: "'a list \<Rightarrow> nat \<Rightarrow> 'a c_result" where
  "array_get xs i = (if i < length xs then Inr (xs ! i) else Inl Undefined)"

definition array_set :: "'a list \<Rightarrow> nat \<Rightarrow> 'a \<Rightarrow> 'a list c_result" where
  "array_set xs i x = (if i < length xs then Inr (xs[i := x]) else Inl Undefined)"

lemma array_get_simps [simp]:
  "i < length xs \<Longrightarrow> array_get xs i = Inr (xs ! i)"
  "length xs \<le> i \<Longrightarrow> array_get xs i = Inl Undefined"
  by (simp_all add: array_get_def)

lemma array_set_simps [simp]:
  "i < length xs \<Longrightarrow> array_set xs i x = Inr (xs[i := x])"
  "length xs \<le> i \<Longrightarrow> array_set xs i x = Inl Undefined"
  by (simp_all add: array_set_def)

lemma array_get_eq_Inr: "array_get xs i = Inr x \<longleftrightarrow> i < length xs \<and> x = xs ! i"
  by (auto simp: array_get_def)

lemma array_set_eq_Inr: "array_set xs i x = Inr ys \<longleftrightarrow> i < length xs \<and> ys = xs[i := x]"
  by (auto simp: array_set_def)

lemmas c_result_simps = rbind_eq_Inr rbind_eq_Inl array_get_eq_Inr array_set_eq_Inr

section \<open>Bits of words\<close>

lemma bit_lt_pow:
  assumes "(x::'a::len word) < 2 ^ n" and "n \<le> m"
  shows "\<not> bit x m"
proof (cases "n < LENGTH('a)")
  case True
  with assms(1) have "uint x < 2 ^ n"
    by (simp add: word_2p_lem word_size)
  then have "take_bit n (uint x) = uint x"
    by (simp add: take_bit_int_eq_self)
  then have "\<not> bit (uint x) m"
    using assms(2) by (metis bit_take_bit_iff linorder_not_le)
  then show ?thesis
    by (simp add: bit_uint_iff) (metis bit_imp_le_length)
next
  case False
  with assms(2) show ?thesis
    by (metis bit_imp_le_length le_trans linorder_not_le)
qed

lemma bit_small_word:
  fixes x :: "'a::len word"
  shows "x < 2 \<Longrightarrow> 1 \<le> m \<Longrightarrow> \<not> bit x m"
    and "x < 4 \<Longrightarrow> 2 \<le> m \<Longrightarrow> \<not> bit x m"
    and "x < 8 \<Longrightarrow> 3 \<le> m \<Longrightarrow> \<not> bit x m"
    and "x < 16 \<Longrightarrow> 4 \<le> m \<Longrightarrow> \<not> bit x m"
    and "x < 32 \<Longrightarrow> 5 \<le> m \<Longrightarrow> \<not> bit x m"
    and "x < 256 \<Longrightarrow> 8 \<le> m \<Longrightarrow> \<not> bit x m"
    and "x < 4096 \<Longrightarrow> 12 \<le> m \<Longrightarrow> \<not> bit x m"
    and "x < 65536 \<Longrightarrow> 16 \<le> m \<Longrightarrow> \<not> bit x m"
    and "x < 0x1000000 \<Longrightarrow> 24 \<le> m \<Longrightarrow> \<not> bit x m"
  using bit_lt_pow [of x 1 m] bit_lt_pow [of x 2 m] bit_lt_pow [of x 3 m] bit_lt_pow [of x 4 m]
    bit_lt_pow [of x 5 m] bit_lt_pow [of x 8 m] bit_lt_pow [of x 12 m] bit_lt_pow [of x 16 m]
    bit_lt_pow [of x 24 m]
  by simp_all

text \<open>
  An equation between 32-bit words is decided bit by bit: \<open>u32_bits\<close> turns it into 32 equations
  between bits at concrete positions, which \<open>bit_simps\<close> evaluates through shifts, masks and
  disjunctions.
\<close>

lemma all_less_32:
  "(\<forall>n<32. P n) = (P 31 \<and> P 30 \<and> P 29 \<and> P 28 \<and> P 27 \<and> P 26 \<and> P 25 \<and> P 24 \<and> P 23 \<and> P 22 \<and> P 21 \<and> P 20
    \<and> P 19 \<and> P 18 \<and> P 17 \<and> P 16 \<and> P 15 \<and> P 14 \<and> P 13 \<and> P 12 \<and> P 11 \<and> P 10 \<and> P 9 \<and> P 8 \<and> P 7 \<and> P 6
    \<and> P 5 \<and> P 4 \<and> P 3 \<and> P 2 \<and> P 1 \<and> P (0::nat))"
  by (simp add: eval_nat_numeral All_less_Suc)

lemma u32_eq_iff_bits: "(a::u32) = b \<longleftrightarrow> (\<forall>n<32. bit a n = bit b n)"
  by (auto intro: bit_word_eqI)

lemmas small_nums = numeral_2_eq_2 [symmetric] numeral_3_eq_3 [symmetric]

lemmas u32_bits = u32_eq_iff_bits all_less_32 bit_simps bit_small_word small_nums

lemma word_and_less:
  fixes x y :: "'a::len word"
  shows "y < n \<Longrightarrow> x AND y < n"
  by (rule le_less_trans [OF word_and_le1])

lemma word_less_if_masked:
  fixes x y :: "'a::len word"
  assumes "x = x AND y" and "y < n"
  shows "x < n"
  by (subst assms(1)) (rule word_and_less [OF assms(2)])

text \<open>The C conversion from \<^verbatim>\<open>size_t\<close> to \<^verbatim>\<open>uint32_t\<close> is a homomorphism.\<close>

lemma ucast_u64_of_nat [simp]: "ucast (of_nat n :: u64) = (of_nat n :: u32)"
  by (rule bit_word_eqI) (simp add: bit_simps)

lemma ucast_u64_of_int [simp]: "ucast (word_of_int k :: u64) = (word_of_int k :: u32)"
  by (rule bit_word_eqI) (simp add: bit_simps)

lemma ucast_u64_add: "ucast (a + b :: u64) = (ucast a + ucast b :: u32)"
proof -
  have "ucast (word_of_int (uint a) + word_of_int (uint b) :: u64) =
      (word_of_int (uint a) + word_of_int (uint b) :: u32)"
    by (simp only: wi_hom_add ucast_u64_of_int)
  then show ?thesis
    by (simp add: word_of_int_uint)
qed

lemma ucast_u64_diff: "ucast (a - b :: u64) = (ucast a - ucast b :: u32)"
proof -
  have "ucast (word_of_int (uint a) - word_of_int (uint b) :: u64) =
      (word_of_int (uint a) - word_of_int (uint b) :: u32)"
    by (simp only: wi_hom_sub ucast_u64_of_int)
  then show ?thesis
    by (simp add: word_of_int_uint)
qed

end
