(* ===== verification/Subtilis_Memory.thy ===== *)
theory Subtilis_Memory
  imports Subtilis_Prelude
begin

text \<open>
  Memory as the C code uses it: the outcome of an allocation, arrays that grow when they are full,
  loops that stop at the first error, and 32-bit words in an array of bytes. The word accesses are
  the operations of a locale \<open>word_store\<close>, in which the effect of a series of patches is proved
  once for its two clients, the encoder's back patches and the linker.
\<close>

section \<open>Loops and allocations\<close>

text \<open>A \<^verbatim>\<open>for\<close> loop over an array whose body may set an error and return.\<close>

fun each :: "('a \<Rightarrow> 's \<Rightarrow> 'e + 's) \<Rightarrow> 'a list \<Rightarrow> 's \<Rightarrow> 'e + 's" where
  "each f [] s = Inr s"
| "each f (x # xs) s = rbind (f x s) (each f xs)"

lemma each_append: "each f (xs @ ys) s = rbind (each f xs s) (each f ys)"
  by (induction xs arbitrary: s) (simp_all add: rbind_assoc cong: rbind_cong)

lemma each_cong [fundef_cong]:
  assumes "xs = ys" and "s = t" and "\<And>x s. x \<in> set ys \<Longrightarrow> f x s = g x s"
  shows "each f xs s = each g ys t"
proof -
  have "\<forall>x\<in>set ys. \<forall>s. f x s = g x s \<Longrightarrow> each f ys s = each g ys s" for s
    by (induction ys arbitrary: s) (auto intro: rbind_cong)
  with assms show ?thesis
    by simp
qed

lemma each_preserves:
  assumes "each f xs s = Inr s'" and "P s"
    and "\<And>x s s'. x \<in> set xs \<Longrightarrow> P s \<Longrightarrow> f x s = Inr s' \<Longrightarrow> P s'"
  shows "P s'"
  using assms by (induction xs arbitrary: s) (auto simp: rbind_eq_Inr)

lemma each_no_error:
  assumes "P s" and "\<And>x s. x \<in> set xs \<Longrightarrow> P s \<Longrightarrow> \<exists>s'. f x s = Inr s' \<and> P s'"
  shows "\<exists>s'. each f xs s = Inr s' \<and> P s'"
  using assms
proof (induction xs arbitrary: s)
  case (Cons x xs)
  from Cons.prems(2) [of x s] Cons.prems(1) obtain s' where "f x s = Inr s'" and "P s'"
    by auto
  with Cons show ?case
    by simp
qed simp

lemma each_errors:
  assumes "each f xs s = Inl e" and "P s"
    and "\<And>x s s'. x \<in> set xs \<Longrightarrow> P s \<Longrightarrow> f x s = Inr s' \<Longrightarrow> P s'"
    and "\<And>x s. x \<in> set xs \<Longrightarrow> P s \<Longrightarrow> f x s = Inl e \<Longrightarrow> Q"
  shows Q
  using assms(1,2,3,4)
proof (induction xs arbitrary: s)
  case (Cons x xs)
  from Cons.prems(1) consider "f x s = Inl e" | s' where "f x s = Inr s'" "each f xs s' = Inl e"
    by (auto simp: rbind_eq_Inl)
  then show ?case
  proof cases
    case 1
    then show ?thesis
      using Cons.prems(4) [of x s] Cons.prems(2) by simp
  next
    case 2
    with Cons show ?thesis
      by (meson list.set_intros)
  qed
qed simp

lemma each_weaken:
  assumes "each f xs s = Inr s'" and "\<And>x s s'. f x s = Inr s' \<Longrightarrow> g x s = Inr s'"
  shows "each g xs s = Inr s'"
  using assms(1) by (induction xs arbitrary: s) (auto simp: rbind_eq_Inr dest: assms(2))

lemma each_each_Inr: "each f xs s = Inr s' \<Longrightarrow> x \<in> set xs \<Longrightarrow> \<exists>t t'. f x t = Inr t'"
  by (induction xs arbitrary: s) (auto simp: rbind_eq_Inr)

text \<open>
  The outcomes of the calls of \<^verbatim>\<open>malloc\<close> and \<^verbatim>\<open>realloc\<close> are an argument of the model: a list with
  one entry per call, in the order of the calls. Beyond the end of the list a request is granted.
\<close>

type_synonym allocs = "bool list"

fun alloc :: "allocs \<Rightarrow> allocs c_result" where
  "alloc [] = Inr []"
| "alloc (granted # al) = (if granted then Inr al else Inl oom)"

lemma alloc_cases:
  obtains al' where "alloc al = Inr al'" | "alloc al = Inl oom"
  by (cases al; cases "hd al") auto

lemma alloc_all_granted: "set al \<subseteq> {True} \<Longrightarrow> \<exists>al'. alloc al = Inr al' \<and> set al' \<subseteq> {True}"
  by (cases al) auto

lemma alloc_Inl: "alloc al = Inl e \<Longrightarrow> e = oom \<and> False \<in> set al"
  by (cases al) (auto split: if_splits)

lemma alloc_Inr_set: "alloc al = Inr al' \<Longrightarrow> set al' \<subseteq> set al"
  by (cases al) (auto split: if_splits)

section \<open>Growable arrays\<close>

text \<open>
  The arrays of the compiler that grow by a fixed step: a pointer, a count and a capacity. An
  element written at the count is outside the array when the count has passed the capacity.
\<close>

record 'a cvec =
  vec_items :: "'a list"
  vec_max :: nat

definition vec_empty :: "'a cvec" where
  "vec_empty = \<lparr>vec_items = [], vec_max = 0\<rparr>"

definition vec_push :: "nat \<Rightarrow> 'a \<Rightarrow> 'a cvec \<Rightarrow> allocs \<Rightarrow> ('a cvec \<times> allocs) c_result" where
  "vec_push gran x v al =
     rbind (if length (vec_items v) = vec_max v
            then rbind (alloc al) (\<lambda>al. Inr (vec_max v + gran, al))
            else Inr (vec_max v, al)) (\<lambda>(new_max, al).
       if length (vec_items v) < new_max
       then Inr (\<lparr>vec_items = vec_items v @ [x], vec_max = new_max\<rparr>, al)
       else Inl Undefined)"

definition vec_ok :: "'a cvec \<Rightarrow> bool" where
  "vec_ok v \<longleftrightarrow> length (vec_items v) \<le> vec_max v"

lemma vec_ok_empty [simp]: "vec_ok vec_empty"
  by (simp add: vec_ok_def vec_empty_def)

lemma vec_items_empty [simp]: "vec_items vec_empty = []"
  by (simp add: vec_empty_def)

lemma vec_push_Inr:
  assumes "vec_push gran x v al = Inr (v', al')" and "vec_ok v"
  shows "vec_items v' = vec_items v @ [x]" and "vec_ok v'" and "set al' \<subseteq> set al"
  using assms alloc_Inr_set
  by (auto simp: vec_push_def vec_ok_def rbind_eq_Inr split: if_splits prod.splits)

lemma vec_push_Inl:
  assumes "vec_push gran x v al = Inl e" and "vec_ok v" and "0 < gran"
  shows "e = oom" and "False \<in> set al"
  using assms
  by (auto simp: vec_push_def vec_ok_def rbind_eq_Inl rbind_eq_Inr
      split: if_splits prod.splits dest: alloc_Inl)

lemma vec_push_granted:
  assumes "vec_ok v" and "0 < gran" and "set al \<subseteq> {True}"
  obtains v' al' where "vec_push gran x v al = Inr (v', al')" and "vec_ok v'"
    and "vec_items v' = vec_items v @ [x]" and "set al' \<subseteq> {True}"
proof (cases "vec_push gran x v al")
  case (Inl e)
  then show ?thesis
    using vec_push_Inl(2) [OF Inl assms(1,2)] assms(3) by blast
next
  case (Inr p)
  then show ?thesis
    using vec_push_Inr [of gran x v al "fst p" "snd p"] assms that
    by (metis prod.collapse subset_trans)
qed

section \<open>Stateful functions that may fail\<close>

type_synonym ('a, 's) c_state = "'s \<Rightarrow> ('a \<times> 's) c_result"

definition sret :: "'a \<Rightarrow> ('a, 's) c_state" where
  "sret x s = Inr (x, s)"

definition sbind :: "('a, 's) c_state \<Rightarrow> ('a \<Rightarrow> ('b, 's) c_state) \<Rightarrow> ('b, 's) c_state" where
  "sbind m f s = rbind (m s) (\<lambda>(x, s). f x s)"

definition sthen :: "('a, 's) c_state \<Rightarrow> ('b, 's) c_state \<Rightarrow> ('b, 's) c_state" where
  "sthen m n = sbind m (\<lambda>_. n)"

lemma sbind_Inr: "m s = Inr (x, s') \<Longrightarrow> sbind m f s = f x s'"
  by (simp add: sbind_def)

lemma sbind_eq_Inr: "sbind m f s = Inr r \<longleftrightarrow> (\<exists>x s'. m s = Inr (x, s') \<and> f x s' = Inr r)"
  by (auto simp: sbind_def rbind_eq_Inr split: prod.splits)

lemma sret_simp [simp]: "sret x s = Inr (x, s)"
  by (simp add: sret_def)

section \<open>Words in an array of bytes\<close>

lemma negative_bit: "sint (w :: u32) < 0 \<longleftrightarrow> bit w 31"
  using bit_last_iff [of w] by simp

definition word_bytes :: "u32 \<Rightarrow> u8 list" where
  "word_bytes w = [ucast w, ucast (drop_bit 8 w), ucast (drop_bit 16 w), ucast (drop_bit 24 w)]"

definition bytes_word :: "u8 \<Rightarrow> u8 \<Rightarrow> u8 \<Rightarrow> u8 \<Rightarrow> u32" where
  "bytes_word a b c d =
     ucast a OR push_bit 8 (ucast b) OR push_bit 16 (ucast c) OR push_bit 24 (ucast d)"

text \<open>
  The dereference of a \<^verbatim>\<open>uint32_t *\<close> into the buffer on a little endian host. The part of a buffer
  that has been written is the list; a word that does not lie in it is out of bounds.
\<close>

definition read_word :: "u8 list \<Rightarrow> nat \<Rightarrow> u32 c_result" where
  "read_word buf i =
     (if i + 4 \<le> length buf
      then Inr (bytes_word (buf ! i) (buf ! (i + 1)) (buf ! (i + 2)) (buf ! (i + 3)))
      else Inl Undefined)"

definition write_word :: "u8 list \<Rightarrow> nat \<Rightarrow> u32 \<Rightarrow> u8 list c_result" where
  "write_word buf i w =
     (if i + 4 \<le> length buf then Inr (take i buf @ word_bytes w @ drop (i + 4) buf)
      else Inl Undefined)"

lemma length_word_bytes [simp]: "length (word_bytes w) = 4"
  by (simp add: word_bytes_def)

lemma bytes_word_bytes:
  "bytes_word (ucast w) (ucast (drop_bit 8 w)) (ucast (drop_bit 16 w)) (ucast (drop_bit 24 w)) = w"
  by (simp add: bytes_word_def u32_bits)

lemma read_word_append: "read_word (xs @ word_bytes w @ ys) (length xs) = Inr w"
  by (simp add: read_word_def word_bytes_def nth_append bytes_word_bytes)

lemma read_word_append1: "i + 4 \<le> length xs \<Longrightarrow> read_word (xs @ ys) i = read_word xs i"
  by (simp add: read_word_def nth_append)

lemma read_word_last: "read_word (xs @ word_bytes w) (length xs) = Inr w"
  using read_word_append [of xs w "[]"] by simp

text \<open>
  The word at the position of \<open>x\<close> is replaced by a function of itself.
\<close>

definition patch :: "('m \<Rightarrow> nat \<Rightarrow> 'e + u32) \<Rightarrow> ('m \<Rightarrow> nat \<Rightarrow> u32 \<Rightarrow> 'e + 'm) \<Rightarrow> ('a \<Rightarrow> nat)
    \<Rightarrow> ('a \<Rightarrow> u32 \<Rightarrow> 'e + u32) \<Rightarrow> 'a \<Rightarrow> 'm \<Rightarrow> 'e + 'm" where
  "patch rd wr pos g x m = rbind (rd m (pos x)) (\<lambda>w. rbind (g x w) (wr m (pos x)))"

text \<open>
  What a client of a memory of words relies on: accesses inside the memory succeed, a write is
  read back, and it leaves the size and the words at the other multiples of four alone.
\<close>

locale word_store =
  fixes rd :: "'m \<Rightarrow> nat \<Rightarrow> u32 c_result"
    and wr :: "'m \<Rightarrow> nat \<Rightarrow> u32 \<Rightarrow> 'm c_result"
    and sz :: "'m \<Rightarrow> nat"
  assumes rd_inside: "i + 4 \<le> sz m \<Longrightarrow> \<exists>w. rd m i = Inr w"
    and wr_inside: "i + 4 \<le> sz m \<Longrightarrow> \<exists>m'. wr m i w = Inr m'"
    and wr_size: "wr m i w = Inr m' \<Longrightarrow> sz m' = sz m"
    and rd_wr: "wr m i w = Inr m' \<Longrightarrow> rd m' i = Inr w"
    and rd_wr_other:
      "wr m i w = Inr m' \<Longrightarrow> i mod 4 = 0 \<Longrightarrow> j mod 4 = 0 \<Longrightarrow> j \<noteq> i \<Longrightarrow> rd m' j = rd m j"
begin

text \<open>
  A loop that replaces, for each element of an array, the word at one position by a function of
  that word. When the positions are distinct multiples of four, every one of them ends with its
  function applied to what was there at the start, and no other word changes.
\<close>

lemma each_patch_size:
  assumes "each (patch rd wr pos g) xs m = Inr m'"
  shows "sz m' = sz m"
  by (rule each_preserves [where P = "\<lambda>m'. sz m' = sz m", OF assms])
    (auto simp: patch_def rbind_eq_Inr wr_size)

lemma each_patch_other:
  assumes "each (patch rd wr pos g) xs m = Inr m'"
    and "\<forall>x\<in>set xs. pos x mod 4 = 0" and "j mod 4 = 0" and "j \<notin> pos ` set xs"
  shows "rd m' j = rd m j"
  by (rule each_preserves [where P = "\<lambda>m'. rd m' j = rd m j", OF assms(1)])
    (use assms(2-4) in \<open>auto simp: patch_def rbind_eq_Inr dest: rd_wr_other [where j = j]\<close>)

lemma each_patch:
  assumes "each (patch rd wr pos g) xs m = Inr m'"
    and "\<forall>x\<in>set xs. pos x mod 4 = 0" and "distinct (map pos xs)" and "x \<in> set xs"
  shows "\<exists>w w'. rd m (pos x) = Inr w \<and> g x w = Inr w' \<and> rd m' (pos x) = Inr w'"
  using assms
proof (induction xs arbitrary: m)
  case (Cons y ys)
  from Cons.prems(1) obtain w w' n where y: "rd m (pos y) = Inr w" "g y w = Inr w'"
    "wr m (pos y) w' = Inr n"
    and ys: "each (patch rd wr pos g) ys n = Inr m'"
    by (auto simp: patch_def [of rd wr pos g y] rbind_eq_Inr)
  show ?case
  proof (cases "x = y")
    case True
    have "rd m' (pos y) = rd n (pos y)"
      by (rule each_patch_other [OF ys]) (use Cons.prems(2,3) in auto)
    with y True show ?thesis
      by (auto dest: rd_wr)
  next
    case False
    with Cons.prems have x: "x \<in> set ys"
      by simp
    with Cons.prems(3) have "pos x \<noteq> pos y"
      by (simp add: image_iff) metis
    with Cons.prems(2) x have "rd n (pos x) = rd m (pos x)"
      using rd_wr_other [OF y(3)] by simp
    with Cons.IH [OF ys] Cons.prems(2,3) x show ?thesis
      by simp
  qed
qed simp

end

abbreviation patch_code ::
    "('a \<Rightarrow> nat) \<Rightarrow> ('a \<Rightarrow> u32 \<Rightarrow> u32 c_result) \<Rightarrow> 'a \<Rightarrow> u8 list \<Rightarrow> u8 list c_result" where
  "patch_code \<equiv> patch read_word write_word"

lemma length_write_word: "write_word m i w = Inr m' \<Longrightarrow> length m' = length m"
  by (auto simp: write_word_def split: if_splits)

lemma read_write_word: "write_word m i w = Inr m' \<Longrightarrow> read_word m' i = Inr w"
  using read_word_append [of "take i m" w "drop (i + 4) m"]
  by (auto simp: write_word_def min_def split: if_splits)

lemma nth_write_word:
  assumes "write_word m i w = Inr m'" and "k < length m" and "k < i \<or> i + 4 \<le> k"
  shows "m' ! k = m ! k"
  using assms by (auto simp: write_word_def nth_append min_def split: if_splits)

lemma read_write_word_other:
  assumes "write_word m i w = Inr m'" and "j + 4 \<le> i \<or> i + 4 \<le> j"
  shows "read_word m' j = read_word m j"
  using assms by (auto simp: read_word_def length_write_word [OF assms(1)]
      nth_write_word [OF assms(1)])

interpretation code_words: word_store read_word write_word length
proof
  fix m i w m' j
  assume *: "write_word m i w = Inr m'"
  then show "length m' = length m" and "read_word m' i = Inr w"
    by (rule length_write_word, rule read_write_word)
  assume "i mod 4 = 0" and "j mod 4 = 0" and "j \<noteq> i"
  then have "j + 4 \<le> i \<or> i + 4 \<le> j"
    by presburger
  with * show "read_word m' j = read_word m j"
    by (rule read_write_word_other)
qed (auto simp: read_word_def write_word_def)

text \<open>A word that is only overwritten: reading it first changes nothing.\<close>

lemma write_word_as_patch:
  "write_word m (pos x) (v x) = Inr m' \<Longrightarrow> patch_code pos (\<lambda>x w. Inr (v x)) x m = Inr m'"
  by (auto simp: patch_def read_word_def write_word_def split: if_splits)

end
