(* ===== verification/Bitset.thy ===== *)
theory Bitset
  imports Subtilis_Memory
begin

text \<open>
  Bit sets (common/bitset.c), with which the compiler keeps sets of registers and of labels. The
  array of \<^verbatim>\<open>unsigned int\<close> is a list, whose length is \<^verbatim>\<open>allocated\<close>; an index outside it is
  \<open>Undefined\<close>. \<open>bs_set\<close> is the set of numbers a bit set stands for, and every operation is shown to
  be the operation on sets of its name.
\<close>

section \<open>The operations\<close>

record bitset =
  bs_bits :: "u32 list"
  bs_max_value :: int

definition bitset_init :: bitset where
  "bitset_init = \<lparr>bs_bits = [], bs_max_value = - 1\<rparr>"

definition bitset_reset :: "bitset \<Rightarrow> bitset" where
  "bitset_reset bs = \<lparr>bs_bits = map (\<lambda>_. 0) (bs_bits bs), bs_max_value = - 1\<rparr>"

definition INT_MAX :: int where
  "INT_MAX = 2 ^ 31 - 1"

definition prv_ensure :: "nat \<Rightarrow> bitset \<Rightarrow> allocs \<Rightarrow> (bitset \<times> allocs) c_result" where
  "prv_ensure n bs al =
     (let needed = n div 32 + 1 in
      if needed \<le> length (bs_bits bs) then Inr (bs, al)
      else rbind (alloc al) (\<lambda>al.
        Inr (bs\<lparr>bs_bits := bs_bits bs @ replicate (needed - length (bs_bits bs)) 0\<rparr>, al)))"

definition bitset_set :: "nat \<Rightarrow> bitset \<Rightarrow> allocs \<Rightarrow> (bitset \<times> allocs) c_result" where
  "bitset_set n bs al =
     rbind (ensure (int n \<le> INT_MAX) assertion_failed) (\<lambda>_.
     rbind (prv_ensure n bs al) (\<lambda>(bs, al).
     let cell = n div 32; offset = n - cell * 32 in
     rbind (array_get (bs_bits bs) cell) (\<lambda>w.
     rbind (array_set (bs_bits bs) cell (w OR push_bit offset 1)) (\<lambda>ws.
       Inr (\<lparr>bs_bits = ws,
             bs_max_value = (if bs_max_value bs < int n then int n else bs_max_value bs)\<rparr>, al)))))"

definition bitset_isset :: "bitset \<Rightarrow> nat \<Rightarrow> bool c_result" where
  "bitset_isset bs n =
     (if bs_bits bs = [] \<or> INT_MAX < int n \<or> bs_max_value bs < int n then Inr False
      else (let cell = n div 32; offset = n - cell * 32
            in rbind (array_get (bs_bits bs) cell) (\<lambda>w. Inr (w AND push_bit offset 1 \<noteq> 0))))"

text \<open>
  The search for the greatest member in the words up to \<open>block\<close>: down to a word that is not zero,
  to its highest byte that is not, and to the highest bit of that.
\<close>

definition top_block :: "u32 list \<Rightarrow> nat \<Rightarrow> nat option" where
  "top_block ws block = find (\<lambda>b. ws ! b \<noteq> 0) (rev [0..<block + 1])"

definition top_byte :: "u32 \<Rightarrow> nat" where
  "top_byte w = (case find (\<lambda>b. push_bit (b * 8) 0xff AND w \<noteq> 0) (rev [0..<4]) of
     Some b \<Rightarrow> b | None \<Rightarrow> 0)"

definition top_bit :: "nat \<Rightarrow> u32 \<Rightarrow> nat" where
  "top_bit byte w = (case find (\<lambda>i. push_bit (i + byte * 8) 1 AND w \<noteq> 0) (rev [0..<8]) of
     Some i \<Rightarrow> i | None \<Rightarrow> 0)"

definition prv_set_max :: "nat \<Rightarrow> bitset \<Rightarrow> bitset c_result" where
  "prv_set_max block bs =
     rbind (array_get (bs_bits bs) block) (\<lambda>_.
       Inr (bs\<lparr>bs_max_value :=
         (case top_block (bs_bits bs) block of
            None \<Rightarrow> - 1
          | Some b \<Rightarrow> (let w = bs_bits bs ! b; byte = top_byte w
                      in int (b * 32 + byte * 8 + top_bit byte w)))\<rparr>))"

text \<open>
  The bit is compared with \<^verbatim>\<open>max_value\<close> as a \<^verbatim>\<open>size_t\<close>, so that in an empty set no bit is too great.
\<close>

definition bitset_clear :: "nat \<Rightarrow> bitset \<Rightarrow> bitset c_result" where
  "bitset_clear n bs =
     (if 0 \<le> bs_max_value bs \<and> bs_max_value bs < int n then Inr bs
      else (let cell = n div 32; offset = n - cell * 32 in
        rbind (array_get (bs_bits bs) cell) (\<lambda>w.
        rbind (array_set (bs_bits bs) cell (w AND NOT (push_bit offset 1))) (\<lambda>ws.
        let bs' = bs\<lparr>bs_bits := ws\<rparr> in
        if int n = bs_max_value bs then prv_set_max cell bs' else Inr bs'))))"

text \<open>The words below \<open>limit\<close> of two arrays combined; both must have them.\<close>

definition combine_words :: "(u32 \<Rightarrow> u32 \<Rightarrow> u32) \<Rightarrow> nat \<Rightarrow> u32 list \<Rightarrow> u32 list \<Rightarrow> u32 list c_result" where
  "combine_words f limit xs ys =
     (if limit \<le> length xs \<and> limit \<le> length ys
      then Inr (map2 f (take limit xs) (take limit ys) @ drop limit xs) else Inl Undefined)"

definition bitset_and :: "bitset \<Rightarrow> bitset \<Rightarrow> bitset c_result" where
  "bitset_and bs bs1 =
     (if bs_max_value bs < 0 then Inr bs
      else (let max_value = min (bs_max_value bs) (bs_max_value bs1);
                limit = (if 0 \<le> max_value \<and> 0 \<le> bs_max_value bs1 then nat max_value div 32 + 1 else 0)
            in rbind (combine_words (AND) limit (bs_bits bs) (bs_bits bs1)) (\<lambda>ws.
               let bs' = \<lparr>bs_bits = take limit ws @ map (\<lambda>_. 0) (drop limit ws), bs_max_value = max_value\<rparr>
               in if 0 < limit then prv_set_max (limit - 1) bs' else Inr bs')))"

definition bitset_or :: "bitset \<Rightarrow> bitset \<Rightarrow> allocs \<Rightarrow> (bitset \<times> allocs) c_result" where
  "bitset_or bs bs1 al =
     (if bs_max_value bs1 < 0 then Inr (bs, al)
      else rbind (prv_ensure (nat (bs_max_value bs1)) bs al) (\<lambda>(bs, al).
           rbind (combine_words (OR) (nat (bs_max_value bs1) div 32 + 1) (bs_bits bs) (bs_bits bs1)) (\<lambda>ws.
             Inr (\<lparr>bs_bits = ws, bs_max_value = max (bs_max_value bs) (bs_max_value bs1)\<rparr>, al))))"

definition bitset_not :: "bitset \<Rightarrow> bitset c_result" where
  "bitset_not bs =
     (if bs_max_value bs < 0 then Inr bs
      else (let limit = nat (bs_max_value bs) div 32;
                bits_left = nat (bs_max_value bs) - limit * 32
            in rbind (array_get (bs_bits bs) limit) (\<lambda>w.
               prv_set_max limit (bs\<lparr>bs_bits := map NOT (take limit (bs_bits bs))
                 @ [NOT w AND (push_bit bits_left 1 - 1)] @ drop (limit + 1) (bs_bits bs)\<rparr>))))"

definition bitset_sub :: "bitset \<Rightarrow> bitset \<Rightarrow> bitset c_result" where
  "bitset_sub bs bs1 =
     (let min_max_value = min (bs_max_value bs) (bs_max_value bs1) in
      if min_max_value < 0 then Inr bs
      else (let limit = nat min_max_value div 32 in
        rbind (combine_words (\<lambda>x y. x AND NOT y) (limit + 1) (bs_bits bs) (bs_bits bs1)) (\<lambda>ws.
        let bs' = bs\<lparr>bs_bits := ws\<rparr> in
        if bs_max_value bs \<le> bs_max_value bs1 then prv_set_max limit bs' else Inr bs')))"

text \<open>\<open>claim\<close> returns the new destination and the new source.\<close>

definition bitset_claim :: "bitset \<Rightarrow> bitset \<Rightarrow> bitset \<times> bitset" where
  "bitset_claim dst src = (src, bitset_init)"

definition bitset_values_upto :: "bitset \<Rightarrow> nat list c_result" where
  "bitset_values_upto bs =
     each (\<lambda>i vs. rbind (bitset_isset bs i) (\<lambda>b. Inr (if b then vs @ [i] else vs)))
       [0..<nat (bs_max_value bs + 1)] []"

definition bitset_count :: "bitset \<Rightarrow> nat c_result" where
  "bitset_count bs =
     each (\<lambda>i n. rbind (bitset_isset bs i) (\<lambda>b. Inr (if b then n + 1 else n)))
       [0..<nat (bs_max_value bs + 1)] 0"

definition bitset_values :: "bitset \<Rightarrow> allocs \<Rightarrow> (nat list \<times> allocs) c_result" where
  "bitset_values bs al =
     rbind (bitset_count bs) (\<lambda>cnt.
       if cnt = 0 then Inr ([], al)
       else rbind (alloc al) (\<lambda>al. rbind (bitset_values_upto bs) (\<lambda>vs.
              if length vs \<le> cnt then Inr (vs, al) else Inl Undefined)))"

section \<open>The set a bit set stands for\<close>

definition words_set :: "u32 list \<Rightarrow> nat set" where
  "words_set ws = {n. n div 32 < length ws \<and> bit (ws ! (n div 32)) (n mod 32)}"

definition bs_set :: "bitset \<Rightarrow> nat set" where
  "bs_set bs = words_set (bs_bits bs)"

definition set_max :: "nat set \<Rightarrow> int" where
  "set_max S = (if S = {} then - 1 else int (Max S))"

definition bitset_ok :: "bitset \<Rightarrow> bool" where
  "bitset_ok bs \<longleftrightarrow> length (bs_bits bs) \<le> 2 ^ 26 \<and> bs_max_value bs = set_max (bs_set bs)"

lemma in_words_set: "n \<in> words_set ws \<longleftrightarrow> n div 32 < length ws \<and> bit (ws ! (n div 32)) (n mod 32)"
  by (simp add: words_set_def)

lemma words_set_bound: "n \<in> words_set ws \<Longrightarrow> n < 32 * length ws"
  by (simp add: words_set_def div_less_iff_less_mult mult.commute)

lemma finite_words_set [simp]: "finite (words_set ws)"
  by (rule finite_subset [of _ "{..<32 * length ws}"]) (auto dest: words_set_bound)

lemma finite_bs_set [simp]: "finite (bs_set bs)"
  by (simp add: bs_set_def)

lemma offset_eq: "n - n div 32 * 32 = n mod (32::nat)"
  by (simp add: minus_div_mult_eq_mod)

lemma set_max_bound: "finite S \<Longrightarrow> n \<in> S \<Longrightarrow> int n \<le> set_max S"
  by (auto simp: set_max_def)

lemma set_max_in: "finite S \<Longrightarrow> 0 \<le> set_max S \<Longrightarrow> nat (set_max S) \<in> S"
  using Max_in [of S] by (auto simp: set_max_def split: if_splits)

lemma set_max_ge: "- 1 \<le> set_max S"
  by (simp add: set_max_def)

lemma set_max_eqI:
  assumes "finite S" and "\<And>n. n \<in> S \<Longrightarrow> int n \<le> m" and "m = - 1 \<or> 0 \<le> m \<and> nat m \<in> S"
  shows "set_max S = m"
proof (cases "S = {}")
  case False
  with assms(1) have "Max S \<in> S"
    by simp
  with assms(2) [of "Max S"] assms(3) Max_ge [OF assms(1), of "nat m"] False show ?thesis
    by (auto simp: set_max_def)
qed (use assms(3) in \<open>simp add: set_max_def\<close>)

lemma bitset_ok_bound:
  assumes "bitset_ok bs" and "n \<in> bs_set bs"
  shows "int n \<le> bs_max_value bs" and "int n \<le> INT_MAX"
  using words_set_bound [of n "bs_bits bs"] assms set_max_bound [OF finite_bs_set, of n bs]
  by (auto simp: bitset_ok_def bs_set_def INT_MAX_def)

lemma bitset_ok_max:
  assumes "bitset_ok bs" and "0 \<le> bs_max_value bs"
  shows "nat (bs_max_value bs) \<in> bs_set bs"
  using assms set_max_in [OF finite_bs_set, of bs] by (simp add: bitset_ok_def)

lemma bitset_ok_length:
  assumes "bitset_ok bs" and "int n \<le> bs_max_value bs"
  shows "n div 32 < length (bs_bits bs)"
proof -
  have "nat (bs_max_value bs) div 32 < length (bs_bits bs)"
    using bitset_ok_max [OF assms(1)] assms(2) by (simp add: bs_set_def in_words_set)
  moreover have "n div 32 \<le> nat (bs_max_value bs) div 32"
    using assms(2) by (intro div_le_mono) simp
  ultimately show ?thesis
    by simp
qed

lemma isset_iff:
  assumes "bitset_ok bs"
  shows "bitset_isset bs n = Inr (n \<in> bs_set bs)"
  using bitset_ok_bound [OF assms, of n] bitset_ok_length [OF assms, of n]
  by (auto simp: bitset_isset_def Let_def offset_eq and_exp_eq_0_iff_not_bit bs_set_def in_words_set)

section \<open>The greatest member\<close>

lemma find_rev_upt:
  "find P (rev [0..<n]) = None \<longleftrightarrow> (\<forall>i<n. \<not> P i)"
  "find P (rev [0..<n]) = Some b \<longleftrightarrow> b < n \<and> P b \<and> (\<forall>i. b < i \<and> i < n \<longrightarrow> \<not> P i)"
  by (induction n) (auto simp: less_Suc_eq)

lemma byte_mask:
  fixes w :: u32
  assumes "b < 4"
  shows "push_bit (b * 8) 0xff AND w \<noteq> 0 \<longleftrightarrow> (\<exists>i<8. bit w (i + b * 8))"
proof -
  have ff: "(0xff :: u32) = mask 8"
    by (simp add: mask_eq_exp_minus_1)
  have "push_bit (b * 8) 0xff AND w \<noteq> 0 \<longleftrightarrow> (\<exists>k<32. b * 8 \<le> k \<and> k - b * 8 < 8 \<and> bit w k)"
    unfolding ff by (auto simp: bit_eq_iff bit_simps)
  also have "\<dots> \<longleftrightarrow> (\<exists>i<8. bit w (i + b * 8))"
  proof
    assume "\<exists>k<32. b * 8 \<le> k \<and> k - b * 8 < 8 \<and> bit w k"
    then obtain k where "b * 8 \<le> k" "k - b * 8 < 8" "bit w k"
      by blast
    then show "\<exists>i<8. bit w (i + b * 8)"
      by (intro exI [of _ "k - b * 8"]) simp
  next
    assume "\<exists>i<8. bit w (i + b * 8)"
    then obtain i where "i < 8" "bit w (i + b * 8)"
      by blast
    with assms show "\<exists>k<32. b * 8 \<le> k \<and> k - b * 8 < 8 \<and> bit w k"
      by (intro exI [of _ "i + b * 8"]) simp
  qed
  finally show ?thesis .
qed

lemma top_bit_of_word:
  fixes w :: u32
  assumes "w \<noteq> 0"
  shows "top_byte w * 8 + top_bit (top_byte w) w < 32"
    and "bit w (top_byte w * 8 + top_bit (top_byte w) w)"
    and "bit w i \<Longrightarrow> i \<le> top_byte w * 8 + top_bit (top_byte w) w"
proof -
  let ?P = "\<lambda>b. push_bit (b * 8) 0xff AND w \<noteq> 0"
  let ?Q = "\<lambda>i. push_bit (i + top_byte w * 8) 1 AND w \<noteq> 0"
  have lt32: "k < 32" if "bit w k" for k
    using bit_imp_le_length [OF that] by simp
  have split: "\<exists>j<8. bit w (j + k div 8 * 8)" if "bit w k" for k
    using that by (intro exI [of _ "k mod 8"]) simp
  obtain k where k: "bit w k"
    using assms by (auto simp: bit_eq_iff)
  then have "k div 8 < 4" and "?P (k div 8)"
    using lt32 [OF k] split [OF k] byte_mask [of "k div 8" w] by auto
  then obtain b where b: "find ?P (rev [0..<4]) = Some b"
    using find_rev_upt(1) [of ?P 4] by fastforce
  then have top: "top_byte w = b"
    by (simp add: top_byte_def)
  from b have "b < 4" and "?P b" and above: "\<And>i. b < i \<Longrightarrow> i < 4 \<Longrightarrow> \<not> ?P i"
    by (auto simp: find_rev_upt(2))
  with byte_mask obtain j where "j < 8" and "bit w (j + b * 8)"
    by blast
  then have "?Q j"
    by (auto simp: top and_exp_eq_0_iff_not_bit and.commute)
  with \<open>j < 8\<close> obtain i where i: "find ?Q (rev [0..<8]) = Some i"
    using find_rev_upt(1) [of ?Q 8] by fastforce
  then have tb: "top_bit (top_byte w) w = i"
    by (simp add: top_bit_def)
  from i have "i < 8" and "?Q i" and above_i: "\<And>j. i < j \<Longrightarrow> j < 8 \<Longrightarrow> \<not> ?Q j"
    by (auto simp: find_rev_upt(2))
  show "top_byte w * 8 + top_bit (top_byte w) w < 32"
    using \<open>b < 4\<close> \<open>i < 8\<close> by (simp add: tb) (simp add: top)
  show "bit w (top_byte w * 8 + top_bit (top_byte w) w)"
    using \<open>?Q i\<close> by (simp add: tb and_exp_eq_0_iff_not_bit and.commute add.commute)
  show "m \<le> top_byte w * 8 + top_bit (top_byte w) w" if m: "bit w m" for m
  proof (rule ccontr)
    assume "\<not> m \<le> top_byte w * 8 + top_bit (top_byte w) w"
    then have gt: "b * 8 + i < m"
      by (simp add: tb) (simp add: top)
    have "?P (m div 8)" and "m div 8 < 4"
      using lt32 [OF m] split [OF m] byte_mask [of "m div 8" w] by auto
    with above [of "m div 8"] have "m div 8 \<le> b"
      by force
    with gt have "i < m - b * 8" and "m - b * 8 < 8"
      by auto
    with above_i [of "m - b * 8"] m gt show False
      by (simp add: top and_exp_eq_0_iff_not_bit and.commute)
  qed
qed

lemma prv_set_max_result:
  assumes "block < length (bs_bits bs)" and "\<And>n. n \<in> bs_set bs \<Longrightarrow> n div 32 \<le> block"
  shows "prv_set_max block bs = Inr (bs\<lparr>bs_max_value := set_max (bs_set bs)\<rparr>)"
proof (cases "top_block (bs_bits bs) block")
  case None
  then have zero: "\<forall>i\<le>block. bs_bits bs ! i = 0"
    by (simp add: top_block_def find_rev_upt less_Suc_eq_le del: upt_Suc)
  have "bs_set bs = {}"
  proof (rule ccontr)
    assume "bs_set bs \<noteq> {}"
    then obtain n where "n \<in> bs_set bs"
      by blast
    with assms(2) [of n] zero show False
      by (simp add: bs_set_def in_words_set)
  qed
  with None assms(1) show ?thesis
    by (simp add: prv_set_max_def set_max_def)
next
  case (Some b)
  then have b: "b \<le> block" "bs_bits bs ! b \<noteq> 0" and zero: "\<And>i. b < i \<Longrightarrow> i \<le> block \<Longrightarrow> bs_bits bs ! i = 0"
    by (auto simp: top_block_def find_rev_upt less_Suc_eq_le simp del: upt_Suc)
  let ?w = "bs_bits bs ! b"
  obtain t where t_eq: "t = top_byte ?w * 8 + top_bit (top_byte ?w) ?w"
    by simp
  note t = top_bit_of_word [OF b(2), folded t_eq]
  have "set_max (bs_set bs) = int (b * 32 + t)"
  proof (rule set_max_eqI)
    have "(b * 32 + t) div 32 = b" and "(b * 32 + t) mod 32 = t"
      using t(1) by simp_all
    then show "int (b * 32 + t) = - 1 \<or> 0 \<le> int (b * 32 + t) \<and> nat (int (b * 32 + t)) \<in> bs_set bs"
      using t(2) b(1) assms(1) by (simp only: nat_int bs_set_def in_words_set) simp
  next
    fix n
    assume n: "n \<in> bs_set bs"
    then have "bit (bs_bits bs ! (n div 32)) (n mod 32)"
      by (simp add: bs_set_def in_words_set)
    moreover from this have "\<not> (b < n div 32)"
      using zero [of "n div 32"] assms(2) [OF n] by auto
    ultimately have "n div 32 < b \<or> n div 32 = b \<and> n mod 32 \<le> t"
      using t(3) [of "n mod 32"] by (cases "n div 32 = b") simp_all
    then have "n \<le> b * 32 + t"
      using div_mult_mod_eq [of n 32] mod_less_divisor [of 32 n] by (elim disjE conjE) linarith+
    then show "int n \<le> int (b * 32 + t)"
      by simp
  qed simp
  with Some assms(1) show ?thesis
    by (simp add: prv_set_max_def Let_def flip: t_eq) (simp add: t_eq)
qed

lemma bs_update [simp]: "bs\<lparr>bs_bits := ws\<rparr> = \<lparr>bs_bits = ws, bs_max_value = bs_max_value bs\<rparr>"
  by (cases bs) simp

lemma bs_set_record [simp]: "bs_set \<lparr>bs_bits = ws, bs_max_value = m\<rparr> = words_set ws"
  by (simp add: bs_set_def)

lemma prv_set_max_eq:
  assumes "block < length ws" and "\<And>n. n \<in> words_set ws \<Longrightarrow> n div 32 \<le> block"
  shows "prv_set_max block \<lparr>bs_bits = ws, bs_max_value = m\<rparr>
    = Inr \<lparr>bs_bits = ws, bs_max_value = set_max (words_set ws)\<rparr>"
  using prv_set_max_result [of block "\<lparr>bs_bits = ws, bs_max_value = m\<rparr>"] assms by simp

lemma set_max_ok:
  "bitset_ok \<lparr>bs_bits = ws, bs_max_value = m\<rparr> \<longleftrightarrow> length ws \<le> 2 ^ 26 \<and> m = set_max (words_set ws)"
  by (simp add: bitset_ok_def)

section \<open>The operations are those on sets\<close>

lemma replicate_words_set [simp]: "words_set (ws @ replicate k 0) = words_set ws"
proof (rule set_eqI)
  show "n \<in> words_set (ws @ replicate k 0) \<longleftrightarrow> n \<in> words_set ws" for n
    by (cases "n div 32 < length ws"; cases "n div 32 - length ws < k")
      (auto simp: in_words_set nth_append)
qed

lemma prv_ensure_Inr:
  assumes "prv_ensure n bs al = Inr (bs', al')" and "bitset_ok bs" and "int n \<le> INT_MAX"
  shows "bitset_ok bs'" and "bs_set bs' = bs_set bs" and "bs_max_value bs' = bs_max_value bs"
    and "n div 32 < length (bs_bits bs')"
  using assms by (auto simp: prv_ensure_def bitset_ok_def bs_set_def rbind_eq_Inr Let_def INT_MAX_def
      split: if_splits)

lemma prv_ensure_granted: "set al \<subseteq> {True} \<Longrightarrow> \<exists>bs' al'. prv_ensure n bs al = Inr (bs', al')"
  using alloc_all_granted [of al] by (auto simp: prv_ensure_def Let_def)

lemma set_word:
  assumes "n div 32 < length ws"
  shows "words_set (ws[n div 32 := ws ! (n div 32) OR 2 ^ (n mod 32)]) = insert n (words_set ws)"
proof (rule set_eqI)
  fix m
  have "m div 32 = n div 32 \<and> n mod 32 = m mod 32 \<longleftrightarrow> m = n"
    by (metis div_mult_mod_eq)
  with assms show "m \<in> words_set (ws[n div 32 := ws ! (n div 32) OR 2 ^ (n mod 32)]) \<longleftrightarrow>
      m \<in> insert n (words_set ws)"
    by (auto simp: in_words_set nth_list_update bit_simps)
qed

lemma clear_word:
  assumes "n div 32 < length ws"
  shows "words_set (ws[n div 32 := ws ! (n div 32) AND NOT (2 ^ (n mod 32))]) = words_set ws - {n}"
proof (rule set_eqI)
  fix m
  have "m div 32 = n div 32 \<and> n mod 32 = m mod 32 \<longleftrightarrow> m = n"
    by (metis div_mult_mod_eq)
  with assms show "m \<in> words_set (ws[n div 32 := ws ! (n div 32) AND NOT (2 ^ (n mod 32))]) \<longleftrightarrow>
      m \<in> words_set ws - {n}"
    by (auto simp: in_words_set nth_list_update bit_simps)
qed

lemma bitset_set_Inr:
  assumes "bitset_set n bs al = Inr (bs', al')" and "bitset_ok bs"
  shows "bitset_ok bs' \<and> bs_set bs' = insert n (bs_set bs)"
proof -
  from assms(1) obtain bs1 where n: "int n \<le> INT_MAX" and bs1: "prv_ensure n bs al = Inr (bs1, al')"
    and bs': "bs' = \<lparr>bs_bits = (bs_bits bs1)[n div 32 := bs_bits bs1 ! (n div 32) OR 2 ^ (n mod 32)],
      bs_max_value = (if bs_max_value bs1 < int n then int n else bs_max_value bs1)\<rparr>"
    by (auto simp: bitset_set_def rbind_eq_Inr Let_def offset_eq array_get_eq_Inr array_set_eq_Inr)
  note bs1 = prv_ensure_Inr [OF bs1 assms(2) n]
  have set': "bs_set bs' = insert n (bs_set bs)"
    using bs1(2,4) by (simp add: bs_set_def bs' set_word)
  have "set_max (insert n (bs_set bs)) = bs_max_value bs'"
  proof (rule set_max_eqI)
    show "int m \<le> bs_max_value bs'" if "m \<in> insert n (bs_set bs)" for m
      using that bs1(1-3) bitset_ok_bound(1) [OF bs1(1), of m] by (auto simp: bs')
    show "bs_max_value bs' = - 1 \<or> 0 \<le> bs_max_value bs' \<and> nat (bs_max_value bs') \<in> insert n (bs_set bs)"
      using bitset_ok_max [OF bs1(1)] bs1(2) by (auto simp: bs')
  qed simp
  with set' bs1(1) show ?thesis
    by (simp add: bitset_ok_def bs')
qed

lemma bitset_set_granted:
  assumes "int n \<le> INT_MAX" and "bitset_ok bs" and "set al \<subseteq> {True}"
  shows "\<exists>bs' al'. bitset_set n bs al = Inr (bs', al')"
proof -
  obtain bs1 al1 where bs1: "prv_ensure n bs al = Inr (bs1, al1)"
    using prv_ensure_granted [OF assms(3)] by blast
  from prv_ensure_Inr(4) [OF this assms(2,1)] bs1 assms(1) show ?thesis
    by (simp add: bitset_set_def Let_def)
qed

lemma bitset_clear_result:
  assumes "bitset_ok bs" and "bs_set bs \<noteq> {}"
  shows "\<exists>bs'. bitset_clear n bs = Inr bs' \<and> bitset_ok bs' \<and> bs_set bs' = bs_set bs - {n}"
proof (cases "bs_max_value bs < int n")
  case True
  moreover have "0 \<le> bs_max_value bs"
    using assms by (simp add: bitset_ok_def set_max_def)
  ultimately show ?thesis
    using assms(1) bitset_ok_bound(1) [OF assms(1), of n] by (auto simp: bitset_clear_def)
next
  case False
  with assms(1) have n: "n div 32 < length (bs_bits bs)"
    by (simp add: bitset_ok_length)
  let ?bs = "bs\<lparr>bs_bits := (bs_bits bs)[n div 32 := bs_bits bs ! (n div 32) AND NOT (2 ^ (n mod 32))]\<rparr>"
  have set': "bs_set ?bs = bs_set bs - {n}"
    using n by (simp add: bs_set_def clear_word)
  show ?thesis
  proof (cases "int n = bs_max_value bs")
    case True
    have "m div 32 \<le> n div 32" if "m \<in> bs_set ?bs" for m
      using that [unfolded set'] bitset_ok_bound(1) [OF assms(1), of m] True
      by (auto intro!: div_le_mono)
    with n have "prv_set_max (n div 32) ?bs = Inr (?bs\<lparr>bs_max_value := set_max (bs_set ?bs)\<rparr>)"
      by (intro prv_set_max_result) simp_all
    with True n set' assms(1) show ?thesis
      by (simp add: bitset_clear_def Let_def offset_eq bitset_ok_def)
  next
    case other: False
    have "set_max (bs_set bs - {n}) = bs_max_value bs"
      using bitset_ok_bound(1) [OF assms(1)] bitset_ok_max [OF assms(1)] other False
      by (intro set_max_eqI) auto
    with other False n set' assms(1) show ?thesis
      by (simp add: bitset_clear_def Let_def offset_eq bitset_ok_def)
  qed
qed

lemma combine_words_Inr:
  assumes "combine_words f limit xs ys = Inr zs"
  shows "limit \<le> length xs" and "limit \<le> length ys" and "length zs = length xs"
    and "\<And>i. i < limit \<Longrightarrow> zs ! i = f (xs ! i) (ys ! i)"
    and "\<And>i. limit \<le> i \<Longrightarrow> i < length xs \<Longrightarrow> zs ! i = xs ! i"
  using assms by (auto simp: combine_words_def nth_append split: if_splits)

lemma combine_words_fits:
  "limit \<le> length xs \<Longrightarrow> limit \<le> length ys \<Longrightarrow> \<exists>zs. combine_words f limit xs ys = Inr zs"
  by (simp add: combine_words_def)

lemma limit_fits:
  assumes "bitset_ok bs" and "0 \<le> m" and "m \<le> bs_max_value bs"
  shows "nat m div 32 < length (bs_bits bs)"
  using bitset_ok_length [OF assms(1), of "nat m"] assms(2,3) by simp

lemma min_limit:
  assumes "bitset_ok bs" and "bitset_ok bs1" and "0 \<le> bs_max_value bs" and "0 \<le> bs_max_value bs1"
    and "nat (min (bs_max_value bs) (bs_max_value bs1)) div 32 = k"
  shows "k < length (bs_bits bs)" and "k < length (bs_bits bs1)"
    and "n \<in> bs_set bs \<Longrightarrow> n \<in> bs_set bs1 \<Longrightarrow> n div 32 \<le> k"
proof -
  let ?m = "min (bs_max_value bs) (bs_max_value bs1)"
  have m: "0 \<le> ?m" "?m \<le> bs_max_value bs" "?m \<le> bs_max_value bs1"
    using assms(3,4) by auto
  from limit_fits [OF assms(1) m(1,2)] limit_fits [OF assms(2) m(1,3)] assms(5)
  show "k < length (bs_bits bs)" and "k < length (bs_bits bs1)"
    by simp_all
  show "n div 32 \<le> k" if "n \<in> bs_set bs" "n \<in> bs_set bs1"
  proof -
    have "n \<le> nat ?m"
      using bitset_ok_bound(1) [OF assms(1) that(1)] bitset_ok_bound(1) [OF assms(2) that(2)] by simp
    then have "n div 32 \<le> nat ?m div 32"
      by (rule div_le_mono)
    with assms(5) show ?thesis
      by simp
  qed
qed

lemma empty_iff:
  assumes "bitset_ok bs"
  shows "bs_set bs = {} \<longleftrightarrow> bs_max_value bs < 0" and "bs_set bs = {} \<longleftrightarrow> bs_max_value bs = - 1"
  using assms by (simp_all add: bitset_ok_def set_max_def)

lemma word_above_max:
  assumes "bitset_ok bs" and "n \<in> bs_set bs"
  shows "n div 32 \<le> nat (bs_max_value bs) div 32"
  using bitset_ok_bound(1) [OF assms] by (intro div_le_mono) simp

lemma bitset_or_result:
  assumes "bitset_or bs bs1 al = Inr (bs', al')" and "bitset_ok bs" and "bitset_ok bs1"
  shows "bitset_ok bs' \<and> bs_set bs' = bs_set bs \<union> bs_set bs1"
proof (cases "bs_max_value bs1 < 0")
  case True
  then have "bs_set bs1 = {}"
    using bitset_ok_bound(1) [OF assms(3)] by fastforce
  with True assms(1,2) show ?thesis
    by (simp add: bitset_or_def)
next
  case False
  let ?m = "nat (bs_max_value bs1)"
  from False assms(1) obtain bs2 ws where bs2: "prv_ensure ?m bs al = Inr (bs2, al')"
    and ws: "combine_words (OR) (?m div 32 + 1) (bs_bits bs2) (bs_bits bs1) = Inr ws"
    and bs': "bs' = \<lparr>bs_bits = ws, bs_max_value = max (bs_max_value bs2) (bs_max_value bs1)\<rparr>"
    by (auto simp: bitset_or_def rbind_eq_Inr)
  have "int ?m \<le> INT_MAX"
    using bitset_ok_bound(2) [OF assms(3) bitset_ok_max [OF assms(3)]] False by simp
  note bs2 = prv_ensure_Inr [OF bs2 assms(2) this]
  note ws = combine_words_Inr [OF ws]
  have set': "bs_set bs' = bs_set bs2 \<union> bs_set bs1"
  proof (rule set_eqI)
    fix n
    show "n \<in> bs_set bs' \<longleftrightarrow> n \<in> bs_set bs2 \<union> bs_set bs1"
      using word_above_max [OF assms(3), of n] ws
      by (cases "n div 32 < ?m div 32 + 1") (auto simp: bs' bs_set_def in_words_set bit_simps)
  qed
  have "set_max (bs_set bs2 \<union> bs_set bs1) = bs_max_value bs'"
    using bitset_ok_bound(1) [OF bs2(1)] bitset_ok_bound(1) [OF assms(3)]
      bitset_ok_max [OF bs2(1)] bitset_ok_max [OF assms(3)] False
    by (intro set_max_eqI) (fastforce simp: bs' max_def)+
  with set' bs2 ws(3) show ?thesis
    by (simp add: bitset_ok_def bs')
qed

lemma words_set_zero [simp]: "words_set (map (\<lambda>_. 0) ws) = {}"
  by (auto simp: words_set_def)

lemma bitset_and_result:
  assumes "bitset_ok bs" and "bitset_ok bs1"
  shows "\<exists>bs'. bitset_and bs bs1 = Inr bs' \<and> bitset_ok bs' \<and> bs_set bs' = bs_set bs \<inter> bs_set bs1"
proof -
  consider "bs_max_value bs < 0" | "0 \<le> bs_max_value bs" "bs_max_value bs1 < 0"
    | "0 \<le> bs_max_value bs" "0 \<le> bs_max_value bs1"
    by linarith
  then show ?thesis
  proof cases
    case 1
    with assms(1) show ?thesis
      by (simp add: bitset_and_def flip: empty_iff)
  next
    case 2
    then have "bs_set bs1 = {}" and "bs_max_value bs1 = - 1"
      using empty_iff [OF assms(2)] by simp_all
    with 2 assms(1) show ?thesis
      by (simp add: bitset_and_def combine_words_def Let_def set_max_ok) (simp add: bitset_ok_def set_max_def)
  next
    case 3
    obtain k where k: "nat (min (bs_max_value bs) (bs_max_value bs1)) div 32 = k"
      by simp
    note lim = min_limit [OF assms 3 k]
    obtain ws where ws: "combine_words (AND) (Suc k) (bs_bits bs) (bs_bits bs1) = Inr ws"
      using combine_words_fits [of "Suc k"] lim(1,2) by fastforce
    note ws' = combine_words_Inr [OF ws]
    let ?zs = "take (Suc k) ws @ map (\<lambda>_. 0) (drop (Suc k) ws)"
    have set': "words_set ?zs = bs_set bs \<inter> bs_set bs1"
    proof (rule set_eqI)
      fix n
      show "n \<in> words_set ?zs \<longleftrightarrow> n \<in> bs_set bs \<inter> bs_set bs1"
        using lim(3) [of n] ws' lim(1,2)
        by (cases "n div 32 < Suc k") (auto simp: bs_set_def in_words_set nth_append bit_simps)
    qed
    have len: "length ?zs \<le> 2 ^ 26"
      using assms(1) ws'(3) lim(1) by (auto simp: bitset_ok_def)
    have "bitset_and bs bs1 = prv_set_max k \<lparr>bs_bits = ?zs, bs_max_value = min (bs_max_value bs) (bs_max_value bs1)\<rparr>"
      using 3 ws by (simp add: bitset_and_def Let_def k)
    also have "\<dots> = Inr \<lparr>bs_bits = ?zs, bs_max_value = set_max (words_set ?zs)\<rparr>"
      using lim ws'(3) by (intro prv_set_max_eq) (auto simp: set')
    finally show ?thesis
      using len set' by (simp add: set_max_ok del: length_append)
  qed
qed

lemma bitset_sub_result:
  assumes "bitset_ok bs" and "bitset_ok bs1"
  shows "\<exists>bs'. bitset_sub bs bs1 = Inr bs' \<and> bitset_ok bs' \<and> bs_set bs' = bs_set bs - bs_set bs1"
proof -
  consider "bs_max_value bs < 0 \<or> bs_max_value bs1 < 0" | "0 \<le> bs_max_value bs" "0 \<le> bs_max_value bs1"
    by linarith
  then show ?thesis
  proof cases
    case 1
    then have "bs_set bs = {} \<or> bs_set bs1 = {}"
      using assms by (simp add: empty_iff)
    with 1 assms(1) show ?thesis
      by (auto simp: bitset_sub_def Let_def)
  next
    case 2
    obtain k where k: "nat (min (bs_max_value bs) (bs_max_value bs1)) div 32 = k"
      by simp
    note lim = min_limit [OF assms 2 k]
    obtain ws where ws: "combine_words (\<lambda>x y. x AND NOT y) (Suc k) (bs_bits bs) (bs_bits bs1) = Inr ws"
      using combine_words_fits [of "Suc k"] lim(1,2) by fastforce
    note ws' = combine_words_Inr [OF ws]
    have set': "words_set ws = bs_set bs - bs_set bs1"
    proof (rule set_eqI)
      fix n
      show "n \<in> words_set ws \<longleftrightarrow> n \<in> bs_set bs - bs_set bs1"
        using lim(3) [of n] ws' lim(1,2)
        by (cases "n div 32 < Suc k") (auto simp: bs_set_def in_words_set bit_simps)
    qed
    have len: "length ws \<le> 2 ^ 26"
      using assms(1) ws'(3) by (simp add: bitset_ok_def)
    show ?thesis
    proof (cases "bs_max_value bs \<le> bs_max_value bs1")
      case True
      then have "bitset_sub bs bs1 = prv_set_max k \<lparr>bs_bits = ws, bs_max_value = bs_max_value bs\<rparr>"
        using 2 ws k by (simp add: bitset_sub_def Let_def min_def)
      also have "\<dots> = Inr \<lparr>bs_bits = ws, bs_max_value = set_max (words_set ws)\<rparr>"
        using lim ws'(3) word_above_max [OF assms(1)] True k
        by (intro prv_set_max_eq) (auto simp: set' min_def)
      finally show ?thesis
        using len set' by (simp add: set_max_ok)
    next
      case False
      then have "bitset_sub bs bs1 = Inr \<lparr>bs_bits = ws, bs_max_value = bs_max_value bs\<rparr>"
        using 2 ws k by (simp add: bitset_sub_def Let_def)
      moreover have "set_max (bs_set bs - bs_set bs1) = bs_max_value bs"
        using bitset_ok_bound(1) [OF assms(1)] bitset_ok_max [OF assms(1) 2(1)] False 2
          bitset_ok_bound(1) [OF assms(2), of "nat (bs_max_value bs)"]
        by (intro set_max_eqI) auto
      ultimately show ?thesis
        using len set' by (simp add: set_max_ok)
    qed
  qed
qed

text \<open>The complement is taken below the greatest member, which is itself removed.\<close>

lemma complement_words:
  assumes "bitset_ok bs" and "bs_max_value bs = int m" and "k = m div 32"
    and ws: "ws = map NOT (take k (bs_bits bs)) @ [NOT (bs_bits bs ! k) AND mask (m mod 32)]
      @ drop (Suc k) (bs_bits bs)"
  shows "words_set ws = {n. n < m} - bs_set bs"
proof (rule set_eqI)
  fix n
  have k: "k < length (bs_bits bs)"
    using limit_fits [OF assms(1), of "int m"] assms(2,3) by simp
  then have nth: "ws ! i = (if i < k then NOT (bs_bits bs ! i)
      else if i = k then NOT (bs_bits bs ! k) AND mask (m mod 32) else bs_bits bs ! i)"
    if "i < length (bs_bits bs)" for i
    using that by (auto simp: ws nth_append nth_Cons' Suc_diff_Suc)
  have len: "length ws = length (bs_bits bs)"
    using k by (simp add: ws)
  have lt: "n < m \<longleftrightarrow> n div 32 < k \<or> n div 32 = k \<and> n mod 32 < m mod 32"
    using div_mult_mod_eq [of n 32] div_mult_mod_eq [of m 32] mod_less_divisor [of 32 n]
      mod_less_divisor [of 32 m] assms(3) by linarith
  have above: "n \<in> bs_set bs \<Longrightarrow> n div 32 \<le> k"
    using word_above_max [OF assms(1), of n] assms(2,3) by simp
  show "n \<in> words_set ws \<longleftrightarrow> n \<in> {n. n < m} - bs_set bs"
    using above k lt nth [of "n div 32"]
    by (auto simp: in_words_set bs_set_def len bit_simps split: if_splits)
qed

lemma bitset_not_result:
  assumes "bitset_ok bs"
  shows "\<exists>bs'. bitset_not bs = Inr bs' \<and> bitset_ok bs'
    \<and> bs_set bs' = {n. int n < bs_max_value bs} - bs_set bs"
proof (cases "bs_max_value bs < 0")
  case True
  then have "{n. int n < bs_max_value bs} = {}"
    by auto
  with True assms show ?thesis
    by (simp add: bitset_not_def flip: empty_iff)
next
  case False
  obtain m where m: "bs_max_value bs = int m"
    using False nonneg_int_cases [of "bs_max_value bs"] by auto
  obtain k where k: "k = m div 32"
    by simp
  note set' = complement_words [OF assms m k refl]
  let ?ws = "map NOT (take k (bs_bits bs)) @ [NOT (bs_bits bs ! k) AND mask (m mod 32)]
    @ drop (Suc k) (bs_bits bs)"
  have len: "k < length (bs_bits bs)"
    using limit_fits [OF assms, of "int m"] m k by simp
  have mask: "(push_bit (m mod 32) 1 - 1 :: u32) = mask (m mod 32)"
    by (simp add: mask_eq_exp_minus_1)
  have "bitset_not bs = prv_set_max k \<lparr>bs_bits = ?ws, bs_max_value = bs_max_value bs\<rparr>"
    using len k m by (simp add: bitset_not_def Let_def offset_eq mask del: push_bit_of_1)
  also have "\<dots> = Inr \<lparr>bs_bits = ?ws, bs_max_value = set_max (words_set ?ws)\<rparr>"
  proof (rule prv_set_max_eq)
    show "n div 32 \<le> k" if "n \<in> words_set ?ws" for n
      using that [unfolded set'] by (auto simp: k intro: div_le_mono)
  qed (use len in simp)
  finally have eq: "bitset_not bs = Inr \<lparr>bs_bits = ?ws, bs_max_value = set_max (words_set ?ws)\<rparr>" .
  have "length ?ws = length (bs_bits bs)"
    using len by simp
  with assms have "bitset_ok \<lparr>bs_bits = ?ws, bs_max_value = set_max (words_set ?ws)\<rparr>"
    unfolding set_max_ok by (simp only: bitset_ok_def)
  with eq set' m show ?thesis
    by (intro exI conjI) (assumption, assumption, simp)
qed

lemma bitset_or_granted:
  assumes "bitset_ok bs" and "bitset_ok bs1" and "set al \<subseteq> {True}"
  shows "\<exists>bs' al'. bitset_or bs bs1 al = Inr (bs', al') \<and> bitset_ok bs' \<and> bs_set bs' = bs_set bs \<union> bs_set bs1"
proof -
  have "\<exists>bs' al'. bitset_or bs bs1 al = Inr (bs', al')"
  proof (cases "bs_max_value bs1 < 0")
    case False
    let ?m = "nat (bs_max_value bs1)"
    obtain bs2 al2 where bs2: "prv_ensure ?m bs al = Inr (bs2, al2)"
      using prv_ensure_granted [OF assms(3)] by blast
    have "int ?m \<le> INT_MAX"
      using bitset_ok_bound(2) [OF assms(2) bitset_ok_max [OF assms(2)]] False by simp
    note fits = prv_ensure_Inr(4) [OF bs2 assms(1) this]
    moreover have "?m div 32 < length (bs_bits bs1)"
      using limit_fits [OF assms(2), of "bs_max_value bs1"] False by simp
    ultimately obtain ws where "combine_words (OR) (?m div 32 + 1) (bs_bits bs2) (bs_bits bs1) = Inr ws"
      using combine_words_fits [of "?m div 32 + 1"] by fastforce
    with bs2 False show ?thesis
      by (simp add: bitset_or_def)
  qed (simp add: bitset_or_def)
  with bitset_or_result [OF _ assms(1,2)] show ?thesis
    by blast
qed

lemma bitset_init_ok [simp]: "bitset_ok bitset_init" and bitset_init_set [simp]: "bs_set bitset_init = {}"
  by (simp_all add: bitset_init_def set_max_ok set_max_def words_set_def)

lemma bitset_reset_ok [simp]:
  "bitset_ok bs \<Longrightarrow> bitset_ok (bitset_reset bs)" "bs_set (bitset_reset bs) = {}"
  by (simp_all add: bitset_reset_def set_max_ok set_max_def bitset_ok_def)

lemma each_filter: "each (\<lambda>i vs. Inr (if P i then vs @ [i] else vs)) xs ys = Inr (ys @ filter P xs)"
  by (induction xs arbitrary: ys) simp_all

lemma each_count: "each (\<lambda>i n. Inr (if P i then n + 1 else n)) xs (k :: nat) = Inr (k + length (filter P xs))"
  by (induction xs arbitrary: k) simp_all

lemma members_below_max:
  assumes "bitset_ok bs"
  shows "filter (\<lambda>i. i \<in> bs_set bs) [0..<nat (bs_max_value bs + 1)] = sorted_list_of_set (bs_set bs)"
proof (rule sorted_distinct_set_unique)
  show "set (filter (\<lambda>i. i \<in> bs_set bs) [0..<nat (bs_max_value bs + 1)]) = set (sorted_list_of_set (bs_set bs))"
    using bitset_ok_bound(1) [OF assms] by fastforce
qed (simp_all add: sorted_wrt_filter)

lemma bitset_count_card:
  assumes "bitset_ok bs"
  shows "bitset_count bs = Inr (card (bs_set bs))"
  using members_below_max [OF assms]
  by (simp add: bitset_count_def isset_iff [OF assms] each_count)

lemma bitset_values_sorted:
  assumes "bitset_ok bs" and "bitset_values bs al = Inr (vs, al')"
  shows "vs = sorted_list_of_set (bs_set bs)"
  using assms(2) members_below_max [OF assms(1)]
  by (auto simp: bitset_values_def bitset_values_upto_def bitset_count_card [OF assms(1)]
      isset_iff [OF assms(1)] each_filter rbind_eq_Inr split: if_splits)

lemma bitset_values_granted:
  assumes "bitset_ok bs" and "set al \<subseteq> {True}"
  shows "\<exists>al'. bitset_values bs al = Inr (sorted_list_of_set (bs_set bs), al')"
  using alloc_all_granted [OF assms(2)] members_below_max [OF assms(1)]
  by (auto simp: bitset_values_def bitset_values_upto_def bitset_count_card [OF assms(1)]
      isset_iff [OF assms(1)] each_filter)

section \<open>The interface of a store of numbers\<close>

text \<open>
  What the clients of a bit set rely on: a store, possibly with a budget of memory, that starts
  empty, to which numbers are added and which tells its members.
\<close>

locale number_store =
  fixes empty :: 's and add :: "nat \<Rightarrow> 's \<times> 'm \<Rightarrow> 'e + 's \<times> 'm" and isset :: "'s \<Rightarrow> nat \<Rightarrow> 'e + bool"
    and members :: "'s \<Rightarrow> nat set" and ok :: "'s \<Rightarrow> bool" and budget :: "'m \<Rightarrow> bool" and limit :: nat
  assumes empty_ok: "ok empty" and empty_members: "members empty = {}"
    and add_members: "add n (s, m) = Inr (s', m') \<Longrightarrow> ok s \<Longrightarrow> ok s' \<and> members s' = insert n (members s)"
    and add_granted: "n \<le> limit \<Longrightarrow> ok s \<Longrightarrow> budget m \<Longrightarrow> \<exists>s' m'. add n (s, m) = Inr (s', m') \<and> budget m'"
    and isset_members: "ok s \<Longrightarrow> isset s n = Inr (n \<in> members s)"
begin

lemma add_all:
  assumes "each add ns (s, m) = Inr (s', m')" and "ok s"
  shows "ok s' \<and> members s' = members s \<union> set ns"
  using assms
proof (induction ns arbitrary: s m)
  case (Cons n ns)
  then obtain s1 m1 where "add n (s, m) = Inr (s1, m1)" and "each add ns (s1, m1) = Inr (s', m')"
    by (auto simp: rbind_eq_Inr)
  with Cons add_members [of n s m s1 m1] show ?case
    by auto
qed simp

lemma add_all_granted:
  assumes "\<forall>n\<in>set ns. n \<le> limit" and "budget m"
  shows "\<exists>s' m'. each add ns (empty, m) = Inr (s', m') \<and> ok s' \<and> budget m' \<and> members s' = set ns"
proof -
  have "\<exists>sm. each add ns (empty, m) = Inr sm \<and> ok (fst sm) \<and> budget (snd sm)"
    using assms empty_ok
  proof (induction ns arbitrary: rule: rev_induct)
    case (snoc n ns)
    then obtain s1 m1 where "each add ns (empty, m) = Inr (s1, m1)" and 1: "ok s1" "budget m1"
      by auto
    moreover from snoc.prems 1 obtain s2 m2 where "add n (s1, m1) = Inr (s2, m2)" and "budget m2"
      using add_granted by fastforce
    ultimately show ?case
      using add_members [of n s1 m1 s2 m2] by (simp add: each_append)
  qed simp
  with add_all [OF _ empty_ok, of ns m] empty_members show ?thesis
    by fastforce
qed

lemma isset_after_adding:
  assumes "each add ns (empty, m) = Inr (s, m')"
  shows "isset s n = Inr (n \<in> set ns)"
  using add_all [OF assms empty_ok] by (simp add: isset_members empty_members)

end

definition bitset_add :: "nat \<Rightarrow> bitset \<times> allocs \<Rightarrow> (bitset \<times> allocs) c_result" where
  "bitset_add n = (\<lambda>(bs, al). bitset_set n bs al)"

interpretation bitsets: number_store bitset_init bitset_add bitset_isset bs_set bitset_ok
  "\<lambda>al. set al \<subseteq> {True}" "2 ^ 31 - 1"
proof (unfold_locales, goal_cases)
  case (3 n s m s' m')
  then show ?case
    by (simp add: bitset_add_def bitset_set_Inr)
next
  case (4 n s m)
  then have "int n \<le> INT_MAX"
    by (simp add: INT_MAX_def)
  from bitset_set_granted [OF this 4(2,3)] obtain s' m' where s': "bitset_set n s m = Inr (s', m')"
    by blast
  moreover have "set m' \<subseteq> set m"
    using s' alloc_Inr_set by (auto simp: bitset_set_def prv_ensure_def rbind_eq_Inr Let_def split: if_splits)
  ultimately show ?case
    using 4(3) by (auto simp: bitset_add_def)
qed (simp_all add: isset_iff)

section \<open>Properties\<close>

text \<open>
  In an empty set every number passes the test against \<^verbatim>\<open>max_value\<close>, and the word of the number is cleared, which
  exists only if the array once was large enough.
\<close>

lemma bitset_clear_empty:
  assumes "bitset_ok bs" and "bs_set bs = {}"
  shows "bitset_clear n bs = (if n div 32 < length (bs_bits bs) then Inr (bs\<lparr>bs_bits := (bs_bits bs)[n div 32 := 0]\<rparr>) else Inl Undefined)"
proof -
  have max: "bs_max_value bs = - 1"
    using assms by (simp add: bitset_ok_def set_max_def)
  have "bs_bits bs ! k = 0" if "k < length (bs_bits bs)" for k
  proof (rule bit_word_eqI)
    fix i
    assume "i < LENGTH(32)"
    then have "32 * k + i \<in> words_set (bs_bits bs) \<longleftrightarrow> bit (bs_bits bs ! k) i"
      using that by (simp add: in_words_set)
    then show "bit (bs_bits bs ! k) i \<longleftrightarrow> bit (0 :: u32) i"
      using assms(2) by (simp add: bs_set_def)
  qed
  with max show ?thesis
    by (simp add: bitset_clear_def Let_def)
qed

lemma bitset_clear_empty_result:
  assumes "bitset_ok bs" and "bs_set bs = {}" and "n div 32 < length (bs_bits bs)"
  shows "\<exists>r. bitset_clear n bs = Inr r \<and> bitset_ok r \<and> bs_set r = bs_set bs - {n}"
proof -
  have "words_set ((bs_bits bs)[n div 32 := 0]) \<subseteq> words_set (bs_bits bs)"
    using assms(3) by (auto simp: in_words_set nth_list_update bit_simps split: if_splits)
  then have "words_set ((bs_bits bs)[n div 32 := 0]) = {}"
    using assms(2) by (simp add: bs_set_def)
  with assms show ?thesis
    by (simp add: bitset_clear_empty [OF assms(1,2)] bitset_ok_def bs_set_def)
qed

text \<open>
  C20: on well-formed bit sets, with memory granted, the operations of bitset.c compute what they stand for: adding a
  number up to \<^verbatim>\<open>INT_MAX\<close>, greater ones being refused, the test for a member, the number of members, the list of
  members, emptying, intersection, union, difference, the complement below the greatest member, and the removal of a
  number. They keep the bit set well formed, its \<^verbatim>\<open>max_value\<close> in particular, and none
  of them reads or writes outside the arrays, except that removing a number from an empty set does so when the array
  has no word for the number.
\<close>

theorem bitset_refines_sets:
  assumes "bitset_ok bs" and "bitset_ok bs1" and "set al \<subseteq> {True}"
  shows "(\<exists>r. bitset_and bs bs1 = Inr r \<and> bitset_ok r \<and> bs_set r = bs_set bs \<inter> bs_set bs1)
    \<and> (\<exists>r al'. bitset_or bs bs1 al = Inr (r, al') \<and> bitset_ok r \<and> bs_set r = bs_set bs \<union> bs_set bs1)
    \<and> (\<exists>r. bitset_sub bs bs1 = Inr r \<and> bitset_ok r \<and> bs_set r = bs_set bs - bs_set bs1)
    \<and> (\<exists>r. bitset_not bs = Inr r \<and> bitset_ok r
        \<and> bs_set r = {n. int n < bs_max_value bs} - bs_set bs)
    \<and> (if bs_set bs = {} \<and> length (bs_bits bs) \<le> n div 32 then bitset_clear n bs = Inl Undefined
        else \<exists>r. bitset_clear n bs = Inr r \<and> bitset_ok r \<and> bs_set r = bs_set bs - {n})
    \<and> (if int n \<le> INT_MAX then \<exists>r al'. bitset_set n bs al = Inr (r, al') \<and> bitset_ok r \<and> bs_set r = insert n (bs_set bs)
        else bitset_set n bs al = Inl assertion_failed)
    \<and> bitset_isset bs n = Inr (n \<in> bs_set bs)
    \<and> bitset_count bs = Inr (card (bs_set bs))
    \<and> (\<exists>al'. bitset_values bs al = Inr (sorted_list_of_set (bs_set bs), al'))
    \<and> bitset_ok (bitset_reset bs) \<and> bs_set (bitset_reset bs) = {}"
proof -
  have clear: "if bs_set bs = {} \<and> length (bs_bits bs) \<le> n div 32 then bitset_clear n bs = Inl Undefined
      else \<exists>r. bitset_clear n bs = Inr r \<and> bitset_ok r \<and> bs_set r = bs_set bs - {n}"
    using bitset_clear_empty [OF assms(1), of n] bitset_clear_empty_result [OF assms(1), of n]
      bitset_clear_result [OF assms(1), of n] by (simp only: not_le split: if_split) (cases "bs_set bs = {}"; simp)
  have add: "if int n \<le> INT_MAX
      then \<exists>r al'. bitset_set n bs al = Inr (r, al') \<and> bitset_ok r \<and> bs_set r = insert n (bs_set bs)
      else bitset_set n bs al = Inl assertion_failed"
  proof (cases "int n \<le> INT_MAX")
    case True
    with bitset_set_granted [OF True assms(1,3)] bitset_set_Inr [OF _ assms(1), of n al] show ?thesis
      by (simp only: if_True) blast
  qed (simp add: bitset_set_def)
  show ?thesis
    by (intro conjI bitset_and_result bitset_or_granted bitset_sub_result bitset_not_result clear add isset_iff
        bitset_count_card bitset_values_granted bitset_reset_ok assms)
qed

theorem bitset_refines_sets_witness:
  "\<exists>bs bs1 r al al1. each bitset_add [0, 2] (bitset_init, []) = Inr (bs, al)
    \<and> each bitset_add [1, 2] (bitset_init, []) = Inr (bs1, al1)
    \<and> bitset_sub bs bs1 = Inr r \<and> bs_set r = {0}"
proof -
  obtain bs al where bs: "each bitset_add [0, 2] (bitset_init, []) = Inr (bs, al)"
      "bitset_ok bs" "bs_set bs = {0, 2}"
    using bitsets.add_all_granted [of "[0, 2]" "[]"] by auto
  moreover obtain bs1 al1 where bs1: "each bitset_add [1, 2] (bitset_init, []) = Inr (bs1, al1)"
      "bitset_ok bs1" "bs_set bs1 = {1, 2}"
    using bitsets.add_all_granted [of "[1, 2]" "[]"] by auto
  moreover obtain r where "bitset_sub bs bs1 = Inr r" and "bs_set r = bs_set bs - bs_set bs1"
    using bitset_refines_sets [OF bs(2) bs1(2), of "[]" 0] by auto
  moreover have "{0, 2} - {1, 2} = {0 :: nat}"
    by auto
  ultimately show ?thesis
    by metis
qed

text \<open>
  C21: when memory is granted, adding any numbers below \<^verbatim>\<open>INT_MAX\<close> to an empty bit set and asking for
  its values gives the numbers sorted and without repetition, and \<^verbatim>\<open>subtilis_bitset_isset\<close> is membership.
\<close>

theorem bitset_values_of_list:
  assumes "\<forall>n\<in>set ns. n \<le> 2 ^ 31 - 1" and "set al \<subseteq> {True}"
  shows "\<exists>bs al' al''. each bitset_add ns (bitset_init, al) = Inr (bs, al')
    \<and> bitset_values bs al' = Inr (sorted_list_of_set (set ns), al'')
    \<and> bitset_isset bs n = Inr (n \<in> set ns)"
proof -
  from bitsets.add_all_granted [OF assms] obtain bs al' where
    bs: "each bitset_add ns (bitset_init, al) = Inr (bs, al')" "bitset_ok bs" "set al' \<subseteq> {True}" "bs_set bs = set ns"
    by blast
  with bitset_values_granted [OF bs(2,3)] bitsets.isset_after_adding [OF bs(1), of n] show ?thesis
    by auto
qed

theorem bitset_values_of_list_witness:
  "\<exists>bs al' al''. each bitset_add [40, 3, 40] (bitset_init, []) = Inr (bs, al')
    \<and> bitset_values bs al' = Inr ([3, 40], al'') \<and> bitset_isset bs 40 = Inr True"
  using bitset_values_of_list [of "[40, 3, 40]" "[]" 40] by (simp add: insert_commute)

text \<open>
  Removing a number from a bit set to which nothing has been added is an access through a null
  pointer: \<^verbatim>\<open>bit > bs->max_value\<close> compares with \<open>-1\<close> as a \<^verbatim>\<open>size_t\<close>.
\<close>

lemma bitset_clear_fresh: "bitset_clear n bitset_init = Inl Undefined"
  by (simp add: bitset_clear_def bitset_init_def Let_def)

end
