(* ===== verification/Arm_Core.thy ===== *)
theory Arm_Core
  imports Subtilis_Prelude
begin

text \<open>
  The instruction data model of the ARM backend (arch/arm32/arm_core.h). The C structure is a type
  tag with a union of operand structures; the tag selects the member that the walker of
  arm_walker.c hands to a callback. Here the tag and its operands form one datatype \<open>arm_instr\<close>,
  with one constructor per operand structure that is reached through the walker; the tags that
  share a structure form a small enumeration. The enumerations keep the order of the C \<^verbatim>\<open>enum\<close>.
\<close>

section \<open>Registers, conditions and second operands\<close>

type_synonym arm_reg = u64

datatype ccode = CC_EQ | CC_NE | CC_CS | CC_CC | CC_MI | CC_PL | CC_VS | CC_VC
  | CC_HI | CC_LS | CC_GE | CC_LT | CC_GT | CC_LE | CC_AL | CC_NV

fun ccode_num :: "ccode \<Rightarrow> u32" where
  "ccode_num CC_EQ = 0" | "ccode_num CC_NE = 1" | "ccode_num CC_CS = 2" | "ccode_num CC_CC = 3"
| "ccode_num CC_MI = 4" | "ccode_num CC_PL = 5" | "ccode_num CC_VS = 6" | "ccode_num CC_VC = 7"
| "ccode_num CC_HI = 8" | "ccode_num CC_LS = 9" | "ccode_num CC_GE = 10" | "ccode_num CC_LT = 11"
| "ccode_num CC_GT = 12" | "ccode_num CC_LE = 13" | "ccode_num CC_AL = 14" | "ccode_num CC_NV = 15"

text \<open>The C cast of a four bit number to the enumeration.\<close>

definition ccode_of :: "u32 \<Rightarrow> ccode" where
  "ccode_of w = [CC_EQ, CC_NE, CC_CS, CC_CC, CC_MI, CC_PL, CC_VS, CC_VC,
                 CC_HI, CC_LS, CC_GE, CC_LT, CC_GT, CC_LE, CC_AL, CC_NV] ! unat w"

lemma ccode_of_num [simp]: "ccode_of (ccode_num c) = c"
  by (cases c) (simp_all add: ccode_of_def)

lemma ccode_num_less [simp]: "ccode_num c < 16"
  by (cases c) simp_all

datatype shift_type = SHIFT_LSL | SHIFT_ASL | SHIFT_LSR | SHIFT_ASR | SHIFT_ROR | SHIFT_RRX

text \<open>
  The union \<^verbatim>\<open>shift\<close> of \<^verbatim>\<open>subtilis_arm_shift_t\<close> with its flag \<^verbatim>\<open>shift_reg\<close>: an amount or a
  register.
\<close>

datatype shift_amount = Shift_integer u32 | Shift_reg arm_reg

record arm_shift =
  shift_of_reg :: arm_reg
  shift_kind :: shift_type
  shift_by :: shift_amount

datatype arm_op2 = OP2_REG arm_reg | OP2_I32 u32 | OP2_SHIFTED arm_shift

section \<open>Integer instructions\<close>

datatype data_type = INSTR_AND | INSTR_EOR | INSTR_SUB | INSTR_RSB | INSTR_ADD | INSTR_ADC
  | INSTR_SBC | INSTR_RSC | INSTR_TST | INSTR_TEQ | INSTR_CMP | INSTR_CMN | INSTR_ORR | INSTR_MOV
  | INSTR_BIC | INSTR_MVN

fun data_num :: "data_type \<Rightarrow> u32" where
  "data_num INSTR_AND = 0" | "data_num INSTR_EOR = 1" | "data_num INSTR_SUB = 2"
| "data_num INSTR_RSB = 3" | "data_num INSTR_ADD = 4" | "data_num INSTR_ADC = 5"
| "data_num INSTR_SBC = 6" | "data_num INSTR_RSC = 7" | "data_num INSTR_TST = 8"
| "data_num INSTR_TEQ = 9" | "data_num INSTR_CMP = 10" | "data_num INSTR_CMN = 11"
| "data_num INSTR_ORR = 12" | "data_num INSTR_MOV = 13" | "data_num INSTR_BIC = 14"
| "data_num INSTR_MVN = 15"

definition data_of :: "u32 \<Rightarrow> data_type" where
  "data_of w = [INSTR_AND, INSTR_EOR, INSTR_SUB, INSTR_RSB, INSTR_ADD, INSTR_ADC, INSTR_SBC,
                INSTR_RSC, INSTR_TST, INSTR_TEQ, INSTR_CMP, INSTR_CMN, INSTR_ORR, INSTR_MOV,
                INSTR_BIC, INSTR_MVN] ! unat w"

lemma data_of_num [simp]: "data_of (data_num t) = t"
  by (cases t) (simp_all add: data_of_def)

lemma data_num_less [simp]: "data_num t < 16"
  by (cases t) simp_all

record data_instr =
  data_ccode :: ccode
  data_status :: bool
  data_dest :: arm_reg
  data_op1 :: arm_reg
  data_op2 :: arm_op2

datatype mul_type = INSTR_MUL | INSTR_MLA

record mul_instr =
  mul_ccode :: ccode
  mul_status :: bool
  mul_dest :: arm_reg
  mul_rm :: arm_reg
  mul_rs :: arm_reg
  mul_rn :: arm_reg

datatype stran_type = INSTR_LDR | INSTR_STR

record stran_instr =
  stran_ccode :: ccode
  stran_dest :: arm_reg
  stran_base :: arm_reg
  stran_offset :: arm_op2
  stran_pre_indexed :: bool
  stran_write_back :: bool
  stran_subtract :: bool
  stran_byte :: bool

datatype mtran_dir = INSTR_LDM | INSTR_STM

datatype mtran_type = MTRAN_IA | MTRAN_IB | MTRAN_DA | MTRAN_DB
  | MTRAN_FA | MTRAN_FD | MTRAN_EA | MTRAN_ED

record mtran_instr =
  mtran_ccode :: ccode
  mtran_op0 :: arm_reg
  mtran_reg_list :: u64
  mtran_kind :: mtran_type
  mtran_write_back :: bool
  mtran_status :: bool

datatype br_link_type = BR_LINK_VOID | BR_LINK_INT | BR_LINK_REAL

text \<open>The union \<^verbatim>\<open>target\<close>: a label before encoding, an offset after decoding, a register when indirect.\<close>

datatype br_target = Target_label u64 | Target_offset u32 | Target_reg arm_reg

record br_instr =
  br_ccode :: ccode
  br_link :: bool
  br_local :: bool
  br_indirect :: bool
  br_kind :: br_link_type
  br_target :: br_target

record swi_instr =
  swi_ccode :: ccode
  swi_code :: u64
  swi_reg_read_mask :: u32
  swi_reg_write_mask :: u32

record ldrc_instr =
  ldrc_ccode :: ccode
  ldrc_dest :: arm_reg
  ldrc_label :: nat
  ldrc_link_time :: bool

record adr_instr =
  adr_ccode :: ccode
  adr_dest :: arm_reg
  adr_label :: nat

record ldrp_instr =
  ldrp_ccode :: ccode
  ldrp_dest :: arm_reg
  ldrp_section_label :: nat
  ldrp_constant_label :: nat

record cmov_instr =
  cmov_dest :: arm_reg
  cmov_op1 :: arm_reg
  cmov_op2 :: arm_reg
  cmov_op3 :: arm_reg
  cmov_fused :: bool
  cmov_true_cond :: ccode
  cmov_false_cond :: ccode

datatype flags_type = INSTR_MSR | INSTR_MRS

datatype flags_reg = FLAGS_CPSR | FLAGS_SPSR

text \<open>The union \<^verbatim>\<open>op\<close> of \<^verbatim>\<open>subtilis_arm_flags_instr_t\<close> with its flag \<^verbatim>\<open>op2_reg\<close>.\<close>

datatype flags_op = Flags_reg arm_reg | Flags_integer u32

record flags_instr =
  flags_ccode :: ccode
  flags_flag_reg :: flags_reg
  flags_fields :: u32
  flags_op :: flags_op

datatype stran_misc_dir = STRAN_MISC_LDR | STRAN_MISC_STR

datatype stran_misc_type = STRAN_MISC_SB | STRAN_MISC_SH | STRAN_MISC_H | STRAN_MISC_D

text \<open>The union \<^verbatim>\<open>offset\<close> with its flag \<^verbatim>\<open>reg_offset\<close>; the immediate is an \<^verbatim>\<open>int8_t\<close>.\<close>

datatype misc_offset = Misc_imm u8 | Misc_reg arm_reg

record stran_misc_instr =
  misc_type :: stran_misc_type
  misc_ccode :: ccode
  misc_dest :: arm_reg
  misc_base :: arm_reg
  misc_offset :: misc_offset
  misc_pre_indexed :: bool
  misc_write_back :: bool
  misc_subtract :: bool

datatype simd_type = SIMD_QADD16 | SIMD_QADD8 | SIMD_QADDSUBX | SIMD_QSUB16 | SIMD_QSUB8
  | SIMD_QSUBADDX | SIMD_SADD16 | SIMD_SADD8 | SIMD_SADDSUBX | SIMD_SSUB16 | SIMD_SSUB8
  | SIMD_SSUBADDX | SIMD_SHADD16 | SIMD_SHADD8 | SIMD_SHADDSUBX | SIMD_SHSUB16 | SIMD_SHSUB8
  | SIMD_SHSUBADDX | SIMD_UADD16 | SIMD_UADD8 | SIMD_UADDSUBX | SIMD_USUB16 | SIMD_USUB8
  | SIMD_USUBADDX | SIMD_UHADD16 | SIMD_UHADD8 | SIMD_UHADDSUBX | SIMD_UHSUB16 | SIMD_UHSUB8
  | SIMD_UHSUBADDX | SIMD_UQADD16 | SIMD_UQADD8 | SIMD_UQADDSUBX | SIMD_UQSUB16 | SIMD_UQSUB8
  | SIMD_UQSUBADDX

record reg_only_instr =
  reg_only_ccode :: ccode
  reg_only_dest :: arm_reg
  reg_only_op1 :: arm_reg
  reg_only_op2 :: arm_reg

datatype signx_type = INSTR_SXTB | INSTR_SXTB16 | INSTR_SXTH

datatype signx_rotate = ROR_NONE | ROR_8 | ROR_16 | ROR_24

record signx_instr =
  signx_ccode :: ccode
  signx_rotate :: signx_rotate
  signx_dest :: arm_reg
  signx_op1 :: arm_reg

section \<open>FPA instructions\<close>

datatype fpa_rounding = ROUNDING_NEAREST | ROUNDING_PLUS_INFINITY
  | ROUNDING_MINUS_INFINITY | ROUNDING_ZERO

text \<open>The union \<^verbatim>\<open>subtilis_fpa_op2_t\<close> with the flag \<^verbatim>\<open>immediate\<close> that selects its member.\<close>

datatype fpa_op2 = Fpa_imm u8 | Fpa_reg arm_reg

datatype fpa_data_type = FPA_MVF | FPA_MNF | FPA_ADF | FPA_MUF | FPA_SUF | FPA_RSF | FPA_DVF
  | FPA_RDF | FPA_POW | FPA_RPW | FPA_RMF | FPA_FML | FPA_FDV | FPA_FRD | FPA_POL | FPA_ABS
  | FPA_RND | FPA_SQT | FPA_LOG | FPA_LGN | FPA_EXP | FPA_SIN | FPA_COS | FPA_TAN | FPA_ASN
  | FPA_ACS | FPA_ATN | FPA_URD | FPA_NRM

record fpa_data_instr =
  fpa_data_ccode :: ccode
  fpa_data_rounding :: fpa_rounding
  fpa_data_size :: nat
  fpa_data_dest :: arm_reg
  fpa_data_op1 :: arm_reg
  fpa_data_op2 :: fpa_op2

datatype fpa_stran_type = FPA_LDF | FPA_STF

record fpa_stran_instr =
  fpa_stran_ccode :: ccode
  fpa_stran_size :: nat
  fpa_stran_dest :: arm_reg
  fpa_stran_base :: arm_reg
  fpa_stran_offset :: u8
  fpa_stran_pre_indexed :: bool
  fpa_stran_write_back :: bool
  fpa_stran_subtract :: bool

datatype fpa_tran_type = FPA_FLT | FPA_FIX

record fpa_tran_instr =
  fpa_tran_ccode :: ccode
  fpa_tran_dest :: arm_reg
  fpa_tran_op2 :: fpa_op2
  fpa_tran_size :: nat
  fpa_tran_rounding :: fpa_rounding

datatype fpa_cmp_type = FPA_CMF | FPA_CNF | FPA_CMFE | FPA_CNFE

record fpa_cmp_instr =
  fpa_cmp_ccode :: ccode
  fpa_cmp_dest :: arm_reg
  fpa_cmp_op2 :: fpa_op2

datatype fpa_cptran_type = FPA_WFS | FPA_RFS

record fpa_cptran_instr =
  fpa_cptran_ccode :: ccode
  fpa_cptran_dest :: arm_reg

record fpa_ldrc_instr =
  fpa_ldrc_ccode :: ccode
  fpa_ldrc_dest :: arm_reg
  fpa_ldrc_size :: nat
  fpa_ldrc_label :: nat

section \<open>VFP instructions\<close>

datatype vfp_stran_type = VFP_FSTS | VFP_FLDS | VFP_FSTD | VFP_FLDD

record vfp_stran_instr =
  vfp_stran_ccode :: ccode
  vfp_stran_dest :: arm_reg
  vfp_stran_base :: arm_reg
  vfp_stran_offset :: u8
  vfp_stran_pre_indexed :: bool
  vfp_stran_write_back :: bool
  vfp_stran_subtract :: bool

datatype vfp_copy_type = VFP_FCPYS | VFP_FCPYD | VFP_FNEGS | VFP_FNEGD | VFP_FABSS | VFP_FABSD

record vfp_copy_instr =
  vfp_copy_ccode :: ccode
  vfp_copy_dest :: arm_reg
  vfp_copy_src :: arm_reg

datatype vfp_tran_type = VFP_FSITOD | VFP_FSITOS | VFP_FTOSIS | VFP_FTOSID | VFP_FTOUIS
  | VFP_FTOUID | VFP_FTOSIZS | VFP_FTOSIZD | VFP_FTOUIZS | VFP_FTOUIZD | VFP_FUITOD | VFP_FUITOS

datatype vfp_cptran_type = VFP_FMSR | VFP_FMRS

record vfp_tran_instr =
  vfp_tran_ccode :: ccode
  vfp_tran_use_dregs :: bool
  vfp_tran_dest :: arm_reg
  vfp_tran_src :: arm_reg

datatype vfp_data_type = VFP_FMACS | VFP_FMACD | VFP_FNMACS | VFP_FNMACD | VFP_FMSCS | VFP_FMSCD
  | VFP_FNMSCS | VFP_FNMSCD | VFP_FMULS | VFP_FMULD | VFP_FNMULS | VFP_FNMULD | VFP_FADDS
  | VFP_FADDD | VFP_FSUBS | VFP_FSUBD | VFP_FDIVS | VFP_FDIVD

record vfp_data_instr =
  vfp_data_ccode :: ccode
  vfp_data_dest :: arm_reg
  vfp_data_op1 :: arm_reg
  vfp_data_op2 :: arm_reg

datatype vfp_cmp_type = VFP_FCMPS | VFP_FCMPD | VFP_FCMPES | VFP_FCMPED
  | VFP_FCMPZS | VFP_FCMPZD | VFP_FCMPEZS | VFP_FCMPEZD

record vfp_cmp_instr =
  vfp_cmp_ccode :: ccode
  vfp_cmp_op1 :: arm_reg
  vfp_cmp_op2 :: arm_reg

datatype vfp_sqrt_type = VFP_FSQRTD | VFP_FSQRTS

record vfp_sqrt_instr =
  vfp_sqrt_ccode :: ccode
  vfp_sqrt_dest :: arm_reg
  vfp_sqrt_op1 :: arm_reg

datatype vfp_sysreg_type = VFP_FMXR | VFP_FMRX

datatype vfp_sysreg = SYSREG_FPSID | SYSREG_FPSCR | SYSREG_FPEXC

record vfp_sysreg_instr =
  vfp_sysreg_ccode :: ccode
  vfp_sysreg_reg :: vfp_sysreg
  vfp_sysreg_arm_reg :: arm_reg

datatype vfp_tran_dbl_type = VFP_FMDRR | VFP_FMRRD | VFP_FMSRR | VFP_FMRRS

record vfp_tran_dbl_instr =
  vfp_tran_dbl_ccode :: ccode
  vfp_tran_dbl_dest1 :: arm_reg
  vfp_tran_dbl_dest2 :: arm_reg
  vfp_tran_dbl_src1 :: arm_reg
  vfp_tran_dbl_src2 :: arm_reg

datatype vfp_cvt_type = VFP_FCVTDS | VFP_FCVTSD

record vfp_cvt_instr =
  vfp_cvt_ccode :: ccode
  vfp_cvt_dest :: arm_reg
  vfp_cvt_op1 :: arm_reg

section \<open>Instructions\<close>

datatype arm_instr =
    Data data_type data_instr
  | Mul mul_type mul_instr
  | Stran stran_type stran_instr
  | Mtran mtran_dir mtran_instr
  | Br br_instr
  | Swi swi_instr
  | Ldrc ldrc_instr
  | Ldrp ldrp_instr
  | Cmov cmov_instr
  | Adr adr_instr
  | Flags flags_type flags_instr
  | Fpa_stran fpa_stran_type fpa_stran_instr
  | Fpa_ldrc fpa_ldrc_instr
  | Fpa_data fpa_data_type fpa_data_instr
  | Fpa_tran fpa_tran_type fpa_tran_instr
  | Fpa_cmp fpa_cmp_type fpa_cmp_instr
  | Fpa_cptran fpa_cptran_type fpa_cptran_instr
  | Vfp_stran vfp_stran_type vfp_stran_instr
  | Vfp_copy vfp_copy_type vfp_copy_instr
  | Vfp_ldrc fpa_ldrc_instr
  | Vfp_tran vfp_tran_type vfp_tran_instr
  | Vfp_cptran vfp_cptran_type vfp_tran_instr
  | Vfp_data vfp_data_type vfp_data_instr
  | Vfp_cmp vfp_cmp_type vfp_cmp_instr
  | Vfp_sqrt vfp_sqrt_type vfp_sqrt_instr
  | Vfp_sysreg vfp_sysreg_type vfp_sysreg_instr
  | Vfp_tran_dbl vfp_tran_dbl_type vfp_tran_dbl_instr
  | Vfp_cvt vfp_cvt_type vfp_cvt_instr
  | Stran_misc stran_misc_dir stran_misc_instr
  | Simd simd_type reg_only_instr
  | Signx signx_type signx_instr

end
