(* ===== verification/Arm_Imm.thy ===== *)
theory Arm_Imm
  imports Arm_Core
begin

text \<open>
  Immediate operands of the data instructions (arch/arm32/arm_core.c): an ARM immediate is an
  eight bit value rotated right by an even amount, held in twelve bits. \<open>arm_encode_imm\<close> finds
  the encoding of a number, \<open>arm_encode_lvl2_imm\<close> splits a number over two instructions, and
  \<open>arm_encode_nearest\<close> rounds a number up to one that has an encoding. The decoder is the one of
  the ARM simulator (arch/arm32/arm_vm.c).
\<close>

definition arm_imm_mask :: "u32 list" where
  "arm_imm_mask =
    [0x000000ff, 0xc000003f, 0xf000000f, 0xfc000003, 0xff000000,
     drop_bit 2 0xff000000, drop_bit 4 0xff000000, drop_bit 6 0xff000000, drop_bit 8 0xff000000,
     drop_bit 10 0xff000000, drop_bit 12 0xff000000, drop_bit 14 0xff000000,
     drop_bit 16 0xff000000, drop_bit 18 0xff000000, drop_bit 20 0xff000000,
     drop_bit 22 0xff000000]"

definition prv_encode_imm :: "u32 \<Rightarrow> nat \<Rightarrow> u32" where
  "prv_encode_imm imm mask_index =
     (if mask_index = 0 then imm
      else if mask_index = 1 then drop_bit 30 imm OR push_bit 2 (imm AND 0x3F)
      else if mask_index = 2 then drop_bit 28 imm OR push_bit 4 (imm AND 0xF)
      else if mask_index = 3 then drop_bit 26 imm OR push_bit 6 (imm AND 0x3)
      else drop_bit (24 - (mask_index - 4) * 2) imm)
     OR push_bit 8 (of_nat mask_index)"

definition arm_encode_imm :: "u32 \<Rightarrow> u32 option" where
  "arm_encode_imm imm =
     (if imm = 0 then Some 0
      else case find (\<lambda>i. imm AND NOT (arm_imm_mask ! i) = 0) [0..<16] of
             None \<Rightarrow> None
           | Some i \<Rightarrow> Some (prv_encode_imm imm i))"

definition arm_encode_lvl2_imm :: "u32 \<Rightarrow> (u32 \<times> u32) option" where
  "arm_encode_lvl2_imm imm =
     (case find (\<lambda>i. arm_encode_imm (imm AND NOT (arm_imm_mask ! i)) \<noteq> None) [0..<16] of
        None \<Rightarrow> None
      | Some i \<Rightarrow>
          (let rem = imm AND NOT (arm_imm_mask ! i)
           in Some (prv_encode_imm (imm - rem) i, the (arm_encode_imm rem))))"

definition arm_encode_nearest :: "u32 \<Rightarrow> u32 c_result" where
  "arm_encode_nearest num =
     (case arm_encode_imm num of
        Some encoded \<Rightarrow> Inr encoded
      | None \<Rightarrow>
          if 0xff000000 \<le> num then Inl assertion_failed
          else (case find (\<lambda>i. bit num i) (rev [8..<32]) of
                  None \<Rightarrow> Inl assertion_failed
                | Some i \<Rightarrow>
                    (let shift = (if odd (i - 7) then i - 7 + 1 else i - 7);
                         mask = scast (push_bit shift 0xff :: u32) :: u64;
                         new_num = ((ucast num :: u64) AND mask) + push_bit shift 1
                     in case arm_encode_imm (ucast new_num) of
                          None \<Rightarrow> Inl assertion_failed
                        | Some encoded \<Rightarrow> Inr encoded)))"

definition prv_decode_imm :: "u32 \<Rightarrow> u32" where
  "prv_decode_imm val =
     (if val AND 0xf00 = 0 then val
      else (let shift = unat (drop_bit 7 (val AND 0xf00)); v = val AND 0xff
            in drop_bit shift v OR push_bit (32 - shift) v))"

section \<open>The sixteen rotations\<close>

lemma index_cases_16:
  assumes "i < (16::nat)"
  obtains "i = 0" | "i = 1" | "i = 2" | "i = 3" | "i = 4" | "i = 5" | "i = 6" | "i = 7"
    | "i = 8" | "i = 9" | "i = 10" | "i = 11" | "i = 12" | "i = 13" | "i = 14" | "i = 15"
  using assms by (auto simp: less_Suc_eq numeral_eq_Suc)

text \<open>
  \<open>rot i v\<close> is \<open>v\<close> rotated right by \<open>2 * i\<close>: what the twelve bit immediate \<open>i << 8 | v\<close> stands for.
\<close>

definition rot :: "nat \<Rightarrow> u32 \<Rightarrow> u32" where
  "rot i v = (if i = 0 then v else drop_bit (2 * i) v OR push_bit (32 - 2 * i) v)"

lemma prv_decode_imm_rot:
  assumes "i < 16" and "v < 256"
  shows "prv_decode_imm (v OR push_bit 8 (of_nat i)) = rot i v"
proof -
  have m: "(v OR push_bit 8 (of_nat i)) AND 0xf00 = push_bit 8 (of_nat i)"
    using assms by (cases rule: index_cases_16 [OF assms(1)]) (simp_all add: u32_bits)
  have b: "(v OR push_bit 8 (of_nat i)) AND 0xff = v"
    using assms by (cases rule: index_cases_16 [OF assms(1)]) (simp_all add: u32_bits)
  show ?thesis
    unfolding prv_decode_imm_def Let_def m b
    by (cases rule: index_cases_16 [OF assms(1)]) (simp_all add: rot_def)
qed

lemma imm_split:
  assumes "e < (4096::u32)"
  obtains i v where "i < 16" and "v < 256" and "e = v OR push_bit 8 (of_nat i)"
proof
  have "drop_bit 8 e = (drop_bit 8 e) AND 0xf"
    using assms by (simp add: u32_bits)
  then have "drop_bit 8 e < 16"
    by (rule word_less_if_masked) simp
  then show "unat (drop_bit 8 e) < 16"
    by (simp add: word_less_nat_alt)
  show "e AND 0xff < 256"
    by (rule word_and_less) simp
  show "e = (e AND 0xff) OR push_bit 8 (of_nat (unat (drop_bit 8 e)))"
    using assms by (simp add: u32_bits)
qed

lemma prv_encode_imm_rot:
  assumes "i < 16" and "v < 256"
  shows "prv_encode_imm (rot i v) i = v OR push_bit 8 (of_nat i)"
  using assms
  by (cases rule: index_cases_16 [OF assms(1)])
    (simp_all add: prv_encode_imm_def rot_def u32_bits)

lemma rot_mask:
  assumes "i < 16" and "v < 256"
  shows "rot i v AND NOT (arm_imm_mask ! i) = 0"
  using assms
  by (cases rule: index_cases_16 [OF assms(1)])
    (simp_all add: arm_imm_mask_def rot_def u32_bits)

lemma mask_rot:
  assumes "i < 16" and "n AND NOT (arm_imm_mask ! i) = 0"
  obtains v where "v < 256" and "n = rot i v"
proof
  let ?v = "(if i = 0 then n else drop_bit (32 - 2 * i) n OR push_bit (2 * i) n) AND 0xff"
  show "?v < 256"
    by (rule word_and_less) simp
  show "n = rot i ?v"
    using assms(2)
    by (cases rule: index_cases_16 [OF assms(1)])
      (simp_all add: arm_imm_mask_def rot_def u32_bits)
qed

section \<open>The encoder is exact and complete\<close>

lemma prv_encode_imm_decodes:
  assumes "i < 16" and "n AND NOT (arm_imm_mask ! i) = 0"
  shows "prv_encode_imm n i < 4096 \<and> prv_decode_imm (prv_encode_imm n i) = n"
proof -
  obtain v where v: "v < 256" "n = rot i v"
    using assms by (rule mask_rot)
  have e: "prv_encode_imm n i = v OR push_bit 8 (of_nat i)"
    using assms(1) v by (simp add: prv_encode_imm_rot)
  have "v OR push_bit 8 (of_nat i) = (v OR push_bit 8 (of_nat i)) AND 0xfff"
    using v(1) by (cases rule: index_cases_16 [OF assms(1)]) (simp_all add: u32_bits)
  then have "v OR push_bit 8 (of_nat i) < 4096"
    by (rule word_less_if_masked) simp
  with e v assms(1) show ?thesis
    by (simp add: prv_decode_imm_rot)
qed

lemma find_index_Some:
  "find P [0..<k] = Some i \<Longrightarrow> i < k \<and> P i"
  by (auto simp: find_Some_iff)

lemma arm_encode_imm_SomeD:
  assumes "arm_encode_imm n = Some e"
  shows "e < 4096 \<and> prv_decode_imm e = n"
proof (cases "n = 0")
  case True
  with assms show ?thesis by (simp add: arm_encode_imm_def prv_decode_imm_def)
next
  case False
  with assms obtain i where "find (\<lambda>i. n AND NOT (arm_imm_mask ! i) = 0) [0..<16] = Some i"
    and "e = prv_encode_imm n i"
    by (auto simp: arm_encode_imm_def split: option.splits)
  then show ?thesis
    using find_index_Some prv_encode_imm_decodes by blast
qed

lemma arm_encode_imm_decode:
  assumes "e < 4096"
  shows "arm_encode_imm (prv_decode_imm e) \<noteq> None"
proof -
  obtain i v where iv: "i < 16" "v < 256" "e = v OR push_bit 8 (of_nat i)"
    using assms by (rule imm_split)
  then have "prv_decode_imm e AND NOT (arm_imm_mask ! i) = 0"
    by (simp add: prv_decode_imm_rot rot_mask)
  with iv(1) have "find (\<lambda>i. prv_decode_imm e AND NOT (arm_imm_mask ! i) = 0) [0..<16] \<noteq> None"
    by (auto simp: find_None_iff)
  then show ?thesis
    by (auto simp: arm_encode_imm_def split: option.splits)
qed

lemma arm_encode_imm_shifted:
  assumes "s \<le> 24" and "even s" and "v < 256"
  shows "arm_encode_imm (push_bit s v) \<noteq> None"
proof (cases "s = 0")
  case True
  with assms(3) have "prv_decode_imm (v OR push_bit 8 (of_nat 0)) = v"
    by (subst prv_decode_imm_rot) (simp_all add: rot_def)
  moreover have "v < 4096" using assms(3) by (rule order.strict_trans) simp
  ultimately show ?thesis
    using True arm_encode_imm_decode [of v] by simp
next
  case False
  define i where "i = (32 - s) div 2"
  have i: "i < 16" "2 * i = 32 - s" "i \<noteq> 0"
    using assms False by (auto simp: i_def)
  have "s = 32 - 2 * i" and "4 \<le> i"
    using i assms(1) by auto
  then have "push_bit s v = rot i v"
    using assms(3) i(1) by (cases rule: index_cases_16 [OF i(1)]) (simp_all add: rot_def u32_bits)
  then have "push_bit s v AND NOT (arm_imm_mask ! i) = 0"
    using i(1) assms(3) by (simp add: rot_mask)
  with i(1) have "find (\<lambda>i. push_bit s v AND NOT (arm_imm_mask ! i) = 0) [0..<16] \<noteq> None"
    by (auto simp: find_None_iff)
  then show ?thesis
    by (auto simp: arm_encode_imm_def split: option.splits)
qed

section \<open>Rounding up\<close>

lemma find_rev_upt_Some:
  assumes "find P (rev [a..<b]) = Some i"
  shows "a \<le> i \<and> i < b \<and> P i \<and> (\<forall>j. i < j \<longrightarrow> j < b \<longrightarrow> \<not> P j)"
proof -
  obtain k where k: "k < b - a" "P (b - 1 - k)" "i = b - 1 - k"
    "\<And>j. j < k \<Longrightarrow> \<not> P (b - 1 - j)"
    using assms by (auto simp: find_Some_iff rev_nth)
  have "\<not> P j" if "i < j" "j < b" for j
    using k(4) [of "b - 1 - j"] k(1,3) that by auto
  with k show ?thesis by auto
qed

lemma ucast_down_add: "(ucast ((a::u64) + b) :: u32) = ucast a + ucast b"
  by (simp add: word_unat_eq_iff unsigned_ucast_eq unat_word_ariths take_bit_eq_mod
      mod_mod_cancel mod_add_eq)

lemma ucast_up_down: "ucast (ucast (x::u32) :: u64) = x"
  by (rule bit_word_eqI) (auto simp: bit_unsigned_iff dest: bit_imp_le_length)

lemma ucast_down_exp: "ucast ((2::u64) ^ s) = (2::u32) ^ s"
  by (rule bit_word_eqI) (auto simp: bit_simps)

lemma push_bit_Suc_word: "push_bit s (k::'a::len word) + push_bit s 1 = push_bit s (k + 1)"
  by (simp add: push_bit_eq_mult algebra_simps)

lemma bit_0xff: "bit (0xff :: u32) m \<longleftrightarrow> m < 8"
proof -
  have "(0xff :: u32) = mask 8" by (simp add: mask_eq_exp_minus_1)
  then show ?thesis by (simp only: bit_mask_iff) auto
qed

lemma top_bit_less:
  fixes num :: u32
  assumes "\<forall>j. i < j \<longrightarrow> j < 32 \<longrightarrow> \<not> bit num j"
  shows "unat num < 2 ^ (i + 1)"
proof -
  have "take_bit (i + 1) num = num"
    by (rule bit_word_eqI) (use assms in \<open>auto simp: bit_take_bit_iff not_less_eq\<close>)
  then have "take_bit (i + 1) (unat num) = unat num"
    by (metis unsigned_take_bit_eq)
  then show ?thesis
    by (simp only: take_bit_nat_eq_self_iff)
qed

text \<open>
  The window of eight bits that rounding keeps: \<open>k\<close> is its value, and the rounded number is
  \<open>k + 1\<close> at the same position.
\<close>

lemma nearest_window:
  fixes num :: u32
  assumes i: "8 \<le> i" "i < 32" "bit num i" and high: "\<forall>j. i < j \<longrightarrow> j < 32 \<longrightarrow> \<not> bit num j"
    and big: "num < 0xff000000"
    and s: "s = (if odd (i - 7) then i - 7 + 1 else i - 7)"
  defines "k \<equiv> drop_bit s num"
  shows "unat k < 255 \<or> (unat k = 255 \<and> s \<le> 22)"
    and "ucast (((ucast num :: u64) AND scast (push_bit s 0xff :: u32)) + push_bit s 1)
         = push_bit s (k + 1)"
    and "unat num < (unat k + 1) * 2 ^ s"
    and "64 * 2 ^ s \<le> unat num"
proof -
  have s24: "even s" "s \<le> 24" "i \<le> s + 7" "s + 6 \<le> i"
    using i s by (auto; presburger)+
  then have "s = 24 \<or> s \<le> 22"
    by presburger
  have k: "unat k = unat num div 2 ^ s"
    by (simp add: k_def unat_drop_bit_eq drop_bit_nat_def)
  show "unat num < (unat k + 1) * 2 ^ s"
    using k by (simp add: dividend_less_div_times)
  have "unat num < 2 ^ (s + 8)"
    using top_bit_less [OF high]
    by (rule less_le_trans) (rule power_increasing, use s24(3) in simp_all)
  then have "unat k < 256"
    using k by (simp add: power_add less_mult_imp_div_less mult.commute)
  moreover have "unat k < 255" if "s = 24"
    using k big that by (simp add: word_less_nat_alt less_mult_imp_div_less)
  ultimately show "unat k < 255 \<or> (unat k = 255 \<and> s \<le> 22)"
    using \<open>s = 24 \<or> s \<le> 22\<close> by auto
  have m: "bit (scast (push_bit s 0xff :: u32) :: u64) n \<longleftrightarrow> s \<le> n \<and> n < s + 8" if "n < 32" for n
    using that s24(2) unfolding bit_signed_iff bit_push_bit_iff bit_0xff by (auto simp: min_def)
  have "(ucast num :: u64) AND scast (push_bit s 0xff :: u32) = ucast (push_bit s k)"
  proof (rule bit_word_eqI)
    fix n
    have "bit num n \<Longrightarrow> n < s + 8"
      using high [rule_format, of n] s24(3) bit_imp_le_length [of num n] by force
    then show "bit ((ucast num :: u64) AND scast (push_bit s 0xff :: u32)) n
        = bit (ucast (push_bit s k) :: u64) n"
      using m [of n] by (cases "n < 32") (auto simp: k_def bit_and_iff bit_unsigned_iff
          bit_push_bit_iff bit_drop_bit_eq dest: bit_imp_le_length)
  qed
  then show "ucast (((ucast num :: u64) AND scast (push_bit s 0xff :: u32)) + push_bit s 1)
         = push_bit s (k + 1)"
    by (simp add: ucast_down_add ucast_up_down ucast_down_exp push_bit_Suc_word [symmetric])
  have "(2::nat) ^ i \<le> unat num"
  proof -
    have "bit (unat num) i"
      using i(3) by (simp add: bit_unsigned_iff)
    then show ?thesis
      by (metis bit_take_bit_iff linorder_not_le order_less_irrefl take_bit_nat_eq_self)
  qed
  moreover have "(64::nat) * 2 ^ s \<le> 2 ^ i"
    using power_increasing [OF s24(4), of "2::nat"] by (simp add: power_add)
  ultimately show "64 * 2 ^ s \<le> unat num"
    by (rule order.trans [rotated])
qed

lemma push_bit_less_encodes:
  fixes v :: u32
  assumes "s \<le> 24" and "even s" and "unat v < 256 \<or> (unat v = 256 \<and> s \<le> 22)"
  shows "arm_encode_imm (push_bit s v) \<noteq> None \<and> unat (push_bit s v) = unat v * 2 ^ s"
proof -
  have "unat v * 2 ^ s < 2 ^ 32"
  proof (cases "unat v < 256")
    case True
    then have "unat v * 2 ^ s < 256 * 2 ^ s" by simp
    also have "\<dots> \<le> 256 * 2 ^ 24"
      using power_increasing [OF assms(1), of "2::nat"] by simp
    finally show ?thesis by simp
  next
    case False
    with assms(3) have "unat v * 2 ^ s \<le> 256 * 2 ^ 22"
      using power_increasing [of s 22 "2::nat"] by auto
    then show ?thesis by simp
  qed
  then have u: "unat (push_bit s v) = unat v * 2 ^ s"
    using assms(1) by (simp add: unsigned_push_bit_eq push_bit_nat_def take_bit_nat_eq_self)
  have "arm_encode_imm (push_bit s v) \<noteq> None"
  proof (cases "unat v < 256")
    case True
    then have "v < 256" by (simp add: word_less_nat_alt)
    with assms(1,2) show ?thesis by (rule arm_encode_imm_shifted)
  next
    case False
    with assms(3) have v: "v = push_bit 2 64" and s: "s \<le> 22"
      by (auto simp: word_unat_eq_iff)
    have "arm_encode_imm (push_bit (s + 2) 64) \<noteq> None"
      using s assms(2) by (intro arm_encode_imm_shifted) simp_all
    then show ?thesis unfolding v push_bit_push_bit .
  qed
  with u show ?thesis by simp
qed

lemma arm_encode_nearest_None:
  assumes none: "arm_encode_imm num = None" and big: "num < 0xff000000"
  obtains e where "arm_encode_nearest num = Inr e" and "e < 4096"
    and "unat num \<le> unat (prv_decode_imm e)"
    and "unat (prv_decode_imm e) * 64 \<le> unat num * 65"
proof -
  have "\<not> unat num < 2 ^ 8"
    using none arm_encode_imm_shifted [of 0 num] by (auto simp: word_less_nat_alt)
  then obtain j where "8 \<le> j" "j < 32" "bit num j"
    using top_bit_less [of 7 num] by (force simp: less_eq_Suc_le)
  then have "find (\<lambda>i. bit num i) (rev [8..<32]) \<noteq> None"
    unfolding find_None_iff set_rev set_upt by (meson atLeastLessThan_iff)
  then obtain i where f: "find (\<lambda>i. bit num i) (rev [8..<32]) = Some i"
    by blast
  then have i: "8 \<le> i" "i < 32" "bit num i" "\<forall>j. i < j \<longrightarrow> j < 32 \<longrightarrow> \<not> bit num j"
    using find_rev_upt_Some by blast+
  define s where "s = (if odd (i - 7) then i - 7 + 1 else i - 7)"
  define k where "k = drop_bit s num"
  note w = nearest_window [OF i big s_def, folded k_def]
  have s: "even s" "s \<le> 24"
    using i s_def by (auto; presburger)+
  have k1: "unat (k + 1) = unat k + 1"
    using w(1) by (subst unat_word_ariths) auto
  then have e: "arm_encode_imm (push_bit s (k + 1)) \<noteq> None"
    and u: "unat (push_bit s (k + 1)) = (unat k + 1) * 2 ^ s"
    using push_bit_less_encodes [OF s(2,1), of "k + 1"] w(1) by auto
  then obtain e where enc: "arm_encode_imm (push_bit s (k + 1)) = Some e"
    by blast
  then have dec: "e < 4096" "prv_decode_imm e = push_bit s (k + 1)"
    using arm_encode_imm_SomeD by blast+
  have "arm_encode_nearest num = Inr e"
    unfolding arm_encode_nearest_def none f option.case Let_def s_def [symmetric] w(2) enc
    using big by (simp only: not_le [symmetric] if_False simp_thms)
  moreover have "unat num \<le> (unat k + 1) * 2 ^ s"
    using w(3) by simp
  moreover have "(unat k + 1) * 2 ^ s * 64 \<le> unat num * 65"
  proof -
    have "unat k * 2 ^ s \<le> unat num"
      by (simp add: k_def unat_drop_bit_eq drop_bit_nat_def)
    with w(4) show ?thesis by (simp add: algebra_simps)
  qed
  ultimately show ?thesis
    using that dec u by simp
qed

lemma arm_encode_lvl2_SomeD:
  assumes "arm_encode_lvl2_imm n = Some (e1, e2)"
  shows "e1 < 4096 \<and> e2 < 4096 \<and> prv_decode_imm e1 + prv_decode_imm e2 = n"
proof -
  obtain i where i: "find (\<lambda>i. arm_encode_imm (n AND NOT (arm_imm_mask ! i)) \<noteq> None) [0..<16] = Some i"
    and e1: "e1 = prv_encode_imm (n - (n AND NOT (arm_imm_mask ! i))) i"
    and e2: "arm_encode_imm (n AND NOT (arm_imm_mask ! i)) = Some e2"
    using assms by (auto simp: arm_encode_lvl2_imm_def Let_def split: option.splits
        dest: find_index_Some)
  let ?m = "arm_imm_mask ! i"
  have "(n AND ?m) + (n AND NOT ?m) = n"
    by (subst disjunctive_add) (auto simp: bit_simps u32_eq_iff_bits)
  then have d: "n - (n AND NOT ?m) = n AND ?m"
    by (simp add: algebra_simps)
  have "(n AND ?m) AND NOT ?m = 0"
    by (simp add: and.assoc)
  with i e1 d have "e1 < 4096 \<and> prv_decode_imm e1 = n AND ?m"
    using find_index_Some prv_encode_imm_decodes by metis
  moreover have "e2 < 4096 \<and> prv_decode_imm e2 = n AND NOT ?m"
    using e2 by (rule arm_encode_imm_SomeD)
  ultimately show ?thesis
    using \<open>(n AND ?m) + (n AND NOT ?m) = n\<close> by simp
qed

section \<open>Properties\<close>

text \<open>
  C6: \<open>arm_encode_imm\<close> is exact and complete. An encoding it returns fits in twelve bits and the
  simulator's decoder turns it back into the number; it returns none only for a number that no
  twelve bit immediate stands for.
\<close>

theorem arm_encode_imm_exact:
  "case arm_encode_imm n of
     Some e \<Rightarrow> e < 4096 \<and> prv_decode_imm e = n
   | None \<Rightarrow> n \<notin> prv_decode_imm ` {e. e < 4096}"
  using arm_encode_imm_SomeD [of n]
  by (auto split: option.splits dest!: arm_encode_imm_decode)

text \<open>
  C12: rounding a stack or frame size up. Below \<open>0xff000000\<close> \<open>arm_encode_nearest\<close> never reaches
  one of its assertions; the immediate it returns stands for at least the number, exceeds it by
  at most one 64th, and is the number itself when that has an encoding.
\<close>

theorem arm_encode_nearest_bounds:
  assumes "num < 0xff000000"
  shows "\<exists>e. arm_encode_nearest num = Inr e \<and> e < 4096
    \<and> unat num \<le> unat (prv_decode_imm e) \<and> 64 * unat (prv_decode_imm e) \<le> 65 * unat num
    \<and> (arm_encode_imm num \<noteq> None \<longrightarrow> prv_decode_imm e = num)"
proof (cases "arm_encode_imm num")
  case None
  then show ?thesis
    using arm_encode_nearest_None [OF None assms] by (metis mult.commute)
next
  case (Some e)
  then show ?thesis
    using arm_encode_imm_SomeD [OF Some] by (auto simp: arm_encode_nearest_def)
qed

theorem arm_encode_nearest_bounds_witness:
  "\<exists>e. arm_encode_nearest 0x12345 = Inr e \<and> e < 4096
    \<and> unat (0x12345 :: u32) \<le> unat (prv_decode_imm e)
    \<and> 64 * unat (prv_decode_imm e) \<le> 65 * unat (0x12345 :: u32)
    \<and> (arm_encode_imm 0x12345 \<noteq> None \<longrightarrow> prv_decode_imm e = 0x12345)"
  by (rule arm_encode_nearest_bounds) simp

text \<open>
  C13: a number split over two instructions by \<open>arm_encode_lvl2_imm\<close> is the sum of the two
  immediates, each of which fits in its twelve bits.
\<close>

theorem arm_encode_lvl2_sum:
  assumes "arm_encode_lvl2_imm n = Some (e1, e2)"
  shows "e1 < 4096 \<and> e2 < 4096 \<and> prv_decode_imm e1 + prv_decode_imm e2 = n"
  using assms by (rule arm_encode_lvl2_SomeD)

theorem arm_encode_lvl2_sum_witness:
  "(0x23 :: u32) < 4096 \<and> (0xc12 :: u32) < 4096 \<and> prv_decode_imm 0x23 + prv_decode_imm 0xc12 = 0x1223"
  by (rule arm_encode_lvl2_sum) code_simp

end
