(* ===== verification/Arm_Encode_Words.thy ===== *)
theory Arm_Encode_Words
  imports Arm_Imm
begin

text \<open>
  The instruction word that each \<^verbatim>\<open>prv_encode_*_instr\<close> of arch/arm32/arm_encode.c builds: the
  guards on the operands and the fields or-ed into the word, in the order of the code. What those
  functions do to the encoder's state around it (pools, patches, the code buffer) is in
  \<open>Arm_Encode\<close>. A register is a \<^verbatim>\<open>size_t\<close>; or-ing it into a 32-bit word drops its upper half.
\<close>

definition reg_at :: "nat \<Rightarrow> arm_reg \<Rightarrow> u32" where
  "reg_at n r = push_bit n (ucast r)"

definition flag_at :: "nat \<Rightarrow> bool \<Rightarrow> u32" where
  "flag_at n b = (if b then push_bit n 1 else 0)"

definition cc_at_28 :: "ccode \<Rightarrow> u32" where
  "cc_at_28 c = push_bit 28 (ccode_num c)"

section \<open>Integer instructions\<close>

fun prv_convert_shift :: "shift_type \<Rightarrow> u32 c_result" where
  "prv_convert_shift SHIFT_LSL = Inr 0"
| "prv_convert_shift SHIFT_RRX = Inl assertion_failed"
| "prv_convert_shift SHIFT_ASL = Inr 0"
| "prv_convert_shift SHIFT_LSR = Inr 1"
| "prv_convert_shift SHIFT_ASR = Inr 2"
| "prv_convert_shift SHIFT_ROR = Inr 3"

text \<open>Reading the member \<^verbatim>\<open>integer\<close> of the union, whichever member was written.\<close>

fun shift_integer :: "shift_amount \<Rightarrow> u32" where
  "shift_integer (Shift_integer i) = i"
| "shift_integer (Shift_reg r) = ucast r"

fun prv_encode_data_op2 :: "arm_op2 \<Rightarrow> u32 c_result" where
  "prv_encode_data_op2 (OP2_REG r) =
     rbind (ensure (r \<le> 15) assertion_failed) (\<lambda>_. Inr (ucast r))"
| "prv_encode_data_op2 (OP2_I32 i) =
     rbind (ensure (i AND 0xfffff000 = 0) assertion_failed) (\<lambda>_. Inr (i OR push_bit 25 1))"
| "prv_encode_data_op2 (OP2_SHIFTED s) =
     rbind (ensure (shift_of_reg s \<le> 15) assertion_failed) (\<lambda>_.
     rbind (case shift_by s of
              Shift_reg r \<Rightarrow>
                rbind (ensure (r \<le> 15) assertion_failed)
                  (\<lambda>_. Inr (push_bit 4 1 OR reg_at 8 (r AND 15)))
            | Shift_integer i \<Rightarrow> Inr (push_bit 7 (i AND 31))) (\<lambda>by.
     rbind (prv_convert_shift (shift_kind s)) (\<lambda>sh.
       Inr (ucast (shift_of_reg s) OR by OR push_bit 5 sh))))"

definition data_word :: "data_type \<Rightarrow> data_instr \<Rightarrow> u32 c_result" where
  "data_word t i =
     rbind (ensure (data_dest i \<le> 15 \<and> data_op1 i \<le> 15) assertion_failed) (\<lambda>_.
     rbind (prv_encode_data_op2 (data_op2 i)) (\<lambda>op2.
       Inr (cc_at_28 (data_ccode i) OR push_bit 21 (data_num t) OR flag_at 20 (data_status i)
            OR reg_at 16 (data_op1 i) OR reg_at 12 (data_dest i) OR op2)))"

definition mul_word :: "mul_type \<Rightarrow> mul_instr \<Rightarrow> u32 c_result" where
  "mul_word t i =
     rbind (ensure (mul_dest i \<le> 15 \<and> mul_rm i \<le> 15 \<and> mul_rs i \<le> 15) assertion_failed) (\<lambda>_.
       Inr (0x90 OR (if t = INSTR_MLA then push_bit 21 1 OR reg_at 12 (mul_rn i) else 0)
            OR cc_at_28 (mul_ccode i) OR flag_at 20 (mul_status i)
            OR reg_at 16 (mul_dest i) OR reg_at 8 (mul_rs i) OR ucast (mul_rm i)))"

fun prv_encode_stran_op2 :: "arm_op2 \<Rightarrow> u32 c_result" where
  "prv_encode_stran_op2 (OP2_REG r) =
     rbind (ensure (r \<le> 15) assertion_failed) (\<lambda>_. Inr (push_bit 25 1 OR ucast r))"
| "prv_encode_stran_op2 (OP2_I32 i) =
     rbind (ensure (i \<le> 4095) assertion_failed) (\<lambda>_. Inr i)"
| "prv_encode_stran_op2 (OP2_SHIFTED s) =
     rbind (ensure (shift_of_reg s \<le> 15) assertion_failed) (\<lambda>_.
     rbind (prv_convert_shift (shift_kind s)) (\<lambda>sh.
       Inr (ucast (shift_of_reg s) OR push_bit 25 1
            OR push_bit 7 (shift_integer (shift_by s) AND 31) OR push_bit 5 sh)))"

definition stran_word :: "stran_type \<Rightarrow> stran_instr \<Rightarrow> u32 c_result" where
  "stran_word t i =
     rbind (ensure (stran_base i \<le> 15 \<and> stran_dest i \<le> 15) assertion_failed) (\<lambda>_.
     rbind (prv_encode_stran_op2 (stran_offset i)) (\<lambda>op2.
       Inr (cc_at_28 (stran_ccode i) OR push_bit 26 1 OR flag_at 24 (stran_pre_indexed i)
            OR flag_at 22 (stran_byte i) OR flag_at 21 (stran_write_back i)
            OR flag_at 23 (\<not> stran_subtract i) OR flag_at 20 (t = INSTR_LDR)
            OR reg_at 16 (stran_base i) OR reg_at 12 (stran_dest i) OR op2)))"

text \<open>The stack names of a multiple transfer are resolved to the four addressing modes.\<close>

fun mtran_mode :: "mtran_dir \<Rightarrow> mtran_type \<Rightarrow> mtran_type" where
  "mtran_mode INSTR_STM MTRAN_FA = MTRAN_IB"
| "mtran_mode INSTR_STM MTRAN_FD = MTRAN_DB"
| "mtran_mode INSTR_STM MTRAN_EA = MTRAN_IA"
| "mtran_mode INSTR_STM MTRAN_ED = MTRAN_DA"
| "mtran_mode INSTR_LDM MTRAN_FA = MTRAN_DA"
| "mtran_mode INSTR_LDM MTRAN_FD = MTRAN_IA"
| "mtran_mode INSTR_LDM MTRAN_EA = MTRAN_DB"
| "mtran_mode INSTR_LDM MTRAN_ED = MTRAN_IB"
| "mtran_mode d m = m"

fun mtran_mode_bits :: "mtran_type \<Rightarrow> u32" where
  "mtran_mode_bits MTRAN_IA = push_bit 23 1"
| "mtran_mode_bits MTRAN_IB = push_bit 23 1 OR push_bit 24 1"
| "mtran_mode_bits MTRAN_DA = 0"
| "mtran_mode_bits MTRAN_DB = push_bit 24 1"
| "mtran_mode_bits _ = 0"

definition mtran_word :: "mtran_dir \<Rightarrow> mtran_instr \<Rightarrow> u32" where
  "mtran_word d i =
     cc_at_28 (mtran_ccode i) OR push_bit 25 4
     OR mtran_mode_bits (mtran_mode d (mtran_kind i)) OR flag_at 21 (mtran_write_back i)
     OR flag_at 22 (mtran_status i) OR flag_at 20 (d = INSTR_LDM)
     OR reg_at 16 (mtran_op0 i) OR ucast (mtran_reg_list i AND 0xffff)"

text \<open>
  Reading the member \<^verbatim>\<open>label\<close> or \<^verbatim>\<open>reg\<close> of a branch's target; both are a \<^verbatim>\<open>size_t\<close> at the same
  place. An offset is only ever written by the decoder, over the low half of the union.
\<close>

fun br_target_size_t :: "br_target \<Rightarrow> u64" where
  "br_target_size_t (Target_label l) = l"
| "br_target_size_t (Target_reg r) = r"
| "br_target_size_t (Target_offset off) = ucast off"

definition br_word :: "br_instr \<Rightarrow> u32" where
  "br_word i =
     cc_at_28 (br_ccode i)
     OR (if br_indirect i
         then push_bit 21 (data_num INSTR_MOV) OR push_bit 12 15
              OR ucast (br_target_size_t (br_target i) AND 0xf)
         else push_bit 25 5 OR flag_at 24 (br_link i)
              OR (if br_link i \<and> \<not> br_local i then ucast (br_target_size_t (br_target i)) else 0))"

definition swi_word :: "swi_instr \<Rightarrow> u32" where
  "swi_word i = cc_at_28 (swi_ccode i) OR push_bit 24 0xf OR ucast (0x0fffffff AND swi_code i)"

text \<open>Reading the member \<^verbatim>\<open>reg\<close> of the operand of \<^verbatim>\<open>MRS\<close> whichever member was written.\<close>

fun flags_op_reg :: "flags_op \<Rightarrow> u64" where
  "flags_op_reg (Flags_reg r) = r"
| "flags_op_reg (Flags_integer i) = ucast i"

definition flags_word :: "flags_type \<Rightarrow> flags_instr \<Rightarrow> u32" where
  "flags_word t i =
     (case t of
        INSTR_MRS \<Rightarrow> 0x01000000 OR reg_at 12 (flags_op_reg (flags_op i) AND 0xf)
      | INSTR_MSR \<Rightarrow>
          0x01200000
          OR (case flags_op i of
                Flags_reg r \<Rightarrow> ucast (r AND 0xf)
              | Flags_integer n \<Rightarrow> push_bit 25 1 OR (n AND 0xfff))
          OR flags_fields i)
     OR flag_at 22 (flags_flag_reg i = FLAGS_SPSR) OR cc_at_28 (flags_ccode i)"

definition misc_type_bits :: "stran_misc_dir \<Rightarrow> stran_misc_type \<Rightarrow> u32" where
  "misc_type_bits d t =
     (case t of
        STRAN_MISC_SB \<Rightarrow> push_bit 6 1 OR flag_at 20 (d = STRAN_MISC_LDR)
      | STRAN_MISC_SH \<Rightarrow> push_bit 6 1 OR push_bit 5 1 OR flag_at 20 (d = STRAN_MISC_LDR)
      | STRAN_MISC_H \<Rightarrow> flag_at 20 (d = STRAN_MISC_LDR) OR push_bit 5 1
      | STRAN_MISC_D \<Rightarrow> push_bit 6 1 OR flag_at 5 (d = STRAN_MISC_STR))"

definition stran_misc_word :: "stran_misc_dir \<Rightarrow> stran_misc_instr \<Rightarrow> u32 c_result" where
  "stran_misc_word d i =
     rbind (ensure (misc_base i \<le> 15 \<and> misc_dest i \<le> 15) assertion_failed) (\<lambda>_.
       Inr (0x90 OR cc_at_28 (misc_ccode i) OR flag_at 24 (misc_pre_indexed i)
            OR flag_at 21 (misc_write_back i) OR flag_at 23 (\<not> misc_subtract i)
            OR reg_at 16 (misc_base i) OR reg_at 12 (misc_dest i)
            OR misc_type_bits d (misc_type i)
            OR (case misc_offset i of
                  Misc_reg r \<Rightarrow> ucast r
                | Misc_imm m \<Rightarrow>
                    push_bit 22 1 OR (ucast m AND 0xf) OR push_bit 8 (ucast m AND 0xf0))))"

definition simd_opcodes :: "(simd_type \<times> u32) list" where
  "simd_opcodes =
    [(SIMD_QADD16, 0x06200010), (SIMD_QADD8, 0x06200090), (SIMD_QADDSUBX, 0x06200030),
     (SIMD_QSUB16, 0x06200070), (SIMD_QSUB8, 0x062000f0), (SIMD_QSUBADDX, 0x06200050),
     (SIMD_SADD16, 0x06100010), (SIMD_SADD8, 0x06100090), (SIMD_SADDSUBX, 0x06100030),
     (SIMD_SSUB16, 0x06100070), (SIMD_SSUB8, 0x061000f0), (SIMD_SSUBADDX, 0x06100050),
     (SIMD_SHADD16, 0x06300010), (SIMD_SHADD8, 0x06300090), (SIMD_SHADDSUBX, 0x06300030),
     (SIMD_SHSUB16, 0x06300070), (SIMD_SHSUB8, 0x063000f0), (SIMD_SHSUBADDX, 0x06300050),
     (SIMD_UADD16, 0x06500010), (SIMD_UADD8, 0x06500090), (SIMD_UADDSUBX, 0x06500030),
     (SIMD_USUB16, 0x06500070), (SIMD_USUB8, 0x065000f0), (SIMD_USUBADDX, 0x06500050),
     (SIMD_UHADD16, 0x06700010), (SIMD_UHADD8, 0x06700090), (SIMD_UHADDSUBX, 0x06700030),
     (SIMD_UHSUB16, 0x06700070), (SIMD_UHSUB8, 0x067000f0), (SIMD_UHSUBADDX, 0x06700050),
     (SIMD_UQADD16, 0x06600010), (SIMD_UQADD8, 0x06600090), (SIMD_UQADDSUBX, 0x06600030),
     (SIMD_UQSUB16, 0x06600070), (SIMD_UQSUB8, 0x066000f0), (SIMD_UQSUBADDX, 0x06600050)]"

definition simd_word :: "simd_type \<Rightarrow> reg_only_instr \<Rightarrow> u32" where
  "simd_word t i =
     the (map_of simd_opcodes t) OR cc_at_28 (reg_only_ccode i)
     OR reg_at 12 (reg_only_dest i AND 0xf) OR reg_at 16 (reg_only_op1 i AND 0xf)
     OR ucast (reg_only_op2 i AND 0xf)"

fun signx_opcode :: "signx_type \<Rightarrow> u32" where
  "signx_opcode INSTR_SXTB = 0x6af0070"
| "signx_opcode INSTR_SXTB16 = 0x68f0070"
| "signx_opcode INSTR_SXTH = 0x6bf0070"

fun signx_ror :: "signx_rotate \<Rightarrow> u32" where
  "signx_ror ROR_NONE = 0"
| "signx_ror ROR_8 = 1"
| "signx_ror ROR_16 = 2"
| "signx_ror ROR_24 = 3"

definition signx_word :: "signx_type \<Rightarrow> signx_instr \<Rightarrow> u32" where
  "signx_word t i =
     signx_opcode t OR push_bit 10 (signx_ror (signx_rotate i)) OR cc_at_28 (signx_ccode i)
     OR reg_at 12 (signx_dest i AND 0xf) OR ucast (signx_op1 i AND 0xf)"

section \<open>FPA instructions\<close>

fun prv_encode_fpa_rounding :: "fpa_rounding \<Rightarrow> u32" where
  "prv_encode_fpa_rounding ROUNDING_NEAREST = 0"
| "prv_encode_fpa_rounding ROUNDING_PLUS_INFINITY = push_bit 5 1"
| "prv_encode_fpa_rounding ROUNDING_MINUS_INFINITY = push_bit 6 1"
| "prv_encode_fpa_rounding ROUNDING_ZERO = push_bit 5 3"

fun fpa_op_code :: "fpa_data_type \<Rightarrow> u32" where
  "fpa_op_code FPA_ADF = 0" | "fpa_op_code FPA_MVF = 0"
| "fpa_op_code FPA_MUF = 1" | "fpa_op_code FPA_MNF = 1"
| "fpa_op_code FPA_SUF = 2" | "fpa_op_code FPA_ABS = 2"
| "fpa_op_code FPA_RSF = 3" | "fpa_op_code FPA_RND = 3"
| "fpa_op_code FPA_DVF = 4" | "fpa_op_code FPA_SQT = 4"
| "fpa_op_code FPA_RDF = 5" | "fpa_op_code FPA_LOG = 5"
| "fpa_op_code FPA_POW = 6" | "fpa_op_code FPA_LGN = 6"
| "fpa_op_code FPA_RPW = 7" | "fpa_op_code FPA_EXP = 7"
| "fpa_op_code FPA_RMF = 8" | "fpa_op_code FPA_SIN = 8"
| "fpa_op_code FPA_FML = 9" | "fpa_op_code FPA_COS = 9"
| "fpa_op_code FPA_FDV = 10" | "fpa_op_code FPA_TAN = 10"
| "fpa_op_code FPA_FRD = 11" | "fpa_op_code FPA_ASN = 11"
| "fpa_op_code FPA_POL = 12" | "fpa_op_code FPA_ACS = 12"
| "fpa_op_code FPA_ATN = 13" | "fpa_op_code FPA_URD = 14" | "fpa_op_code FPA_NRM = 15"

fun fpa_op2_bits :: "fpa_op2 \<Rightarrow> u32" where
  "fpa_op2_bits (Fpa_imm m) = push_bit 3 1 OR ucast m"
| "fpa_op2_bits (Fpa_reg r) = ucast r"

text \<open>The walker hands the data instructions to two callbacks, which differ in \<open>dyadic\<close>.\<close>

fun fpa_dyadic :: "fpa_data_type \<Rightarrow> bool" where
  "fpa_dyadic FPA_ADF = True" | "fpa_dyadic FPA_MUF = True" | "fpa_dyadic FPA_SUF = True"
| "fpa_dyadic FPA_RSF = True" | "fpa_dyadic FPA_DVF = True" | "fpa_dyadic FPA_RDF = True"
| "fpa_dyadic FPA_POW = True" | "fpa_dyadic FPA_RPW = True" | "fpa_dyadic FPA_RMF = True"
| "fpa_dyadic FPA_FML = True" | "fpa_dyadic FPA_FDV = True" | "fpa_dyadic FPA_FRD = True"
| "fpa_dyadic _ = False"

definition fpa_data_word :: "bool \<Rightarrow> fpa_data_type \<Rightarrow> fpa_data_instr \<Rightarrow> u32" where
  "fpa_data_word dyadic t i =
     cc_at_28 (fpa_data_ccode i) OR push_bit 24 0xE OR push_bit 20 (fpa_op_code t)
     OR (if fpa_data_size i = 8 then push_bit 7 1
         else if fpa_data_size i = 12 then push_bit 19 1 else 0)
     OR (if dyadic then reg_at 16 (fpa_data_op1 i) else push_bit 15 1)
     OR reg_at 12 (fpa_data_dest i) OR push_bit 8 1
     OR prv_encode_fpa_rounding (fpa_data_rounding i) OR fpa_op2_bits (fpa_data_op2 i)"

definition fpa_stran_word :: "fpa_stran_type \<Rightarrow> fpa_stran_instr \<Rightarrow> u32" where
  "fpa_stran_word t i =
     cc_at_28 (fpa_stran_ccode i)
     OR push_bit 24 (0xC OR (if fpa_stran_pre_indexed i then 1 else 0))
     OR flag_at 23 (\<not> fpa_stran_subtract i)
     OR (if fpa_stran_size i = 8 then push_bit 15 1
         else if fpa_stran_size i = 12 then push_bit 22 1 else 0)
     OR flag_at 21 (fpa_stran_write_back i) OR flag_at 20 (t = FPA_LDF)
     OR reg_at 16 (fpa_stran_base i) OR reg_at 12 (fpa_stran_dest i)
     OR push_bit 8 1 OR ucast (fpa_stran_offset i)"

text \<open>Reading the member \<^verbatim>\<open>reg\<close> of the union when the flag says immediate leaves 56 stale bits.\<close>

fun fpa_op2_reg :: "fpa_op2 \<Rightarrow> arm_reg c_result" where
  "fpa_op2_reg (Fpa_reg r) = Inr r"
| "fpa_op2_reg (Fpa_imm m) = Inl Undefined"

definition fpa_tran_word :: "fpa_tran_type \<Rightarrow> fpa_tran_instr \<Rightarrow> u32 c_result" where
  "fpa_tran_word t i =
     rbind (case t of
              FPA_FLT \<Rightarrow>
                rbind (fpa_op2_reg (fpa_tran_op2 i)) (\<lambda>r.
                  Inr ((if fpa_tran_size i = 8 then push_bit 7 1
                        else if fpa_tran_size i = 12 then push_bit 19 1 else 0)
                       OR reg_at 16 (fpa_tran_dest i) OR reg_at 12 r))
            | FPA_FIX \<Rightarrow>
                Inr (fpa_op2_bits (fpa_tran_op2 i) OR reg_at 12 (fpa_tran_dest i)
                     OR push_bit 20 1)) (\<lambda>ops.
       Inr (cc_at_28 (fpa_tran_ccode i) OR push_bit 24 0xE OR ops OR push_bit 8 1
            OR prv_encode_fpa_rounding (fpa_tran_rounding i) OR push_bit 4 1))"

fun fpa_cmp_op_code :: "fpa_cmp_type \<Rightarrow> u32" where
  "fpa_cmp_op_code FPA_CMF = 4"
| "fpa_cmp_op_code FPA_CNF = 5"
| "fpa_cmp_op_code FPA_CMFE = 6"
| "fpa_cmp_op_code FPA_CNFE = 7"

definition fpa_cmp_word :: "fpa_cmp_type \<Rightarrow> fpa_cmp_instr \<Rightarrow> u32" where
  "fpa_cmp_word t i =
     cc_at_28 (fpa_cmp_ccode i) OR push_bit 24 0xE OR push_bit 21 (fpa_cmp_op_code t)
     OR push_bit 20 1 OR reg_at 16 (fpa_cmp_dest i) OR push_bit 12 15 OR push_bit 8 1
     OR push_bit 4 1 OR fpa_op2_bits (fpa_cmp_op2 i)"

definition fpa_cptran_word :: "fpa_cptran_type \<Rightarrow> fpa_cptran_instr \<Rightarrow> u32" where
  "fpa_cptran_word t i =
     cc_at_28 (fpa_cptran_ccode i) OR push_bit 24 0xE
     OR push_bit 20 (if t = FPA_WFS then 2 else 3)
     OR reg_at 12 (fpa_cptran_dest i) OR (push_bit 8 1 OR push_bit 4 1)"

section \<open>VFP instructions\<close>

definition vfp_stran_word :: "vfp_stran_type \<Rightarrow> vfp_stran_instr \<Rightarrow> u32" where
  "vfp_stran_word t i =
     (let dest = ucast (vfp_stran_dest i AND 0x1f) :: u32;
          single = (t = VFP_FSTS \<or> t = VFP_FLDS)
      in push_bit 25 6 OR cc_at_28 (vfp_stran_ccode i)
         OR push_bit 24 (0xC OR (if vfp_stran_pre_indexed i then 1 else 0))
         OR flag_at 23 (\<not> vfp_stran_subtract i)
         OR (if single then push_bit 22 (dest AND 1) else 0)
         OR flag_at 21 (vfp_stran_write_back i) OR flag_at 20 (t = VFP_FLDS \<or> t = VFP_FLDD)
         OR reg_at 16 (vfp_stran_base i)
         OR push_bit 12 (if single then drop_bit 1 dest else dest)
         OR push_bit 8 (if single then 0xa else 0xb)
         OR ucast (vfp_stran_offset i))"

definition prv_encode_src_dest :: "arm_reg \<Rightarrow> arm_reg \<Rightarrow> bool \<Rightarrow> bool \<Rightarrow> u32" where
  "prv_encode_src_dest src dest float32_src float32_dest =
     (if float32_src then ucast (drop_bit 1 src AND 0xf) OR reg_at 5 (src AND 1)
      else ucast (src AND 0xf))
     OR (if float32_dest then reg_at 12 (drop_bit 1 dest AND 0xf) OR reg_at 22 (dest AND 1)
         else reg_at 12 (dest AND 0xf))"

fun vfp_copy_opcode :: "vfp_copy_type \<Rightarrow> u32 \<times> bool" where
  "vfp_copy_opcode VFP_FCPYS = (0xeb00a40, True)"
| "vfp_copy_opcode VFP_FCPYD = (0xeb00b40, False)"
| "vfp_copy_opcode VFP_FNEGS = (0xeb10a40, True)"
| "vfp_copy_opcode VFP_FNEGD = (0xeb10b40, False)"
| "vfp_copy_opcode VFP_FABSS = (0xeb00ac0, True)"
| "vfp_copy_opcode VFP_FABSD = (0xeb00bc0, False)"

definition vfp_copy_word :: "vfp_copy_type \<Rightarrow> vfp_copy_instr \<Rightarrow> u32" where
  "vfp_copy_word t i =
     (case vfp_copy_opcode t of (word, float32) \<Rightarrow>
        word OR cc_at_28 (vfp_copy_ccode i)
        OR prv_encode_src_dest (vfp_copy_src i) (vfp_copy_dest i) float32 float32)"

text \<open>The opcode with the flags \<^verbatim>\<open>float32_src\<close> and \<^verbatim>\<open>float32_dest\<close>.\<close>

fun vfp_tran_opcode :: "vfp_tran_type \<Rightarrow> u32 \<times> bool \<times> bool" where
  "vfp_tran_opcode VFP_FTOSIS = (0xebd0a40, True, True)"
| "vfp_tran_opcode VFP_FTOUIS = (0xebc0a40, True, True)"
| "vfp_tran_opcode VFP_FTOUIZS = (0xebc0ac0, True, True)"
| "vfp_tran_opcode VFP_FTOSIZS = (0xebd0ac0, True, True)"
| "vfp_tran_opcode VFP_FSITOS = (0xeb80ac0, True, True)"
| "vfp_tran_opcode VFP_FUITOS = (0xeb80a40, True, True)"
| "vfp_tran_opcode VFP_FSITOD = (0xeb80bc0, True, False)"
| "vfp_tran_opcode VFP_FTOSID = (0xebd0b40, False, True)"
| "vfp_tran_opcode VFP_FTOUID = (0xebc0b40, False, True)"
| "vfp_tran_opcode VFP_FTOSIZD = (0xebd0bc0, False, True)"
| "vfp_tran_opcode VFP_FTOUIZD = (0xebc0bc0, False, True)"
| "vfp_tran_opcode VFP_FUITOD = (0xebc0bc0, True, False)"

definition vfp_tran_word :: "vfp_tran_type \<Rightarrow> vfp_tran_instr \<Rightarrow> u32" where
  "vfp_tran_word t i =
     (case vfp_tran_opcode t of (word, float32_src, float32_dest) \<Rightarrow>
        (let src = (if \<not> float32_dest \<and> vfp_tran_use_dregs i then vfp_tran_src i * 2
                    else vfp_tran_src i);
             dest = (if \<not> float32_src \<and> vfp_tran_use_dregs i then vfp_tran_dest i * 2
                     else vfp_tran_dest i)
         in word OR cc_at_28 (vfp_tran_ccode i)
            OR prv_encode_src_dest src dest float32_src float32_dest))"

definition vfp_tran_dbl_word :: "vfp_tran_dbl_type \<Rightarrow> vfp_tran_dbl_instr \<Rightarrow> u32 c_result" where
  "vfp_tran_dbl_word t i =
     (let d1 = vfp_tran_dbl_dest1 i; d2 = vfp_tran_dbl_dest2 i;
          s1 = vfp_tran_dbl_src1 i; s2 = vfp_tran_dbl_src2 i
      in rbind (case t of
                  VFP_FMDRR \<Rightarrow>
                    Inr (0xc400b10 OR ucast (d1 AND 0xf) OR reg_at 12 (s1 AND 0xf)
                         OR reg_at 16 (s2 AND 0xf))
                | VFP_FMRRD \<Rightarrow>
                    Inr (0xc500b10 OR ucast (s1 AND 0xf) OR reg_at 12 (d1 AND 0xf)
                         OR reg_at 16 (d2 AND 0xf))
                | VFP_FMSRR \<Rightarrow>
                    rbind (ensure (d1 + 1 = d2) assertion_failed) (\<lambda>_.
                      Inr (0xc400a10 OR ucast (drop_bit 1 d1 AND 0xf) OR reg_at 5 (d1 AND 1)
                           OR reg_at 12 (s1 AND 0xf) OR reg_at 16 (s2 AND 0xf)))
                | VFP_FMRRS \<Rightarrow>
                    rbind (ensure (s1 + 1 = s2) assertion_failed) (\<lambda>_.
                      Inr (0xc500a10 OR ucast (drop_bit 1 s1 AND 0xf) OR reg_at 5 (s1 AND 1)
                           OR reg_at 12 (d1 AND 0xf) OR reg_at 16 (d2 AND 0xf))))
           (\<lambda>word. Inr (word OR cc_at_28 (vfp_tran_dbl_ccode i))))"

definition vfp_cptran_word :: "vfp_cptran_type \<Rightarrow> vfp_tran_instr \<Rightarrow> u32" where
  "vfp_cptran_word t i =
     (case t of
        VFP_FMSR \<Rightarrow>
          (let dest = (if vfp_tran_use_dregs i then vfp_tran_dest i * 2 else vfp_tran_dest i)
           in 0xe000a10 OR reg_at 12 (vfp_tran_src i AND 0xf)
              OR reg_at 16 (drop_bit 1 dest AND 0xf) OR reg_at 7 (dest AND 1))
      | VFP_FMRS \<Rightarrow>
          (let src = (if vfp_tran_use_dregs i then vfp_tran_src i * 2 else vfp_tran_src i)
           in 0xe100a10 OR reg_at 12 (vfp_tran_dest i AND 0xf)
              OR reg_at 16 (drop_bit 1 src AND 0xf) OR reg_at 7 (src AND 1)))
     OR cc_at_28 (vfp_tran_ccode i)"

fun vfp_data_opcode :: "vfp_data_type \<Rightarrow> u32 \<times> bool" where
  "vfp_data_opcode VFP_FMACS = (0xe000a00, True)"
| "vfp_data_opcode VFP_FMACD = (0xe000b00, False)"
| "vfp_data_opcode VFP_FNMACS = (0xe000a40, True)"
| "vfp_data_opcode VFP_FNMACD = (0xe000b40, False)"
| "vfp_data_opcode VFP_FMSCS = (0xe100a00, True)"
| "vfp_data_opcode VFP_FMSCD = (0xe100b00, False)"
| "vfp_data_opcode VFP_FNMSCS = (0xe100a40, True)"
| "vfp_data_opcode VFP_FNMSCD = (0xe100b40, False)"
| "vfp_data_opcode VFP_FMULS = (0xe200a00, True)"
| "vfp_data_opcode VFP_FMULD = (0xe200b00, False)"
| "vfp_data_opcode VFP_FNMULS = (0xe200a40, True)"
| "vfp_data_opcode VFP_FNMULD = (0xe200b40, False)"
| "vfp_data_opcode VFP_FADDS = (0xe300a00, True)"
| "vfp_data_opcode VFP_FADDD = (0xe300b00, False)"
| "vfp_data_opcode VFP_FSUBS = (0xe300a40, True)"
| "vfp_data_opcode VFP_FSUBD = (0xe300b40, False)"
| "vfp_data_opcode VFP_FDIVS = (0xe800a00, True)"
| "vfp_data_opcode VFP_FDIVD = (0xe800b00, False)"

definition vfp_data_word :: "vfp_data_type \<Rightarrow> vfp_data_instr \<Rightarrow> u32" where
  "vfp_data_word t i =
     (case vfp_data_opcode t of (word, float32) \<Rightarrow>
        word OR cc_at_28 (vfp_data_ccode i)
        OR (if float32
            then reg_at 16 (drop_bit 1 (vfp_data_op1 i) AND 0xf)
                 OR reg_at 7 (vfp_data_op1 i AND 1)
                 OR ucast (drop_bit 1 (vfp_data_op2 i) AND 0xf)
                 OR reg_at 5 (vfp_data_op2 i AND 1)
                 OR reg_at 12 (drop_bit 1 (vfp_data_dest i) AND 0xf)
                 OR reg_at 22 (vfp_data_dest i AND 1)
            else reg_at 16 (vfp_data_op1 i AND 0xf) OR ucast (vfp_data_op2 i AND 0xf)
                 OR reg_at 12 (vfp_data_dest i AND 0xf)))"

text \<open>The opcode with the flags \<^verbatim>\<open>float32\<close> and \<^verbatim>\<open>two_ops\<close>.\<close>

fun vfp_cmp_opcode :: "vfp_cmp_type \<Rightarrow> u32 \<times> bool \<times> bool" where
  "vfp_cmp_opcode VFP_FCMPS = (0xeb40a40, True, True)"
| "vfp_cmp_opcode VFP_FCMPD = (0xeb40b40, False, True)"
| "vfp_cmp_opcode VFP_FCMPES = (0xeb40ac0, True, True)"
| "vfp_cmp_opcode VFP_FCMPED = (0xeb40bc0, False, True)"
| "vfp_cmp_opcode VFP_FCMPZS = (0xeb50a40, True, False)"
| "vfp_cmp_opcode VFP_FCMPZD = (0xeb50b40, False, False)"
| "vfp_cmp_opcode VFP_FCMPEZS = (0xeb50ac0, False, True)"
| "vfp_cmp_opcode VFP_FCMPEZD = (0xeb50bc0, False, False)"

definition vfp_cmp_word :: "vfp_cmp_type \<Rightarrow> vfp_cmp_instr \<Rightarrow> u32" where
  "vfp_cmp_word t i =
     (case vfp_cmp_opcode t of (word, float32, two_ops) \<Rightarrow>
        word OR cc_at_28 (vfp_cmp_ccode i)
        OR (if float32
            then (if two_ops
                  then ucast (drop_bit 1 (vfp_cmp_op2 i) AND 0xf) OR reg_at 5 (vfp_cmp_op2 i AND 1)
                  else 0)
                 OR reg_at 12 (drop_bit 1 (vfp_cmp_op1 i) AND 0xf)
                 OR reg_at 22 (vfp_cmp_op1 i AND 1)
            else (if two_ops then ucast (vfp_cmp_op2 i AND 0xf) else 0)
                 OR reg_at 12 (vfp_cmp_op1 i AND 0xf)))"

definition vfp_sqrt_word :: "vfp_sqrt_type \<Rightarrow> vfp_sqrt_instr \<Rightarrow> u32" where
  "vfp_sqrt_word t i =
     (case t of
        VFP_FSQRTD \<Rightarrow>
          0xeb10bc0 OR ucast (vfp_sqrt_op1 i AND 0xf) OR reg_at 12 (vfp_sqrt_dest i AND 0xf)
      | VFP_FSQRTS \<Rightarrow>
          0xeb10ac0 OR ucast (drop_bit 1 (vfp_sqrt_op1 i) AND 0xf)
          OR reg_at 5 (vfp_sqrt_op1 i AND 1)
          OR reg_at 12 (drop_bit 1 (vfp_sqrt_dest i) AND 0xf)
          OR reg_at 22 (vfp_sqrt_dest i AND 1))
     OR cc_at_28 (vfp_sqrt_ccode i)"

fun vfp_sysreg_bits :: "vfp_sysreg \<Rightarrow> u32" where
  "vfp_sysreg_bits SYSREG_FPSID = 0"
| "vfp_sysreg_bits SYSREG_FPSCR = push_bit 16 1"
| "vfp_sysreg_bits SYSREG_FPEXC = push_bit 16 8"

definition vfp_sysreg_word :: "vfp_sysreg_type \<Rightarrow> vfp_sysreg_instr \<Rightarrow> u32" where
  "vfp_sysreg_word t i =
     (if t = VFP_FMRX then 0xef00a10 else 0xee00a10)
     OR reg_at 12 (vfp_sysreg_arm_reg i AND 0xf) OR vfp_sysreg_bits (vfp_sysreg_reg i)
     OR cc_at_28 (vfp_sysreg_ccode i)"

definition vfp_cvt_word :: "vfp_cvt_type \<Rightarrow> vfp_cvt_instr \<Rightarrow> u32" where
  "vfp_cvt_word t i =
     (case t of
        VFP_FCVTDS \<Rightarrow>
          0xeb70ac0 OR reg_at 12 (vfp_cvt_dest i)
          OR ucast (drop_bit 1 (vfp_cvt_op1 i) OR push_bit 5 (vfp_cvt_op1 i AND 1))
      | VFP_FCVTSD \<Rightarrow>
          0xeb70bc0 OR ucast (vfp_cvt_op1 i AND 0xf)
          OR ucast (push_bit 11 (vfp_cvt_dest i AND 0x1e) OR push_bit 22 (vfp_cvt_dest i AND 1)))
     OR cc_at_28 (vfp_cvt_ccode i)"

section \<open>One word per instruction\<close>

text \<open>
  The word of an instruction that is written as a single word. The pseudo instructions (constant
  and address loads, conditional moves), which expand or add to a constant pool, have none.
\<close>

fun instr_word :: "arm_instr \<Rightarrow> u32 c_result option" where
  "instr_word (Data t i) = Some (data_word t i)"
| "instr_word (Mul t i) = Some (mul_word t i)"
| "instr_word (Stran t i) = Some (stran_word t i)"
| "instr_word (Mtran d i) = Some (Inr (mtran_word d i))"
| "instr_word (Br i) = Some (Inr (br_word i))"
| "instr_word (Swi i) = Some (Inr (swi_word i))"
| "instr_word (Flags t i) = Some (Inr (flags_word t i))"
| "instr_word (Fpa_data t i) = Some (Inr (fpa_data_word (fpa_dyadic t) t i))"
| "instr_word (Fpa_stran t i) = Some (Inr (fpa_stran_word t i))"
| "instr_word (Fpa_tran t i) = Some (fpa_tran_word t i)"
| "instr_word (Fpa_cmp t i) = Some (Inr (fpa_cmp_word t i))"
| "instr_word (Fpa_cptran t i) = Some (Inr (fpa_cptran_word t i))"
| "instr_word (Vfp_stran t i) = Some (Inr (vfp_stran_word t i))"
| "instr_word (Vfp_copy t i) = Some (Inr (vfp_copy_word t i))"
| "instr_word (Vfp_tran t i) = Some (Inr (vfp_tran_word t i))"
| "instr_word (Vfp_cptran t i) = Some (Inr (vfp_cptran_word t i))"
| "instr_word (Vfp_data t i) = Some (Inr (vfp_data_word t i))"
| "instr_word (Vfp_cmp t i) = Some (Inr (vfp_cmp_word t i))"
| "instr_word (Vfp_sqrt t i) = Some (Inr (vfp_sqrt_word t i))"
| "instr_word (Vfp_sysreg t i) = Some (Inr (vfp_sysreg_word t i))"
| "instr_word (Vfp_tran_dbl t i) = Some (vfp_tran_dbl_word t i)"
| "instr_word (Vfp_cvt t i) = Some (Inr (vfp_cvt_word t i))"
| "instr_word (Stran_misc d i) = Some (stran_misc_word d i)"
| "instr_word (Simd t i) = Some (Inr (simd_word t i))"
| "instr_word (Signx t i) = Some (Inr (signx_word t i))"
| "instr_word _ = None"

end
