(* ===== verification/Arm_Disass.thy ===== *)
theory Arm_Disass
  imports Arm_Core
begin

text \<open>
  The instruction decoder of arch/arm32/arm_disass.c. It fills a structure that its caller has
  allocated. It leaves some members of that structure as they were; their earlier contents are an
  argument \<open>stale\<close> of the decoder. A path that returns with no error and has not
  even written the instruction's type is \<open>Undefined\<close>: the caller would read an indeterminate tag.
\<close>

record stale =
  stale_rn :: arm_reg
  stale_local :: bool
  stale_indirect :: bool
  stale_read_mask :: u32
  stale_write_mask :: u32
  stale_mtran_status :: bool
  stale_pre_indexed :: bool

text \<open>The field of \<open>encoded\<close> that starts at bit \<open>n\<close>, and its use as a register number.\<close>

definition field :: "u32 \<Rightarrow> nat \<Rightarrow> u32 \<Rightarrow> u32" where
  "field encoded n m = drop_bit n encoded AND m"

definition reg_field :: "u32 \<Rightarrow> nat \<Rightarrow> u32 \<Rightarrow> arm_reg" where
  "reg_field encoded n m = ucast (field encoded n m)"

definition bit_set :: "u32 \<Rightarrow> nat \<Rightarrow> bool" where
  "bit_set encoded n \<longleftrightarrow> encoded AND push_bit n 1 \<noteq> 0"

definition cc_of :: "u32 \<Rightarrow> ccode" where
  "cc_of encoded = ccode_of (drop_bit 28 encoded)"

text \<open>
  The number of a single precision register is split over a four bit field and one low bit: in
  \<open>single_at\<close> the field starts at bit \<open>n + 1\<close> and the low bit is bit \<open>l\<close>; in the lowest field
  it is \<open>single_0\<close>.
\<close>

definition single_at :: "u32 \<Rightarrow> nat \<Rightarrow> nat \<Rightarrow> arm_reg" where
  "single_at encoded n l = ucast ((drop_bit n encoded AND 0x1e) OR (drop_bit l encoded AND 1))"

definition single_0 :: "u32 \<Rightarrow> nat \<Rightarrow> arm_reg" where
  "single_0 encoded l = ucast (push_bit 1 (encoded AND 0xf) OR (drop_bit l encoded AND 1))"

section \<open>Integer instructions\<close>

definition prv_decode_mul :: "stale \<Rightarrow> u32 \<Rightarrow> arm_instr" where
  "prv_decode_mul st encoded =
     Mul (if bit_set encoded 21 then INSTR_MLA else INSTR_MUL)
       \<lparr>mul_ccode = cc_of encoded, mul_status = (field encoded 20 1 \<noteq> 0),
        mul_dest = reg_field encoded 16 0xf, mul_rm = ucast (encoded AND 0xf),
        mul_rs = reg_field encoded 8 0xf,
        mul_rn = (if bit_set encoded 21 then reg_field encoded 12 0xf else stale_rn st)\<rparr>"

definition prv_decode_swi :: "stale \<Rightarrow> u32 \<Rightarrow> arm_instr" where
  "prv_decode_swi st encoded =
     Swi \<lparr>swi_ccode = cc_of encoded, swi_code = ucast (encoded AND 0xffffff),
          swi_reg_read_mask = stale_read_mask st, swi_reg_write_mask = stale_write_mask st\<rparr>"

definition prv_decode_branch :: "stale \<Rightarrow> u32 \<Rightarrow> arm_instr" where
  "prv_decode_branch st encoded =
     Br \<lparr>br_ccode = cc_of encoded, br_link = bit_set encoded 24,
         br_local = stale_local st, br_indirect = stale_indirect st, br_kind = BR_LINK_VOID,
         br_target = Target_offset (if encoded AND 0x800000 \<noteq> 0 then encoded OR 0xff000000
                                    else encoded AND 0xffffff)\<rparr>"

definition prv_decode_mtran :: "stale \<Rightarrow> u32 \<Rightarrow> arm_instr c_result" where
  "prv_decode_mtran st encoded =
     (if bit_set encoded 22 then Inl assertion_failed
      else Inr (Mtran (if bit_set encoded 20 then INSTR_LDM else INSTR_STM)
        \<lparr>mtran_ccode = cc_of encoded, mtran_op0 = reg_field encoded 16 0xf,
         mtran_reg_list = ucast (encoded AND 0xffff),
         mtran_kind = (if bit_set encoded 23
                       then (if bit_set encoded 24 then MTRAN_IB else MTRAN_IA)
                       else (if bit_set encoded 24 then MTRAN_DB else MTRAN_DA)),
         mtran_write_back = bit_set encoded 21, mtran_status = stale_mtran_status st\<rparr>))"

definition shtype :: "shift_type list" where
  "shtype = [SHIFT_LSL, SHIFT_LSR, SHIFT_ASR, SHIFT_ROR]"

definition decode_shift_integer :: "u32 \<Rightarrow> shift_amount" where
  "decode_shift_integer encoded =
     Shift_integer (if field encoded 7 0x1f = 0 then 32 else field encoded 7 0x1f)"

definition prv_decode_op2 :: "u32 \<Rightarrow> arm_op2" where
  "prv_decode_op2 encoded =
     (if bit_set encoded 25 then OP2_I32 (encoded AND 0xfff)
      else if encoded AND 0xff0 \<noteq> 0
      then OP2_SHIFTED
             \<lparr>shift_of_reg = ucast (encoded AND 0xf),
              shift_kind = shtype ! unat (field encoded 5 3),
              shift_by = (if bit_set encoded 4 then Shift_reg (reg_field encoded 8 0xf)
                          else decode_shift_integer encoded)\<rparr>
      else OP2_REG (ucast (encoded AND 0xf)))"

definition prv_decode_stran_op2 :: "u32 \<Rightarrow> arm_op2" where
  "prv_decode_stran_op2 encoded =
     (if bit_set encoded 25
      then (if encoded AND 0xff0 \<noteq> 0
            then OP2_SHIFTED
                   \<lparr>shift_of_reg = ucast (encoded AND 0xf),
                    shift_kind = shtype ! unat (field encoded 5 3),
                    shift_by = decode_shift_integer encoded\<rparr>
            else OP2_REG (ucast (encoded AND 0xf)))
      else OP2_I32 (encoded AND 0xfff))"

definition prv_decode_stran :: "u32 \<Rightarrow> arm_instr" where
  "prv_decode_stran encoded =
     Stran (if bit_set encoded 20 then INSTR_LDR else INSTR_STR)
       \<lparr>stran_ccode = cc_of encoded, stran_dest = reg_field encoded 12 0xf,
        stran_base = reg_field encoded 16 0xf, stran_offset = prv_decode_stran_op2 encoded,
        stran_pre_indexed = bit_set encoded 24, stran_write_back = bit_set encoded 21,
        stran_subtract = (\<not> bit_set encoded 23), stran_byte = bit_set encoded 22\<rparr>"

definition prv_decode_datai :: "u32 \<Rightarrow> arm_instr" where
  "prv_decode_datai encoded =
     Data (data_of (field encoded 21 0xf))
       \<lparr>data_ccode = cc_of encoded, data_status = (field encoded 20 1 \<noteq> 0),
        data_dest = reg_field encoded 12 0xf, data_op1 = reg_field encoded 16 0xf,
        data_op2 = prv_decode_op2 encoded\<rparr>"

definition prv_decode_mrs :: "u32 \<Rightarrow> arm_instr" where
  "prv_decode_mrs encoded =
     Flags INSTR_MRS
       \<lparr>flags_ccode = cc_of encoded,
        flags_flag_reg = (if bit_set encoded 22 then FLAGS_SPSR else FLAGS_CPSR),
        flags_fields = 0, flags_op = Flags_reg (reg_field encoded 12 0xf)\<rparr>"

definition prv_decode_msr :: "u32 \<Rightarrow> arm_instr" where
  "prv_decode_msr encoded =
     Flags INSTR_MSR
       \<lparr>flags_ccode = cc_of encoded,
        flags_flag_reg = (if bit_set encoded 22 then FLAGS_SPSR else FLAGS_CPSR),
        flags_fields = encoded AND push_bit 16 0xf,
        flags_op = (if bit_set encoded 25 then Flags_integer (encoded AND 0xfff)
                    else Flags_reg (ucast (encoded AND 0xf)))\<rparr>"

fun misc_type_of :: "u32 \<Rightarrow> (stran_misc_dir \<times> stran_misc_type) option" where
  "misc_type_of t =
     (if t = 1 then Some (STRAN_MISC_STR, STRAN_MISC_H)
      else if t = 2 then Some (STRAN_MISC_LDR, STRAN_MISC_D)
      else if t = 3 then Some (STRAN_MISC_STR, STRAN_MISC_D)
      else if t = 5 then Some (STRAN_MISC_LDR, STRAN_MISC_H)
      else if t = 6 then Some (STRAN_MISC_LDR, STRAN_MISC_SB)
      else if t = 7 then Some (STRAN_MISC_LDR, STRAN_MISC_SH)
      else None)"

definition prv_decode_stran_misc :: "stale \<Rightarrow> u32 \<Rightarrow> arm_instr c_result" where
  "prv_decode_stran_misc st encoded =
     (case misc_type_of (drop_bit 18 (encoded AND push_bit 20 1) OR (drop_bit 5 encoded AND 3)) of
        None \<Rightarrow> Inl assertion_failed
      | Some (dir, type) \<Rightarrow>
          Inr (Stran_misc dir
            \<lparr>misc_type = type, misc_ccode = cc_of encoded,
             misc_dest = reg_field encoded 12 0xf, misc_base = reg_field encoded 16 0xf,
             misc_offset = (if encoded AND 22 \<noteq> 0
                            then Misc_imm (ucast ((encoded AND 0xf) OR (drop_bit 8 encoded AND 0xf)))
                            else Misc_reg (ucast (encoded AND 0xf))),
             misc_pre_indexed = stale_pre_indexed st,
             misc_write_back = bit_set encoded 21, misc_subtract = (\<not> bit_set encoded 23)\<rparr>))"

definition simd_types :: "(u32 \<times> simd_type) list" where
  "simd_types =
    [(0x06200010, SIMD_QADD16), (0x06200090, SIMD_QADD8), (0x06200030, SIMD_QADDSUBX),
     (0x06200070, SIMD_QSUB16), (0x062000f0, SIMD_QSUB8), (0x06200050, SIMD_QSUBADDX),
     (0x06100010, SIMD_SADD16), (0x06100090, SIMD_SADD8), (0x06100030, SIMD_SADDSUBX),
     (0x06100070, SIMD_SSUB16), (0x061000f0, SIMD_SSUB8), (0x06100050, SIMD_SSUBADDX),
     (0x06300010, SIMD_SHADD16), (0x06300090, SIMD_SHADD8), (0x06300030, SIMD_SHADDSUBX),
     (0x06300070, SIMD_SHSUB16), (0x063000f0, SIMD_SHSUB8), (0x06300050, SIMD_SHSUBADDX),
     (0x06500010, SIMD_UADD16), (0x06500090, SIMD_UADD8), (0x06500030, SIMD_UADDSUBX),
     (0x06500070, SIMD_USUB16), (0x065000f0, SIMD_USUB8), (0x06500050, SIMD_USUBADDX),
     (0x06700010, SIMD_UHADD16), (0x06700090, SIMD_UHADD8), (0x06700030, SIMD_UHADDSUBX),
     (0x06700070, SIMD_UHSUB16), (0x067000f0, SIMD_UHSUB8), (0x06700050, SIMD_UHSUBADDX),
     (0x06600010, SIMD_UQADD16), (0x06600090, SIMD_UQADD8), (0x06600030, SIMD_UQADDSUBX),
     (0x06600070, SIMD_UQSUB16), (0x066000f0, SIMD_UQSUB8), (0x06600050, SIMD_UQSUBADDX)]"

definition prv_decode_simd :: "u32 \<Rightarrow> arm_instr c_result" where
  "prv_decode_simd encoded =
     (case map_of simd_types (encoded AND 0x0ff000f0) of
        None \<Rightarrow> Inl assertion_failed
      | Some t \<Rightarrow>
          Inr (Simd t \<lparr>reg_only_ccode = cc_of encoded, reg_only_dest = reg_field encoded 12 0xf,
                       reg_only_op1 = reg_field encoded 16 0xf,
                       reg_only_op2 = ucast (encoded AND 0xf)\<rparr>))"

definition signx_rotates :: "signx_rotate list" where
  "signx_rotates = [ROR_NONE, ROR_8, ROR_16, ROR_24]"

definition prv_decode_signx :: "u32 \<Rightarrow> arm_instr c_result" where
  "prv_decode_signx encoded =
     (case map_of [(10, INSTR_SXTB), (8, INSTR_SXTB16), (11, INSTR_SXTH)] (field encoded 20 0xf) of
        None \<Rightarrow> Inl assertion_failed
      | Some t \<Rightarrow>
          Inr (Signx t \<lparr>signx_ccode = cc_of encoded,
                        signx_rotate = signx_rotates ! unat (field encoded 10 3),
                        signx_dest = reg_field encoded 12 0xf,
                        signx_op1 = ucast (encoded AND 0xf)\<rparr>))"

section \<open>FPA instructions\<close>

text \<open>The sizes 4, 8 and 12; the code computes \<^verbatim>\<open>4 << scratch\<close>.\<close>

definition size_of_bits :: "u32 \<Rightarrow> nat c_result" where
  "size_of_bits scratch = (if scratch = 3 then Inl assertion_failed else Inr (4 * 2 ^ unat scratch))"

definition prv_decode_fpa_stran :: "u32 \<Rightarrow> arm_instr c_result" where
  "prv_decode_fpa_stran encoded =
     rbind (size_of_bits ((drop_bit 21 encoded AND 2) OR (drop_bit 15 encoded AND 1))) (\<lambda>sz.
       Inr (Fpa_stran (if bit_set encoded 20 then FPA_LDF else FPA_STF)
         \<lparr>fpa_stran_ccode = cc_of encoded, fpa_stran_size = sz,
          fpa_stran_dest = reg_field encoded 12 7, fpa_stran_base = reg_field encoded 16 0xf,
          fpa_stran_offset = ucast (encoded AND 0xff),
          fpa_stran_pre_indexed = bit_set encoded 24,
          fpa_stran_write_back = bit_set encoded 21,
          fpa_stran_subtract = (\<not> bit_set encoded 23)\<rparr>))"

definition prv_fpa_data_opcodes :: "fpa_data_type option list" where
  "prv_fpa_data_opcodes =
    [Some FPA_ADF, Some FPA_MVF, Some FPA_MUF, Some FPA_MNF, Some FPA_SUF, Some FPA_ABS,
     Some FPA_RSF, Some FPA_RND, Some FPA_DVF, Some FPA_SQT, Some FPA_RDF, Some FPA_LOG,
     Some FPA_POW, Some FPA_LGN, Some FPA_RPW, Some FPA_EXP, Some FPA_RMF, Some FPA_SIN,
     Some FPA_FML, Some FPA_COS, Some FPA_FDV, Some FPA_TAN, Some FPA_FRD, Some FPA_ASN,
     Some FPA_POL, Some FPA_ACS, None, Some FPA_ATN, None, Some FPA_URD, None, Some FPA_NRM]"

definition prv_fpa_encode_op2 :: "u32 \<Rightarrow> fpa_op2" where
  "prv_fpa_encode_op2 encoded =
     (if bit_set encoded 3 then Fpa_imm (ucast (encoded AND 0xf))
      else Fpa_reg (ucast (encoded AND 7)))"

text \<open>The C cast of a two bit number to the rounding mode.\<close>

definition rounding_of :: "u32 \<Rightarrow> fpa_rounding" where
  "rounding_of w = [ROUNDING_NEAREST, ROUNDING_PLUS_INFINITY, ROUNDING_MINUS_INFINITY,
                    ROUNDING_ZERO] ! unat w"

definition prv_decode_fpa_data :: "u32 \<Rightarrow> arm_instr c_result" where
  "prv_decode_fpa_data encoded =
     (case prv_fpa_data_opcodes
             ! unat ((drop_bit 19 encoded AND 0x1E) OR (drop_bit 15 encoded AND 1)) of
        None \<Rightarrow> Inl assertion_failed
      | Some t \<Rightarrow>
          rbind (size_of_bits ((drop_bit 18 encoded AND 2) OR (drop_bit 7 encoded AND 1))) (\<lambda>sz.
            Inr (Fpa_data t
              \<lparr>fpa_data_ccode = cc_of encoded, fpa_data_rounding = rounding_of (field encoded 5 3),
               fpa_data_size = sz, fpa_data_dest = reg_field encoded 12 7,
               fpa_data_op1 = (if bit_set encoded 15 then 6 else reg_field encoded 16 7),
               fpa_data_op2 = prv_fpa_encode_op2 encoded\<rparr>)))"

definition prv_decode_fpa_cmp :: "u32 \<Rightarrow> arm_instr c_result" where
  "prv_decode_fpa_cmp encoded =
     (case map_of [(4, FPA_CMF), (5, FPA_CNF), (6, FPA_CMFE), (7, FPA_CNFE)] (field encoded 21 7) of
        None \<Rightarrow> Inl assertion_failed
      | Some t \<Rightarrow>
          Inr (Fpa_cmp t \<lparr>fpa_cmp_ccode = cc_of encoded, fpa_cmp_dest = reg_field encoded 16 7,
                          fpa_cmp_op2 = prv_fpa_encode_op2 encoded\<rparr>))"

definition prv_decode_fpa_tran :: "u32 \<Rightarrow> arm_instr c_result" where
  "prv_decode_fpa_tran encoded =
     (if field encoded 20 0xf = 0
      then rbind (size_of_bits ((drop_bit 18 encoded AND 2) OR (drop_bit 7 encoded AND 1))) (\<lambda>sz.
             Inr (Fpa_tran FPA_FLT
               \<lparr>fpa_tran_ccode = cc_of encoded, fpa_tran_dest = reg_field encoded 16 7,
                fpa_tran_op2 = Fpa_reg (reg_field encoded 12 0xf), fpa_tran_size = sz,
                fpa_tran_rounding = rounding_of (field encoded 5 3)\<rparr>))
      else if field encoded 20 0xf = 1
      then Inr (Fpa_tran FPA_FIX
             \<lparr>fpa_tran_ccode = cc_of encoded, fpa_tran_dest = reg_field encoded 12 0xf,
              fpa_tran_op2 = prv_fpa_encode_op2 encoded, fpa_tran_size = 0,
              fpa_tran_rounding = rounding_of (field encoded 5 3)\<rparr>)
      else Inl assertion_failed)"

definition prv_decode_fpa_cptran :: "u32 \<Rightarrow> u32 \<Rightarrow> arm_instr" where
  "prv_decode_fpa_cptran sel encoded =
     Fpa_cptran (if sel = 2 then FPA_WFS else FPA_RFS)
       \<lparr>fpa_cptran_ccode = cc_of encoded, fpa_cptran_dest = reg_field encoded 12 0xf\<rparr>"

text \<open>The result is none where the C function returns false.\<close>

definition prv_fpa_disass :: "u32 \<Rightarrow> arm_instr c_result option" where
  "prv_fpa_disass encoded =
     (if field encoded 25 7 = 6 then Some (prv_decode_fpa_stran encoded)
      else if field encoded 25 7 = 7
      then (if \<not> bit_set encoded 4 then Some (prv_decode_fpa_data encoded)
            else if field encoded 12 0xf = 0xf then Some (prv_decode_fpa_cmp encoded)
            else if field encoded 20 7 \<le> 1 then Some (prv_decode_fpa_tran encoded)
            else if field encoded 20 7 = 2 \<or> field encoded 20 7 = 3
            then Some (Inr (prv_decode_fpa_cptran (field encoded 20 7) encoded))
            else None)
      else None)"

section \<open>VFP instructions\<close>

definition prv_vfp_disass_sysreg :: "u32 \<Rightarrow> arm_instr c_result" where
  "prv_vfp_disass_sysreg encoded =
     (case map_of [(0, SYSREG_FPSID), (1, SYSREG_FPSCR), (8, SYSREG_FPEXC)] (field encoded 16 0xf) of
        None \<Rightarrow> Inl assertion_failed
      | Some r \<Rightarrow>
          if field encoded 7 1 \<noteq> 0 then Inl assertion_failed
          else Inr (Vfp_sysreg (if field encoded 20 1 \<noteq> 0 then VFP_FMRX else VFP_FMXR)
                 \<lparr>vfp_sysreg_ccode = cc_of encoded, vfp_sysreg_reg = r,
                  vfp_sysreg_arm_reg = reg_field encoded 12 0xf\<rparr>))"

definition prv_vfp_disass_cptrans :: "u32 \<Rightarrow> arm_instr c_result" where
  "prv_vfp_disass_cptrans encoded =
     (if field encoded 20 0xf = 0
      then Inr (Vfp_cptran VFP_FMSR
             \<lparr>vfp_tran_ccode = cc_of encoded, vfp_tran_use_dregs = False,
              vfp_tran_dest = single_at encoded 15 7, vfp_tran_src = reg_field encoded 12 0xf\<rparr>)
      else if field encoded 20 0xf = 1
      then Inr (Vfp_cptran VFP_FMRS
             \<lparr>vfp_tran_ccode = cc_of encoded, vfp_tran_use_dregs = False,
              vfp_tran_dest = reg_field encoded 12 0xf, vfp_tran_src = single_at encoded 15 7\<rparr>)
      else Inl Undefined)"

definition prv_vfp_disass_copys :: "u32 \<Rightarrow> u32 \<Rightarrow> u32 \<Rightarrow> arm_instr" where
  "prv_vfp_disass_copys encoded opcode n =
     Vfp_copy (if opcode = 0 then (if n \<noteq> 0 then VFP_FABSS else VFP_FCPYS) else VFP_FNEGS)
       \<lparr>vfp_copy_ccode = cc_of encoded, vfp_copy_dest = single_at encoded 11 22,
        vfp_copy_src = single_0 encoded 5\<rparr>"

definition prv_vfp_disass_cmps :: "u32 \<Rightarrow> u32 \<Rightarrow> u32 \<Rightarrow> arm_instr" where
  "prv_vfp_disass_cmps encoded opcode n =
     Vfp_cmp (if opcode = 4 then (if n \<noteq> 0 then VFP_FCMPES else VFP_FCMPS)
              else (if n \<noteq> 0 then VFP_FCMPEZS else VFP_FCMPZS))
       \<lparr>vfp_cmp_ccode = cc_of encoded, vfp_cmp_op1 = single_at encoded 11 5,
        vfp_cmp_op2 = single_0 encoded 22\<rparr>"

definition prv_vfp_disass_trans :: "u32 \<Rightarrow> u32 \<Rightarrow> u32 \<Rightarrow> arm_instr" where
  "prv_vfp_disass_trans encoded opcode n =
     Vfp_tran (if opcode = 8 then (if n \<noteq> 0 then VFP_FSITOS else VFP_FUITOS)
               else if opcode = 12 then (if n \<noteq> 0 then VFP_FTOUIZS else VFP_FTOUIS)
               else (if n \<noteq> 0 then VFP_FTOSIZS else VFP_FTOSIS))
       \<lparr>vfp_tran_ccode = cc_of encoded, vfp_tran_use_dregs = False,
        vfp_tran_dest = single_at encoded 11 22, vfp_tran_src = single_0 encoded 5\<rparr>"

definition prv_vfp_disass_extensions :: "u32 \<Rightarrow> arm_instr c_result" where
  "prv_vfp_disass_extensions encoded =
     (let opcode = field encoded 16 0xf; n = field encoded 7 1
      in if opcode = 0 then Inr (prv_vfp_disass_copys encoded opcode n)
         else if opcode = 1
         then (if n = 0 then Inr (prv_vfp_disass_copys encoded opcode n)
               else Inr (Vfp_sqrt VFP_FSQRTS
                      \<lparr>vfp_sqrt_ccode = cc_of encoded, vfp_sqrt_dest = single_at encoded 11 22,
                       vfp_sqrt_op1 = single_0 encoded 5\<rparr>))
         else if opcode = 4 \<or> opcode = 5 then Inr (prv_vfp_disass_cmps encoded opcode n)
         else if opcode = 8 \<or> opcode = 12 \<or> opcode = 13
         then Inr (prv_vfp_disass_trans encoded opcode n)
         else Inl Undefined)"

definition prv_vfp_disass_copyd :: "u32 \<Rightarrow> u32 \<Rightarrow> u32 \<Rightarrow> arm_instr" where
  "prv_vfp_disass_copyd encoded opcode n =
     Vfp_copy (if opcode = 0 then (if n \<noteq> 0 then VFP_FABSD else VFP_FCPYD) else VFP_FNEGD)
       \<lparr>vfp_copy_ccode = cc_of encoded, vfp_copy_dest = reg_field encoded 12 0xf,
        vfp_copy_src = ucast (encoded AND 0xf)\<rparr>"

definition prv_vfp_disass_cmpd :: "u32 \<Rightarrow> u32 \<Rightarrow> u32 \<Rightarrow> arm_instr" where
  "prv_vfp_disass_cmpd encoded opcode n =
     Vfp_cmp (if opcode = 4 then (if n \<noteq> 0 then VFP_FCMPED else VFP_FCMPD)
              else (if n \<noteq> 0 then VFP_FCMPEZD else VFP_FCMPZD))
       \<lparr>vfp_cmp_ccode = cc_of encoded, vfp_cmp_op1 = reg_field encoded 12 0xf,
        vfp_cmp_op2 = ucast (encoded AND 0xf)\<rparr>"

definition prv_vfp_disass_trand :: "u32 \<Rightarrow> u32 \<Rightarrow> u32 \<Rightarrow> arm_instr" where
  "prv_vfp_disass_trand encoded opcode n =
     Vfp_tran (if opcode = 8 then (if n \<noteq> 0 then VFP_FSITOD else VFP_FUITOD)
               else if opcode = 12 then (if n \<noteq> 0 then VFP_FTOUIZD else VFP_FTOUID)
               else (if n \<noteq> 0 then VFP_FTOSIZD else VFP_FTOSID))
       \<lparr>vfp_tran_ccode = cc_of encoded, vfp_tran_use_dregs = False,
        vfp_tran_dest = (if opcode = 8 then reg_field encoded 12 0xf else single_at encoded 11 22),
        vfp_tran_src = (if opcode = 8 then single_0 encoded 5 else ucast (encoded AND 0xf))\<rparr>"

definition prv_vfp_disass_extensiond :: "u32 \<Rightarrow> arm_instr c_result" where
  "prv_vfp_disass_extensiond encoded =
     (let opcode = field encoded 16 0xf; n = field encoded 7 1
      in if opcode = 0 then Inr (prv_vfp_disass_copyd encoded opcode n)
         else if opcode = 1
         then (if n = 0 then Inr (prv_vfp_disass_copyd encoded opcode n)
               else Inr (Vfp_sqrt VFP_FSQRTD
                      \<lparr>vfp_sqrt_ccode = cc_of encoded, vfp_sqrt_dest = reg_field encoded 12 0xf,
                       vfp_sqrt_op1 = ucast (encoded AND 0xf)\<rparr>))
         else if opcode = 4 \<or> opcode = 5 then Inr (prv_vfp_disass_cmpd encoded opcode n)
         else if opcode = 8 \<or> opcode = 12 \<or> opcode = 13
         then Inr (prv_vfp_disass_trand encoded opcode n)
         else Inl Undefined)"

definition prv_vfp_disass_tran_dbl :: "u32 \<Rightarrow> arm_instr c_result" where
  "prv_vfp_disass_tran_dbl encoded =
     (let key = encoded AND 0xf400af0;
          double = ucast (encoded AND 0xf); single = single_0 encoded 5;
          lo = reg_field encoded 12 0xf; hi = reg_field encoded 16 0xf
      in if key = 0xc400b10
         then Inr (Vfp_tran_dbl VFP_FMDRR
                \<lparr>vfp_tran_dbl_ccode = cc_of encoded, vfp_tran_dbl_dest1 = double,
                 vfp_tran_dbl_dest2 = 0, vfp_tran_dbl_src1 = lo, vfp_tran_dbl_src2 = hi\<rparr>)
         else if key = 0xc500b10
         then Inr (Vfp_tran_dbl VFP_FMRRD
                \<lparr>vfp_tran_dbl_ccode = cc_of encoded, vfp_tran_dbl_dest1 = lo,
                 vfp_tran_dbl_dest2 = hi, vfp_tran_dbl_src1 = double, vfp_tran_dbl_src2 = 0\<rparr>)
         else if key = 0xc400a10
         then Inr (Vfp_tran_dbl VFP_FMRRS
                \<lparr>vfp_tran_dbl_ccode = cc_of encoded, vfp_tran_dbl_dest1 = lo,
                 vfp_tran_dbl_dest2 = hi, vfp_tran_dbl_src1 = single,
                 vfp_tran_dbl_src2 = single + 1\<rparr>)
         else if key = 0xc500a10
         then Inr (Vfp_tran_dbl VFP_FMSRR
                \<lparr>vfp_tran_dbl_ccode = cc_of encoded, vfp_tran_dbl_dest1 = single,
                 vfp_tran_dbl_dest2 = single + 1, vfp_tran_dbl_src1 = lo,
                 vfp_tran_dbl_src2 = hi\<rparr>)
         else Inl assertion_failed)"

definition prv_vfp_disass_stran :: "u32 \<Rightarrow> arm_instr c_result" where
  "prv_vfp_disass_stran encoded =
     (let dbl = (field encoded 8 0xf = 0xb)
      in if dbl \<and> field encoded 22 1 \<noteq> 0 then Inl assertion_failed
         else Inr (Vfp_stran
                (if dbl then (if bit_set encoded 20 then VFP_FLDD else VFP_FSTD)
                 else (if bit_set encoded 20 then VFP_FLDS else VFP_FSTS))
                \<lparr>vfp_stran_ccode = cc_of encoded,
                 vfp_stran_dest = (if dbl then reg_field encoded 12 0xf
                                   else single_at encoded 11 22),
                 vfp_stran_base = reg_field encoded 16 0xf,
                 vfp_stran_offset = ucast (encoded AND 0xff),
                 vfp_stran_pre_indexed = bit_set encoded 24,
                 vfp_stran_write_back = bit_set encoded 21,
                 vfp_stran_subtract = (\<not> bit_set encoded 23)\<rparr>))"

definition vfp_data_doubles :: "vfp_data_type list" where
  "vfp_data_doubles = [VFP_FMACD, VFP_FNMACD, VFP_FMSCD, VFP_FNMSCD, VFP_FMULD, VFP_FNMULD,
                       VFP_FADDD, VFP_FSUBD, VFP_FDIVD]"

definition vfp_data_singles :: "vfp_data_type list" where
  "vfp_data_singles = [VFP_FMACS, VFP_FNMACS, VFP_FMSCS, VFP_FNMSCS, VFP_FMULS, VFP_FNMULS,
                       VFP_FADDS, VFP_FSUBS, VFP_FDIVS]"

definition prv_vfp_disass_data :: "u32 \<Rightarrow> arm_instr c_result" where
  "prv_vfp_disass_data encoded =
     (let opcode = (drop_bit 6 encoded AND 1) OR (drop_bit 19 encoded AND 6)
                   OR (drop_bit 20 encoded AND 8);
          dbl = (field encoded 8 0xf = 0xb)
      in if dbl
         then (if opcode \<le> 8
               then Inr (Vfp_data (vfp_data_doubles ! unat opcode)
                      \<lparr>vfp_data_ccode = cc_of encoded, vfp_data_dest = reg_field encoded 12 0xf,
                       vfp_data_op1 = reg_field encoded 16 0xf,
                       vfp_data_op2 = ucast (encoded AND 0xf)\<rparr>)
               else if opcode = 15 then prv_vfp_disass_extensiond encoded
               else Inl assertion_failed)
         else (if opcode \<le> 8
               then Inr (Vfp_data (vfp_data_singles ! unat opcode)
                      \<lparr>vfp_data_ccode = cc_of encoded, vfp_data_dest = single_at encoded 11 22,
                       vfp_data_op1 = single_at encoded 15 7,
                       vfp_data_op2 = single_0 encoded 5\<rparr>)
               else if opcode = 15 then prv_vfp_disass_extensions encoded
               else Inl assertion_failed))"

definition prv_vfp_disass_cvt :: "u32 \<Rightarrow> arm_instr" where
  "prv_vfp_disass_cvt encoded =
     (if encoded AND 0x100 \<noteq> 0
      then Vfp_cvt VFP_FCVTSD
             \<lparr>vfp_cvt_ccode = cc_of encoded, vfp_cvt_dest = single_at encoded 11 22,
              vfp_cvt_op1 = ucast (encoded AND 0xf)\<rparr>
      else Vfp_cvt VFP_FCVTDS
             \<lparr>vfp_cvt_ccode = cc_of encoded, vfp_cvt_dest = reg_field encoded 12 0xf,
              vfp_cvt_op1 = single_0 encoded 5\<rparr>)"

definition prv_vfp_disass :: "u32 \<Rightarrow> arm_instr c_result option" where
  "prv_vfp_disass encoded =
     (if encoded AND 0xeb70ac0 = 0xeb70ac0 then Some (Inr (prv_vfp_disass_cvt encoded))
      else if encoded AND 0xf000a10 = 0xe000a10
      then (if field encoded 21 7 = 7 then Some (prv_vfp_disass_sysreg encoded)
            else Some (prv_vfp_disass_cptrans encoded))
      else if encoded AND 0xf400af0 = 0xc400a10 then Some (prv_vfp_disass_tran_dbl encoded)
      else if encoded AND 0x0e000000 = 0x0c000000
              \<and> (encoded AND 0xf00 = 0xa00 \<or> encoded AND 0xf00 = 0xb00)
      then Some (prv_vfp_disass_stran encoded)
      else if encoded AND 0xe000a00 = 0xe000a00 \<or> encoded AND 0xe000b00 = 0xe000b00
      then Some (prv_vfp_disass_data encoded)
      else None)"

section \<open>The decoder\<close>

definition is_simd_word :: "u32 \<Rightarrow> bool" where
  "is_simd_word encoded \<longleftrightarrow>
     (let m = encoded AND 0x0ff00f00; k = drop_bit 4 (encoded AND 0xf0)
      in (m = 0x06100000 \<or> m = 0x06200000 \<or> m = 0x06300000 \<or> m = 0x06500000
          \<or> m = 0x06600000 \<or> m = 0x06700000)
         \<and> k AND 1 \<noteq> 0 \<and> k \<noteq> 11 \<and> k \<noteq> 13)"

definition subtilis_arm_disass :: "stale \<Rightarrow> u32 \<Rightarrow> bool \<Rightarrow> arm_instr c_result" where
  "subtilis_arm_disass st encoded vfp =
     (if encoded AND push_bit 22 0x3f = 0 \<and> field encoded 4 0xf = 9
      then Inr (prv_decode_mul st encoded)
      else if encoded AND push_bit 24 0xf = 0x0f000000 then Inr (prv_decode_swi st encoded)
      else if drop_bit 25 (encoded AND push_bit 25 7) = 5 then Inr (prv_decode_branch st encoded)
      else if drop_bit 25 (encoded AND push_bit 25 7) = 4 then prv_decode_mtran st encoded
      else if is_simd_word encoded then prv_decode_simd encoded
      else if encoded AND 0x68f0370 = 0x68f0070 then prv_decode_signx encoded
      else if drop_bit 26 (encoded AND push_bit 26 3) = 1 then Inr (prv_decode_stran encoded)
      else if encoded AND 0x0fbf0fff = push_bit 24 1 then Inr (prv_decode_mrs encoded)
      else if encoded AND 0x0db0f000 = 0x01200000 then Inr (prv_decode_msr encoded)
      else if (encoded AND 0x0e400090 = 0x400090 \<or> encoded AND 0x0e400f90 = 0x90)
              \<and> encoded AND 0x60 \<noteq> 0
      then prv_decode_stran_misc st encoded
      else if drop_bit 26 (encoded AND push_bit 26 3) = 0 then Inr (prv_decode_datai encoded)
      else case (if vfp then prv_vfp_disass encoded else prv_fpa_disass encoded) of
             Some r \<Rightarrow> r
           | None \<Rightarrow> Inl (Error (ERROR_BAD_INSTRUCTION encoded)))"

end
