(* ===== verification/Arm_Operands.thy ===== *)
theory Arm_Operands
  imports Arm_Encode_Words Arm_Disass
begin

text \<open>
  Operands written by the encoder and read back by the decoder: the lemmas that the round trips of
  the instruction classes share. A register operand is written as the extension of a word as wide as the field that holds it, so
  that an equation between 32-bit words splits into equations between bits, with no side
  conditions left.
\<close>

section \<open>Bits of the encoder's fields\<close>

lemma bit_high:
  "32 \<le> n \<Longrightarrow> \<not> bit (w::u32) n"
  "3 \<le> n \<Longrightarrow> \<not> bit (a::3 word) n"
  "4 \<le> n \<Longrightarrow> \<not> bit (b::4 word) n"
  "5 \<le> n \<Longrightarrow> \<not> bit (c::5 word) n"
  "8 \<le> n \<Longrightarrow> \<not> bit (d::u8) n"
  "12 \<le> n \<Longrightarrow> \<not> bit (e::12 word) n"
  "24 \<le> n \<Longrightarrow> \<not> bit (g::24 word) n"
  "16 \<le> n \<Longrightarrow> \<not> bit (f::u16) n"
  by (auto dest: bit_imp_le_length)

lemma bit_num_high:
  "4 \<le> n \<Longrightarrow> \<not> bit (ccode_num c) n"
  "4 \<le> n \<Longrightarrow> \<not> bit (data_num t) n"
  by (rule bit_lt_pow [of _ 4], simp_all)+

lemma bit_reg_at: "bit (reg_at k r) n \<longleftrightarrow> k \<le> n \<and> n < 32 \<and> bit r (n - k)"
  by (auto simp: reg_at_def bit_simps dest: bit_imp_le_length)

lemma bit_flag_at: "bit (flag_at k b) n \<longleftrightarrow> n = k \<and> b \<and> k < 32"
  by (auto simp: flag_at_def bit_simps)

lemma bit_cc_at_28: "bit (cc_at_28 c) n \<longleftrightarrow> 28 \<le> n \<and> n < 32 \<and> bit (ccode_num c) (n - 28)"
  by (auto simp: cc_at_28_def bit_simps)

lemma bit_times_2: "bit ((w::u32) * 2) n \<longleftrightarrow> 1 \<le> n \<and> n < 32 \<and> bit w (n - 1)"
  using bit_push_bit_iff [of 1 w n] by (auto simp: push_bit_eq_mult)

lemma bit_if: "bit (if c then x else y) n = (if c then bit x n else bit y n)"
  by simp

lemmas word_bits = u32_eq_iff_bits all_less_32 bit_simps small_nums bit_high bit_num_high
  bit_reg_at bit_flag_at bit_cc_at_28 bit_times_2 bit_if

lemma all_less_8: "(\<forall>n<8. P n) = (P 7 \<and> P 6 \<and> P 5 \<and> P 4 \<and> P 3 \<and> P 2 \<and> P 1 \<and> P (0::nat))"
  by (simp add: eval_nat_numeral All_less_Suc)

lemma u8_eq_iff_bits: "(a::u8) = b \<longleftrightarrow> (\<forall>n<8. bit a n = bit b n)"
  by (auto intro: bit_word_eqI)

lemmas u8_bits = u8_eq_iff_bits all_less_8 bit_simps bit_small_word small_nums

section \<open>Operands read back\<close>

lemma ucast_eq_ucast:
  fixes y :: "'a::len word"
  assumes "LENGTH('a) \<le> 32"
  shows "((ucast (x::u32) :: arm_reg) = ucast y) = (x = ucast y)"
proof
  assume h: "(ucast x :: arm_reg) = ucast y"
  show "x = ucast y"
  proof (rule bit_word_eqI)
    fix n assume "n < LENGTH(32)"
    moreover have "bit (ucast x :: arm_reg) n = bit (ucast y :: arm_reg) n"
      by (simp only: h)
    ultimately show "bit x n = bit (ucast y :: u32) n"
      by (simp add: bit_unsigned_iff)
  qed
next
  assume h: "x = ucast y"
  have "bit y n \<Longrightarrow> n < 32" for n
    using assms by (auto dest: bit_imp_le_length)
  then show "(ucast x :: arm_reg) = ucast y"
    unfolding h by (intro bit_word_eqI) (auto simp: bit_unsigned_iff)
qed

lemma ucast_and_or:
  "(ucast (x::5 word) :: arm_reg) AND 0x1e = ucast (x AND 0x1e)"
  "(ucast x :: arm_reg) AND 1 = ucast (x AND 1)"
  "(ucast x :: arm_reg) OR ucast y = ucast (x OR y)"
proof -
  have "(0x1e :: arm_reg) = ucast (0x1e :: 5 word)" "(1 :: arm_reg) = ucast (1 :: 5 word)"
    by simp_all
  then show "(ucast x :: arm_reg) AND 0x1e = ucast (x AND 0x1e)"
    "(ucast x :: arm_reg) AND 1 = ucast (x AND 1)" "(ucast x :: arm_reg) OR ucast y = ucast (x OR y)"
    by (simp_all only: unsigned_and_eq unsigned_or_eq)
qed

lemma ucast_eq_num:
  "((ucast (x::u32) :: arm_reg) = 0) = (x = 0)"
  "((ucast (x::u32) :: arm_reg) = 6) = (x = 6)"
  "((ucast (x::u32) :: arm_reg) = 15) = (x = 15)"
  using ucast_eq_ucast [where y = "0::4 word"] ucast_eq_ucast [where y = "6::4 word"]
    ucast_eq_ucast [where y = "15::4 word"] by simp_all

lemma small_reg:
  assumes "(r::arm_reg) < 2 ^ LENGTH('a)"
  shows "\<exists>y::'a::len word. r = ucast y"
proof
  show "r = ucast (ucast r :: 'a word)"
    using bit_lt_pow [OF assms]
    by (intro bit_word_eqI) (auto simp: bit_unsigned_iff linorder_not_le [symmetric] dest: bit_imp_le_length)
qed

lemma small_reg_ex:
  "(r::arm_reg) < 8 \<Longrightarrow> \<exists>y::3 word. r = ucast y"
  "(r::arm_reg) < 16 \<Longrightarrow> \<exists>y::4 word. r = ucast y"
  "(r::arm_reg) < 32 \<Longrightarrow> \<exists>y::5 word. r = ucast y"
  "(r::arm_reg) < 65536 \<Longrightarrow> \<exists>y::16 word. r = ucast y"
  "(r::arm_reg) < 0x1000000 \<Longrightarrow> \<exists>y::24 word. r = ucast y"
  by (rule small_reg, simp)+

lemma imm_12_ex: "(x::u32) < 4096 \<Longrightarrow> \<exists>y::12 word. x = ucast y"
  by (rule exI [of _ "ucast x"]) (auto simp: u32_bits)

lemma imm_5_ex: "(x::u32) < 32 \<Longrightarrow> \<exists>y::5 word. x = ucast y"
  by (rule exI [of _ "ucast x"]) (auto simp: u32_bits)

lemma bit_15: "bit (15::arm_reg) n \<longleftrightarrow> n < 4"
proof -
  have "(15::arm_reg) = mask 4" by (simp add: mask_eq_exp_minus_1)
  then show ?thesis by (simp only: bit_mask_iff) auto
qed

lemma nibble_le_15: "(ucast (y::4 word) :: arm_reg) \<le> 15"
proof -
  have y: "unat y < 16"
    using unsigned_less [of y, where ?'a = nat] by simp
  then have "unat (ucast y :: arm_reg) = unat y"
    by (simp add: unsigned_ucast_eq take_bit_nat_eq_self)
  with y show ?thesis by (simp add: word_le_nat_alt)
qed

lemma nibble_mask: "ucast (y::4 word) AND 15 = (ucast y :: arm_reg)"
proof (rule bit_word_eqI)
  fix n
  have "bit y n \<Longrightarrow> n < 4"
    by (auto dest: bit_imp_le_length)
  then show "bit (ucast y AND (15::arm_reg)) n = bit (ucast y :: arm_reg) n"
    unfolding bit_and_iff bit_15 bit_unsigned_iff by blast
qed

lemma nonzero_5_bits:
  assumes "(n::5 word) \<noteq> 0"
  shows "bit n 4 \<or> bit n 3 \<or> bit n 2 \<or> bit n 1 \<or> bit n 0"
proof (rule ccontr)
  assume "\<not> ?thesis"
  then have "n = 0"
    by (intro bit_word_eqI) (auto simp: less_Suc_eq numeral_eq_Suc)
  with assms show False by simp
qed

lemma nibble_of:
  "(drop_bit n (w::u32) AND 0xf) < 16" "drop_bit 28 (w::u32) < 16"
proof -
  show "(drop_bit n w AND 0xf) < 16"
    by (rule word_and_less) simp
  have "drop_bit 28 w = drop_bit 28 w AND 0xf"
    by (simp add: u32_bits bit_high)
  then show "drop_bit 28 w < 16"
    by (rule word_less_if_masked) simp
qed

lemma enum_inverses:
  assumes "w < (16::u32)"
  shows "ccode_num (ccode_of w) = w" and "data_num (data_of w) = w"
proof -
  have "unat w < 16" using assms by (simp add: word_less_nat_alt)
  then show "ccode_num (ccode_of w) = w" "data_num (data_of w) = w"
    by (cases rule: index_cases_16; simp add: ccode_of_def data_of_def word_unat_eq_iff)+
qed

lemma cc_of_iff: "cc_of w = c \<longleftrightarrow> drop_bit 28 w = ccode_num c"
  unfolding cc_of_def using enum_inverses(1) [OF nibble_of(2)] by (metis ccode_of_num)

lemma data_of_iff: "data_of (drop_bit 21 w AND 0xf) = t \<longleftrightarrow> drop_bit 21 w AND 0xf = data_num t"
  using enum_inverses(2) [OF nibble_of(1)] by (metis data_of_num)

text \<open>The decoder's tests, once and for all as tests of single bits.\<close>

lemma is_simd_word_bits:
  "is_simd_word w \<longleftrightarrow> \<not> bit w 27 \<and> bit w 26 \<and> bit w 25 \<and> \<not> bit w 24 \<and> \<not> bit w 23
    \<and> (bit w 21 \<or> bit w 20) \<and> \<not> bit w 11 \<and> \<not> bit w 10 \<and> \<not> bit w 9 \<and> \<not> bit w 8 \<and> bit w 4
    \<and> \<not> (bit w 7 \<and> \<not> bit w 6 \<and> bit w 5) \<and> \<not> (bit w 7 \<and> bit w 6 \<and> \<not> bit w 5)"
  by (cases "bit w 22"; cases "bit w 21"; cases "bit w 20"; cases "bit w 4")
    (simp_all add: is_simd_word_def Let_def word_bits; blast)+

lemma disass_tests:
  fixes w :: u32
  shows "w AND push_bit 22 0x3f = 0 \<longleftrightarrow> \<not> bit w 27 \<and> \<not> bit w 26 \<and> \<not> bit w 25 \<and> \<not> bit w 24
      \<and> \<not> bit w 23 \<and> \<not> bit w 22"
    and "drop_bit 4 w AND 0xf = 9 \<longleftrightarrow> bit w 7 \<and> \<not> bit w 6 \<and> \<not> bit w 5 \<and> bit w 4"
    and "w AND push_bit 24 0xf = 0x0f000000 \<longleftrightarrow> bit w 27 \<and> bit w 26 \<and> bit w 25 \<and> bit w 24"
    and "drop_bit 25 (w AND push_bit 25 7) = 5 \<longleftrightarrow> bit w 27 \<and> \<not> bit w 26 \<and> bit w 25"
    and "drop_bit 25 (w AND push_bit 25 7) = 4 \<longleftrightarrow> bit w 27 \<and> \<not> bit w 26 \<and> \<not> bit w 25"
    and "w AND 0x68f0370 = 0x68f0070 \<longleftrightarrow> bit w 26 \<and> bit w 25 \<and> bit w 23 \<and> bit w 19 \<and> bit w 18
      \<and> bit w 17 \<and> bit w 16 \<and> \<not> bit w 9 \<and> \<not> bit w 8 \<and> bit w 6 \<and> bit w 5 \<and> bit w 4"
    and "drop_bit 26 (w AND push_bit 26 3) = 1 \<longleftrightarrow> \<not> bit w 27 \<and> bit w 26"
    and "w AND 0x0fbf0fff = push_bit 24 1 \<longleftrightarrow> \<not> bit w 27 \<and> \<not> bit w 26 \<and> \<not> bit w 25 \<and> bit w 24
      \<and> \<not> bit w 23 \<and> \<not> bit w 21 \<and> \<not> bit w 20 \<and> \<not> bit w 19 \<and> \<not> bit w 18 \<and> \<not> bit w 17
      \<and> \<not> bit w 16 \<and> \<not> bit w 11 \<and> \<not> bit w 10 \<and> \<not> bit w 9 \<and> \<not> bit w 8 \<and> \<not> bit w 7
      \<and> \<not> bit w 6 \<and> \<not> bit w 5 \<and> \<not> bit w 4 \<and> \<not> bit w 3 \<and> \<not> bit w 2 \<and> \<not> bit w 1 \<and> \<not> bit w 0"
    and "w AND 0x0db0f000 = 0x01200000 \<longleftrightarrow> \<not> bit w 27 \<and> \<not> bit w 26 \<and> bit w 24 \<and> \<not> bit w 23
      \<and> bit w 21 \<and> \<not> bit w 20 \<and> \<not> bit w 15 \<and> \<not> bit w 14 \<and> \<not> bit w 13 \<and> \<not> bit w 12"
    and "w AND 0x0e400090 = 0x400090 \<longleftrightarrow> \<not> bit w 27 \<and> \<not> bit w 26 \<and> \<not> bit w 25 \<and> bit w 22
      \<and> bit w 7 \<and> bit w 4"
    and "w AND 0x0e400f90 = 0x90 \<longleftrightarrow> \<not> bit w 27 \<and> \<not> bit w 26 \<and> \<not> bit w 25 \<and> \<not> bit w 22
      \<and> \<not> bit w 11 \<and> \<not> bit w 10 \<and> \<not> bit w 9 \<and> \<not> bit w 8 \<and> bit w 7 \<and> bit w 4"
    and "w AND 0x60 = 0 \<longleftrightarrow> \<not> bit w 6 \<and> \<not> bit w 5"
    and "drop_bit 26 (w AND push_bit 26 3) = 0 \<longleftrightarrow> \<not> bit w 27 \<and> \<not> bit w 26"
  by (auto simp: word_bits)

lemma bit_set_iff: "bit_set w n \<longleftrightarrow> bit w n"
  by (simp add: bit_set_def and_exp_eq_0_iff_not_bit)

lemmas disass_bits = subtilis_arm_disass_def [unfolded field_def disass_tests is_simd_word_bits]

text \<open>A field of the word as an operand.\<close>

lemma field_eq_3:
  "n \<le> 28 \<Longrightarrow> (drop_bit n w AND 7 = ucast (y::3 word)) \<longleftrightarrow>
     bit w n = bit y 0 \<and> bit w (n + 1) = bit y 1 \<and> bit w (n + 2) = bit y 2" for w :: u32
  by (auto simp: word_bits)

lemma field_eq_4:
  "n \<le> 28 \<Longrightarrow> (drop_bit n w AND 0xf = ucast (y::4 word)) \<longleftrightarrow>
     bit w n = bit y 0 \<and> bit w (n + 1) = bit y 1 \<and> bit w (n + 2) = bit y 2
     \<and> bit w (n + 3) = bit y 3" for w :: u32
  by (auto simp: word_bits)

lemma field_0_eq:
  "(w AND 7 = ucast (x::3 word)) \<longleftrightarrow>
     bit w 0 = bit x 0 \<and> bit w 1 = bit x 1 \<and> bit w 2 = bit x 2"
  "(w AND 0xf = ucast (y::4 word)) \<longleftrightarrow>
     bit w 0 = bit y 0 \<and> bit w 1 = bit y 1 \<and> bit w 2 = bit y 2 \<and> bit w 3 = bit y 3" for w :: u32
  by (auto simp: word_bits)

lemma field_28_eq:
  "(drop_bit 28 w = ccode_num c) \<longleftrightarrow> bit w 28 = bit (ccode_num c) 0
     \<and> bit w 29 = bit (ccode_num c) 1 \<and> bit w 30 = bit (ccode_num c) 2
     \<and> bit w 31 = bit (ccode_num c) 3" for w :: u32
  by (auto simp: word_bits)

lemma single_eq:
  "((drop_bit n w AND 0x1e) OR (drop_bit l w AND 1) = ucast (y::5 word)) \<longleftrightarrow>
     bit w l = bit y 0 \<and> bit w (n + 1) = bit y 1 \<and> bit w (n + 2) = bit y 2
     \<and> bit w (n + 3) = bit y 3 \<and> bit w (n + 4) = bit y 4"
  "(push_bit 1 (w AND 0xf) OR (drop_bit l w AND 1) = ucast (y::5 word)) \<longleftrightarrow>
     bit w l = bit y 0 \<and> bit w 0 = bit y 1 \<and> bit w 1 = bit y 2
     \<and> bit w 2 = bit y 3 \<and> bit w 3 = bit y 4" for w :: u32
  by (auto simp: word_bits)

lemmas decode_defs = disass_bits field_def bit_set_iff reg_field_def
  Let_def cc_of_iff ucast_eq_ucast ucast_eq_num data_of_iff field_eq_3 field_eq_4 field_0_eq field_28_eq

text \<open>A coprocessor instruction passes all the tests for the integer instructions.\<close>

lemma copro_dispatch:
  assumes "bit w 27" and "bit w 26" and "\<not> bit w 25 \<or> \<not> bit w 24" and "bit w 9 \<or> bit w 8"
  shows "subtilis_arm_disass st w vfp =
    (case (if vfp then prv_vfp_disass w else prv_fpa_disass w) of
       Some r \<Rightarrow> r
     | None \<Rightarrow> Inl (Error (ERROR_BAD_INSTRUCTION w)))"
  using assms
  by (elim disjE) (simp_all add: disass_bits)

lemmas copro_defs = copro_dispatch field_def bit_set_iff reg_field_def Let_def cc_of_iff
  ucast_eq_ucast ucast_eq_num field_eq_3 field_eq_4 field_0_eq field_28_eq

section \<open>Second operands\<close>

lemma shtype_nth:
  "shtype ! unat (drop_bit 5 w AND 3) =
    (if bit w 6 then if bit w 5 then SHIFT_ROR else SHIFT_ASR
     else if bit w 5 then SHIFT_LSR else SHIFT_LSL)" for w :: u32
proof -
  have "drop_bit 5 w AND 3 = (if bit w 6 then if bit w 5 then 3 else 2 else if bit w 5 then 1 else 0)"
    by (simp add: u32_bits bit_high)
  then show ?thesis by (simp add: shtype_def)
qed

text \<open>
  An immediate shift that survives: not by zero, and by 32 only where the field says so. The
  two names of a left shift are one shift when decoded.
\<close>

fun shift_ok :: "shift_type \<Rightarrow> shift_amount \<Rightarrow> bool" where
  "shift_ok k (Shift_reg r) \<longleftrightarrow> k \<noteq> SHIFT_RRX \<and> r < 16"
| "shift_ok k (Shift_integer n) \<longleftrightarrow>
     k \<noteq> SHIFT_RRX \<and> (1 \<le> n \<and> n < 32 \<or> n = 32 \<and> k \<noteq> SHIFT_LSL \<and> k \<noteq> SHIFT_ASL)"

fun decoded_shift :: "shift_type \<Rightarrow> shift_type" where
  "decoded_shift SHIFT_ASL = SHIFT_LSL"
| "decoded_shift k = k"

fun op2_ok :: "arm_op2 \<Rightarrow> bool" where
  "op2_ok (OP2_REG r) \<longleftrightarrow> r < 16"
| "op2_ok (OP2_I32 i) \<longleftrightarrow> i < 4096"
| "op2_ok (OP2_SHIFTED s) \<longleftrightarrow> shift_of_reg s < 16 \<and> shift_ok (shift_kind s) (shift_by s)"

text \<open>A transfer's offset is not shifted by a register.\<close>

fun stran_op2_ok :: "arm_op2 \<Rightarrow> bool" where
  "stran_op2_ok (OP2_SHIFTED s) \<longleftrightarrow>
     op2_ok (OP2_SHIFTED s) \<and> (case shift_by s of Shift_reg _ \<Rightarrow> False | Shift_integer _ \<Rightarrow> True)"
| "stran_op2_ok op2 \<longleftrightarrow> op2_ok op2"

lemma stran_op2_okD: "stran_op2_ok op2 \<Longrightarrow> op2_ok op2"
  by (cases op2) auto

fun decoded_op2 :: "arm_op2 \<Rightarrow> arm_op2" where
  "decoded_op2 (OP2_SHIFTED s) = OP2_SHIFTED (s\<lparr>shift_kind := decoded_shift (shift_kind s)\<rparr>)"
| "decoded_op2 op2 = op2"

lemma op2_ok_cases [consumes 1]:
  assumes "op2_ok op2"
  obtains (reg) r :: "4 word" where "op2 = OP2_REG (ucast r)"
  | (imm) i :: "12 word" where "op2 = OP2_I32 (ucast i)"
  | (by_reg) r s :: "4 word" and k where "k \<noteq> SHIFT_RRX"
      "op2 = OP2_SHIFTED \<lparr>shift_of_reg = ucast r, shift_kind = k, shift_by = Shift_reg (ucast s)\<rparr>"
  | (by_int) r :: "4 word" and n :: "5 word" and k where "k \<noteq> SHIFT_RRX" "n \<noteq> 0"
      "op2 = OP2_SHIFTED \<lparr>shift_of_reg = ucast r, shift_kind = k, shift_by = Shift_integer (ucast n)\<rparr>"
  | (by_32) r :: "4 word" and k where "k \<in> {SHIFT_LSR, SHIFT_ASR, SHIFT_ROR}"
      "op2 = OP2_SHIFTED \<lparr>shift_of_reg = ucast r, shift_kind = k, shift_by = Shift_integer 32\<rparr>"
proof (cases op2)
  case (OP2_SHIFTED s)
  obtain r k a where s: "s = \<lparr>shift_of_reg = r, shift_kind = k, shift_by = a\<rparr>"
    by (cases s)
  with assms OP2_SHIFTED obtain r' :: "4 word" where r: "r = ucast r'"
    using small_reg_ex(2) by auto
  show ?thesis
  proof (cases a)
    case (Shift_reg q)
    with assms OP2_SHIFTED s obtain q' :: "4 word" where "q = ucast q'"
      using small_reg_ex(2) by auto
    with assms OP2_SHIFTED s r Shift_reg show ?thesis
      by (intro by_reg [of k r' q']) auto
  next
    case (Shift_integer n)
    show ?thesis
    proof (cases "n = 32")
      case True
      with assms OP2_SHIFTED s r Shift_integer show ?thesis
        by (intro by_32 [of k r']) (cases k; auto)+
    next
      case False
      with assms OP2_SHIFTED s Shift_integer have n: "1 \<le> n" "n < 32" by auto
      then obtain n' :: "5 word" where n': "n = ucast n'"
        using imm_5_ex by blast
      with n have "n' \<noteq> 0" by auto
      with assms OP2_SHIFTED s r Shift_integer n' show ?thesis
        by (intro by_int [of k n' r']) auto
    qed
  qed
next
  case (OP2_REG r)
  with assms reg show ?thesis
    using small_reg_ex(2) by auto
next
  case (OP2_I32 i)
  with assms imm show ?thesis
    using imm_12_ex by auto
qed

text \<open>The bits that an encoded second operand may use: the low twelve, and the one that selects
  its form. The decoders of the operand look at no other.\<close>

definition op2_bits :: "u32 \<Rightarrow> bool" where
  "op2_bits x \<longleftrightarrow> x AND NOT 0x02000fff = 0"

lemmas op2_defs = prv_decode_op2_def prv_decode_stran_op2_def bit_set_def field_def reg_field_def
  decode_shift_integer_def shtype_nth ucast_eq_ucast

lemma data_op2_disass:
  assumes "op2_ok op2" and "prv_encode_data_op2 op2 = Inr x"
  shows "prv_decode_op2 x = decoded_op2 op2 \<and> op2_bits x \<and> (bit x 25 \<or> \<not> bit x 4 \<or> \<not> bit x 7)"
  using assms
proof (cases rule: op2_ok_cases)
  case (by_int r n k)
  with assms(2) nonzero_5_bits [OF by_int(2)] show ?thesis
    by (cases k; simp add: nibble_le_15 word_bits) (simp_all add: op2_defs op2_bits_def word_bits)
next
  case (by_32 r k)
  with assms(2) show ?thesis
    by (cases k; simp add: nibble_le_15 word_bits) (simp_all add: op2_defs op2_bits_def word_bits)
next
  case (by_reg r s k)
  with assms(2) show ?thesis
    by (cases k; simp add: nibble_le_15 word_bits) (simp_all add: op2_defs op2_bits_def word_bits)
qed (simp add: nibble_le_15 word_bits c_result_simps, simp add: op2_defs op2_bits_def word_bits)+

lemma stran_op2_disass:
  assumes "stran_op2_ok op2" and "prv_encode_stran_op2 op2 = Inr x"
  shows "prv_decode_stran_op2 x = decoded_op2 op2 \<and> op2_bits x \<and> (\<not> bit x 25 \<or> \<not> bit x 4)"
  using stran_op2_okD [OF assms(1)]
proof (cases rule: op2_ok_cases)
  case (by_int r n k)
  with assms(2) nonzero_5_bits [OF by_int(2)] show ?thesis
    by (cases k; simp add: nibble_le_15 word_bits) (simp_all add: op2_defs op2_bits_def word_bits)
next
  case (by_32 r k)
  with assms(2) show ?thesis
    by (cases k; simp add: nibble_le_15 word_bits) (simp_all add: op2_defs op2_bits_def word_bits)
next
  case (by_reg r s k)
  with assms(1) show ?thesis by simp
next
  case (reg r)
  with assms(2) show ?thesis
    by (simp add: nibble_le_15 word_bits c_result_simps) (simp add: op2_defs op2_bits_def word_bits)
next
  case (imm i)
  with assms(2) show ?thesis
    by (simp add: nibble_le_15 word_bits c_result_simps) (simp add: op2_defs op2_bits_def word_bits)
qed

lemma op2_decode_masked:
  "prv_decode_op2 w = prv_decode_op2 (w AND 0x02000fff)"
  "prv_decode_stran_op2 w = prv_decode_stran_op2 (w AND 0x02000fff)"
  by (simp_all add: op2_defs bit_simps and.assoc)

end
