(* ===== verification/Arm_Roundtrip_Int.thy ===== *)
theory Arm_Roundtrip_Int
  imports Arm_Operands
begin

text \<open>
  What the decoder makes of the word that the encoder builds for an integer instruction.
\<close>

section \<open>Integer instructions\<close>

lemma mul_disass:
  fixes d m s n :: "4 word"
  assumes "mul_word t \<lparr>mul_ccode = c, mul_status = b, mul_dest = ucast d, mul_rm = ucast m,
    mul_rs = ucast s, mul_rn = ucast n\<rparr> = Inr w"
  shows "subtilis_arm_disass st w vfp = Inr (Mul t \<lparr>mul_ccode = c, mul_status = b,
    mul_dest = ucast d, mul_rm = ucast m, mul_rs = ucast s,
    mul_rn = (if t = INSTR_MLA then ucast n else stale_rn st)\<rparr>)"
  using assms
  by (cases t; simp add: mul_word_def nibble_le_15 word_bits;
      simp add: decode_defs prv_decode_mul_def; (simp add: word_bits)?)

text \<open>What the decoder's tests come to for a data instruction and for a transfer.\<close>

lemma data_dispatch:
  assumes "\<not> bit w 27" and "\<not> bit w 26" and "bit w 25 \<or> \<not> bit w 4 \<or> \<not> bit w 7"
    and "bit w 20 \<or> \<not> bit w 24 \<or> bit w 23"
  shows "subtilis_arm_disass st w vfp = Inr (prv_decode_datai w)"
  using assms
  by (elim disjE) (simp_all add: disass_bits)

lemma stran_dispatch:
  assumes "\<not> bit w 27" and "bit w 26" and "\<not> bit w 25 \<or> \<not> bit w 4"
  shows "subtilis_arm_disass st w vfp = Inr (prv_decode_stran w)"
  using assms
  by (elim disjE) (simp_all add: disass_bits)

lemma data_num_cmp:
  "t \<notin> {INSTR_TST, INSTR_TEQ, INSTR_CMP, INSTR_CMN} \<longleftrightarrow>
   \<not> bit (data_num t) 3 \<or> bit (data_num t) 2"
  by (cases t) simp_all

lemma data_disass:
  fixes d m :: "4 word"
  assumes "data_word t \<lparr>data_ccode = c, data_status = b, data_dest = ucast d, data_op1 = ucast m,
    data_op2 = op2\<rparr> = Inr w"
   and "b \<or> \<not> bit (data_num t) 3 \<or> bit (data_num t) 2" and "op2_ok op2"
  shows "subtilis_arm_disass st w vfp = Inr (Data t \<lparr>data_ccode = c, data_status = b,
    data_dest = ucast d, data_op1 = ucast m, data_op2 = decoded_op2 op2\<rparr>)"
proof -
  obtain x where x: "prv_encode_data_op2 op2 = Inr x"
    using assms(1) by (auto simp: data_word_def c_result_simps)
  note op2 = data_op2_disass [OF assms(3) x]
  have w: "cc_at_28 c OR push_bit 21 (data_num t) OR flag_at 20 b OR reg_at 16 (ucast m)
      OR reg_at 12 (ucast d) OR x = w"
    using assms(1) x by (simp add: data_word_def nibble_le_15)
  have "w AND 0x02000fff = x"
    using op2 unfolding w [symmetric] op2_bits_def by (simp add: word_bits)
  then have d: "prv_decode_op2 w = decoded_op2 op2"
    using op2_decode_masked(1) [of w] op2 by simp
  have "\<not> bit w 27" "\<not> bit w 26" "bit w 25 \<or> \<not> bit w 4 \<or> \<not> bit w 7"
    "bit w 20 \<or> \<not> bit w 24 \<or> bit w 23"
    using assms(2) op2 unfolding w [symmetric] op2_bits_def by (simp_all add: word_bits)
  then have "subtilis_arm_disass st w vfp = Inr (prv_decode_datai w)"
    by (rule data_dispatch)
  also have "prv_decode_datai w = Data t \<lparr>data_ccode = c, data_status = b,
    data_dest = ucast d, data_op1 = ucast m, data_op2 = decoded_op2 op2\<rparr>"
    using w op2 by (simp add: op2_bits_def word_bits;
      simp add: decode_defs prv_decode_datai_def d; (simp add: word_bits)?)
  finally show ?thesis .
qed

lemma stran_disass:
  fixes d m :: "4 word"
  assumes "stran_word t \<lparr>stran_ccode = c, stran_dest = ucast d, stran_base = ucast m,
    stran_offset = op2, stran_pre_indexed = p, stran_write_back = wb, stran_subtract = (\<not> u),
    stran_byte = b\<rparr> = Inr w"
   and "stran_op2_ok op2"
  shows "subtilis_arm_disass st w vfp = Inr (Stran t \<lparr>stran_ccode = c, stran_dest = ucast d,
    stran_base = ucast m, stran_offset = decoded_op2 op2, stran_pre_indexed = p,
    stran_write_back = wb, stran_subtract = (\<not> u), stran_byte = b\<rparr>)"
proof -
  obtain x where x: "prv_encode_stran_op2 op2 = Inr x"
    using assms(1) by (auto simp: stran_word_def c_result_simps)
  note op2 = stran_op2_disass [OF assms(2) x]
  have w: "cc_at_28 c OR push_bit 26 1 OR flag_at 24 p OR flag_at 22 b OR flag_at 21 wb
      OR flag_at 23 u OR flag_at 20 (t = INSTR_LDR) OR reg_at 16 (ucast m) OR reg_at 12 (ucast d)
      OR x = w"
    using assms(1) x by (simp add: stran_word_def nibble_le_15)
  have "w AND 0x02000fff = x"
    using op2 unfolding w [symmetric] op2_bits_def by (simp add: word_bits)
  then have d: "prv_decode_stran_op2 w = decoded_op2 op2"
    using op2_decode_masked(2) [of w] op2 by simp
  have "\<not> bit w 27" "bit w 26" "\<not> bit w 25 \<or> \<not> bit w 4"
    using op2 unfolding w [symmetric] op2_bits_def by (simp_all add: word_bits)
  then have "subtilis_arm_disass st w vfp = Inr (prv_decode_stran w)"
    by (rule stran_dispatch)
  also have "prv_decode_stran w = Stran t \<lparr>stran_ccode = c, stran_dest = ucast d,
    stran_base = ucast m, stran_offset = decoded_op2 op2, stran_pre_indexed = p,
    stran_write_back = wb, stran_subtract = (\<not> u), stran_byte = b\<rparr>"
    using w op2 by (cases t; simp add: op2_bits_def word_bits;
      simp add: decode_defs prv_decode_stran_def d; (simp add: word_bits)?)
  finally show ?thesis .
qed

lemma mtran_disass:
  fixes r :: "4 word" and l :: u16
  assumes "mtran_word d \<lparr>mtran_ccode = c, mtran_op0 = ucast r, mtran_reg_list = ucast l,
    mtran_kind = k, mtran_write_back = wb, mtran_status = False\<rparr> = w"
  shows "subtilis_arm_disass st w vfp =
    Inr (Mtran d \<lparr>mtran_ccode = c, mtran_op0 = ucast r, mtran_reg_list = ucast l,
      mtran_kind = mtran_mode d k, mtran_write_back = wb, mtran_status = stale_mtran_status st\<rparr>)"
  using assms
  by (cases d; cases k; simp add: mtran_word_def word_bits;
      simp add: decode_defs prv_decode_mtran_def; (simp add: word_bits)?)

lemma swi_disass:
  fixes n :: "24 word"
  assumes "swi_word \<lparr>swi_ccode = c, swi_code = ucast n, swi_reg_read_mask = r,
    swi_reg_write_mask = v\<rparr> = w"
  shows "subtilis_arm_disass st w vfp =
    Inr (Swi \<lparr>swi_ccode = c, swi_code = ucast n, swi_reg_read_mask = stale_read_mask st,
      swi_reg_write_mask = stale_write_mask st\<rparr>)"
  using assms
  by (simp add: swi_word_def word_bits;
      simp add: decode_defs prv_decode_swi_def; (simp add: word_bits)?)

lemma br_disass:
  assumes "br_word \<lparr>br_ccode = c, br_link = l, br_local = loc, br_indirect = False, br_kind = k,
    br_target = t\<rparr> = w"
   and "l \<and> \<not> loc \<Longrightarrow> br_target_size_t t = ucast (n::24 word)"
   and "\<not> (l \<and> \<not> loc) \<Longrightarrow> n = 0"
  shows "subtilis_arm_disass st w vfp =
    Inr (Br \<lparr>br_ccode = c, br_link = l, br_local = stale_local st, br_indirect = stale_indirect st,
      br_kind = BR_LINK_VOID, br_target = Target_offset (scast n)\<rparr>)"
  using assms
  by (cases "l \<and> \<not> loc"; simp add: br_word_def word_bits;
      simp add: decode_defs prv_decode_branch_def; (simp add: word_bits)?)

lemma br_indirect_disass:
  fixes r :: "4 word"
  assumes "br_word \<lparr>br_ccode = c, br_link = l, br_local = loc, br_indirect = True, br_kind = k,
    br_target = Target_reg (ucast r)\<rparr> = w"
  shows "subtilis_arm_disass st w vfp =
    Inr (Data INSTR_MOV \<lparr>data_ccode = c, data_status = False, data_dest = 15, data_op1 = 0,
      data_op2 = OP2_REG (ucast r)\<rparr>)"
  using assms
  by (simp add: br_word_def word_bits;
      simp add: decode_defs prv_decode_datai_def prv_decode_op2_def; (simp add: word_bits)?)

lemma mrs_disass:
  fixes r :: "4 word"
  assumes "flags_word INSTR_MRS \<lparr>flags_ccode = c, flags_flag_reg = f, flags_fields = x,
    flags_op = Flags_reg (ucast r)\<rparr> = w"
  shows "subtilis_arm_disass st w vfp = Inr (Flags INSTR_MRS \<lparr>flags_ccode = c,
    flags_flag_reg = f, flags_fields = 0, flags_op = Flags_reg (ucast r)\<rparr>)"
  using assms
  by (cases f; simp add: flags_word_def word_bits;
      simp add: decode_defs prv_decode_mrs_def; (simp add: word_bits)?)

lemma msr_reg_disass:
  fixes r q :: "4 word"
  assumes "flags_word INSTR_MSR \<lparr>flags_ccode = c, flags_flag_reg = f,
    flags_fields = push_bit 16 (ucast q), flags_op = Flags_reg (ucast r)\<rparr> = w"
  shows "subtilis_arm_disass st w vfp = Inr (Flags INSTR_MSR \<lparr>flags_ccode = c,
    flags_flag_reg = f, flags_fields = push_bit 16 (ucast q), flags_op = Flags_reg (ucast r)\<rparr>)"
  using assms
  by (cases f; simp add: flags_word_def word_bits;
      simp add: decode_defs prv_decode_msr_def; (simp add: word_bits)?)

lemma msr_imm_disass:
  fixes q :: "4 word" and n :: "12 word"
  assumes "flags_word INSTR_MSR \<lparr>flags_ccode = c, flags_flag_reg = f,
    flags_fields = push_bit 16 (ucast q), flags_op = Flags_integer (ucast n)\<rparr> = w"
  shows "subtilis_arm_disass st w vfp = Inr (Flags INSTR_MSR \<lparr>flags_ccode = c,
    flags_flag_reg = f, flags_fields = push_bit 16 (ucast q), flags_op = Flags_integer (ucast n)\<rparr>)"
  using assms
  by (cases f; simp add: flags_word_def word_bits;
      simp add: decode_defs prv_decode_msr_def; (simp add: word_bits)?)

lemma signx_rotates_nth:
  "signx_rotates ! unat (drop_bit 10 w AND 3) =
    (if bit w 11 then if bit w 10 then ROR_24 else ROR_16
     else if bit w 10 then ROR_8 else ROR_NONE)" for w :: u32
proof -
  have "drop_bit 10 w AND 3 = (if bit w 11 then if bit w 10 then 3 else 2 else if bit w 10 then 1 else 0)"
    by (simp add: u32_bits bit_high)
  then show ?thesis by (simp add: signx_rotates_def)
qed

lemma signx_disass:
  fixes d m :: "4 word"
  assumes "signx_word t \<lparr>signx_ccode = c, signx_rotate = r, signx_dest = ucast d,
    signx_op1 = ucast m\<rparr> = w"
  shows "subtilis_arm_disass st w vfp = Inr (Signx t \<lparr>signx_ccode = c, signx_rotate = r,
    signx_dest = ucast d, signx_op1 = ucast m\<rparr>)"
  using assms
  by (cases t; cases r; simp add: signx_word_def word_bits;
      simp add: decode_defs prv_decode_signx_def signx_rotates_nth; (simp add: word_bits)?)

lemma simd_tables_agree:
  "list_all (\<lambda>(t, k). map_of simd_types k = Some t \<and> k AND NOT 0x0ff000f0 = 0 \<and> is_simd_word k
     \<and> k AND 0x0f000000 = 0x06000000) simd_opcodes"
  by code_simp

lemma simd_opcodes_total: "\<exists>k. map_of simd_opcodes t = Some k"
  by (cases t) (simp_all add: simd_opcodes_def)

lemma simd_disass:
  fixes d m n :: "4 word"
  assumes "simd_word t \<lparr>reg_only_ccode = c, reg_only_dest = ucast d, reg_only_op1 = ucast m,
    reg_only_op2 = ucast n\<rparr> = w"
  shows "subtilis_arm_disass st w vfp = Inr (Simd t \<lparr>reg_only_ccode = c,
    reg_only_dest = ucast d, reg_only_op1 = ucast m, reg_only_op2 = ucast n\<rparr>)"
proof -
  obtain k where t: "map_of simd_opcodes t = Some k"
    using simd_opcodes_total by blast
  then have k: "the (map_of simd_opcodes t) = k" by simp
  from map_of_SomeD [OF t] simd_tables_agree
  have k1: "map_of simd_types k = Some t" "k AND NOT 0x0ff000f0 = 0"
    and k2: "is_simd_word k" and "k AND 0x0f000000 = 0x06000000"
    by (auto simp: list_all_iff)
  then have k3: "bit k 26 \<and> bit k 25 \<and> \<not> bit k 27 \<and> \<not> bit k 24"
    by (simp add: word_bits)
  have w: "k OR cc_at_28 c OR reg_at 12 (ucast d) OR reg_at 16 (ucast m)
      OR ucast (ucast n :: arm_reg) = w"
    using assms k by (simp add: simd_word_def bit_simps nibble_mask)
  have "w AND 0x0ff000f0 = k" and "w AND 0x0ff00f00 = k AND 0x0ff00f00" and "w AND 0xf0 = k AND 0xf0"
    and b: "bit w 26 \<and> bit w 25 \<and> \<not> bit w 27 \<and> \<not> bit w 24"
    using k1(2) k3 unfolding w [symmetric] by (simp_all add: word_bits)
  then have "is_simd_word w" and d: "map_of simd_types (w AND 0x0ff000f0) = Some t"
    using k1(1) k2 by (simp_all add: is_simd_word_def)
  then have "subtilis_arm_disass st w vfp = prv_decode_simd w"
    using b by (simp add: subtilis_arm_disass_def word_bits)
  also have "\<dots> = Inr (Simd t \<lparr>reg_only_ccode = c, reg_only_dest = ucast d,
      reg_only_op1 = ucast m, reg_only_op2 = ucast n\<rparr>)"
    using w k1(2) by (simp add: word_bits) (simp add: prv_decode_simd_def d decode_defs word_bits)
  finally show ?thesis .
qed

section \<open>The round trip\<close>

text \<open>
  The operands that an instruction's fields can hold and, for the comparisons, the status bit,
  without which the word is that of a flag transfer. \<open>int_decoded\<close> is what comes back: the stack
  names of a multiple transfer and the second name of a left shift are resolved, a branch comes
  back with an offset and without what only the compiler knows of it, an indirect branch as the
  move into \<open>R15\<close> that it is.
\<close>

fun int_ok :: "arm_instr \<Rightarrow> bool" where
  "int_ok (Data t i) \<longleftrightarrow> data_dest i < 16 \<and> data_op1 i < 16 \<and> op2_ok (data_op2 i)
     \<and> (data_status i \<or> t \<notin> {INSTR_TST, INSTR_TEQ, INSTR_CMP, INSTR_CMN})"
| "int_ok (Mul t i) \<longleftrightarrow> mul_dest i < 16 \<and> mul_rm i < 16 \<and> mul_rs i < 16 \<and> mul_rn i < 16"
| "int_ok (Stran t i) \<longleftrightarrow> stran_dest i < 16 \<and> stran_base i < 16 \<and> stran_op2_ok (stran_offset i)"
| "int_ok (Mtran d i) \<longleftrightarrow> mtran_op0 i < 16 \<and> mtran_reg_list i < 65536 \<and> \<not> mtran_status i"
| "int_ok (Br i) \<longleftrightarrow>
     (if br_indirect i then (\<exists>r<16. br_target i = Target_reg r)
      else br_link i \<and> \<not> br_local i \<longrightarrow> br_target_size_t (br_target i) < 0x1000000)"
| "int_ok (Swi i) \<longleftrightarrow> swi_code i < 0x1000000"
| "int_ok (Flags t i) \<longleftrightarrow>
     (case flags_op i of
        Flags_reg r \<Rightarrow> r < 16
      | Flags_integer n \<Rightarrow> t = INSTR_MSR \<and> n < 4096)
     \<and> flags_fields i AND NOT 0xf0000 = 0"
| "int_ok (Simd t i) \<longleftrightarrow> reg_only_dest i < 16 \<and> reg_only_op1 i < 16 \<and> reg_only_op2 i < 16"
| "int_ok (Signx t i) \<longleftrightarrow> signx_dest i < 16 \<and> signx_op1 i < 16"
| "int_ok _ \<longleftrightarrow> False"

fun int_decoded :: "stale \<Rightarrow> arm_instr \<Rightarrow> arm_instr" where
  "int_decoded st (Data t i) = Data t (i\<lparr>data_op2 := decoded_op2 (data_op2 i)\<rparr>)"
| "int_decoded st (Mul t i) = Mul t (if t = INSTR_MLA then i else i\<lparr>mul_rn := stale_rn st\<rparr>)"
| "int_decoded st (Stran t i) = Stran t (i\<lparr>stran_offset := decoded_op2 (stran_offset i)\<rparr>)"
| "int_decoded st (Mtran d i) =
     Mtran d (i\<lparr>mtran_kind := mtran_mode d (mtran_kind i), mtran_status := stale_mtran_status st\<rparr>)"
| "int_decoded st (Br i) =
     (if br_indirect i
      then Data INSTR_MOV \<lparr>data_ccode = br_ccode i, data_status = False, data_dest = 15,
             data_op1 = 0, data_op2 = OP2_REG (br_target_size_t (br_target i))\<rparr>
      else Br (i\<lparr>br_local := stale_local st, br_indirect := stale_indirect st,
             br_kind := BR_LINK_VOID,
             br_target := Target_offset (if br_link i \<and> \<not> br_local i
               then scast (ucast (br_target_size_t (br_target i)) :: 24 word) else 0)\<rparr>))"
| "int_decoded st (Swi i) =
     Swi (i\<lparr>swi_reg_read_mask := stale_read_mask st, swi_reg_write_mask := stale_write_mask st\<rparr>)"
| "int_decoded st (Flags t i) =
     Flags t (if t = INSTR_MRS then i\<lparr>flags_fields := 0\<rparr> else i)"
| "int_decoded st i = i"

lemma op2_encodes:
  "op2_ok op2 \<Longrightarrow> \<exists>x. prv_encode_data_op2 op2 = Inr x"
  "stran_op2_ok op2 \<Longrightarrow> \<exists>x. prv_encode_stran_op2 op2 = Inr x"
proof -
  show "\<exists>x. prv_encode_data_op2 op2 = Inr x" if "op2_ok op2"
    using that
  proof (cases rule: op2_ok_cases)
    case (by_reg r s k) then show ?thesis by (cases k) (simp_all add: nibble_le_15)
  next
    case (by_int r n k) then show ?thesis by (cases k) (simp_all add: nibble_le_15)
  next
    case (by_32 r k) then show ?thesis by (auto simp: nibble_le_15)
  next
    case (imm i)
    have "ucast i AND (0xfffff000 :: u32) = 0" by (simp add: word_bits)
    with imm show ?thesis by simp
  qed (simp_all add: nibble_le_15)
  show "\<exists>x. prv_encode_stran_op2 op2 = Inr x" if "stran_op2_ok op2"
    using stran_op2_okD [OF that]
  proof (cases rule: op2_ok_cases)
    case (by_reg r s k) then show ?thesis using that by simp
  next
    case (by_int r n k) then show ?thesis by (cases k) (simp_all add: nibble_le_15)
  next
    case (by_32 r k) then show ?thesis by (auto simp: nibble_le_15)
  next
    case (imm i)
    with that have "ucast i < (4096::u32)" by simp
    with imm show ?thesis by (simp add: word_le_nat_alt word_less_nat_alt)
  qed (simp_all add: nibble_le_15)
qed

lemma fields_ex:
  assumes "(x::u32) AND NOT 0xf0000 = 0"
  shows "\<exists>q::4 word. x = push_bit 16 (ucast q)"
  by (rule exI [of _ "ucast (drop_bit 16 x)"]) (use assms in \<open>simp add: word_bits\<close>)

lemma data_round_trip:
  assumes "int_ok (Data t i)"
  shows "\<exists>w. data_word t i = Inr w \<and> subtilis_arm_disass st w vfp = Inr (int_decoded st (Data t i))"
proof (cases i)
  case (fields c b d m op2)
  with assms obtain d' m' :: "4 word" where dm: "d = ucast d'" "m = ucast m'"
    by (auto dest!: small_reg_ex(2))
  from assms fields have op2: "op2_ok op2" by simp
  then obtain x where "prv_encode_data_op2 op2 = Inr x"
    using op2_encodes by blast
  then obtain w where "data_word t i = Inr w"
    using fields dm by (simp add: data_word_def nibble_le_15)
  then show ?thesis
    using data_disass [of t c b d' m' op2 w st vfp] assms fields dm op2
      data_num_cmp [of t] by auto
qed

lemma stran_round_trip:
  assumes "int_ok (Stran t i)"
  shows "\<exists>w. stran_word t i = Inr w \<and> subtilis_arm_disass st w vfp = Inr (int_decoded st (Stran t i))"
proof (cases i)
  case (fields c d m op2 p wb s b)
  with assms obtain d' m' :: "4 word" where dm: "d = ucast d'" "m = ucast m'"
    by (auto dest!: small_reg_ex(2))
  from assms fields have op2: "stran_op2_ok op2" by simp
  then obtain x where "prv_encode_stran_op2 op2 = Inr x"
    using op2_encodes by blast
  then obtain w where "stran_word t i = Inr w"
    using fields dm by (simp add: stran_word_def nibble_le_15)
  then show ?thesis
    using stran_disass [of t c d' m' op2 p wb "\<not> s" b w st vfp] assms fields dm op2 by auto
qed

lemma br_round_trip:
  assumes "int_ok (Br i)"
  shows "subtilis_arm_disass st (br_word i) vfp = Inr (int_decoded st (Br i))"
proof (cases i)
  case (fields c l loc ind k t)
  show ?thesis
  proof (cases ind)
    case True
    with assms fields obtain r :: "4 word" where "t = Target_reg (ucast r)"
      using small_reg_ex(2) by auto
    then show ?thesis
      using br_indirect_disass fields True by simp
  next
    case False
    show ?thesis
    proof (cases "l \<and> \<not> loc")
      case True
      with assms fields False obtain n :: "24 word" where n: "br_target_size_t t = ucast n"
        using small_reg_ex(5) by auto
      have "ucast (ucast n :: arm_reg) = n"
        by (rule bit_word_eqI) (auto simp: bit_unsigned_iff dest: bit_imp_le_length)
      moreover have "subtilis_arm_disass st (br_word \<lparr>br_ccode = c, br_link = l, br_local = loc,
          br_indirect = False, br_kind = k, br_target = t\<rparr>) vfp = Inr (Br \<lparr>br_ccode = c,
          br_link = l, br_local = stale_local st, br_indirect = stale_indirect st,
          br_kind = BR_LINK_VOID, br_target = Target_offset (scast (n :: 24 word))\<rparr>)"
        by (rule br_disass [OF refl]) (use True n in auto)
      ultimately show ?thesis
        using fields True False n by simp
    next
      case nolink: False
      have "subtilis_arm_disass st (br_word \<lparr>br_ccode = c, br_link = l, br_local = loc,
          br_indirect = False, br_kind = k, br_target = t\<rparr>) vfp = Inr (Br \<lparr>br_ccode = c,
          br_link = l, br_local = stale_local st, br_indirect = stale_indirect st,
          br_kind = BR_LINK_VOID, br_target = Target_offset (scast (0 :: 24 word))\<rparr>)"
        by (rule br_disass [OF refl]) (use nolink in auto)
      then show ?thesis
        using fields nolink False by auto
    qed
  qed
qed

lemma flags_round_trip:
  assumes "int_ok (Flags t i)"
  shows "subtilis_arm_disass st (flags_word t i) vfp = Inr (int_decoded st (Flags t i))"
proof (cases i)
  case (fields c f x op)
  with assms obtain q :: "4 word" where q: "x = push_bit 16 (ucast q)"
    using fields_ex by auto
  show ?thesis
  proof (cases op)
    case (Flags_reg r)
    with assms fields obtain r' :: "4 word" where "r = ucast r'"
      using small_reg_ex(2) by auto
    then show ?thesis
      using mrs_disass msr_reg_disass fields q Flags_reg by (cases t) simp_all
  next
    case (Flags_integer n)
    with assms fields obtain n' :: "12 word" where "n = ucast n'" "t = INSTR_MSR"
      using imm_12_ex by auto
    then show ?thesis
      using msr_imm_disass fields q Flags_integer by simp
  qed
qed

lemma int_round_trip:
  assumes "int_ok i"
  shows "\<exists>w. instr_word i = Some (Inr w) \<and> subtilis_arm_disass st w vfp = Inr (int_decoded st i)"
proof (cases i)
  case (Data t d)
  with assms data_round_trip show ?thesis by auto
next
  case (Mul t m)
  with assms obtain d n r s :: "4 word" where
    "mul_dest m = ucast d" "mul_rn m = ucast n" "mul_rm m = ucast r" "mul_rs m = ucast s"
    by (metis int_ok.simps(2) small_reg_ex(2))
  then show ?thesis
    using mul_disass Mul by (cases m) (auto simp: mul_word_def nibble_le_15)
next
  case (Stran t s)
  with assms stran_round_trip show ?thesis by auto
next
  case (Mtran d m)
  with assms obtain r :: "4 word" and l :: u16 where
    "mtran_op0 m = ucast r" "mtran_reg_list m = ucast l"
    by (auto dest!: small_reg_ex(2,4))
  then show ?thesis
    using mtran_disass Mtran assms by (cases m) simp
next
  case (Br b)
  with assms br_round_trip show ?thesis by simp
next
  case (Swi s)
  with assms obtain n :: "24 word" where "swi_code s = ucast n"
    using small_reg_ex(5) by auto
  then show ?thesis
    using swi_disass Swi by (cases s) simp
next
  case (Flags t f)
  with assms flags_round_trip show ?thesis by simp
next
  case (Simd t s)
  with assms obtain d m n :: "4 word" where
    "reg_only_dest s = ucast d" "reg_only_op1 s = ucast m" "reg_only_op2 s = ucast n"
    by (auto dest!: small_reg_ex(2))
  then show ?thesis
    using simd_disass Simd by (cases s) simp
next
  case (Signx t s)
  with assms obtain d m :: "4 word" where "signx_dest s = ucast d" "signx_op1 s = ucast m"
    by (auto dest!: small_reg_ex(2))
  then show ?thesis
    using signx_disass Signx by (cases s) simp
qed (use assms in simp_all)

end
