(* ===== verification/Arm_Roundtrip_Fpa.thy ===== *)
theory Arm_Roundtrip_Fpa
  imports Arm_Operands
begin

text \<open>
  What the decoder makes of the word that the encoder builds for an FPA instruction. Register
  operands have three bits, an immediate has bit 3 set and three bits of its own.
\<close>

section \<open>Fields\<close>

text \<open>The rounding mode: two bits that nothing else touches.\<close>

lemma rounding_disass:
  "prv_encode_fpa_rounding r AND NOT 0x60 = 0"
  "w AND 0x60 = prv_encode_fpa_rounding r \<Longrightarrow> rounding_of (drop_bit 5 w AND 3) = r"
proof -
  show "prv_encode_fpa_rounding r AND NOT 0x60 = 0"
    by (cases r) simp_all
  assume "w AND 0x60 = prv_encode_fpa_rounding r"
  moreover have "drop_bit 5 w AND 3 = drop_bit 5 (w AND 0x60)"
    by (simp add: u32_bits bit_high)
  ultimately show "rounding_of (drop_bit 5 w AND 3) = r"
    by (cases r) (simp_all add: rounding_of_def)
qed

lemma stran_size:
  "size_of_bits ((drop_bit 21 w AND 2) OR (drop_bit 15 w AND 1)) =
    (if bit w 22 then if bit w 15 then Inl assertion_failed else Inr 16
     else if bit w 15 then Inr 8 else Inr 4)"
proof -
  have "(drop_bit 21 w AND 2) OR (drop_bit 15 w AND 1) =
      (if bit w 22 then if bit w 15 then 3 else 2 else if bit w 15 then 1 else 0)"
    by (simp add: u32_bits bit_high)
  then show ?thesis by (simp add: size_of_bits_def)
qed

lemma data_size:
  "size_of_bits ((drop_bit 18 w AND 2) OR (drop_bit 7 w AND 1)) =
    (if bit w 19 then if bit w 7 then Inl assertion_failed else Inr 16
     else if bit w 7 then Inr 8 else Inr 4)"
proof -
  have "(drop_bit 18 w AND 2) OR (drop_bit 7 w AND 1) =
      (if bit w 19 then if bit w 7 then 3 else 2 else if bit w 7 then 1 else 0)"
    by (simp add: u32_bits bit_high)
  then show ?thesis by (simp add: size_of_bits_def)
qed

fun fpa_op2_ok :: "fpa_op2 \<Rightarrow> bool" where
  "fpa_op2_ok (Fpa_imm m) \<longleftrightarrow> 8 \<le> m \<and> m < 16"
| "fpa_op2_ok (Fpa_reg r) \<longleftrightarrow> r < 8"

lemma fpa_op2_cases [consumes 1]:
  assumes "fpa_op2_ok op2"
  obtains (imm) q :: "3 word" where "op2 = Fpa_imm (8 OR ucast q)"
  | (reg) r :: "3 word" where "op2 = Fpa_reg (ucast r)"
proof (cases op2)
  case (Fpa_imm m)
  with assms have m: "8 \<le> m" "m < 16" by auto
  have "bit m 3"
  proof (rule ccontr)
    assume "\<not> bit m 3"
    then have "m = m AND 7" using m(2) by (simp add: u8_bits)
    then have "m < 8" by (rule word_less_if_masked) simp
    with m(1) show False by simp
  qed
  then have "m = 8 OR ucast (ucast m :: 3 word)"
    using m(2) by (simp add: u8_bits)
  with imm Fpa_imm show ?thesis by auto
next
  case (Fpa_reg r)
  with assms reg show ?thesis using small_reg_ex(1) by auto
qed

text \<open>The operand as the decoder finds it: only bits 0 to 3 are used.\<close>

lemma fpa_op2_disass:
  assumes "fpa_op2_ok op2"
  shows "prv_fpa_encode_op2 (fpa_op2_bits op2) = op2 \<and> fpa_op2_bits op2 AND NOT 0xf = 0"
  using assms
  by (cases rule: fpa_op2_cases)
    (simp_all add: prv_fpa_encode_op2_def bit_set_def ucast_eq_ucast word_bits u8_eq_iff_bits all_less_8)

lemma prv_fpa_encode_op2_masked: "prv_fpa_encode_op2 w = prv_fpa_encode_op2 (w AND 0xf)"
  by (simp add: prv_fpa_encode_op2_def bit_set_def bit_simps and.assoc)

lemma field_20_le_1: "drop_bit 20 w AND 7 \<le> 1 \<longleftrightarrow> \<not> bit w 22 \<and> \<not> bit w 21" for w :: u32
proof -
  have "x \<le> 1 \<longleftrightarrow> x = 0 \<or> x = 1" for x :: u32
    by (auto simp: word_le_nat_alt word_unat_eq_iff le_Suc_eq)
  then show ?thesis by (auto simp: word_bits)
qed

lemma fpa_tests:
  fixes w :: u32
  shows "drop_bit 25 w AND 7 = 6 \<longleftrightarrow> bit w 27 \<and> bit w 26 \<and> \<not> bit w 25"
    and "drop_bit 25 w AND 7 = 7 \<longleftrightarrow> bit w 27 \<and> bit w 26 \<and> bit w 25"
    and "drop_bit 12 w AND 0xf = 0xf \<longleftrightarrow> bit w 15 \<and> bit w 14 \<and> bit w 13 \<and> bit w 12"
    and "drop_bit 20 w AND 7 = 2 \<longleftrightarrow> \<not> bit w 22 \<and> bit w 21 \<and> \<not> bit w 20"
    and "drop_bit 20 w AND 7 = 3 \<longleftrightarrow> \<not> bit w 22 \<and> bit w 21 \<and> bit w 20"
    and "drop_bit 20 w AND 0xf = 0 \<longleftrightarrow> \<not> bit w 23 \<and> \<not> bit w 22 \<and> \<not> bit w 21 \<and> \<not> bit w 20"
    and "drop_bit 20 w AND 0xf = 1 \<longleftrightarrow> \<not> bit w 23 \<and> \<not> bit w 22 \<and> \<not> bit w 21 \<and> bit w 20"
    and "drop_bit 21 w AND 7 = 4 \<longleftrightarrow> bit w 23 \<and> \<not> bit w 22 \<and> \<not> bit w 21"
    and "drop_bit 21 w AND 7 = 5 \<longleftrightarrow> bit w 23 \<and> \<not> bit w 22 \<and> bit w 21"
    and "drop_bit 21 w AND 7 = 6 \<longleftrightarrow> bit w 23 \<and> bit w 22 \<and> \<not> bit w 21"
    and "drop_bit 21 w AND 7 = 7 \<longleftrightarrow> bit w 23 \<and> bit w 22 \<and> bit w 21"
  by (auto simp: word_bits)

lemmas fpa_defs = copro_defs prv_fpa_disass_def fpa_tests field_20_le_1

section \<open>Instructions\<close>

lemma fpa_stran_disass:
  fixes d :: "3 word" and b :: "4 word"
  assumes "fpa_stran_word t \<lparr>fpa_stran_ccode = c, fpa_stran_size = sz, fpa_stran_dest = ucast d,
    fpa_stran_base = ucast b, fpa_stran_offset = off, fpa_stran_pre_indexed = p,
    fpa_stran_write_back = wb, fpa_stran_subtract = (\<not> u)\<rparr> = w" and "sz \<in> {4, 8, 12}"
  shows "subtilis_arm_disass st w False = Inr (Fpa_stran t \<lparr>fpa_stran_ccode = c,
    fpa_stran_size = (if sz = 12 then 16 else sz), fpa_stran_dest = ucast d,
    fpa_stran_base = ucast b, fpa_stran_offset = off, fpa_stran_pre_indexed = p,
    fpa_stran_write_back = wb, fpa_stran_subtract = (\<not> u)\<rparr>)"
  using assms
  by (elim insertE emptyE; cases t; cases p; simp add: fpa_stran_word_def word_bits;
      simp add: fpa_defs prv_decode_fpa_stran_def stran_size; (simp add: word_bits u8_eq_iff_bits all_less_8)?)

lemma fpa_op_code_index:
  "fpa_op_code t < 16"
  "t \<noteq> FPA_POL \<Longrightarrow> prv_fpa_data_opcodes !
     unat (push_bit 1 (fpa_op_code t) OR (if fpa_dyadic t then 0 else 1)) = Some t"
  by (cases t; simp add: prv_fpa_data_opcodes_def)+

lemma bit_fpa_op_code_high: "4 \<le> n \<Longrightarrow> \<not> bit (fpa_op_code t) n"
  by (rule bit_lt_pow [of _ 4]) (simp_all add: fpa_op_code_index(1))

lemma fpa_data_disass:
  fixes d m :: "3 word"
  assumes w: "fpa_data_word (fpa_dyadic t) t \<lparr>fpa_data_ccode = c, fpa_data_rounding = r,
    fpa_data_size = sz, fpa_data_dest = ucast d, fpa_data_op1 = ucast m, fpa_data_op2 = op2\<rparr> = w"
   and sz: "sz \<in> {4, 8, 12}" and op2: "fpa_op2_ok op2" and t: "t \<noteq> FPA_POL"
  shows "subtilis_arm_disass st w False = Inr (Fpa_data t \<lparr>fpa_data_ccode = c,
    fpa_data_rounding = r, fpa_data_size = (if sz = 12 then 16 else sz), fpa_data_dest = ucast d,
    fpa_data_op1 = (if fpa_dyadic t then ucast m else 6), fpa_data_op2 = op2\<rparr>)"
proof -
  define x where "x = fpa_op2_bits op2"
  define y where "y = prv_encode_fpa_rounding r"
  define k where "k = push_bit 1 (fpa_op_code t)"
  have x: "x AND NOT 0xf = 0" "prv_fpa_encode_op2 x = op2"
    using fpa_op2_disass [OF op2] by (simp_all add: x_def)
  have y: "y AND NOT 0x60 = 0"
    unfolding y_def by (rule rounding_disass(1))
  have k: "bit k n \<longleftrightarrow> 1 \<le> n \<and> n < 32 \<and> bit (fpa_op_code t) (n - 1)" for n
    unfolding k_def bit_push_bit_iff by auto
  have e: "cc_at_28 c OR push_bit 24 0xE OR push_bit 20 (fpa_op_code t)
     OR (if sz = 8 then push_bit 7 1 else if sz = 12 then push_bit 19 1 else 0)
     OR (if fpa_dyadic t then reg_at 16 (ucast m) else push_bit 15 1)
     OR reg_at 12 (ucast d) OR push_bit 8 1 OR y OR x = w"
    using w by (simp only: fpa_data_word_def x_def y_def fpa_data_instr.simps)
  have "w AND 0xf = x" and "w AND 0x60 = y"
    and i: "(drop_bit 19 w AND 0x1E) OR (drop_bit 15 w AND 1) = k OR (if fpa_dyadic t then 0 else 1)"
    using x(1) y unfolding e [symmetric]
    by (cases "fpa_dyadic t"; simp add: word_bits bit_fpa_op_code_high k)+
  then have o: "prv_fpa_encode_op2 w = op2" and rnd: "rounding_of (drop_bit 5 w AND 3) = r"
    using prv_fpa_encode_op2_masked [of w] x(2) rounding_disass(2) by (simp_all add: y_def)
  have op: "prv_fpa_data_opcodes ! unat ((drop_bit 19 w AND 0x1E) OR (drop_bit 15 w AND 1)) = Some t"
    unfolding i k_def by (rule fpa_op_code_index(2) [OF t])
  show ?thesis
    using e x(1) y sz
    by (elim insertE emptyE; cases "fpa_dyadic t"; simp add: word_bits bit_fpa_op_code_high;
      simp add: fpa_defs prv_decode_fpa_data_def op data_size rnd o; (simp add: word_bits bit_fpa_op_code_high)?)
qed

text \<open>A transfer whose third operand is register 15 reads as a comparison.\<close>

lemma fpa_tran_dispatch:
  assumes "bit w 27 \<and> bit w 26 \<and> bit w 25 \<and> \<not> bit w 24 \<and> bit w 8 \<and> bit w 4 \<and> \<not> bit w 22"
    and "\<not> bit w 15 \<or> \<not> bit w 14 \<or> \<not> bit w 13 \<or> \<not> bit w 12"
  shows "subtilis_arm_disass st w False =
    (if \<not> bit w 21 then prv_decode_fpa_tran w
     else Inr (prv_decode_fpa_cptran (drop_bit 20 w AND 7) w))"
  using assms
  by (cases "bit w 21"; cases "bit w 20"; elim disjE; simp add: fpa_defs)

lemma not_15_bits: "r \<noteq> 15 \<Longrightarrow> \<not> bit r 3 \<or> \<not> bit r 2 \<or> \<not> bit r 1 \<or> \<not> bit r 0" for r :: "4 word"
  by (auto simp: bit_eq_iff [of r] less_Suc_eq numeral_eq_Suc bit_numeral_rec)

lemma flt_disass:
  fixes d :: "3 word" and r :: "4 word"
  assumes w: "fpa_tran_word FPA_FLT \<lparr>fpa_tran_ccode = c, fpa_tran_dest = ucast d,
    fpa_tran_op2 = Fpa_reg (ucast r), fpa_tran_size = sz, fpa_tran_rounding = rnd\<rparr> = Inr w"
   and sz: "sz \<in> {4, 8, 12}" and r: "r \<noteq> 15"
  shows "subtilis_arm_disass st w False = Inr (Fpa_tran FPA_FLT \<lparr>fpa_tran_ccode = c,
    fpa_tran_dest = ucast d, fpa_tran_op2 = Fpa_reg (ucast r),
    fpa_tran_size = (if sz = 12 then 16 else sz), fpa_tran_rounding = rnd\<rparr>)"
proof -
  define y where "y = prv_encode_fpa_rounding rnd"
  have y: "y AND NOT 0x60 = 0"
    unfolding y_def by (rule rounding_disass(1))
  have e: "cc_at_28 c OR push_bit 24 0xE
     OR ((if sz = 8 then push_bit 7 1 else if sz = 12 then push_bit 19 1 else 0)
         OR reg_at 16 (ucast d) OR reg_at 12 (ucast r))
     OR push_bit 8 1 OR y OR push_bit 4 1 = w"
    using w by (simp only: fpa_tran_word_def y_def fpa_tran_instr.simps fpa_op2_reg.simps
      fpa_tran_type.simps rbind_simps sum.inject)
  have "w AND 0x60 = y"
    using y unfolding e [symmetric] by (simp add: word_bits)
  then have rnd: "rounding_of (drop_bit 5 w AND 3) = rnd"
    using rounding_disass(2) by (simp add: y_def)
  show ?thesis
    using e y sz not_15_bits [OF r]
    by (elim insertE emptyE; simp add: word_bits; subst fpa_tran_dispatch;
      (simp add: fpa_defs prv_decode_fpa_tran_def data_size rnd; (simp add: word_bits)?)?)
qed

lemma fix_disass:
  fixes d :: "4 word"
  assumes w: "fpa_tran_word FPA_FIX \<lparr>fpa_tran_ccode = c, fpa_tran_dest = ucast d,
    fpa_tran_op2 = op2, fpa_tran_size = sz, fpa_tran_rounding = rnd\<rparr> = Inr w"
   and d: "d \<noteq> 15" and op2: "fpa_op2_ok op2"
  shows "subtilis_arm_disass st w False = Inr (Fpa_tran FPA_FIX \<lparr>fpa_tran_ccode = c,
    fpa_tran_dest = ucast d, fpa_tran_op2 = op2, fpa_tran_size = 0, fpa_tran_rounding = rnd\<rparr>)"
proof -
  define x where "x = fpa_op2_bits op2"
  define y where "y = prv_encode_fpa_rounding rnd"
  have x: "x AND NOT 0xf = 0" "prv_fpa_encode_op2 x = op2"
    using fpa_op2_disass [OF op2] by (simp_all add: x_def)
  have y: "y AND NOT 0x60 = 0"
    unfolding y_def by (rule rounding_disass(1))
  have e: "cc_at_28 c OR push_bit 24 0xE OR (x OR reg_at 12 (ucast d) OR push_bit 20 1)
     OR push_bit 8 1 OR y OR push_bit 4 1 = w"
    using w by (simp only: fpa_tran_word_def x_def y_def fpa_tran_instr.simps
      fpa_tran_type.simps rbind_simps sum.inject)
  have "w AND 0xf = x" and "w AND 0x60 = y"
    using x(1) y unfolding e [symmetric] by (simp_all add: word_bits)
  then have o: "prv_fpa_encode_op2 w = op2" and rnd: "rounding_of (drop_bit 5 w AND 3) = rnd"
    using prv_fpa_encode_op2_masked [of w] x(2) rounding_disass(2) by (simp_all add: y_def)
  show ?thesis
    using e x(1) y not_15_bits [OF d]
    by (simp add: word_bits; subst fpa_tran_dispatch;
      (simp add: fpa_defs prv_decode_fpa_tran_def o rnd; (simp add: word_bits)?)?)
qed

lemma fpa_cmp_disass:
  fixes d :: "3 word"
  assumes w: "fpa_cmp_word t \<lparr>fpa_cmp_ccode = c, fpa_cmp_dest = ucast d, fpa_cmp_op2 = op2\<rparr> = w"
   and op2: "fpa_op2_ok op2"
  shows "subtilis_arm_disass st w False = Inr (Fpa_cmp t \<lparr>fpa_cmp_ccode = c,
    fpa_cmp_dest = ucast d, fpa_cmp_op2 = op2\<rparr>)"
proof -
  define x where "x = fpa_op2_bits op2"
  have x: "x AND NOT 0xf = 0" "prv_fpa_encode_op2 x = op2"
    using fpa_op2_disass [OF op2] by (simp_all add: x_def)
  have e: "cc_at_28 c OR push_bit 24 0xE OR push_bit 21 (fpa_cmp_op_code t) OR push_bit 20 1
     OR reg_at 16 (ucast d) OR push_bit 12 15 OR push_bit 8 1 OR push_bit 4 1 OR x = w"
    using w by (simp only: fpa_cmp_word_def x_def fpa_cmp_instr.simps)
  have "w AND 0xf = x"
    using x(1) unfolding e [symmetric] by (cases t; simp add: word_bits)
  then have o: "prv_fpa_encode_op2 w = op2"
    using prv_fpa_encode_op2_masked [of w] x(2) by simp
  show ?thesis
    using e x(1)
    by (cases t; simp add: word_bits;
      simp add: fpa_defs prv_decode_fpa_cmp_def o; (simp add: word_bits)?)
qed

lemma fpa_cptran_disass:
  fixes d :: "4 word"
  assumes w: "fpa_cptran_word t \<lparr>fpa_cptran_ccode = c, fpa_cptran_dest = ucast d\<rparr> = w"
   and d: "d \<noteq> 15"
  shows "subtilis_arm_disass st w False =
    Inr (Fpa_cptran t \<lparr>fpa_cptran_ccode = c, fpa_cptran_dest = ucast d\<rparr>)"
  using w not_15_bits [OF d]
  by (cases t; simp add: fpa_cptran_word_def word_bits; subst fpa_tran_dispatch;
      (simp add: fpa_defs prv_decode_fpa_cptran_def; (simp add: word_bits)?)?)

section \<open>The round trip\<close>

text \<open>
  \<open>POL\<close> is left out, which comes back as \<open>ACS\<close>, and so are transfers of register 15, which
  read as comparisons. The extended size 12 comes back as 16, and the size of a \<open>FIX\<close> as 0.
\<close>

fun fpa_ok :: "arm_instr \<Rightarrow> bool" where
  "fpa_ok (Fpa_data t i) \<longleftrightarrow> t \<noteq> FPA_POL \<and> fpa_data_size i \<in> {4, 8, 12}
     \<and> fpa_data_dest i < 8 \<and> fpa_data_op1 i < 8 \<and> fpa_op2_ok (fpa_data_op2 i)"
| "fpa_ok (Fpa_stran t i) \<longleftrightarrow>
     fpa_stran_size i \<in> {4, 8, 12} \<and> fpa_stran_dest i < 8 \<and> fpa_stran_base i < 16"
| "fpa_ok (Fpa_tran t i) \<longleftrightarrow>
     (case t of
        FPA_FLT \<Rightarrow> fpa_tran_size i \<in> {4, 8, 12} \<and> fpa_tran_dest i < 8
          \<and> (\<exists>r<15. fpa_tran_op2 i = Fpa_reg r)
      | FPA_FIX \<Rightarrow> fpa_tran_dest i < 15 \<and> fpa_op2_ok (fpa_tran_op2 i))"
| "fpa_ok (Fpa_cmp t i) \<longleftrightarrow> fpa_cmp_dest i < 8 \<and> fpa_op2_ok (fpa_cmp_op2 i)"
| "fpa_ok (Fpa_cptran t i) \<longleftrightarrow> fpa_cptran_dest i < 15"
| "fpa_ok _ \<longleftrightarrow> False"

definition decoded_size :: "nat \<Rightarrow> nat" where
  "decoded_size sz = (if sz = 12 then 16 else sz)"

fun fpa_decoded :: "arm_instr \<Rightarrow> arm_instr" where
  "fpa_decoded (Fpa_data t i) =
     Fpa_data t (i\<lparr>fpa_data_size := decoded_size (fpa_data_size i),
                   fpa_data_op1 := (if fpa_dyadic t then fpa_data_op1 i else 6)\<rparr>)"
| "fpa_decoded (Fpa_stran t i) = Fpa_stran t (i\<lparr>fpa_stran_size := decoded_size (fpa_stran_size i)\<rparr>)"
| "fpa_decoded (Fpa_tran t i) =
     Fpa_tran t (i\<lparr>fpa_tran_size := (if t = FPA_FLT then decoded_size (fpa_tran_size i) else 0)\<rparr>)"
| "fpa_decoded i = i"

lemma reg_lt_15_ex: "(r::arm_reg) < 15 \<Longrightarrow> \<exists>y::4 word. r = ucast y \<and> y \<noteq> 15"
proof -
  assume r: "r < 15"
  then have "r < 16" by (rule order.strict_trans) simp
  then obtain y :: "4 word" where y: "r = ucast y"
    using small_reg_ex(2) by blast
  with r have "y \<noteq> 15" by auto
  with y show ?thesis by blast
qed

lemma fpa_round_trip:
  assumes "fpa_ok i"
  shows "\<exists>w. instr_word i = Some (Inr w) \<and> subtilis_arm_disass st w False = Inr (fpa_decoded i)"
proof (cases i)
  case (Fpa_data t d)
  with assms obtain x y :: "3 word" where "fpa_data_dest d = ucast x" "fpa_data_op1 d = ucast y"
    by (auto dest!: small_reg_ex(1))
  then show ?thesis
    using fpa_data_disass [OF refl, of "fpa_data_size d" "fpa_data_op2 d" t] Fpa_data assms
    by (cases d) (auto simp: decoded_size_def)
next
  case (Fpa_stran t s)
  with assms obtain x :: "3 word" and y :: "4 word" where
    "fpa_stran_dest s = ucast x" "fpa_stran_base s = ucast y"
    by (auto dest!: small_reg_ex(1,2))
  then show ?thesis
    using fpa_stran_disass [OF refl, where u = "\<not> fpa_stran_subtract s" and sz = "fpa_stran_size s"]
      Fpa_stran assms
    by (cases s) (auto simp: decoded_size_def)
next
  case (Fpa_tran t f)
  show ?thesis
  proof (cases t)
    case FPA_FLT
    with assms Fpa_tran obtain x :: "3 word" and y :: "4 word" where
      "fpa_tran_dest f = ucast x" "fpa_tran_op2 f = Fpa_reg (ucast y)" "y \<noteq> 15"
      by (auto dest!: small_reg_ex(1) reg_lt_15_ex)
    then show ?thesis
      using flt_disass [where sz = "fpa_tran_size f"] Fpa_tran FPA_FLT assms
      by (cases f) (auto simp: decoded_size_def fpa_tran_word_def)
  next
    case FPA_FIX
    with assms Fpa_tran obtain x :: "4 word" where "fpa_tran_dest f = ucast x" "x \<noteq> 15"
      by (auto dest!: reg_lt_15_ex)
    then show ?thesis
      using fix_disass [where sz = "fpa_tran_size f"] Fpa_tran FPA_FIX assms
      by (cases f) (auto simp: fpa_tran_word_def)
  qed
next
  case (Fpa_cmp t f)
  with assms obtain x :: "3 word" where "fpa_cmp_dest f = ucast x"
    by (auto dest!: small_reg_ex(1))
  then show ?thesis
    using fpa_cmp_disass [OF refl] Fpa_cmp assms by (cases f) auto
next
  case (Fpa_cptran t f)
  with assms obtain x :: "4 word" where "fpa_cptran_dest f = ucast x" "x \<noteq> 15"
    by (auto dest!: reg_lt_15_ex)
  then show ?thesis
    using fpa_cptran_disass [OF refl] Fpa_cptran by (cases f) auto
qed (use assms in simp_all)

end
