(* ===== verification/Arm_Roundtrip_Vfp.thy ===== *)
theory Arm_Roundtrip_Vfp
  imports Arm_Operands
begin

text \<open>
  What the decoder makes of the word that the encoder builds for a VFP instruction. A single
  precision register has five bits, a double precision one four.
\<close>

section \<open>Instructions\<close>


lemmas vfp_ext = prv_vfp_disass_data_def prv_vfp_disass_extensions_def
  prv_vfp_disass_extensiond_def

lemma vfp_tests:
  fixes w :: u32
  shows "w AND 0xeb70ac0 = 0xeb70ac0 \<longleftrightarrow> bit w 27 \<and> bit w 26 \<and> bit w 25 \<and> bit w 23 \<and> bit w 21
      \<and> bit w 20 \<and> bit w 18 \<and> bit w 17 \<and> bit w 16 \<and> bit w 11 \<and> bit w 9 \<and> bit w 7 \<and> bit w 6"
    and "w AND 0xf000a10 = 0xe000a10 \<longleftrightarrow> bit w 27 \<and> bit w 26 \<and> bit w 25 \<and> \<not> bit w 24
      \<and> bit w 11 \<and> bit w 9 \<and> bit w 4"
    and "w AND 0xf400af0 = 0xc400a10 \<longleftrightarrow> bit w 27 \<and> bit w 26 \<and> \<not> bit w 25 \<and> \<not> bit w 24
      \<and> bit w 22 \<and> bit w 11 \<and> bit w 9 \<and> \<not> bit w 7 \<and> \<not> bit w 6 \<and> \<not> bit w 5 \<and> bit w 4"
    and "w AND 0x0e000000 = 0x0c000000 \<longleftrightarrow> bit w 27 \<and> bit w 26 \<and> \<not> bit w 25"
    and "w AND 0xf00 = 0xa00 \<longleftrightarrow> bit w 11 \<and> \<not> bit w 10 \<and> bit w 9 \<and> \<not> bit w 8"
    and "w AND 0xf00 = 0xb00 \<longleftrightarrow> bit w 11 \<and> \<not> bit w 10 \<and> bit w 9 \<and> bit w 8"
    and "w AND 0xe000a00 = 0xe000a00 \<longleftrightarrow> bit w 27 \<and> bit w 26 \<and> bit w 25 \<and> bit w 11 \<and> bit w 9"
    and "w AND 0xe000b00 = 0xe000b00 \<longleftrightarrow> bit w 27 \<and> bit w 26 \<and> bit w 25 \<and> bit w 11 \<and> bit w 9
      \<and> bit w 8"
    and "drop_bit 21 w AND 7 = 7 \<longleftrightarrow> bit w 23 \<and> bit w 22 \<and> bit w 21"
    and "drop_bit 8 w AND 0xf = 0xb \<longleftrightarrow> bit w 11 \<and> \<not> bit w 10 \<and> bit w 9 \<and> bit w 8"
    and "w AND 0x100 = 0 \<longleftrightarrow> \<not> bit w 8"
    and "drop_bit n w AND 1 = 0 \<longleftrightarrow> \<not> bit w n"
  by (auto simp: word_bits)

lemma vfp_fields:
  fixes w :: u32
  assumes "n \<le> 20"
  shows "drop_bit n w AND 0xf = 0 \<longleftrightarrow>
      \<not> bit w (n + 3) \<and> \<not> bit w (n + 2) \<and> \<not> bit w (n + 1) \<and> \<not> bit w n"
    and "drop_bit n w AND 0xf = 1 \<longleftrightarrow>
      \<not> bit w (n + 3) \<and> \<not> bit w (n + 2) \<and> \<not> bit w (n + 1) \<and> bit w n"
    and "drop_bit n w AND 0xf = 4 \<longleftrightarrow>
      \<not> bit w (n + 3) \<and> bit w (n + 2) \<and> \<not> bit w (n + 1) \<and> \<not> bit w n"
    and "drop_bit n w AND 0xf = 5 \<longleftrightarrow>
      \<not> bit w (n + 3) \<and> bit w (n + 2) \<and> \<not> bit w (n + 1) \<and> bit w n"
    and "drop_bit n w AND 0xf = 8 \<longleftrightarrow>
      bit w (n + 3) \<and> \<not> bit w (n + 2) \<and> \<not> bit w (n + 1) \<and> \<not> bit w n"
    and "drop_bit n w AND 0xf = 12 \<longleftrightarrow>
      bit w (n + 3) \<and> bit w (n + 2) \<and> \<not> bit w (n + 1) \<and> \<not> bit w n"
    and "drop_bit n w AND 0xf = 13 \<longleftrightarrow>
      bit w (n + 3) \<and> bit w (n + 2) \<and> \<not> bit w (n + 1) \<and> bit w n"
  using assms by (auto simp: word_bits)

lemmas vfp_dec = copro_defs prv_vfp_disass_def single_at_def single_0_def single_eq vfp_tests
  vfp_fields

lemma vfp_opcode_bits:
  "(drop_bit 6 w AND 1) OR (drop_bit 19 w AND 6) OR (drop_bit 20 w AND 8) =
    (if bit w 23 then 8 else 0) OR (if bit w 21 then 4 else 0) OR (if bit w 20 then 2 else 0)
    OR (if bit w 6 then 1 else 0)" for w :: u32
  by (simp add: word_bits)

lemma vfp_stran_disass_s:
  fixes d :: "5 word" and b :: "4 word"
  assumes "vfp_stran_word t \<lparr>vfp_stran_ccode = c, vfp_stran_dest = ucast d,
    vfp_stran_base = ucast b, vfp_stran_offset = off, vfp_stran_pre_indexed = True,
    vfp_stran_write_back = wb, vfp_stran_subtract = (\<not> u)\<rparr> = w" and "t \<in> {VFP_FSTS, VFP_FLDS}"
  shows "subtilis_arm_disass st w True = Inr (Vfp_stran t \<lparr>vfp_stran_ccode = c,
    vfp_stran_dest = ucast d, vfp_stran_base = ucast b, vfp_stran_offset = off,
    vfp_stran_pre_indexed = True, vfp_stran_write_back = wb, vfp_stran_subtract = (\<not> u)\<rparr>)"
  using assms
  by (elim insertE emptyE; simp add: vfp_stran_word_def Let_def word_bits;
      simp add: vfp_dec prv_vfp_disass_stran_def; (simp add: word_bits u8_eq_iff_bits all_less_8)?)

lemma vfp_stran_disass_d:
  fixes d b :: "4 word"
  assumes "vfp_stran_word t \<lparr>vfp_stran_ccode = c, vfp_stran_dest = ucast d,
    vfp_stran_base = ucast b, vfp_stran_offset = off, vfp_stran_pre_indexed = True,
    vfp_stran_write_back = wb, vfp_stran_subtract = (\<not> u)\<rparr> = w" and "t \<in> {VFP_FSTD, VFP_FLDD}"
  shows "subtilis_arm_disass st w True = Inr (Vfp_stran t \<lparr>vfp_stran_ccode = c,
    vfp_stran_dest = ucast d, vfp_stran_base = ucast b, vfp_stran_offset = off,
    vfp_stran_pre_indexed = True, vfp_stran_write_back = wb, vfp_stran_subtract = (\<not> u)\<rparr>)"
  using assms
  by (elim insertE emptyE; simp add: vfp_stran_word_def Let_def word_bits;
      simp add: vfp_dec prv_vfp_disass_stran_def; (simp add: word_bits u8_eq_iff_bits all_less_8)?)

lemma vfp_copy_disass_s:
  fixes d s :: "5 word"
  assumes "vfp_copy_word t \<lparr>vfp_copy_ccode = c, vfp_copy_dest = ucast d, vfp_copy_src = ucast s\<rparr> = w"
    and "t \<in> {VFP_FCPYS, VFP_FNEGS, VFP_FABSS}"
  shows "subtilis_arm_disass st w True =
    Inr (Vfp_copy t \<lparr>vfp_copy_ccode = c, vfp_copy_dest = ucast d, vfp_copy_src = ucast s\<rparr>)"
  using assms
  by (elim insertE emptyE; simp add: vfp_copy_word_def prv_encode_src_dest_def word_bits;
      simp add: vfp_dec vfp_ext vfp_opcode_bits prv_vfp_disass_copys_def; (simp add: word_bits)?)

lemma vfp_copy_disass_d:
  fixes d s :: "4 word"
  assumes "vfp_copy_word t \<lparr>vfp_copy_ccode = c, vfp_copy_dest = ucast d, vfp_copy_src = ucast s\<rparr> = w"
    and "t \<in> {VFP_FCPYD, VFP_FNEGD, VFP_FABSD}"
  shows "subtilis_arm_disass st w True =
    Inr (Vfp_copy t \<lparr>vfp_copy_ccode = c, vfp_copy_dest = ucast d, vfp_copy_src = ucast s\<rparr>)"
  using assms
  by (elim insertE emptyE; simp add: vfp_copy_word_def prv_encode_src_dest_def word_bits;
      simp add: vfp_dec vfp_ext vfp_opcode_bits prv_vfp_disass_copyd_def; (simp add: word_bits)?)

lemma vfp_tran_disass_s:
  fixes d s :: "5 word"
  assumes "vfp_tran_word t \<lparr>vfp_tran_ccode = c, vfp_tran_use_dregs = False,
    vfp_tran_dest = ucast d, vfp_tran_src = ucast s\<rparr> = w"
    and "t \<in> {VFP_FTOSIS, VFP_FTOUIS, VFP_FTOUIZS, VFP_FTOSIZS, VFP_FSITOS, VFP_FUITOS}"
  shows "subtilis_arm_disass st w True = Inr (Vfp_tran t \<lparr>vfp_tran_ccode = c,
    vfp_tran_use_dregs = False, vfp_tran_dest = ucast d, vfp_tran_src = ucast s\<rparr>)"
  using assms
  by (elim insertE emptyE; simp add: vfp_tran_word_def prv_encode_src_dest_def Let_def word_bits;
      simp add: vfp_dec vfp_ext vfp_opcode_bits prv_vfp_disass_trans_def; (simp add: word_bits)?)

lemma vfp_tran_disass_ds:
  fixes d :: "5 word" and s :: "4 word"
  assumes "vfp_tran_word t \<lparr>vfp_tran_ccode = c, vfp_tran_use_dregs = False,
    vfp_tran_dest = ucast d, vfp_tran_src = ucast s\<rparr> = w"
    and "t \<in> {VFP_FTOSID, VFP_FTOUID, VFP_FTOSIZD, VFP_FTOUIZD}"
  shows "subtilis_arm_disass st w True = Inr (Vfp_tran t \<lparr>vfp_tran_ccode = c,
    vfp_tran_use_dregs = False, vfp_tran_dest = ucast d, vfp_tran_src = ucast s\<rparr>)"
  using assms
  by (elim insertE emptyE; simp add: vfp_tran_word_def prv_encode_src_dest_def Let_def word_bits;
      simp add: vfp_dec vfp_ext vfp_opcode_bits prv_vfp_disass_trand_def; (simp add: word_bits)?)

lemma vfp_fsitod_disass:
  fixes d :: "4 word" and s :: "5 word"
  assumes "vfp_tran_word VFP_FSITOD \<lparr>vfp_tran_ccode = c, vfp_tran_use_dregs = False,
    vfp_tran_dest = ucast d, vfp_tran_src = ucast s\<rparr> = w"
  shows "subtilis_arm_disass st w True = Inr (Vfp_tran VFP_FSITOD \<lparr>vfp_tran_ccode = c,
    vfp_tran_use_dregs = False, vfp_tran_dest = ucast d, vfp_tran_src = ucast s\<rparr>)"
  using assms
  by (simp add: vfp_tran_word_def prv_encode_src_dest_def Let_def word_bits;
      simp add: vfp_dec vfp_ext vfp_opcode_bits prv_vfp_disass_trand_def; (simp add: word_bits)?)

lemma vfp_fmsr_disass:
  fixes d :: "5 word" and s :: "4 word"
  assumes "vfp_cptran_word VFP_FMSR \<lparr>vfp_tran_ccode = c, vfp_tran_use_dregs = False,
    vfp_tran_dest = ucast d, vfp_tran_src = ucast s\<rparr> = w"
  shows "subtilis_arm_disass st w True = Inr (Vfp_cptran VFP_FMSR \<lparr>vfp_tran_ccode = c,
    vfp_tran_use_dregs = False, vfp_tran_dest = ucast d, vfp_tran_src = ucast s\<rparr>)"
  using assms
  by (simp add: vfp_cptran_word_def Let_def word_bits;
      simp add: vfp_dec prv_vfp_disass_cptrans_def; (simp add: word_bits)?)

lemma vfp_fmrs_disass:
  fixes d :: "4 word" and s :: "5 word"
  assumes "vfp_cptran_word VFP_FMRS \<lparr>vfp_tran_ccode = c, vfp_tran_use_dregs = False,
    vfp_tran_dest = ucast d, vfp_tran_src = ucast s\<rparr> = w"
  shows "subtilis_arm_disass st w True = Inr (Vfp_cptran VFP_FMRS \<lparr>vfp_tran_ccode = c,
    vfp_tran_use_dregs = False, vfp_tran_dest = ucast d, vfp_tran_src = ucast s\<rparr>)"
  using assms
  by (simp add: vfp_cptran_word_def Let_def word_bits;
      simp add: vfp_dec prv_vfp_disass_cptrans_def; (simp add: word_bits)?)

lemma vfp_data_disass_s:
  fixes d m n :: "5 word"
  assumes "vfp_data_word t \<lparr>vfp_data_ccode = c, vfp_data_dest = ucast d, vfp_data_op1 = ucast m,
    vfp_data_op2 = ucast n\<rparr> = w" and "snd (vfp_data_opcode t)"
  shows "subtilis_arm_disass st w True = Inr (Vfp_data t \<lparr>vfp_data_ccode = c,
    vfp_data_dest = ucast d, vfp_data_op1 = ucast m, vfp_data_op2 = ucast n\<rparr>)"
  using assms
  by (cases t; simp add: vfp_data_word_def word_bits;
      simp add: vfp_dec prv_vfp_disass_data_def vfp_data_singles_def vfp_opcode_bits; (simp add: word_bits)?)

lemma vfp_data_disass_d:
  fixes d m n :: "4 word"
  assumes "vfp_data_word t \<lparr>vfp_data_ccode = c, vfp_data_dest = ucast d, vfp_data_op1 = ucast m,
    vfp_data_op2 = ucast n\<rparr> = w" and "\<not> snd (vfp_data_opcode t)"
  shows "subtilis_arm_disass st w True = Inr (Vfp_data t \<lparr>vfp_data_ccode = c,
    vfp_data_dest = ucast d, vfp_data_op1 = ucast m, vfp_data_op2 = ucast n\<rparr>)"
  using assms
  by (cases t; simp add: vfp_data_word_def word_bits;
      simp add: vfp_dec prv_vfp_disass_data_def vfp_data_doubles_def vfp_opcode_bits; (simp add: word_bits)?)

lemma vfp_cmp_disass_d:
  fixes m n :: "4 word"
  assumes "vfp_cmp_word t \<lparr>vfp_cmp_ccode = c, vfp_cmp_op1 = ucast m, vfp_cmp_op2 = ucast n\<rparr> = w"
    and "t \<in> {VFP_FCMPD, VFP_FCMPED, VFP_FCMPZD, VFP_FCMPEZD}"
  shows "subtilis_arm_disass st w True = Inr (Vfp_cmp t \<lparr>vfp_cmp_ccode = c,
    vfp_cmp_op1 = ucast m,
    vfp_cmp_op2 = (if t = VFP_FCMPD \<or> t = VFP_FCMPED then ucast n else 0)\<rparr>)"
  using assms
  by (elim insertE emptyE; simp add: vfp_cmp_word_def word_bits;
      simp add: vfp_dec vfp_ext vfp_opcode_bits prv_vfp_disass_cmpd_def; (simp add: word_bits)?)

lemma vfp_fsqrtd_disass:
  fixes d m :: "4 word"
  assumes "vfp_sqrt_word VFP_FSQRTD \<lparr>vfp_sqrt_ccode = c, vfp_sqrt_dest = ucast d,
    vfp_sqrt_op1 = ucast m\<rparr> = w"
  shows "subtilis_arm_disass st w True = Inr (Vfp_sqrt VFP_FSQRTD \<lparr>vfp_sqrt_ccode = c,
    vfp_sqrt_dest = ucast d, vfp_sqrt_op1 = ucast m\<rparr>)"
  using assms
  by (simp add: vfp_sqrt_word_def word_bits;
      simp add: vfp_dec vfp_ext vfp_opcode_bits; (simp add: word_bits)?)

lemma vfp_fsqrts_disass:
  fixes d m :: "5 word"
  assumes "vfp_sqrt_word VFP_FSQRTS \<lparr>vfp_sqrt_ccode = c, vfp_sqrt_dest = ucast d,
    vfp_sqrt_op1 = ucast m\<rparr> = w"
  shows "subtilis_arm_disass st w True = Inr (Vfp_sqrt VFP_FSQRTS \<lparr>vfp_sqrt_ccode = c,
    vfp_sqrt_dest = ucast d, vfp_sqrt_op1 = ucast m\<rparr>)"
  using assms
  by (simp add: vfp_sqrt_word_def word_bits;
      simp add: vfp_dec vfp_ext vfp_opcode_bits; (simp add: word_bits)?)

lemma vfp_sysreg_disass:
  fixes a :: "4 word"
  assumes "vfp_sysreg_word t \<lparr>vfp_sysreg_ccode = c, vfp_sysreg_reg = r,
    vfp_sysreg_arm_reg = ucast a\<rparr> = w"
  shows "subtilis_arm_disass st w True = Inr (Vfp_sysreg t \<lparr>vfp_sysreg_ccode = c,
    vfp_sysreg_reg = r, vfp_sysreg_arm_reg = ucast a\<rparr>)"
  using assms
  by (cases t; cases r; simp add: vfp_sysreg_word_def word_bits;
      simp add: vfp_dec prv_vfp_disass_sysreg_def; (simp add: word_bits)?)

lemma vfp_fcvtds_disass:
  fixes d :: "4 word" and m :: "5 word"
  assumes "vfp_cvt_word VFP_FCVTDS \<lparr>vfp_cvt_ccode = c, vfp_cvt_dest = ucast d,
    vfp_cvt_op1 = ucast m\<rparr> = w"
  shows "subtilis_arm_disass st w True = Inr (Vfp_cvt VFP_FCVTDS \<lparr>vfp_cvt_ccode = c,
    vfp_cvt_dest = ucast d, vfp_cvt_op1 = ucast m\<rparr>)"
  using assms
  by (simp add: vfp_cvt_word_def word_bits;
      simp add: vfp_dec prv_vfp_disass_cvt_def; (simp add: word_bits)?)

lemma vfp_fcvtsd_disass:
  fixes d :: "5 word" and m :: "4 word"
  assumes "vfp_cvt_word VFP_FCVTSD \<lparr>vfp_cvt_ccode = c, vfp_cvt_dest = ucast d,
    vfp_cvt_op1 = ucast m\<rparr> = w"
  shows "subtilis_arm_disass st w True = Inr (Vfp_cvt VFP_FCVTSD \<lparr>vfp_cvt_ccode = c,
    vfp_cvt_dest = ucast d, vfp_cvt_op1 = ucast m\<rparr>)"
  using assms
  by (simp add: vfp_cvt_word_def word_bits;
      simp add: vfp_dec prv_vfp_disass_cvt_def; (simp add: word_bits)?)

section \<open>The round trip\<close>

text \<open>
  With \<^verbatim>\<open>use_dregs\<close> the compiler names the integer half of a transfer by the double register it
  shares; the word holds the number of the single register, and that is what comes back.
\<close>

definition vfp_tran_plain :: "vfp_tran_type \<Rightarrow> vfp_tran_instr \<Rightarrow> vfp_tran_instr" where
  "vfp_tran_plain t i =
     (case vfp_tran_opcode t of (_, float32_src, float32_dest) \<Rightarrow>
        i\<lparr>vfp_tran_use_dregs := False,
          vfp_tran_src := (if \<not> float32_dest \<and> vfp_tran_use_dregs i then vfp_tran_src i * 2
                           else vfp_tran_src i),
          vfp_tran_dest := (if \<not> float32_src \<and> vfp_tran_use_dregs i then vfp_tran_dest i * 2
                            else vfp_tran_dest i)\<rparr>)"

definition vfp_cptran_plain :: "vfp_cptran_type \<Rightarrow> vfp_tran_instr \<Rightarrow> vfp_tran_instr" where
  "vfp_cptran_plain t i =
     i\<lparr>vfp_tran_use_dregs := False,
       vfp_tran_src := (if t = VFP_FMRS \<and> vfp_tran_use_dregs i then vfp_tran_src i * 2
                        else vfp_tran_src i),
       vfp_tran_dest := (if t = VFP_FMSR \<and> vfp_tran_use_dregs i then vfp_tran_dest i * 2
                         else vfp_tran_dest i)\<rparr>"

lemma vfp_plain_words:
  "vfp_tran_word t (vfp_tran_plain t i) = vfp_tran_word t i"
  "vfp_cptran_word u (vfp_cptran_plain u i) = vfp_cptran_word u i"
  by (cases t; simp add: vfp_tran_word_def vfp_tran_plain_def Let_def)
    (cases u; simp add: vfp_cptran_word_def vfp_cptran_plain_def Let_def)

definition vfp_reg_ok :: "bool \<Rightarrow> arm_reg \<Rightarrow> bool" where
  "vfp_reg_ok float32 r \<longleftrightarrow> r < (if float32 then 32 else 16)"

text \<open>
  Left out are the instructions that do not come back: \<open>FUITOD\<close>, which is given the word of
  \<open>FTOUIZD\<close>, the comparisons of single registers, the transfers of two registers, and a load or
  store that is not pre-indexed, which can read as such a transfer.
\<close>

fun vfp_ok :: "arm_instr \<Rightarrow> bool" where
  "vfp_ok (Vfp_stran t i) \<longleftrightarrow> vfp_reg_ok (t \<in> {VFP_FSTS, VFP_FLDS}) (vfp_stran_dest i)
     \<and> vfp_stran_base i < 16 \<and> vfp_stran_pre_indexed i"
| "vfp_ok (Vfp_copy t i) \<longleftrightarrow> vfp_reg_ok (snd (vfp_copy_opcode t)) (vfp_copy_dest i)
     \<and> vfp_reg_ok (snd (vfp_copy_opcode t)) (vfp_copy_src i)"
| "vfp_ok (Vfp_tran t i) \<longleftrightarrow> t \<noteq> VFP_FUITOD
     \<and> vfp_reg_ok (fst (snd (vfp_tran_opcode t))) (vfp_tran_src (vfp_tran_plain t i))
     \<and> vfp_reg_ok (snd (snd (vfp_tran_opcode t))) (vfp_tran_dest (vfp_tran_plain t i))"
| "vfp_ok (Vfp_cptran t i) \<longleftrightarrow>
     vfp_reg_ok (t = VFP_FMRS) (vfp_tran_src (vfp_cptran_plain t i))
     \<and> vfp_reg_ok (t = VFP_FMSR) (vfp_tran_dest (vfp_cptran_plain t i))"
| "vfp_ok (Vfp_data t i) \<longleftrightarrow> vfp_reg_ok (snd (vfp_data_opcode t)) (vfp_data_dest i)
     \<and> vfp_reg_ok (snd (vfp_data_opcode t)) (vfp_data_op1 i)
     \<and> vfp_reg_ok (snd (vfp_data_opcode t)) (vfp_data_op2 i)"
| "vfp_ok (Vfp_cmp t i) \<longleftrightarrow> t \<in> {VFP_FCMPD, VFP_FCMPED, VFP_FCMPZD, VFP_FCMPEZD}
     \<and> vfp_cmp_op1 i < 16 \<and> vfp_cmp_op2 i < 16"
| "vfp_ok (Vfp_sqrt t i) \<longleftrightarrow> vfp_reg_ok (t = VFP_FSQRTS) (vfp_sqrt_dest i)
     \<and> vfp_reg_ok (t = VFP_FSQRTS) (vfp_sqrt_op1 i)"
| "vfp_ok (Vfp_sysreg t i) \<longleftrightarrow> vfp_sysreg_arm_reg i < 16"
| "vfp_ok (Vfp_cvt t i) \<longleftrightarrow> vfp_reg_ok (t = VFP_FCVTSD) (vfp_cvt_dest i)
     \<and> vfp_reg_ok (t = VFP_FCVTDS) (vfp_cvt_op1 i)"
| "vfp_ok _ \<longleftrightarrow> False"

fun vfp_decoded :: "arm_instr \<Rightarrow> arm_instr" where
  "vfp_decoded (Vfp_tran t i) = Vfp_tran t (vfp_tran_plain t i)"
| "vfp_decoded (Vfp_cptran t i) = Vfp_cptran t (vfp_cptran_plain t i)"
| "vfp_decoded (Vfp_cmp t i) =
     Vfp_cmp t (if t = VFP_FCMPD \<or> t = VFP_FCMPED then i else i\<lparr>vfp_cmp_op2 := 0\<rparr>)"
| "vfp_decoded i = i"

lemma vfp_reg_ok_simps:
  "vfp_reg_ok True r \<longleftrightarrow> r < 32"
  "vfp_reg_ok False r \<longleftrightarrow> r < 16"
  by (simp_all add: vfp_reg_ok_def)

lemma vfp_reg_ex:
  "vfp_reg_ok True r \<Longrightarrow> \<exists>y::5 word. r = ucast y"
  "vfp_reg_ok False r \<Longrightarrow> \<exists>y::4 word. r = ucast y"
  using small_reg_ex(2,3) by (simp_all add: vfp_reg_ok_simps)

lemma vfp_stran_round_trip:
  "vfp_ok (Vfp_stran t i) \<Longrightarrow> subtilis_arm_disass st (vfp_stran_word t i) True = Inr (Vfp_stran t i)"
  using vfp_stran_disass_s [OF refl, where u = "\<not> vfp_stran_subtract i"]
    vfp_stran_disass_d [OF refl, where u = "\<not> vfp_stran_subtract i"]
  by (cases i; cases t; auto dest!: vfp_reg_ex small_reg_ex(2))

lemma vfp_copy_round_trip:
  "vfp_ok (Vfp_copy t i) \<Longrightarrow> subtilis_arm_disass st (vfp_copy_word t i) True = Inr (Vfp_copy t i)"
  using vfp_copy_disass_s [OF refl] vfp_copy_disass_d [OF refl]
  by (cases i; cases t; auto dest!: vfp_reg_ex)

lemma vfp_tran_round_trip:
  assumes "vfp_ok (Vfp_tran t i)"
  shows "subtilis_arm_disass st (vfp_tran_word t i) True = Inr (vfp_decoded (Vfp_tran t i))"
proof -
  obtain c d s where p: "vfp_tran_plain t i
      = \<lparr>vfp_tran_ccode = c, vfp_tran_use_dregs = False, vfp_tran_dest = d, vfp_tran_src = s\<rparr>"
    by (cases i; cases t; simp add: vfp_tran_plain_def)
  show ?thesis
    using assms vfp_tran_disass_s [OF refl] vfp_tran_disass_ds [OF refl] vfp_fsitod_disass [OF refl]
    unfolding vfp_plain_words(1) [symmetric, of t i] vfp_decoded.simps vfp_ok.simps p
    by (cases t; auto dest!: vfp_reg_ex)
qed

lemma vfp_cptran_round_trip:
  assumes "vfp_ok (Vfp_cptran t i)"
  shows "subtilis_arm_disass st (vfp_cptran_word t i) True = Inr (vfp_decoded (Vfp_cptran t i))"
proof -
  obtain c d s where p: "vfp_cptran_plain t i
      = \<lparr>vfp_tran_ccode = c, vfp_tran_use_dregs = False, vfp_tran_dest = d, vfp_tran_src = s\<rparr>"
    by (cases i; simp add: vfp_cptran_plain_def)
  show ?thesis
    using assms vfp_fmsr_disass [OF refl] vfp_fmrs_disass [OF refl]
    unfolding vfp_plain_words(2) [symmetric, of t i] vfp_decoded.simps vfp_ok.simps p
    by (cases t; auto dest!: vfp_reg_ex)
qed

lemma vfp_data_round_trip:
  "vfp_ok (Vfp_data t i) \<Longrightarrow> subtilis_arm_disass st (vfp_data_word t i) True = Inr (Vfp_data t i)"
  using vfp_data_disass_s [OF refl] vfp_data_disass_d [OF refl]
  by (cases i; cases "snd (vfp_data_opcode t)"; auto dest!: vfp_reg_ex)

lemma vfp_round_trip:
  assumes "vfp_ok i"
  shows "\<exists>w. instr_word i = Some (Inr w) \<and> subtilis_arm_disass st w True = Inr (vfp_decoded i)"
proof (cases i)
  case (Vfp_cmp t c)
  with assms vfp_cmp_disass_d [OF refl] show ?thesis
    by (cases c) (auto dest!: small_reg_ex(2))
next
  case (Vfp_sqrt t s)
  with assms vfp_fsqrtd_disass [OF refl] vfp_fsqrts_disass [OF refl] show ?thesis
    by (cases s; cases t) (auto dest!: vfp_reg_ex)
next
  case (Vfp_sysreg t s)
  with assms vfp_sysreg_disass [OF refl] show ?thesis
    by (cases s) (auto dest!: small_reg_ex(2))
next
  case (Vfp_cvt t c)
  with assms vfp_fcvtds_disass [OF refl] vfp_fcvtsd_disass [OF refl] show ?thesis
    by (cases c; cases t) (auto dest!: vfp_reg_ex)
qed (use assms vfp_stran_round_trip vfp_copy_round_trip vfp_tran_round_trip vfp_cptran_round_trip
      vfp_data_round_trip in auto)

end
