(* ===== verification/Arm_Roundtrip.thy ===== *)
theory Arm_Roundtrip
  imports Arm_Roundtrip_Int Arm_Roundtrip_Fpa Arm_Roundtrip_Vfp
begin

text \<open>
  The agreement of the encoder (arch/arm32/arm_encode.c) with the decoder
  (arch/arm32/arm_disass.c): the round trips of the three instruction sets, and the instructions
  on which the two disagree.
\<close>

section \<open>Round trips\<close>

text \<open>
  C5: data processing (comparisons with their S bit), multiplications, transfers of words and bytes, of blocks of
  registers without the status bit and of the flags, branches, software interrupts, SIMD instructions and sign
  extensions, with operands that fit their fields (\<open>int_ok\<close>), are given a word, and the decoder turns that word back
  into the instruction, whatever was in the structure it fills. What the word does not express is resolved
  (\<open>int_decoded\<close>): a branch through a register comes back as the move it is, a branch to a label without its offset,
  fields that the decoder leaves alone with what they held before. The transfers of half-words and double words are
  left out, which the decoder misreads.
\<close>

theorem int_instr_round_trip:
  assumes "int_ok i"
  shows "\<exists>w. instr_word i = Some (Inr w)
    \<and> subtilis_arm_disass st w vfp = Inr (int_decoded st i)"
  using assms by (rule int_round_trip)

theorem int_instr_round_trip_witness:
  "\<forall>st vfp. \<exists>w. instr_word (Data INSTR_ADD \<lparr>data_ccode = CC_AL, data_status = False,
      data_dest = 0, data_op1 = 1, data_op2 = OP2_SHIFTED \<lparr>shift_of_reg = 2,
      shift_kind = SHIFT_ASL, shift_by = Shift_integer 3\<rparr>\<rparr>) = Some (Inr w)
    \<and> subtilis_arm_disass st w vfp =
      Inr (int_decoded st (Data INSTR_ADD \<lparr>data_ccode = CC_AL, data_status = False, data_dest = 0,
      data_op1 = 1, data_op2 = OP2_SHIFTED \<lparr>shift_of_reg = 2, shift_kind = SHIFT_ASL,
      shift_by = Shift_integer 3\<rparr>\<rparr>))"
  by (intro allI, rule int_instr_round_trip) simp

text \<open>
  C10: the same for FPA instructions, decoded as such: data operations but for \<^verbatim>\<open>POL\<close>, transfers to and from
  memory, \<^verbatim>\<open>FLT\<close> and \<^verbatim>\<open>FIX\<close>, comparisons and transfers of the status, with sizes of 4, 8 and 12 bytes, operands that
  fit their fields, and no transfer of register 15 (\<open>fpa_ok\<close>). What comes back differs from the instruction where the
  decoder has another number or the word none (\<open>fpa_decoded\<close>): the size 12 comes back as 16, the size of \<^verbatim>\<open>FIX\<close>
  as 0, and the first operand of an operation with only one as 6.
\<close>

theorem fpa_instr_round_trip:
  assumes "fpa_ok i"
  shows "\<exists>w. instr_word i = Some (Inr w) \<and> subtilis_arm_disass st w False = Inr (fpa_decoded i)"
  using assms by (rule fpa_round_trip)

theorem fpa_instr_round_trip_witness:
  "\<forall>st. \<exists>w. instr_word (Fpa_data FPA_MUF \<lparr>fpa_data_ccode = CC_NE, fpa_data_rounding = ROUNDING_ZERO,
      fpa_data_size = 8, fpa_data_dest = 1, fpa_data_op1 = 7, fpa_data_op2 = Fpa_imm 15\<rparr>)
      = Some (Inr w)
    \<and> subtilis_arm_disass st w False =
      Inr (fpa_decoded (Fpa_data FPA_MUF \<lparr>fpa_data_ccode = CC_NE,
        fpa_data_rounding = ROUNDING_ZERO, fpa_data_size = 8, fpa_data_dest = 1,
        fpa_data_op1 = 7, fpa_data_op2 = Fpa_imm 15\<rparr>))"
  by (intro allI, rule fpa_instr_round_trip) simp



text \<open>
  The instructions that survive a processor with the one or the other floating point unit, and what they come
  back as. The three instruction sets are different constructors, and each of the three functions leaves the
  instructions of the others alone.
\<close>

definition decodable :: "bool \<Rightarrow> arm_instr \<Rightarrow> bool" where
  "decodable vfp i \<longleftrightarrow> int_ok i \<or> (if vfp then vfp_ok i else fpa_ok i)"

definition instr_decoded :: "stale \<Rightarrow> arm_instr \<Rightarrow> arm_instr" where [simp]:
  "instr_decoded st i = vfp_decoded (fpa_decoded (int_decoded st i))"

lemma instr_decoded_set:
  "int_ok i \<Longrightarrow> instr_decoded st i = int_decoded st i"
  "fpa_ok i \<Longrightarrow> instr_decoded st i = fpa_decoded i"
  "vfp_ok i \<Longrightarrow> instr_decoded st i = vfp_decoded i"
  by (cases i; simp)+

lemma decodable_round_trip:
  assumes "decodable vfp i"
  shows "\<exists>w. instr_word i = Some (Inr w) \<and> subtilis_arm_disass st w vfp = Inr (instr_decoded st i)"
  using assms int_round_trip [of i st vfp] fpa_round_trip [of i st] vfp_round_trip [of i st]
  by (cases vfp) (auto simp only: decodable_def instr_decoded_set if_True if_False)

section \<open>Where encoder and decoder disagree\<close>

text \<open>
  C14: a comparison of two single precision registers comes back with the low bits of the two
  register numbers exchanged: the decoder reads each from the place of the other.
\<close>

theorem vfp_cmp_single_exchanged:
  assumes "m < 32" and "n < 32" and "t \<in> {VFP_FCMPS, VFP_FCMPES}"
  shows "subtilis_arm_disass st
      (vfp_cmp_word t \<lparr>vfp_cmp_ccode = c, vfp_cmp_op1 = m, vfp_cmp_op2 = n\<rparr>) True =
    Inr (Vfp_cmp t \<lparr>vfp_cmp_ccode = c, vfp_cmp_op1 = (m AND 0x1e) OR (n AND 1),
      vfp_cmp_op2 = (n AND 0x1e) OR (m AND 1)\<rparr>)"
proof -
  obtain m' n' :: "5 word" where mn: "m = ucast m'" "n = ucast n'"
    using small_reg_ex(3) assms(1,2) by blast
  define w where "w = vfp_cmp_word t \<lparr>vfp_cmp_ccode = c, vfp_cmp_op1 = m, vfp_cmp_op2 = n\<rparr>"
  define a where "a = (m' AND 0x1e) OR (n' AND 1)"
  define b where "b = (n' AND 0x1e) OR (m' AND 1)"
  have ab: "(m AND 0x1e) OR (n AND 1) = ucast a" "(n AND 0x1e) OR (m AND 1) = ucast b"
    unfolding a_def b_def mn by (simp_all add: ucast_and_or)
  have bits: "bit a 0 = bit n' 0" "bit a 1 = bit m' 1" "bit a 2 = bit m' 2" "bit a 3 = bit m' 3"
    "bit a 4 = bit m' 4" "bit b 0 = bit m' 0" "bit b 1 = bit n' 1" "bit b 2 = bit n' 2"
    "bit b 3 = bit n' 3" "bit b 4 = bit n' 4"
    unfolding a_def b_def by (simp_all add: bit_simps)
  have "vfp_cmp_word t \<lparr>vfp_cmp_ccode = c, vfp_cmp_op1 = ucast m', vfp_cmp_op2 = ucast n'\<rparr> = w"
    by (simp add: w_def mn)
  then have "subtilis_arm_disass st w True =
      Inr (Vfp_cmp t \<lparr>vfp_cmp_ccode = c, vfp_cmp_op1 = ucast a, vfp_cmp_op2 = ucast b\<rparr>)"
    using assms(3) bits
    by (elim insertE emptyE; simp add: vfp_cmp_word_def word_bits;
      simp add: vfp_dec vfp_ext vfp_opcode_bits prv_vfp_disass_cmps_def; (simp add: word_bits)?)
  then show ?thesis
    by (simp only: w_def ab)
qed

theorem vfp_cmp_single_exchanged_witness:
  "\<forall>st. subtilis_arm_disass st
      (vfp_cmp_word VFP_FCMPS \<lparr>vfp_cmp_ccode = CC_AL, vfp_cmp_op1 = 1, vfp_cmp_op2 = 0\<rparr>) True =
    Inr (Vfp_cmp VFP_FCMPS \<lparr>vfp_cmp_ccode = CC_AL, vfp_cmp_op1 = 0, vfp_cmp_op2 = 1\<rparr>)"
  using vfp_cmp_single_exchanged [of 1 0 VFP_FCMPS _ CC_AL] by simp

text \<open>
  \<open>FUITOD\<close> is given the word of \<open>FTOUIZD\<close>: the decoder, and the processor, see a conversion
  in the other direction.
\<close>

theorem vfp_fuitod_is_ftouizd:
  "vfp_tran_word VFP_FUITOD \<lparr>vfp_tran_ccode = CC_AL, vfp_tran_use_dregs = False,
      vfp_tran_dest = 2, vfp_tran_src = 4\<rparr> = 0xeebc2bc2
    \<and> subtilis_arm_disass st 0xeebc2bc2 True =
      Inr (Vfp_tran VFP_FTOUIZD \<lparr>vfp_tran_ccode = CC_AL, vfp_tran_use_dregs = False,
        vfp_tran_dest = 4, vfp_tran_src = 2\<rparr>)"
  by code_simp

text \<open>
  A transfer of two core registers to two single registers comes back as the transfer in the
  other direction; the decoder tests for the one value its own guard lets through.
\<close>

theorem vfp_fmsrr_is_fmrrs:
  "vfp_tran_dbl_word VFP_FMSRR \<lparr>vfp_tran_dbl_ccode = CC_AL, vfp_tran_dbl_dest1 = 4,
      vfp_tran_dbl_dest2 = 5, vfp_tran_dbl_src1 = 0, vfp_tran_dbl_src2 = 1\<rparr> = Inr 0xec410a12
    \<and> subtilis_arm_disass st 0xec410a12 True =
      Inr (Vfp_tran_dbl VFP_FMRRS \<lparr>vfp_tran_dbl_ccode = CC_AL, vfp_tran_dbl_dest1 = 0,
        vfp_tran_dbl_dest2 = 1, vfp_tran_dbl_src1 = 4, vfp_tran_dbl_src2 = 5\<rparr>)"
  by code_simp

text \<open>
  The walker hands \<open>POL\<close> to the callback for instructions with one operand, and its word is
  that of \<open>ACS\<close>.
\<close>

theorem fpa_pol_is_acs:
  "fpa_data_word (fpa_dyadic FPA_POL) FPA_POL i = fpa_data_word (fpa_dyadic FPA_ACS) FPA_ACS i"
  by (simp add: fpa_data_word_def)

text \<open>
  A halfword or signed byte transfer with a register offset comes back with an immediate: the
  decoder tests bits 1, 2 and 4 of the word, of which bit 4 is always set.
\<close>

theorem stran_misc_register_offset_lost:
  "stran_misc_word STRAN_MISC_LDR \<lparr>misc_type = STRAN_MISC_H, misc_ccode = CC_AL, misc_dest = 1,
      misc_base = 0, misc_offset = Misc_reg 3, misc_pre_indexed = True,
      misc_write_back = False, misc_subtract = False\<rparr> = Inr 0xe19010b3
    \<and> subtilis_arm_disass st 0xe19010b3 vfp =
      Inr (Stran_misc STRAN_MISC_LDR \<lparr>misc_type = STRAN_MISC_H, misc_ccode = CC_AL, misc_dest = 1,
      misc_base = 0, misc_offset = Misc_imm 3, misc_pre_indexed = stale_pre_indexed st,
      misc_write_back = False, misc_subtract = False\<rparr>)"
  by code_simp

end
