(* ===== verification/Arm_Link.thy ===== *)
theory Arm_Link
  imports Subtilis_Memory Arm_Core
begin

text \<open>
  The linker (arch/arm32/arm_link.c). While the sections of a program are encoded one after the
  other it records the places that can only be filled in at the end: calls of other sections,
  distances to the constants behind the code, and distances to other sections. \<open>link_link\<close> fills
  them in.
\<close>

section \<open>The records\<close>

definition SUBTILIS_CONFIG_PROC_GRAN :: nat where
  "SUBTILIS_CONFIG_PROC_GRAN = 64"

record link_constant =
  lc_index :: nat
  lc_code_index :: nat
  lc_constant_offset :: nat

text \<open>A section that has no address yet is \<open>None\<close>, in the code \<^verbatim>\<open>SIZE_MAX\<close>.\<close>

record arm_link =
  link_externals :: "nat cvec"
  link_sections :: "nat option list"
  link_constants :: "link_constant cvec"
  link_extrefs :: "link_constant cvec"

definition arm_link_new :: "nat \<Rightarrow> allocs \<Rightarrow> (arm_link \<times> allocs) c_result" where
  "arm_link_new sections al =
     rbind (alloc al) (\<lambda>al.
     rbind (alloc al) (\<lambda>al.
       Inr (\<lparr>link_externals = vec_empty, link_sections = replicate sections None,
             link_constants = vec_empty, link_extrefs = vec_empty\<rparr>, al)))"

definition arm_link_add :: "arm_link \<Rightarrow> nat \<Rightarrow> allocs \<Rightarrow> (arm_link \<times> allocs) c_result" where
  "arm_link_add l offset al =
     rbind (vec_push SUBTILIS_CONFIG_PROC_GRAN offset (link_externals l) al)
       (\<lambda>(v, al). Inr (l\<lparr>link_externals := v\<rparr>, al))"

definition arm_link_constant_add ::
    "arm_link \<Rightarrow> nat \<Rightarrow> nat \<Rightarrow> nat \<Rightarrow> allocs \<Rightarrow> (arm_link \<times> allocs) c_result" where
  "arm_link_constant_add l code_index constant_offset constant_index al =
     rbind (vec_push SUBTILIS_CONFIG_PROC_GRAN
              \<lparr>lc_index = constant_index, lc_code_index = code_index,
               lc_constant_offset = constant_offset\<rparr> (link_constants l) al)
       (\<lambda>(v, al). Inr (l\<lparr>link_constants := v\<rparr>, al))"

definition arm_link_extref_add ::
    "arm_link \<Rightarrow> nat \<Rightarrow> nat \<Rightarrow> nat \<Rightarrow> allocs \<Rightarrow> (arm_link \<times> allocs) c_result" where
  "arm_link_extref_add l code_index constant_offset section_index al =
     rbind (vec_push SUBTILIS_CONFIG_PROC_GRAN
              \<lparr>lc_index = section_index, lc_code_index = code_index,
               lc_constant_offset = constant_offset\<rparr> (link_extrefs l) al)
       (\<lambda>(v, al). Inr (l\<lparr>link_extrefs := v\<rparr>, al))"

definition arm_link_section :: "arm_link \<Rightarrow> nat \<Rightarrow> nat \<Rightarrow> arm_link c_result" where
  "arm_link_section l num offset =
     rbind (array_set (link_sections l) num (Some offset)) (\<lambda>ss. Inr (l\<lparr>link_sections := ss\<rparr>))"

section \<open>Linking\<close>

definition word_aligned :: "nat \<Rightarrow> unit c_result" where
  "word_aligned index = ensure (index mod 4 = 0) (Error ERROR_ASS_BAD_ALIGNMENT)"

text \<open>The value of an entry of \<^verbatim>\<open>sections\<close> as the \<^verbatim>\<open>size_t\<close> the arithmetic is done on.\<close>

fun section_size_t :: "nat option \<Rightarrow> u64" where
  "section_size_t None = - 1"
| "section_size_t (Some n) = of_nat n"

definition link_call_word :: "arm_link \<Rightarrow> nat \<Rightarrow> u32 \<Rightarrow> u32 c_result" where
  "link_call_word l index w =
     (let si = unat (w AND 0xffffff) in
      rbind (ensure (si < length (link_sections l)) assertion_failed) (\<lambda>_.
      rbind (ensure (link_sections l ! si \<noteq> None) assertion_failed) (\<lambda>_.
        Inr ((w AND 0xff000000)
          OR (ucast ((section_size_t (link_sections l ! si) - (of_nat index + 8)) div 4)
              AND 0xffffff)))))"

definition link_external :: "arm_link \<Rightarrow> nat \<Rightarrow> u8 list \<Rightarrow> u8 list c_result" where
  "link_external l index buf =
     rbind (rbind (ensure (index < length buf) assertion_failed) (\<lambda>_. word_aligned index)) (\<lambda>_.
     rbind (read_word buf index) (\<lambda>w.
     rbind (link_call_word l index w) (write_word buf index)))"

definition link_constant_word :: "nat list \<Rightarrow> link_constant \<Rightarrow> u32" where
  "link_constant_word raw_constants c =
     ucast (of_nat (raw_constants ! lc_index c) - of_nat (lc_code_index c) :: u64) - 12"

definition link_const :: "nat list \<Rightarrow> link_constant \<Rightarrow> u8 list \<Rightarrow> u8 list c_result" where
  "link_const raw_constants c buf =
     rbind (rbind (ensure (lc_constant_offset c < length buf) assertion_failed) (\<lambda>_.
            rbind (ensure (lc_index c < length raw_constants) assertion_failed) (\<lambda>_.
              word_aligned (lc_constant_offset c)))) (\<lambda>_.
       write_word buf (lc_constant_offset c) (link_constant_word raw_constants c))"

definition link_extref_word :: "arm_link \<Rightarrow> link_constant \<Rightarrow> u32" where
  "link_extref_word l c =
     ucast (section_size_t (link_sections l ! lc_index c) - of_nat (lc_code_index c) - 12)"

definition link_extref :: "arm_link \<Rightarrow> link_constant \<Rightarrow> u8 list \<Rightarrow> u8 list c_result" where
  "link_extref l c buf =
     rbind (rbind (ensure (lc_constant_offset c < length buf) assertion_failed) (\<lambda>_.
            rbind (ensure (lc_index c < length (link_sections l)) assertion_failed) (\<lambda>_.
              word_aligned (lc_constant_offset c)))) (\<lambda>_.
       write_word buf (lc_constant_offset c) (link_extref_word l c))"

definition arm_link_link :: "arm_link \<Rightarrow> u8 list \<Rightarrow> nat list \<Rightarrow> u8 list c_result" where
  "arm_link_link l buf raw_constants =
     rbind (each (link_external l) (vec_items (link_externals l)) buf) (\<lambda>buf.
     rbind (each (link_const raw_constants) (vec_items (link_constants l)) buf) (\<lambda>buf.
       each (link_extref l) (vec_items (link_extrefs l)) buf))"

section \<open>Branch offsets\<close>

text \<open>
  A branch holds the low 24 bits of a distance in words. \<open>sext24\<close> is how the decoder extends them,
  and what it yields is the distance itself when that fits.
\<close>

definition sext24 :: "u32 \<Rightarrow> u32" where
  "sext24 w = (if w AND 0x800000 \<noteq> 0 then w OR 0xff000000 else w AND 0xffffff)"

lemma bit_int_range:
  assumes "- (2 ^ m) \<le> (k::int)" and "k < 2 ^ m" and "m \<le> n"
  shows "bit k n = (k < 0)"
proof -
  have "signed_take_bit m k = k"
    using assms(1,2) by (simp add: signed_take_bit_int_eq_self)
  then have "bit k n = bit (signed_take_bit m k) n"
    by simp
  also have "\<dots> = bit k m"
    using assms(3) by (auto simp: bit_signed_take_bit_iff min_def)
  finally have n: "bit k n = bit k m" .
  have "bit k m = (k < 0)"
    using assms(1,2) by (metis \<open>signed_take_bit m k = k\<close> signed_take_bit_nonnegative_iff not_le)
  with n show ?thesis
    by simp
qed

lemma sext24_word_of_int:
  assumes "- (2 ^ 23) \<le> (k::int)" and "k < 2 ^ 23" and "w AND 0xffffff = word_of_int k AND 0xffffff"
  shows "sext24 w = word_of_int k"
proof -
  have masks: "(0xffffff :: u32) = mask 24" "(0xff000000 :: u32) = push_bit 24 (mask 8)"
    "(0x800000 :: u32) = push_bit 23 1"
    by (simp_all add: mask_eq_exp_minus_1)
  have low: "bit w n = bit k n" if "n < 24" for n
  proof -
    have "bit (w AND mask 24) n = bit (word_of_int k AND mask 24 :: u32) n"
      using assms(3) by (simp only: masks)
    with that show ?thesis
      by (simp add: bit_simps)
  qed
  have hi: "bit k n = bit k 23" if "23 \<le> n" for n
    using bit_int_range [OF assms(1,2)] that by simp
  have sign: "w AND push_bit 23 1 \<noteq> 0 \<longleftrightarrow> bit k 23"
    using low [of 23] and_exp_eq_0_iff_not_bit [of w 23] by simp
  show ?thesis
  proof (rule bit_word_eqI)
    fix n :: nat
    assume n: "n < LENGTH(32)"
    then show "bit (sext24 w) n = bit (word_of_int k :: u32) n"
      using low [of n] hi [of n] unfolding sext24_def masks sign
      by (cases "n < 24") (auto simp: bit_simps)
  qed
qed

text \<open>
  The offset the linker computes with unsigned arithmetic on \<^verbatim>\<open>size_t\<close> is the distance in words,
  also when the target lies before the branch.
\<close>

lemma link_offset:
  assumes "int t - int i - 8 = 4 * k"
  shows "ucast ((of_nat t - (of_nat i + 8) :: u64) div 4) AND 0xffffff = (word_of_int k :: u32) AND 0xffffff"
proof -
  have "of_nat t - (of_nat i + 8) = (word_of_int (4 * k) :: u64)"
    unfolding assms [symmetric] by simp
  moreover have "word_of_int (4 * k) = (push_bit 2 (word_of_int k) :: u64)"
    by (simp add: push_bit_eq_mult)
  moreover have "w div 4 = drop_bit 2 w" for w :: u64
    by (simp add: drop_bit_eq_div)
  ultimately have "(of_nat t - (of_nat i + 8) :: u64) div 4 = drop_bit 2 (push_bit 2 (word_of_int k))"
    by simp
  then show ?thesis
    by (simp only:) (simp add: u32_bits)
qed

section \<open>What linking does\<close>

definition link_positions :: "arm_link \<Rightarrow> nat list" where
  "link_positions l =
     vec_items (link_externals l) @ map lc_constant_offset (vec_items (link_constants l))
     @ map lc_constant_offset (vec_items (link_extrefs l))"

lemma word_aligned_Inr [simp]: "word_aligned i = Inr u \<longleftrightarrow> i mod 4 = 0"
  by (simp add: word_aligned_def)

text \<open>The three loops as patches of the words at their positions.\<close>

lemma link_external_patch:
  "link_external l i b = Inr b' \<Longrightarrow> patch_code id (link_call_word l) i b = Inr b'"
  by (simp add: link_external_def patch_def rbind_eq_Inr)

lemma link_const_patch:
  "link_const raw c b = Inr b' \<Longrightarrow>
    patch_code lc_constant_offset (\<lambda>c w. Inr (link_constant_word raw c)) c b = Inr b'"
  by (rule write_word_as_patch) (simp add: link_const_def rbind_eq_Inr)

lemma link_extref_patch:
  "link_extref l c b = Inr b' \<Longrightarrow>
    patch_code lc_constant_offset (\<lambda>c w. Inr (link_extref_word l c)) c b = Inr b'"
  by (rule write_word_as_patch) (simp add: link_extref_def rbind_eq_Inr)

lemma arm_link_link_steps:
  assumes "arm_link_link l buf raw = Inr buf'"
  obtains b1 b2 where
    "each (patch_code id (link_call_word l)) (vec_items (link_externals l)) buf = Inr b1"
    "each (patch_code lc_constant_offset (\<lambda>c w. Inr (link_constant_word raw c)))
      (vec_items (link_constants l)) b1 = Inr b2"
    "each (patch_code lc_constant_offset (\<lambda>c w. Inr (link_extref_word l c)))
      (vec_items (link_extrefs l)) b2 = Inr buf'"
    "\<forall>i\<in>set (link_positions l). i mod 4 = 0"
proof -
  from assms obtain b1 b2 where
    e1: "each (link_external l) (vec_items (link_externals l)) buf = Inr b1" and
    e2: "each (link_const raw) (vec_items (link_constants l)) b1 = Inr b2" and
    e3: "each (link_extref l) (vec_items (link_extrefs l)) b2 = Inr buf'"
    by (auto simp: arm_link_link_def rbind_eq_Inr)
  have "\<forall>i\<in>set (link_positions l). i mod 4 = 0"
    using each_each_Inr [OF e1] each_each_Inr [OF e2] each_each_Inr [OF e3]
    by (fastforce simp: link_positions_def link_external_def link_const_def link_extref_def
        rbind_eq_Inr)
  with that each_weaken [OF e1 link_external_patch] each_weaken [OF e2 link_const_patch]
    each_weaken [OF e3 link_extref_patch]
  show thesis
    by simp
qed

text \<open>
  Linking keeps the size of the code, and changes no aligned word outside the recorded positions.
\<close>

lemma link_size: "arm_link_link l buf raw = Inr buf' \<Longrightarrow> length buf' = length buf"
  by (elim arm_link_link_steps) (simp add: code_words.each_patch_size)

lemma link_unchanged:
  assumes "arm_link_link l buf raw = Inr buf'" and "j mod 4 = 0" and "j \<notin> set (link_positions l)"
  shows "read_word buf' j = read_word buf j"
  using assms(1)
proof (rule arm_link_link_steps)
  fix b1 b2
  assume e: "each (patch_code id (link_call_word l)) (vec_items (link_externals l)) buf = Inr b1"
    "each (patch_code lc_constant_offset (\<lambda>c w. Inr (link_constant_word raw c)))
      (vec_items (link_constants l)) b1 = Inr b2"
    "each (patch_code lc_constant_offset (\<lambda>c w. Inr (link_extref_word l c)))
      (vec_items (link_extrefs l)) b2 = Inr buf'"
    and "\<forall>i\<in>set (link_positions l). i mod 4 = 0"
  with code_words.each_patch_other [OF e(1), of j] code_words.each_patch_other [OF e(2), of j]
    code_words.each_patch_other [OF e(3), of j] assms(2,3)
  show ?thesis
    by (auto simp: link_positions_def)
qed

text \<open>What ends up at each of the three kinds of positions.\<close>

lemma link_call_patched:
  assumes "arm_link_link l buf raw = Inr buf'" and "distinct (link_positions l)"
    and "i \<in> set (vec_items (link_externals l))"
  shows "\<exists>w w'. read_word buf i = Inr w \<and> link_call_word l i w = Inr w' \<and> read_word buf' i = Inr w'"
  using assms(1)
proof (rule arm_link_link_steps)
  fix b1 b2
  assume e: "each (patch_code id (link_call_word l)) (vec_items (link_externals l)) buf = Inr b1"
    "each (patch_code lc_constant_offset (\<lambda>c w. Inr (link_constant_word raw c)))
      (vec_items (link_constants l)) b1 = Inr b2"
    "each (patch_code lc_constant_offset (\<lambda>c w. Inr (link_extref_word l c)))
      (vec_items (link_extrefs l)) b2 = Inr buf'"
    and "\<forall>i\<in>set (link_positions l). i mod 4 = 0"
  moreover have "i \<notin> lc_constant_offset ` set (vec_items (link_constants l))"
    "i \<notin> lc_constant_offset ` set (vec_items (link_extrefs l))"
    using assms(2,3) by (auto simp: link_positions_def)
  ultimately show ?thesis
    using code_words.each_patch_other [OF e(2), of i] code_words.each_patch_other [OF e(3), of i]
      code_words.each_patch [OF e(1), of i] assms(2,3)
    by (simp add: link_positions_def)
qed

lemma link_constant_patched:
  assumes "arm_link_link l buf raw = Inr buf'" and "distinct (link_positions l)"
    and "c \<in> set (vec_items (link_constants l))"
  shows "read_word buf' (lc_constant_offset c) = Inr (link_constant_word raw c)"
  using assms(1)
proof (rule arm_link_link_steps)
  fix b1 b2
  assume e: "each (patch_code id (link_call_word l)) (vec_items (link_externals l)) buf = Inr b1"
    "each (patch_code lc_constant_offset (\<lambda>c w. Inr (link_constant_word raw c)))
      (vec_items (link_constants l)) b1 = Inr b2"
    "each (patch_code lc_constant_offset (\<lambda>c w. Inr (link_extref_word l c)))
      (vec_items (link_extrefs l)) b2 = Inr buf'"
    and "\<forall>i\<in>set (link_positions l). i mod 4 = 0"
  with code_words.each_patch_other [OF e(3), of "lc_constant_offset c"]
    code_words.each_patch [OF e(2), of c] assms(2,3)
  show ?thesis
    by (auto simp: link_positions_def)
qed

lemma link_extref_patched:
  assumes "arm_link_link l buf raw = Inr buf'" and "distinct (link_positions l)"
    and "c \<in> set (vec_items (link_extrefs l))"
  shows "read_word buf' (lc_constant_offset c) = Inr (link_extref_word l c)"
  using assms(1)
proof (rule arm_link_link_steps)
  fix b1 b2
  assume e: "each (patch_code id (link_call_word l)) (vec_items (link_externals l)) buf = Inr b1"
    "each (patch_code lc_constant_offset (\<lambda>c w. Inr (link_constant_word raw c)))
      (vec_items (link_constants l)) b1 = Inr b2"
    "each (patch_code lc_constant_offset (\<lambda>c w. Inr (link_extref_word l c)))
      (vec_items (link_extrefs l)) b2 = Inr buf'"
    and "\<forall>i\<in>set (link_positions l). i mod 4 = 0"
  with code_words.each_patch [OF e(3), of c] assms(2,3) show ?thesis
    by (auto simp: link_positions_def)
qed

lemma link_call_word_Inr:
  "link_call_word l i w = Inr w' \<longleftrightarrow> (\<exists>off. unat (w AND 0xffffff) < length (link_sections l)
     \<and> link_sections l ! unat (w AND 0xffffff) = Some off
     \<and> w' = (w AND 0xff000000) OR (ucast ((of_nat off - (of_nat i + 8) :: u64) div 4) AND 0xffffff))"
  by (auto simp: link_call_word_def Let_def rbind_eq_Inr)

text \<open>
  C16: linking resolves every recorded call. The word keeps its condition and its opcode, and its
  offset is such that the program counter, eight bytes ahead of the instruction, reaches the
  address of the section whose number the word held, when that is aligned and within reach.
\<close>

theorem link_resolves_calls:
  assumes "arm_link_link l buf raw = Inr buf'" and "distinct (link_positions l)"
    and "i \<in> set (vec_items (link_externals l))"
  shows "\<exists>w w' off. read_word buf i = Inr w \<and> read_word buf' i = Inr w'
    \<and> link_sections l ! unat (w AND 0xffffff) = Some off
    \<and> w' AND 0xff000000 = w AND 0xff000000
    \<and> (int off - int i - 8 \<in> {- (2 ^ 25) ..< 2 ^ 25} \<and> 4 dvd (int off - int i - 8)
        \<longrightarrow> of_nat i + 8 + 4 * sext24 w' = (of_nat off :: u32))"
proof -
  obtain w w' off where w: "read_word buf i = Inr w" "read_word buf' i = Inr w'"
    "link_sections l ! unat (w AND 0xffffff) = Some off"
    and w': "w' = (w AND 0xff000000) OR (ucast ((of_nat off - (of_nat i + 8) :: u64) div 4) AND 0xffffff)"
    using link_call_patched [OF assms] by (auto simp: link_call_word_Inr)
  have reach: "of_nat i + 8 + 4 * sext24 w' = (of_nat off :: u32)"
    if r: "int off - int i - 8 \<in> {- (2 ^ 25) ..< 2 ^ 25}" and d: "4 dvd (int off - int i - 8)"
  proof -
    from d obtain k where k: "int off - int i - 8 = 4 * k" ..
    have "w' AND 0xffffff = word_of_int k AND 0xffffff"
      unfolding w' link_offset [OF k] by (simp add: u32_bits)
    with r k have "sext24 w' = word_of_int k"
      by (intro sext24_word_of_int) auto
    then have "of_nat i + 8 + 4 * sext24 w' = (word_of_int (int i + 8 + 4 * k) :: u32)"
      by simp
    also have "int i + 8 + 4 * k = int off"
      using k by simp
    finally show ?thesis
      by simp
  qed
  moreover have "w' AND 0xff000000 = w AND 0xff000000"
    unfolding w' by (simp add: u32_bits)
  ultimately show ?thesis
    using w by blast
qed

theorem link_resolves_calls_witness:
  "\<exists>w w' off. read_word (word_bytes 0xeb000001 @ word_bytes 0) 0 = Inr w
    \<and> read_word (word_bytes 0xebffffff @ word_bytes 0) 0 = Inr w'
    \<and> [Some 0, Some 4] ! unat (w AND 0xffffff) = Some off
    \<and> w' AND 0xff000000 = w AND 0xff000000
    \<and> (int off - int 0 - 8 \<in> {- (2 ^ 25) ..< 2 ^ 25} \<and> 4 dvd (int off - int 0 - 8)
        \<longrightarrow> of_nat 0 + 8 + 4 * sext24 w' = (of_nat off :: u32))"
  using link_resolves_calls [of "\<lparr>link_externals = \<lparr>vec_items = [0], vec_max = 64\<rparr>,
      link_sections = [Some 0, Some 4], link_constants = vec_empty, link_extrefs = vec_empty\<rparr>"
      "word_bytes 0xeb000001 @ word_bytes 0" "[]" "word_bytes 0xebffffff @ word_bytes 0" 0]
  by (simp add: link_positions_def) (erule meta_mp, code_simp)

text \<open>
  C17: linking fills in every recorded constant. The load at \<open>lc_code_index\<close> is followed by an
  addition of the program counter, which is then twelve bytes ahead of the load: the sum is the
  address of the constant behind the code, or of the section, the record names.
\<close>

theorem link_resolves_constants:
  assumes "arm_link_link l buf raw = Inr buf'" and "distinct (link_positions l)"
  shows "(\<forall>c\<in>set (vec_items (link_constants l)). \<exists>v. lc_index c < length raw
      \<and> read_word buf' (lc_constant_offset c) = Inr v
      \<and> of_nat (lc_code_index c) + 12 + v = (of_nat (raw ! lc_index c) :: u32))
    \<and> (\<forall>c\<in>set (vec_items (link_extrefs l)). \<forall>off. link_sections l ! lc_index c = Some off \<longrightarrow>
      (\<exists>v. lc_index c < length (link_sections l)
        \<and> read_word buf' (lc_constant_offset c) = Inr v
        \<and> of_nat (lc_code_index c) + 12 + v = (of_nat off :: u32)))"
proof -
  from assms(1) obtain b1 b2 where
    "each (link_const raw) (vec_items (link_constants l)) b1 = Inr b2"
    "each (link_extref l) (vec_items (link_extrefs l)) b2 = Inr buf'"
    by (auto simp: arm_link_link_def rbind_eq_Inr)
  then have "lc_index c < length raw" if "c \<in> set (vec_items (link_constants l))" for c
    using that by (auto dest!: each_each_Inr simp: link_const_def rbind_eq_Inr)
  moreover have "lc_index c < length (link_sections l)" if "c \<in> set (vec_items (link_extrefs l))" for c
    using that \<open>each (link_extref l) _ _ = _\<close>
    by (auto dest!: each_each_Inr simp: link_extref_def rbind_eq_Inr)
  ultimately show ?thesis
    using link_constant_patched [OF assms] link_extref_patched [OF assms]
    by (auto simp: link_constant_word_def link_extref_word_def ucast_u64_diff)
qed

theorem link_resolves_constants_witness:
  "\<exists>v. read_word (word_bytes 0 @ word_bytes 0 @ word_bytes 4 @ word_bytes 7) 8 = Inr v
    \<and> of_nat 0 + 12 + v = (of_nat 16 :: u32)"
  using link_resolves_constants [of "\<lparr>link_externals = vec_empty, link_sections = [Some 0],
      link_constants = \<lparr>vec_items = [\<lparr>lc_index = 0, lc_code_index = 0, lc_constant_offset = 8\<rparr>],
        vec_max = 64\<rparr>, link_extrefs = vec_empty\<rparr>"
      "word_bytes 0 @ word_bytes 0 @ word_bytes 0xffff @ word_bytes 7" "[16]"
      "word_bytes 0 @ word_bytes 0 @ word_bytes 4 @ word_bytes 7"]
  by (simp add: link_positions_def) (erule meta_mp, code_simp)

end
