(* ===== verification/Arm_Encode.thy ===== *)
theory Arm_Encode
  imports Arm_Link Arm_Imm Arm_Encode_Words
begin

text \<open>
  The state of the encoder (arch/arm32/arm_encode.c) and its operations: the code buffer, labels,
  constant pools, back patches, the handlers of the walker's callbacks, and the encoding of a
  program. The words themselves are those of \<open>Arm_Encode_Words\<close>.

  The written part of the buffer is the list \<open>ud_code\<close>, so that \<^verbatim>\<open>bytes_written\<close> is its length and
  \<open>ud_max_bytes\<close> the size of the allocation; a write past it is \<open>Undefined\<close>. A label offset that has
  never been stored is \<open>None\<close>; reading it is \<open>Undefined\<close>. \<^verbatim>\<open>SIZE_MAX\<close> in \<^verbatim>\<open>ldrc_real\<close> and
  \<^verbatim>\<open>ldrc_int\<close> is \<open>None\<close>. The host is little endian.
\<close>

section \<open>Sections and programs\<close>

record ui32_constant =
  uc_integer :: u32
  uc_label :: nat
  uc_link_time :: bool

record real_constant =
  rc_real :: u64
  rc_label :: nat

text \<open>Doubles and floats are kept as their bit patterns, strings as their bytes before the zero.\<close>

datatype arm_op = Op_instr arm_instr | Op_label nat | Op_byte u8 | Op_two_byte u16
  | Op_four_byte u32 | Op_double u64 | Op_doubler u64 | Op_float u32 | Op_string "u8 list"
  | Op_align u32 | Op_phi

record arm_section =
  sec_ops :: "arm_op list"
  sec_label_counter :: nat
  sec_ui32 :: "ui32_constant list"
  sec_real :: "real_constant list"

record constant_data =
  cd_data :: "u8 list"
  cd_dbl :: bool

record arm_prog =
  prog_sections :: "arm_section list"
  prog_op_pool_len :: nat
  prog_constants :: "constant_data list"
  prog_reverse_fpa_consts :: bool

section \<open>The state\<close>

datatype const_type = BP_LDR | BP_LDRP | BP_LDRF

record encode_const =
  ec_label :: nat
  ec_section_label :: nat
  ec_code_index :: nat
  ec_type :: const_type

datatype bp_type = BP_TYPE_BRANCH | BP_TYPE_ADR

record encode_bp =
  bp_type :: bp_type
  bp_label :: nat
  bp_code_index :: nat

record encode_ud =
  ud_ui32 :: "ui32_constant list"
  ud_real :: "real_constant list"
  ud_reverse_fpa_consts :: bool
  ud_label_offsets :: "nat option list"
  ud_max_labels :: nat
  ud_code :: "u8 list"
  ud_max_bytes :: nat
  ud_constants :: "encode_const cvec"
  ud_int_const_count :: nat
  ud_real_const_count :: nat
  ud_back_patches :: "encode_bp cvec"
  ud_link :: arm_link
  ud_ldrc_real :: "nat option"
  ud_ldrc_int :: "nat option"
  ud_allocs :: allocs

definition SUBTILIS_ENCODER_BACKPATCH_GRAN :: nat where
  "SUBTILIS_ENCODER_BACKPATCH_GRAN = 128"

definition SUBTILIS_ENCODER_CODE_GRAN :: nat where
  "SUBTILIS_ENCODER_CODE_GRAN = 4096"

text \<open>
  Initialisation returns the error together with a flag: whether the freed fields of the structure
  still hold an address, which the caller frees once more.
\<close>

definition prv_init_encode_ud :: "arm_prog \<Rightarrow> allocs \<Rightarrow> (bool \<times> c_exc) + encode_ud" where
  "prv_init_encode_ud p al =
     (let max_label_offsets = fold (\<lambda>s m. max (sec_label_counter s) m) (prog_sections p) 0;
          constants = sum_list (map (\<lambda>s. length (sec_ui32 s)) (prog_sections p));
          real_constants = sum_list (map (\<lambda>s. length (sec_real s)) (prog_sections p))
      in case alloc al of Inl e \<Rightarrow> Inl (False, e) | Inr al \<Rightarrow>
        (case alloc al of Inl e \<Rightarrow> Inl (True, e) | Inr al \<Rightarrow>
        (case arm_link_new (length (prog_sections p)) al of Inl e \<Rightarrow> Inl (True, e)
         | Inr (link, al) \<Rightarrow>
           Inr \<lparr>ud_ui32 = [], ud_real = [], ud_reverse_fpa_consts = prog_reverse_fpa_consts p,
                ud_label_offsets = replicate max_label_offsets None, ud_max_labels = 0,
                ud_code = [],
                ud_max_bytes = (prog_op_pool_len p + constants) * 4 + real_constants * 8,
                ud_constants = vec_empty, ud_int_const_count = 0, ud_real_const_count = 0,
                ud_back_patches = vec_empty, ud_link = link, ud_ldrc_real = Some 0,
                ud_ldrc_int = Some 0, ud_allocs = al\<rparr>)))"

definition prv_reset_pool_state :: "encode_ud \<Rightarrow> encode_ud" where
  "prv_reset_pool_state ud = ud\<lparr>ud_constants := (ud_constants ud)\<lparr>vec_items := []\<rparr>,
     ud_int_const_count := 0, ud_real_const_count := 0, ud_ldrc_real := None,
     ud_ldrc_int := None\<rparr>"

definition prv_reset_encode_ud :: "arm_section \<Rightarrow> encode_ud \<Rightarrow> encode_ud" where
  "prv_reset_encode_ud s ud = prv_reset_pool_state (ud\<lparr>ud_ui32 := sec_ui32 s,
     ud_real := sec_real s, ud_max_labels := sec_label_counter s,
     ud_back_patches := (ud_back_patches ud)\<lparr>vec_items := []\<rparr>\<rparr>)"

section \<open>The buffer and the labels\<close>

definition prv_ensure_code_size :: "nat \<Rightarrow> encode_ud \<Rightarrow> encode_ud c_result" where
  "prv_ensure_code_size bytes ud =
     (if length (ud_code ud) + bytes < ud_max_bytes ud then Inr ud
      else rbind (alloc (ud_allocs ud)) (\<lambda>al.
        Inr (ud\<lparr>ud_max_bytes :=
                  (if bytes < SUBTILIS_ENCODER_CODE_GRAN then SUBTILIS_ENCODER_CODE_GRAN else bytes)
                  + ud_max_bytes ud,
                ud_allocs := al\<rparr>)))"

abbreviation prv_ensure_code :: "encode_ud \<Rightarrow> encode_ud c_result" where
  "prv_ensure_code \<equiv> prv_ensure_code_size 4"

text \<open>Bytes stored from \<^verbatim>\<open>bytes_written\<close> on.\<close>

definition append_bytes :: "u8 list \<Rightarrow> encode_ud \<Rightarrow> encode_ud c_result" where
  "append_bytes bs ud =
     (if length (ud_code ud) + length bs \<le> ud_max_bytes ud
      then Inr (ud\<lparr>ud_code := ud_code ud @ bs\<rparr>) else Inl Undefined)"

definition prv_encode_label :: "nat \<Rightarrow> encode_ud \<Rightarrow> encode_ud c_result" where
  "prv_encode_label label ud =
     rbind (ensure (label \<le> ud_max_labels ud) assertion_failed) (\<lambda>_.
     rbind (if label = ud_max_labels ud \<and> length (ud_label_offsets ud) \<le> label
            then rbind (alloc (ud_allocs ud)) (\<lambda>al.
              Inr (ud\<lparr>ud_label_offsets := ud_label_offsets ud
                       @ replicate (label + SUBTILIS_ENCODER_BACKPATCH_GRAN
                                    - length (ud_label_offsets ud)) None,
                      ud_allocs := al\<rparr>))
            else Inr ud) (\<lambda>ud.
     rbind (array_set (ud_label_offsets ud) label (Some (length (ud_code ud)))) (\<lambda>offs.
       Inr (ud\<lparr>ud_label_offsets := offs\<rparr>))))"

definition prv_add_word :: "u32 \<Rightarrow> encode_ud \<Rightarrow> encode_ud c_result" where
  "prv_add_word word ud =
     rbind (word_aligned (length (ud_code ud))) (\<lambda>_. append_bytes (word_bytes word) ud)"

text \<open>The offset stored for a label.\<close>

definition label_offset :: "nat \<Rightarrow> encode_ud \<Rightarrow> nat c_result" where
  "label_offset label ud =
     rbind (array_get (ud_label_offsets ud) label)
       (\<lambda>off. case off of None \<Rightarrow> Inl Undefined | Some n \<Rightarrow> Inr n)"

section \<open>Constant pools\<close>

text \<open>The distance is an \<^verbatim>\<open>int32_t\<close>; the negation of its least value is undefined.\<close>

definition const_dist :: "const_type \<Rightarrow> nat \<Rightarrow> nat \<Rightarrow> u32 c_result" where
  "const_dist t off code_index =
     (let dist = sint (ucast (of_nat off - of_nat code_index - 8 :: u64) :: u32)
      in if dist = - (2 ^ 31) then Inl Undefined
         else if t = BP_LDRF
         then rbind (ensure (\<bar>dist\<bar> \<le> 1024) assertion_failed) (\<lambda>_. Inr (word_of_int (\<bar>dist\<bar> div 4)))
         else rbind (ensure (\<bar>dist\<bar> \<le> 4096) assertion_failed) (\<lambda>_. Inr (word_of_int \<bar>dist\<bar>)))"

definition prv_apply_constant :: "encode_const \<Rightarrow> encode_ud \<Rightarrow> encode_ud c_result" where
  "prv_apply_constant c ud =
     rbind (label_offset (ec_label c) ud) (\<lambda>off.
     rbind (const_dist (ec_type c) off (ec_code_index c)) (\<lambda>dist.
     rbind (word_aligned (ec_code_index c)) (\<lambda>_.
     rbind (read_word (ud_code ud) (ec_code_index c)) (\<lambda>w.
     rbind (write_word (ud_code ud) (ec_code_index c) (w OR dist)) (\<lambda>code.
       Inr (ud\<lparr>ud_code := code\<rparr>))))))"

definition prv_apply_constants :: "encode_ud \<Rightarrow> encode_ud c_result" where
  "prv_apply_constants ud = each prv_apply_constant (vec_items (ud_constants ud)) ud"

text \<open>
  One constant written to the pool. The result of \<open>arm_link_constant_add\<close> is looked at only after
  the word has been added, and an error of the latter replaces it.
\<close>

definition prv_flush_constant :: "encode_const \<Rightarrow> encode_ud \<Rightarrow> encode_ud c_result" where
  "prv_flush_constant c ud =
     rbind (array_set (ud_label_offsets ud) (ec_label c) (Some (length (ud_code ud)))) (\<lambda>offs.
     let ud = ud\<lparr>ud_label_offsets := offs\<rparr> in
     case ec_type c of
       BP_LDR \<Rightarrow>
         (case find (\<lambda>k. uc_label k = ec_label c) (ud_ui32 ud) of
            None \<Rightarrow> Inl assertion_failed
          | Some k \<Rightarrow>
              rbind (prv_ensure_code ud) (\<lambda>ud.
                if uc_link_time k
                then (case arm_link_constant_add (ud_link ud) (ec_code_index c)
                             (length (ud_code ud)) (unat (scast (uc_integer k) :: u64))
                             (ud_allocs ud) of
                        Inl e \<Rightarrow> rbind (prv_add_word 0xffff ud) (\<lambda>_. Inl e)
                      | Inr (l, al) \<Rightarrow> prv_add_word 0xffff (ud\<lparr>ud_link := l, ud_allocs := al\<rparr>))
                else prv_add_word (uc_integer k) ud))
     | BP_LDRP \<Rightarrow>
         rbind (prv_ensure_code ud) (\<lambda>ud.
         rbind (arm_link_extref_add (ud_link ud) (ec_code_index c) (length (ud_code ud))
                  (ec_section_label c) (ud_allocs ud)) (\<lambda>(l, al).
           prv_add_word 0 (ud\<lparr>ud_link := l, ud_allocs := al\<rparr>)))
     | BP_LDRF \<Rightarrow>
         (case find (\<lambda>k. rc_label k = ec_label c) (ud_real ud) of
            None \<Rightarrow> Inl assertion_failed
          | Some k \<Rightarrow>
              (let w0 = ucast (rc_real k); w1 = ucast (drop_bit 32 (rc_real k));
                   (a, b) = (if ud_reverse_fpa_consts ud then (w1, w0) else (w0, w1))
               in rbind (prv_ensure_code ud) (\<lambda>ud.
                  rbind (prv_add_word a ud) (\<lambda>ud.
                  rbind (prv_ensure_code ud) (prv_add_word b))))))"

definition prv_flush_constants :: "encode_ud \<Rightarrow> encode_ud c_result" where
  "prv_flush_constants ud =
     rbind (each prv_flush_constant (vec_items (ud_constants ud)) ud) (\<lambda>ud.
     rbind (prv_apply_constants ud) (\<lambda>ud. Inr (prv_reset_pool_state ud)))"

definition prv_add_back_patch :: "bp_type \<Rightarrow> nat \<Rightarrow> nat \<Rightarrow> encode_ud \<Rightarrow> encode_ud c_result" where
  "prv_add_back_patch t label code_index ud =
     rbind (vec_push SUBTILIS_ENCODER_BACKPATCH_GRAN
              \<lparr>bp_type = t, bp_label = label, bp_code_index = code_index\<rparr>
              (ud_back_patches ud) (ud_allocs ud)) (\<lambda>(v, al).
       Inr (ud\<lparr>ud_back_patches := v, ud_allocs := al\<rparr>))"

definition pool_end :: "nat \<Rightarrow> encode_ud \<Rightarrow> nat" where
  "pool_end adj ud =
     ud_int_const_count ud * 4 + ud_real_const_count ud * 8 + length (ud_code ud) + adj"

definition pool_needed :: "nat \<Rightarrow> encode_ud \<Rightarrow> bool" where
  "pool_needed adj ud \<longleftrightarrow>
     (case ud_ldrc_real ud of None \<Rightarrow> False | Some r \<Rightarrow> 1020 \<le> pool_end adj ud - r)
     \<or> (case ud_ldrc_int ud of None \<Rightarrow> False | Some i \<Rightarrow> 4092 \<le> pool_end adj ud - i)"

text \<open>A branch over the pool, the pool, and the label the branch goes to.\<close>

definition prv_check_pool_adj :: "nat \<Rightarrow> encode_ud \<Rightarrow> encode_ud c_result" where
  "prv_check_pool_adj adj ud =
     (if \<not> pool_needed adj ud then Inr ud
      else rbind (prv_add_back_patch BP_TYPE_BRANCH (ud_max_labels ud) (length (ud_code ud)) ud) (\<lambda>ud.
           rbind (prv_ensure_code ud) (\<lambda>ud.
           rbind (prv_add_word (cc_at_28 CC_AL OR push_bit 25 5) ud) (\<lambda>ud.
           rbind (prv_flush_constants ud) (\<lambda>ud.
           rbind (prv_encode_label (ud_max_labels ud) ud) (\<lambda>ud.
             Inr (ud\<lparr>ud_max_labels := ud_max_labels ud + 1\<rparr>)))))))"

abbreviation prv_check_pool :: "encode_ud \<Rightarrow> encode_ud c_result" where
  "prv_check_pool \<equiv> prv_check_pool_adj 0"

definition prv_add_const :: "nat \<Rightarrow> nat \<Rightarrow> const_type \<Rightarrow> encode_ud \<Rightarrow> encode_ud c_result" where
  "prv_add_const label code_index t ud =
     rbind (vec_push SUBTILIS_ENCODER_BACKPATCH_GRAN
              \<lparr>ec_label = label, ec_section_label = 0, ec_code_index = code_index, ec_type = t\<rparr>
              (ud_constants ud) (ud_allocs ud)) (\<lambda>(v, al).
       let ud = ud\<lparr>ud_constants := v, ud_allocs := al\<rparr>
       in Inr (if t \<noteq> BP_LDRF then ud\<lparr>ud_int_const_count := ud_int_const_count ud + 1\<rparr>
               else ud\<lparr>ud_real_const_count := ud_real_const_count ud + 1\<rparr>))"

section \<open>The callbacks of the walker\<close>

text \<open>How every handler ends: room for a word is made, and the word is written.\<close>

definition emit :: "u32 \<Rightarrow> encode_ud \<Rightarrow> encode_ud c_result" where
  "emit w ud = rbind (prv_ensure_code ud) (prv_add_word w)"

text \<open>A handler of an instruction that is one word: the pool is checked, the word built and written.\<close>

definition encode_word :: "u32 c_result \<Rightarrow> encode_ud \<Rightarrow> encode_ud c_result" where
  "encode_word w ud = rbind (prv_check_pool ud) (\<lambda>ud. rbind w (\<lambda>w. emit w ud))"

definition prv_encode_data_instr :: "data_type \<Rightarrow> data_instr \<Rightarrow> encode_ud \<Rightarrow> encode_ud c_result" where
  "prv_encode_data_instr t i = encode_word (data_word t i)"

definition prv_encode_mov_instr :: "data_type \<Rightarrow> data_instr \<Rightarrow> encode_ud \<Rightarrow> encode_ud c_result" where
  "prv_encode_mov_instr t i ud = rbind (prv_check_pool ud) (prv_encode_data_instr t i)"

definition prv_encode_cmp_instr :: "data_type \<Rightarrow> data_instr \<Rightarrow> encode_ud \<Rightarrow> encode_ud c_result" where
  "prv_encode_cmp_instr t i ud = rbind (prv_check_pool ud) (prv_encode_data_instr t i)"

definition prv_encode_stran_instr ::
    "stran_type \<Rightarrow> stran_instr \<Rightarrow> encode_ud \<Rightarrow> encode_ud c_result" where
  "prv_encode_stran_instr t i = encode_word (stran_word t i)"

definition prv_encode_fpa_data_instr ::
    "bool \<Rightarrow> fpa_data_type \<Rightarrow> fpa_data_instr \<Rightarrow> encode_ud \<Rightarrow> encode_ud c_result" where
  "prv_encode_fpa_data_instr dyadic t i = encode_word (Inr (fpa_data_word dyadic t i))"

definition prv_encode_fpa_data_dyadic_instr ::
    "fpa_data_type \<Rightarrow> fpa_data_instr \<Rightarrow> encode_ud \<Rightarrow> encode_ud c_result" where
  "prv_encode_fpa_data_dyadic_instr t i ud =
     rbind (prv_check_pool ud) (prv_encode_fpa_data_instr True t i)"

definition prv_encode_fpa_data_monadic_instr ::
    "fpa_data_type \<Rightarrow> fpa_data_instr \<Rightarrow> encode_ud \<Rightarrow> encode_ud c_result" where
  "prv_encode_fpa_data_monadic_instr t i ud =
     rbind (prv_check_pool ud) (prv_encode_fpa_data_instr False t i)"

definition prv_encode_fpa_stran_instr ::
    "fpa_stran_type \<Rightarrow> fpa_stran_instr \<Rightarrow> encode_ud \<Rightarrow> encode_ud c_result" where
  "prv_encode_fpa_stran_instr t i = encode_word (Inr (fpa_stran_word t i))"

definition prv_encode_vfp_stran_instr ::
    "vfp_stran_type \<Rightarrow> vfp_stran_instr \<Rightarrow> encode_ud \<Rightarrow> encode_ud c_result" where
  "prv_encode_vfp_stran_instr t i = encode_word (Inr (vfp_stran_word t i))"

text \<open>
  A branch: nothing is recorded for an indirect one, a call of another section is left to the
  linker, and any other is patched at the end of the section. Only the address
  \<^verbatim>\<open>bytes_written\<close> that follows the check of the pool is recorded.
\<close>

definition prv_encode_br_instr :: "br_instr \<Rightarrow> encode_ud \<Rightarrow> encode_ud c_result" where
  "prv_encode_br_instr i ud =
     rbind (prv_check_pool ud) (\<lambda>ud.
     rbind (if br_indirect i then Inr ud
            else if br_link i \<and> \<not> br_local i
            then rbind (arm_link_add (ud_link ud) (length (ud_code ud)) (ud_allocs ud))
                   (\<lambda>(l, al). Inr (ud\<lparr>ud_link := l, ud_allocs := al\<rparr>))
            else prv_add_back_patch BP_TYPE_BRANCH (unat (br_target_size_t (br_target i)))
                   (length (ud_code ud)) ud) (emit (br_word i)))"

definition ldr_pc :: "ccode \<Rightarrow> arm_reg \<Rightarrow> stran_instr" where
  "ldr_pc cc dest = \<lparr>stran_ccode = cc, stran_dest = dest, stran_base = 15,
     stran_offset = OP2_I32 0, stran_pre_indexed = True, stran_write_back = False,
     stran_subtract = False, stran_byte = False\<rparr>"

definition prv_note_int_load :: "encode_ud \<Rightarrow> encode_ud" where
  "prv_note_int_load ud =
     (if ud_ldrc_int ud = None then ud\<lparr>ud_ldrc_int := Some (length (ud_code ud))\<rparr> else ud)"

definition prv_note_real_load :: "encode_ud \<Rightarrow> encode_ud" where
  "prv_note_real_load ud =
     (if ud_ldrc_real ud = None then ud\<lparr>ud_ldrc_real := Some (length (ud_code ud))\<rparr> else ud)"

definition prv_encode_ldrc_instr :: "ldrc_instr \<Rightarrow> encode_ud \<Rightarrow> encode_ud c_result" where
  "prv_encode_ldrc_instr i ud =
     rbind (prv_check_pool_adj (if ldrc_link_time i then 8 + 4 else 8) ud) (\<lambda>ud.
     rbind (prv_add_const (ldrc_label i) (length (ud_code ud)) BP_LDR ud) (\<lambda>ud.
       prv_encode_stran_instr INSTR_LDR (ldr_pc (ldrc_ccode i) (ldrc_dest i))
         (prv_note_int_load ud)))"

text \<open>The section label goes into the constant just added.\<close>

definition prv_encode_ldrp_instr :: "ldrp_instr \<Rightarrow> encode_ud \<Rightarrow> encode_ud c_result" where
  "prv_encode_ldrp_instr i ud =
     rbind (prv_check_pool_adj 12 ud) (\<lambda>ud.
     rbind (prv_add_const (ldrp_constant_label i) (length (ud_code ud)) BP_LDRP ud) (\<lambda>ud.
     let cs = vec_items (ud_constants ud);
         ud = ud\<lparr>ud_constants := (ud_constants ud)\<lparr>vec_items :=
                cs[length cs - 1 := (cs ! (length cs - 1))\<lparr>ec_section_label := ldrp_section_label i\<rparr>]\<rparr>\<rparr>
     in prv_encode_stran_instr INSTR_LDR (ldr_pc (ldrp_ccode i) (ldrp_dest i))
          (prv_note_int_load ud)))"

text \<open>
  The address of a label. The patch is recorded for the place where the next word would go before
  the handler of the addition has checked the pool.
\<close>

definition prv_encode_adr_instr :: "adr_instr \<Rightarrow> encode_ud \<Rightarrow> encode_ud c_result" where
  "prv_encode_adr_instr i ud =
     rbind (prv_add_back_patch BP_TYPE_ADR (adr_label i) (length (ud_code ud)) ud)
       (prv_encode_data_instr INSTR_ADD
          \<lparr>data_ccode = adr_ccode i, data_status = False, data_dest = adr_dest i, data_op1 = 15,
           data_op2 = OP2_I32 0\<rparr>)"

definition cmov_cmp :: "cmov_instr \<Rightarrow> data_instr" where
  "cmov_cmp i = \<lparr>data_ccode = CC_AL, data_status = True, data_dest = 0, data_op1 = cmov_op1 i,
     data_op2 = OP2_I32 0\<rparr>"

definition cmov_mov :: "ccode \<Rightarrow> arm_reg \<Rightarrow> arm_reg \<Rightarrow> data_instr" where
  "cmov_mov cc dest src = \<lparr>data_ccode = cc, data_status = False, data_dest = dest, data_op1 = 0,
     data_op2 = OP2_REG src\<rparr>"

definition prv_encode_cmov_instr :: "cmov_instr \<Rightarrow> encode_ud \<Rightarrow> encode_ud c_result" where
  "prv_encode_cmov_instr i ud =
     rbind (if \<not> cmov_fused i then prv_encode_cmp_instr INSTR_CMP (cmov_cmp i) ud else Inr ud) (\<lambda>ud.
     rbind (prv_encode_mov_instr INSTR_MOV
              (cmov_mov (if cmov_fused i then cmov_true_cond i else CC_EQ)
                 (cmov_dest i) (cmov_op3 i)) ud)
       (prv_encode_mov_instr INSTR_MOV
          (cmov_mov (if cmov_fused i then cmov_false_cond i else CC_NE)
             (cmov_dest i) (cmov_op2 i))))"

definition prv_encode_fpa_ldrc_instr :: "fpa_ldrc_instr \<Rightarrow> encode_ud \<Rightarrow> encode_ud c_result" where
  "prv_encode_fpa_ldrc_instr i ud =
     rbind (prv_check_pool_adj 12 ud) (\<lambda>ud.
     let ud = prv_note_real_load ud in
     rbind (prv_add_const (fpa_ldrc_label i) (length (ud_code ud)) BP_LDRF ud)
       (prv_encode_fpa_stran_instr FPA_LDF
          \<lparr>fpa_stran_ccode = fpa_ldrc_ccode i, fpa_stran_size = fpa_ldrc_size i,
           fpa_stran_dest = fpa_ldrc_dest i, fpa_stran_base = 15, fpa_stran_offset = 0,
           fpa_stran_pre_indexed = True, fpa_stran_write_back = False,
           fpa_stran_subtract = False\<rparr>))"

definition prv_encode_vfp_ldrc_instr :: "fpa_ldrc_instr \<Rightarrow> encode_ud \<Rightarrow> encode_ud c_result" where
  "prv_encode_vfp_ldrc_instr i ud =
     rbind (prv_check_pool_adj 12 ud) (\<lambda>ud.
     let ud = prv_note_real_load ud in
     rbind (prv_add_const (fpa_ldrc_label i) (length (ud_code ud)) BP_LDRF ud)
       (prv_encode_vfp_stran_instr VFP_FLDD
          \<lparr>vfp_stran_ccode = fpa_ldrc_ccode i, vfp_stran_dest = fpa_ldrc_dest i,
           vfp_stran_base = 15, vfp_stran_offset = 0, vfp_stran_pre_indexed = True,
           vfp_stran_write_back = False, vfp_stran_subtract = False\<rparr>))"

text \<open>
  The walker's table. The comparisons and the moves have callbacks of their own, which check the
  pool twice; the callbacks that are not listed write the word of \<open>instr_word\<close>.
\<close>

fun encode_instr :: "arm_instr \<Rightarrow> encode_ud \<Rightarrow> encode_ud c_result" where
  "encode_instr (Data t i) =
     (if t \<in> {INSTR_TST, INSTR_TEQ, INSTR_CMP, INSTR_CMN} then prv_encode_cmp_instr t i
      else if t \<in> {INSTR_MOV, INSTR_MVN} then prv_encode_mov_instr t i
      else prv_encode_data_instr t i)"
| "encode_instr (Stran t i) = prv_encode_stran_instr t i"
| "encode_instr (Br i) = prv_encode_br_instr i"
| "encode_instr (Ldrc i) = prv_encode_ldrc_instr i"
| "encode_instr (Ldrp i) = prv_encode_ldrp_instr i"
| "encode_instr (Adr i) = prv_encode_adr_instr i"
| "encode_instr (Cmov i) = prv_encode_cmov_instr i"
| "encode_instr (Fpa_data t i) =
     (if fpa_dyadic t then prv_encode_fpa_data_dyadic_instr t i
      else prv_encode_fpa_data_monadic_instr t i)"
| "encode_instr (Fpa_stran t i) = prv_encode_fpa_stran_instr t i"
| "encode_instr (Fpa_ldrc i) = prv_encode_fpa_ldrc_instr i"
| "encode_instr (Vfp_stran t i) = prv_encode_vfp_stran_instr t i"
| "encode_instr (Vfp_ldrc i) = prv_encode_vfp_ldrc_instr i"
| "encode_instr i = (\<lambda>ud. case instr_word i of Some w \<Rightarrow> encode_word w ud | None \<Rightarrow> Inl assertion_failed)"

section \<open>Directives\<close>

definition u64_bytes :: "u64 \<Rightarrow> u8 list" where
  "u64_bytes d = word_bytes (ucast d) @ word_bytes (ucast (drop_bit 32 d))"

definition ensure_append :: "u8 list \<Rightarrow> encode_ud \<Rightarrow> encode_ud c_result" where
  "ensure_append bs ud = rbind (prv_ensure_code_size (length bs) ud) (append_bytes bs)"

text \<open>
  With an alignment of zero the mask is \<^verbatim>\<open>0xffffffff\<close>, and the number of bytes to write wraps around.
\<close>

definition align_len :: "u32 \<Rightarrow> nat \<Rightarrow> nat" where
  "align_len al n = unat (of_nat n AND ucast (al - 1) :: u64)"

fun prv_encode_directive :: "arm_op \<Rightarrow> encode_ud \<Rightarrow> encode_ud c_result" where
  "prv_encode_directive (Op_align al) ud =
     (let len = align_len al (length (ud_code ud)) in
      if len = 0 then Inr ud
      else if al = 0 then Inl Undefined
      else ensure_append (replicate (unat al - len) 0) ud)"
| "prv_encode_directive (Op_byte b) ud = ensure_append [b] ud"
| "prv_encode_directive (Op_two_byte h) ud = ensure_append [ucast h, ucast (drop_bit 8 h)] ud"
| "prv_encode_directive (Op_four_byte w) ud = ensure_append (word_bytes w) ud"
| "prv_encode_directive (Op_double d) ud = ensure_append (u64_bytes d) ud"
| "prv_encode_directive (Op_doubler d) ud =
     ensure_append (word_bytes (ucast (drop_bit 32 d)) @ word_bytes (ucast d)) ud"
| "prv_encode_directive (Op_float f) ud = ensure_append (word_bytes f) ud"
| "prv_encode_directive (Op_string str) ud = ensure_append (takeWhile (\<lambda>c. c \<noteq> 0) str @ [0]) ud"
| "prv_encode_directive _ ud = Inl assertion_failed"

text \<open>The body of the walk.\<close>

fun encode_op :: "arm_op \<Rightarrow> encode_ud \<Rightarrow> encode_ud c_result" where
  "encode_op (Op_label l) ud = prv_encode_label l ud"
| "encode_op (Op_instr i) ud = encode_instr i ud"
| "encode_op Op_phi ud = Inl assertion_failed"
| "encode_op d ud = prv_encode_directive d ud"

section \<open>Back patches\<close>

definition prv_compute_dist :: "nat \<Rightarrow> nat \<Rightarrow> nat \<Rightarrow> u32 c_result" where
  "prv_compute_dist first second limit =
     (let (hi, lo, mul) = (if first < second then (second, first, - 1) else (first, second, 1));
          diff = hi - lo
      in rbind (ensure (diff \<le> limit) assertion_failed) (\<lambda>_. Inr (of_nat diff * mul)))"

text \<open>Division in C truncates towards zero.\<close>

definition c_div :: "int \<Rightarrow> int \<Rightarrow> int" where
  "c_div a b = sgn a * sgn b * (\<bar>a\<bar> div \<bar>b\<bar>)"

definition branch_patch :: "nat \<Rightarrow> nat \<Rightarrow> u32 c_result" where
  "branch_patch off code_index =
     rbind (prv_compute_dist off code_index (2 ^ 23)) (\<lambda>dist.
       Inr (word_of_int (c_div (sint dist) 4 - 2) AND 0xffffff))"

text \<open>
  The addition of an address becomes a subtraction when the label lies before it. The distance is
  an \<^verbatim>\<open>int32_t\<close>, whose overflow is undefined.
\<close>

definition adr_patch :: "nat \<Rightarrow> nat \<Rightarrow> u32 \<Rightarrow> u32 c_result" where
  "adr_patch off code_index w =
     rbind (prv_compute_dist off code_index 0xffffffff) (\<lambda>d.
     let dist = sint d - 8;
         w' = (if dist < 0 then (w AND NOT (push_bit 23 1)) OR push_bit 22 1 else w)
     in if dist \<le> - (2 ^ 31) then Inl Undefined
        else (case arm_encode_imm (word_of_int \<bar>dist\<bar>) of
                None \<Rightarrow> Inl (Error ERROR_ASS_BAD_ADR)
              | Some encoded \<Rightarrow> Inr (w' OR encoded)))"

definition prv_apply_back_patch :: "encode_bp \<Rightarrow> encode_ud \<Rightarrow> encode_ud c_result" where
  "prv_apply_back_patch bp ud =
     rbind (word_aligned (bp_code_index bp)) (\<lambda>_.
     rbind (label_offset (bp_label bp) ud) (\<lambda>off.
     rbind (read_word (ud_code ud) (bp_code_index bp)) (\<lambda>w.
     rbind (case bp_type bp of
              BP_TYPE_BRANCH \<Rightarrow>
                rbind (branch_patch off (bp_code_index bp)) (\<lambda>dist. Inr (w OR dist))
            | BP_TYPE_ADR \<Rightarrow> adr_patch off (bp_code_index bp) w) (\<lambda>w.
     rbind (write_word (ud_code ud) (bp_code_index bp) w) (\<lambda>code.
       Inr (ud\<lparr>ud_code := code\<rparr>))))))"

definition prv_apply_back_patches :: "encode_ud \<Rightarrow> encode_ud c_result" where
  "prv_apply_back_patches ud = each prv_apply_back_patch (vec_items (ud_back_patches ud)) ud"

section \<open>Sections and programs\<close>

text \<open>
  One section. The end of the section is aligned even when a back patch has failed, and an error
  of the alignment then replaces the first one.
\<close>

definition prv_arm_encode :: "arm_section \<Rightarrow> encode_ud \<Rightarrow> encode_ud c_result" where
  "prv_arm_encode s ud =
     rbind (each encode_op (sec_ops s) ud) (\<lambda>ud.
     rbind (prv_flush_constants ud) (\<lambda>ud.
       case prv_apply_back_patches ud of
         Inr ud \<Rightarrow> prv_encode_directive (Op_align 4) ud
       | Inl Undefined \<Rightarrow> Inl Undefined
       | Inl e \<Rightarrow> rbind (prv_encode_directive (Op_align 4) ud) (\<lambda>_. Inl e)))"

text \<open>
  The bytes of a constant. Doubles are stored high word first when the floating point unit wants
  them so; a size that is no multiple of eight would then leave bytes of the buffer unset.
\<close>

fun swap_words :: "u8 list \<Rightarrow> u8 list" where
  "swap_words (a # b # c # d # e # f # g # h # bs) =
     e # f # g # h # a # b # c # d # swap_words bs"
| "swap_words _ = []"

definition prv_copy_constant_to_buf :: "bool \<Rightarrow> constant_data \<Rightarrow> encode_ud \<Rightarrow> encode_ud c_result" where
  "prv_copy_constant_to_buf reverse_fpa_consts c ud =
     (if cd_dbl c \<and> reverse_fpa_consts
      then rbind (word_aligned (length (ud_code ud))) (\<lambda>_.
             if length (cd_data c) mod 8 = 0 then append_bytes (swap_words (cd_data c)) ud
             else Inl Undefined)
      else append_bytes (cd_data c @ replicate ((4 - length (cd_data c) mod 4) mod 4) 0) ud)"

definition encode_constant ::
    "bool \<Rightarrow> constant_data \<Rightarrow> encode_ud \<times> nat list \<Rightarrow> (encode_ud \<times> nat list) c_result" where
  "encode_constant reverse_fpa_consts c =
     (\<lambda>(ud, locations).
        let n = length (cd_data c); words = n div 4;
            size_in_bytes = (if words * 4 < n then (words + 1) * 4 else n)
        in rbind (prv_ensure_code_size size_in_bytes ud) (\<lambda>ud.
           rbind (prv_copy_constant_to_buf reverse_fpa_consts c ud) (\<lambda>ud'.
             Inr (ud', locations @ [length (ud_code ud)]))))"

definition encode_section :: "nat \<times> arm_section \<Rightarrow> encode_ud \<Rightarrow> encode_ud c_result" where
  "encode_section = (\<lambda>(i, s) ud.
     rbind (arm_link_section (ud_link ud) i (length (ud_code ud))) (\<lambda>l.
       prv_arm_encode s (prv_reset_encode_ud s (ud\<lparr>ud_link := l\<rparr>))))"

definition prv_encode_prog :: "arm_prog \<Rightarrow> encode_ud \<Rightarrow> encode_ud c_result" where
  "prv_encode_prog p ud =
     rbind (each encode_section (zip [0..<length (prog_sections p)] (prog_sections p)) ud) (\<lambda>ud.
     rbind (if prog_constants p = [] then Inr (ud, [])
            else rbind (alloc (ud_allocs ud)) (\<lambda>al.
              each (encode_constant (prog_reverse_fpa_consts p)) (prog_constants p)
                (ud\<lparr>ud_allocs := al\<rparr>, []))) (\<lambda>(ud, const_locations).
     rbind (arm_link_link (ud_link ud) (ud_code ud) const_locations) (\<lambda>code.
       Inr (ud\<lparr>ud_code := code\<rparr>))))"

text \<open>
  The entry point that returns the code. When initialisation fails with the fields of the structure
  already freed, they are freed again.
\<close>

definition subtilis_arm_encode_buf :: "arm_prog \<Rightarrow> allocs \<Rightarrow> u8 list c_result" where
  "subtilis_arm_encode_buf p al =
     (case prv_init_encode_ud p al of
        Inl (dangling, e) \<Rightarrow> Inl (if dangling then Undefined else e)
      | Inr ud \<Rightarrow> rbind (prv_encode_prog p ud) (\<lambda>ud. Inr (ud_code ud)))"

end
