(* ===== verification/Arm_Encode_Laws.thy ===== *)
theory Arm_Encode_Laws
  imports Arm_Encode Arm_Roundtrip
begin

text \<open>
  What the operations of the encoder do to its state: the buffer only grows by the bytes an
  operation writes, code without constants and branches is the concatenation of the words of its
  instructions, and the program encoded this way decodes to its instructions again.
\<close>

section \<open>Writing to the buffer\<close>

lemma word_aligned_dvd [simp]: "4 dvd i \<Longrightarrow> word_aligned i = Inr ()"
  by (simp add: word_aligned_def)

lemma ud_update_same: "ud\<lparr>ud_code := ud_code ud, ud_max_bytes := ud_max_bytes ud, ud_allocs := ud_allocs ud\<rparr> = ud"
  by (cases ud) simp

lemma ensure_code_size_Inr:
  assumes "prv_ensure_code_size n ud = Inr ud'" and "length (ud_code ud) \<le> ud_max_bytes ud"
  obtains mb al where "ud' = ud\<lparr>ud_max_bytes := mb, ud_allocs := al\<rparr>"
    and "length (ud_code ud) + n \<le> mb" and "set al \<subseteq> set (ud_allocs ud)"
proof -
  show thesis
  proof (cases "length (ud_code ud) + n < ud_max_bytes ud")
    case True
    with assms(1) show thesis
      by (intro that [of "ud_allocs ud" "ud_max_bytes ud"]) (simp_all add: prv_ensure_code_size_def)
  next
    case False
    with assms obtain al where al: "alloc (ud_allocs ud) = Inr al"
      and ud': "ud' = ud\<lparr>ud_max_bytes := (if n < SUBTILIS_ENCODER_CODE_GRAN
          then SUBTILIS_ENCODER_CODE_GRAN else n) + ud_max_bytes ud, ud_allocs := al\<rparr>"
      by (auto simp: prv_ensure_code_size_def rbind_eq_Inr)
    show thesis
      by (rule that [OF ud']) (use assms(2) alloc_Inr_set [OF al] in auto)
  qed
qed

lemma ensure_code_size_granted:
  assumes "set (ud_allocs ud) \<subseteq> {True}"
  shows "\<exists>ud'. prv_ensure_code_size n ud = Inr ud'"
  using alloc_all_granted [OF assms] by (auto simp: prv_ensure_code_size_def)

text \<open>A word written: only the buffer, its capacity and the pending outcomes of allocations change.\<close>

lemma emit_Inr:
  assumes "emit w ud = Inr ud'" and "length (ud_code ud) \<le> ud_max_bytes ud"
  obtains mb al where
    "ud' = ud\<lparr>ud_code := ud_code ud @ word_bytes w, ud_max_bytes := mb, ud_allocs := al\<rparr>"
    and "length (ud_code ud) + 4 \<le> mb" and "length (ud_code ud) mod 4 = 0"
    and "set al \<subseteq> set (ud_allocs ud)"
proof -
  from assms(1) obtain ud1 where "prv_ensure_code ud = Inr ud1" and add: "prv_add_word w ud1 = Inr ud'"
    by (auto simp: emit_def rbind_eq_Inr)
  then obtain mb al where ud1: "ud1 = ud\<lparr>ud_max_bytes := mb, ud_allocs := al\<rparr>"
    and room: "length (ud_code ud) + 4 \<le> mb" and al: "set al \<subseteq> set (ud_allocs ud)"
    using ensure_code_size_Inr assms(2) by blast
  with add show thesis
    by (intro that [of al mb])
      (auto simp: prv_add_word_def append_bytes_def rbind_eq_Inr split: if_splits)
qed

lemma emit_granted:
  assumes "length (ud_code ud) \<le> ud_max_bytes ud" and "length (ud_code ud) mod 4 = 0"
    and "set (ud_allocs ud) \<subseteq> {True}"
  obtains mb al where
    "emit w ud = Inr (ud\<lparr>ud_code := ud_code ud @ word_bytes w, ud_max_bytes := mb, ud_allocs := al\<rparr>)"
    and "length (ud_code ud) + 4 \<le> mb" and "set al \<subseteq> {True}"
proof -
  obtain ud1 where ensure: "prv_ensure_code ud = Inr ud1"
    using ensure_code_size_granted [OF assms(3)] by blast
  then obtain mb al where ud1: "ud1 = ud\<lparr>ud_max_bytes := mb, ud_allocs := al\<rparr>"
    and room: "length (ud_code ud) + 4 \<le> mb" and al: "set al \<subseteq> set (ud_allocs ud)"
    using ensure_code_size_Inr assms(1) by blast
  show thesis
    by (rule that [of al mb])
      (use room al assms(2,3) ensure ud1 in \<open>auto simp: emit_def prv_add_word_def append_bytes_def\<close>)
qed

section \<open>Code without constants and branches\<close>

text \<open>An instruction that is one word and records nothing for later.\<close>

fun plain_instr :: "arm_instr \<Rightarrow> bool" where
  "plain_instr (Br b) = br_indirect b"
| "plain_instr i = (instr_word i \<noteq> None)"

definition no_pool :: "encode_ud \<Rightarrow> bool" where
  "no_pool ud \<longleftrightarrow> ud_ldrc_real ud = None \<and> ud_ldrc_int ud = None"

lemma check_pool_no_pool [simp]: "no_pool ud \<Longrightarrow> prv_check_pool_adj adj ud = Inr ud"
  by (simp add: prv_check_pool_adj_def pool_needed_def no_pool_def)

lemma encode_word_no_pool [simp]: "no_pool ud \<Longrightarrow> encode_word w ud = rbind w (\<lambda>w. emit w ud)"
  by (simp add: encode_word_def)

lemma encode_instr_plain:
  assumes "no_pool ud" and "plain_instr i" and "instr_word i = Some w"
  shows "encode_instr i ud = rbind w (\<lambda>w. emit w ud)"
proof (cases i)
  case (Fpa_data t x)
  with assms show ?thesis
    by (cases "fpa_dyadic t") (auto simp: prv_encode_fpa_data_dyadic_instr_def
        prv_encode_fpa_data_monadic_instr_def prv_encode_fpa_data_instr_def)
qed (use assms in \<open>auto simp: prv_encode_cmp_instr_def prv_encode_mov_instr_def
    prv_encode_data_instr_def prv_encode_stran_instr_def prv_encode_br_instr_def
    prv_encode_fpa_stran_instr_def prv_encode_vfp_stran_instr_def\<close>)

lemma encode_plain_ops:
  assumes "no_pool ud" and "length (ud_code ud) \<le> ud_max_bytes ud"
    and "length (ud_code ud) mod 4 = 0" and "set (ud_allocs ud) \<subseteq> {True}"
    and "\<forall>i\<in>set ins. plain_instr i \<and> instr_word i = Some (Inr (f i))"
  shows "\<exists>mb al. each encode_op (map Op_instr ins) ud =
      Inr (ud\<lparr>ud_code := ud_code ud @ concat (map (\<lambda>i. word_bytes (f i)) ins),
              ud_max_bytes := mb, ud_allocs := al\<rparr>)
    \<and> length (ud_code ud) + 4 * length ins \<le> mb \<and> set al \<subseteq> {True}"
  using assms
proof (induction ins arbitrary: ud)
  case Nil
  then show ?case
    by (intro exI [of _ "ud_max_bytes ud"] exI [of _ "ud_allocs ud"]) (simp add: ud_update_same)
next
  case (Cons i ins)
  obtain mb al where e: "emit (f i) ud = Inr (ud\<lparr>ud_code := ud_code ud @ word_bytes (f i),
      ud_max_bytes := mb, ud_allocs := al\<rparr>)" (is "_ = Inr ?ud")
    and room: "length (ud_code ud) + 4 \<le> mb" and al: "set al \<subseteq> {True}"
    by (rule emit_granted [OF Cons.prems(2-4)])
  have "\<exists>mb al. each encode_op (map Op_instr ins) ?ud =
      Inr (?ud\<lparr>ud_code := ud_code ?ud @ concat (map (\<lambda>i. word_bytes (f i)) ins),
              ud_max_bytes := mb, ud_allocs := al\<rparr>)
    \<and> length (ud_code ?ud) + 4 * length ins \<le> mb \<and> set al \<subseteq> {True}"
  proof (rule Cons.IH)
    show "length (ud_code ?ud) mod 4 = 0"
      using Cons.prems(3) by simp
  qed (use Cons.prems(1,5) room al in \<open>simp_all add: no_pool_def\<close>)
  then obtain mb' al' where rest: "each encode_op (map Op_instr ins) ?ud =
      Inr (?ud\<lparr>ud_code := ud_code ?ud @ concat (map (\<lambda>i. word_bytes (f i)) ins),
              ud_max_bytes := mb', ud_allocs := al'\<rparr>)"
    and "length (ud_code ?ud) + 4 * length ins \<le> mb'" and "set al' \<subseteq> {True}"
    by blast
  moreover have "encode_op (Op_instr i) ud = Inr ?ud"
    using Cons.prems(1,5) e by (simp add: encode_instr_plain)
  ultimately show ?case
    by (intro exI [of _ mb'] exI [of _ al']) simp
qed

text \<open>The alignment directive at the end of a section.\<close>

lemma align_len_4: "align_len 4 n = n mod 4"
proof -
  have "(of_nat n AND ucast ((4::u32) - 1) :: u64) = take_bit 2 (of_nat n)"
    by (simp add: take_bit_eq_mask mask_eq_exp_minus_1)
  then have "align_len 4 n = take_bit 2 (unat (of_nat n :: u64))"
    by (simp only: align_len_def unsigned_take_bit_eq)
  also have "\<dots> = take_bit 2 n"
    by (simp add: unsigned_of_nat)
  finally show ?thesis
    by (simp add: take_bit_eq_mod)
qed

definition section_code :: "(arm_instr \<Rightarrow> u32) \<Rightarrow> arm_section \<Rightarrow> u8 list" where
  "section_code f s = concat (map (\<lambda>op. case op of Op_instr i \<Rightarrow> word_bytes (f i) | _ \<Rightarrow> []) (sec_ops s))"

text \<open>A section of instructions that are one word each: \<open>f\<close> gives the words.\<close>

definition plain_section :: "(arm_instr \<Rightarrow> u32) \<Rightarrow> arm_section \<Rightarrow> bool" where
  "plain_section f s \<longleftrightarrow>
     (\<forall>op\<in>set (sec_ops s). \<exists>i. op = Op_instr i \<and> plain_instr i \<and> instr_word i = Some (Inr (f i)))"

lemma plain_sectionE:
  assumes "plain_section f s"
  obtains ins where "sec_ops s = map Op_instr ins"
    and "\<forall>i\<in>set ins. plain_instr i \<and> instr_word i = Some (Inr (f i))"
    and "section_code f s = concat (map (\<lambda>i. word_bytes (f i)) ins)"
proof -
  define ins where "ins = map (\<lambda>op. case op of Op_instr i \<Rightarrow> i) (sec_ops s)"
  have ops: "sec_ops s = map Op_instr ins"
    unfolding ins_def map_map
    by (rule map_idI [symmetric]) (use assms in \<open>auto simp: plain_section_def\<close>)
  show thesis
    by (rule that [OF ops]) (use assms ops in \<open>auto simp: plain_section_def section_code_def comp_def\<close>)
qed

text \<open>What holds between two sections.\<close>

definition between_sections :: "nat \<Rightarrow> encode_ud \<Rightarrow> bool" where
  "between_sections n ud \<longleftrightarrow> length (ud_code ud) \<le> ud_max_bytes ud \<and> length (ud_code ud) mod 4 = 0
     \<and> set (ud_allocs ud) \<subseteq> {True} \<and> length (link_sections (ud_link ud)) = n
     \<and> link_positions (ud_link ud) = []"

lemma encode_section_plain:
  assumes "between_sections n ud" and "k < n" and "plain_section f s"
  shows "\<exists>ud'. encode_section (k, s) ud = Inr ud' \<and> between_sections n ud'
    \<and> ud_code ud' = ud_code ud @ section_code f s"
proof -
  from assms(3) obtain ins where ops: "sec_ops s = map Op_instr ins"
    and ins: "\<forall>i\<in>set ins. plain_instr i \<and> instr_word i = Some (Inr (f i))"
    and code: "section_code f s = concat (map (\<lambda>i. word_bytes (f i)) ins)"
    by (rule plain_sectionE)
  define ud0 where "ud0 = prv_reset_encode_ud s (ud\<lparr>ud_link :=
    (ud_link ud)\<lparr>link_sections := (link_sections (ud_link ud))[k := Some (length (ud_code ud))]\<rparr>\<rparr>)"
  have ud0: "no_pool ud0" "ud_code ud0 = ud_code ud" "ud_max_bytes ud0 = ud_max_bytes ud"
    "ud_allocs ud0 = ud_allocs ud" "vec_items (ud_constants ud0) = []"
    "vec_items (ud_back_patches ud0) = []"
    "length (link_sections (ud_link ud0)) = length (link_sections (ud_link ud))"
    "link_positions (ud_link ud0) = link_positions (ud_link ud)"
    by (simp_all add: ud0_def no_pool_def prv_reset_encode_ud_def prv_reset_pool_state_def
        link_positions_def)
  obtain mb al where each: "each encode_op (sec_ops s) ud0 =
      Inr (ud0\<lparr>ud_code := ud_code ud0 @ section_code f s, ud_max_bytes := mb, ud_allocs := al\<rparr>)"
    and room: "length (ud_code ud0) + 4 * length ins \<le> mb" and al: "set al \<subseteq> {True}"
    using encode_plain_ops [OF ud0(1) _ _ _ ins] assms(1) ud0 unfolding ops code
    by (auto simp: between_sections_def)
  have len: "length (section_code f s) = 4 * length ins"
    unfolding code by (induction ins) simp_all
  have "(length (ud_code ud) + 4 * length ins) mod 4 = 0"
    using assms(1) by (simp add: between_sections_def)
  with each len show ?thesis
    using assms(1,2) room al ud0
    by (simp add: encode_section_def arm_link_section_def prv_arm_encode_def ud0_def [symmetric]
        prv_flush_constants_def prv_apply_constants_def prv_apply_back_patches_def align_len_4
        prv_reset_pool_state_def between_sections_def)
qed

lemma encode_sections_plain:
  assumes "between_sections n ud" and "\<forall>(k, s)\<in>set ss. k < n \<and> plain_section f s"
  shows "\<exists>ud'. each encode_section ss ud = Inr ud' \<and> between_sections n ud'
    \<and> ud_code ud' = ud_code ud @ concat (map (section_code f \<circ> snd) ss)"
  using assms
proof (induction ss arbitrary: ud)
  case (Cons p ss)
  obtain k s where p: "p = (k, s)"
    by (cases p)
  obtain ud1 where "encode_section (k, s) ud = Inr ud1" and ud1: "between_sections n ud1"
    "ud_code ud1 = ud_code ud @ section_code f s"
    using encode_section_plain [OF Cons.prems(1), of k f s] Cons.prems(2) p by auto
  with Cons.IH [OF ud1(1)] Cons.prems(2) p show ?case
    by auto
qed simp

lemma init_between_sections:
  assumes "set al \<subseteq> {True}"
  shows "\<exists>ud. prv_init_encode_ud p al = Inr ud \<and> between_sections (length (prog_sections p)) ud
    \<and> ud_code ud = []"
proof -
  obtain a1 a2 a3 a4 where "alloc al = Inr a1" "alloc a1 = Inr a2" "alloc a2 = Inr a3"
    "alloc a3 = Inr a4" "set a4 \<subseteq> {True}"
    using alloc_all_granted assms by metis
  then show ?thesis
    by (simp add: prv_init_encode_ud_def arm_link_new_def between_sections_def link_positions_def)
qed

lemma link_nothing: "link_positions l = [] \<Longrightarrow> arm_link_link l buf raw = Inr buf"
  by (simp add: link_positions_def arm_link_link_def)

lemma plain_program_code:
  assumes "\<forall>s\<in>set (prog_sections p). plain_section f s" and "prog_constants p = []"
    and "set al \<subseteq> {True}"
  shows "subtilis_arm_encode_buf p al = Inr (concat (map (section_code f) (prog_sections p)))"
proof -
  let ?n = "length (prog_sections p)"
  let ?ss = "zip [0..<?n] (prog_sections p)"
  obtain ud where init: "prv_init_encode_ud p al = Inr ud" and ud: "between_sections ?n ud" "ud_code ud = []"
    using init_between_sections [OF assms(3)] by blast
  have "\<forall>(k, s)\<in>set ?ss. k < ?n \<and> plain_section f s"
    using assms(1) by (auto simp: set_zip)
  from encode_sections_plain [OF ud(1) this] obtain ud' where
    "each encode_section ?ss ud = Inr ud'" and ud': "between_sections ?n ud'"
    "ud_code ud' = ud_code ud @ concat (map (section_code f \<circ> snd) ?ss)"
    by blast
  with init ud assms(2) show ?thesis
    by (simp add: subtilis_arm_encode_buf_def prv_encode_prog_def between_sections_def link_nothing
        flip: map_map)
qed

text \<open>
  A program of sections of plain instructions, without data behind the code, is encoded when
  memory suffices, and the code is the concatenation of the words of the instructions in the order
  of the sections.
\<close>

theorem encode_plain_program:
  assumes "\<forall>s\<in>set (prog_sections p). plain_section f s" and "prog_constants p = []"
    and "set al \<subseteq> {True}"
  shows "subtilis_arm_encode_buf p al = Inr (concat (map (section_code f) (prog_sections p)))"
  using assms by (rule plain_program_code)

theorem encode_plain_program_witness:
  "subtilis_arm_encode_buf \<lparr>prog_sections = [\<lparr>sec_ops = [Op_instr (Swi \<lparr>swi_ccode = CC_AL, swi_code = 0x11,
        swi_reg_read_mask = 0, swi_reg_write_mask = 0\<rparr>)], sec_label_counter = 0, sec_ui32 = [],
        sec_real = []\<rparr>], prog_op_pool_len = 1, prog_constants = [],
        prog_reverse_fpa_consts = False\<rparr> [] = Inr [0x11, 0, 0, 0xef]"
  by (rule encode_plain_program [where f = "\<lambda>i. 0xef000011", THEN trans])
    (simp_all add: plain_section_def section_code_def swi_word_def cc_at_28_def word_bytes_def)

section \<open>Encoding and decoding a program\<close>

definition section_instrs :: "arm_section \<Rightarrow> arm_instr list" where
  "section_instrs s = List.map_filter (\<lambda>op. case op of Op_instr i \<Rightarrow> Some i | _ \<Rightarrow> None) (sec_ops s)"

definition word_of_instr :: "arm_instr \<Rightarrow> u32" where
  "word_of_instr i = (case instr_word i of Some (Inr w) \<Rightarrow> w | _ \<Rightarrow> 0)"

lemma section_code_instrs: "section_code f s = concat (map (\<lambda>i. word_bytes (f i)) (section_instrs s))"
proof -
  have "concat (map (\<lambda>op. case op of Op_instr i \<Rightarrow> word_bytes (f i) | _ \<Rightarrow> []) ops) =
      concat (map (\<lambda>i. word_bytes (f i))
        (List.map_filter (\<lambda>op. case op of Op_instr i \<Rightarrow> Some i | _ \<Rightarrow> None) ops))" for ops
    by (induction ops) (auto simp: List.map_filter_simps split: arm_op.split)
  then show ?thesis
    by (simp add: section_code_def section_instrs_def)
qed

lemma read_word_append2: "read_word (xs @ ys) (length xs + i) = read_word ys i"
  by (simp add: read_word_def nth_append add.assoc)

lemma read_nth_word:
  assumes "k < length ws"
  shows "read_word (concat (map word_bytes ws)) (4 * k) = Inr (ws ! k)"
  using assms
proof (induction ws arbitrary: k)
  case (Cons w ws)
  show ?case
  proof (cases k)
    case 0
    then show ?thesis
      using read_word_append [of "[]" w] by simp
  next
    case (Suc j)
    then show ?thesis
      using Cons read_word_append2 [of "word_bytes w" "concat (map word_bytes ws)" "4 * j"] by simp
  qed
qed simp

text \<open>
  C1: what a program without constants or branches to labels is encoded to decodes to the program. Its instructions
  may be integer instructions and those of the floating point unit whose operands fit their fields and that the decoder
  does not misread (\<open>decodable\<close>, which excludes half-word transfers, \<^verbatim>\<open>POL\<close>, \<^verbatim>\<open>FUITOD\<close> and single precision
  comparisons, among others). When memory is granted, the code has one word per instruction, and the word at four times
  \<open>k\<close> is decoded to instruction \<open>k\<close>, with what the word does not express resolved (\<open>instr_decoded\<close>).
\<close>

theorem encode_then_decode:
  assumes "\<forall>s\<in>set (prog_sections p). \<forall>op\<in>set (sec_ops s). \<exists>i. op = Op_instr i \<and> plain_instr i \<and> decodable vfp i"
    and "prog_constants p = []" and "set al \<subseteq> {True}"
    and "ins = concat (map section_instrs (prog_sections p))" and "k < length ins"
  shows "\<exists>code w. subtilis_arm_encode_buf p al = Inr code \<and> length code = 4 * length ins
    \<and> read_word code (4 * k) = Inr w \<and> subtilis_arm_disass st w vfp = Inr (instr_decoded st (ins ! k))"
proof -
  let ?f = word_of_instr
  have word: "instr_word i = Some (Inr (?f i)) \<and> subtilis_arm_disass st (?f i) vfp = Inr (instr_decoded st i)"
    if "decodable vfp i" for i
  proof -
    from that obtain w where "instr_word i = Some (Inr w)"
      "subtilis_arm_disass st w vfp = Inr (instr_decoded st i)"
      using decodable_round_trip by blast
    then show ?thesis
      by (simp add: word_of_instr_def)
  qed
  then have "\<forall>s\<in>set (prog_sections p). plain_section ?f s"
    using assms(1) by (fastforce simp: plain_section_def)
  then have code: "subtilis_arm_encode_buf p al =
      Inr (concat (map (section_code ?f) (prog_sections p)))"
    using plain_program_code assms(2,3) by blast
  have "concat (map (section_code ?f) ss) = concat (map word_bytes (map ?f (concat (map section_instrs ss))))" for ss
    by (induction ss) (simp_all add: section_code_instrs comp_def)
  then have bytes: "concat (map (section_code ?f) (prog_sections p)) = concat (map word_bytes (map ?f ins))"
    unfolding assms(4) .
  have len: "length (concat (map word_bytes ws)) = 4 * length ws" for ws
    by (induction ws) simp_all
  have "ins ! k \<in> set ins"
    using assms(5) by simp
  then have "decodable vfp (ins ! k)"
    using assms(1) unfolding assms(4) section_instrs_def
    by (fastforce simp: List.map_filter_def)
  with code bytes len [of "map ?f ins"] read_nth_word [of k "map ?f ins"] assms(5) word show ?thesis
    by auto
qed

theorem encode_then_decode_witness:
  "\<forall>st vfp. \<exists>code w. subtilis_arm_encode_buf \<lparr>prog_sections = [\<lparr>sec_ops =
        [Op_instr (Swi \<lparr>swi_ccode = CC_AL, swi_code = 0x11, swi_reg_read_mask = 0,
          swi_reg_write_mask = 0\<rparr>)], sec_label_counter = 0, sec_ui32 = [],
        sec_real = []\<rparr>], prog_op_pool_len = 1, prog_constants = [],
        prog_reverse_fpa_consts = False\<rparr> [] = Inr code
    \<and> length code = 4 * 1 \<and> read_word code (4 * 0) = Inr w
    \<and> subtilis_arm_disass st w vfp = Inr (int_decoded st (Swi \<lparr>swi_ccode = CC_AL, swi_code = 0x11,
        swi_reg_read_mask = 0, swi_reg_write_mask = 0\<rparr>))"
proof (intro allI)
  fix st vfp
  show "\<exists>code w. subtilis_arm_encode_buf \<lparr>prog_sections = [\<lparr>sec_ops =
        [Op_instr (Swi \<lparr>swi_ccode = CC_AL, swi_code = 0x11, swi_reg_read_mask = 0,
          swi_reg_write_mask = 0\<rparr>)], sec_label_counter = 0, sec_ui32 = [],
        sec_real = []\<rparr>], prog_op_pool_len = 1, prog_constants = [],
        prog_reverse_fpa_consts = False\<rparr> [] = Inr code
    \<and> length code = 4 * 1 \<and> read_word code (4 * 0) = Inr w
    \<and> subtilis_arm_disass st w vfp = Inr (int_decoded st (Swi \<lparr>swi_ccode = CC_AL, swi_code = 0x11,
        swi_reg_read_mask = 0, swi_reg_write_mask = 0\<rparr>))"
    using encode_then_decode [where k = 0 and al = "[]" and p = "\<lparr>prog_sections = [\<lparr>sec_ops =
        [Op_instr (Swi \<lparr>swi_ccode = CC_AL, swi_code = 0x11, swi_reg_read_mask = 0,
          swi_reg_write_mask = 0\<rparr>)], sec_label_counter = 0, sec_ui32 = [],
        sec_real = []\<rparr>], prog_op_pool_len = 1, prog_constants = [],
        prog_reverse_fpa_consts = False\<rparr>" and st = st and vfp = vfp]
    by (simp add: decodable_def section_instrs_def List.map_filter_simps)
qed

end
