(* ===== verification/Arm_Encode_Patches.thy ===== *)
theory Arm_Encode_Patches
  imports Arm_Encode Arm_Operands
begin

text \<open>
  The patches the encoder makes in code it has already written: branches and addresses at the end
  of a section, loads when a constant pool is flushed. Both loops are instances of the patches
  of the locale \<open>word_store\<close>.
\<close>

section \<open>Distances\<close>

lemma c_div_4_exact: "c_div (4 * k) 4 = k"
  by (auto simp: c_div_def sgn_if abs_if)

lemma sint_small: "- (2 ^ 31) \<le> k \<Longrightarrow> k < 2 ^ 31 \<Longrightarrow> sint (word_of_int k :: u32) = k"
  by (simp add: signed_of_int signed_take_bit_int_eq_self)

lemma compute_dist_Inr:
  assumes "prv_compute_dist a b limit = Inr d"
  shows "d = word_of_int (int a - int b)" and "\<bar>int a - int b\<bar> \<le> int limit"
  using assms by (auto simp: prv_compute_dist_def rbind_eq_Inr of_nat_diff split: if_splits)

text \<open>A branch patch is the low bits of the distance in words, less the two the processor is ahead.\<close>

lemma branch_patch_Inr:
  assumes "branch_patch off i = Inr d" and "int off - int i = 4 * k"
  shows "d = word_of_int (k - 2) AND 0xffffff" and "- (2 ^ 23) \<le> k - 2" and "k - 2 < 2 ^ 23"
proof -
  from assms(1) obtain e where e: "prv_compute_dist off i (2 ^ 23) = Inr e"
    and d: "d = word_of_int (c_div (sint e) 4 - 2) AND 0xffffff"
    by (auto simp: branch_patch_def rbind_eq_Inr)
  note dist = compute_dist_Inr [OF e, unfolded assms(2)]
  have "sint e = 4 * k"
    unfolding dist(1) by (rule sint_small) (use dist(2) in auto)
  then show "d = word_of_int (k - 2) AND 0xffffff"
    unfolding d by (simp add: c_div_4_exact)
  show "- (2 ^ 23) \<le> k - 2" and "k - 2 < 2 ^ 23"
    using dist(2) by auto
qed

lemma branch_patch_reaches:
  assumes "branch_patch off i = Inr d" and "4 dvd int off - int i" and "w AND 0xffffff = 0"
  shows "of_nat i + 8 + 4 * sext24 (w OR d) = (of_nat off :: u32)"
    and "(w OR d) AND 0xff000000 = w AND 0xff000000"
proof -
  from assms(2) obtain k where k: "int off - int i = 4 * k" ..
  note d = branch_patch_Inr [OF assms(1) k]
  have "(w OR d) AND 0xffffff = word_of_int (k - 2) AND 0xffffff"
    using assms(3) unfolding d(1) by (simp add: bit.conj_disj_distrib2 and.assoc)
  with d(2,3) have s: "sext24 (w OR d) = word_of_int (k - 2)"
    by (intro sext24_word_of_int)
  have "of_nat i + 8 + 4 * sext24 (w OR d) = (word_of_int (int i + 8 + 4 * (k - 2)) :: u32)"
    unfolding s by simp
  also have "int i + 8 + 4 * (k - 2) = int off"
    using k by simp
  finally show "of_nat i + 8 + 4 * sext24 (w OR d) = (of_nat off :: u32)"
    by simp
  have "d AND 0xff000000 = 0"
    unfolding d(1) by (simp add: and.assoc)
  then show "(w OR d) AND 0xff000000 = w AND 0xff000000"
    by (simp add: bit.conj_disj_distrib2)
qed

section \<open>The two loops\<close>

definition back_patch_word :: "encode_ud \<Rightarrow> encode_bp \<Rightarrow> u32 \<Rightarrow> u32 c_result" where
  "back_patch_word ud bp w =
     rbind (label_offset (bp_label bp) ud) (\<lambda>off.
       case bp_type bp of
         BP_TYPE_BRANCH \<Rightarrow> rbind (branch_patch off (bp_code_index bp)) (\<lambda>dist. Inr (w OR dist))
       | BP_TYPE_ADR \<Rightarrow> adr_patch off (bp_code_index bp) w)"

definition constant_patch_word :: "encode_ud \<Rightarrow> encode_const \<Rightarrow> u32 \<Rightarrow> u32 c_result" where
  "constant_patch_word ud c w =
     rbind (label_offset (ec_label c) ud) (\<lambda>off.
     rbind (const_dist (ec_type c) off (ec_code_index c)) (\<lambda>dist. Inr (w OR dist)))"

lemma label_offset_code [simp]: "label_offset l (ud\<lparr>ud_code := c\<rparr>) = label_offset l ud"
  by (simp add: label_offset_def)

lemma apply_back_patch_Inr:
  assumes "prv_apply_back_patch bp ud = Inr ud'"
  obtains code where "ud' = ud\<lparr>ud_code := code\<rparr>" "bp_code_index bp mod 4 = 0"
    "patch_code bp_code_index (back_patch_word ud) bp (ud_code ud) = Inr code"
  using assms that by (auto simp: prv_apply_back_patch_def back_patch_word_def patch_def rbind_eq_Inr)

lemma apply_constant_Inr:
  assumes "prv_apply_constant c ud = Inr ud'"
  obtains code where "ud' = ud\<lparr>ud_code := code\<rparr>" "ec_code_index c mod 4 = 0"
    "patch_code ec_code_index (constant_patch_word ud) c (ud_code ud) = Inr code"
  using assms that by (auto simp: prv_apply_constant_def constant_patch_word_def patch_def rbind_eq_Inr)

lemma patch_word_code [simp]:
  "back_patch_word (ud\<lparr>ud_code := c\<rparr>) = back_patch_word ud"
  "constant_patch_word (ud\<lparr>ud_code := c\<rparr>) = constant_patch_word ud"
  by (simp_all add: back_patch_word_def constant_patch_word_def fun_eq_iff)

lemma each_apply_back_patch:
  assumes "each prv_apply_back_patch bps ud = Inr ud'"
  shows "\<exists>code. ud' = ud\<lparr>ud_code := code\<rparr> \<and> (\<forall>bp\<in>set bps. bp_code_index bp mod 4 = 0)
    \<and> each (patch_code bp_code_index (back_patch_word ud)) bps (ud_code ud) = Inr code"
  using assms
proof (induction bps arbitrary: ud)
  case (Cons bp bps)
  then obtain ud1 where one: "prv_apply_back_patch bp ud = Inr ud1"
    and rest: "each prv_apply_back_patch bps ud1 = Inr ud'"
    by (auto simp: rbind_eq_Inr)
  from one obtain code where "ud1 = ud\<lparr>ud_code := code\<rparr>" "bp_code_index bp mod 4 = 0"
    "patch_code bp_code_index (back_patch_word ud) bp (ud_code ud) = Inr code"
    by (rule apply_back_patch_Inr)
  with Cons.IH [OF rest] show ?case
    by auto
qed auto

lemma each_apply_constant:
  assumes "each prv_apply_constant cs ud = Inr ud'"
  shows "\<exists>code. ud' = ud\<lparr>ud_code := code\<rparr> \<and> (\<forall>c\<in>set cs. ec_code_index c mod 4 = 0)
    \<and> each (patch_code ec_code_index (constant_patch_word ud)) cs (ud_code ud) = Inr code"
  using assms
proof (induction cs arbitrary: ud)
  case (Cons c cs)
  then obtain ud1 where one: "prv_apply_constant c ud = Inr ud1"
    and rest: "each prv_apply_constant cs ud1 = Inr ud'"
    by (auto simp: rbind_eq_Inr)
  from one obtain code where "ud1 = ud\<lparr>ud_code := code\<rparr>" "ec_code_index c mod 4 = 0"
    "patch_code ec_code_index (constant_patch_word ud) c (ud_code ud) = Inr code"
    by (rule apply_constant_Inr)
  with Cons.IH [OF rest] show ?case
    by auto
qed auto

section \<open>Branches\<close>

text \<open>
  C9: after the back patches of a section, none of which are for the same word, every branch recorded as a
  placeholder without an offset reaches its label. Its word keeps
  condition and opcode, and when the label is at a multiple of four bytes the program counter, eight bytes ahead, plus
  four times the extended offset is the address stored for the label. The words that are not patched and the rest of
  the state are left alone. The code itself refuses distances that would not fit.
\<close>

theorem back_patched_branches:
  assumes "prv_apply_back_patches ud = Inr ud'"
    and "distinct (map bp_code_index (vec_items (ud_back_patches ud)))"
    and "bp \<in> set (vec_items (ud_back_patches ud))" and "bp_type bp = BP_TYPE_BRANCH"
    and "read_word (ud_code ud) (bp_code_index bp) = Inr w" and "w AND 0xffffff = 0"
  shows "\<exists>off w'. label_offset (bp_label bp) ud = Inr off
    \<and> read_word (ud_code ud') (bp_code_index bp) = Inr w'
    \<and> w' AND 0xff000000 = w AND 0xff000000
    \<and> (off mod 4 = 0 \<longrightarrow> of_nat (bp_code_index bp) + 8 + 4 * sext24 w' = (of_nat off :: u32))
    \<and> ud' = ud\<lparr>ud_code := ud_code ud'\<rparr> \<and> length (ud_code ud') = length (ud_code ud)
    \<and> (\<forall>j. j mod 4 = 0 \<longrightarrow> j \<notin> bp_code_index ` set (vec_items (ud_back_patches ud)) \<longrightarrow>
         read_word (ud_code ud') j = read_word (ud_code ud) j)"
proof -
  let ?i = "bp_code_index bp"
  obtain code where ud': "ud' = ud\<lparr>ud_code := code\<rparr>"
    and al: "\<forall>bp\<in>set (vec_items (ud_back_patches ud)). bp_code_index bp mod 4 = 0"
    and each: "each (patch_code bp_code_index (back_patch_word ud))
      (vec_items (ud_back_patches ud)) (ud_code ud) = Inr code"
    using each_apply_back_patch [OF assms(1) [unfolded prv_apply_back_patches_def]] by blast
  from code_words.each_patch [OF each al assms(2,3)] assms(4,5) obtain off d where
    off: "label_offset (bp_label bp) ud = Inr off" and d: "branch_patch off ?i = Inr d"
    and w': "read_word code ?i = Inr (w OR d)"
    by (auto simp: back_patch_word_def rbind_eq_Inr)
  have i: "?i mod 4 = 0"
    using al assms(3) by blast
  have dvd: "4 dvd int off - int ?i" if "off mod 4 = 0"
    using that i by (simp add: mod_eq_0_iff_dvd int_dvd_int_iff [of 4, simplified] dvd_diff)
  have "(w OR d) AND 0xff000000 = w AND 0xff000000"
  proof -
    have "d AND 0xff000000 = 0"
      using d by (auto simp: branch_patch_def rbind_eq_Inr and.assoc)
    then show ?thesis
      by (simp add: bit.conj_disj_distrib2)
  qed
  with off w' ud' branch_patch_reaches(1) [OF d dvd assms(6)] code_words.each_patch_size [OF each]
    code_words.each_patch_other [OF each al] show ?thesis
    by auto
qed

section \<open>Addresses\<close>

definition adr_data :: "ccode \<Rightarrow> arm_reg \<Rightarrow> u32 \<Rightarrow> data_instr" where
  "adr_data cc dest imm = \<lparr>data_ccode = cc, data_status = False, data_dest = dest, data_op1 = 15,
     data_op2 = OP2_I32 imm\<rparr>"

lemma adr_data_word:
  assumes "dest < 16" and "e < 4096"
  shows "data_word t (adr_data cc dest e) = Inr (cc_at_28 cc OR push_bit 21 (data_num t)
    OR push_bit 16 15 OR reg_at 12 dest OR e OR push_bit 25 1)"
proof -
  obtain y :: "12 word" where e: "e = ucast y"
    using imm_12_ex [OF assms(2)] by blast
  have "e AND 0xfffff000 = 0"
    unfolding e by (simp add: word_bits)
  moreover have "reg_at 16 15 = push_bit 16 15"
    by (simp add: reg_at_def)
  moreover obtain z :: "4 word" where "dest = ucast z"
    using small_reg_ex(2) [OF assms(1)] by blast
  ultimately show ?thesis
    by (simp add: data_word_def adr_data_def flag_at_def ac_simps nibble_le_15)
qed

text \<open>
  C15: an address. The addition of zero that stands for the address of a label becomes the addition,
  or for a label before it the subtraction, of an immediate that decodes to the distance of the
  label from the program counter.
\<close>

theorem adr_patch_reaches:
  assumes "data_word INSTR_ADD (adr_data cc dest 0) = Inr w" and "adr_patch off i w = Inr w'"
    and "int off - int i - 8 \<in> {- (2 ^ 30) ..< 2 ^ 30}"
  shows "\<exists>e. prv_decode_imm e = of_nat (if i + 8 \<le> off then off - (i + 8) else i + 8 - off)
    \<and> data_word (if i + 8 \<le> off then INSTR_ADD else INSTR_SUB) (adr_data cc dest e) = Inr w'"
proof -
  let ?d = "int off - int i - 8"
  from assms(1) have dest: "dest < 16"
    by (auto simp: data_word_def adr_data_def rbind_eq_Inr word_le_nat_alt word_less_nat_alt)
  from assms(2) obtain d where d: "prv_compute_dist off i 0xffffffff = Inr d"
    and rest: "(let dist = sint d - 8;
         w' = (if dist < 0 then (w AND NOT (push_bit 23 1)) OR push_bit 22 1 else w)
     in if dist \<le> - (2 ^ 31) then Inl Undefined
        else (case arm_encode_imm (word_of_int \<bar>dist\<bar>) of
                None \<Rightarrow> Inl (Error ERROR_ASS_BAD_ADR)
              | Some encoded \<Rightarrow> Inr (w' OR encoded))) = Inr w'"
    by (auto simp: adr_patch_def rbind_eq_Inr)
  have "sint d - 8 = ?d"
    unfolding compute_dist_Inr(1) [OF d] using assms(3) by (subst sint_small) auto
  with rest obtain e where enc: "arm_encode_imm (word_of_int \<bar>?d\<bar>) = Some e"
    and w': "w' = (if ?d < 0 then (w AND NOT (push_bit 23 1)) OR push_bit 22 1 else w) OR e"
    by (auto simp: Let_def split: option.splits if_splits)
  note imm = arm_encode_imm_SomeD [OF enc]
  have abs: "\<bar>?d\<bar> = int (if i + 8 \<le> off then off - (i + 8) else i + 8 - off)"
    by auto
  have w: "w = cc_at_28 cc OR push_bit 21 4 OR push_bit 16 15 OR reg_at 12 dest OR push_bit 25 1"
    using assms(1) adr_data_word [OF dest, of 0 INSTR_ADD] by simp
  obtain y :: "4 word" where y: "dest = ucast y"
    using small_reg_ex(2) [OF dest] by blast
  have sub: "((w AND NOT (push_bit 23 1)) OR push_bit 22 1) OR e = cc_at_28 cc OR push_bit 21 2
      OR push_bit 16 15 OR reg_at 12 dest OR e OR push_bit 25 1"
    unfolding w y by (simp add: word_bits)
  show ?thesis
  proof (intro exI [of _ e] conjI)
    show "prv_decode_imm e = of_nat (if i + 8 \<le> off then off - (i + 8) else i + 8 - off)"
      using imm unfolding abs by simp
    show "data_word (if i + 8 \<le> off then INSTR_ADD else INSTR_SUB) (adr_data cc dest e) = Inr w'"
    proof (cases "i + 8 \<le> off")
      case True
      then show ?thesis
        using w' adr_data_word [OF dest, of e INSTR_ADD cc] imm w by (simp add: ac_simps)
    next
      case False
      then have "w' = ((w AND NOT (push_bit 23 1)) OR push_bit 22 1) OR e"
        using w' by simp
      then show ?thesis
        using False adr_data_word [OF dest, of e INSTR_SUB cc] imm unfolding sub by simp
    qed
  qed
qed

theorem adr_patch_reaches_witness:
  "\<exists>e. prv_decode_imm e = of_nat (if 4 + 8 \<le> (0::nat) then 0 - (4 + 8) else 4 + 8 - 0)
    \<and> data_word (if 4 + 8 \<le> (0::nat) then INSTR_ADD else INSTR_SUB) (adr_data CC_AL 2 e) = Inr 0xe24f200c"
proof (rule adr_patch_reaches)
  show "data_word INSTR_ADD (adr_data CC_AL 2 0) = Inr 0xe28f2000"
    by code_simp
  have "arm_encode_imm 12 = Some 12"
    by code_simp
  then show "adr_patch 0 4 0xe28f2000 = Inr 0xe24f200c"
    by (simp add: adr_patch_def prv_compute_dist_def)
qed simp

section \<open>An example of a state\<close>

definition example_ud :: encode_ud where
  "example_ud = \<lparr>ud_ui32 = [], ud_real = [], ud_reverse_fpa_consts = False,
     ud_label_offsets = [Some 4], ud_max_labels = 1,
     ud_code = word_bytes 0xea000000 @ word_bytes 0, ud_max_bytes = 8,
     ud_constants = vec_empty, ud_int_const_count = 0, ud_real_const_count = 0,
     ud_back_patches = \<lparr>vec_items =
       [\<lparr>bp_type = BP_TYPE_BRANCH, bp_label = 0, bp_code_index = 0\<rparr>], vec_max = 128\<rparr>,
     ud_link = \<lparr>link_externals = vec_empty, link_sections = [], link_constants = vec_empty,
       link_extrefs = vec_empty\<rparr>,
     ud_ldrc_real = None, ud_ldrc_int = None, ud_allocs = []\<rparr>"

theorem back_patched_branches_witness:
  "\<exists>off w'. label_offset 0 example_ud = Inr off
    \<and> read_word (word_bytes 0xeaffffff @ word_bytes 0) 0 = Inr w'
    \<and> w' AND 0xff000000 = 0xea000000 AND 0xff000000
    \<and> (off mod 4 = 0 \<longrightarrow> of_nat 0 + 8 + 4 * sext24 w' = (of_nat off :: u32))"
proof -
  have read: "read_word (word_bytes 0xea000000 @ word_bytes 0) 0 = Inr 0xea000000"
    using read_word_append [of "[]" "0xea000000" "word_bytes 0"] by simp
  have "branch_patch 4 0 = Inr 0xffffff"
    by (simp add: branch_patch_def prv_compute_dist_def c_div_def)
  with read have "prv_apply_back_patches example_ud =
      Inr (example_ud\<lparr>ud_code := word_bytes 0xeaffffff @ word_bytes 0\<rparr>)"
    by (simp add: prv_apply_back_patches_def prv_apply_back_patch_def example_ud_def
        label_offset_def word_aligned_def write_word_def)
  from back_patched_branches [OF this, of "\<lparr>bp_type = BP_TYPE_BRANCH, bp_label = 0, bp_code_index = 0\<rparr>"
      "0xea000000"] read
  show ?thesis
    by (simp add: example_ud_def) (elim exE conjE, intro exI conjI, assumption+)
qed

end
