(* ===== verification/Arm_Encode_Pool.thy ===== *)
theory Arm_Encode_Pool
  imports Arm_Encode_Laws Arm_Encode_Patches
begin

text \<open>
  Constant pools. The invariant \<open>pool_inv\<close> holds between the instructions of a section that loads
  integer constants only; in a state that satisfies it, flushing the pool makes every pending load
  read its constant. Floating point loads and addresses of labels do not have this guarantee: the
  last section states what goes wrong with them.
\<close>

section \<open>Writing a pool\<close>

text \<open>What the two halves of a flush have in common: only these fields change.\<close>

lemma flush_constant_int:
  assumes "prv_flush_constant c ud = Inr ud'" and "ec_type c \<noteq> BP_LDRF"
    and "length (ud_code ud) \<le> ud_max_bytes ud"
  obtains v mb al l where
    "ud' = ud\<lparr>ud_label_offsets := (ud_label_offsets ud)[ec_label c := Some (length (ud_code ud))],
       ud_code := ud_code ud @ word_bytes v, ud_max_bytes := mb, ud_link := l, ud_allocs := al\<rparr>"
    and "length (ud_code ud) + 4 \<le> mb" and "length (ud_code ud) mod 4 = 0"
    and "ec_label c < length (ud_label_offsets ud)"
    and "\<And>k. ec_type c = BP_LDR \<Longrightarrow> find (\<lambda>k. uc_label k = ec_label c) (ud_ui32 ud) = Some k \<Longrightarrow>
      \<not> uc_link_time k \<Longrightarrow> v = uc_integer k"
proof -
  note elim = that
  define ud0 where "ud0 = ud\<lparr>ud_label_offsets := (ud_label_offsets ud)[ec_label c := Some (length (ud_code ud))]\<rparr>"
  have label: "ec_label c < length (ud_label_offsets ud)"
    using assms(1) by (auto simp: prv_flush_constant_def rbind_eq_Inr array_set_eq_Inr)
  have room: "length (ud_code ud0) \<le> ud_max_bytes ud0"
    using assms(3) by (simp add: ud0_def)
  have finish: thesis if ens: "prv_ensure_code ud0 = Inr ud1"
    and add: "prv_add_word v (ud1\<lparr>ud_link := l, ud_allocs := al\<rparr>) = Inr ud'"
    and v: "\<And>k. ec_type c = BP_LDR \<Longrightarrow> find (\<lambda>k. uc_label k = ec_label c) (ud_ui32 ud) = Some k \<Longrightarrow>
      \<not> uc_link_time k \<Longrightarrow> v = uc_integer k" for ud1 v l al
  proof -
    obtain mb al' where ud1: "ud1 = ud0\<lparr>ud_max_bytes := mb, ud_allocs := al'\<rparr>"
      and mb: "length (ud_code ud0) + 4 \<le> mb"
      using ens room by (rule ensure_code_size_Inr)
    show thesis
      by (rule elim [of al l mb v]; use add v label mb in \<open>auto simp: ud1 ud0_def prv_add_word_def
        append_bytes_def rbind_eq_Inr split: if_splits\<close>)
  qed
  have same: "prv_add_word v ud1 = Inr ud' \<Longrightarrow>
      prv_add_word v (ud1\<lparr>ud_link := ud_link ud1, ud_allocs := ud_allocs ud1\<rparr>) = Inr ud'" for v and ud1 :: encode_ud
    by simp
  show thesis
  proof (cases "ec_type c")
    case BP_LDR
    with assms(1) obtain k ud1 where k: "find (\<lambda>k. uc_label k = ec_label c) (ud_ui32 ud) = Some k"
      and ens: "prv_ensure_code ud0 = Inr ud1"
      and add: "(if uc_link_time k
         then (case arm_link_constant_add (ud_link ud1) (ec_code_index c)
                      (length (ud_code ud1)) (unat (scast (uc_integer k) :: u64)) (ud_allocs ud1) of
                 Inl e \<Rightarrow> rbind (prv_add_word 0xffff ud1) (\<lambda>_. Inl e)
               | Inr (l, al) \<Rightarrow> prv_add_word 0xffff (ud1\<lparr>ud_link := l, ud_allocs := al\<rparr>))
         else prv_add_word (uc_integer k) ud1) = Inr ud'"
      by (auto simp: prv_flush_constant_def rbind_eq_Inr array_set_eq_Inr ud0_def Let_def
          split: option.splits)
    show thesis
    proof (cases "uc_link_time k")
      case True
      with add obtain l al where a: "prv_add_word 0xffff (ud1\<lparr>ud_link := l, ud_allocs := al\<rparr>) = Inr ud'"
        by (auto simp: rbind_eq_Inr split: sum.splits)
      show thesis
        by (rule finish [OF ens a]) (use True k in simp)
    next
      case False
      with add have "prv_add_word (uc_integer k) ud1 = Inr ud'"
        by simp
      show thesis
        by (rule finish [OF ens same [OF \<open>prv_add_word _ ud1 = _\<close>]]) (use k in simp)
    qed
  next
    case BP_LDRP
    with assms(1) obtain ud1 l al where ens: "prv_ensure_code ud0 = Inr ud1"
      and a: "prv_add_word 0 (ud1\<lparr>ud_link := l, ud_allocs := al\<rparr>) = Inr ud'"
      by (auto simp: prv_flush_constant_def rbind_eq_Inr array_set_eq_Inr ud0_def Let_def)
    show thesis
      by (rule finish [OF ens a]) (use BP_LDRP in simp)
  qed (use assms(2) in simp)
qed

text \<open>
  The loop of the flush: one word per constant is appended. The label of each constant ends up at
  one of these words, and when the label belongs to a constant whose value is known at compile time
  the word is that value.
\<close>

lemma ud_update_all:
  "ud\<lparr>ud_label_offsets := ud_label_offsets ud, ud_code := ud_code ud, ud_max_bytes := ud_max_bytes ud,
    ud_link := ud_link ud, ud_allocs := ud_allocs ud\<rparr> = ud"
  by (cases ud) simp

lemma flush_loop:
  assumes "each prv_flush_constant cs ud = Inr ud'" and "\<forall>c\<in>set cs. ec_type c \<noteq> BP_LDRF"
    and "length (ud_code ud) \<le> ud_max_bytes ud"
  shows "\<exists>offs bs mb al l. ud' = ud\<lparr>ud_label_offsets := offs, ud_code := ud_code ud @ bs,
       ud_max_bytes := mb, ud_link := l, ud_allocs := al\<rparr>
    \<and> length bs = 4 * length cs \<and> length (ud_code ud) + length bs \<le> mb
    \<and> length offs = length (ud_label_offsets ud)"
  using assms
proof (induction cs arbitrary: ud)
  case Nil
  then have ud': "ud' = ud"
    by simp
  have same: "ud = ud\<lparr>ud_label_offsets := ud_label_offsets ud, ud_code := ud_code ud @ [],
      ud_max_bytes := ud_max_bytes ud, ud_link := ud_link ud, ud_allocs := ud_allocs ud\<rparr>"
    by (simp only: append_Nil2 ud_update_all)
  show ?case
    unfolding ud' by (intro exI conjI, rule same) (use Nil.prems(3) in simp_all)
next
  case (Cons c cs)
  then obtain ud1 where one: "prv_flush_constant c ud = Inr ud1"
    and rest: "each prv_flush_constant cs ud1 = Inr ud'"
    by (auto simp: rbind_eq_Inr)
  obtain v mb al l where ud1: "ud1 = ud\<lparr>ud_label_offsets := (ud_label_offsets ud)[ec_label c := Some (length (ud_code ud))],
       ud_code := ud_code ud @ word_bytes v, ud_max_bytes := mb, ud_link := l, ud_allocs := al\<rparr>"
    and mb: "length (ud_code ud) + 4 \<le> mb"
    by (rule flush_constant_int [OF one]) (use Cons.prems(2,3) in auto)
  have "length (ud_code ud1) \<le> ud_max_bytes ud1"
    using mb by (simp add: ud1)
  from Cons.IH [OF rest _ this] Cons.prems(2) obtain offs bs mb' al' l' where
    "ud' = ud1\<lparr>ud_label_offsets := offs, ud_code := ud_code ud1 @ bs,
       ud_max_bytes := mb', ud_link := l', ud_allocs := al'\<rparr>"
    "length bs = 4 * length cs" "length (ud_code ud1) + length bs \<le> mb'"
    "length offs = length (ud_label_offsets ud1)"
    by auto
  then show ?case
    by (intro exI [of _ offs] exI [of _ "word_bytes v @ bs"] exI [of _ mb']
        exI [of _ al'] exI [of _ l']) (simp add: ud1)
qed

definition label_at :: "(u32 option) \<Rightarrow> nat \<Rightarrow> nat \<Rightarrow> encode_ud \<Rightarrow> bool" where
  "label_at v l base ud \<longleftrightarrow> (\<exists>off. label_offset l ud = Inr off \<and> base \<le> off
     \<and> off + 4 \<le> length (ud_code ud) \<and> off mod 4 = 0
     \<and> (\<forall>x. v = Some x \<longrightarrow> read_word (ud_code ud) off = Inr x))"

lemma flush_loop_label:
  assumes "each prv_flush_constant cs ud = Inr ud'" and "\<forall>c\<in>set cs. ec_type c \<noteq> BP_LDRF"
    and "length (ud_code ud) \<le> ud_max_bytes ud" and "base \<le> length (ud_code ud)"
    and "\<forall>x. v = Some x \<longrightarrow> (\<forall>c\<in>set cs. ec_label c = l \<longrightarrow> ec_type c = BP_LDR)
      \<and> (\<exists>k. find (\<lambda>k. uc_label k = l) (ud_ui32 ud) = Some k \<and> \<not> uc_link_time k \<and> x = uc_integer k)"
    and "l \<in> ec_label ` set cs \<or> label_at v l base ud"
  shows "label_at v l base ud'"
  using assms
proof (induction cs arbitrary: ud)
  case (Cons c cs)
  then obtain ud1 where one: "prv_flush_constant c ud = Inr ud1"
    and rest: "each prv_flush_constant cs ud1 = Inr ud'"
    by (auto simp: rbind_eq_Inr)
  obtain w mb al link where ud1: "ud1 = ud\<lparr>ud_label_offsets := (ud_label_offsets ud)[ec_label c := Some (length (ud_code ud))],
       ud_code := ud_code ud @ word_bytes w, ud_max_bytes := mb, ud_link := link, ud_allocs := al\<rparr>"
    and mb: "length (ud_code ud) + 4 \<le> mb" "length (ud_code ud) mod 4 = 0"
      "ec_label c < length (ud_label_offsets ud)"
    and w: "\<And>k. ec_type c = BP_LDR \<Longrightarrow> find (\<lambda>k. uc_label k = ec_label c) (ud_ui32 ud) = Some k \<Longrightarrow>
      \<not> uc_link_time k \<Longrightarrow> w = uc_integer k"
    using flush_constant_int [OF one] Cons.prems(2,3) by (metis list.set_intros(1))
  have at: "l \<in> ec_label ` set cs \<or> label_at v l base ud1"
  proof (cases "ec_label c = l")
    case True
    have "label_at v l base ud1"
      unfolding label_at_def
      by (rule exI [of _ "length (ud_code ud)"])
        (use True Cons.prems(4,5) mb w read_word_last in
          \<open>auto simp: ud1 label_offset_def\<close>)
    then show ?thesis ..
  next
    case False
    with Cons.prems(6) have "l \<in> ec_label ` set cs \<or> label_at v l base ud"
      by auto
    then show ?thesis
      using False by (auto simp: label_at_def ud1 label_offset_def array_get_def read_word_append1
          rbind_eq_Inr split: if_splits option.splits)
  qed
  show ?case
    by (rule Cons.IH [OF rest _ _ _ _ at]) (use Cons.prems(2-5) mb in \<open>auto simp: ud1\<close>)
qed simp

section \<open>The invariant\<close>

text \<open>
  While only integer constants are loaded: the counters agree with the list, every pending load has
  been written, in order, from \<^verbatim>\<open>ldrc_int\<close> on, and a pool placed here would be within reach of all of
  them.
\<close>

definition pool_inv :: "encode_ud \<Rightarrow> bool" where
  "pool_inv ud \<longleftrightarrow> ud_ldrc_real ud = None \<and> ud_real_const_count ud = 0
     \<and> ud_int_const_count ud = length (vec_items (ud_constants ud))
     \<and> (\<forall>c\<in>set (vec_items (ud_constants ud)). ec_type c \<noteq> BP_LDRF
          \<and> ec_code_index c + 4 \<le> length (ud_code ud)
          \<and> (case ud_ldrc_int ud of None \<Rightarrow> False | Some i \<Rightarrow> i \<le> ec_code_index c))
     \<and> sorted_wrt (<) (map ec_code_index (vec_items (ud_constants ud)))
     \<and> (case ud_ldrc_int ud of None \<Rightarrow> True
         | Some i \<Rightarrow> i \<le> length (ud_code ud) \<and> pool_end 0 ud < i + 4096)
     \<and> length (ud_code ud) \<le> ud_max_bytes ud"

lemma pool_inv_reset:
  "length (ud_code ud) \<le> ud_max_bytes ud \<Longrightarrow> pool_inv (prv_reset_encode_ud s ud)"
  by (simp add: pool_inv_def prv_reset_encode_ud_def prv_reset_pool_state_def)

text \<open>What is true after the check of the pool: the words of the next instruction still fit.\<close>

definition pool_room :: "nat \<Rightarrow> encode_ud \<Rightarrow> bool" where
  "pool_room adj ud \<longleftrightarrow>
     (case ud_ldrc_int ud of None \<Rightarrow> True | Some i \<Rightarrow> pool_end adj ud < i + 4092)"

lemma not_pool_needed:
  "pool_inv ud \<Longrightarrow> \<not> pool_needed adj ud \<Longrightarrow> pool_room adj ud"
  by (auto simp: pool_inv_def pool_needed_def pool_room_def split: option.splits)

lemma vec_push_items: "vec_push gran x v al = Inr (v', al') \<Longrightarrow> vec_items v' = vec_items v @ [x]"
  by (auto simp: vec_push_def rbind_eq_Inr split: if_splits)

lemma add_back_patch_Inr:
  assumes "prv_add_back_patch t label i ud = Inr ud'"
  obtains v al where "ud' = ud\<lparr>ud_back_patches := v, ud_allocs := al\<rparr>"
    and "vec_items v = vec_items (ud_back_patches ud) @
      [\<lparr>bp_type = t, bp_label = label, bp_code_index = i\<rparr>]"
  using assms that by (auto simp: prv_add_back_patch_def rbind_eq_Inr dest: vec_push_items)

lemma encode_label_Inr:
  assumes "prv_encode_label label ud = Inr ud'"
  obtains offs al where "ud' = ud\<lparr>ud_label_offsets := offs, ud_allocs := al\<rparr>"
proof (cases "label = ud_max_labels ud \<and> length (ud_label_offsets ud) \<le> label")
  case True
  with assms obtain offs al where "ud' = (ud\<lparr>ud_allocs := al\<rparr>)\<lparr>ud_label_offsets := offs\<rparr>"
    by (auto simp: prv_encode_label_def rbind_eq_Inr)
  then show thesis
    by (intro that [of al offs]) simp
next
  case False
  with assms obtain offs where "ud' = ud\<lparr>ud_label_offsets := offs\<rparr>"
    by (auto simp: prv_encode_label_def rbind_eq_Inr split: if_splits)
  then show thesis
    by (intro that [of "ud_allocs ud" offs]) simp
qed

lemma pool_flush:
  assumes "prv_check_pool_adj adj ud = Inr ud'" and "pool_needed adj ud" and "pool_inv ud"
  obtains ud1 ud2 code where
    "each prv_flush_constant (vec_items (ud_constants ud)) ud1 = Inr ud2"
    "each prv_apply_constant (vec_items (ud_constants ud)) ud2 = Inr (ud2\<lparr>ud_code := code\<rparr>)"
    "ud_code ud1 = ud_code ud @ word_bytes (cc_at_28 CC_AL OR push_bit 25 5)"
    "ud_ui32 ud1 = ud_ui32 ud" "length (ud_code ud1) \<le> ud_max_bytes ud1"
    "length (ud_code ud) mod 4 = 0" "length (ud_code ud2) = length (ud_code ud1) + 4 * length (vec_items (ud_constants ud))"
    "ud_code ud' = code" "no_pool ud'" "vec_items (ud_constants ud') = []" "pool_inv ud'"
    "vec_items (ud_back_patches ud') = vec_items (ud_back_patches ud) @
      [\<lparr>bp_type = BP_TYPE_BRANCH, bp_label = ud_max_labels ud, bp_code_index = length (ud_code ud)\<rparr>]"
proof -
  let ?w = "cc_at_28 CC_AL OR push_bit 25 5"
  let ?cs = "vec_items (ud_constants ud)"
  from assms(1,2) obtain ud0 ud1 ud3 ud4 where
    bp: "prv_add_back_patch BP_TYPE_BRANCH (ud_max_labels ud) (length (ud_code ud)) ud = Inr ud0"
    and emit: "emit ?w ud0 = Inr ud1"
    and flush: "prv_flush_constants ud1 = Inr ud3"
    and label: "prv_encode_label (ud_max_labels ud3) ud3 = Inr ud4"
    and ud': "ud' = ud4\<lparr>ud_max_labels := ud_max_labels ud4 + 1\<rparr>"
    by (auto simp: prv_check_pool_adj_def emit_def rbind_eq_Inr)
  obtain v al where ud0: "ud0 = ud\<lparr>ud_back_patches := v, ud_allocs := al\<rparr>"
    and v: "vec_items v = vec_items (ud_back_patches ud) @
      [\<lparr>bp_type = BP_TYPE_BRANCH, bp_label = ud_max_labels ud, bp_code_index = length (ud_code ud)\<rparr>]"
    by (rule add_back_patch_Inr [OF bp])
  have room0: "length (ud_code ud0) \<le> ud_max_bytes ud0"
    using assms(3) by (simp add: ud0 pool_inv_def)
  obtain mb al1 where ud1: "ud1 = ud0\<lparr>ud_code := ud_code ud0 @ word_bytes ?w, ud_max_bytes := mb, ud_allocs := al1\<rparr>"
    and mb: "length (ud_code ud0) + 4 \<le> mb" "length (ud_code ud0) mod 4 = 0"
    by (rule emit_Inr [OF emit room0])
  have cs: "vec_items (ud_constants ud1) = ?cs"
    by (simp add: ud1 ud0)
  from flush obtain ud2 ud2' where loop: "each prv_flush_constant ?cs ud1 = Inr ud2"
    and app: "prv_apply_constants ud2 = Inr ud2'" and ud3: "ud3 = prv_reset_pool_state ud2'"
    unfolding prv_flush_constants_def cs by (auto simp: rbind_eq_Inr)
  have room1: "length (ud_code ud1) \<le> ud_max_bytes ud1"
    using mb by (simp add: ud1 ud0)
  have ints: "\<forall>c\<in>set ?cs. ec_type c \<noteq> BP_LDRF"
    using assms(3) by (simp add: pool_inv_def)
  obtain offs bs mb2 al2 l where ud2: "ud2 = ud1\<lparr>ud_label_offsets := offs, ud_code := ud_code ud1 @ bs,
       ud_max_bytes := mb2, ud_link := l, ud_allocs := al2\<rparr>"
    and bs: "length bs = 4 * length ?cs" "length (ud_code ud1) + length bs \<le> mb2"
    using flush_loop [OF loop ints room1] by blast
  have cs2: "vec_items (ud_constants ud2) = ?cs"
    by (simp add: ud2 cs)
  obtain code where ud2': "ud2' = ud2\<lparr>ud_code := code\<rparr>"
    and patch: "each (patch_code ec_code_index (constant_patch_word ud2)) ?cs (ud_code ud2) = Inr code"
    using each_apply_constant app unfolding prv_apply_constants_def cs2 by metis
  have len: "length code = length (ud_code ud2)"
    by (rule code_words.each_patch_size [OF patch])
  obtain offs4 al4 where ud4: "ud4 = ud3\<lparr>ud_label_offsets := offs4, ud_allocs := al4\<rparr>"
    by (rule encode_label_Inr [OF label])
  show thesis
  proof (rule that [of ud1 ud2 code])
    show "each prv_apply_constant ?cs ud2 = Inr (ud2\<lparr>ud_code := code\<rparr>)"
      using app unfolding prv_apply_constants_def cs2 ud2' .
    show "pool_inv ud'"
      using len bs by (simp add: pool_inv_def ud' ud4 ud3 prv_reset_pool_state_def ud2' ud2)
  qed (use loop mb room1 bs v in \<open>simp_all add: ud' ud4 ud3 ud2' ud2 ud1 ud0 prv_reset_pool_state_def no_pool_def\<close>)
qed

lemma check_pool_inv:
  assumes "prv_check_pool_adj adj ud = Inr ud'" and "pool_inv ud"
  shows "pool_inv ud'" and "pool_room adj ud'"
proof -
  have "pool_inv ud' \<and> pool_room adj ud'"
  proof (cases "pool_needed adj ud")
    case True
    with assms show ?thesis
      by (elim pool_flush) (auto simp: pool_room_def no_pool_def)
  next
    case False
    with assms show ?thesis
      by (simp add: prv_check_pool_adj_def not_pool_needed)
  qed
  then show "pool_inv ud'" and "pool_room adj ud'"
    by auto
qed

lemma emit_inv:
  assumes "emit w ud = Inr ud'" and "pool_inv ud" and "pool_room 0 ud"
  shows "pool_inv ud'"
proof -
  from assms(2) have "length (ud_code ud) \<le> ud_max_bytes ud"
    by (simp add: pool_inv_def)
  then obtain mb al where "ud' = ud\<lparr>ud_code := ud_code ud @ word_bytes w, ud_max_bytes := mb, ud_allocs := al\<rparr>"
    and "length (ud_code ud) + 4 \<le> mb"
    using emit_Inr [OF assms(1)] by blast
  with assms(2,3) show ?thesis
    by (fastforce simp: pool_inv_def pool_room_def pool_end_def split: option.splits)
qed

lemma encode_word_inv: "encode_word w ud = Inr ud' \<Longrightarrow> pool_inv ud \<Longrightarrow> pool_inv ud'"
  unfolding encode_word_def rbind_eq_Inr by (meson check_pool_inv emit_inv)

lemma pool_inv_frame [simp]:
  "pool_inv (ud\<lparr>ud_link := l, ud_allocs := al\<rparr>) = pool_inv ud"
  "pool_room adj (ud\<lparr>ud_link := l, ud_allocs := al\<rparr>) = pool_room adj ud"
  "pool_inv (ud\<lparr>ud_back_patches := v, ud_allocs := al\<rparr>) = pool_inv ud"
  "pool_room adj (ud\<lparr>ud_back_patches := v, ud_allocs := al\<rparr>) = pool_room adj ud"
  "pool_inv (ud\<lparr>ud_label_offsets := offs, ud_allocs := al\<rparr>) = pool_inv ud"
  by (simp_all add: pool_inv_def pool_room_def pool_end_def cong: option.case_cong)

text \<open>
  A load with its constant just recorded: the check inside the handler of the load does nothing, so
  that the recorded place is where the load goes.
\<close>

definition pending_load :: "encode_ud \<Rightarrow> encode_ud \<Rightarrow> bool" where
  "pending_load ud ud' \<longleftrightarrow>
     (\<exists>c. vec_items (ud_constants ud') = vec_items (ud_constants ud) @ [c]
        \<and> ec_type c \<noteq> BP_LDRF \<and> ec_code_index c = length (ud_code ud))
     \<and> ud_int_const_count ud' = ud_int_const_count ud + 1
     \<and> ud_real_const_count ud' = ud_real_const_count ud \<and> ud_ldrc_real ud' = ud_ldrc_real ud
     \<and> ud_code ud' = ud_code ud \<and> ud_max_bytes ud' = ud_max_bytes ud
     \<and> ud_ldrc_int ud' = Some (case ud_ldrc_int ud of None \<Rightarrow> length (ud_code ud) | Some i \<Rightarrow> i)"

lemma pool_inv_empty: "pool_inv ud \<Longrightarrow> ud_ldrc_int ud = None \<Longrightarrow> vec_items (ud_constants ud) = []"
  by (cases "vec_items (ud_constants ud)") (auto simp: pool_inv_def)

lemma pending_load_no_pool:
  assumes "pool_inv ud" and "pool_room adj ud" and "8 \<le> adj" and "pending_load ud ud'"
  shows "\<not> pool_needed 0 ud'"
  using assms pool_inv_empty [OF assms(1)]
  by (auto simp: pool_inv_def pool_room_def pool_end_def pending_load_def pool_needed_def
      split: option.splits)

lemma pending_load_inv:
  assumes "pool_inv ud" and "pool_room adj ud" and "8 \<le> adj" and "pending_load ud ud'"
    and "encode_word w ud' = Inr ud''"
  shows "pool_inv ud''"
proof -
  from assms(5) pending_load_no_pool [OF assms(1-4)] obtain w' where "emit w' ud' = Inr ud''"
    by (auto simp: encode_word_def prv_check_pool_adj_def rbind_eq_Inr)
  moreover have "length (ud_code ud') \<le> ud_max_bytes ud'"
    using assms(1,4) by (simp add: pool_inv_def pending_load_def)
  ultimately obtain mb al where ud'': "ud'' = ud'\<lparr>ud_code := ud_code ud' @ word_bytes w',
      ud_max_bytes := mb, ud_allocs := al\<rparr>" and mb: "length (ud_code ud') + 4 \<le> mb"
    by (rule emit_Inr)
  show ?thesis
  proof (cases "ud_ldrc_int ud")
    case None
    with assms(1,4) mb pool_inv_empty [OF assms(1) None] show ?thesis
      by (auto simp: ud'' pool_inv_def pending_load_def pool_end_def)
  next
    case (Some i)
    with assms(1-4) mb show ?thesis
      by (fastforce simp: ud'' pool_inv_def pool_room_def pending_load_def pool_end_def
          sorted_wrt_append)
  qed
qed

lemma add_const_pending:
  assumes "prv_add_const label (length (ud_code ud)) t ud = Inr ud'" and "t \<noteq> BP_LDRF"
  shows "pending_load ud (prv_note_int_load ud')"
    and "vec_items (ud_constants ud') = vec_items (ud_constants ud) @
      [\<lparr>ec_label = label, ec_section_label = 0, ec_code_index = length (ud_code ud), ec_type = t\<rparr>]"
  using assms
  by (auto simp: prv_add_const_def vec_push_def rbind_eq_Inr Let_def pending_load_def
      prv_note_int_load_def split: if_splits option.splits)

text \<open>The instructions after which the invariant holds: all but the loads of floating point constants.\<close>

fun int_pool_op :: "arm_op \<Rightarrow> bool" where
  "int_pool_op (Op_label l) = True"
| "int_pool_op (Op_instr i) = (case i of Fpa_ldrc _ \<Rightarrow> False | Vfp_ldrc _ \<Rightarrow> False | _ \<Rightarrow> True)"
| "int_pool_op _ = False"

lemma ldrc_inv:
  assumes "prv_encode_ldrc_instr i ud = Inr ud'" and "pool_inv ud"
  shows "pool_inv ud'"
proof -
  from assms(1) obtain ud1 ud2 where
    check: "prv_check_pool_adj (if ldrc_link_time i then 8 + 4 else 8) ud = Inr ud1"
    and add: "prv_add_const (ldrc_label i) (length (ud_code ud1)) BP_LDR ud1 = Inr ud2"
    and enc: "prv_encode_stran_instr INSTR_LDR (ldr_pc (ldrc_ccode i) (ldrc_dest i)) (prv_note_int_load ud2) = Inr ud'"
    by (auto simp: prv_encode_ldrc_instr_def rbind_eq_Inr)
  note inv = check_pool_inv [OF check assms(2)]
  show ?thesis
    by (rule pending_load_inv [OF inv _ add_const_pending(1) [OF add]])
      (use enc in \<open>simp_all add: prv_encode_stran_instr_def\<close>)
qed

lemma ldrp_inv:
  assumes "prv_encode_ldrp_instr i ud = Inr ud'" and "pool_inv ud"
  shows "pool_inv ud'"
proof -
  from assms(1) obtain ud1 ud2 where
    check: "prv_check_pool_adj 12 ud = Inr ud1"
    and add: "prv_add_const (ldrp_constant_label i) (length (ud_code ud1)) BP_LDRP ud1 = Inr ud2"
    and enc: "prv_encode_stran_instr INSTR_LDR (ldr_pc (ldrp_ccode i) (ldrp_dest i))
      (prv_note_int_load (ud2\<lparr>ud_constants := (ud_constants ud2)\<lparr>vec_items :=
        (vec_items (ud_constants ud2))[length (vec_items (ud_constants ud2)) - 1 :=
          (vec_items (ud_constants ud2) ! (length (vec_items (ud_constants ud2)) - 1))
            \<lparr>ec_section_label := ldrp_section_label i\<rparr>]\<rparr>\<rparr>)) = Inr ud'"
    by (auto simp: prv_encode_ldrp_instr_def rbind_eq_Inr Let_def)
  note inv = check_pool_inv [OF check assms(2)]
  have "pending_load ud1 (prv_note_int_load (ud2\<lparr>ud_constants := (ud_constants ud2)\<lparr>vec_items :=
        (vec_items (ud_constants ud2))[length (vec_items (ud_constants ud2)) - 1 :=
          (vec_items (ud_constants ud2) ! (length (vec_items (ud_constants ud2)) - 1))
            \<lparr>ec_section_label := ldrp_section_label i\<rparr>]\<rparr>\<rparr>))"
    using add_const_pending [OF add] by (auto simp: pending_load_def prv_note_int_load_def)
  from pending_load_inv [OF inv _ this] enc show ?thesis
    by (simp add: prv_encode_stran_instr_def)
qed

lemma br_inv:
  assumes "prv_encode_br_instr i ud = Inr ud'" and "pool_inv ud"
  shows "pool_inv ud'"
proof -
  from assms(1) obtain ud1 ud2 where check: "prv_check_pool ud = Inr ud1"
    and note': "(if br_indirect i then Inr ud1
            else if br_link i \<and> \<not> br_local i
            then rbind (arm_link_add (ud_link ud1) (length (ud_code ud1)) (ud_allocs ud1))
                   (\<lambda>(l, al). Inr (ud1\<lparr>ud_link := l, ud_allocs := al\<rparr>))
            else prv_add_back_patch BP_TYPE_BRANCH (unat (br_target_size_t (br_target i)))
                   (length (ud_code ud1)) ud1) = Inr ud2"
    and emit: "emit (br_word i) ud2 = Inr ud'"
    by (auto simp: prv_encode_br_instr_def rbind_eq_Inr)
  note inv = check_pool_inv [OF check assms(2)]
  have "pool_inv ud2 \<and> pool_room 0 ud2"
    using note' inv by (auto simp: rbind_eq_Inr split: if_splits elim!: add_back_patch_Inr)
  with emit show ?thesis
    by (auto intro: emit_inv)
qed

lemmas word_handlers = prv_encode_data_instr_def prv_encode_mov_instr_def prv_encode_cmp_instr_def
  prv_encode_stran_instr_def prv_encode_fpa_data_instr_def prv_encode_fpa_data_dyadic_instr_def
  prv_encode_fpa_data_monadic_instr_def prv_encode_fpa_stran_instr_def prv_encode_vfp_stran_instr_def

lemma twice_inv:
  "rbind (prv_check_pool ud) (encode_word w) = Inr ud' \<Longrightarrow> pool_inv ud \<Longrightarrow> pool_inv ud'"
  by (auto simp: rbind_eq_Inr intro: encode_word_inv dest: check_pool_inv(1))

lemma adr_inv: "prv_encode_adr_instr i ud = Inr ud' \<Longrightarrow> pool_inv ud \<Longrightarrow> pool_inv ud'"
  by (auto simp: prv_encode_adr_instr_def word_handlers rbind_eq_Inr intro: encode_word_inv
      elim!: add_back_patch_Inr)

lemma cmov_inv: "prv_encode_cmov_instr i ud = Inr ud' \<Longrightarrow> pool_inv ud \<Longrightarrow> pool_inv ud'"
  by (auto simp: prv_encode_cmov_instr_def prv_encode_mov_instr_def prv_encode_cmp_instr_def
      prv_encode_data_instr_def rbind_eq_Inr split: if_splits
      dest!: check_pool_inv(1) encode_word_inv)

lemma encode_op_inv:
  assumes "encode_op op ud = Inr ud'" and "pool_inv ud" and "int_pool_op op"
  shows "pool_inv ud'"
  using assms(3)
proof (cases op rule: int_pool_op.cases)
  case (1 l)
  with assms(1,2) show ?thesis
    by (auto elim!: encode_label_Inr)
next
  case (2 i)
  with assms show ?thesis
    by (cases i) (auto simp: word_handlers split: if_splits
        intro: encode_word_inv twice_inv ldrc_inv ldrp_inv br_inv adr_inv cmov_inv)
qed simp_all

text \<open>
  C7: the invariant of the constant pool. Whatever instructions and labels a section is made of, as
  long as they load no floating point constants and there are no directives between them, every pending load is
  already in the code, the places are in order, the counters agree with the list, and the code written since the first
  pending load together with a pool placed after it is smaller than the reach of a load.
\<close>

theorem section_keeps_pool_inv:
  assumes "each encode_op ops (prv_reset_encode_ud s ud) = Inr ud'" and "\<forall>op\<in>set ops. int_pool_op op"
    and "length (ud_code ud) \<le> ud_max_bytes ud"
  shows "pool_inv ud'"
  by (rule each_preserves [OF assms(1)])
    (use assms(2,3) encode_op_inv in \<open>auto intro: pool_inv_reset\<close>)

theorem section_keeps_pool_inv_witness:
  "\<exists>ud'. each encode_op [Op_label 0, Op_instr (Ldrc \<lparr>ldrc_ccode = CC_AL, ldrc_dest = 3, ldrc_label = 0,
        ldrc_link_time = False\<rparr>)] (prv_reset_encode_ud
      \<lparr>sec_ops = [], sec_label_counter = 1, sec_ui32 = [], sec_real = []\<rparr> example_ud) = Inr ud'
    \<and> pool_inv ud' \<and> map ec_code_index (vec_items (ud_constants ud')) = [8] \<and> ud_ldrc_int ud' = Some 8"
proof -
  let ?s = "\<lparr>sec_ops = [], sec_label_counter = 1, sec_ui32 = [], sec_real = []\<rparr>"
  let ?ops = "[Op_label 0, Op_instr (Ldrc \<lparr>ldrc_ccode = CC_AL, ldrc_dest = 3, ldrc_label = 0, ldrc_link_time = False\<rparr>)]"
  define ud2 where "ud2 = prv_reset_encode_ud ?s example_ud \<lparr>ud_label_offsets := [Some 8], ud_int_const_count := 1,
    ud_constants := \<lparr>vec_items = [\<lparr>ec_label = 0, ec_section_label = 0, ec_code_index = 8, ec_type = BP_LDR\<rparr>],
      vec_max = 128\<rparr>, ud_ldrc_int := Some 8\<rparr>"
  obtain w where w: "stran_word INSTR_LDR (ldr_pc CC_AL 3) = Inr w"
    by (simp add: ldr_pc_def stran_word_def)
  have ops: "each encode_op ?ops (prv_reset_encode_ud ?s example_ud) = rbind (emit w ud2) (each encode_op [])"
    by (simp add: ud2_def w prv_reset_encode_ud_def prv_reset_pool_state_def example_ud_def prv_encode_label_def
        prv_encode_ldrc_instr_def prv_check_pool_adj_def pool_needed_def pool_end_def prv_add_const_def vec_push_def
        SUBTILIS_ENCODER_BACKPATCH_GRAN_def vec_empty_def prv_note_int_load_def prv_encode_stran_instr_def encode_word_def)
  have "length (ud_code ud2) \<le> ud_max_bytes ud2" "length (ud_code ud2) mod 4 = 0" "set (ud_allocs ud2) \<subseteq> {True}"
    by (simp_all add: ud2_def prv_reset_encode_ud_def prv_reset_pool_state_def example_ud_def)
  then obtain mb al where "emit w ud2 = Inr (ud2\<lparr>ud_code := ud_code ud2 @ word_bytes w, ud_max_bytes := mb, ud_allocs := al\<rparr>)"
    by (rule emit_granted [of ud2 w])
  then obtain ud' where ud': "each encode_op ?ops (prv_reset_encode_ud ?s example_ud) = Inr ud'"
    "ud_constants ud' = ud_constants ud2" "ud_ldrc_int ud' = ud_ldrc_int ud2"
    unfolding ops by simp
  then have items: "map ec_code_index (vec_items (ud_constants ud')) = [8]" "ud_ldrc_int ud' = Some 8"
    by (simp_all add: ud2_def)
  have inv: "pool_inv ud'"
    by (rule section_keeps_pool_inv [OF ud'(1)]) (simp_all add: example_ud_def)
  show ?thesis
    by (rule exI, rule conjI [OF ud'(1) conjI [OF inv conjI [OF items]]])
qed

section \<open>Loads reach their constants\<close>

lemma const_dist_forward:
  assumes "t \<noteq> BP_LDRF" and "i + 8 \<le> off" and "off < i + 8 + 4096"
  shows "const_dist t off i = Inr (of_nat (off - (i + 8)))"
proof -
  have d: "(of_nat off - of_nat i - 8 :: u64) = of_nat (off - (i + 8))"
    using assms(2) by (simp add: of_nat_diff)
  have s: "sint (of_nat (off - (i + 8)) :: u32) = int (off - (i + 8))"
    using sint_small [of "int (off - (i + 8))"] assms(3) by simp
  have "sint (ucast (of_nat off - of_nat i - 8 :: u64) :: u32) = int (off - (i + 8))"
    unfolding d ucast_u64_of_nat by (rule s)
  with assms show ?thesis
    by (simp add: const_dist_def)
qed

lemma label_at_cong:
  "ud_label_offsets ud' = ud_label_offsets ud \<Longrightarrow> label_offset l ud' = label_offset l ud"
  by (simp add: label_offset_def)

text \<open>
  A flush of constants whose loads are all followed by another word and are near enough: each load is patched with
  the distance to a word that holds its constant.
\<close>

lemma flush_reaches:
  assumes loop: "each prv_flush_constant cs ud1 = Inr ud2"
    and app: "each prv_apply_constant cs ud2 = Inr (ud2\<lparr>ud_code := code\<rparr>)"
    and ints: "\<forall>c\<in>set cs. ec_type c \<noteq> BP_LDRF" and room: "length (ud_code ud1) \<le> ud_max_bytes ud1"
    and distinct: "distinct (map ec_code_index cs)" and behind: "\<forall>c\<in>set cs. ec_code_index c + 8 \<le> length (ud_code ud1)"
    and near: "length (ud_code ud1) + 4 * length cs \<le> ec_code_index c + 8 + 4096"
    and c: "c \<in> set cs" "\<forall>c'\<in>set cs. ec_label c' = ec_label c \<longrightarrow> ec_type c' = BP_LDR"
    and k: "find (\<lambda>k. uc_label k = ec_label c) (ud_ui32 ud1) = Some k" "\<not> uc_link_time k"
    and w: "read_word (ud_code ud1) (ec_code_index c) = Inr w"
  shows "\<exists>d < 4096. read_word code (ec_code_index c) = Inr (w OR of_nat d)
    \<and> read_word code (ec_code_index c + 8 + d) = Inr (uc_integer k)"
proof -
  let ?i = "ec_code_index c"
  obtain bs where bs: "ud_code ud2 = ud_code ud1 @ bs" "length bs = 4 * length cs"
    using flush_loop [OF loop ints room] by auto
  have "label_at (Some (uc_integer k)) (ec_label c) (length (ud_code ud1)) ud2"
    by (rule flush_loop_label [OF loop ints room]) (use c k in auto)
  then obtain off where off: "label_offset (ec_label c) ud2 = Inr off" "length (ud_code ud1) \<le> off"
    "off + 4 \<le> length (ud_code ud2)" "off mod 4 = 0"
    and val: "read_word (ud_code ud2) off = Inr (uc_integer k)"
    by (auto simp: label_at_def)
  have "?i + 8 \<le> length (ud_code ud1)"
    using behind c(1) by blast
  then have dist: "?i + 8 \<le> off" "off < ?i + 8 + 4096" and before: "?i + 4 \<le> length (ud_code ud1)"
    using near off(2,3) by (simp_all add: bs)
  obtain code2 where same: "ud2\<lparr>ud_code := code\<rparr> = ud2\<lparr>ud_code := code2\<rparr>"
    and al: "\<forall>c\<in>set cs. ec_code_index c mod 4 = 0"
    and patch2: "each (patch_code ec_code_index (constant_patch_word ud2)) cs (ud_code ud2) = Inr code2"
    using each_apply_constant [OF app] by blast
  from arg_cong [OF same, of ud_code] patch2 have
    patch: "each (patch_code ec_code_index (constant_patch_word ud2)) cs (ud_code ud2) = Inr code"
    by simp
  have read2: "read_word (ud_code ud2) ?i = Inr w"
    using w before by (simp add: bs(1) read_word_append1)
  from code_words.each_patch [OF patch al distinct c(1)] read2 have
    loaded: "read_word code ?i = Inr (w OR of_nat (off - (?i + 8)))"
    using off(1) const_dist_forward [OF _ dist] ints c(1) by (auto simp: constant_patch_word_def)
  have "off \<notin> ec_code_index ` set cs"
    using behind off(2) by auto
  with code_words.each_patch_other [OF patch al off(4)] val
  have "read_word code off = Inr (uc_integer k)"
    by simp
  with loaded dist show ?thesis
    by (intro exI [of _ "off - (?i + 8)"]) simp
qed

lemma flush_loop_aligned:
  assumes "each prv_flush_constant cs ud = Inr ud'" and "\<forall>c\<in>set cs. ec_type c \<noteq> BP_LDRF" and "cs \<noteq> []"
    and "length (ud_code ud) \<le> ud_max_bytes ud"
  shows "length (ud_code ud) mod 4 = 0"
  using assms by (cases cs) (auto simp: rbind_eq_Inr elim: flush_constant_int)

lemma behind_word: "(i :: nat) + 4 \<le> n \<Longrightarrow> i + 4 \<noteq> n \<Longrightarrow> i mod 4 = 0 \<Longrightarrow> n mod 4 = 0 \<Longrightarrow> i + 8 \<le> n"
  by presburger

lemma pool_inv_loads:
  assumes "pool_inv ud"
  shows "\<forall>c\<in>set (vec_items (ud_constants ud)). ec_type c \<noteq> BP_LDRF \<and> ec_code_index c + 4 \<le> length (ud_code ud)
      \<and> length (ud_code ud) + 4 * length (vec_items (ud_constants ud)) < ec_code_index c + 4096"
    and "distinct (map ec_code_index (vec_items (ud_constants ud)))"
  using assms by (fastforce simp: pool_inv_def pool_end_def split: option.splits, simp add: pool_inv_def strict_sorted_iff)

text \<open>
  C8: when a pool of integer constants is written, in the middle of a section because the check of the pool finds it due
  or at the end of the section after a last word that is not itself a load of a constant, every pending load
  of an integer known at compile time afterwards reads its constant: the distance in its word is less than 4096 and
  leads, from the program counter eight bytes ahead, to a word that holds the integer. (At the end of a section a
  load in the last word would be patched with the distance -4, which goes wrong.)
\<close>

theorem pool_loads_reach:
  assumes "prv_check_pool_adj adj ud = Inr ud' \<and> pool_needed adj ud
      \<or> prv_flush_constants ud = Inr ud' \<and> (\<forall>c'\<in>set (vec_items (ud_constants ud)). ec_code_index c' + 4 \<noteq> length (ud_code ud))"
    and "pool_inv ud"
    and "c \<in> set (vec_items (ud_constants ud))"
    and "find (\<lambda>k. uc_label k = ec_label c) (ud_ui32 ud) = Some k" and "\<not> uc_link_time k"
    and "\<forall>c'\<in>set (vec_items (ud_constants ud)). ec_label c' = ec_label c \<longrightarrow> ec_type c' = BP_LDR"
    and "read_word (ud_code ud) (ec_code_index c) = Inr w"
  shows "\<exists>d < 4096. read_word (ud_code ud') (ec_code_index c) = Inr (w OR of_nat d)
    \<and> read_word (ud_code ud') (ec_code_index c + 8 + d) = Inr (uc_integer k)"
  using assms(1)
proof (elim disjE conjE)
  note loads = pool_inv_loads [OF assms(2)]
  assume "prv_check_pool_adj adj ud = Inr ud'" and "pool_needed adj ud"
  from this assms(2) show ?thesis
  proof (rule pool_flush)
    fix ud1 ud2 code
    assume flush: "each prv_flush_constant (vec_items (ud_constants ud)) ud1 = Inr ud2"
      "each prv_apply_constant (vec_items (ud_constants ud)) ud2 = Inr (ud2\<lparr>ud_code := code\<rparr>)"
      and ud1: "ud_code ud1 = ud_code ud @ word_bytes (cc_at_28 CC_AL OR push_bit 25 5)" "ud_ui32 ud1 = ud_ui32 ud"
        "length (ud_code ud1) \<le> ud_max_bytes ud1" and code: "ud_code ud' = code"
    show ?thesis
      unfolding code by (rule flush_reaches [OF flush])
        (use ud1 loads assms(3-7) in \<open>auto simp: read_word_append1\<close>)
  qed
next
  let ?cs = "vec_items (ud_constants ud)"
  note loads = pool_inv_loads [OF assms(2)]
  assume flush: "prv_flush_constants ud = Inr ud'"
    and last: "\<forall>c\<in>set ?cs. ec_code_index c + 4 \<noteq> length (ud_code ud)"
  from flush obtain ud2 where loop: "each prv_flush_constant ?cs ud = Inr ud2"
    and rest: "rbind (prv_apply_constants ud2) (\<lambda>ud. Inr (prv_reset_pool_state ud)) = Inr ud'"
    by (auto simp: prv_flush_constants_def rbind_eq_Inr)
  have room: "length (ud_code ud) \<le> ud_max_bytes ud"
    using assms(2) by (simp add: pool_inv_def)
  have "ud_constants ud2 = ud_constants ud"
    using flush_loop [OF loop _ room] loads(1) by auto
  with rest obtain ud3 where app: "each prv_apply_constant ?cs ud2 = Inr ud3" and ud': "ud' = prv_reset_pool_state ud3"
    by (auto simp: prv_apply_constants_def rbind_eq_Inr)
  then obtain code where ud3: "ud3 = ud2\<lparr>ud_code := code\<rparr>" and al: "\<forall>c\<in>set ?cs. ec_code_index c mod 4 = 0"
    using each_apply_constant by blast
  have "?cs \<noteq> []"
    using assms(3) by auto
  then have "length (ud_code ud) mod 4 = 0"
    using flush_loop_aligned [OF loop _ _ room] loads(1) by auto
  then have behind: "\<forall>c\<in>set ?cs. ec_code_index c + 8 \<le> length (ud_code ud)"
    using last al loads(1) by (metis behind_word)
  have "ud_code ud' = code"
    by (simp add: ud' ud3 prv_reset_pool_state_def)
  then show ?thesis
    using flush_reaches [OF loop app [unfolded ud3] _ room loads(2) behind _ assms(3,6,4,5,7)] loads(1) assms(3) by fastforce
qed

text \<open>A load of a constant with nearly four kilobytes of code after it.\<close>

definition pool_example :: encode_ud where
  "pool_example = example_ud\<lparr>ud_ui32 := [\<lparr>uc_integer = 42, uc_label = 0, uc_link_time = False\<rparr>],
     ud_code := word_bytes 0xe59f0000 @ replicate 4084 0, ud_max_bytes := 5000,
     ud_constants := \<lparr>vec_items = [\<lparr>ec_label = 0, ec_section_label = 0, ec_code_index = 0,
       ec_type = BP_LDR\<rparr>], vec_max = 128\<rparr>,
     ud_int_const_count := 1, ud_back_patches := vec_empty, ud_ldrc_int := Some 0\<rparr>"

lemma pool_example_flushes: "\<exists>ud'. prv_check_pool_adj 0 pool_example = Inr ud'"
proof -
  have "const_dist BP_LDR 4092 0 = Inr 4084"
    using const_dist_forward [of BP_LDR 0 4092] by simp
  then show ?thesis
    by (simp add: pool_example_def example_ud_def prv_check_pool_adj_def pool_needed_def pool_end_def
        prv_add_back_patch_def vec_push_def SUBTILIS_ENCODER_BACKPATCH_GRAN_def vec_empty_def
        prv_ensure_code_size_def prv_add_word_def append_bytes_def prv_flush_constants_def
        prv_flush_constant_def prv_apply_constants_def prv_apply_constant_def label_offset_def
        read_word_def write_word_def prv_reset_pool_state_def prv_encode_label_def)
qed

theorem pool_loads_reach_witness:
  "\<exists>ud'. prv_check_pool_adj 0 pool_example = Inr ud' \<and> (\<exists>d < 4096.
      read_word (ud_code ud') 0 = Inr (0xe59f0000 OR of_nat d)
      \<and> read_word (ud_code ud') (0 + 8 + d) = Inr 42)"
proof -
  obtain ud' where ud': "prv_check_pool_adj 0 pool_example = Inr ud'"
    using pool_example_flushes by blast
  have "read_word (ud_code pool_example) 0 = Inr 0xe59f0000"
    using read_word_append [of "[]" "0xe59f0000"] by (simp add: pool_example_def)
  moreover have "pool_needed 0 pool_example"
    by (simp add: pool_example_def example_ud_def pool_needed_def pool_end_def)
  ultimately have "\<exists>d < 4096. read_word (ud_code ud') 0 = Inr (0xe59f0000 OR of_nat d)
      \<and> read_word (ud_code ud') (0 + 8 + d) = Inr 42"
    using pool_loads_reach [OF disjI1 [OF conjI [OF ud']], of "\<lparr>ec_label = 0, ec_section_label = 0, ec_code_index = 0,
      ec_type = BP_LDR\<rparr>" "\<lparr>uc_integer = 42, uc_label = 0, uc_link_time = False\<rparr>" "0xe59f0000"]
    by (simp add: pool_example_def example_ud_def pool_needed_def pool_end_def pool_inv_def)
  with ud' show ?thesis
    by blast
qed

section \<open>Where the pools go wrong\<close>

lemma const_dist_small:
  assumes "const_dist t off i = Inr d"
  shows "d AND 0xffff0000 = 0"
proof -
  define x where "x = \<bar>sint (ucast (of_nat off - of_nat i - 8 :: u64) :: u32)\<bar>"
  define n where "n = (if t = BP_LDRF then x div 4 else x)"
  have d: "d = word_of_int n" and n: "0 \<le> n" "n \<le> 4096"
    using assms by (auto simp: const_dist_def Let_def rbind_eq_Inr n_def x_def split: if_splits)
  have "uint (word_of_int n :: u32) = n"
    using n by (simp add: uint_word_of_int)
  then have "d < 2 ^ 16"
    using n unfolding d by (simp add: word_less_def)
  then have small: "\<not> bit d m" if "16 \<le> m" for m
    using bit_lt_pow that by blast
  have mask: "(0xffff0000 :: u32) = push_bit 16 (mask 16)"
    by (simp add: mask_eq_exp_minus_1)
  show ?thesis
    unfolding mask by (rule bit_word_eqI) (use small in \<open>auto simp: bit_simps\<close>)
qed

lemma apply_constant_high_bits:
  assumes "prv_apply_constant c ud = Inr ud'" and "j mod 4 = 0" and "read_word (ud_code ud) j = Inr w"
  shows "\<exists>w'. read_word (ud_code ud') j = Inr w' \<and> w' AND 0xffff0000 = w AND 0xffff0000"
proof -
  from assms(1) obtain code where ud': "ud' = ud\<lparr>ud_code := code\<rparr>" and al: "ec_code_index c mod 4 = 0"
    and patch: "patch_code ec_code_index (constant_patch_word ud) c (ud_code ud) = Inr code"
    by (rule apply_constant_Inr)
  show ?thesis
  proof (cases "ec_code_index c = j")
    case True
    with patch assms(3) obtain off d where d: "const_dist (ec_type c) off j = Inr d"
      and "write_word (ud_code ud) j (w OR d) = Inr code"
      by (auto simp: patch_def constant_patch_word_def rbind_eq_Inr)
    then have "read_word code j = Inr (w OR d)"
      by (simp add: read_write_word)
    moreover have "d AND 0xffff0000 = 0"
      using d by (rule const_dist_small)
    ultimately show ?thesis
      by (auto simp: ud' bit.conj_disj_distrib2)
  next
    case False
    with patch al assms(2) have "read_word code j = read_word (ud_code ud) j"
      using code_words.rd_wr_other by (auto simp: patch_def rbind_eq_Inr)
    with assms(3) show ?thesis
      by (simp add: ud')
  qed
qed

lemma each_apply_constant_high_bits:
  assumes "each prv_apply_constant cs ud = Inr ud'" and "j mod 4 = 0"
    and "read_word (ud_code ud) j = Inr w"
  shows "\<exists>w'. read_word (ud_code ud') j = Inr w' \<and> w' AND 0xffff0000 = w AND 0xffff0000"
  by (rule each_preserves [OF assms(1)]) (use assms(2,3) apply_constant_high_bits in \<open>blast, metis\<close>)

text \<open>The word at the place where the pool is written is the branch over it.\<close>

lemma pool_starts_with_branch:
  assumes "prv_check_pool_adj adj ud = Inr ud'" and "pool_needed adj ud" and "pool_inv ud"
  shows "\<exists>w. read_word (ud_code ud') (length (ud_code ud)) = Inr w \<and> w AND 0xffff0000 = 0xea000000"
  using assms
proof (rule pool_flush)
  fix ud1 ud2 code
  let ?cs = "vec_items (ud_constants ud)" and ?w = "cc_at_28 CC_AL OR push_bit 25 5"
  assume loop: "each prv_flush_constant ?cs ud1 = Inr ud2"
    and app: "each prv_apply_constant ?cs ud2 = Inr (ud2\<lparr>ud_code := code\<rparr>)"
    and code1: "ud_code ud1 = ud_code ud @ word_bytes ?w"
    and room: "length (ud_code ud1) \<le> ud_max_bytes ud1" and al: "length (ud_code ud) mod 4 = 0"
    and code': "ud_code ud' = code"
  have "\<forall>c\<in>set ?cs. ec_type c \<noteq> BP_LDRF"
    using assms(3) by (simp add: pool_inv_def)
  from flush_loop [OF loop this room] obtain bs where "ud_code ud2 = ud_code ud @ word_bytes ?w @ bs"
    by (auto simp: code1)
  then have "read_word (ud_code ud2) (length (ud_code ud)) = Inr ?w"
    by (simp add: read_word_append)
  from each_apply_constant_high_bits [OF app al this] show ?thesis
    by (simp add: code' cc_at_28_def)
qed

text \<open>
  C18: an address taken where the pool has to be written. The patch is recorded for the place where
  the pool's branch goes, not for that of the addition, so that at the end of the section the
  distance is written into the branch.
\<close>

theorem adr_patches_the_branch:
  assumes "prv_encode_adr_instr i ud = Inr ud'" and "pool_needed 0 ud" and "pool_inv ud"
  shows "\<exists>bps w. vec_items (ud_back_patches ud') = vec_items (ud_back_patches ud) @
      \<lparr>bp_type = BP_TYPE_ADR, bp_label = adr_label i, bp_code_index = length (ud_code ud)\<rparr> # bps
    \<and> read_word (ud_code ud') (length (ud_code ud)) = Inr w \<and> w AND 0xffff0000 = 0xea000000"
proof -
  from assms(1) obtain ud0 ud1 ud2 w where
    bp: "prv_add_back_patch BP_TYPE_ADR (adr_label i) (length (ud_code ud)) ud = Inr ud0"
    and check: "prv_check_pool ud0 = Inr ud1" and emit: "emit w ud1 = Inr ud'"
    by (auto simp: prv_encode_adr_instr_def prv_encode_data_instr_def encode_word_def rbind_eq_Inr)
  obtain v al where ud0: "ud0 = ud\<lparr>ud_back_patches := v, ud_allocs := al\<rparr>"
    and v: "vec_items v = vec_items (ud_back_patches ud) @
      [\<lparr>bp_type = BP_TYPE_ADR, bp_label = adr_label i, bp_code_index = length (ud_code ud)\<rparr>]"
    by (rule add_back_patch_Inr [OF bp])
  have inv0: "pool_inv ud0" and needed: "pool_needed 0 ud0"
    using assms(2,3) by (simp_all add: ud0 pool_needed_def pool_end_def cong: option.case_cong)
  from pool_starts_with_branch [OF check needed inv0] obtain b where
    b: "read_word (ud_code ud1) (length (ud_code ud)) = Inr b" "b AND 0xffff0000 = 0xea000000"
    by (auto simp: ud0)
  have inv1: "pool_inv ud1" and bps: "\<exists>x. vec_items (ud_back_patches ud1) = vec_items v @ [x]"
    using check needed inv0 by (auto elim!: pool_flush simp: ud0)
  from inv1 have "length (ud_code ud1) \<le> ud_max_bytes ud1"
    by (simp add: pool_inv_def)
  then obtain mb al' where "ud' = ud1\<lparr>ud_code := ud_code ud1 @ word_bytes w, ud_max_bytes := mb, ud_allocs := al'\<rparr>"
    using emit_Inr [OF emit] by blast
  with b bps v show ?thesis
    by (auto simp: read_word_def nth_append split: if_splits)
qed

theorem adr_patches_the_branch_witness:
  "\<exists>ud' w. prv_encode_adr_instr \<lparr>adr_ccode = CC_AL, adr_dest = 2, adr_label = 0\<rparr> pool_example = Inr ud'
    \<and> read_word (ud_code ud') 4088 = Inr w \<and> w AND 0xffff0000 = 0xea000000"
proof -
  let ?i = "\<lparr>adr_ccode = CC_AL, adr_dest = 2, adr_label = 0\<rparr>"
  have d: "const_dist BP_LDR 4092 0 = Inr 4084"
    using const_dist_forward [of BP_LDR 0 4092] by simp
  have w: "data_word INSTR_ADD \<lparr>data_ccode = CC_AL, data_status = False, data_dest = 2, data_op1 = 15,
           data_op2 = OP2_I32 0\<rparr> = Inr 0xe28f2000"
    by code_simp
  have "\<exists>ud'. prv_encode_adr_instr ?i pool_example = Inr ud'"
    using d w
    by (simp add: pool_example_def example_ud_def prv_encode_adr_instr_def prv_encode_data_instr_def
        encode_word_def emit_def prv_check_pool_adj_def pool_needed_def pool_end_def
        prv_add_back_patch_def vec_push_def SUBTILIS_ENCODER_BACKPATCH_GRAN_def vec_empty_def
        prv_ensure_code_size_def prv_add_word_def append_bytes_def prv_flush_constants_def
        prv_flush_constant_def prv_apply_constants_def prv_apply_constant_def label_offset_def
        read_word_def write_word_def prv_reset_pool_state_def prv_encode_label_def)
  then obtain ud' where ud': "prv_encode_adr_instr ?i pool_example = Inr ud'" ..
  from adr_patches_the_branch [OF this] have
    "\<exists>w. read_word (ud_code ud') 4088 = Inr w \<and> w AND 0xffff0000 = 0xea000000"
    by (simp add: pool_example_def example_ud_def pool_needed_def pool_end_def pool_inv_def)
  with ud' show ?thesis
    by blast
qed

lemma check_pool_resets:
  assumes "prv_check_pool_adj adj ud = Inr ud'" and "pool_needed adj ud"
  shows "vec_items (ud_constants ud') = [] \<and> no_pool ud'"
  using assms
  by (auto simp: prv_check_pool_adj_def prv_flush_constants_def prv_reset_pool_state_def
      no_pool_def rbind_eq_Inr elim!: encode_label_Inr)

lemma emit_code:
  assumes "emit w ud = Inr ud'"
  shows "ud_code ud' = ud_code ud @ word_bytes w \<and> ud_constants ud' = ud_constants ud
    \<and> ud_ldrc_real ud' = ud_ldrc_real ud \<and> ud_ldrc_int ud' = ud_ldrc_int ud"
  using assms by (auto simp: emit_def prv_ensure_code_size_def prv_add_word_def append_bytes_def
      rbind_eq_Inr split: if_splits)

text \<open>
  C19: a floating point constant that is loaded while 253 integer constants are pending. The first
  check leaves the pool, the address of the load is noted as the start of a floating point pool, and
  the check in the handler of the load itself then finds the pool too far away and writes it. The
  load goes behind the pool with an offset of zero, and no constant is left that would patch it.
\<close>

theorem late_real_load_unpatched:
  assumes "prv_encode_fpa_ldrc_instr i ud = Inr ud'" and "\<not> pool_needed 12 ud"
    and "ud_ldrc_real ud = None" and "253 \<le> ud_int_const_count ud"
  shows "vec_items (ud_constants ud') = [] \<and> no_pool ud'
    \<and> read_word (ud_code ud') (length (ud_code ud') - 4) =
      Inr (fpa_stran_word FPA_LDF \<lparr>fpa_stran_ccode = fpa_ldrc_ccode i,
        fpa_stran_size = fpa_ldrc_size i, fpa_stran_dest = fpa_ldrc_dest i, fpa_stran_base = 15,
        fpa_stran_offset = 0, fpa_stran_pre_indexed = True, fpa_stran_write_back = False,
        fpa_stran_subtract = False\<rparr>)"
proof -
  obtain ud1 ud2 w where add: "prv_add_const (fpa_ldrc_label i) (length (ud_code ud)) BP_LDRF
      (ud\<lparr>ud_ldrc_real := Some (length (ud_code ud))\<rparr>) = Inr ud1"
    and check: "prv_check_pool ud1 = Inr ud2" and emit: "emit w ud2 = Inr ud'"
    and w: "w = fpa_stran_word FPA_LDF \<lparr>fpa_stran_ccode = fpa_ldrc_ccode i,
        fpa_stran_size = fpa_ldrc_size i, fpa_stran_dest = fpa_ldrc_dest i, fpa_stran_base = 15,
        fpa_stran_offset = 0, fpa_stran_pre_indexed = True, fpa_stran_write_back = False,
        fpa_stran_subtract = False\<rparr>"
    using assms(1-3) by (auto simp: prv_encode_fpa_ldrc_instr_def prv_note_real_load_def
        prv_encode_fpa_stran_instr_def encode_word_def rbind_eq_Inr
        prv_check_pool_adj_def [of 12])
  have "pool_needed 0 ud1"
    using add assms(4) by (auto simp: prv_add_const_def rbind_eq_Inr Let_def pool_needed_def pool_end_def)
  with check_pool_resets [OF check] emit_code [OF emit] w show ?thesis
    by (simp add: no_pool_def read_word_last)
qed

definition late_example :: encode_ud where
  "late_example = example_ud\<lparr>ud_real := [\<lparr>rc_real = 0x3ff0000000000000, rc_label = 0\<rparr>],
     ud_int_const_count := 253, ud_back_patches := vec_empty, ud_ldrc_int := Some 0\<rparr>"

theorem late_real_load_unpatched_witness:
  "\<exists>ud'. prv_encode_fpa_ldrc_instr \<lparr>fpa_ldrc_ccode = CC_AL, fpa_ldrc_dest = 1, fpa_ldrc_size = 8,
      fpa_ldrc_label = 0\<rparr> late_example = Inr ud' \<and> vec_items (ud_constants ud') = [] \<and> no_pool ud'
    \<and> read_word (ud_code ud') (length (ud_code ud') - 4) = Inr 0xed9f9100"
proof -
  let ?i = "\<lparr>fpa_ldrc_ccode = CC_AL, fpa_ldrc_dest = 1, fpa_ldrc_size = 8, fpa_ldrc_label = 0\<rparr>"
  have d: "const_dist BP_LDRF 12 8 = Inr 1"
    by (simp add: const_dist_def Let_def)
  have w: "fpa_stran_word FPA_LDF \<lparr>fpa_stran_ccode = CC_AL, fpa_stran_size = 8, fpa_stran_dest = 1,
        fpa_stran_base = 15, fpa_stran_offset = 0, fpa_stran_pre_indexed = True,
        fpa_stran_write_back = False, fpa_stran_subtract = False\<rparr> = 0xed9f9100"
    by code_simp
  have "\<exists>ud'. prv_encode_fpa_ldrc_instr ?i late_example = Inr ud'"
    using d w
    by (simp add: late_example_def example_ud_def prv_encode_fpa_ldrc_instr_def
        prv_encode_fpa_stran_instr_def prv_note_real_load_def prv_add_const_def Let_def
        encode_word_def emit_def prv_check_pool_adj_def pool_needed_def pool_end_def
        prv_add_back_patch_def vec_push_def SUBTILIS_ENCODER_BACKPATCH_GRAN_def vec_empty_def
        SUBTILIS_ENCODER_CODE_GRAN_def
        prv_ensure_code_size_def prv_add_word_def append_bytes_def prv_flush_constants_def
        prv_flush_constant_def prv_apply_constants_def prv_apply_constant_def label_offset_def
        read_word_def write_word_def prv_reset_pool_state_def prv_encode_label_def)
  then obtain ud' where ud': "prv_encode_fpa_ldrc_instr ?i late_example = Inr ud'" ..
  from late_real_load_unpatched [OF this] w show ?thesis
    using ud' by (simp add: late_example_def example_ud_def pool_needed_def pool_end_def)
qed

text \<open>
  A program that fails to initialise its encoder for lack of memory, after the first allocation
  has been granted: the structure is freed by the initialisation and freed again by its caller.
\<close>

theorem encode_buf_double_free:
  "subtilis_arm_encode_buf p (True # False # al) = Inl Undefined"
  by (simp add: subtilis_arm_encode_buf_def prv_init_encode_ud_def Let_def)

end
