(* ===== verification/Arm_Encode_Branches.thy ===== *)
theory Arm_Encode_Branches
  imports Arm_Encode_Laws Arm_Encode_Patches
begin

text \<open>
  A whole section of labels, branches and instructions of one word each, without constants: the
  walk of the encoder records the labels and the branches, the back patches resolve them, and the
  words of the section decode to its instructions with every label replaced by the offset to it.
\<close>

section \<open>Sections with labels\<close>

fun local_branch :: "arm_instr \<Rightarrow> nat option" where
  "local_branch (Br b) = (if br_indirect b then None else Some (unat (br_target_size_t (br_target b))))"
| "local_branch _ = None"

fun instr_ok :: "bool \<Rightarrow> nat \<Rightarrow> arm_instr \<Rightarrow> bool" where
  "instr_ok vfp n (Br b) \<longleftrightarrow> decodable vfp (Br b)
     \<and> (br_indirect b \<or> (br_link b \<longrightarrow> br_local b) \<and> unat (br_target_size_t (br_target b)) < n)"
| "instr_ok vfp n i \<longleftrightarrow> decodable vfp i"

fun section_op_ok :: "bool \<Rightarrow> nat \<Rightarrow> arm_op \<Rightarrow> bool" where
  "section_op_ok vfp n (Op_label l) \<longleftrightarrow> l < n"
| "section_op_ok vfp n (Op_instr i) \<longleftrightarrow> instr_ok vfp n i"
| "section_op_ok vfp n _ \<longleftrightarrow> False"

fun instrs_of :: "arm_op list \<Rightarrow> arm_instr list" where
  "instrs_of [] = []"
| "instrs_of (Op_instr i # ops) = i # instrs_of ops"
| "instrs_of (_ # ops) = instrs_of ops"

fun labels_of :: "arm_op list \<Rightarrow> nat list" where
  "labels_of [] = []"
| "labels_of (Op_label l # ops) = l # labels_of ops"
| "labels_of (_ # ops) = labels_of ops"

text \<open>How many instructions come before a label.\<close>

fun label_index :: "arm_op list \<Rightarrow> nat \<Rightarrow> nat option" where
  "label_index [] l = None"
| "label_index (Op_label m # ops) l = (if l = m then Some 0 else label_index ops l)"
| "label_index (Op_instr i # ops) l = map_option Suc (label_index ops l)"
| "label_index (_ # ops) l = label_index ops l"

text \<open>The \<open>k\<close>-th instruction with its label resolved, the processor being two instructions ahead.\<close>

fun resolved :: "(nat \<Rightarrow> nat option) \<Rightarrow> nat \<Rightarrow> arm_instr \<Rightarrow> arm_instr" where
  "resolved at k (Br b) =
     (if br_indirect b then Br b
      else Br (b\<lparr>br_target := Target_offset (word_of_int
        (int (the (at (unat (br_target_size_t (br_target b))))) - int k - 2))\<rparr>))"
| "resolved at k i = i"

text \<open>What the decoder makes of it; it sets nothing in a branch but condition, link and offset.\<close>

fun resolved_decoded :: "stale \<Rightarrow> (nat \<Rightarrow> nat option) \<Rightarrow> nat \<Rightarrow> arm_instr \<Rightarrow> arm_instr" where
  "resolved_decoded st at k (Br b) =
     (if br_indirect b then instr_decoded st (Br b)
      else Br \<lparr>br_ccode = br_ccode b, br_link = br_link b, br_local = stale_local st,
        br_indirect = stale_indirect st, br_kind = BR_LINK_VOID, br_target = Target_offset (word_of_int
        (int (the (at (unat (br_target_size_t (br_target b))))) - int k - 2))\<rparr>)"
| "resolved_decoded st at k i = instr_decoded st i"

fun record_labels :: "nat \<Rightarrow> arm_op list \<Rightarrow> nat option list \<Rightarrow> nat option list" where
  "record_labels b [] offs = offs"
| "record_labels b (Op_label l # ops) offs = record_labels b ops (offs[l := Some b])"
| "record_labels b (_ # ops) offs = record_labels (b + 4) ops offs"

fun patches_of :: "nat \<Rightarrow> arm_instr list \<Rightarrow> encode_bp list" where
  "patches_of b [] = []"
| "patches_of b (i # is) =
     (case local_branch i of
        None \<Rightarrow> patches_of (b + 4) is
      | Some l \<Rightarrow> \<lparr>bp_type = BP_TYPE_BRANCH, bp_label = l, bp_code_index = b\<rparr> # patches_of (b + 4) is)"

lemma length_record_labels [simp]: "length (record_labels b ops offs) = length offs"
  by (induction b ops offs rule: record_labels.induct) simp_all

lemma record_labels_other: "l \<notin> set (labels_of ops) \<Longrightarrow> record_labels b ops offs ! l = offs ! l"
  by (induction b ops offs rule: record_labels.induct) auto

lemma label_index_None: "label_index ops l = None \<longleftrightarrow> l \<notin> set (labels_of ops)"
  by (induction ops l rule: label_index.induct) auto

lemma record_labels_nth:
  assumes "distinct (labels_of ops)" and "label_index ops l = Some k" and "l < length offs"
    and "\<forall>op\<in>set ops. section_op_ok vfp n op"
  shows "record_labels b ops offs ! l = Some (b + 4 * k)"
  using assms
proof (induction b ops offs arbitrary: k rule: record_labels.induct)
  case (2 b m ops offs)
  then show ?case
    by (auto simp: record_labels_other split: if_splits)
qed auto

lemma patches_of_nth:
  "bp \<in> set (patches_of b is) \<longleftrightarrow> (\<exists>k < length is. \<exists>l. local_branch (is ! k) = Some l
    \<and> bp = \<lparr>bp_type = BP_TYPE_BRANCH, bp_label = l, bp_code_index = b + 4 * k\<rparr>)"
proof (induction "is" arbitrary: b)
  case (Cons i "is")
  have "(\<exists>k < length (i # is). P k ((i # is) ! k)) \<longleftrightarrow> P 0 i \<or> (\<exists>k < length is. P (Suc k) (is ! k))" for P
    by (auto simp: less_Suc_eq_0_disj)
  note split = this [of "\<lambda>k x. \<exists>l. local_branch x = Some l
    \<and> bp = \<lparr>bp_type = BP_TYPE_BRANCH, bp_label = l, bp_code_index = b + 4 * k\<rparr>"]
  show ?case
    unfolding split by (auto simp: Cons.IH add_ac split: option.split)
qed simp

lemma patches_from: "bp \<in> set (patches_of b is) \<Longrightarrow> b \<le> bp_code_index bp"
  by (auto simp: patches_of_nth)

lemma distinct_patches: "distinct (map bp_code_index (patches_of b is))"
proof (induction "is" arbitrary: b)
  case (Cons i "is")
  then show ?case
    by (fastforce dest: patches_from split: option.split)
qed simp

section \<open>The walk\<close>

definition walking :: "encode_ud \<Rightarrow> bool" where
  "walking ud \<longleftrightarrow> no_pool ud \<and> length (ud_code ud) \<le> ud_max_bytes ud \<and> length (ud_code ud) mod 4 = 0
     \<and> set (ud_allocs ud) \<subseteq> {True} \<and> vec_ok (ud_back_patches ud)"

definition walked :: "arm_op list \<Rightarrow> encode_ud \<Rightarrow> encode_ud \<Rightarrow> bool" where
  "walked ops ud ud' \<longleftrightarrow> walking ud'
     \<and> ud_code ud' = ud_code ud @ concat (map (\<lambda>i. word_bytes (word_of_instr i)) (instrs_of ops))
     \<and> vec_items (ud_back_patches ud') =
         vec_items (ud_back_patches ud) @ patches_of (length (ud_code ud)) (instrs_of ops)
     \<and> ud_label_offsets ud' = record_labels (length (ud_code ud)) ops (ud_label_offsets ud)
     \<and> ud_max_labels ud' = ud_max_labels ud \<and> ud_constants ud' = ud_constants ud
     \<and> ud_link ud' = ud_link ud"

lemma walk_label:
  assumes "walking ud" and "l < ud_max_labels ud" and "l < length (ud_label_offsets ud)"
  shows "\<exists>ud'. encode_op (Op_label l) ud = Inr ud' \<and> walked [Op_label l] ud ud'"
  using assms by (simp add: prv_encode_label_def walked_def walking_def no_pool_def)

lemma instr_ok_decodable: "instr_ok vfp n i \<Longrightarrow> decodable vfp i"
  by (cases i) auto

lemma decodable_word:
  assumes "decodable vfp i"
  shows "instr_word i = Some (Inr (word_of_instr i))"
    and "subtilis_arm_disass st (word_of_instr i) vfp = Inr (instr_decoded st i)"
  using decodable_round_trip [OF assms, of st] by (auto simp: word_of_instr_def)

lemma walked_emit:
  assumes "walking ud" and "local_branch i = None"
  shows "\<exists>ud'. emit (word_of_instr i) ud = Inr ud' \<and> walked [Op_instr i] ud ud'"
proof -
  from assms(1) obtain mb al where "emit (word_of_instr i) ud = Inr (ud\<lparr>ud_code :=
      ud_code ud @ word_bytes (word_of_instr i), ud_max_bytes := mb, ud_allocs := al\<rparr>)"
    and "length (ud_code ud) + 4 \<le> mb" and "set al \<subseteq> {True}"
    by (auto simp: walking_def intro: emit_granted [of ud "word_of_instr i"])
  with assms show ?thesis
    by (simp add: walked_def walking_def no_pool_def)
qed

lemma walk_plain:
  assumes "walking ud" and "instr_ok vfp n i" and "local_branch i = None"
  shows "\<exists>ud'. encode_op (Op_instr i) ud = Inr ud' \<and> walked [Op_instr i] ud ud'"
proof -
  note word = decodable_word(1) [OF instr_ok_decodable [OF assms(2)]]
  moreover have "plain_instr i"
    using word assms(3) by (cases i) (auto split: if_splits)
  ultimately have "encode_op (Op_instr i) ud = emit (word_of_instr i) ud"
    using assms(1) by (simp add: encode_instr_plain walking_def)
  with walked_emit [OF assms(1,3)] show ?thesis
    by simp
qed

lemma walk_branch:
  assumes "walking ud" and "instr_ok vfp n (Br b)" and "\<not> br_indirect b"
  shows "\<exists>ud'. encode_op (Op_instr (Br b)) ud = Inr ud' \<and> walked [Op_instr (Br b)] ud ud'"
proof -
  let ?bp = "\<lparr>bp_type = BP_TYPE_BRANCH, bp_label = unat (br_target_size_t (br_target b)),
    bp_code_index = length (ud_code ud)\<rparr>"
  from assms(1) obtain v al where push: "vec_push SUBTILIS_ENCODER_BACKPATCH_GRAN ?bp
      (ud_back_patches ud) (ud_allocs ud) = Inr (v, al)"
    and v: "vec_ok v" "vec_items v = vec_items (ud_back_patches ud) @ [?bp]" "set al \<subseteq> {True}"
    by (auto simp: walking_def SUBTILIS_ENCODER_BACKPATCH_GRAN_def
        intro: vec_push_granted [of "ud_back_patches ud" 128 "ud_allocs ud" ?bp])
  let ?ud = "ud\<lparr>ud_back_patches := v, ud_allocs := al\<rparr>"
  have "encode_op (Op_instr (Br b)) ud = emit (br_word b) ?ud"
    using assms push by (auto simp: prv_encode_br_instr_def prv_add_back_patch_def walking_def)
  moreover obtain mb al' where "emit (br_word b) ?ud = Inr (?ud\<lparr>ud_code := ud_code ?ud @ word_bytes (br_word b),
      ud_max_bytes := mb, ud_allocs := al'\<rparr>)" and "length (ud_code ?ud) + 4 \<le> mb" and "set al' \<subseteq> {True}"
    by (rule emit_granted [of ?ud]) (use assms(1) v in \<open>simp_all add: walking_def\<close>)
  ultimately show ?thesis
    using assms v by (simp add: walked_def walking_def no_pool_def word_of_instr_def)
qed

lemma walk_one:
  assumes "walking ud" and "section_op_ok vfp n op" and "ud_max_labels ud = n" and "n \<le> length (ud_label_offsets ud)"
  shows "\<exists>ud'. encode_op op ud = Inr ud' \<and> walked [op] ud ud'"
proof (cases op)
  case (Op_label l)
  with walk_label [OF assms(1)] assms(2-4) show ?thesis
    by simp
next
  case (Op_instr i)
  show ?thesis
  proof (cases "\<exists>b. i = Br b \<and> \<not> br_indirect b")
    case True
    with walk_branch [OF assms(1)] assms(2) Op_instr show ?thesis
      by fastforce
  next
    case False
    then have "local_branch i = None"
      by (cases i) auto
    with walk_plain [OF assms(1)] assms(2) Op_instr show ?thesis
      by simp
  qed
qed (use assms(2) in simp_all)

lemma instrs_of_append [simp]: "instrs_of (xs @ ys) = instrs_of xs @ instrs_of ys"
  by (induction xs rule: instrs_of.induct) simp_all

lemma length_code_bytes: "length (concat (map (\<lambda>i. word_bytes (f i)) is)) = 4 * length is"
  by (induction "is") simp_all

lemma patches_of_append: "patches_of b (xs @ ys) = patches_of b xs @ patches_of (b + 4 * length xs) ys"
  by (induction xs arbitrary: b) (simp_all add: add_ac split: option.split)

lemma record_labels_append:
  "\<forall>op\<in>set xs. section_op_ok vfp n op \<Longrightarrow>
    record_labels b (xs @ ys) offs = record_labels (b + 4 * length (instrs_of xs)) ys (record_labels b xs offs)"
  by (induction b xs offs rule: record_labels.induct) (simp_all add: add_ac)

lemma walked_trans:
  assumes "walked xs ud ud1" and "walked ys ud1 ud2" and "\<forall>op\<in>set xs. section_op_ok vfp n op"
  shows "walked (xs @ ys) ud ud2"
  using assms
  by (simp add: walked_def patches_of_append record_labels_append [OF assms(3)] length_code_bytes)

lemma walk_all:
  assumes "walking ud" and "\<forall>op\<in>set ops. section_op_ok vfp n op" and "ud_max_labels ud = n"
    and "n \<le> length (ud_label_offsets ud)"
  shows "\<exists>ud'. each encode_op ops ud = Inr ud' \<and> walked ops ud ud'"
  using assms
proof (induction ops arbitrary: ud)
  case Nil
  then show ?case
    by (simp add: walked_def)
next
  case (Cons op ops)
  then obtain ud1 where one: "encode_op op ud = Inr ud1" "walked [op] ud ud1"
    using walk_one by (metis list.set_intros(1))
  have "section_op_ok vfp n op"
    using Cons.prems(2) by simp
  with one(2) have "ud_max_labels ud1 = n" "n \<le> length (ud_label_offsets ud1)" "walking ud1"
    using Cons.prems by (simp_all add: walked_def)
  with Cons.IH Cons.prems(2) obtain ud2 where "each encode_op ops ud1 = Inr ud2" "walked ops ud1 ud2"
    by (metis list.set_intros(2))
  with one walked_trans [OF one(2), of ops ud2 vfp n] \<open>section_op_ok vfp n op\<close> show ?case
    by simp
qed

section \<open>The branches\<close>

lemma branch_disass:
  fixes n :: "24 word"
  assumes "cc_at_28 c OR push_bit 25 5 OR flag_at 24 l OR ucast n = w"
  shows "subtilis_arm_disass st w vfp =
    Inr (Br \<lparr>br_ccode = c, br_link = l, br_local = stale_local st, br_indirect = stale_indirect st,
      br_kind = BR_LINK_VOID, br_target = Target_offset (scast n)\<rparr>)"
  using assms
  by (simp add: word_bits; simp add: decode_defs prv_decode_branch_def; (simp add: word_bits)?)

lemma word_24:
  assumes "- (2 ^ 23) \<le> m" and "m < 2 ^ 23"
  shows "(word_of_int m AND 0xffffff :: u32) = ucast (word_of_int m :: 24 word)"
    and "(scast (word_of_int m :: 24 word) :: u32) = word_of_int m"
proof -
  have mask: "(0xffffff :: u32) = mask 24"
    by (simp add: mask_eq_exp_minus_1)
  show "(word_of_int m AND 0xffffff :: u32) = ucast (word_of_int m :: 24 word)"
    unfolding mask by (rule bit_word_eqI) (auto simp only: bit_and_iff bit_mask_iff bit_unsigned_iff bit_word_of_int_iff; simp)
  have "sint (word_of_int m :: 24 word) = m"
    using assms by (simp add: signed_of_int signed_take_bit_int_eq_self)
  then show "(scast (word_of_int m :: 24 word) :: u32) = word_of_int m"
    by (metis of_int_sint)
qed

lemma branch_decodes:
  assumes "- (2 ^ 23) \<le> m" and "m < 2 ^ 23" and "\<not> br_indirect b" and "br_link b \<longrightarrow> br_local b"
  shows "subtilis_arm_disass st (br_word b OR (word_of_int m AND 0xffffff)) vfp =
    Inr (Br \<lparr>br_ccode = br_ccode b, br_link = br_link b, br_local = stale_local st,
      br_indirect = stale_indirect st, br_kind = BR_LINK_VOID,
      br_target = Target_offset (word_of_int m)\<rparr>)"
proof -
  have "cc_at_28 (br_ccode b) OR push_bit 25 5 OR flag_at 24 (br_link b) OR ucast (word_of_int m :: 24 word)
      = br_word b OR (word_of_int m AND 0xffffff)"
    unfolding word_24(1) [OF assms(1,2)] using assms(3,4) by (auto simp: br_word_def or.assoc)
  from branch_disass [OF this] show ?thesis
    unfolding word_24(2) [OF assms(1,2)] .
qed

lemma branch_patch_near:
  assumes "i mod 4 = 0" and "j \<le> 2 ^ 21" and "k \<le> 2 ^ 21"
  shows "branch_patch (i + 4 * j) (i + 4 * k) = Inr (word_of_int (int j - int k - 2) AND 0xffffff)"
proof -
  have "4 * k - 4 * j \<le> 2 ^ 23" and "4 * j - 4 * k \<le> 2 ^ 23"
    using assms(2,3) by simp_all
  then have "\<exists>d. prv_compute_dist (i + 4 * j) (i + 4 * k) (2 ^ 23) = Inr d"
    by (simp add: prv_compute_dist_def Let_def ensure_def)
  then obtain d where d: "branch_patch (i + 4 * j) (i + 4 * k) = Inr d"
    by (auto simp: branch_patch_def)
  have "int (i + 4 * j) - int (i + 4 * k) = 4 * (int j - int k)"
    by simp
  with branch_patch_Inr(1) [OF d this] d show ?thesis
    by (simp add: algebra_simps)
qed

lemma apply_back_patches_granted:
  assumes "\<forall>bp\<in>set bps. bp_type bp = BP_TYPE_BRANCH \<and> bp_code_index bp mod 4 = 0
    \<and> bp_code_index bp + 4 \<le> length (ud_code ud)
    \<and> (\<exists>off d. label_offset (bp_label bp) ud = Inr off \<and> branch_patch off (bp_code_index bp) = Inr d)"
  shows "\<exists>ud'. each prv_apply_back_patch bps ud = Inr ud'"
proof -
  let ?P = "\<lambda>u. length (ud_code u) = length (ud_code ud) \<and> ud_label_offsets u = ud_label_offsets ud"
  have "\<exists>u'. prv_apply_back_patch bp u = Inr u' \<and> ?P u'" if "bp \<in> set bps" "?P u" for bp u
  proof -
    from assms that(1) obtain off d where "bp_type bp = BP_TYPE_BRANCH" "bp_code_index bp mod 4 = 0"
      "bp_code_index bp + 4 \<le> length (ud_code ud)" "label_offset (bp_label bp) ud = Inr off"
      "branch_patch off (bp_code_index bp) = Inr d"
      by (auto dest!: bspec)
    moreover from this that(2) obtain w where "read_word (ud_code u) (bp_code_index bp) = Inr w"
      using code_words.rd_inside by metis
    moreover from calculation that(2) obtain code where
      "write_word (ud_code u) (bp_code_index bp) (w OR d) = Inr code"
      using code_words.wr_inside by metis
    ultimately show ?thesis
      using that(2) by (simp add: prv_apply_back_patch_def label_offset_def length_write_word word_aligned_def)
  qed
  then show ?thesis
    using each_no_error [of ?P ud bps prv_apply_back_patch] by blast
qed

section \<open>The section\<close>

definition labels_defined :: "arm_op list \<Rightarrow> bool" where
  "labels_defined ops \<longleftrightarrow>
     (\<forall>i\<in>set (instrs_of ops). case local_branch i of None \<Rightarrow> True | Some l \<Rightarrow> l \<in> set (labels_of ops))"

definition labelled_section :: "bool \<Rightarrow> arm_section \<Rightarrow> bool" where
  "labelled_section vfp s \<longleftrightarrow> (\<forall>op\<in>set (sec_ops s). section_op_ok vfp (sec_label_counter s) op)
     \<and> distinct (labels_of (sec_ops s)) \<and> labels_defined (sec_ops s)
     \<and> length (instrs_of (sec_ops s)) \<le> 2 ^ 21"

lemma label_index_le: "label_index ops l = Some k \<Longrightarrow> k \<le> length (instrs_of ops)"
  by (induction ops l arbitrary: k rule: label_index.induct) (auto split: if_splits)

lemma local_branch_ok:
  assumes "instr_ok vfp n i" and "local_branch i = Some l"
  obtains b where "i = Br b" and "\<not> br_indirect b" and "br_link b \<longrightarrow> br_local b"
    and "l = unat (br_target_size_t (br_target b))" and "l < n"
  using assms by (cases i) (auto split: if_splits)

lemma no_local_branch: "local_branch i = None \<Longrightarrow> resolved_decoded st at k i = instr_decoded st i"
  by (cases i) (auto split: if_splits)

lemma instrs_of_ok: "\<forall>op\<in>set ops. section_op_ok vfp n op \<Longrightarrow> i \<in> set (instrs_of ops) \<Longrightarrow> instr_ok vfp n i"
  by (induction ops rule: instrs_of.induct) auto

lemma read_appended_word:
  assumes "k < length is"
  shows "read_word (c @ concat (map (\<lambda>i. word_bytes (f i)) is)) (length c + 4 * k) = Inr (f (is ! k))"
  using read_nth_word [of k "map f is"] assms by (simp add: read_word_append2 comp_def)

text \<open>What the back patches leave of the words that the walk has written.\<close>

lemma labels_resolved:
  assumes walked: "walked ops ud ud1" and ok: "\<forall>op\<in>set ops. section_op_ok vfp n op"
    and dist: "distinct (labels_of ops)" and labels: "labels_defined ops"
    and len: "length (instrs_of ops) \<le> 2 ^ 21" and max: "n \<le> length (ud_label_offsets ud)"
    and none: "vec_items (ud_back_patches ud) = []" and base: "length (ud_code ud) mod 4 = 0"
  shows "\<exists>ud2. prv_apply_back_patches ud1 = Inr ud2
    \<and> (\<exists>code. ud2 = ud1\<lparr>ud_code := code\<rparr> \<and> length code = length (ud_code ud) + 4 * length (instrs_of ops))
    \<and> (\<forall>k < length (instrs_of ops). \<exists>w. read_word (ud_code ud2) (length (ud_code ud) + 4 * k) = Inr w
        \<and> subtilis_arm_disass st w vfp
          = Inr (resolved_decoded st (label_index ops) k (instrs_of ops ! k)))"
proof -
  let ?is = "instrs_of ops" and ?b = "length (ud_code ud)"
  let ?bps = "patches_of ?b ?is"
  from walked none have code1: "ud_code ud1 = ud_code ud @ concat (map (\<lambda>i. word_bytes (word_of_instr i)) ?is)"
    and bps: "vec_items (ud_back_patches ud1) = ?bps"
    and offs: "ud_label_offsets ud1 = record_labels ?b ops (ud_label_offsets ud)"
    by (simp_all add: walked_def)
  have len1: "length (ud_code ud1) = ?b + 4 * length ?is"
    unfolding code1 by (simp add: length_code_bytes)
  have target: "\<exists>j. label_index ops l = Some j \<and> j \<le> 2 ^ 21 \<and> label_offset l ud1 = Inr (?b + 4 * j)"
    if k: "k < length ?is" and l: "local_branch (?is ! k) = Some l" for k l
  proof -
    have "instr_ok vfp n (?is ! k)"
      using instrs_of_ok [OF ok] k by simp
    then have "l < n"
      using l by (elim local_branch_ok)
    moreover have "l \<in> set (labels_of ops)"
      using labels k l unfolding labels_defined_def by (fastforce dest: bspec [of _ _ "?is ! k"])
    then obtain j where j: "label_index ops l = Some j"
      using label_index_None [of ops l] by auto
    ultimately show ?thesis
      using record_labels_nth [OF dist j _ ok, of "ud_label_offsets ud" ?b] max label_index_le [OF j] len
      by (simp add: label_offset_def offs)
  qed
  have patch: "branch_patch (?b + 4 * j) (?b + 4 * k) = Inr (word_of_int (int j - int k - 2) AND 0xffffff)"
    if "k < length ?is" "j \<le> 2 ^ 21" for j k
    by (rule branch_patch_near) (use base len that in auto)
  have "\<forall>bp\<in>set ?bps. bp_type bp = BP_TYPE_BRANCH \<and> bp_code_index bp mod 4 = 0
    \<and> bp_code_index bp + 4 \<le> length (ud_code ud1)
    \<and> (\<exists>off d. label_offset (bp_label bp) ud1 = Inr off \<and> branch_patch off (bp_code_index bp) = Inr d)"
  proof
    fix bp
    assume "bp \<in> set ?bps"
    then obtain k l where k: "k < length ?is" and l: "local_branch (?is ! k) = Some l"
      and bp: "bp = \<lparr>bp_type = BP_TYPE_BRANCH, bp_label = l, bp_code_index = ?b + 4 * k\<rparr>"
      unfolding patches_of_nth by blast
    from target [OF k l] patch [OF k] base k len1 show "bp_type bp = BP_TYPE_BRANCH
      \<and> bp_code_index bp mod 4 = 0 \<and> bp_code_index bp + 4 \<le> length (ud_code ud1)
      \<and> (\<exists>off d. label_offset (bp_label bp) ud1 = Inr off \<and> branch_patch off (bp_code_index bp) = Inr d)"
      unfolding bp by auto
  qed
  then obtain ud2 where patched: "each prv_apply_back_patch ?bps ud1 = Inr ud2"
    using apply_back_patches_granted by blast
  then obtain code where ud2: "ud2 = ud1\<lparr>ud_code := code\<rparr>"
    and al: "\<forall>bp\<in>set ?bps. bp_code_index bp mod 4 = 0"
    and each: "each (patch_code bp_code_index (back_patch_word ud1)) ?bps (ud_code ud1) = Inr code"
    using each_apply_back_patch by blast
  have "\<exists>w. read_word code (?b + 4 * k) = Inr w
      \<and> subtilis_arm_disass st w vfp = Inr (resolved_decoded st (label_index ops) k (?is ! k))"
    if k: "k < length ?is" for k
  proof (cases "local_branch (?is ! k)")
    case None
    then have "?b + 4 * k \<notin> bp_code_index ` set ?bps"
      by (auto simp: patches_of_nth)
    then have "read_word code (?b + 4 * k) = read_word (ud_code ud1) (?b + 4 * k)"
      by (rule code_words.each_patch_other [OF each al, rotated]) (use base in presburger)
    with None k instr_ok_decodable [OF instrs_of_ok [OF ok, of "?is ! k"]] show ?thesis
      by (simp add: code1 read_appended_word no_local_branch decodable_word)
  next
    case (Some l)
    from target [OF k Some] obtain j where j: "label_index ops l = Some j" "j \<le> 2 ^ 21"
      "label_offset l ud1 = Inr (?b + 4 * j)"
      by blast
    obtain b where b: "?is ! k = Br b" "\<not> br_indirect b" "br_link b \<longrightarrow> br_local b"
      "l = unat (br_target_size_t (br_target b))"
      using instrs_of_ok [OF ok, of "?is ! k"] k Some by (auto elim: local_branch_ok)
    let ?bp = "\<lparr>bp_type = BP_TYPE_BRANCH, bp_label = l, bp_code_index = ?b + 4 * k\<rparr>"
    have "?bp \<in> set ?bps"
      using k Some by (auto simp: patches_of_nth)
    from code_words.each_patch [OF each al distinct_patches this] j patch [OF k j(2)]
    have "read_word code (?b + 4 * k) = Inr (br_word b OR (word_of_int (int j - int k - 2) AND 0xffffff))"
      using k b(1) by (simp add: back_patch_word_def code1 read_appended_word word_of_instr_def)
    moreover have "- (2 ^ 23) \<le> int j - int k - 2" and "int j - int k - 2 < 2 ^ 23"
      using j(2) k len by auto
    ultimately show ?thesis
      using branch_decodes [OF _ _ b(2,3), of "int j - int k - 2" st vfp] j(1) b by simp
  qed
  moreover have "length code = ?b + 4 * length ?is"
    using code_words.each_patch_size [OF each] len1 by simp
  ultimately show ?thesis
    using patched ud2 bps by (auto simp: prv_apply_back_patches_def)
qed

lemma section_resolved:
  assumes ud: "length (ud_code ud) \<le> ud_max_bytes ud" "length (ud_code ud) mod 4 = 0"
      "set (ud_allocs ud) \<subseteq> {True}" "vec_ok (ud_back_patches ud)"
    and labels: "sec_label_counter s \<le> length (ud_label_offsets ud)"
    and s: "labelled_section vfp s" and n: "n < length (link_sections (ud_link ud))"
  shows "\<exists>ud'. encode_section (n, s) ud = Inr ud'
    \<and> length (ud_code ud') = length (ud_code ud) + 4 * length (instrs_of (sec_ops s))
    \<and> (\<forall>k < length (instrs_of (sec_ops s)). \<exists>w.
        read_word (ud_code ud') (length (ud_code ud) + 4 * k) = Inr w
        \<and> subtilis_arm_disass st w vfp = Inr (resolved_decoded st (label_index (sec_ops s)) k
            (instrs_of (sec_ops s) ! k)))"
proof -
  define ud0 where "ud0 = prv_reset_encode_ud s (ud\<lparr>ud_link :=
    (ud_link ud)\<lparr>link_sections := (link_sections (ud_link ud))[n := Some (length (ud_code ud))]\<rparr>\<rparr>)"
  have ud0: "walking ud0" "ud_code ud0 = ud_code ud" "vec_items (ud_constants ud0) = []"
    "vec_items (ud_back_patches ud0) = []" "ud_max_labels ud0 = sec_label_counter s"
    "ud_label_offsets ud0 = ud_label_offsets ud"
    using ud by (simp_all add: ud0_def walking_def no_pool_def prv_reset_encode_ud_def
        prv_reset_pool_state_def vec_ok_def)
  from s have ok: "\<forall>op\<in>set (sec_ops s). section_op_ok vfp (sec_label_counter s) op"
    and dist: "distinct (labels_of (sec_ops s))" "labels_defined (sec_ops s)"
    and len: "length (instrs_of (sec_ops s)) \<le> 2 ^ 21"
    by (simp_all add: labelled_section_def)
  obtain ud1 where walk: "each encode_op (sec_ops s) ud0 = Inr ud1" and walked: "walked (sec_ops s) ud0 ud1"
    using walk_all [OF ud0(1) ok ud0(5)] labels ud0(6) by auto
  let ?ud1 = "prv_reset_pool_state ud1"
  have "walking ud1"
    using walked unfolding walked_def by blast
  then have "walking ?ud1"
    by (simp add: walking_def no_pool_def prv_reset_pool_state_def)
  with walked have walked': "walked (sec_ops s) ud0 ?ud1"
    by (simp add: walked_def prv_reset_pool_state_def ud0(3))
  have "vec_items (ud_constants ud1) = []"
    using walked ud0(3) by (simp add: walked_def)
  then have flush: "prv_flush_constants ud1 = Inr ?ud1"
    by (simp add: prv_flush_constants_def prv_apply_constants_def)
  obtain ud2 code where patched: "prv_apply_back_patches ?ud1 = Inr ud2" "ud2 = ?ud1\<lparr>ud_code := code\<rparr>"
      "length code = length (ud_code ud) + 4 * length (instrs_of (sec_ops s))"
    and words: "\<forall>k < length (instrs_of (sec_ops s)). \<exists>w. read_word (ud_code ud2) (length (ud_code ud) + 4 * k) = Inr w
      \<and> subtilis_arm_disass st w vfp = Inr (resolved_decoded st (label_index (sec_ops s)) k
          (instrs_of (sec_ops s) ! k))"
    using labels_resolved [OF walked' ok dist len, of st] labels ud(2) ud0(2,4,6) by auto
  have "(length (ud_code ud) + 4 * length (instrs_of (sec_ops s))) mod 4 = 0"
    using ud(2) by simp
  then have "encode_section (n, s) ud = Inr ud2"
    using n walk flush patched by (simp add: encode_section_def arm_link_section_def
        prv_arm_encode_def ud0_def [symmetric] align_len_4)
  with patched words show ?thesis
    by auto
qed

text \<open>
  C4: when memory is granted, the encoder turns a section of labels, branches within the section and \<open>decodable\<close>
  instructions, which neither call other sections nor load constants, into words
  that decode to the instructions of the section in order, every branch carrying the distance to
  the instruction that follows its label, less the two instructions the processor is ahead. Every label that is
  branched to is placed once (\<open>labelled_section\<close>). This takes the walk that records labels and branches, the
  placeholder words and the back patches together, for sections of up to two million instructions.
\<close>

theorem section_branches_resolved:
  assumes "length (ud_code ud) \<le> ud_max_bytes ud" and "length (ud_code ud) mod 4 = 0"
    and "set (ud_allocs ud) \<subseteq> {True}" and "vec_ok (ud_back_patches ud)"
    and "sec_label_counter s \<le> length (ud_label_offsets ud)"
    and "labelled_section vfp s" and "n < length (link_sections (ud_link ud))"
  shows "\<exists>ud'. encode_section (n, s) ud = Inr ud'
    \<and> length (ud_code ud') = length (ud_code ud) + 4 * length (instrs_of (sec_ops s))
    \<and> (\<forall>k < length (instrs_of (sec_ops s)). \<exists>w.
        read_word (ud_code ud') (length (ud_code ud) + 4 * k) = Inr w
        \<and> subtilis_arm_disass st w vfp = Inr (resolved_decoded st (label_index (sec_ops s)) k
            (instrs_of (sec_ops s) ! k)))"
  using assms by (rule section_resolved)

text \<open>A loop that never ends: a label and a branch to it.\<close>

definition loop_branch :: br_instr where
  "loop_branch = \<lparr>br_ccode = CC_AL, br_link = False, br_local = False, br_indirect = False,
     br_kind = BR_LINK_VOID, br_target = Target_label 0\<rparr>"

definition loop_section :: arm_section where
  "loop_section = \<lparr>sec_ops = [Op_label 0, Op_instr (Br loop_branch)], sec_label_counter = 1,
     sec_ui32 = [], sec_real = []\<rparr>"

theorem section_branches_resolved_witness:
  "\<forall>st vfp. \<exists>ud ud' w. prv_init_encode_ud \<lparr>prog_sections = [loop_section], prog_op_pool_len = 2,
        prog_constants = [], prog_reverse_fpa_consts = False\<rparr> [] = Inr ud
    \<and> encode_section (0, loop_section) ud = Inr ud' \<and> length (ud_code ud') = 4
    \<and> read_word (ud_code ud') 0 = Inr w
    \<and> subtilis_arm_disass st w vfp = Inr (Br \<lparr>br_ccode = CC_AL, br_link = False,
        br_local = stale_local st, br_indirect = stale_indirect st, br_kind = BR_LINK_VOID,
        br_target = Target_offset (- 2)\<rparr>)"
proof (intro allI)
  fix st vfp
  let ?p = "\<lparr>prog_sections = [loop_section], prog_op_pool_len = 2, prog_constants = [],
    prog_reverse_fpa_consts = False\<rparr>"
  obtain ud where init: "prv_init_encode_ud ?p [] = Inr ud" and "between_sections 1 ud" "ud_code ud = []"
    using init_between_sections [of "[]" ?p] by auto
  moreover from init have "ud_label_offsets ud = [None]" "ud_back_patches ud = vec_empty"
    by (auto simp: prv_init_encode_ud_def loop_section_def arm_link_new_def rbind_eq_Inr
        split: sum.splits prod.splits)
  moreover have "labelled_section vfp loop_section"
    by (simp add: decodable_def labelled_section_def loop_section_def loop_branch_def labels_defined_def)
  ultimately obtain ud' where "encode_section (0, loop_section) ud = Inr ud'"
    "length (ud_code ud') = 4 * length (instrs_of (sec_ops loop_section))"
    "\<forall>k < length (instrs_of (sec_ops loop_section)). \<exists>w. read_word (ud_code ud') (4 * k) = Inr w
      \<and> subtilis_arm_disass st w vfp = Inr (resolved_decoded st (label_index (sec_ops loop_section)) k
          (instrs_of (sec_ops loop_section) ! k))"
    using section_branches_resolved [of ud loop_section vfp 0 st]
    by (auto simp: between_sections_def loop_section_def)
  with init show "\<exists>ud ud' w. prv_init_encode_ud ?p [] = Inr ud
    \<and> encode_section (0, loop_section) ud = Inr ud' \<and> length (ud_code ud') = 4
    \<and> read_word (ud_code ud') 0 = Inr w
    \<and> subtilis_arm_disass st w vfp = Inr (Br \<lparr>br_ccode = CC_AL, br_link = False,
        br_local = stale_local st, br_indirect = stale_indirect st, br_kind = BR_LINK_VOID,
        br_target = Target_offset (- 2)\<rparr>)"
    by (auto simp: loop_section_def loop_branch_def)
qed

end
