(* ===== verification/Arm_Section.thy ===== *)
theory Arm_Section
  imports Arm_Encode
begin

text \<open>
  Sections under construction (arch/arm32/arm_core.c): the pool of operations, which all sections of
  a program share and in which each section threads a doubly linked list, the constants of a
  section, and the functions with which the code generator appends and inserts operations.

  A pool index is a \<open>nat\<close>, and \<^verbatim>\<open>SIZE_MAX\<close> for no operation is \<open>None\<close>. The C code also keeps pointers to
  operations of the pool. Such a pointer is valid until the pool is reallocated, which always
  enlarges it: it is the index with the capacity of the pool at the time, and using it when the
  capacity has changed is \<open>Undefined\<close>. The section's type and settings, which the functions only
  pass on, are left out.
\<close>

section \<open>Sections and the pool\<close>

record arm_node =
  nd_op :: arm_op
  nd_next :: "nat option"
  nd_prev :: "nat option"

record arm_call_site =
  cs_stm_site :: nat
  cs_ldm_site :: nat
  cs_stf_site :: nat
  cs_ldf_site :: nat
  cs_int_args :: nat
  cs_real_args :: nat
  cs_call_site :: nat
  cs_int_arg_ops :: "nat list"
  cs_real_arg_ops :: "nat list"

record arm_s =
  as_pool :: "arm_node list"
  as_pool_max :: nat
  as_first :: "nat option"
  as_last :: "nat option"
  as_len :: nat
  as_reg_counter :: nat
  as_freg_counter :: nat
  as_label_counter :: nat
  as_locals :: nat
  as_no_cleanup_label :: nat
  as_ui32 :: "ui32_constant cvec"
  as_real :: "real_constant cvec"
  as_ret_sites :: "nat cvec"
  as_call_sites :: "arm_call_site cvec"
  as_start_address :: u32
  as_fp_max_regs :: nat
  as_allocs :: allocs

type_synonym op_ptr = "nat \<times> nat"

definition SUBTILIS_CONFIG_PROGRAM_GRAN :: nat where
  "SUBTILIS_CONFIG_PROGRAM_GRAN = 4096"

definition SUBTILIS_IR_MAX_ARGS_PER_TYPE :: nat where
  "SUBTILIS_IR_MAX_ARGS_PER_TYPE = 16"

text \<open>Room for one more operation, and its index.\<close>

definition arm_op_pool_alloc :: "(nat, arm_s) c_state" where
  "arm_op_pool_alloc s =
     (if length (as_pool s) < as_pool_max s then Inr (length (as_pool s), s)
      else if 2 ^ 64 - 1 - SUBTILIS_CONFIG_PROGRAM_GRAN < as_pool_max s then Inl oom
      else rbind (alloc (as_allocs s)) (\<lambda>al.
        Inr (length (as_pool s),
             s\<lparr>as_pool_max := as_pool_max s + SUBTILIS_CONFIG_PROGRAM_GRAN, as_allocs := al\<rparr>)))"

definition arm_section_new ::
    "arm_node list \<Rightarrow> nat \<Rightarrow> nat \<Rightarrow> nat \<Rightarrow> nat \<Rightarrow> nat \<Rightarrow> u32 \<Rightarrow> nat \<Rightarrow> allocs \<Rightarrow> arm_s c_result" where
  "arm_section_new pool pool_max reg_counter freg_counter label_counter locals start fp_max_regs al =
     rbind (alloc al) (\<lambda>al.
       Inr \<lparr>as_pool = pool, as_pool_max = pool_max, as_first = None, as_last = None, as_len = 0,
            as_reg_counter = reg_counter, as_freg_counter = freg_counter,
            as_label_counter = label_counter + 1, as_locals = locals,
            as_no_cleanup_label = label_counter, as_ui32 = vec_empty, as_real = vec_empty,
            as_ret_sites = vec_empty, as_call_sites = vec_empty, as_start_address = start,
            as_fp_max_regs = fp_max_regs, as_allocs = al\<rparr>)"

text \<open>Registers of the intermediate representation and those of the machine.\<close>

definition SUBTILIS_ARM_INT_VIRT_REG_START :: nat where
  "SUBTILIS_ARM_INT_VIRT_REG_START = 16"

definition SUBTILIS_IR_REG_TEMP_START :: nat where
  "SUBTILIS_IR_REG_TEMP_START = 4"

definition arm_ir_to_arm_reg :: "nat \<Rightarrow> arm_reg" where
  "arm_ir_to_arm_reg ir_reg =
     (if ir_reg = 1 then 12 else if ir_reg = 2 then 11 else if ir_reg = 3 then 13
      else of_nat ir_reg - of_nat SUBTILIS_IR_REG_TEMP_START
           + of_nat SUBTILIS_ARM_INT_VIRT_REG_START)"

definition arm_is_fixed :: "arm_reg \<Rightarrow> bool" where
  "arm_is_fixed r \<longleftrightarrow> r < of_nat SUBTILIS_ARM_INT_VIRT_REG_START"

definition arm_ir_to_real_reg :: "arm_s \<Rightarrow> nat \<Rightarrow> arm_reg" where
  "arm_ir_to_real_reg s ir_reg = of_nat ir_reg + of_nat (as_fp_max_regs s)"

definition arm_ir_to_freg :: "nat \<Rightarrow> arm_reg" where
  "arm_ir_to_freg ir_reg = of_nat ir_reg + 8"

definition arm_ir_to_dreg :: "nat \<Rightarrow> arm_reg" where
  "arm_ir_to_dreg ir_reg = of_nat ir_reg + 16"

definition arm_acquire_new_reg :: "(arm_reg, arm_s) c_state" where
  "arm_acquire_new_reg s =
     Inr (arm_ir_to_arm_reg (as_reg_counter s), s\<lparr>as_reg_counter := as_reg_counter s + 1\<rparr>)"

definition arm_acquire_new_freg :: "(arm_reg, arm_s) c_state" where
  "arm_acquire_new_freg s =
     Inr (arm_ir_to_real_reg s (as_freg_counter s), s\<lparr>as_freg_counter := as_freg_counter s + 1\<rparr>)"

definition arm_section_max_regs :: "arm_s \<Rightarrow> arm_reg \<times> arm_reg" where
  "arm_section_max_regs s =
     (let int_regs = arm_ir_to_arm_reg (as_reg_counter s)
      in (if int_regs < of_nat SUBTILIS_ARM_INT_VIRT_REG_START
          then of_nat SUBTILIS_ARM_INT_VIRT_REG_START else int_regs,
          arm_ir_to_real_reg s (as_freg_counter s)))"

section \<open>The list of operations\<close>

text \<open>Following a pointer into the pool.\<close>

definition deref :: "op_ptr \<Rightarrow> arm_s \<Rightarrow> arm_node c_result" where
  "deref = (\<lambda>(i, capacity) s.
     if capacity = as_pool_max s then array_get (as_pool s) i else Inl Undefined)"

definition prv_append_op :: "arm_op \<Rightarrow> (op_ptr, arm_s) c_state" where
  "prv_append_op op =
     sbind arm_op_pool_alloc (\<lambda>ptr s.
       let pool = as_pool s @ [\<lparr>nd_op = op, nd_next = None, nd_prev = as_last s\<rparr>]
       in rbind (case as_first s of
                   None \<Rightarrow> Inr (pool, Some ptr)
                 | Some f \<Rightarrow>
                     (case as_last s of
                        None \<Rightarrow> Inl Undefined
                      | Some l \<Rightarrow>
                          rbind (array_get pool l) (\<lambda>n.
                            Inr (pool[l := n\<lparr>nd_next := Some ptr\<rparr>], Some f)))) (\<lambda>(pool, first).
            Inr ((ptr, as_pool_max s),
                 s\<lparr>as_pool := pool, as_first := first, as_last := Some ptr, as_len := as_len s + 1\<rparr>)))"

text \<open>
  The place of the operation before which another is inserted is found again from its predecessor,
  since the allocation may invalidate the pointer. The predecessor is then updated without asking
  whether there is one.
\<close>

definition prv_insert_op :: "arm_op \<Rightarrow> op_ptr \<Rightarrow> (op_ptr, arm_s) c_state" where
  "prv_insert_op op pos s =
     rbind (deref pos s) (\<lambda>n.
     rbind (case nd_prev n of
              None \<Rightarrow> Inr (as_first s)
            | Some p \<Rightarrow> rbind (array_get (as_pool s) p) (\<lambda>m. Inr (nd_next m))) (\<lambda>old_ptr.
     rbind (arm_op_pool_alloc s) (\<lambda>(ptr, s).
     case old_ptr of
       None \<Rightarrow> Inl Undefined
     | Some old \<Rightarrow>
         rbind (array_get (as_pool s) old) (\<lambda>pos.
           case nd_prev pos of
             None \<Rightarrow> Inl Undefined
           | Some p \<Rightarrow>
               rbind (array_get (as_pool s) p) (\<lambda>m.
               let pool = as_pool s @ [\<lparr>nd_op = op, nd_next = Some old, nd_prev = Some p\<rparr>];
                   pool = pool[p := m\<lparr>nd_next := Some ptr\<rparr>];
                   pool = pool[old := (pool ! old)\<lparr>nd_prev := Some ptr\<rparr>]
               in Inr ((ptr, as_pool_max s),
                       s\<lparr>as_pool := pool, as_len := as_len s + 1,
                         as_first := (if as_first s = Some old then Some ptr else as_first s)\<rparr>))))))"

definition arm_section_add_label :: "nat \<Rightarrow> (unit, arm_s) c_state" where
  "arm_section_add_label label =
     sbind (prv_append_op (Op_label label)) (\<lambda>_ s.
       Inr ((), s\<lparr>as_label_counter := as_label_counter s + 1\<rparr>))"

definition arm_section_insert_label :: "nat \<Rightarrow> op_ptr \<Rightarrow> (unit, arm_s) c_state" where
  "arm_section_insert_label label pos =
     sbind (prv_insert_op (Op_label label) pos) (\<lambda>_ s.
       Inr ((), s\<lparr>as_label_counter := as_label_counter s + 1\<rparr>))"

definition arm_section_add_instr :: "arm_instr \<Rightarrow> (op_ptr, arm_s) c_state" where
  "arm_section_add_instr i = prv_append_op (Op_instr i)"

definition arm_section_insert_instr :: "op_ptr \<Rightarrow> arm_instr \<Rightarrow> (op_ptr, arm_s) c_state" where
  "arm_section_insert_instr pos i = prv_insert_op (Op_instr i) pos"

text \<open>
  The copy of the last operation, changed by \<open>f\<close>. The source is a pointer taken before the new
  operation is appended, and the copy takes over its link to the predecessor.
\<close>

definition arm_section_dup_instr :: "(arm_op \<Rightarrow> arm_op) \<Rightarrow> (op_ptr, arm_s) c_state" where
  "arm_section_dup_instr f s =
     rbind (ensure (as_len s \<noteq> 0) assertion_failed) (\<lambda>_.
       case as_last s of
         None \<Rightarrow> Inl Undefined
       | Some l \<Rightarrow>
           (let src = (l, as_pool_max s)
            in sbind (prv_append_op Op_phi) (\<lambda>(i, capacity) s.
                 rbind (deref src s) (\<lambda>n.
                   Inr ((i, capacity),
                        s\<lparr>as_pool := (as_pool s)[i := n\<lparr>nd_op := f (nd_op n), nd_next := None\<rparr>]\<rparr>))) s))"

text \<open>Writing the operation behind a pointer.\<close>

definition update_op :: "op_ptr \<Rightarrow> (arm_op \<Rightarrow> arm_op) \<Rightarrow> (unit, arm_s) c_state" where
  "update_op p f s =
     rbind (deref p s) (\<lambda>n. Inr ((), s\<lparr>as_pool := (as_pool s)[fst p := n\<lparr>nd_op := f (nd_op n)\<rparr>]\<rparr>))"

section \<open>Constants\<close>

definition prv_add_ui32_constant :: "nat \<Rightarrow> u32 \<Rightarrow> bool \<Rightarrow> (unit, arm_s) c_state" where
  "prv_add_ui32_constant label num link_time s =
     rbind (vec_push 64 \<lparr>uc_integer = num, uc_label = label, uc_link_time = link_time\<rparr>
              (as_ui32 s) (as_allocs s)) (\<lambda>(v, al). Inr ((), s\<lparr>as_ui32 := v, as_allocs := al\<rparr>))"

definition arm_add_real_constant :: "nat \<Rightarrow> u64 \<Rightarrow> (unit, arm_s) c_state" where
  "arm_add_real_constant label num s =
     rbind (vec_push 64 \<lparr>rc_real = num, rc_label = label\<rparr> (as_real s) (as_allocs s)) (\<lambda>(v, al).
       Inr ((), s\<lparr>as_real := v, as_allocs := al\<rparr>))"

definition arm_new_label :: "(nat, arm_s) c_state" where
  "arm_new_label s = Inr (as_label_counter s, s\<lparr>as_label_counter := as_label_counter s + 1\<rparr>)"

definition ldrc :: "ccode \<Rightarrow> arm_reg \<Rightarrow> nat \<Rightarrow> bool \<Rightarrow> arm_instr" where
  "ldrc cc dest label link_time = Ldrc \<lparr>ldrc_ccode = cc, ldrc_dest = dest, ldrc_label = label,
     ldrc_link_time = link_time\<rparr>"

text \<open>
  A load of a number from the constant pool. A constant of the section with the same number is
  shared, whether or not it is a link time constant.
\<close>

definition prv_add_data_imm_ldr :: "ccode \<Rightarrow> arm_reg \<Rightarrow> u32 \<Rightarrow> (nat, arm_s) c_state" where
  "prv_add_data_imm_ldr cc dest op2 s =
     (case find (\<lambda>k. uc_integer k = op2) (vec_items (as_ui32 s)) of
        Some k \<Rightarrow>
          sthen (arm_section_add_instr (ldrc cc dest (uc_label k) False)) (sret (uc_label k)) s
      | None \<Rightarrow>
          sbind arm_new_label (\<lambda>label.
            sthen (prv_add_ui32_constant label op2 False)
              (sthen (arm_section_add_instr (ldrc cc dest label False)) (sret label))) s)"

definition arm_insert_data_imm_ldr :: "op_ptr \<Rightarrow> ccode \<Rightarrow> arm_reg \<Rightarrow> u32 \<Rightarrow> (nat, arm_s) c_state" where
  "arm_insert_data_imm_ldr current cc dest op2 =
     sbind arm_new_label (\<lambda>label.
       sthen (prv_add_ui32_constant label op2 False)
         (sthen (arm_section_insert_instr current (ldrc cc dest label False)) (sret label)))"

definition add_explicit_ldr :: "ccode \<Rightarrow> arm_reg \<Rightarrow> u32 \<Rightarrow> bool \<Rightarrow> (nat, arm_s) c_state" where
  "add_explicit_ldr cc dest op2 link_time =
     sbind arm_new_label (\<lambda>label.
       sthen (prv_add_ui32_constant label op2 link_time)
         (sthen (arm_section_add_instr (ldrc cc dest label link_time)) (sret label)))"

definition add_adr :: "ccode \<Rightarrow> arm_reg \<Rightarrow> nat \<Rightarrow> (op_ptr, arm_s) c_state" where
  "add_adr cc dest label =
     arm_section_add_instr (Adr \<lparr>adr_ccode = cc, adr_dest = dest, adr_label = label\<rparr>)"

definition add_ldrp :: "ccode \<Rightarrow> arm_reg \<Rightarrow> nat \<Rightarrow> nat \<Rightarrow> (op_ptr, arm_s) c_state" where
  "add_ldrp cc dest section_label constant_label =
     sthen (prv_add_ui32_constant constant_label 0 False)
       (arm_section_add_instr (Ldrp \<lparr>ldrp_ccode = cc, ldrp_dest = dest,
          ldrp_section_label = section_label, ldrp_constant_label = constant_label\<rparr>))"

section \<open>Data processing with an immediate\<close>

definition data :: "ccode \<Rightarrow> bool \<Rightarrow> arm_reg \<Rightarrow> arm_reg \<Rightarrow> arm_op2 \<Rightarrow> data_instr" where
  "data cc status dest op1 op2 = \<lparr>data_ccode = cc, data_status = status, data_dest = dest,
     data_op1 = op1, data_op2 = op2\<rparr>"

definition add_data_imm_ldr_datai ::
    "data_type \<Rightarrow> ccode \<Rightarrow> bool \<Rightarrow> arm_reg \<Rightarrow> arm_reg \<Rightarrow> u32 \<Rightarrow> (nat, arm_s) c_state" where
  "add_data_imm_ldr_datai itype cc status dest op1 op2 =
     sbind arm_acquire_new_reg (\<lambda>ldr_dest.
     sbind (prv_add_data_imm_ldr cc ldr_dest op2) (\<lambda>label.
     sthen (arm_section_add_instr (Data itype (data cc status dest op1 (OP2_REG ldr_dest))))
       (sret label)))"

text \<open>An encoding of a number or, when the number is negative, of its negation.\<close>

definition encode_or_negated :: "u32 \<Rightarrow> (u32 \<times> bool) option" where
  "encode_or_negated op2 =
     (case arm_encode_imm op2 of
        Some e \<Rightarrow> Some (e, False)
      | None \<Rightarrow> (if sint op2 < 0 then map_option (\<lambda>e. (e, True)) (arm_encode_imm (- op2)) else None))"

definition encode_lvl2_or_negated :: "u32 \<Rightarrow> ((u32 \<times> u32) \<times> bool) option" where
  "encode_lvl2_or_negated op2 =
     (case arm_encode_lvl2_imm op2 of
        Some e \<Rightarrow> Some (e, False)
      | None \<Rightarrow> (if sint op2 < 0 then map_option (\<lambda>e. (e, True)) (arm_encode_lvl2_imm (- op2)) else None))"

text \<open>
  Addition or subtraction of a number: by one instruction, by two with the number split over two
  immediates, or by a load of the number. \<open>alt_type\<close> is the instruction for the negated number.
\<close>

definition arm_add_addsub_imm ::
    "data_type \<Rightarrow> data_type \<Rightarrow> ccode \<Rightarrow> bool \<Rightarrow> arm_reg \<Rightarrow> arm_reg \<Rightarrow> u32 \<Rightarrow> (unit, arm_s) c_state" where
  "arm_add_addsub_imm itype alt_type cc status dest op1 op2 =
     (case encode_or_negated op2 of
        Some (encoded, negated) \<Rightarrow>
          sthen (arm_section_add_instr (Data (if negated then alt_type else itype)
                   (data cc status dest op1 (OP2_I32 encoded)))) (sret ())
      | None \<Rightarrow>
          if status \<and> cc \<noteq> CC_AL
          then sthen (add_data_imm_ldr_datai itype cc status dest op1 op2) (sret ())
          else (case encode_lvl2_or_negated op2 of
                  None \<Rightarrow> sthen (add_data_imm_ldr_datai itype cc status dest op1 op2) (sret ())
                | Some ((encoded, encoded2), negated) \<Rightarrow>
                    (let itype = (if negated then alt_type else itype) in
                     if encoded2 = 0
                     then sthen (arm_section_add_instr
                            (Data itype (data cc status dest op1 (OP2_I32 encoded)))) (sret ())
                     else sbind arm_acquire_new_reg (\<lambda>tmp.
                          sthen (arm_section_add_instr
                            (Data itype (data cc status tmp op1 (OP2_I32 encoded))))
                          (sthen (arm_section_dup_instr (\<lambda>_. Op_instr
                            (Data itype (data cc status dest tmp (OP2_I32 encoded2)))))
                          (sret ()))))))"

definition arm_add_add_imm :: "ccode \<Rightarrow> bool \<Rightarrow> arm_reg \<Rightarrow> arm_reg \<Rightarrow> u32 \<Rightarrow> (unit, arm_s) c_state" where
  "arm_add_add_imm = arm_add_addsub_imm INSTR_ADD INSTR_SUB"

definition arm_add_sub_imm :: "ccode \<Rightarrow> bool \<Rightarrow> arm_reg \<Rightarrow> arm_reg \<Rightarrow> u32 \<Rightarrow> (unit, arm_s) c_state" where
  "arm_add_sub_imm = arm_add_addsub_imm INSTR_SUB INSTR_ADD"

definition arm_add_rsub_imm :: "ccode \<Rightarrow> bool \<Rightarrow> arm_reg \<Rightarrow> arm_reg \<Rightarrow> u32 \<Rightarrow> (unit, arm_s) c_state" where
  "arm_add_rsub_imm cc status dest op1 op2 =
     (case arm_encode_imm op2 of
        Some encoded \<Rightarrow>
          sthen (arm_section_add_instr (Data INSTR_RSB (data cc status dest op1 (OP2_I32 encoded))))
            (sret ())
      | None \<Rightarrow>
          (case (if sint op2 < 0 \<and> \<not> (status \<and> cc \<noteq> CC_AL) then arm_encode_imm (- op2) else None) of
             Some encoded \<Rightarrow>
               sbind arm_acquire_new_reg (\<lambda>neg_dest.
               sthen (arm_section_add_instr (Data INSTR_RSB (data cc False neg_dest op1 (OP2_I32 0))))
               (sthen (arm_section_add_instr
                  (Data INSTR_SUB (data cc status dest neg_dest (OP2_I32 encoded)))) (sret ())))
           | None \<Rightarrow> sthen (add_data_imm_ldr_datai INSTR_RSB cc status dest op1 op2) (sret ())))"

definition arm_add_movmvn_reg ::
    "data_type \<Rightarrow> ccode \<Rightarrow> bool \<Rightarrow> arm_reg \<Rightarrow> arm_reg \<Rightarrow> (op_ptr, arm_s) c_state" where
  "arm_add_movmvn_reg itype cc status dest op2 =
     arm_section_add_instr (Data itype (data cc status dest 0 (OP2_REG op2)))"

abbreviation arm_add_mov_reg :: "ccode \<Rightarrow> bool \<Rightarrow> arm_reg \<Rightarrow> arm_reg \<Rightarrow> (op_ptr, arm_s) c_state" where
  "arm_add_mov_reg \<equiv> arm_add_movmvn_reg INSTR_MOV"

text \<open>A load has no status flag, so that the flag is lost for a number that needs one.\<close>

definition arm_add_movmvn_imm ::
    "data_type \<Rightarrow> data_type \<Rightarrow> ccode \<Rightarrow> bool \<Rightarrow> arm_reg \<Rightarrow> u32 \<Rightarrow> (unit, arm_s) c_state" where
  "arm_add_movmvn_imm itype alt_type cc status dest op2 =
     (case arm_encode_imm op2 of
        Some encoded \<Rightarrow>
          sthen (arm_section_add_instr (Data itype (data cc status dest 0 (OP2_I32 encoded)))) (sret ())
      | None \<Rightarrow>
          (case arm_encode_imm (NOT op2) of
             Some encoded \<Rightarrow>
               sthen (arm_section_add_instr (Data alt_type (data cc status dest 0 (OP2_I32 encoded))))
                 (sret ())
           | None \<Rightarrow> sthen (prv_add_data_imm_ldr cc dest op2) (sret ())))"

definition arm_add_mov_imm :: "ccode \<Rightarrow> bool \<Rightarrow> arm_reg \<Rightarrow> u32 \<Rightarrow> (unit, arm_s) c_state" where
  "arm_add_mov_imm = arm_add_movmvn_imm INSTR_MOV INSTR_MVN"

definition arm_add_mvn_imm :: "ccode \<Rightarrow> bool \<Rightarrow> arm_reg \<Rightarrow> u32 \<Rightarrow> (unit, arm_s) c_state" where
  "arm_add_mvn_imm = arm_add_movmvn_imm INSTR_MVN INSTR_MOV"

definition arm_add_data_imm ::
    "data_type \<Rightarrow> ccode \<Rightarrow> bool \<Rightarrow> arm_reg \<Rightarrow> arm_reg \<Rightarrow> u32 \<Rightarrow> (op_ptr, arm_s) c_state" where
  "arm_add_data_imm itype cc status dest op1 op2 =
     (case arm_encode_imm op2 of
        Some encoded \<Rightarrow> arm_section_add_instr (Data itype (data cc status dest op1 (OP2_I32 encoded)))
      | None \<Rightarrow>
          sbind arm_acquire_new_reg (\<lambda>mov_dest.
          sthen (arm_add_mov_imm cc False mov_dest op2)
            (arm_section_add_instr (Data itype (data cc status dest op1 (OP2_REG mov_dest))))))"

definition arm_add_cmp_imm :: "data_type \<Rightarrow> ccode \<Rightarrow> arm_reg \<Rightarrow> u32 \<Rightarrow> (unit, arm_s) c_state" where
  "arm_add_cmp_imm itype cc op1 op2 =
     (case arm_encode_imm op2 of
        Some encoded \<Rightarrow>
          sthen (arm_section_add_instr (Data itype (data cc True 0 op1 (OP2_I32 encoded)))) (sret ())
      | None \<Rightarrow>
          (case arm_encode_imm (- op2) of
             Some encoded \<Rightarrow>
               sthen (arm_section_add_instr (Data INSTR_CMN (data cc True 0 op1 (OP2_I32 encoded))))
                 (sret ())
           | None \<Rightarrow> sthen (add_data_imm_ldr_datai itype cc True 0 op1 op2) (sret ())))"

definition arm_add_cmp :: "data_type \<Rightarrow> ccode \<Rightarrow> arm_reg \<Rightarrow> arm_reg \<Rightarrow> (op_ptr, arm_s) c_state" where
  "arm_add_cmp itype cc op1 op2 =
     arm_section_add_instr (Data itype (data cc True 0 op1 (OP2_REG op2)))"

section \<open>Multiplications and conditional moves\<close>

definition mul :: "ccode \<Rightarrow> bool \<Rightarrow> arm_reg \<Rightarrow> arm_reg \<Rightarrow> arm_reg \<Rightarrow> mul_instr" where
  "mul cc status dest rm rs = \<lparr>mul_ccode = cc, mul_status = status, mul_dest = dest, mul_rm = rm,
     mul_rs = rs, mul_rn = 0\<rparr>"

definition arm_add_mul_imm ::
    "ccode \<Rightarrow> bool \<Rightarrow> arm_reg \<Rightarrow> arm_reg \<Rightarrow> u32 \<Rightarrow> (op_ptr, arm_s) c_state" where
  "arm_add_mul_imm cc status dest rm rs =
     (if rm = dest then (\<lambda>s. Inl assertion_failed)
      else sbind arm_acquire_new_reg (\<lambda>mov_dest.
           sthen (arm_add_mov_imm cc False mov_dest rs)
             (arm_section_add_instr (Mul INSTR_MUL (mul cc status dest rm mov_dest)))))"

text \<open>The destination of a multiplication may not be its first operand; the operands are exchanged.\<close>

definition arm_add_mul ::
    "ccode \<Rightarrow> bool \<Rightarrow> arm_reg \<Rightarrow> arm_reg \<Rightarrow> arm_reg \<Rightarrow> (op_ptr, arm_s) c_state" where
  "arm_add_mul cc status dest rm rs =
     (if dest = rm \<and> dest = rs then (\<lambda>s. Inl assertion_failed)
      else arm_section_add_instr (Mul INSTR_MUL
             (if dest = rm then mul cc status dest rs rm else mul cc status dest rm rs)))"

definition arm_add_cmov :: "arm_reg \<Rightarrow> arm_reg \<Rightarrow> arm_reg \<Rightarrow> arm_reg \<Rightarrow> (op_ptr, arm_s) c_state" where
  "arm_add_cmov dest op1 op2 op3 =
     arm_section_add_instr (Cmov \<lparr>cmov_dest = dest, cmov_op1 = op1, cmov_op2 = op2, cmov_op3 = op3,
       cmov_fused = False, cmov_true_cond = CC_EQ, cmov_false_cond = CC_EQ\<rparr>)"

definition arm_add_cmov_fused ::
    "arm_reg \<Rightarrow> arm_reg \<Rightarrow> arm_reg \<Rightarrow> ccode \<Rightarrow> ccode \<Rightarrow> (op_ptr, arm_s) c_state" where
  "arm_add_cmov_fused dest op2 op3 true_cond false_cond =
     arm_section_add_instr (Cmov \<lparr>cmov_dest = dest, cmov_op1 = 0, cmov_op2 = op2, cmov_op3 = op3,
       cmov_fused = True, cmov_true_cond = true_cond, cmov_false_cond = false_cond\<rparr>)"

section \<open>Transfers\<close>

definition stran :: "ccode \<Rightarrow> arm_reg \<Rightarrow> arm_reg \<Rightarrow> arm_op2 \<Rightarrow> bool \<Rightarrow> bool \<Rightarrow> bool \<Rightarrow> bool \<Rightarrow> stran_instr" where
  "stran cc dest base offset pre_indexed write_back subtract byte =
     \<lparr>stran_ccode = cc, stran_dest = dest, stran_base = base, stran_offset = offset,
      stran_pre_indexed = pre_indexed, stran_write_back = write_back, stran_subtract = subtract,
      stran_byte = byte\<rparr>"

text \<open>The absolute value of an \<^verbatim>\<open>int32_t\<close>; that of the least one is undefined.\<close>

definition int32_abs :: "u32 \<Rightarrow> u32 c_result" where
  "int32_abs w = (if sint w < 0 then (if w = 0x80000000 then Inl Undefined else Inr (- w)) else Inr w)"

definition arm_add_stran_imm ::
    "stran_type \<Rightarrow> ccode \<Rightarrow> arm_reg \<Rightarrow> arm_reg \<Rightarrow> u32 \<Rightarrow> bool \<Rightarrow> (op_ptr, arm_s) c_state" where
  "arm_add_stran_imm itype cc dest base offset byte s =
     rbind (int32_abs offset) (\<lambda>size.
     let subtract = sint offset < 0 in
     if 4095 < size
     then sbind arm_acquire_new_reg (\<lambda>reg.
            sthen (prv_add_data_imm_ldr cc reg size)
              (arm_section_add_instr (Stran itype
                 (stran cc dest base (OP2_REG reg) True False subtract byte)))) s
     else arm_section_add_instr (Stran itype
            (stran cc dest base (OP2_I32 size) True False subtract byte)) s)"

definition push_instr :: "ccode \<Rightarrow> arm_reg \<Rightarrow> arm_instr" where
  "push_instr cc reg = Stran INSTR_STR (stran cc reg 13 (OP2_I32 4) True True True False)"

definition pop_instr :: "ccode \<Rightarrow> arm_reg \<Rightarrow> arm_instr" where
  "pop_instr cc reg = Stran INSTR_LDR (stran cc reg 13 (OP2_I32 4) False True False False)"

definition arm_add_push :: "ccode \<Rightarrow> arm_reg \<Rightarrow> (op_ptr, arm_s) c_state" where
  "arm_add_push cc reg = arm_section_add_instr (push_instr cc reg)"

definition arm_add_pop :: "ccode \<Rightarrow> arm_reg \<Rightarrow> (op_ptr, arm_s) c_state" where
  "arm_add_pop cc reg = arm_section_add_instr (pop_instr cc reg)"

definition arm_insert_push :: "op_ptr \<Rightarrow> ccode \<Rightarrow> arm_reg \<Rightarrow> (op_ptr, arm_s) c_state" where
  "arm_insert_push current cc reg = arm_section_insert_instr current (push_instr cc reg)"

definition arm_insert_pop :: "op_ptr \<Rightarrow> ccode \<Rightarrow> arm_reg \<Rightarrow> (op_ptr, arm_s) c_state" where
  "arm_insert_pop current cc reg = arm_section_insert_instr current (pop_instr cc reg)"

text \<open>
  The pointer to the current operation is used for both insertions, although the first may have
  reallocated the pool.
\<close>

definition arm_insert_stran_spill_imm ::
    "op_ptr \<Rightarrow> stran_type \<Rightarrow> ccode \<Rightarrow> arm_reg \<Rightarrow> arm_reg \<Rightarrow> arm_reg \<Rightarrow> u32 \<Rightarrow> (op_ptr, arm_s) c_state" where
  "arm_insert_stran_spill_imm current itype cc dest base spill_reg offset =
     sthen (arm_insert_data_imm_ldr current cc spill_reg offset)
       (arm_section_insert_instr current (Stran itype
          (stran cc dest base (OP2_REG spill_reg) True False False False)))"

definition arm_insert_stran_imm ::
    "op_ptr \<Rightarrow> stran_type \<Rightarrow> ccode \<Rightarrow> arm_reg \<Rightarrow> arm_reg \<Rightarrow> u32 \<Rightarrow> (op_ptr, arm_s) c_state" where
  "arm_insert_stran_imm current itype cc dest base offset s =
     rbind (int32_abs offset) (\<lambda>size.
     rbind (ensure (\<not> 4095 < size) assertion_failed) (\<lambda>_.
       arm_section_insert_instr current (Stran itype
         (stran cc dest base (OP2_I32 size) True False (sint offset < 0) False)) s))"

definition arm_add_mtran ::
    "mtran_dir \<Rightarrow> ccode \<Rightarrow> arm_reg \<Rightarrow> u64 \<Rightarrow> mtran_type \<Rightarrow> bool \<Rightarrow> bool \<Rightarrow> (op_ptr, arm_s) c_state" where
  "arm_add_mtran itype cc op0 reg_list kind write_back status =
     arm_section_add_instr (Mtran itype \<lparr>mtran_ccode = cc, mtran_op0 = op0, mtran_reg_list = reg_list,
       mtran_kind = kind, mtran_write_back = write_back, mtran_status = status\<rparr>)"

definition arm_add_swi :: "ccode \<Rightarrow> u64 \<Rightarrow> u32 \<Rightarrow> u32 \<Rightarrow> (op_ptr, arm_s) c_state" where
  "arm_add_swi cc code read_mask write_mask =
     arm_section_add_instr (Swi \<lparr>swi_ccode = cc, swi_code = code, swi_reg_read_mask = read_mask,
       swi_reg_write_mask = write_mask\<rparr>)"

section \<open>Directives\<close>

definition arm_add_byte :: "u8 \<Rightarrow> (op_ptr, arm_s) c_state" where
  "arm_add_byte b = prv_append_op (Op_byte b)"

definition arm_add_two_bytes :: "u16 \<Rightarrow> (op_ptr, arm_s) c_state" where
  "arm_add_two_bytes h = prv_append_op (Op_two_byte h)"

definition arm_add_four_bytes :: "u32 \<Rightarrow> (op_ptr, arm_s) c_state" where
  "arm_add_four_bytes w = prv_append_op (Op_four_byte w)"

definition arm_add_double :: "u64 \<Rightarrow> (op_ptr, arm_s) c_state" where
  "arm_add_double d = prv_append_op (Op_double d)"

definition arm_add_doubler :: "u64 \<Rightarrow> (op_ptr, arm_s) c_state" where
  "arm_add_doubler d = prv_append_op (Op_doubler d)"

definition arm_add_float :: "u32 \<Rightarrow> (op_ptr, arm_s) c_state" where
  "arm_add_float f = prv_append_op (Op_float f)"

definition arm_add_string :: "u8 list \<Rightarrow> (op_ptr, arm_s) c_state" where
  "arm_add_string str =
     sbind (prv_append_op (Op_string str)) (\<lambda>p s.
       rbind (alloc (as_allocs s)) (\<lambda>al. Inr (p, s\<lparr>as_allocs := al\<rparr>)))"

definition arm_add_align :: "u32 \<Rightarrow> (op_ptr, arm_s) c_state" where
  "arm_add_align a = prv_append_op (Op_align a)"

section \<open>Flags and ARMv6 instructions\<close>

definition flags :: "ccode \<Rightarrow> flags_reg \<Rightarrow> u32 \<Rightarrow> flags_op \<Rightarrow> flags_instr" where
  "flags cc flag_reg field_mask op = \<lparr>flags_ccode = cc, flags_flag_reg = flag_reg,
     flags_fields = field_mask, flags_op = op\<rparr>"

definition arm_add_flags ::
    "flags_type \<Rightarrow> ccode \<Rightarrow> flags_reg \<Rightarrow> u32 \<Rightarrow> arm_reg \<Rightarrow> (op_ptr, arm_s) c_state" where
  "arm_add_flags itype cc flag_reg field_mask reg =
     arm_section_add_instr (Flags itype (flags cc flag_reg field_mask (Flags_reg reg)))"

text \<open>
  The instruction is appended before the move that loads its operand, and is then completed through
  the pointer that the first append has returned.
\<close>

definition arm_add_flags_imm ::
    "flags_type \<Rightarrow> ccode \<Rightarrow> flags_reg \<Rightarrow> u32 \<Rightarrow> u32 \<Rightarrow> (unit, arm_s) c_state" where
  "arm_add_flags_imm itype cc flag_reg field_mask imm =
     sbind (arm_section_add_instr (Flags itype (flags cc flag_reg field_mask (Flags_integer 0)))) (\<lambda>p.
       let complete = (\<lambda>op. update_op p (\<lambda>_. Op_instr (Flags itype (flags cc flag_reg field_mask op))))
       in case arm_encode_imm imm of
            Some encoded \<Rightarrow> complete (Flags_integer encoded)
          | None \<Rightarrow>
              sbind arm_acquire_new_reg (\<lambda>mov_dest.
                sthen (arm_add_mov_imm cc False mov_dest imm) (complete (Flags_reg mov_dest))))"

definition arm_add_reg_only ::
    "simd_type \<Rightarrow> ccode \<Rightarrow> arm_reg \<Rightarrow> arm_reg \<Rightarrow> arm_reg \<Rightarrow> (op_ptr, arm_s) c_state" where
  "arm_add_reg_only itype cc dest op1 op2 =
     arm_section_add_instr (Simd itype \<lparr>reg_only_ccode = cc, reg_only_dest = dest, reg_only_op1 = op1,
       reg_only_op2 = op2\<rparr>)"

definition arm_add_signx ::
    "signx_type \<Rightarrow> ccode \<Rightarrow> arm_reg \<Rightarrow> arm_reg \<Rightarrow> signx_rotate \<Rightarrow> (op_ptr, arm_s) c_state" where
  "arm_add_signx itype cc dest op1 rotation =
     arm_section_add_instr (Signx itype \<lparr>signx_ccode = cc, signx_rotate = rotation, signx_dest = dest,
       signx_op1 = op1\<rparr>)"

section \<open>Call and return sites\<close>

definition arm_section_add_call_site ::
    "nat \<Rightarrow> nat \<Rightarrow> nat \<Rightarrow> nat \<Rightarrow> nat list \<Rightarrow> nat list \<Rightarrow> nat \<Rightarrow> nat \<Rightarrow> nat \<Rightarrow> (unit, arm_s) c_state" where
  "arm_section_add_call_site stm ldm stf ldf int_arg_ops real_arg_ops int_args real_args op s =
     (let extra = (\<lambda>n. if 4 < n then n - 4 else 0) in
      rbind (vec_push SUBTILIS_CONFIG_PROC_GRAN
        \<lparr>cs_stm_site = stm, cs_ldm_site = ldm, cs_stf_site = stf, cs_ldf_site = ldf,
         cs_int_args = int_args, cs_real_args = real_args, cs_call_site = op,
         cs_int_arg_ops = take (extra int_args) int_arg_ops,
         cs_real_arg_ops = take (extra real_args) real_arg_ops\<rparr>
        (as_call_sites s) (as_allocs s)) (\<lambda>(v, al).
      if extra int_args \<le> min (length int_arg_ops) (SUBTILIS_IR_MAX_ARGS_PER_TYPE - 4)
         \<and> extra real_args \<le> min (length real_arg_ops) (SUBTILIS_IR_MAX_ARGS_PER_TYPE - 4)
      then Inr ((), s\<lparr>as_call_sites := v, as_allocs := al\<rparr>) else Inl Undefined))"

definition arm_section_add_ret_site :: "nat \<Rightarrow> (unit, arm_s) c_state" where
  "arm_section_add_ret_site op s =
     rbind (vec_push SUBTILIS_CONFIG_PROC_GRAN op (as_ret_sites s) (as_allocs s)) (\<lambda>(v, al).
       Inr ((), s\<lparr>as_ret_sites := v, as_allocs := al\<rparr>))"

text \<open>
  The size of the stack frame written into the operand of each return's addition; the union of
  operands would be overwritten in any other instruction.
\<close>

definition restore_site :: "nat \<Rightarrow> nat \<Rightarrow> arm_s \<Rightarrow> arm_s c_result" where
  "restore_site stack_space rs s =
     rbind (array_get (as_pool s) rs) (\<lambda>n.
       case nd_op n of
         Op_instr (Data t i) \<Rightarrow>
           (case data_op2 i of
              OP2_I32 _ \<Rightarrow> Inr (s\<lparr>as_pool := (as_pool s)[rs := n\<lparr>nd_op :=
                Op_instr (Data t (i\<lparr>data_op2 := OP2_I32 (of_nat stack_space)\<rparr>))\<rparr>]\<rparr>)
            | _ \<Rightarrow> Inl Undefined)
       | _ \<Rightarrow> Inl Undefined)"

definition arm_restore_stack :: "nat \<Rightarrow> arm_s \<Rightarrow> arm_s c_result" where
  "arm_restore_stack stack_space s = each (restore_site stack_space) (vec_items (as_ret_sites s)) s"

section \<open>The sequence of operations\<close>

text \<open>
  The loop of arm_walker.c over a section, as the list of the operations it visits. The fuel bounds
  the number of operations; a list as long as the section needs no more.
\<close>

fun walk_ops :: "nat \<Rightarrow> arm_node list \<Rightarrow> nat option \<Rightarrow> arm_op list c_result" where
  "walk_ops fuel pool None = Inr []"
| "walk_ops 0 pool (Some ptr) = Inl Undefined"
| "walk_ops (Suc fuel) pool (Some ptr) =
     rbind (array_get pool ptr) (\<lambda>n.
     rbind (walk_ops fuel pool (nd_next n)) (\<lambda>ops. Inr (nd_op n # ops)))"

definition arm_section_of :: "arm_s \<Rightarrow> arm_section c_result" where
  "arm_section_of s =
     rbind (walk_ops (as_len s) (as_pool s) (as_first s)) (\<lambda>ops.
       Inr \<lparr>sec_ops = ops, sec_label_counter = as_label_counter s,
            sec_ui32 = vec_items (as_ui32 s), sec_real = vec_items (as_real s)\<rparr>)"

end
