(* ===== verification/Arm_Section_Laws.thy ===== *)
theory Arm_Section_Laws
  imports Arm_Section
begin

text \<open>
  The operations of a section form a doubly linked list in the pool. \<open>linked s xs\<close> says that the list
  of \<open>s\<close> runs through the pool indices \<open>xs\<close> and that all links agree; appending and inserting refine
  the corresponding operations on \<open>xs\<close>, and the walker visits the list in order. The cases in which
  the C code breaks the list are stated as well.
\<close>

section \<open>The linked list\<close>

definition next_of :: "nat list \<Rightarrow> nat \<Rightarrow> nat option" where
  "next_of xs i = (if Suc i < length xs then Some (xs ! Suc i) else None)"

definition prev_of :: "nat list \<Rightarrow> nat \<Rightarrow> nat option" where
  "prev_of xs i = (if i = 0 then None else Some (xs ! (i - 1)))"

definition linked :: "arm_s \<Rightarrow> nat list \<Rightarrow> bool" where
  "linked s xs \<longleftrightarrow> distinct xs \<and> as_len s = length xs
     \<and> as_first s = (if xs = [] then None else Some (hd xs))
     \<and> as_last s = (if xs = [] then None else Some (last xs))
     \<and> (\<forall>i < length xs. xs ! i < length (as_pool s)
          \<and> nd_next (as_pool s ! (xs ! i)) = next_of xs i
          \<and> nd_prev (as_pool s ! (xs ! i)) = prev_of xs i)"

definition ops_at :: "arm_s \<Rightarrow> nat list \<Rightarrow> arm_op list" where
  "ops_at s xs = map (\<lambda>i. nd_op (as_pool s ! i)) xs"

text \<open>The operations of the whole pool, in the order of their allocation.\<close>

definition pool_ops :: "arm_s \<Rightarrow> arm_op list" where
  "pool_ops s = map nd_op (as_pool s)"

lemma linked_index: "linked s xs \<Longrightarrow> x \<in> set xs \<Longrightarrow> x < length (as_pool s)"
  by (auto simp: linked_def in_set_conv_nth)

lemma linked_node:
  assumes "linked s xs" and "i < length xs"
  shows "nd_next (as_pool s ! (xs ! i)) = next_of xs i" and "nd_prev (as_pool s ! (xs ! i)) = prev_of xs i"
  using assms by (simp_all add: linked_def)

lemma ops_at_pool_ops: "linked s xs \<Longrightarrow> ops_at s xs = map (\<lambda>i. pool_ops s ! i) xs"
  using linked_index by (auto simp: ops_at_def pool_ops_def)

lemma ops_at_nth: "\<forall>x\<in>set xs. x < length (as_pool s) \<Longrightarrow> ops_at s xs = map ((!) (pool_ops s)) xs"
  by (auto simp: ops_at_def pool_ops_def)

subsection \<open>The walk\<close>

lemma walk_from:
  assumes "linked s xs" and "j \<le> length xs" and "length xs - j \<le> fuel"
  shows "walk_ops fuel (as_pool s) (if j < length xs then Some (xs ! j) else None)
    = Inr (map (\<lambda>i. nd_op (as_pool s ! i)) (drop j xs))"
  using assms(2,3)
proof (induction fuel arbitrary: j)
  case (Suc fuel)
  show ?case
  proof (cases "j < length xs")
    case True
    with assms(1) have node: "xs ! j < length (as_pool s)"
        "nd_next (as_pool s ! (xs ! j)) = (if Suc j < length xs then Some (xs ! Suc j) else None)"
      by (simp_all add: linked_def next_of_def)
    with True Suc.IH [of "Suc j"] Suc.prems show ?thesis
      by (simp add: Cons_nth_drop_Suc [symmetric])
  qed simp
qed simp

lemma walk_linked:
  assumes "linked s xs"
  shows "walk_ops (as_len s) (as_pool s) (as_first s) = Inr (ops_at s xs)"
  using walk_from [OF assms, of 0 "as_len s"] assms
  by (auto simp: linked_def ops_at_def hd_conv_nth)

subsection \<open>Appending\<close>

lemma op_pool_alloc_Inr:
  assumes "arm_op_pool_alloc s = Inr (ptr, s')"
  shows "ptr = length (as_pool s) \<and> (\<exists>m al. s' = s\<lparr>as_pool_max := m, as_allocs := al\<rparr>
    \<and> as_pool_max s \<le> m \<and> (length (as_pool s) < as_pool_max s \<longrightarrow> m = as_pool_max s)
    \<and> (as_pool_max s \<le> length (as_pool s) \<longrightarrow> as_pool_max s < m))"
proof -
  have same: "\<exists>m al. s = s\<lparr>as_pool_max := m, as_allocs := al\<rparr> \<and> m = as_pool_max s"
    by (cases s) simp
  from assms show ?thesis
    using same by (auto simp: arm_op_pool_alloc_def rbind_eq_Inr SUBTILIS_CONFIG_PROGRAM_GRAN_def
        split: if_splits)
qed

lemma linked_alloc [simp]:
  "linked (s\<lparr>as_pool_max := m, as_allocs := al\<rparr>) xs = linked s xs"
  by (simp add: linked_def)

lemma append_links:
  assumes "linked s xs" and ptr: "ptr = length (as_pool s)"
    and pool: "pool = (let p = as_pool s @ [\<lparr>nd_op = op, nd_next = None, nd_prev = as_last s\<rparr>]
      in if xs = [] then p else p[last xs := (p ! last xs)\<lparr>nd_next := Some ptr\<rparr>])"
  shows "linked (s\<lparr>as_pool := pool, as_first := Some (if xs = [] then ptr else hd xs),
      as_last := Some ptr, as_len := as_len s + 1\<rparr>) (xs @ [ptr])"
proof -
  have idx: "x < length (as_pool s)" if "x \<in> set xs" for x
    using linked_index [OF assms(1) that] .
  have len: "length pool = Suc (length (as_pool s))"
    by (simp add: pool Let_def)
  have node: "pool ! (xs ! i) = (if i = length xs - 1
      then (as_pool s ! (xs ! i))\<lparr>nd_next := Some ptr\<rparr> else as_pool s ! (xs ! i))"
    if "i < length xs" for i
  proof -
    have "xs \<noteq> []"
      using that by auto
    moreover from this have "last xs = xs ! (length xs - 1)"
      by (rule last_conv_nth)
    moreover have "xs ! i = xs ! (length xs - 1) \<longleftrightarrow> i = length xs - 1"
      using that assms(1) nth_eq_iff_index_eq [of xs i "length xs - 1"] by (simp add: linked_def)
    ultimately show ?thesis
      using idx [of "xs ! i"] idx [of "xs ! (length xs - 1)"] that
      by (cases "i = length xs - 1") (simp_all add: pool Let_def nth_list_update nth_append)
  qed
  have new: "pool ! ptr = \<lparr>nd_op = op, nd_next = None, nd_prev = as_last s\<rparr>"
  proof (cases "xs = []")
    case False
    then have "last xs \<noteq> ptr"
      using idx [of "last xs"] ptr by simp
    with False show ?thesis
      by (simp add: pool Let_def ptr)
  qed (simp add: pool ptr)
  have nodes: "(xs @ [ptr]) ! i < length pool
      \<and> nd_next (pool ! ((xs @ [ptr]) ! i)) = next_of (xs @ [ptr]) i
      \<and> nd_prev (pool ! ((xs @ [ptr]) ! i)) = prev_of (xs @ [ptr]) i" if "i < Suc (length xs)" for i
  proof (cases "i < length xs")
    case True
    with assms(1) node [OF True] idx [of "xs ! i"] show ?thesis
      by (auto simp: linked_def next_of_def prev_of_def nth_append len)
  next
    case False
    with that have i: "i = length xs"
      by simp
    with assms(1) new show ?thesis
      by (auto simp: linked_def next_of_def prev_of_def nth_append len ptr last_conv_nth)
  qed
  have "ptr \<notin> set xs"
    using idx ptr by blast
  with assms(1) nodes show ?thesis
    by (simp add: linked_def)
qed

lemma append_op_Inr:
  assumes "prv_append_op op s = Inr (p, s')" and "linked s xs"
  shows "linked s' (xs @ [length (as_pool s)])" and "pool_ops s' = pool_ops s @ [op]"
    and "p = (length (as_pool s), as_pool_max s')"
    and "\<And>i. i < length (as_pool s) \<Longrightarrow> i \<notin> set xs \<Longrightarrow> as_pool s' ! i = as_pool s ! i"
proof -
  from assms(1) obtain ptr s1 where alloc: "arm_op_pool_alloc s = Inr (ptr, s1)"
    by (auto simp: prv_append_op_def sbind_eq_Inr)
  from op_pool_alloc_Inr [OF alloc] obtain m al where ptr: "ptr = length (as_pool s)"
    and s1: "s1 = s\<lparr>as_pool_max := m, as_allocs := al\<rparr>"
    by blast
  let ?p = "as_pool s @ [\<lparr>nd_op = op, nd_next = None, nd_prev = as_last s\<rparr>]"
  let ?pool = "if xs = [] then ?p else ?p[last xs := (?p ! last xs)\<lparr>nd_next := Some ptr\<rparr>]"
  have s': "s' = s1\<lparr>as_pool := ?pool, as_first := Some (if xs = [] then ptr else hd xs),
      as_last := Some ptr, as_len := as_len s1 + 1\<rparr>" and p: "p = (ptr, m)"
    using assms alloc linked_index [OF assms(2), of "last xs"]
    by (auto simp: prv_append_op_def sbind_def Let_def s1 linked_def split: if_splits option.splits)
  have "linked s1 xs"
    using assms(2) by (simp add: s1)
  from append_links [OF this, of ptr ?pool op] show "linked s' (xs @ [length (as_pool s)])"
    by (simp add: s' s1 ptr Let_def)
  show "pool_ops s' = pool_ops s @ [op]"
    using linked_index [OF assms(2), of "last xs"]
    by (auto simp: pool_ops_def s' s1 map_update nth_append intro!: list_update_same_conv [THEN iffD2])
  show "p = (length (as_pool s), as_pool_max s')"
    by (simp add: p s' s1 ptr)
  show "as_pool s' ! i = as_pool s ! i" if "i < length (as_pool s)" and "i \<notin> set xs" for i
  proof -
    have "xs = [] \<or> i \<noteq> last xs"
      using that(2) last_in_set [of xs] by auto
    with that(1) show ?thesis
      by (auto simp: s' s1 nth_append)
  qed
qed

subsection \<open>Inserting\<close>

lemma insert_links:
  assumes "linked s xs" and k: "Suc m < length xs" and ptr: "ptr = length (as_pool s)"
    and pool: "pool = (as_pool s @ [\<lparr>nd_op = op, nd_next = Some (xs ! Suc m), nd_prev = Some (xs ! m)\<rparr>])
      [xs ! m := (as_pool s ! (xs ! m))\<lparr>nd_next := Some ptr\<rparr>,
       xs ! Suc m := (as_pool s ! (xs ! Suc m))\<lparr>nd_prev := Some ptr\<rparr>]"
    and ys: "ys = take (Suc m) xs @ ptr # drop (Suc m) xs"
  shows "linked (s\<lparr>as_pool := pool, as_len := as_len s + 1\<rparr>) ys"
proof -
  have idx: "x < length (as_pool s)" if "x \<in> set xs" for x
    using linked_index [OF assms(1) that] .
  have inj: "xs ! i = xs ! j \<longleftrightarrow> i = j" if "i < length xs" "j < length xs" for i j
    using that assms(1) by (simp add: linked_def nth_eq_iff_index_eq)
  have len: "length pool = Suc (length (as_pool s))"
    by (simp add: pool)
  have node: "pool ! (xs ! i) =
      (if i = m then (as_pool s ! (xs ! i))\<lparr>nd_next := Some ptr\<rparr>
       else if i = Suc m then (as_pool s ! (xs ! i))\<lparr>nd_prev := Some ptr\<rparr> else as_pool s ! (xs ! i))"
    if "i < length xs" for i
    using that k idx [of "xs ! i"] idx [of "xs ! m"] idx [of "xs ! Suc m"]
    by (simp add: pool nth_list_update nth_append inj)
  have new: "pool ! ptr = \<lparr>nd_op = op, nd_next = Some (xs ! Suc m), nd_prev = Some (xs ! m)\<rparr>"
    using idx [of "xs ! m"] idx [of "xs ! Suc m"] k by (simp add: pool ptr nth_list_update)
  have lys: "length ys = Suc (length xs)"
    using k by (simp add: ys)
  have before: "ys ! i = xs ! i" if "i < Suc m" for i
    using that k by (simp add: ys nth_append)
  have at: "ys ! Suc m = ptr"
    using k by (simp add: ys nth_append)
  have after: "ys ! Suc j = xs ! j" if "Suc m \<le> j" for j
    using that k by (auto simp: ys nth_append nth_Cons' not_less)
  have old: "nd_next (as_pool s ! (xs ! j)) = next_of xs j" "nd_prev (as_pool s ! (xs ! j)) = prev_of xs j"
      "xs ! j < length (as_pool s)" if "j < length xs" for j
    using assms(1) that by (simp_all add: linked_def)
  have nodes: "ys ! i < length pool \<and> nd_next (pool ! (ys ! i)) = next_of ys i
      \<and> nd_prev (pool ! (ys ! i)) = prev_of ys i" if i: "i < Suc (length xs)" for i
  proof -
    consider "i \<le> m" | "i = Suc m" | "Suc m < i"
      by linarith
    then show ?thesis
    proof cases
      case 1
      then have "i < length xs" and "i - 1 < Suc m"
        using k by simp_all
      with 1 show ?thesis
        using node [of i] old [of i] before [of i] before [of "Suc i"] before [of "i - 1"] k at
        by (cases "i = m") (simp_all add: len lys next_of_def prev_of_def)
    next
      case 2
      with k show ?thesis
        by (simp add: at new [unfolded ptr] len lys next_of_def prev_of_def after before ptr)
    next
      case 3
      then obtain j where j': "i = Suc j" "Suc m \<le> j"
        by (cases i) auto
      with i have j: "j < length xs"
        by simp
      obtain l where l: "j = Suc l"
        using j'(2) by (cases j) auto
      show ?thesis
        using j' node [OF j] old [OF j] after [of j] after [of "Suc j"] after [of l] j at
        by (cases "j = Suc m") (simp_all add: len lys l next_of_def prev_of_def)
    qed
  qed
  have "distinct ys"
    using assms(1) idx ptr by (auto simp: linked_def ys set_take_disj_set_drop_if_distinct
        dest: in_set_takeD in_set_dropD)
  moreover have "hd ys = hd xs" and "last ys = last xs"
    using k by (auto simp: ys hd_append last_drop)
  ultimately show ?thesis
    using assms(1) nodes k lys by (auto simp: linked_def)
qed

lemma map_update_same: "a < length xs \<Longrightarrow> (map f xs @ ys)[a := f (xs ! a)] = map f xs @ ys"
  by (simp add: list_update_append flip: map_update)

lemma insert_op_Inr:
  assumes "prv_insert_op op (xs ! k, c) s = Inr (p, s')" and "linked s xs" and "k < length xs"
  shows "0 < k" and "linked s' (take k xs @ length (as_pool s) # drop k xs)"
    and "pool_ops s' = pool_ops s @ [op]" and "p = (length (as_pool s), as_pool_max s')"
proof -
  have node: "nd_prev (as_pool s ! (xs ! k)) = prev_of xs k" "xs ! k < length (as_pool s)"
      "nd_next (as_pool s ! (xs ! (k - 1))) = next_of xs (k - 1)" "xs ! (k - 1) < length (as_pool s)"
    using assms(2,3) by (simp_all add: linked_def)
  from assms(1) obtain ptr s1 where alloc: "arm_op_pool_alloc s = Inr (ptr, s1)"
    by (auto simp: prv_insert_op_def rbind_eq_Inr split: prod.splits)
  from op_pool_alloc_Inr [OF alloc] obtain m al where ptr: "ptr = length (as_pool s)"
    and s1: "s1 = s\<lparr>as_pool_max := m, as_allocs := al\<rparr>"
    by blast
  have c: "c = as_pool_max s"
    using assms(1) by (simp add: prv_insert_op_def deref_def split: if_splits)
  show k: "0 < k"
  proof (rule ccontr)
    assume "\<not> 0 < k"
    then have k0: "k = 0"
      by simp
    with assms(2,3) have "as_first s = Some (xs ! 0)" and "nd_prev (as_pool s ! (xs ! 0)) = None"
      by (auto simp: linked_def hd_conv_nth prev_of_def)
    with assms(1) alloc node(2) k0 c show False
      by (simp add: prv_insert_op_def deref_def s1)
  qed
  have inj: "xs ! k \<noteq> xs ! (k - 1)"
    using assms(2,3) k by (simp add: linked_def nth_eq_iff_index_eq)
  let ?pool = "(as_pool s @ [\<lparr>nd_op = op, nd_next = Some (xs ! k), nd_prev = Some (xs ! (k - 1))\<rparr>])
      [xs ! (k - 1) := (as_pool s ! (xs ! (k - 1)))\<lparr>nd_next := Some ptr\<rparr>,
       xs ! k := (as_pool s ! (xs ! k))\<lparr>nd_prev := Some ptr\<rparr>]"
  have "as_first s \<noteq> Some (xs ! k)"
    using assms(2,3) k by (auto simp: linked_def hd_conv_nth nth_eq_iff_index_eq)
  then have s': "s' = s1\<lparr>as_pool := ?pool, as_len := as_len s1 + 1\<rparr>" and p: "p = (ptr, m)"
    using assms(1,3) alloc node k inj c
    by (simp_all add: prv_insert_op_def s1 deref_def prev_of_def next_of_def Let_def
        nth_append nth_list_update)
  have "linked s1 xs"
    using assms(2) by (simp add: s1)
  from k obtain n where n: "k = Suc n"
    by (cases k) auto
  from insert_links [OF \<open>linked s1 xs\<close>, of n ptr ?pool op] assms(3)
  show "linked s' (take k xs @ length (as_pool s) # drop k xs)"
    by (simp add: s' s1 ptr n)
  show "pool_ops s' = pool_ops s @ [op]"
    using node by (simp add: pool_ops_def s' s1 map_update map_update_same)
  show "p = (length (as_pool s), as_pool_max s')"
    by (simp add: p s' s1 ptr)
qed

section \<open>Operations that append\<close>

text \<open>
  What the functions of the code generator rely on: a sequence to which operations are appended, and
  which keeps its earlier ones.
\<close>

locale op_sequence =
  fixes append :: "'op \<Rightarrow> 's \<Rightarrow> 'e + 'p \<times> 's" and contents :: "'s \<Rightarrow> 'op list" and ok :: "'s \<Rightarrow> bool"
  assumes append_ok: "append x s = Inr (p, s') \<Longrightarrow> ok s \<Longrightarrow> ok s'"
    and append_contents: "append x s = Inr (p, s') \<Longrightarrow> ok s \<Longrightarrow> contents s' = contents s @ [x]"
begin

lemma append_all:
  assumes "each (\<lambda>x s. rbind (append x s) (\<lambda>(p, s). Inr s)) xs s = Inr s'" and "ok s"
  shows "ok s' \<and> contents s' = contents s @ xs"
  using assms
proof (induction xs arbitrary: s)
  case (Cons x xs)
  then obtain p s1 where 1: "append x s = Inr (p, s1)"
      and "each (\<lambda>x s. rbind (append x s) (\<lambda>(p, s). Inr s)) xs s1 = Inr s'"
    by (auto simp: rbind_eq_Inr split: prod.splits)
  with Cons append_ok [OF 1] append_contents [OF 1] show ?case
    by simp
qed simp

lemma append_keeps:
  assumes "append x s = Inr (p, s')" and "ok s" and "i < length (contents s)"
  shows "contents s' ! i = contents s ! i"
  using append_contents [OF assms(1,2)] assms(3) by (simp add: nth_append)

end

text \<open>The operations of a section in the order of the list, wherever they lie in the pool.\<close>

definition well_linked :: "arm_s \<Rightarrow> bool" where
  "well_linked s \<longleftrightarrow> (\<exists>xs. linked s xs)"

definition section_ops :: "arm_s \<Rightarrow> arm_op list" where
  "section_ops s = (case walk_ops (as_len s) (as_pool s) (as_first s) of Inr ops \<Rightarrow> ops | Inl _ \<Rightarrow> [])"

lemma section_ops_linked: "linked s xs \<Longrightarrow> section_ops s = ops_at s xs"
  by (simp add: section_ops_def walk_linked)

lemma append_op_contents:
  assumes "prv_append_op op s = Inr (p, s')" and "linked s xs"
  shows "section_ops s' = section_ops s @ [op]"
proof -
  note app = append_op_Inr [OF assms]
  have "map ((!) (pool_ops s')) xs = map ((!) (pool_ops s)) xs"
    unfolding app(2) using linked_index [OF assms(2)] by (auto simp: nth_append pool_ops_def)
  with assms(2) app(1,2) show ?thesis
    by (simp add: section_ops_linked ops_at_pool_ops nth_append pool_ops_def)
qed

interpretation sections: op_sequence prv_append_op section_ops well_linked
  by unfold_locales (auto simp: well_linked_def append_op_contents dest: append_op_Inr(1))

section \<open>Properties\<close>

lemma insert_op_contents:
  assumes "prv_insert_op op (xs ! k, c) s = Inr (p, s')" and "linked s xs" and "k < length xs"
  shows "0 < k \<and> well_linked s' \<and> section_ops s' = take k (section_ops s) @ op # drop k (section_ops s)"
proof -
  note ins = insert_op_Inr [OF assms]
  have old: "map ((!) (pool_ops s')) ys = map ((!) (pool_ops s)) ys" if "set ys \<subseteq> set xs" for ys
    unfolding ins(3) using linked_index [OF assms(2)] that by (auto simp: nth_append pool_ops_def)
  have new: "pool_ops s' ! length (as_pool s) = op"
    unfolding ins(3) by (simp add: pool_ops_def nth_append)
  show ?thesis
    using ins(1,2) assms(2) old [of "take k xs"] old [of "drop k xs"] new
    by (auto simp: well_linked_def section_ops_linked ops_at_pool_ops take_map drop_map
        set_take_subset set_drop_subset)
qed

lemma append_op_granted:
  assumes "linked s xs" and "length (as_pool s) < as_pool_max s"
  shows "\<exists>p s'. prv_append_op op s = Inr (p, s')"
proof (cases "xs = []")
  case True
  with assms show ?thesis
    by (auto simp: prv_append_op_def sbind_def arm_op_pool_alloc_def Let_def linked_def)
next
  case False
  with assms linked_index [OF assms(1), of "last xs"] show ?thesis
    by (auto simp: prv_append_op_def sbind_def arm_op_pool_alloc_def Let_def linked_def)
qed

lemma insert_op_room:
  assumes "linked s xs" and "0 < k" and "k < length xs" and "length (as_pool s) < as_pool_max s"
  shows "\<exists>p s'. prv_insert_op op (xs ! k, as_pool_max s) s = Inr (p, s')"
proof -
  have "nd_prev (as_pool s ! (xs ! k)) = prev_of xs k" "xs ! k < length (as_pool s)"
      "nd_next (as_pool s ! (xs ! (k - 1))) = next_of xs (k - 1)" "xs ! (k - 1) < length (as_pool s)"
    using assms(1-3) by (simp_all add: linked_def)
  with assms(2-4) show ?thesis
    by (simp add: prv_insert_op_def deref_def arm_op_pool_alloc_def prev_of_def next_of_def Let_def)
qed

text \<open>Inserting before the first operation writes to the predecessor it does not have.\<close>

lemma insert_before_first:
  assumes "linked s xs" and "xs \<noteq> []" and "length (as_pool s) < as_pool_max s"
  shows "prv_insert_op op (xs ! 0, as_pool_max s) s = Inl Undefined"
proof -
  have "nd_prev (as_pool s ! (xs ! 0)) = None" and "xs ! 0 < length (as_pool s)" and "as_first s = Some (xs ! 0)"
    using assms(1,2) by (auto simp: linked_def prev_of_def hd_conv_nth)
  with assms(3) show ?thesis
    by (simp add: prv_insert_op_def deref_def arm_op_pool_alloc_def)
qed

text \<open>
  C22: on a section whose operations \<open>xs\<close> are doubly linked in the pool, appending an operation and inserting one
  before the \<open>k\<close>-th do to the list of its operations what their names say: appending puts it last, inserting makes it
  the \<open>k\<close>-th, the others keep their order, and the list stays doubly linked. Both succeed when the pool has
  room, except that inserting before the first operation writes to a predecessor that does not exist.
\<close>

theorem section_insert_refines:
  assumes "linked s xs"
  shows "(\<forall>p s'. prv_append_op op s = Inr (p, s') \<longrightarrow> well_linked s' \<and> section_ops s' = section_ops s @ [op])
    \<and> (\<forall>k c p s'. k < length xs \<longrightarrow> prv_insert_op op (xs ! k, c) s = Inr (p, s') \<longrightarrow>
         0 < k \<and> well_linked s' \<and> section_ops s' = take k (section_ops s) @ op # drop k (section_ops s))
    \<and> (length (as_pool s) < as_pool_max s \<longrightarrow>
         (\<exists>p s'. prv_append_op op s = Inr (p, s'))
         \<and> (\<forall>k < length xs. if k = 0 then prv_insert_op op (xs ! k, as_pool_max s) s = Inl Undefined
             else \<exists>p s'. prv_insert_op op (xs ! k, as_pool_max s) s = Inr (p, s')))"
proof (intro conjI allI impI)
  fix p s'
  assume app: "prv_append_op op s = Inr (p, s')"
  show "well_linked s'" and "section_ops s' = section_ops s @ [op]"
    using append_op_Inr(1) [OF app assms] append_op_contents [OF app assms] by (auto simp: well_linked_def)
next
  fix k c p s'
  assume "k < length xs" and "prv_insert_op op (xs ! k, c) s = Inr (p, s')"
  from insert_op_contents [OF this(2) assms this(1)]
  show "0 < k" and "well_linked s'" and "section_ops s' = take k (section_ops s) @ op # drop k (section_ops s)"
    by simp_all
next
  assume room: "length (as_pool s) < as_pool_max s"
  then show "\<exists>p s'. prv_append_op op s = Inr (p, s')"
    by (rule append_op_granted [OF assms])
  fix k
  assume "k < length xs"
  then show "if k = 0 then prv_insert_op op (xs ! k, as_pool_max s) s = Inl Undefined
      else \<exists>p s'. prv_insert_op op (xs ! k, as_pool_max s) s = Inr (p, s')"
    using insert_before_first [OF assms _ room, of op] insert_op_room [OF assms _ _ room, of k op] by (cases k) auto
qed

definition example_section :: arm_s where
  "example_section = \<lparr>as_pool = [\<lparr>nd_op = Op_label 0, nd_next = Some 1, nd_prev = None\<rparr>,
       \<lparr>nd_op = Op_label 1, nd_next = None, nd_prev = Some 0\<rparr>],
     as_pool_max = 4096, as_first = Some 0, as_last = Some 1, as_len = 2, as_reg_counter = 4,
     as_freg_counter = 0, as_label_counter = 2, as_locals = 0, as_no_cleanup_label = 0,
     as_ui32 = vec_empty, as_real = vec_empty, as_ret_sites = vec_empty, as_call_sites = vec_empty,
     as_start_address = 0, as_fp_max_regs = 8, as_allocs = []\<rparr>"

lemma example_linked: "linked example_section [0, 1]"
  by (auto simp: linked_def example_section_def next_of_def prev_of_def less_Suc_eq)

theorem section_insert_refines_witness:
  "\<exists>p s'. prv_insert_op (Op_byte 7) (1, 4096) example_section = Inr (p, s')
    \<and> section_ops s' = [Op_label 0, Op_byte 7, Op_label 1]"
proof -
  have max: "as_pool_max example_section = 4096"
    by (simp add: example_section_def)
  obtain p s' where ins: "prv_insert_op (Op_byte 7) ([0, 1] ! 1, 4096) example_section = Inr (p, s')"
    using insert_op_room [OF example_linked, of 1 "Op_byte 7", unfolded max]
    by (auto simp: example_section_def)
  have "section_ops example_section = [Op_label 0, Op_label 1]"
    by (simp add: section_ops_linked [OF example_linked] ops_at_def) (simp add: example_section_def)
  moreover have "section_ops s' = take 1 (section_ops example_section) @ Op_byte 7 # drop 1 (section_ops example_section)"
    using conjunct1 [OF conjunct2 [OF section_insert_refines [OF example_linked]], rule_format, OF _ ins] by simp
  ultimately show ?thesis
    using ins by auto
qed

text \<open>The forward links alone, which is what the walker follows.\<close>

fun seg :: "arm_node list \<Rightarrow> nat option \<Rightarrow> nat list \<Rightarrow> nat option \<Rightarrow> bool" where
  "seg pool a [] b \<longleftrightarrow> a = b"
| "seg pool a (x # xs) b \<longleftrightarrow> a = Some x \<and> x < length pool \<and> seg pool (nd_next (pool ! x)) xs b"

lemma seg_append: "seg pool a (xs @ ys) c \<longleftrightarrow> (\<exists>b. seg pool a xs b \<and> seg pool b ys c)"
  by (induction xs arbitrary: a) auto

lemma seg_cong:
  assumes "\<And>x. x \<in> set xs \<Longrightarrow> x < length pool' \<and> nd_next (pool' ! x) = nd_next (pool ! x)"
  shows "seg pool a xs b \<Longrightarrow> seg pool' a xs b"
  using assms by (induction xs arbitrary: a) auto

lemma walk_seg: "seg pool a xs None \<Longrightarrow> walk_ops (length xs) pool a = Inr (map (\<lambda>i. nd_op (pool ! i)) xs)"
  by (induction xs arbitrary: a) auto

lemma linked_seg:
  assumes "linked s xs"
  shows "seg (as_pool s) (as_first s) xs None"
proof -
  have "seg (as_pool s) (if j < length xs then Some (xs ! j) else None) (drop j xs) None" if "j \<le> length xs" for j
    using that
  proof (induction rule: inc_induct)
    case (step j)
    with assms show ?case
      by (simp add: linked_def next_of_def Cons_nth_drop_Suc [symmetric])
  qed simp
  from this [of 0] assms show ?thesis
    by (auto simp: linked_def hd_conv_nth)
qed

lemma section_ops_seg:
  assumes "seg (as_pool s) (as_first s) xs None" and "as_len s = length xs"
  shows "section_ops s = ops_at s xs"
  using walk_seg [OF assms(1)] assms(2) by (simp add: section_ops_def ops_at_def)

lemma dup_instr_room:
  assumes "linked s (xs @ [l])" and "length (as_pool s) < as_pool_max s"
  shows "\<exists>s1. arm_section_dup_instr f s = Inr ((length (as_pool s), as_pool_max s), s1)
    \<and> as_pool_max s1 = as_pool_max s \<and> as_allocs s1 = as_allocs s \<and> as_len s1 = Suc (as_len s) \<and> as_first s1 = as_first s
    \<and> as_pool s1 = (as_pool s)[l := (as_pool s ! l)\<lparr>nd_next := Some (length (as_pool s))\<rparr>]
        @ [(as_pool s ! l)\<lparr>nd_op := f (nd_op (as_pool s ! l)), nd_next := None\<rparr>]"
proof -
  have "l < length (as_pool s)"
    using linked_index [OF assms(1), of l] by simp
  moreover have "as_last s = Some l" and "\<exists>x. as_first s = Some x" and "as_len s \<noteq> 0"
    using assms(1) by (auto simp: linked_def)
  ultimately show ?thesis
    using assms(2)
    by (auto simp: arm_section_dup_instr_def prv_append_op_def sbind_def arm_op_pool_alloc_def Let_def
        deref_def nth_append nth_list_update list_update_append split: prod.splits)
qed

text \<open>
  C23: the copy of the last operation keeps the predecessor of the original. An operation that is
  inserted before the copy therefore ends up before the original.
\<close>

theorem dup_insert_misplaced:
  assumes "linked s (xs @ [p, l])" and "length (as_pool s) + 2 \<le> as_pool_max s"
  shows "\<exists>d s1 q s2. arm_section_dup_instr f s = Inr (d, s1)
    \<and> section_ops s1 = section_ops s @ [f (last (section_ops s))]
    \<and> prv_insert_op op d s1 = Inr (q, s2)
    \<and> section_ops s2 = butlast (section_ops s) @ [op, last (section_ops s), f (last (section_ops s))]"
proof -
  let ?n = "length (as_pool s)" and ?c = "as_pool_max s"
  have idx: "x < ?n" if "x \<in> set (xs @ [p, l])" for x
    using linked_index [OF assms(1) that] .
  have dist: "distinct (xs @ [p, l])" and len: "as_len s = length (xs @ [p, l])"
    using assms(1) by (simp_all add: linked_def)
  have pn: "nd_next (as_pool s ! p) = Some l"
    using linked_node(1) [OF assms(1), of "length xs"] by (simp add: next_of_def nth_append)
  have lp: "nd_prev (as_pool s ! l) = Some p"
    using linked_node(2) [OF assms(1), of "Suc (length xs)"] by (simp add: prev_of_def nth_append)
  have first: "as_first s \<noteq> Some l" "as_first s \<noteq> None"
    using assms(1) dist by (cases xs; auto simp: linked_def)+
  obtain s1 where dup: "arm_section_dup_instr f s = Inr ((?n, ?c), s1)"
    and s1: "as_pool_max s1 = ?c" "as_len s1 = Suc (as_len s)" "as_first s1 = as_first s"
    and pool1: "as_pool s1 = (as_pool s)[l := (as_pool s ! l)\<lparr>nd_next := Some ?n\<rparr>]
        @ [(as_pool s ! l)\<lparr>nd_op := f (nd_op (as_pool s ! l)), nd_next := None\<rparr>]"
    using dup_instr_room [of s "xs @ [p]" l f] assms by auto
  have seg0: "seg (as_pool s) (as_first s) xs (Some p)"
    using linked_seg [OF assms(1)] by (auto simp: seg_append)
  have lens: "p < ?n" "l < ?n" "p \<noteq> l" "p \<notin> set xs" "l \<notin> set xs"
    using idx dist by auto
  have xs_lt: "\<forall>x\<in>set xs. x < ?n"
    using idx by simp
  have seg1: "seg (as_pool s1) (as_first s1) xs (Some p)"
    unfolding s1(3) by (rule seg_cong [OF _ seg0]) (use xs_lt lens in \<open>auto simp: pool1 nth_append nth_list_update intro: less_SucI\<close>)
  then have "seg (as_pool s1) (as_first s1) (xs @ [p, l, ?n]) None"
    using lens pn by (auto simp: seg_append pool1 nth_append nth_list_update)
  from section_ops_seg [OF this] len s1(2) have ops1: "section_ops s1 = ops_at s1 (xs @ [p, l, ?n])"
    by simp
  have ops: "section_ops s = ops_at s (xs @ [p, l])"
    using assms(1) by (rule section_ops_linked)
  have pops1: "pool_ops s1 = pool_ops s @ [f (nd_op (as_pool s ! l))]"
    using map_update_same [of l "as_pool s" nd_op "[]"] lens by (simp add: pool_ops_def pool1 map_update)
  let ?q = "Suc ?n"
  let ?pool2 = "(as_pool s1 @ [\<lparr>nd_op = op, nd_next = Some l, nd_prev = Some p\<rparr>])
      [p := (as_pool s1 ! p)\<lparr>nd_next := Some ?q\<rparr>, l := (as_pool s1 ! l)\<lparr>nd_prev := Some ?q\<rparr>]"
  have ins: "prv_insert_op op (?n, ?c) s1 = Inr ((?q, ?c), s1\<lparr>as_pool := ?pool2, as_len := as_len s1 + 1\<rparr>)"
    using lens lp pn first assms(2) s1
    by (simp add: prv_insert_op_def deref_def arm_op_pool_alloc_def pool1 nth_append nth_list_update
        Let_def)
  obtain s2 where s2: "s2 = s1\<lparr>as_pool := ?pool2, as_len := as_len s1 + 1\<rparr>"
    by simp
  have pool2: "as_pool s2 = ?pool2" and first2: "as_first s2 = as_first s1" and len2: "as_len s2 = as_len s1 + 1"
    by (simp_all add: s2)
  have "seg (as_pool s2) (as_first s2) xs (Some p)"
    unfolding first2
    by (rule seg_cong [OF _ seg1]) (use xs_lt lens in \<open>auto simp: pool1 pool2 nth_append nth_list_update intro: less_SucI\<close>)
  then have "seg (as_pool s2) (as_first s2) (xs @ [p, ?q, l, ?n]) None"
    using lens pn by (auto simp: seg_append pool1 pool2 nth_append nth_list_update)
  from section_ops_seg [OF this] len s1(2) len2
  have ops2: "section_ops s2 = ops_at s2 (xs @ [p, ?q, l, ?n])"
    by simp
  have pops2: "pool_ops s2 = pool_ops s1 @ [op]"
    using map_update_same [of p "as_pool s1" nd_op "[op]"] map_update_same [of l "as_pool s1" nd_op "[op]"] lens
    by (simp add: pool_ops_def map_update pool2) (simp add: pool1)
  have lens2: "length (as_pool s1) = Suc ?n" "length (as_pool s2) = Suc (Suc ?n)"
    by (simp_all add: pool1 pool2)
  have map_old: "map ((!) (pool_ops s @ zs)) xs = map ((!) (pool_ops s)) xs" for zs
    using xs_lt by (auto simp: nth_append pool_ops_def)
  have last: "pool_ops s ! l = nd_op (as_pool s ! l)" "length (pool_ops s) = ?n"
    using lens by (simp_all add: pool_ops_def)
  have "section_ops s = map ((!) (pool_ops s)) xs @ [pool_ops s ! p, pool_ops s ! l]"
    using ops ops_at_pool_ops [OF assms(1)] by simp
  moreover have "section_ops s1 = map ((!) (pool_ops s)) xs @ [pool_ops s ! p, pool_ops s ! l, f (pool_ops s ! l)]"
    using ops1 ops_at_nth [of "xs @ [p, l, ?n]" s1] xs_lt lens last
    by (simp add: pops1 map_old nth_append lens2 less_SucI)
  moreover have "section_ops s2 = map ((!) (pool_ops s)) xs
      @ [pool_ops s ! p, op, pool_ops s ! l, f (pool_ops s ! l)]"
    using ops2 ops_at_nth [of "xs @ [p, ?q, l, ?n]" s2] xs_lt lens last
    by (simp add: pops1 pops2 map_old nth_append lens2 less_SucI)
  ultimately show ?thesis
    using dup ins [folded s2] by (auto simp: butlast_append)
qed

theorem dup_insert_misplaced_witness:
  "\<exists>d s1 q s2. arm_section_dup_instr (\<lambda>_. Op_byte 2) example_section = Inr (d, s1)
    \<and> section_ops s1 = [Op_label 0, Op_label 1, Op_byte 2]
    \<and> prv_insert_op (Op_byte 7) d s1 = Inr (q, s2)
    \<and> section_ops s2 = [Op_label 0, Op_byte 7, Op_label 1, Op_byte 2]"
proof -
  have "section_ops example_section = [Op_label 0, Op_label 1]"
    by (simp add: section_ops_linked [OF example_linked] ops_at_def) (simp add: example_section_def)
  with dup_insert_misplaced [of example_section "[]" 0 1 "\<lambda>_. Op_byte 2" "Op_byte 7"] example_linked
  show ?thesis
    by (simp add: example_section_def [THEN arg_cong [of _ _ as_pool_max]]
        example_section_def [THEN arg_cong [of _ _ as_pool]])
qed

end
