(* ===== verification/Arm_Div.thy ===== *)
theory Arm_Div
  imports Arm_Section_Laws
begin

text \<open>
  The division routine the compiler adds to every program for processors without a division
  (arch/arm32/arm2_div.c): the function that appends its instructions to a section. It keeps pointers
  to two of them, and later reads instructions through these pointers to append changed copies.
\<close>

section \<open>Copies of instructions\<close>

text \<open>Reading the operands of a data processing instruction behind a pointer.\<close>

definition read_data :: "op_ptr \<Rightarrow> (data_instr, arm_s) c_state" where
  "read_data p s =
     rbind (deref p s) (\<lambda>n. case nd_op n of Op_instr (Data _ d) \<Rightarrow> Inr (d, s) | _ \<Rightarrow> Inl Undefined)"

text \<open>
  An instruction is appended first; its operands, still zero, are then assigned those of another and
  changed by \<open>f\<close>.
\<close>

definition add_copied :: "data_type \<Rightarrow> op_ptr \<Rightarrow> (data_instr \<Rightarrow> data_instr) \<Rightarrow> (op_ptr, arm_s) c_state" where
  "add_copied itype src f =
     sbind (arm_section_add_instr (Data itype (data CC_EQ False 0 0 (OP2_REG 0)))) (\<lambda>p.
     sbind (read_data src) (\<lambda>d.
     sthen (update_op p (\<lambda>_. Op_instr (Data itype (f d)))) (sret p)))"

definition shifted :: "arm_reg \<Rightarrow> shift_type \<Rightarrow> u32 \<Rightarrow> arm_op2" where
  "shifted r kind n = OP2_SHIFTED \<lparr>shift_of_reg = r, shift_kind = kind, shift_by = Shift_integer n\<rparr>"

definition set_shift :: "u32 \<Rightarrow> data_instr \<Rightarrow> data_instr" where
  "set_shift n d = d\<lparr>data_op2 := (case data_op2 d of
     OP2_SHIFTED s \<Rightarrow> OP2_SHIFTED (s\<lparr>shift_by := Shift_integer n\<rparr>) | op2 \<Rightarrow> op2)\<rparr>"

definition set_shift_kind :: "shift_type \<Rightarrow> data_instr \<Rightarrow> data_instr" where
  "set_shift_kind k d = d\<lparr>data_op2 := (case data_op2 d of
     OP2_SHIFTED s \<Rightarrow> OP2_SHIFTED (s\<lparr>shift_kind := k\<rparr>) | op2 \<Rightarrow> op2)\<rparr>"

definition add_branch :: "ccode \<Rightarrow> nat \<Rightarrow> (op_ptr, arm_s) c_state" where
  "add_branch cc label = arm_section_add_instr (Br \<lparr>br_ccode = cc, br_link = False, br_local = False,
     br_indirect = False, br_kind = BR_LINK_VOID, br_target = Target_label (of_nat label)\<rparr>)"

section \<open>The routine\<close>

text \<open>
  The dividend is in \<open>R0\<close> and the divisor in \<open>R1\<close>; \<open>R2\<close> tells whether the remainder is wanted, \<open>R3\<close>
  is the offset of the error flag. \<open>R4\<close> to \<open>R7\<close> are a temporary, the quotient, the signs, and the
  offset of the error number.
\<close>

definition SUBTILIS_ERROR_CODE_DIV_BY_ZERO :: u32 where
  "SUBTILIS_ERROR_CODE_DIV_BY_ZERO = 18"

text \<open>One step of the division: the quotient bit for the divisor shifted by \<open>i\<close>.\<close>

definition prv_add_rsa_group :: "u32 \<Rightarrow> (op_ptr, arm_s) c_state" where
  "prv_add_rsa_group i =
     sthen (arm_section_add_instr (Data INSTR_RSB (data CC_AL True 4 1 (shifted 0 SHIFT_LSR i))))
     (sthen (arm_section_add_instr (Data INSTR_SUB (data CC_CS False 0 0 (shifted 1 SHIFT_LSL i))))
       (arm_section_add_instr (Data INSTR_ADC (data CC_AL False 5 5 (OP2_REG 5)))))"

text \<open>The offset of the error number is loaded, the signs are noted and the operands made positive.\<close>

definition idiv_signs :: "(unit, arm_s) c_state" where
  "idiv_signs =
     sthen (arm_add_stran_imm INSTR_LDR CC_AL 7 13 (- 4) False)
     (sthen (arm_add_data_imm INSTR_AND CC_AL True 6 1 0x80000000)
     (sthen (arm_add_data_imm INSTR_RSB CC_MI False 1 1 0)
     (sthen (arm_section_add_instr (Data INSTR_EOR (data CC_AL True 6 6 (shifted 0 SHIFT_ASR 32))))
     (sthen (arm_add_data_imm INSTR_RSB CC_CS False 0 0 0)
       (arm_add_mov_imm CC_AL False 5 0)))))"

text \<open>
  The divisor is shifted left by eight until the quotient has at most eight more bits, and every
  shift is noted by eight ones at the top of the quotient.
\<close>

definition idiv_scale :: "(op_ptr \<times> op_ptr, arm_s) c_state" where
  "idiv_scale =
     sbind (arm_section_add_instr (Data INSTR_RSB (data CC_AL True 4 1 (shifted 0 SHIFT_LSR 3)))) (\<lambda>rsb.
     sthen (add_branch CC_CC 3)
     (sthen (add_copied INSTR_RSB rsb (set_shift 8))
     (sthen (add_branch CC_CC 1)
     (sbind (arm_section_add_instr (Data INSTR_MOV (data CC_AL False 1 0 (shifted 1 SHIFT_LSL 8)))) (\<lambda>shiftd.
     sthen (arm_add_data_imm INSTR_ORR CC_AL False 5 5 0xff000000)
     (sthen (add_copied INSTR_RSB rsb (set_shift 4))
     (sthen (add_branch CC_CC 2)
     (sthen (add_copied INSTR_RSB rsb (set_shift 8))
     (sthen (add_branch CC_CC 1)
     (sthen (add_copied INSTR_MOV shiftd id)
     (sthen (arm_add_data_imm INSTR_ORR CC_AL False 5 5 0xff0000)
     (sthen (add_copied INSTR_RSB rsb (set_shift 8))
     (sthen (add_copied INSTR_MOV shiftd (\<lambda>d. d\<lparr>data_ccode := CC_CS\<rparr>))
     (sthen (arm_add_data_imm INSTR_ORR CC_CS False 5 5 0xff00)
     (sthen (add_copied INSTR_RSB rsb (set_shift 4))
     (sthen (add_branch CC_CC 2)
     (sthen (add_copied INSTR_RSB rsb (\<lambda>d. d\<lparr>data_op2 := OP2_I32 0\<rparr>))
     (sthen (add_branch CC_CS 5)
       (sret (rsb, shiftd))))))))))))))))))))"

text \<open>The eight steps, repeated for every eight ones, entered where enough bits are left.\<close>

definition idiv_steps :: "op_ptr \<Rightarrow> op_ptr \<Rightarrow> (op_ptr, arm_s) c_state" where
  "idiv_steps rsb shiftd =
     sthen (arm_section_add_label 0)
     (sthen (add_copied INSTR_MOV shiftd (set_shift_kind SHIFT_LSR \<circ> (\<lambda>d. d\<lparr>data_ccode := CC_CS\<rparr>)))
     (sthen (arm_section_add_label 1)
     (sthen (prv_add_rsa_group 7)
     (sthen (prv_add_rsa_group 6)
     (sthen (prv_add_rsa_group 5)
     (sthen (prv_add_rsa_group 4)
     (sthen (arm_section_add_label 2)
     (sthen (prv_add_rsa_group 3)
     (sthen (arm_section_add_label 3)
     (sthen (prv_add_rsa_group 2)
     (sthen (prv_add_rsa_group 1)
     (sthen (add_copied INSTR_RSB rsb (\<lambda>d. d\<lparr>data_op2 := OP2_REG 0\<rparr>))
     (sthen (arm_section_add_instr (Data INSTR_SUB (data CC_CS False 0 0 (OP2_REG 1))))
     (sthen (arm_section_add_instr (Data INSTR_ADC (data CC_AL True 5 5 (OP2_REG 5))))
     (sthen (arm_section_add_label 4)
       (add_branch CC_CS 0))))))))))))))))"

text \<open>The sign of the result, the same for quotient and remainder, and the return.\<close>

definition idiv_return :: "(op_ptr, arm_s) c_state" where
  "idiv_return =
     sthen (arm_section_add_instr (Data INSTR_MOV (data CC_AL True 6 0 (shifted 6 SHIFT_LSL 1))))
     (sthen (arm_add_data_imm INSTR_RSB CC_CS False 0 0 0)
       (arm_add_mov_reg CC_AL False 15 14))"

definition idiv_results :: "(op_ptr, arm_s) c_state" where
  "idiv_results =
     sthen (arm_add_cmp_imm INSTR_CMP CC_AL 2 0)
     (sthen (add_branch CC_NE 6)
     (sthen (arm_add_mov_reg CC_AL False 0 5)
     (sthen idiv_return
     (sthen (arm_section_add_label 6)
       idiv_return))))"

text \<open>Division by zero: the error number and the error flag are stored, and the routine returns.\<close>

definition idiv_error :: "(op_ptr, arm_s) c_state" where
  "idiv_error =
     sthen (arm_section_add_label 5)
     (sthen (arm_add_mov_imm CC_AL False 0 SUBTILIS_ERROR_CODE_DIV_BY_ZERO)
     (sthen (arm_section_add_instr (Stran INSTR_STR (stran CC_AL 0 12 (OP2_REG 7) True False False False)))
     (sthen (arm_add_mov_imm CC_AL False 0 (- 1))
     (sthen (arm_section_add_instr (Stran INSTR_STR (stran CC_AL 0 12 (OP2_REG 3) True False False False)))
       (arm_add_mov_reg CC_AL False 15 14)))))"

definition subtilis_arm2_idiv_add :: "(unit, arm_s) c_state" where
  "subtilis_arm2_idiv_add =
     sthen idiv_signs
     (sbind idiv_scale (\<lambda>(rsb, shiftd).
     sthen (idiv_steps rsb shiftd)
     (sthen idiv_results
     (sthen idiv_error (sret ())))))"

section \<open>What is appended\<close>

definition branch_to :: "ccode \<Rightarrow> nat \<Rightarrow> arm_op" where
  "branch_to cc label = Op_instr (Br \<lparr>br_ccode = cc, br_link = False, br_local = False,
     br_indirect = False, br_kind = BR_LINK_VOID, br_target = Target_label (of_nat label)\<rparr>)"

definition step_ops :: "u32 \<Rightarrow> arm_op list" where
  "step_ops i = [Op_instr (Data INSTR_RSB (data CC_AL True 4 1 (shifted 0 SHIFT_LSR i))),
     Op_instr (Data INSTR_SUB (data CC_CS False 0 0 (shifted 1 SHIFT_LSL i))),
     Op_instr (Data INSTR_ADC (data CC_AL False 5 5 (OP2_REG 5)))]"

definition return_ops :: "arm_op list" where
  "return_ops = [Op_instr (Data INSTR_MOV (data CC_AL True 6 0 (shifted 6 SHIFT_LSL 1))),
     Op_instr (Data INSTR_RSB (data CC_CS False 0 0 (OP2_I32 0))),
     Op_instr (Data INSTR_MOV (data CC_AL False 15 0 (OP2_REG 14)))]"

abbreviation compare_shifted :: "u32 \<Rightarrow> arm_op" where
  "compare_shifted i \<equiv> Op_instr (Data INSTR_RSB (data CC_AL True 4 1 (shifted 0 SHIFT_LSR i)))"

definition idiv_ops :: "arm_op list" where
  "idiv_ops =
    [Op_instr (Stran INSTR_LDR (stran CC_AL 7 13 (OP2_I32 4) True False True False)),
     Op_instr (Data INSTR_AND (data CC_AL True 6 1 (OP2_I32 0x102))),
     Op_instr (Data INSTR_RSB (data CC_MI False 1 1 (OP2_I32 0))),
     Op_instr (Data INSTR_EOR (data CC_AL True 6 6 (shifted 0 SHIFT_ASR 32))),
     Op_instr (Data INSTR_RSB (data CC_CS False 0 0 (OP2_I32 0))),
     Op_instr (Data INSTR_MOV (data CC_AL False 5 0 (OP2_I32 0))),
     compare_shifted 3, branch_to CC_CC 3, compare_shifted 8, branch_to CC_CC 1,
     Op_instr (Data INSTR_MOV (data CC_AL False 1 0 (shifted 1 SHIFT_LSL 8))),
     Op_instr (Data INSTR_ORR (data CC_AL False 5 5 (OP2_I32 0x4ff))),
     compare_shifted 4, branch_to CC_CC 2, compare_shifted 8, branch_to CC_CC 1,
     Op_instr (Data INSTR_MOV (data CC_AL False 1 0 (shifted 1 SHIFT_LSL 8))),
     Op_instr (Data INSTR_ORR (data CC_AL False 5 5 (OP2_I32 0x8ff))),
     compare_shifted 8,
     Op_instr (Data INSTR_MOV (data CC_CS False 1 0 (shifted 1 SHIFT_LSL 8))),
     Op_instr (Data INSTR_ORR (data CC_CS False 5 5 (OP2_I32 0xcff))),
     compare_shifted 4, branch_to CC_CC 2,
     Op_instr (Data INSTR_RSB (data CC_AL True 4 1 (OP2_I32 0))), branch_to CC_CS 5,
     Op_label 0,
     Op_instr (Data INSTR_MOV (data CC_CS False 1 0 (shifted 1 SHIFT_LSR 8))),
     Op_label 1] @ step_ops 7 @ step_ops 6 @ step_ops 5 @ step_ops 4
    @ [Op_label 2] @ step_ops 3 @ [Op_label 3] @ step_ops 2 @ step_ops 1
    @ [Op_instr (Data INSTR_RSB (data CC_AL True 4 1 (OP2_REG 0))),
     Op_instr (Data INSTR_SUB (data CC_CS False 0 0 (OP2_REG 1))),
     Op_instr (Data INSTR_ADC (data CC_AL True 5 5 (OP2_REG 5))),
     Op_label 4, branch_to CC_CS 0,
     Op_instr (Data INSTR_CMP (data CC_AL True 0 2 (OP2_I32 0))), branch_to CC_NE 6,
     Op_instr (Data INSTR_MOV (data CC_AL False 0 0 (OP2_REG 5)))] @ return_ops
    @ [Op_label 6] @ return_ops
    @ [Op_label 5, Op_instr (Data INSTR_MOV (data CC_AL False 0 0 (OP2_I32 18))),
     Op_instr (Stran INSTR_STR (stran CC_AL 0 12 (OP2_REG 7) True False False False)),
     Op_instr (Data INSTR_MVN (data CC_AL False 0 0 (OP2_I32 0))),
     Op_instr (Stran INSTR_STR (stran CC_AL 0 12 (OP2_REG 3) True False False False)),
     Op_instr (Data INSTR_MOV (data CC_AL False 15 0 (OP2_REG 14)))]"

text \<open>
  A section to which \<open>ops\<close> have been appended, with room for all of the routine, and the instructions
  known behind pointers.
\<close>

definition behind :: "nat \<Rightarrow> arm_op list \<Rightarrow> op_ptr \<times> data_instr \<Rightarrow> bool" where
  "behind capacity ops = (\<lambda>(p, d). snd p = capacity \<and> fst p < length ops
     \<and> (\<exists>t. ops ! fst p = Op_instr (Data t d)))"

definition emitted :: "arm_s \<Rightarrow> arm_op list \<Rightarrow> (op_ptr \<times> data_instr) list \<Rightarrow> arm_s \<Rightarrow> bool" where
  "emitted s0 ops known s \<longleftrightarrow> length (as_pool s0) + 128 \<le> as_pool_max s0 \<and> well_linked s \<and> pool_ops s = pool_ops s0 @ ops
     \<and> section_ops s = section_ops s0 @ ops \<and> as_pool_max s = as_pool_max s0
     \<and> list_all (behind (as_pool_max s0) (pool_ops s0 @ ops)) known"

lemma behind_append: "behind m ops x \<Longrightarrow> behind m (ops @ ops') x"
  by (auto simp: behind_def nth_append)

definition outcome :: "('a \<times> arm_s) c_result \<Rightarrow> ('a \<Rightarrow> arm_s \<Rightarrow> bool) \<Rightarrow> bool" where
  "outcome r Q \<longleftrightarrow> (case r of Inr (x, s) \<Rightarrow> Q x s | Inl _ \<Rightarrow> False)"

lemma sbind_assoc: "sbind (sbind m f) g = sbind m (\<lambda>x. sbind (f x) g)"
  by (rule ext) (simp add: sbind_def rbind_assoc split_def)

lemma sbind_sret [simp]: "sbind (sret x) f = f x"
  by (rule ext) (simp add: sbind_def)

lemma append_op_room:
  assumes "linked s xs" and "length (as_pool s) < as_pool_max s"
  shows "\<exists>s'. prv_append_op op s = Inr ((length (as_pool s), as_pool_max s), s') \<and> as_pool_max s' = as_pool_max s
    \<and> (\<forall>op'. prv_append_op op' s = Inr ((length (as_pool s), as_pool_max s), s'\<lparr>as_pool :=
        (as_pool s')[length (as_pool s) := (as_pool s' ! length (as_pool s))\<lparr>nd_op := op'\<rparr>]\<rparr>))"
proof (cases "xs = []")
  case True
  with assms show ?thesis
    by (auto simp: prv_append_op_def sbind_def arm_op_pool_alloc_def linked_def Let_def)
next
  case False
  with assms have l: "last xs < length (as_pool s)"
    using linked_index by auto
  from False assms show ?thesis
    by (auto simp: prv_append_op_def sbind_def arm_op_pool_alloc_def linked_def Let_def nth_append
        list_update_append less_imp_neq [OF l] array_get_def l less_SucI [OF l])
qed

lemma emitted_append:
  assumes "emitted s0 ops known s" and "prv_append_op op s = Inr (p, s')" and "as_pool_max s' = as_pool_max s"
  shows "emitted s0 (ops @ [op]) known s'"
proof -
  from assms(1) obtain xs where xs: "linked s xs"
    by (auto simp: emitted_def well_linked_def)
  note app = append_op_Inr [OF assms(2) xs]
  have "list_all (behind (as_pool_max s0) (pool_ops s0 @ ops @ [op])) known"
    using assms(1) behind_append [of _ "pool_ops s0 @ ops" _ "[op]"]
    by (auto simp: emitted_def list_all_iff)
  with app(1,2) append_op_contents [OF assms(2) xs] assms(1,3) show ?thesis
    by (auto simp: emitted_def well_linked_def)
qed

lemma length_pool_ops [simp]: "length (pool_ops s) = length (as_pool s)"
  by (simp add: pool_ops_def)

lemma emitted_room: "emitted s0 ops known s \<Longrightarrow> length (as_pool s) = length (as_pool s0) + length ops"
  by (metis emitted_def length_append length_pool_ops)

lemma emit_append:
  assumes "emitted s0 ops known s" and "length ops < 128"
    and "\<And>s'. emitted s0 (ops @ [op]) known s' \<Longrightarrow>
      outcome (k (length (as_pool s0) + length ops, as_pool_max s0) s') Q"
  shows "outcome (sbind (prv_append_op op) k s) Q"
proof -
  from assms(1) obtain xs where xs: "linked s xs" and max: "as_pool_max s = as_pool_max s0"
    by (auto simp: emitted_def well_linked_def)
  note room = emitted_room [OF assms(1)]
  have "length (as_pool s0) + length ops < as_pool_max s0"
    using assms(1,2) by (simp add: emitted_def)
  with room append_op_room [OF xs, of op] max obtain s' where
    s': "prv_append_op op s = Inr ((length (as_pool s), as_pool_max s), s')" "as_pool_max s' = as_pool_max s"
    by auto
  with assms(3) [OF emitted_append [OF assms(1) s']] room max show ?thesis
    by (simp add: sbind_def)
qed

text \<open>The same with the new instruction among those known behind a pointer.\<close>

lemma emit_known:
  assumes "emitted s0 ops known s" and "length ops < 128"
    and "\<And>s' p. emitted s0 (ops @ [Op_instr (Data t d)]) ((p, d) # known) s' \<Longrightarrow> outcome (k p s') Q"
  shows "outcome (sbind (prv_append_op (Op_instr (Data t d))) k s) Q"
proof (rule emit_append [OF assms(1,2)])
  fix s'
  assume "emitted s0 (ops @ [Op_instr (Data t d)]) known s'"
  then have "emitted s0 (ops @ [Op_instr (Data t d)])
      (((length (as_pool s0) + length ops, as_pool_max s0), d) # known) s'"
    by (simp add: emitted_def behind_def nth_append)
  then show "outcome (k (length (as_pool s0) + length ops, as_pool_max s0) s') Q"
    by (rule assms(3))
qed

lemma emit_label:
  assumes "emitted s0 ops known s" and "length ops < 128"
    and "\<And>s'. emitted s0 (ops @ [Op_label l]) known s' \<Longrightarrow> outcome (k () s') Q"
  shows "outcome (sbind (arm_section_add_label l) k s) Q"
  unfolding arm_section_add_label_def sbind_assoc
proof (rule emit_append [OF assms(1,2)])
  fix s'
  assume "emitted s0 (ops @ [Op_label l]) known s'"
  then have "emitted s0 (ops @ [Op_label l]) known (s'\<lparr>as_label_counter := as_label_counter s' + 1\<rparr>)"
    unfolding emitted_def well_linked_def linked_def section_ops_def pool_ops_def by simp
  from assms(3) [OF this]
  show "outcome (sbind (\<lambda>s. Inr ((), s\<lparr>as_label_counter := as_label_counter s + 1\<rparr>)) k s') Q"
    by (simp add: sbind_def)
qed

lemma add_copied_append:
  assumes "linked s xs" and "length (as_pool s) < as_pool_max s" and "fst p < length (as_pool s)"
    and "snd p = as_pool_max s" and "pool_ops s ! fst p = Op_instr (Data t d)"
  shows "add_copied itype p f s = prv_append_op (Op_instr (Data itype (f d))) s"
proof -
  let ?n = "length (as_pool s)"
  obtain s' where s': "prv_append_op (Op_instr (Data itype (data CC_EQ False 0 0 (OP2_REG 0)))) s
      = Inr ((?n, as_pool_max s), s')" "as_pool_max s' = as_pool_max s"
    and any: "\<And>op'. prv_append_op op' s = Inr ((?n, as_pool_max s), s'\<lparr>as_pool :=
      (as_pool s')[?n := (as_pool s' ! ?n)\<lparr>nd_op := op'\<rparr>]\<rparr>)"
    using append_op_room [OF assms(1,2)] by blast
  note ops = append_op_Inr(2) [OF s'(1) assms(1)]
  have len: "length (as_pool s') = Suc ?n"
    using arg_cong [OF ops, of length] by (simp add: pool_ops_def)
  have "pool_ops s' ! fst p = Op_instr (Data t d)"
    unfolding ops using assms(3,5) by (simp add: nth_append pool_ops_def)
  then have node: "nd_op (as_pool s' ! fst p) = Op_instr (Data t d)"
    using assms(3) len by (simp add: pool_ops_def)
  have "deref p s' = Inr (as_pool s' ! fst p)"
    using assms(3,4) len s'(2) by (simp add: deref_def split_def)
  then have "read_data p s' = Inr (d, s')"
    by (simp add: read_data_def node)
  moreover have "deref (?n, as_pool_max s) s' = Inr (as_pool s' ! ?n)"
    using len s'(2) by (simp add: deref_def)
  ultimately show ?thesis
    using s'(1) any by (simp add: add_copied_def arm_section_add_instr_def sbind_def sthen_def update_op_def)
qed

lemma emit_copied:
  assumes "emitted s0 ops known s" and "length ops < 128"
    and "(p, d) \<in> set known"
    and "\<And>s' q. emitted s0 (ops @ [Op_instr (Data itype (f d))]) known s' \<Longrightarrow> outcome (k q s') Q"
  shows "outcome (sbind (add_copied itype p f) k s) Q"
proof -
  from assms(1) have pool: "pool_ops s = pool_ops s0 @ ops"
    by (simp add: emitted_def)
  from assms(1,3) obtain xs t where "linked s xs" "as_pool_max s = as_pool_max s0"
      "snd p = as_pool_max s0" "fst p < length (pool_ops s)" "pool_ops s ! fst p = Op_instr (Data t d)"
    unfolding pool by (auto simp: emitted_def well_linked_def behind_def list_all_iff dest!: bspec)
  moreover have "length (as_pool s) < as_pool_max s"
    using assms(1,2) emitted_room [OF assms(1)] by (simp add: emitted_def)
  ultimately have "add_copied itype p f s = prv_append_op (Op_instr (Data itype (f d))) s"
    by (intro add_copied_append [where xs = xs and t = t]) simp_all
  then have "sbind (add_copied itype p f) k s = sbind (prv_append_op (Op_instr (Data itype (f d)))) k s"
    by (simp add: sbind_def)
  with emit_append [OF assms(1,2)] assms(4) show ?thesis
    by metis
qed

lemma idiv_immediates:
  "arm_encode_imm 0x80000000 = Some 0x102" "arm_encode_imm 0xff000000 = Some 0x4ff"
  "arm_encode_imm 0xff0000 = Some 0x8ff" "arm_encode_imm 0xff00 = Some 0xcff"
  "arm_encode_imm 0 = Some 0" "arm_encode_imm 18 = Some 18" "arm_encode_imm (- 1) = None"
  by code_simp+

lemma mvn_immediate: "arm_encode_imm (NOT (- 1)) = Some 0"
  by code_simp

lemma first_load: "arm_add_stran_imm INSTR_LDR CC_AL 7 13 (- 4) False
    = prv_append_op (Op_instr (Stran INSTR_LDR (stran CC_AL 7 13 (OP2_I32 4) True False True False)))"
  by (rule ext) (simp add: arm_add_stran_imm_def int32_abs_def arm_section_add_instr_def)

lemmas idiv_normal_form = subtilis_arm2_idiv_add_def idiv_signs_def idiv_scale_def idiv_steps_def
  idiv_results_def idiv_return_def idiv_error_def prv_add_rsa_group_def add_branch_def
  arm_section_add_instr_def arm_add_mov_imm_def arm_add_movmvn_imm_def arm_add_data_imm_def
  arm_add_cmp_imm_def arm_add_movmvn_reg_def first_load SUBTILIS_ERROR_CODE_DIV_BY_ZERO_def
  sthen_def sbind_assoc sbind_sret idiv_immediates mvn_immediate option.case prod.case

lemma emitted_start:
  "well_linked s \<Longrightarrow> length (as_pool s) + 128 \<le> as_pool_max s \<Longrightarrow> emitted s [] [] s"
  by (simp add: emitted_def)

lemma emit_end:
  "emitted s0 ops known s \<Longrightarrow> ops = ops' \<Longrightarrow> outcome (sret x s) (\<lambda>_ s'. \<exists>known. emitted s0 ops' known s')"
  by (auto simp: outcome_def)

lemmas latest_known = list.set_intros(1) list.set_intros(2) [OF list.set_intros(1)]

lemma emit_signs:
  assumes "emitted s0 [] [] s" and "\<And>s'. emitted s0 (take 6 idiv_ops) [] s' \<Longrightarrow> outcome (k () s') Q"
  shows "outcome (sbind idiv_signs k s) Q"
  unfolding idiv_normal_form using assms(1)
  by (elim emit_append, simp_all) (rule assms(2), simp add: idiv_ops_def)

lemma idiv_emits:
  assumes "well_linked s" and "length (as_pool s) + 128 \<le> as_pool_max s"
  shows "outcome (subtilis_arm2_idiv_add s) (\<lambda>_ s'. \<exists>known. emitted s idiv_ops known s')"
  unfolding subtilis_arm2_idiv_add_def sthen_def
proof (rule emit_signs [OF emitted_start [OF assms]])
  fix s'
  assume "emitted s (take 6 idiv_ops) [] s'"
  then show "outcome (sbind idiv_scale (\<lambda>(rsb, shiftd). sbind (idiv_steps rsb shiftd)
    (\<lambda>_. sbind idiv_results (\<lambda>_. sbind idiv_error (\<lambda>_. sret ())))) s')
    (\<lambda>_ s'. \<exists>known. emitted s idiv_ops known s')"
    unfolding idiv_normal_form
    apply -
    apply (erule emit_known, simp)
    apply (erule emit_append, simp)
    apply (erule emit_copied, simp, rule latest_known)
    apply (erule emit_append, simp)
    apply (erule emit_known, simp)
    apply ((erule emit_append, simp) | (erule emit_copied, simp, rule latest_known) | (erule emit_label, simp))+
    apply (erule emit_end)
    apply (simp add: idiv_ops_def step_ops_def return_ops_def branch_to_def set_shift_def set_shift_kind_def
        data_def shifted_def)
    done
qed

end
