(* ===== verification/Arm_Vm.thy ===== *)
theory Arm_Vm
  imports Arm_Disass Arm_Imm Subtilis_Memory
begin

text \<open>
  The simulator that runs encoded programs (arch/arm32/arm_vm.c): conditions, second operands, flags,
  the integer instructions, loads and stores, branches, and the loop that fetches, decodes and
  executes. The floating point instructions and the system calls, which work on the host's doubles
  and files, are not modelled; on them \<open>exec_instr\<close> is \<open>None\<close>.

  The sixteen registers are a function: the decoder produces only numbers below sixteen. Registers
  hold \<^verbatim>\<open>int32_t\<close> values, whose arithmetic is taken to wrap around, as the compiler compiles it.
  The C code shifts an \<^verbatim>\<open>int32_t\<close> by 32 for \<^verbatim>\<open>ASR #32\<close>, which C leaves to the machine it runs on: the
  argument \<open>sar32\<close> of the model is what that machine computes.
\<close>

section \<open>The machine\<close>

record arm_vm =
  vm_regs :: "arm_reg \<Rightarrow> u32"
  vm_negative_flag :: bool
  vm_zero_flag :: bool
  vm_carry_flag :: bool
  vm_overflow_flag :: bool
  vm_memory :: "u8 list"
  vm_code_size :: nat
  vm_start_address :: u32
  vm_fpscr :: u32
  vm_quit :: bool
  vm_vfp :: bool

text \<open>Truncating division of C's integers.\<close>

definition sdiv32 :: "u32 \<Rightarrow> int \<Rightarrow> int" where
  "sdiv32 w k = sgn (sint w) * (\<bar>sint w\<bar> div k)"

text \<open>The index of the current word of code; a negative number becomes a huge \<^verbatim>\<open>size_t\<close>.\<close>

definition prv_calc_pc :: "arm_vm \<Rightarrow> nat" where
  "prv_calc_pc vm = unat (word_of_int (sdiv32 (vm_regs vm 15 - vm_start_address vm - 8) 4) :: u64)"

definition set_reg :: "arm_reg \<Rightarrow> u32 \<Rightarrow> arm_vm \<Rightarrow> arm_vm" where
  "set_reg r w vm = vm\<lparr>vm_regs := (vm_regs vm)(r := w)\<rparr>"

definition advance :: "arm_vm \<Rightarrow> arm_vm" where
  "advance vm = set_reg 15 (vm_regs vm 15 + 4) vm"

fun prv_match_ccode :: "arm_vm \<Rightarrow> ccode \<Rightarrow> bool" where
  "prv_match_ccode vm CC_EQ = vm_zero_flag vm"
| "prv_match_ccode vm CC_NE = (\<not> vm_zero_flag vm)"
| "prv_match_ccode vm CC_CS = vm_carry_flag vm"
| "prv_match_ccode vm CC_CC = (\<not> vm_carry_flag vm)"
| "prv_match_ccode vm CC_MI = vm_negative_flag vm"
| "prv_match_ccode vm CC_PL = (\<not> vm_negative_flag vm)"
| "prv_match_ccode vm CC_VS = vm_overflow_flag vm"
| "prv_match_ccode vm CC_VC = (\<not> vm_overflow_flag vm)"
| "prv_match_ccode vm CC_HI = (vm_carry_flag vm \<and> \<not> vm_zero_flag vm)"
| "prv_match_ccode vm CC_LS = (\<not> vm_carry_flag vm \<or> vm_zero_flag vm)"
| "prv_match_ccode vm CC_GE = (vm_negative_flag vm = vm_overflow_flag vm)"
| "prv_match_ccode vm CC_LT = (vm_negative_flag vm \<noteq> vm_overflow_flag vm)"
| "prv_match_ccode vm CC_GT = (\<not> vm_zero_flag vm \<and> vm_negative_flag vm = vm_overflow_flag vm)"
| "prv_match_ccode vm CC_LE = (vm_zero_flag vm \<or> vm_negative_flag vm \<noteq> vm_overflow_flag vm)"
| "prv_match_ccode vm CC_AL = True"
| "prv_match_ccode vm CC_NV = False"

text \<open>The test with which every handler begins.\<close>

definition conditionally :: "ccode \<Rightarrow> (arm_vm \<Rightarrow> arm_vm c_result) \<Rightarrow> arm_vm \<Rightarrow> arm_vm c_result" where
  "conditionally cc f vm = (if prv_match_ccode vm cc then f vm else Inr (advance vm))"

section \<open>The second operand\<close>

definition shift_value :: "arm_vm \<Rightarrow> arm_shift \<Rightarrow> int" where
  "shift_value vm sh =
     (case shift_by sh of
        Shift_reg r \<Rightarrow> (if 32 < sint (vm_regs vm r) then 32 else sint (vm_regs vm r))
      | Shift_integer i \<Rightarrow> sint i)"

text \<open>
  The right shifts are those of an \<^verbatim>\<open>int32_t\<close>, which copy the sign. \<^verbatim>\<open>LSR\<close> takes the copies away again,
  with a mask that is undefined for 32; \<^verbatim>\<open>ROR\<close> does not.
\<close>

definition eval_shift :: "(u32 \<Rightarrow> u32) \<Rightarrow> arm_vm \<Rightarrow> arm_shift \<Rightarrow> u32 c_result" where
  "eval_shift sar32 vm sh =
     (let reg = vm_regs vm (shift_of_reg sh); shift = shift_value vm sh; n = nat shift; neg = sint reg < 0 in
      case shift_kind sh of
        SHIFT_LSR \<Rightarrow>
          rbind (ensure (0 \<le> shift \<and> shift \<le> 32) assertion_failed) (\<lambda>_.
            if shift = 32 then Inl Undefined
            else (let w = signed_drop_bit n reg
                  in Inr (if neg \<and> sint w < 0 then w AND drop_bit n 0xffffffff else w)))
      | SHIFT_ASR \<Rightarrow>
          if shift = 0 \<or> shift = 32
          then (let w = sar32 reg in if neg \<and> 0 < sint w then Inl Undefined else Inr w)
          else rbind (ensure (1 \<le> shift \<and> shift \<le> 32) assertion_failed) (\<lambda>_.
            (let w = signed_drop_bit n reg
             in Inr (if neg \<and> 0 < sint w then w OR NOT (drop_bit n 0xffffffff) else w)))
      | SHIFT_ROR \<Rightarrow>
          rbind (ensure (1 \<le> shift \<and> shift \<le> 31) assertion_failed) (\<lambda>_.
            Inr (signed_drop_bit n reg OR push_bit (32 - n) reg))
      | SHIFT_RRX \<Rightarrow>
          (let w = signed_drop_bit 1 reg
           in Inr (if vm_carry_flag vm then w OR 0x80000000 else w AND 0x7fffffff))
      | _ \<Rightarrow>
          rbind (ensure (0 \<le> shift \<and> shift \<le> 31) assertion_failed) (\<lambda>_. Inr (push_bit n reg)))"

definition prv_eval_op2 :: "(u32 \<Rightarrow> u32) \<Rightarrow> bool \<Rightarrow> arm_op2 \<Rightarrow> arm_vm \<Rightarrow> (u32 \<times> arm_vm) c_result" where
  "prv_eval_op2 sar32 status op2 vm =
     (case op2 of
        OP2_REG r \<Rightarrow> Inr (vm_regs vm r, vm)
      | OP2_I32 i \<Rightarrow> Inr (prv_decode_imm i, vm)
      | OP2_SHIFTED sh \<Rightarrow>
          rbind (eval_shift sar32 vm sh) (\<lambda>w.
            Inr (w, if shift_kind sh = SHIFT_RRX \<and> status
                    then vm\<lparr>vm_carry_flag := bit (vm_regs vm (shift_of_reg sh)) 0\<rparr> else vm)))"

section \<open>Flags\<close>

definition prv_set_and_flags :: "u32 \<Rightarrow> arm_vm \<Rightarrow> arm_vm" where
  "prv_set_and_flags res vm = vm\<lparr>vm_negative_flag := sint res < 0, vm_zero_flag := res = 0\<rparr>"

text \<open>The bit shifted out last, where the shift changes the carry at all.\<close>

definition shift_carry :: "shift_type \<Rightarrow> int \<Rightarrow> u32 \<Rightarrow> bool option" where
  "shift_carry kind v w =
     (case kind of
        SHIFT_LSR \<Rightarrow> if 0 < v \<and> v \<le> 31 then Some (bit w (nat v - 1))
          else if v = 32 then Some (bit w 31) else if 32 < v then Some False else None
      | SHIFT_ASR \<Rightarrow> if 0 < v \<and> v \<le> 31 then Some (bit w (nat v - 1))
          else if 32 \<le> v then Some (bit w 31) else None
      | SHIFT_ROR \<Rightarrow> if 0 < v \<and> v \<le> 31 then Some (bit w (nat v - 1))
          else if 32 \<le> v then Some (bit w (nat ((v - 1) mod 32))) else None
      | SHIFT_RRX \<Rightarrow> Some (bit w 0)
      | _ \<Rightarrow> if 0 < v \<and> v \<le> 31 then Some (bit w (32 - nat v))
          else if v = 32 then Some (bit w 0) else if 32 < v then Some False else None)"

definition prv_set_shift_flags :: "arm_shift \<Rightarrow> arm_vm \<Rightarrow> arm_vm" where
  "prv_set_shift_flags sh vm =
     (case shift_carry (shift_kind sh) (shift_value vm sh) (vm_regs vm (shift_of_reg sh)) of
        None \<Rightarrow> vm
      | Some c \<Rightarrow> vm\<lparr>vm_carry_flag := c\<rparr>)"

text \<open>The flags of a logical operation.\<close>

definition logic_flags :: "arm_op2 \<Rightarrow> u32 \<Rightarrow> arm_vm \<Rightarrow> arm_vm" where
  "logic_flags op2 res vm =
     (let vm = prv_set_and_flags res vm
      in case op2 of OP2_SHIFTED sh \<Rightarrow> prv_set_shift_flags sh vm | _ \<Rightarrow> vm)"

definition prv_set_sub_flags :: "u32 \<Rightarrow> u32 \<Rightarrow> u32 \<Rightarrow> arm_vm \<Rightarrow> arm_vm" where
  "prv_set_sub_flags op1 op2 res vm =
     (let n1 = sint op1 < 0; n2 = sint op2 < 0; nr = sint res < 0
      in vm\<lparr>vm_zero_flag := res = 0, vm_negative_flag := nr,
            vm_carry_flag := n1 \<and> \<not> n2 \<or> n1 \<and> \<not> nr \<or> \<not> n2 \<and> \<not> nr,
            vm_overflow_flag := (n1 \<and> \<not> n2 \<or> \<not> n1 \<and> n2) \<and> (\<not> n1 \<and> nr \<or> n1 \<and> \<not> nr)\<rparr>)"

definition prv_set_add_flags :: "u32 \<Rightarrow> u32 \<Rightarrow> u32 \<Rightarrow> arm_vm \<Rightarrow> arm_vm" where
  "prv_set_add_flags op1 op2 res vm =
     (let n1 = sint op1 < 0; n2 = sint op2 < 0; nr = sint res < 0
      in vm\<lparr>vm_zero_flag := res = 0, vm_negative_flag := nr,
            vm_carry_flag := n1 \<and> n2 \<or> n1 \<and> \<not> nr \<or> n2 \<and> \<not> nr,
            vm_overflow_flag := (n1 \<and> n2 \<or> \<not> n1 \<and> \<not> n2) \<and> (\<not> n1 \<and> nr \<or> n1 \<and> \<not> nr)\<rparr>)"

section \<open>Data processing\<close>

definition logic_op :: "(u32 \<Rightarrow> u32 \<Rightarrow> u32) \<Rightarrow> (u32 \<Rightarrow> u32) \<Rightarrow> data_instr \<Rightarrow> arm_vm \<Rightarrow> arm_vm c_result" where
  "logic_op f sar32 op =
     conditionally (data_ccode op) (\<lambda>vm.
       rbind (prv_eval_op2 sar32 (data_status op) (data_op2 op) vm) (\<lambda>(op2, vm).
       let res = f (vm_regs vm (data_op1 op)) op2;
           vm = (if data_status op then logic_flags (data_op2 op) res vm else vm)
       in Inr (advance (set_reg (data_dest op) res vm))))"

definition prv_process_and :: "(u32 \<Rightarrow> u32) \<Rightarrow> data_instr \<Rightarrow> arm_vm \<Rightarrow> arm_vm c_result" where
  "prv_process_and = logic_op (AND)"

definition prv_process_bic :: "(u32 \<Rightarrow> u32) \<Rightarrow> data_instr \<Rightarrow> arm_vm \<Rightarrow> arm_vm c_result" where
  "prv_process_bic = logic_op (\<lambda>a b. a AND NOT b)"

definition prv_process_eor :: "(u32 \<Rightarrow> u32) \<Rightarrow> data_instr \<Rightarrow> arm_vm \<Rightarrow> arm_vm c_result" where
  "prv_process_eor = logic_op (XOR)"

definition prv_process_orr :: "(u32 \<Rightarrow> u32) \<Rightarrow> data_instr \<Rightarrow> arm_vm \<Rightarrow> arm_vm c_result" where
  "prv_process_orr = logic_op (OR)"

definition prv_process_sub :: "(u32 \<Rightarrow> u32) \<Rightarrow> data_instr \<Rightarrow> arm_vm \<Rightarrow> arm_vm c_result" where
  "prv_process_sub sar32 op =
     conditionally (data_ccode op) (\<lambda>vm.
       rbind (prv_eval_op2 sar32 (data_status op) (data_op2 op) vm) (\<lambda>(op2, vm).
       let op1 = vm_regs vm (data_op1 op); res = op1 - op2;
           vm = (if data_status op then prv_set_sub_flags op1 op2 res vm else vm)
       in Inr (advance (set_reg (data_dest op) res vm))))"

definition prv_process_rsb :: "(u32 \<Rightarrow> u32) \<Rightarrow> data_instr \<Rightarrow> arm_vm \<Rightarrow> arm_vm c_result" where
  "prv_process_rsb sar32 op =
     conditionally (data_ccode op) (\<lambda>vm.
       rbind (prv_eval_op2 sar32 (data_status op) (data_op2 op) vm) (\<lambda>(op2, vm).
       let op1 = vm_regs vm (data_op1 op); res = op2 - op1;
           vm = (if data_status op then prv_set_sub_flags op2 op1 res vm else vm)
       in Inr (set_reg (data_dest op) res (advance vm))))"

definition prv_process_add :: "(u32 \<Rightarrow> u32) \<Rightarrow> data_instr \<Rightarrow> arm_vm \<Rightarrow> arm_vm c_result" where
  "prv_process_add sar32 op =
     conditionally (data_ccode op) (\<lambda>vm.
       rbind (prv_eval_op2 sar32 (data_status op) (data_op2 op) vm) (\<lambda>(op2, vm).
       let op1 = vm_regs vm (data_op1 op); res = op1 + op2;
           vm = (if data_status op then prv_set_add_flags op1 op2 res vm else vm)
       in Inr (set_reg (data_dest op) res (advance vm))))"

text \<open>The carry is added to the operand from which the flags are computed.\<close>

definition prv_process_adc :: "(u32 \<Rightarrow> u32) \<Rightarrow> data_instr \<Rightarrow> arm_vm \<Rightarrow> arm_vm c_result" where
  "prv_process_adc sar32 op =
     conditionally (data_ccode op) (\<lambda>vm.
       rbind (prv_eval_op2 sar32 (data_status op) (data_op2 op) vm) (\<lambda>(op2, vm).
       let carry = (if vm_carry_flag vm then 1 else 0);
           op1 = vm_regs vm (data_op1 op); res = op1 + op2 + carry;
           vm = (if data_status op then prv_set_add_flags op1 (op2 + carry) res vm else vm)
       in Inr (advance (set_reg (data_dest op) res vm))))"

definition prv_set_status_flags :: "u32 \<Rightarrow> u32 \<Rightarrow> arm_vm \<Rightarrow> arm_vm" where
  "prv_set_status_flags op1 op2 = prv_set_sub_flags op1 op2 (op1 - op2)"

text \<open>The comparisons; each asks for the status flag before it looks at the condition.\<close>

definition compare :: "(arm_op2 \<Rightarrow> u32 \<Rightarrow> u32 \<Rightarrow> arm_vm \<Rightarrow> arm_vm) \<Rightarrow> (u32 \<Rightarrow> u32) \<Rightarrow> data_instr
    \<Rightarrow> arm_vm \<Rightarrow> arm_vm c_result" where
  "compare set_flags sar32 op vm =
     rbind (ensure (data_status op) assertion_failed) (\<lambda>_.
       conditionally (data_ccode op) (\<lambda>vm.
         rbind (prv_eval_op2 sar32 (data_status op) (data_op2 op) vm) (\<lambda>(op2, vm).
           Inr (advance (set_flags (data_op2 op) (vm_regs vm (data_op1 op)) op2 vm)))) vm)"

definition prv_process_cmp :: "(u32 \<Rightarrow> u32) \<Rightarrow> data_instr \<Rightarrow> arm_vm \<Rightarrow> arm_vm c_result" where
  "prv_process_cmp = compare (\<lambda>_. prv_set_status_flags)"

text \<open>A comparison with the negation is computed as the subtraction of the negation.\<close>

definition prv_process_cmn :: "(u32 \<Rightarrow> u32) \<Rightarrow> data_instr \<Rightarrow> arm_vm \<Rightarrow> arm_vm c_result" where
  "prv_process_cmn = compare (\<lambda>_ op1 op2. prv_set_status_flags op1 (- op2))"

definition prv_process_tst :: "(u32 \<Rightarrow> u32) \<Rightarrow> data_instr \<Rightarrow> arm_vm \<Rightarrow> arm_vm c_result" where
  "prv_process_tst = compare (\<lambda>o2 op1 op2. logic_flags o2 (op1 AND op2))"

definition prv_process_teq :: "(u32 \<Rightarrow> u32) \<Rightarrow> data_instr \<Rightarrow> arm_vm \<Rightarrow> arm_vm c_result" where
  "prv_process_teq = compare (\<lambda>o2 op1 op2. logic_flags o2 (op1 XOR op2))"

definition prv_process_mov :: "(u32 \<Rightarrow> u32) \<Rightarrow> data_instr \<Rightarrow> arm_vm \<Rightarrow> arm_vm c_result" where
  "prv_process_mov sar32 op =
     conditionally (data_ccode op) (\<lambda>vm.
       rbind (prv_eval_op2 sar32 (data_status op) (data_op2 op) vm) (\<lambda>(op2, vm).
       let vm = (if data_status op then logic_flags (data_op2 op) op2 vm else vm)
       in Inr (if data_dest op = 15 then set_reg 15 ((op2 AND 0xffffff) + 8) vm
               else advance (set_reg (data_dest op) op2 vm))))"

text \<open>The flags are those of the operand, not of its complement.\<close>

definition prv_process_mvn :: "(u32 \<Rightarrow> u32) \<Rightarrow> data_instr \<Rightarrow> arm_vm \<Rightarrow> arm_vm c_result" where
  "prv_process_mvn sar32 op =
     conditionally (data_ccode op) (\<lambda>vm.
       rbind (prv_eval_op2 sar32 (data_status op) (data_op2 op) vm) (\<lambda>(op2, vm).
       let vm = (if data_status op then logic_flags (data_op2 op) op2 vm else vm)
       in Inr (advance (set_reg (data_dest op) (NOT op2) vm))))"

definition prv_process_mul :: "mul_instr \<Rightarrow> arm_vm \<Rightarrow> arm_vm c_result" where
  "prv_process_mul op =
     conditionally (mul_ccode op) (\<lambda>vm.
       Inr (advance (set_reg (mul_dest op) (vm_regs vm (mul_rm op) * vm_regs vm (mul_rs op)) vm)))"

definition prv_process_mla :: "mul_instr \<Rightarrow> arm_vm \<Rightarrow> arm_vm c_result" where
  "prv_process_mla op =
     conditionally (mul_ccode op) (\<lambda>vm.
       Inr (advance (set_reg (mul_dest op)
         (vm_regs vm (mul_rm op) * vm_regs vm (mul_rs op) + vm_regs vm (mul_rn op)) vm)))"

section \<open>Loads and stores\<close>

definition mem_size :: "arm_vm \<Rightarrow> u64" where
  "mem_size vm = of_nat (length (vm_memory vm))"

text \<open>The check of an address; the sum is a \<^verbatim>\<open>size_t\<close>.\<close>

definition checked_addr :: "u64 \<Rightarrow> u64 \<Rightarrow> arm_vm \<Rightarrow> u64 c_result" where
  "checked_addr n addr vm =
     rbind (ensure (\<not> mem_size vm < addr + n) assertion_failed) (\<lambda>_. Inr addr)"

text \<open>The address of a transfer, with the base register updated.\<close>

definition indexed_addr ::
    "bool \<Rightarrow> bool \<Rightarrow> arm_reg \<Rightarrow> u32 \<Rightarrow> u64 \<Rightarrow> arm_vm \<Rightarrow> (u64 \<times> arm_vm) c_result" where
  "indexed_addr pre_indexed write_back base offset n vm =
     (let target = vm_regs vm base + offset;
          (addr, vm) =
            (if pre_indexed then (target, if write_back then set_reg base target vm else vm)
             else (vm_regs vm base, set_reg base target vm))
      in rbind (checked_addr n (scast addr - scast (vm_start_address vm)) vm) (\<lambda>addr.
           Inr (addr, vm)))"

definition prv_compute_stran_addr ::
    "(u32 \<Rightarrow> u32) \<Rightarrow> stran_instr \<Rightarrow> arm_vm \<Rightarrow> (u64 \<times> arm_vm) c_result" where
  "prv_compute_stran_addr sar32 op vm =
     rbind (case stran_offset op of
              OP2_I32 i \<Rightarrow> rbind (ensure (\<not> 4096 < sint i) assertion_failed) (\<lambda>_. Inr (i, vm))
            | _ \<Rightarrow> prv_eval_op2 sar32 False (stran_offset op) vm) (\<lambda>(offset, vm).
       indexed_addr (stran_pre_indexed op) (stran_write_back op) (stran_base op)
         (if stran_subtract op then - offset else offset) 4 vm)"

definition prv_compute_stran_misc_addr :: "stran_misc_instr \<Rightarrow> arm_vm \<Rightarrow> (u64 \<times> arm_vm) c_result" where
  "prv_compute_stran_misc_addr op vm =
     (let n = (case misc_type op of STRAN_MISC_SB \<Rightarrow> 1 | STRAN_MISC_D \<Rightarrow> 8 | _ \<Rightarrow> 2);
          offset = (case misc_offset op of Misc_imm i \<Rightarrow> scast i | Misc_reg r \<Rightarrow> vm_regs vm r)
      in indexed_addr (misc_pre_indexed op) (misc_write_back op) (misc_base op)
           (if misc_subtract op then - offset else offset) n vm)"

definition load_byte :: "u64 \<Rightarrow> arm_vm \<Rightarrow> u8 c_result" where
  "load_byte addr vm = array_get (vm_memory vm) (unat addr)"

definition load_half :: "u64 \<Rightarrow> arm_vm \<Rightarrow> u16 c_result" where
  "load_half addr vm =
     rbind (array_get (vm_memory vm) (unat addr)) (\<lambda>a.
     rbind (array_get (vm_memory vm) (unat addr + 1)) (\<lambda>b. Inr (ucast a OR push_bit 8 (ucast b))))"

definition load_word :: "u64 \<Rightarrow> arm_vm \<Rightarrow> u32 c_result" where
  "load_word addr vm = read_word (vm_memory vm) (unat addr)"

definition store_byte :: "u64 \<Rightarrow> u8 \<Rightarrow> arm_vm \<Rightarrow> arm_vm c_result" where
  "store_byte addr b vm =
     rbind (array_set (vm_memory vm) (unat addr) b) (\<lambda>m. Inr (vm\<lparr>vm_memory := m\<rparr>))"

definition store_half :: "u64 \<Rightarrow> u16 \<Rightarrow> arm_vm \<Rightarrow> arm_vm c_result" where
  "store_half addr h vm =
     rbind (array_set (vm_memory vm) (unat addr) (ucast h)) (\<lambda>m.
     rbind (array_set m (unat addr + 1) (ucast (drop_bit 8 h))) (\<lambda>m. Inr (vm\<lparr>vm_memory := m\<rparr>)))"

definition store_word :: "u64 \<Rightarrow> u32 \<Rightarrow> arm_vm \<Rightarrow> arm_vm c_result" where
  "store_word addr w vm =
     rbind (write_word (vm_memory vm) (unat addr) w) (\<lambda>m. Inr (vm\<lparr>vm_memory := m\<rparr>))"

definition prv_process_ldr :: "(u32 \<Rightarrow> u32) \<Rightarrow> stran_instr \<Rightarrow> arm_vm \<Rightarrow> arm_vm c_result" where
  "prv_process_ldr sar32 op =
     conditionally (stran_ccode op) (\<lambda>vm.
       rbind (prv_compute_stran_addr sar32 op vm) (\<lambda>(addr, vm).
       rbind (if stran_byte op then rbind (load_byte addr vm) (\<lambda>b. Inr (ucast b))
              else load_word addr vm) (\<lambda>w.
         Inr (advance (set_reg (stran_dest op) w vm)))))"

definition prv_process_str :: "(u32 \<Rightarrow> u32) \<Rightarrow> stran_instr \<Rightarrow> arm_vm \<Rightarrow> arm_vm c_result" where
  "prv_process_str sar32 op =
     conditionally (stran_ccode op) (\<lambda>vm.
       rbind (prv_compute_stran_addr sar32 op vm) (\<lambda>(addr, vm).
       rbind (if stran_byte op then store_byte addr (ucast (vm_regs vm (stran_dest op))) vm
              else store_word addr (vm_regs vm (stran_dest op)) vm) (\<lambda>vm.
         Inr (advance vm))))"

definition prv_process_stran_misc_ldr :: "stran_misc_instr \<Rightarrow> arm_vm \<Rightarrow> arm_vm c_result" where
  "prv_process_stran_misc_ldr op =
     conditionally (misc_ccode op) (\<lambda>vm.
       rbind (prv_compute_stran_misc_addr op vm) (\<lambda>(addr, vm).
       rbind (case misc_type op of
                STRAN_MISC_SB \<Rightarrow> rbind (load_byte addr vm) (\<lambda>b. Inr (set_reg (misc_dest op) (scast b) vm))
              | STRAN_MISC_SH \<Rightarrow> rbind (load_half addr vm) (\<lambda>h. Inr (set_reg (misc_dest op) (scast h) vm))
              | STRAN_MISC_H \<Rightarrow> rbind (load_half addr vm) (\<lambda>h. Inr (set_reg (misc_dest op) (ucast h) vm))
              | STRAN_MISC_D \<Rightarrow>
                  rbind (ensure (even (unat (misc_dest op))) assertion_failed) (\<lambda>_.
                  rbind (load_word addr vm) (\<lambda>w1.
                  rbind (load_word (addr + 4) vm) (\<lambda>w2.
                    Inr (set_reg (misc_dest op + 1) w2 (set_reg (misc_dest op) w1 vm)))))) (\<lambda>vm.
         Inr (advance vm))))"

definition prv_process_stran_misc_str :: "stran_misc_instr \<Rightarrow> arm_vm \<Rightarrow> arm_vm c_result" where
  "prv_process_stran_misc_str op =
     conditionally (misc_ccode op) (\<lambda>vm.
       rbind (prv_compute_stran_misc_addr op vm) (\<lambda>(addr, vm).
       rbind (case misc_type op of
                STRAN_MISC_H \<Rightarrow> store_half addr (ucast (vm_regs vm (misc_dest op))) vm
              | STRAN_MISC_D \<Rightarrow>
                  rbind (ensure (even (unat (misc_dest op))) assertion_failed) (\<lambda>_.
                  rbind (store_word addr (vm_regs vm (misc_dest op)) vm)
                    (store_word (addr + 4) (vm_regs vm (misc_dest op + 1))))
              | _ \<Rightarrow> Inl assertion_failed) (\<lambda>vm.
         Inr (advance vm))))"

subsection \<open>Several registers\<close>

definition prv_write_multiple_reg ::
    "mtran_instr \<Rightarrow> u64 \<Rightarrow> u64 \<Rightarrow> nat \<Rightarrow> u64 \<times> arm_vm \<Rightarrow> (u64 \<times> arm_vm) c_result" where
  "prv_write_multiple_reg op after before i =
     (\<lambda>(addr, vm).
        if \<not> bit (mtran_reg_list op) i then Inr (addr, vm)
        else rbind (checked_addr 4 (addr + before) vm) (\<lambda>addr.
             rbind (store_word addr (vm_regs vm (of_nat i)) vm) (\<lambda>vm. Inr (addr + after, vm))))"

definition prv_read_multiple_reg ::
    "mtran_instr \<Rightarrow> u64 \<Rightarrow> u64 \<Rightarrow> nat \<Rightarrow> u64 \<times> arm_vm \<Rightarrow> (u64 \<times> arm_vm) c_result" where
  "prv_read_multiple_reg op after before i =
     (\<lambda>(addr, vm).
        if \<not> bit (mtran_reg_list op) i then Inr (addr, vm)
        else rbind (checked_addr 4 (addr + before) vm) (\<lambda>addr.
             rbind (load_word addr vm) (\<lambda>w. Inr (addr + after, set_reg (of_nat i) w vm))))"

text \<open>Whether the address grows, and what is added to it after and before each register.\<close>

definition stm_mode :: "mtran_type \<Rightarrow> bool \<times> u64 \<times> u64" where
  "stm_mode t =
     (case t of
        MTRAN_FA \<Rightarrow> (True, 0, 4) | MTRAN_IB \<Rightarrow> (True, 0, 4)
      | MTRAN_FD \<Rightarrow> (False, 0, - 4) | MTRAN_DB \<Rightarrow> (False, 0, - 4)
      | MTRAN_EA \<Rightarrow> (True, 4, 0) | MTRAN_IA \<Rightarrow> (True, 4, 0)
      | MTRAN_ED \<Rightarrow> (False, - 4, 0) | MTRAN_DA \<Rightarrow> (False, - 4, 0))"

definition ldm_mode :: "mtran_type \<Rightarrow> bool \<times> u64 \<times> u64" where
  "ldm_mode t =
     (case t of
        MTRAN_FA \<Rightarrow> (False, - 4, 0) | MTRAN_DA \<Rightarrow> (False, - 4, 0)
      | MTRAN_FD \<Rightarrow> (True, 4, 0) | MTRAN_IA \<Rightarrow> (True, 4, 0)
      | MTRAN_EA \<Rightarrow> (False, 0, - 4) | MTRAN_DB \<Rightarrow> (False, 0, - 4)
      | MTRAN_ED \<Rightarrow> (True, 0, 4) | MTRAN_IB \<Rightarrow> (True, 0, 4))"

definition multiple ::
    "(mtran_instr \<Rightarrow> u64 \<Rightarrow> u64 \<Rightarrow> nat \<Rightarrow> u64 \<times> arm_vm \<Rightarrow> (u64 \<times> arm_vm) c_result)
      \<Rightarrow> bool \<times> u64 \<times> u64 \<Rightarrow> mtran_instr \<Rightarrow> arm_vm \<Rightarrow> arm_vm c_result" where
  "multiple f = (\<lambda>(increment, after, before) op vm.
     rbind (each (f op after before) (if increment then [0..<15] else rev [0..<15])
              (scast (vm_regs vm (mtran_op0 op) - vm_start_address vm), vm)) (\<lambda>(addr, vm).
       Inr (if mtran_write_back op
            then set_reg (mtran_op0 op) (ucast (addr + scast (vm_start_address vm))) vm else vm)))"

definition prv_process_stm :: "mtran_instr \<Rightarrow> arm_vm \<Rightarrow> arm_vm c_result" where
  "prv_process_stm op =
     conditionally (mtran_ccode op) (\<lambda>vm.
       rbind (multiple prv_write_multiple_reg (stm_mode (mtran_kind op)) op vm) (\<lambda>vm.
         Inr (advance vm)))"

text \<open>The program counter is never loaded; it stays where it is when it is in the list.\<close>

definition prv_process_ldm :: "mtran_instr \<Rightarrow> arm_vm \<Rightarrow> arm_vm c_result" where
  "prv_process_ldm op =
     conditionally (mtran_ccode op) (\<lambda>vm.
       rbind (multiple prv_read_multiple_reg (ldm_mode (mtran_kind op)) op vm) (\<lambda>vm.
         Inr (if \<not> bit (mtran_reg_list op) 15 then advance vm else vm)))"

section \<open>Branches and status registers\<close>

definition prv_process_b :: "br_instr \<Rightarrow> arm_vm \<Rightarrow> arm_vm c_result" where
  "prv_process_b op =
     conditionally (br_ccode op) (\<lambda>vm.
       case br_target op of
         Target_offset offset \<Rightarrow>
           (let vm = (if br_link op then set_reg 14 (vm_regs vm 15 - 4) vm else vm);
                vm = set_reg 15 (vm_regs vm 15 + (offset * 4 + 8)) vm
            in rbind (ensure (\<not> vm_code_size vm \<le> prv_calc_pc vm) assertion_failed) (\<lambda>_. Inr vm))
       | _ \<Rightarrow> Inl Undefined)"

definition flags_mask :: "u32 \<Rightarrow> u32" where
  "flags_mask field_mask =
     (if bit field_mask 16 then 0xff else 0) OR (if bit field_mask 17 then 0xff00 else 0)
     OR (if bit field_mask 18 then 0xff0000 else 0) OR (if bit field_mask 19 then 0xff000000 else 0)"

definition prv_process_msr :: "flags_instr \<Rightarrow> arm_vm \<Rightarrow> arm_vm c_result" where
  "prv_process_msr op =
     conditionally (flags_ccode op) (\<lambda>vm.
       rbind (ensure (flags_flag_reg op \<noteq> FLAGS_SPSR) assertion_failed) (\<lambda>_.
       let word = (case flags_op op of Flags_reg r \<Rightarrow> vm_regs vm r | Flags_integer i \<Rightarrow> prv_decode_imm i)
       in Inr (advance (vm\<lparr>vm_fpscr := word AND flags_mask (flags_fields op)\<rparr>))))"

definition prv_process_mrs :: "flags_instr \<Rightarrow> arm_vm \<Rightarrow> arm_vm c_result" where
  "prv_process_mrs op =
     conditionally (flags_ccode op) (\<lambda>vm.
       rbind (ensure (flags_flag_reg op \<noteq> FLAGS_SPSR) assertion_failed) (\<lambda>_.
       case flags_op op of
         Flags_reg r \<Rightarrow> Inr (advance (set_reg r (vm_fpscr vm) vm))
       | Flags_integer _ \<Rightarrow> Inl Undefined))"

end
