(* ===== verification/Arm_Vm_Run.thy ===== *)
theory Arm_Vm_Run
  imports Arm_Vm
begin

text \<open>
  The rest of the simulator (arch/arm32/arm_vm.c): the ARMv6 instructions on halves and bytes of
  registers, sign extension, and the loop that runs a program.
\<close>

section \<open>Lanes\<close>

text \<open>The lanes are held in 32-bit integers, signed or unsigned, lowest lane first.\<close>

definition prv_extract_int16 :: "u32 \<Rightarrow> u32 \<times> u32" where
  "prv_extract_int16 w =
     (let ext = (\<lambda>x. if x AND 0x8000 \<noteq> 0 then x OR 0xffff0000 else x)
      in (ext (w AND 0xffff), ext (signed_drop_bit 16 w AND 0xffff)))"

definition prv_extract_int8 :: "u32 \<Rightarrow> u32 \<times> u32 \<times> u32 \<times> u32" where
  "prv_extract_int8 w =
     (let ext = (\<lambda>x. if x AND 0x80 \<noteq> 0 then x OR 0xffffff00 else x)
      in (ext (w AND 0xff), ext (signed_drop_bit 8 w AND 0xff), ext (signed_drop_bit 16 w AND 0xff),
          ext (signed_drop_bit 24 w AND 0xff)))"

definition extract_uint16 :: "u32 \<Rightarrow> u32 \<times> u32" where
  "extract_uint16 w = (w AND 0xffff, drop_bit 16 w)"

definition extract_uint8 :: "u32 \<Rightarrow> u32 \<times> u32 \<times> u32 \<times> u32" where
  "extract_uint8 w =
     (w AND 0xff, drop_bit 8 w AND 0xff, drop_bit 16 w AND 0xff, drop_bit 24 w)"

definition clamp_int :: "int \<Rightarrow> int \<Rightarrow> u32 \<Rightarrow> u32" where
  "clamp_int lo hi w =
     (let w = (if hi < sint w then word_of_int hi else w)
      in if sint w < lo then word_of_int lo else w)"

definition clamp_uint :: "u32 \<Rightarrow> u32 \<Rightarrow> u32" where
  "clamp_uint hi w = (if hi < w then hi else w)"

definition map2_lanes :: "('a \<Rightarrow> 'b) \<Rightarrow> 'a \<times> 'a \<Rightarrow> 'b \<times> 'b" where
  "map2_lanes f = (\<lambda>(a, b). (f a, f b))"

definition map4_lanes :: "('a \<Rightarrow> 'b) \<Rightarrow> 'a \<times> 'a \<times> 'a \<times> 'a \<Rightarrow> 'b \<times> 'b \<times> 'b \<times> 'b" where
  "map4_lanes f = (\<lambda>(a, b, c, d). (f a, f b, f c, f d))"

definition zip2_lanes :: "('a \<Rightarrow> 'a \<Rightarrow> 'a) \<Rightarrow> 'a \<times> 'a \<Rightarrow> 'a \<times> 'a \<Rightarrow> 'a \<times> 'a" where
  "zip2_lanes f = (\<lambda>(a, b) (c, d). (f a c, f b d))"

definition zip4_lanes ::
    "('a \<Rightarrow> 'a \<Rightarrow> 'a) \<Rightarrow> 'a \<times> 'a \<times> 'a \<times> 'a \<Rightarrow> 'a \<times> 'a \<times> 'a \<times> 'a \<Rightarrow> 'a \<times> 'a \<times> 'a \<times> 'a" where
  "zip4_lanes f = (\<lambda>(a, b, c, d) (e, g, h, i). (f a e, f b g, f c h, f d i))"

definition prv_clamp_int16 :: "u32 \<times> u32 \<Rightarrow> u32 \<times> u32" where
  "prv_clamp_int16 = map2_lanes (clamp_int (- 32768) 32767)"

definition prv_clamp_uint16 :: "u32 \<times> u32 \<Rightarrow> u32 \<times> u32" where
  "prv_clamp_uint16 = map2_lanes (clamp_uint 0xffff)"

definition prv_clamp_int8 :: "u32 \<times> u32 \<times> u32 \<times> u32 \<Rightarrow> u32 \<times> u32 \<times> u32 \<times> u32" where
  "prv_clamp_int8 = map4_lanes (clamp_int (- 128) 127)"

definition prv_clamp_uint8 :: "u32 \<times> u32 \<times> u32 \<times> u32 \<Rightarrow> u32 \<times> u32 \<times> u32 \<times> u32" where
  "prv_clamp_uint8 = map4_lanes (clamp_uint 0xff)"

definition prv_add_int16 :: "u32 \<Rightarrow> u32 \<Rightarrow> u32 \<times> u32" where
  "prv_add_int16 x y = zip2_lanes (+) (prv_extract_int16 x) (prv_extract_int16 y)"

definition prv_sub_int16 :: "u32 \<Rightarrow> u32 \<Rightarrow> u32 \<times> u32" where
  "prv_sub_int16 x y = zip2_lanes (-) (prv_extract_int16 x) (prv_extract_int16 y)"

definition prv_add_uint16 :: "u32 \<Rightarrow> u32 \<Rightarrow> u32 \<times> u32" where
  "prv_add_uint16 x y = zip2_lanes (+) (extract_uint16 x) (extract_uint16 y)"

definition prv_sub_uint16 :: "u32 \<Rightarrow> u32 \<Rightarrow> u32 \<times> u32" where
  "prv_sub_uint16 x y = zip2_lanes (-) (extract_uint16 x) (extract_uint16 y)"

definition prv_add_int8 :: "u32 \<Rightarrow> u32 \<Rightarrow> u32 \<times> u32 \<times> u32 \<times> u32" where
  "prv_add_int8 x y = zip4_lanes (+) (prv_extract_int8 x) (prv_extract_int8 y)"

definition prv_sub_int8 :: "u32 \<Rightarrow> u32 \<Rightarrow> u32 \<times> u32 \<times> u32 \<times> u32" where
  "prv_sub_int8 x y = zip4_lanes (-) (prv_extract_int8 x) (prv_extract_int8 y)"

definition prv_add_uint8 :: "u32 \<Rightarrow> u32 \<Rightarrow> u32 \<times> u32 \<times> u32 \<times> u32" where
  "prv_add_uint8 x y = zip4_lanes (+) (extract_uint8 x) (extract_uint8 y)"

definition prv_sub_uint8 :: "u32 \<Rightarrow> u32 \<Rightarrow> u32 \<times> u32 \<times> u32 \<times> u32" where
  "prv_sub_uint8 x y = zip4_lanes (-) (extract_uint8 x) (extract_uint8 y)"

text \<open>
  How the lanes are put together: \<open>pack16\<close> and \<open>pack8\<close> mask every lane; the others leave the lowest
  lane, or all of them, as they are.
\<close>

definition pack16 :: "u32 \<times> u32 \<Rightarrow> u32" where
  "pack16 = (\<lambda>(a, b). push_bit 16 (b AND 0xffff) OR (a AND 0xffff))"

definition pack16_raw :: "u32 \<times> u32 \<Rightarrow> u32" where
  "pack16_raw = (\<lambda>(a, b). push_bit 16 b OR a)"

definition pack8 :: "u32 \<times> u32 \<times> u32 \<times> u32 \<Rightarrow> u32" where
  "pack8 = (\<lambda>(a, b, c, d). push_bit 24 (d AND 0xff) OR push_bit 16 (c AND 0xff)
     OR push_bit 8 (b AND 0xff) OR (a AND 0xff))"

definition pack8_low_raw :: "u32 \<times> u32 \<times> u32 \<times> u32 \<Rightarrow> u32" where
  "pack8_low_raw = (\<lambda>(a, b, c, d). push_bit 24 (d AND 0xff) OR push_bit 16 (c AND 0xff)
     OR push_bit 8 (b AND 0xff) OR a)"

definition pack8_raw :: "u32 \<times> u32 \<times> u32 \<times> u32 \<Rightarrow> u32" where
  "pack8_raw = (\<lambda>(a, b, c, d). push_bit 24 d OR push_bit 16 c OR push_bit 8 b OR a)"

definition half :: "u32 \<Rightarrow> u32" where
  "half w = word_of_int (sdiv32 w 2)"

text \<open>The flags of the lanes, which are only ever added to the status word.\<close>

definition flags2 :: "(u32 \<Rightarrow> bool) \<Rightarrow> u32 \<times> u32 \<Rightarrow> u32" where
  "flags2 p = (\<lambda>(a, b). (if p a then 3 else 0) OR (if p b then 0xc else 0))"

definition flags4 :: "(u32 \<Rightarrow> bool) \<Rightarrow> u32 \<times> u32 \<times> u32 \<times> u32 \<Rightarrow> u32" where
  "flags4 p = (\<lambda>(a, b, c, d). (if p a then 1 else 0) OR (if p b then 2 else 0)
     OR (if p c then 4 else 0) OR (if p d then 8 else 0))"

text \<open>Exchanging forms: an addition in one lane, a subtraction in the other.\<close>

definition cross_addsub :: "u32 \<times> u32 \<Rightarrow> u32 \<times> u32 \<Rightarrow> u32 \<times> u32" where
  "cross_addsub = (\<lambda>(a, b) (c, d). (a - d, b + c))"

definition cross_subadd :: "u32 \<times> u32 \<Rightarrow> u32 \<times> u32 \<Rightarrow> u32 \<times> u32" where
  "cross_subadd = (\<lambda>(a, b) (c, d). (a + d, b - c))"

definition straight_addsub :: "u32 \<times> u32 \<Rightarrow> u32 \<times> u32 \<Rightarrow> u32 \<times> u32" where
  "straight_addsub = (\<lambda>(a, b) (c, d). (a - c, b + d))"

definition straight_subadd :: "u32 \<times> u32 \<Rightarrow> u32 \<times> u32 \<Rightarrow> u32 \<times> u32" where
  "straight_subadd = (\<lambda>(a, b) (c, d). (a + c, b - d))"

section \<open>The instructions on lanes\<close>

text \<open>The result and the flags of the instructions, by their prefix.\<close>

definition process_q :: "simd_type \<Rightarrow> u32 \<Rightarrow> u32 \<Rightarrow> (u32 \<times> u32) option" where
  "process_q t x y =
     (let sx = prv_extract_int16 x; sy = prv_extract_int16 y in
      case t of
        SIMD_QADD16 \<Rightarrow> Some (pack16 (prv_clamp_int16 (prv_add_int16 x y)), 0)
      | SIMD_QADD8 \<Rightarrow> Some (pack8_raw (prv_clamp_int8 (prv_add_int8 x y)), 0)
      | SIMD_QADDSUBX \<Rightarrow> Some (pack16 (prv_clamp_int16 (straight_addsub sx sy)), 0)
      | SIMD_QSUB16 \<Rightarrow> Some (pack16 (prv_clamp_int16 (prv_sub_int16 x y)), 0)
      | SIMD_QSUB8 \<Rightarrow> Some (pack8 (prv_clamp_int8 (prv_sub_int8 x y)), 0)
      | SIMD_QSUBADDX \<Rightarrow> Some (pack16 (prv_clamp_int16 (straight_subadd sx sy)), 0)
      | _ \<Rightarrow> None)"

definition process_s :: "simd_type \<Rightarrow> u32 \<Rightarrow> u32 \<Rightarrow> (u32 \<times> u32) option" where
  "process_s t x y =
     (let nonneg = (\<lambda>w. 0 \<le> sint w); big = (\<lambda>w. 0xffff < sint w);
          add16 = prv_add_int16 x y; sub16 = prv_sub_int16 x y;
          add8 = prv_add_int8 x y; sub8 = prv_sub_int8 x y;
          addsub = cross_addsub (prv_extract_int16 x) (prv_extract_int16 y);
          subadd = cross_subadd (prv_extract_int16 x) (prv_extract_int16 y) in
      case t of
        SIMD_SADD16 \<Rightarrow> Some (pack16 add16, flags2 nonneg add16)
      | SIMD_SADD8 \<Rightarrow> Some (pack8_low_raw add8, flags4 nonneg add8)
      | SIMD_SADDSUBX \<Rightarrow> Some (pack16 addsub, flags2 big addsub)
      | SIMD_SSUB16 \<Rightarrow> Some (pack16 sub16, flags2 nonneg sub16)
      | SIMD_SSUB8 \<Rightarrow> Some (pack8_low_raw sub8, flags4 nonneg sub8)
      | SIMD_SSUBADDX \<Rightarrow> Some (pack16 subadd, flags2 big subadd)
      | _ \<Rightarrow> None)"

definition process_sh :: "simd_type \<Rightarrow> u32 \<Rightarrow> u32 \<Rightarrow> (u32 \<times> u32) option" where
  "process_sh t x y =
     (let sx = prv_extract_int16 x; sy = prv_extract_int16 y in
      case t of
        SIMD_SHADD16 \<Rightarrow> Some (pack16 (map2_lanes half (prv_add_int16 x y)), 0)
      | SIMD_SHADD8 \<Rightarrow> Some (pack8 (map4_lanes half (prv_add_int8 x y)), 0)
      | SIMD_SHADDSUBX \<Rightarrow> Some (pack16 (map2_lanes half (cross_addsub sx sy)), 0)
      | SIMD_SHSUB16 \<Rightarrow> Some (pack16 (map2_lanes half (prv_sub_int16 x y)), 0)
      | SIMD_SHSUB8 \<Rightarrow> Some (pack8 (map4_lanes half (prv_sub_int8 x y)), 0)
      | SIMD_SHSUBADDX \<Rightarrow> Some (pack16 (map2_lanes half (cross_subadd sx sy)), 0)
      | _ \<Rightarrow> None)"

definition process_u :: "simd_type \<Rightarrow> u32 \<Rightarrow> u32 \<Rightarrow> (u32 \<times> u32) option" where
  "process_u t x y =
     (let big = (\<lambda>w. 0xffff < w); full = (\<lambda>w. 0xff \<le> w);
          add16 = prv_add_uint16 x y; sub16 = prv_sub_uint16 x y;
          add8 = prv_add_uint8 x y; sub8 = prv_sub_uint8 x y;
          addsub = cross_addsub (extract_uint16 x) (extract_uint16 y);
          subadd = cross_subadd (extract_uint16 x) (extract_uint16 y) in
      case t of
        SIMD_UADD16 \<Rightarrow> Some (pack16 add16, flags2 big add16)
      | SIMD_UADD8 \<Rightarrow> Some (pack8_low_raw add8, flags4 full add8)
      | SIMD_UADDSUBX \<Rightarrow> Some (pack16 addsub, flags2 big addsub)
      | SIMD_USUB16 \<Rightarrow> Some (pack16 sub16, flags2 big sub16)
      | SIMD_USUB8 \<Rightarrow> Some (pack8_low_raw sub8, flags4 full sub8)
      | SIMD_USUBADDX \<Rightarrow> Some (pack16 subadd, flags2 big subadd)
      | _ \<Rightarrow> None)"

text \<open>\<^verbatim>\<open>UHADDSUBX\<close> masks its lanes with twenty bits.\<close>

definition process_uh :: "simd_type \<Rightarrow> u32 \<Rightarrow> u32 \<Rightarrow> (u32 \<times> u32) option" where
  "process_uh t x y =
     (let ux = extract_uint16 x; uy = extract_uint16 y in
      case t of
        SIMD_UHADD16 \<Rightarrow> Some (pack16 (map2_lanes (drop_bit 1) (prv_add_uint16 x y)), 0)
      | SIMD_UHADD8 \<Rightarrow> Some (pack8 (map4_lanes (drop_bit 1) (prv_add_uint8 x y)), 0)
      | SIMD_UHADDSUBX \<Rightarrow>
          Some (case map2_lanes (drop_bit 1) (cross_addsub ux uy) of
                  (a, b) \<Rightarrow> push_bit 16 (b AND 0xfffff) OR (a AND 0xfffff), 0)
      | SIMD_UHSUB16 \<Rightarrow> Some (pack16 (map2_lanes (drop_bit 1) (prv_sub_uint16 x y)), 0)
      | SIMD_UHSUB8 \<Rightarrow> Some (pack8 (map4_lanes (drop_bit 1) (prv_sub_uint8 x y)), 0)
      | SIMD_UHSUBADDX \<Rightarrow> Some (pack16 (map2_lanes (drop_bit 1) (cross_subadd ux uy)), 0)
      | _ \<Rightarrow> None)"

definition process_uq :: "simd_type \<Rightarrow> u32 \<Rightarrow> u32 \<Rightarrow> (u32 \<times> u32) option" where
  "process_uq t x y =
     (let ux = extract_uint16 x; uy = extract_uint16 y in
      case t of
        SIMD_UQADD16 \<Rightarrow> Some (pack16_raw (prv_clamp_uint16 (prv_add_uint16 x y)), 0)
      | SIMD_UQADD8 \<Rightarrow> Some (pack8_raw (prv_clamp_uint8 (prv_add_uint8 x y)), 0)
      | SIMD_UQADDSUBX \<Rightarrow> Some (pack16_raw (prv_clamp_uint16 (cross_addsub ux uy)), 0)
      | SIMD_UQSUB16 \<Rightarrow> Some (pack16_raw (prv_clamp_uint16 (prv_sub_uint16 x y)), 0)
      | SIMD_UQSUB8 \<Rightarrow> Some (pack8_raw (prv_clamp_uint8 (prv_sub_uint8 x y)), 0)
      | SIMD_UQSUBADDX \<Rightarrow> Some (pack16_raw (prv_clamp_uint16 (cross_subadd ux uy)), 0)
      | _ \<Rightarrow> None)"

definition simd_lanes :: "simd_type \<Rightarrow> u32 \<Rightarrow> u32 \<Rightarrow> u32 \<times> u32" where
  "simd_lanes t x y =
     (case process_q t x y of Some r \<Rightarrow> r | None \<Rightarrow>
     (case process_s t x y of Some r \<Rightarrow> r | None \<Rightarrow>
     (case process_sh t x y of Some r \<Rightarrow> r | None \<Rightarrow>
     (case process_u t x y of Some r \<Rightarrow> r | None \<Rightarrow>
     (case process_uh t x y of Some r \<Rightarrow> r | None \<Rightarrow>
     (case process_uq t x y of Some r \<Rightarrow> r | None \<Rightarrow> (0, 0)))))))"

text \<open>The condition of these instructions is not looked at.\<close>

definition process_simd :: "simd_type \<Rightarrow> reg_only_instr \<Rightarrow> arm_vm \<Rightarrow> arm_vm c_result" where
  "process_simd t op vm =
     (let (res, fl) = simd_lanes t (vm_regs vm (reg_only_op1 op)) (vm_regs vm (reg_only_op2 op));
          vm = set_reg (reg_only_dest op) res vm
      in Inr (advance (vm\<lparr>vm_fpscr := vm_fpscr vm OR push_bit 16 fl\<rparr>)))"

section \<open>Sign extension\<close>

definition prv_signx_rotate :: "u32 \<Rightarrow> signx_rotate \<Rightarrow> u32" where
  "prv_signx_rotate num r =
     (case r of
        ROR_NONE \<Rightarrow> num
      | ROR_8 \<Rightarrow> push_bit 24 num OR signed_drop_bit 8 num
      | ROR_16 \<Rightarrow> push_bit 16 num OR signed_drop_bit 16 num
      | ROR_24 \<Rightarrow> push_bit 8 num OR signed_drop_bit 24 num)"

definition prv_process_signx :: "signx_type \<Rightarrow> signx_instr \<Rightarrow> arm_vm \<Rightarrow> arm_vm c_result" where
  "prv_process_signx t op vm =
     (let num = prv_signx_rotate (vm_regs vm (signx_op1 op)) (signx_rotate op);
          res = (case t of
                   INSTR_SXTB \<Rightarrow> scast (ucast num :: u8)
                 | INSTR_SXTB16 \<Rightarrow>
                     push_bit 16 (scast (ucast (signed_drop_bit 16 num) :: u8))
                     OR (scast (ucast num :: u8) AND 0xffff)
                 | INSTR_SXTH \<Rightarrow> scast (ucast num :: u16))
      in Inr (advance (set_reg (signx_dest op) res vm)))"

section \<open>Execution\<close>

text \<open>\<open>None\<close> stands for the instructions outside the model; \<^verbatim>\<open>SBC\<close> and \<^verbatim>\<open>RSC\<close> are not executed by the C code.\<close>

fun exec_instr :: "(u32 \<Rightarrow> u32) \<Rightarrow> arm_instr \<Rightarrow> arm_vm \<Rightarrow> arm_vm c_result option" where
  "exec_instr sar32 (Data t op) vm = Some
     (case t of
        INSTR_AND \<Rightarrow> prv_process_and sar32 op vm
      | INSTR_EOR \<Rightarrow> prv_process_eor sar32 op vm
      | INSTR_SUB \<Rightarrow> prv_process_sub sar32 op vm
      | INSTR_RSB \<Rightarrow> prv_process_rsb sar32 op vm
      | INSTR_ADD \<Rightarrow> prv_process_add sar32 op vm
      | INSTR_ADC \<Rightarrow> prv_process_adc sar32 op vm
      | INSTR_CMP \<Rightarrow> prv_process_cmp sar32 op vm
      | INSTR_CMN \<Rightarrow> prv_process_cmn sar32 op vm
      | INSTR_TST \<Rightarrow> prv_process_tst sar32 op vm
      | INSTR_TEQ \<Rightarrow> prv_process_teq sar32 op vm
      | INSTR_ORR \<Rightarrow> prv_process_orr sar32 op vm
      | INSTR_MOV \<Rightarrow> prv_process_mov sar32 op vm
      | INSTR_BIC \<Rightarrow> prv_process_bic sar32 op vm
      | INSTR_MVN \<Rightarrow> prv_process_mvn sar32 op vm
      | _ \<Rightarrow> Inl assertion_failed)"
| "exec_instr _ (Mul INSTR_MUL op) vm = Some (prv_process_mul op vm)"
| "exec_instr _ (Mul INSTR_MLA op) vm = Some (prv_process_mla op vm)"
| "exec_instr sar32 (Stran INSTR_LDR op) vm = Some (prv_process_ldr sar32 op vm)"
| "exec_instr sar32 (Stran INSTR_STR op) vm = Some (prv_process_str sar32 op vm)"
| "exec_instr _ (Br op) vm = Some (prv_process_b op vm)"
| "exec_instr _ (Mtran INSTR_STM op) vm = Some (prv_process_stm op vm)"
| "exec_instr _ (Mtran INSTR_LDM op) vm = Some (prv_process_ldm op vm)"
| "exec_instr _ (Flags INSTR_MSR op) vm = Some (prv_process_msr op vm)"
| "exec_instr _ (Flags INSTR_MRS op) vm = Some (prv_process_mrs op vm)"
| "exec_instr _ (Stran_misc STRAN_MISC_LDR op) vm = Some (prv_process_stran_misc_ldr op vm)"
| "exec_instr _ (Stran_misc STRAN_MISC_STR op) vm = Some (prv_process_stran_misc_str op vm)"
| "exec_instr _ (Simd t op) vm = Some (process_simd t op vm)"
| "exec_instr _ (Signx t op) vm = Some (prv_process_signx t op vm)"
| "exec_instr _ _ vm = None"

text \<open>
  One turn of the loop: the word at the program counter is decoded over the structure of the
  previous instruction, whose unset members \<open>st\<close> are.
\<close>

definition vm_step :: "(u32 \<Rightarrow> u32) \<Rightarrow> stale \<Rightarrow> arm_vm \<Rightarrow> arm_vm c_result option" where
  "vm_step sar32 st vm =
     (case rbind (read_word (vm_memory vm) (4 * prv_calc_pc vm))
             (\<lambda>w. subtilis_arm_disass st w (vm_vfp vm)) of
        Inl e \<Rightarrow> Some (Inl e)
      | Inr i \<Rightarrow> exec_instr sar32 i vm)"

text \<open>
  The loop, for at most \<open>fuel\<close> instructions; \<open>None\<close> when they do not suffice or an instruction is
  outside the model.
\<close>

fun vm_loop :: "nat \<Rightarrow> (u32 \<Rightarrow> u32) \<Rightarrow> stale \<Rightarrow> arm_vm \<Rightarrow> arm_vm c_result option" where
  "vm_loop fuel sar32 st vm =
     (if vm_quit vm \<or> vm_code_size vm \<le> prv_calc_pc vm then Some (Inr vm)
      else case fuel of
             0 \<Rightarrow> None
           | Suc fuel \<Rightarrow>
               (case vm_step sar32 st vm of
                  None \<Rightarrow> None
                | Some (Inl e) \<Rightarrow> Some (Inl e)
                | Some (Inr vm) \<Rightarrow> vm_loop fuel sar32 st vm))"

definition vm_reset :: "arm_vm \<Rightarrow> arm_vm" where
  "vm_reset vm = set_reg 15 (vm_start_address vm + 8) (vm\<lparr>vm_quit := False,
     vm_negative_flag := False, vm_zero_flag := False, vm_carry_flag := False,
     vm_overflow_flag := False, vm_fpscr := 0\<rparr>)"

definition subtilis_arm_vm_run :: "nat \<Rightarrow> (u32 \<Rightarrow> u32) \<Rightarrow> stale \<Rightarrow> arm_vm \<Rightarrow> arm_vm c_result option" where
  "subtilis_arm_vm_run fuel sar32 st vm = vm_loop fuel sar32 st (vm_reset vm)"

text \<open>
  A machine with a program in its memory. The rest of the memory is what \<^verbatim>\<open>malloc\<close> returned, the
  command line is written near its end, and the registers are zero; a program that does not fit is
  written past the memory.
\<close>

definition subtilis_arm_vm_new ::
    "u8 list \<Rightarrow> u8 list \<Rightarrow> u32 \<Rightarrow> bool \<Rightarrow> u8 list \<Rightarrow> allocs \<Rightarrow> arm_vm c_result" where
  "subtilis_arm_vm_new code garbage start vfp cmd_line al =
     rbind (alloc al) (\<lambda>al.
     rbind (alloc al) (\<lambda>al.
     let n = length garbage; size = length cmd_line + 1;
         aligned = (if size mod 4 \<noteq> 0 then size + (4 - size mod 4) else size);
         mem_end = n - (4 + aligned)
     in if n < length code \<or> n < 4 + aligned then Inl Undefined
        else Inr \<lparr>vm_regs = (\<lambda>_. 0), vm_negative_flag = False, vm_zero_flag = False,
             vm_carry_flag = False, vm_overflow_flag = False,
             vm_memory = (let m = code @ drop (length code) garbage
                          in take mem_end m @ cmd_line @ [0] @ drop (mem_end + size) m),
             vm_code_size = length code div 4, vm_start_address = start, vm_fpscr = 0,
             vm_quit = False, vm_vfp = vfp\<rparr>))"

end
