(* ===== verification/Arm_Vm_Laws.thy ===== *)
theory Arm_Vm_Laws
  imports Arm_Vm_Run
begin

text \<open>
  Laws of the simulator: the flags of additions, subtractions and comparisons and the conditions that
  read them, the bounds of memory accesses, and how instructions in memory are fetched and executed
  one after another.
\<close>

section \<open>Words as signed and unsigned numbers\<close>

lemma uint_u32_bounds: "0 \<le> uint (w :: u32)" "uint (w :: u32) < 4294967296"
  using uint_bounded [of w] by auto

lemma mod_above: "k \<le> x \<Longrightarrow> x < k + k \<Longrightarrow> x mod k = x - k" for x k :: int
  by (metis add_diff_cancel_right' diff_ge_0_iff_ge diff_less_eq mod_add_self2 mod_pos_pos_trivial
      diff_add_cancel)

lemma sint_u32: "sint (w :: u32) = (if uint w < 2147483648 then uint w else uint w - 4294967296)"
  using uint_u32_bounds [of w] mod_above [of 4294967296 "uint w + 2147483648"]
  by (simp add: sint_uint signed_take_bit_eq_take_bit_shift take_bit_eq_mod)

lemma uint_u32_diff:
  "uint (a - b :: u32) = (if uint b \<le> uint a then uint a - uint b else uint a - uint b + 4294967296)"
  using uint_bounded [of a] uint_bounded [of b] by (simp add: uint_sub_if')

lemma uint_u32_add:
  "uint (a + b :: u32) = (if uint a + uint b < 4294967296 then uint a + uint b else uint a + uint b - 4294967296)"
  using uint_bounded [of a] uint_bounded [of b] by (simp add: uint_add_lem uint_plus_if')

lemmas u32_arith = sint_u32 uint_u32_diff uint_u32_add

section \<open>Flags and conditions\<close>

text \<open>The two cases of each operand, with the bounds the arithmetic needs.\<close>

lemma u32_cases:
  assumes "\<And>x y. uint (a :: u32) = x \<Longrightarrow> uint (b :: u32) = y \<Longrightarrow> 0 \<le> x \<Longrightarrow> x < 4294967296
    \<Longrightarrow> 0 \<le> y \<Longrightarrow> y < 4294967296 \<Longrightarrow> P"
  shows P
  using assms uint_u32_bounds by blast

lemma sub_flags_result:
  "vm_carry_flag (prv_set_sub_flags a b (a - b) vm) \<longleftrightarrow> b \<le> a"
  "vm_zero_flag (prv_set_sub_flags a b (a - b) vm) \<longleftrightarrow> a = b"
  "vm_negative_flag (prv_set_sub_flags a b (a - b) vm) \<longleftrightarrow> sint (a - b) < 0"
  "vm_overflow_flag (prv_set_sub_flags a b (a - b) vm) \<longleftrightarrow> sint (a - b) \<noteq> sint a - sint b"
  by (rule u32_cases [of a b], auto simp: prv_set_sub_flags_def Let_def u32_arith word_le_def
        split: if_splits)+

lemma add_flags_result:
  "vm_carry_flag (prv_set_add_flags a b (a + b) vm) \<longleftrightarrow> 4294967296 \<le> uint a + uint b"
  "vm_zero_flag (prv_set_add_flags a b (a + b) vm) \<longleftrightarrow> a + b = 0"
  "vm_negative_flag (prv_set_add_flags a b (a + b) vm) \<longleftrightarrow> sint (a + b) < 0"
  "vm_overflow_flag (prv_set_add_flags a b (a + b) vm) \<longleftrightarrow> sint (a + b) \<noteq> sint a + sint b"
  by (rule u32_cases [of a b], auto simp: prv_set_add_flags_def Let_def u32_arith split: if_splits)+

text \<open>What a condition says of the two numbers compared last.\<close>

fun compares :: "ccode \<Rightarrow> u32 \<Rightarrow> u32 \<Rightarrow> bool" where
  "compares CC_EQ a b = (a = b)"
| "compares CC_NE a b = (a \<noteq> b)"
| "compares CC_CS a b = (b \<le> a)"
| "compares CC_CC a b = (a < b)"
| "compares CC_MI a b = (sint (a - b) < 0)"
| "compares CC_PL a b = (0 \<le> sint (a - b))"
| "compares CC_VS a b = (sint (a - b) \<noteq> sint a - sint b)"
| "compares CC_VC a b = (sint (a - b) = sint a - sint b)"
| "compares CC_HI a b = (b < a)"
| "compares CC_LS a b = (a \<le> b)"
| "compares CC_GE a b = (sint b \<le> sint a)"
| "compares CC_LT a b = (sint a < sint b)"
| "compares CC_GT a b = (sint b < sint a)"
| "compares CC_LE a b = (sint a \<le> sint b)"
| "compares CC_AL a b = True"
| "compares CC_NV a b = False"

lemma signed_less_by_flags: "sint a < sint b \<longleftrightarrow> (sint (a - b) < 0) \<noteq> (sint (a - b) \<noteq> sint a - sint b)"
  for a b :: u32
  by (rule u32_cases [of a b], auto simp: u32_arith split: if_splits)

lemma sint_eq_iff: "sint a = sint b \<longleftrightarrow> a = b" for a b :: u32
  by (auto intro: signed_word_eqI)

lemma flags_less:
  "(vm_negative_flag (prv_set_sub_flags a b (a - b) vm) = vm_overflow_flag (prv_set_sub_flags a b (a - b) vm))
    \<longleftrightarrow> sint b \<le> sint a"
  using signed_less_by_flags [of a b] unfolding sub_flags_result by linarith

lemma le_unless_equal:
  "(a \<noteq> b \<and> b \<le> a) = (b < a)" "(b \<le> a \<and> a \<noteq> b) = (b < a)" "(\<not> b \<le> a \<or> a = b) = (a \<le> b)"
  "(a \<noteq> b \<and> sint b \<le> sint a) = (sint b < sint a)" "(a = b \<or> \<not> sint b \<le> sint a) = (sint a \<le> sint b)"
  for a b :: u32
  using sint_eq_iff [of a b] by auto

lemma sub_flags_conditions: "prv_match_ccode (prv_set_sub_flags a b (a - b) vm) cc = compares cc a b"
proof (cases cc)
  case CC_GT
  then show ?thesis
    by (simp only: prv_match_ccode.simps compares.simps flags_less sub_flags_result(2) le_unless_equal)
next
  case CC_LE
  then show ?thesis
    by (simp only: prv_match_ccode.simps compares.simps flags_less sub_flags_result(2) le_unless_equal)
next
  case CC_GE
  then show ?thesis
    by (simp only: prv_match_ccode.simps compares.simps flags_less)
next
  case CC_LT
  then show ?thesis
    by (simp only: prv_match_ccode.simps compares.simps flags_less not_le)
qed (auto simp: sub_flags_result le_unless_equal not_le not_less order_le_less)

lemma match_set_reg [simp]: "prv_match_ccode (set_reg r w vm) cc = prv_match_ccode vm cc"
  by (cases cc) (simp_all add: set_reg_def)

lemma match_advance [simp]: "prv_match_ccode (advance vm) cc = prv_match_ccode vm cc"
  by (simp add: advance_def)

lemma eval_op2_regs: "prv_eval_op2 sar32 status op2 vm = Inr (b, vm1) \<Longrightarrow> vm_regs vm1 = vm_regs vm"
  by (auto simp: prv_eval_op2_def rbind_eq_Inr split: arm_op2.splits if_splits)

text \<open>A machine with a register below zero and one below the memory.\<close>

definition example_vm :: arm_vm where
  "example_vm = \<lparr>vm_regs = (\<lambda>r. if r = 1 then 0xffffffff else if r = 2 then 0x8000 - 4 else 0),
     vm_negative_flag = False, vm_zero_flag = False, vm_carry_flag = False, vm_overflow_flag = False,
     vm_memory = replicate 16 0, vm_code_size = 4, vm_start_address = 0x8000, vm_fpscr = 0,
     vm_quit = False, vm_vfp = False\<rparr>"

text \<open>
  C24: after a comparison is executed, each of the sixteen conditions holds exactly when the two
  operands are in the relation it names: \<open>CC_CS\<close>, \<open>CC_HI\<close> and their negations order them as unsigned
  numbers, \<open>CC_GE\<close>, \<open>CC_GT\<close> and their negations as signed numbers, also when the difference overflows.
\<close>

theorem cmp_sets_conditions:
  assumes "prv_match_ccode vm (data_ccode op)" and "data_status op"
    and "prv_eval_op2 sar32 True (data_op2 op) vm = Inr (b, vm1)"
  shows "\<exists>vm'. exec_instr sar32 (Data INSTR_CMP op) vm = Some (Inr vm')
    \<and> (\<forall>cc. prv_match_ccode vm' cc = compares cc (vm_regs vm (data_op1 op)) b)"
  using assms eval_op2_regs [OF assms(3)]
  by (simp add: prv_process_cmp_def compare_def conditionally_def prv_set_status_flags_def
      sub_flags_conditions)

theorem cmp_sets_conditions_witness:
  "\<exists>vm'. exec_instr id (Data INSTR_CMP \<lparr>data_ccode = CC_AL, data_status = True, data_dest = 0,
      data_op1 = 1, data_op2 = OP2_I32 1\<rparr>) example_vm = Some (Inr vm')
    \<and> prv_match_ccode vm' CC_LT \<and> prv_match_ccode vm' CC_HI"
proof -
  let ?op = "\<lparr>data_ccode = CC_AL, data_status = True, data_dest = 0, data_op1 = 1, data_op2 = OP2_I32 1\<rparr>"
  have "prv_eval_op2 id True (data_op2 ?op) example_vm = Inr (1, example_vm)"
    by (simp add: prv_eval_op2_def prv_decode_imm_def)
  then obtain vm' where "exec_instr id (Data INSTR_CMP ?op) example_vm = Some (Inr vm')"
    and cc: "\<And>cc. prv_match_ccode vm' cc = compares cc (vm_regs example_vm 1) 1"
    using cmp_sets_conditions [of example_vm ?op id 1 example_vm] by auto
  moreover have "prv_match_ccode vm' CC_LT \<and> prv_match_ccode vm' CC_HI"
    unfolding cc by (simp add: example_vm_def word_less_def)
  ultimately show ?thesis
    by blast
qed

section \<open>The bounds of memory\<close>

lemma checked_addr_Inr:
  assumes "checked_addr 4 addr vm = Inr a" and "length (vm_memory vm) < 2 ^ 63"
  shows "a = addr \<and> (if - 4 \<le> addr then length (vm_memory vm) \<le> unat addr
    else unat addr + 4 \<le> length (vm_memory vm))"
proof -
  have le: "\<not> mem_size vm < addr + 4" and a: "a = addr"
    using assms(1) by (auto simp: checked_addr_def ensure_def split: if_splits)
  have size: "unat (mem_size vm) = length (vm_memory vm)"
    using assms(2) by (simp add: mem_size_def unat_of_nat take_bit_eq_mod)
  show ?thesis
  proof (cases "- 4 \<le> addr")
    case True
    then have "2 ^ 64 - 4 \<le> unat addr"
      by (simp add: word_le_nat_alt)
    with True a assms(2) show ?thesis
      by simp
  next
    case False
    then have "unat addr < 2 ^ 64 - 4"
      by (simp add: word_le_nat_alt)
    then have "unat (addr + 4) = unat addr + 4"
      by (simp add: unat_plus_if')
    with le size have "unat addr + 4 \<le> length (vm_memory vm)"
      by (simp add: word_less_nat_alt)
    with False a show ?thesis
      by simp
  qed
qed

lemma indexed_addr_Inr:
  assumes "indexed_addr pre wb base offset 4 vm = Inr (addr, vm')" and "length (vm_memory vm) < 2 ^ 63"
  shows "vm_memory vm' = vm_memory vm
    \<and> (if - 4 \<le> addr then length (vm_memory vm) \<le> unat addr
       else unat addr + 4 \<le> length (vm_memory vm))"
  using assms
  by (auto simp: indexed_addr_def Let_def rbind_eq_Inr set_reg_def split: if_splits
      dest!: checked_addr_Inr)

lemma eval_op2_memory: "prv_eval_op2 sar32 status op2 vm = Inr (b, vm1) \<Longrightarrow> vm_memory vm1 = vm_memory vm"
  by (auto simp: prv_eval_op2_def rbind_eq_Inr split: arm_op2.splits if_splits)

lemma stran_addr_Inr:
  assumes "prv_compute_stran_addr sar32 op vm = Inr (addr, vm')" and "length (vm_memory vm) < 2 ^ 63"
  shows "vm_memory vm' = vm_memory vm
    \<and> (if - 4 \<le> addr then length (vm_memory vm) \<le> unat addr
       else unat addr + 4 \<le> length (vm_memory vm))"
proof -
  from assms(1) obtain offset vm1 where "vm_memory vm1 = vm_memory vm"
    and "indexed_addr (stran_pre_indexed op) (stran_write_back op) (stran_base op)
      (if stran_subtract op then - offset else offset) 4 vm1 = Inr (addr, vm')"
    by (auto simp: prv_compute_stran_addr_def rbind_eq_Inr dest: eval_op2_memory split: arm_op2.splits)
  with indexed_addr_Inr assms(2) show ?thesis
    by metis
qed

text \<open>
  C25: when the address of a load or store passes the simulator's check, the access stays inside the
  memory of the machine, unless the address is one of the four bytes below the start of the memory:
  there the sum that is compared with the size wraps around, and the access is outside the array.
\<close>

theorem transfers_in_memory:
  assumes "prv_match_ccode vm (stran_ccode op)" and "length (vm_memory vm) < 2 ^ 63"
    and "prv_compute_stran_addr sar32 op vm = Inr (addr, vm')"
  shows "(exec_instr sar32 (Stran INSTR_LDR op) vm = Some (Inl Undefined) \<longleftrightarrow> - 4 \<le> addr)
    \<and> (exec_instr sar32 (Stran INSTR_STR op) vm = Some (Inl Undefined) \<longleftrightarrow> - 4 \<le> addr)"
  using stran_addr_Inr [OF assms(3,2)] assms(1,3)
  by (auto simp: prv_process_ldr_def prv_process_str_def conditionally_def load_byte_def load_word_def
      store_byte_def store_word_def read_word_def write_word_def array_get_def array_set_def Let_def
      split: if_splits)

theorem transfers_in_memory_witness:
  "exec_instr id (Stran INSTR_LDR (\<lparr>stran_ccode = CC_AL, stran_dest = 0, stran_base = 2,
      stran_offset = OP2_I32 0, stran_pre_indexed = True, stran_write_back = False,
      stran_subtract = False, stran_byte = False\<rparr>)) example_vm = Some (Inl Undefined)"
  using transfers_in_memory [of example_vm "\<lparr>stran_ccode = CC_AL, stran_dest = 0, stran_base = 2,
      stran_offset = OP2_I32 0, stran_pre_indexed = True, stran_write_back = False,
      stran_subtract = False, stran_byte = False\<rparr>" id "- 4" example_vm]
  by (simp add: example_vm_def prv_compute_stran_addr_def indexed_addr_def checked_addr_def
      mem_size_def ensure_def Let_def)

section \<open>Runs\<close>

text \<open>\<open>runs_to n\<close>: after \<open>n\<close> turns of the loop the machine is in the second state.\<close>

definition runs_to :: "nat \<Rightarrow> (u32 \<Rightarrow> u32) \<Rightarrow> stale \<Rightarrow> arm_vm \<Rightarrow> arm_vm \<Rightarrow> bool" where
  "runs_to n sar32 st vm vm' \<longleftrightarrow>
     (\<forall>fuel. vm_loop (n + fuel) sar32 st vm = vm_loop fuel sar32 st vm')"

lemma runs_to_refl: "runs_to 0 sar32 st vm vm"
  by (simp add: runs_to_def)

lemma runs_to_trans:
  "runs_to m sar32 st vm vm1 \<Longrightarrow> runs_to n sar32 st vm1 vm2 \<Longrightarrow> runs_to (m + n) sar32 st vm vm2"
  by (simp add: runs_to_def add.assoc)

text \<open>The machine is about to execute the \<open>k\<close>-th word of its memory.\<close>

definition at_word :: "nat \<Rightarrow> arm_vm \<Rightarrow> bool" where
  "at_word k vm \<longleftrightarrow> vm_regs vm 15 = vm_start_address vm + 8 + of_nat (4 * k)"

lemma at_word_calc_pc:
  assumes "at_word k vm" and "k < 2 ^ 29"
  shows "prv_calc_pc vm = k"
proof -
  have "sint (of_nat (4 * k) :: u32) = int (4 * k)"
    using assms(2) by (simp del: of_nat_mult add: sint_u32 unsigned_of_nat take_bit_eq_mod)
  moreover have "vm_regs vm 15 - vm_start_address vm - 8 = of_nat (4 * k)"
    using assms(1) by (simp add: at_word_def)
  ultimately have "sdiv32 (vm_regs vm 15 - vm_start_address vm - 8) 4 = int k"
    by (cases "k = 0") (simp_all add: sdiv32_def)
  with assms(2) show ?thesis
    by (simp add: prv_calc_pc_def unat_of_nat take_bit_eq_mod)
qed

lemma runs_to_step:
  assumes "at_word k vm" and "k < 2 ^ 29" and "k < vm_code_size vm" and "\<not> vm_quit vm"
    and "read_word (vm_memory vm) (4 * k) = Inr w" and "subtilis_arm_disass st w (vm_vfp vm) = Inr i"
    and "exec_instr sar32 i vm = Some (Inr vm')"
  shows "runs_to 1 sar32 st vm vm'"
  using assms by (simp add: runs_to_def vm_step_def at_word_calc_pc)

end
