(* ===== verification/Arm_Div_Run.thy ===== *)
theory Arm_Div_Run
  imports Arm_Div Arm_Encode_Branches Arm_Vm_Laws
begin

text \<open>
  The division routine of arch/arm32/arm2_div.c, encoded and executed: the instructions the encoder
  and the decoder make of it, the invariant of its loop, and its result in the simulator.
\<close>

section \<open>The code in memory\<close>

definition idiv_code :: "stale \<Rightarrow> arm_instr list" where
  "idiv_code st = map (\<lambda>k. resolved_decoded st (label_index idiv_ops) k (instrs_of idiv_ops ! k))
     [0..<length (instrs_of idiv_ops)]"

definition jump :: "stale \<Rightarrow> ccode \<Rightarrow> int \<Rightarrow> arm_instr" where
  "jump st cc offset = Br \<lparr>br_ccode = cc, br_link = False, br_local = stale_local st,
     br_indirect = stale_indirect st, br_kind = BR_LINK_VOID, br_target = Target_offset (word_of_int offset)\<rparr>"

lemma idiv_instrs: "length (instrs_of idiv_ops) = 65"
  by (simp add: idiv_ops_def step_ops_def return_ops_def branch_to_def)

lemma idiv_labels:
  "label_index idiv_ops 0 = Some 25" "label_index idiv_ops 1 = Some 26" "label_index idiv_ops 2 = Some 38"
  "label_index idiv_ops 3 = Some 41" "label_index idiv_ops 5 = Some 60" "label_index idiv_ops 6 = Some 57"
  by (simp_all add: idiv_ops_def step_ops_def return_ops_def branch_to_def)

lemma length_idiv_code: "length (idiv_code st) = 65"
  by (simp add: idiv_code_def idiv_instrs)

definition shift_op :: "data_type \<Rightarrow> ccode \<Rightarrow> bool \<Rightarrow> arm_reg \<Rightarrow> arm_reg \<Rightarrow> arm_reg \<Rightarrow> shift_type \<Rightarrow> u32 \<Rightarrow> arm_instr" where
  "shift_op t cc s dest op1 r kind n = Data t (data cc s dest op1 (shifted r kind n))"

definition reg_op :: "data_type \<Rightarrow> ccode \<Rightarrow> bool \<Rightarrow> arm_reg \<Rightarrow> arm_reg \<Rightarrow> arm_reg \<Rightarrow> arm_instr" where
  "reg_op t cc s dest op1 r = Data t (data cc s dest op1 (OP2_REG r))"

definition imm_op :: "data_type \<Rightarrow> ccode \<Rightarrow> bool \<Rightarrow> arm_reg \<Rightarrow> arm_reg \<Rightarrow> u32 \<Rightarrow> arm_instr" where
  "imm_op t cc s dest op1 i = Data t (data cc s dest op1 (OP2_I32 i))"

abbreviation group_code :: "u32 \<Rightarrow> arm_instr list" where
  "group_code i \<equiv> [shift_op INSTR_RSB CC_AL True 4 1 0 SHIFT_LSR i,
     shift_op INSTR_SUB CC_CS False 0 0 1 SHIFT_LSL i, reg_op INSTR_ADC CC_AL False 5 5 5]"

abbreviation return_code :: "arm_instr list" where
  "return_code \<equiv> [shift_op INSTR_MOV CC_AL True 6 0 6 SHIFT_LSL 1, imm_op INSTR_RSB CC_CS False 0 0 0,
     reg_op INSTR_MOV CC_AL False 15 0 14]"

lemma idiv_code_eq: "idiv_code st =
  [Stran INSTR_LDR (stran CC_AL 7 13 (OP2_I32 4) True False True False),
   imm_op INSTR_AND CC_AL True 6 1 0x102, imm_op INSTR_RSB CC_MI False 1 1 0,
   shift_op INSTR_EOR CC_AL True 6 6 0 SHIFT_ASR 32, imm_op INSTR_RSB CC_CS False 0 0 0,
   imm_op INSTR_MOV CC_AL False 5 0 0,
   shift_op INSTR_RSB CC_AL True 4 1 0 SHIFT_LSR 3, jump st CC_CC 32,
   shift_op INSTR_RSB CC_AL True 4 1 0 SHIFT_LSR 8, jump st CC_CC 15,
   shift_op INSTR_MOV CC_AL False 1 0 1 SHIFT_LSL 8, imm_op INSTR_ORR CC_AL False 5 5 0x4ff,
   shift_op INSTR_RSB CC_AL True 4 1 0 SHIFT_LSR 4, jump st CC_CC 23,
   shift_op INSTR_RSB CC_AL True 4 1 0 SHIFT_LSR 8, jump st CC_CC 9,
   shift_op INSTR_MOV CC_AL False 1 0 1 SHIFT_LSL 8, imm_op INSTR_ORR CC_AL False 5 5 0x8ff,
   shift_op INSTR_RSB CC_AL True 4 1 0 SHIFT_LSR 8, shift_op INSTR_MOV CC_CS False 1 0 1 SHIFT_LSL 8,
   imm_op INSTR_ORR CC_CS False 5 5 0xcff, shift_op INSTR_RSB CC_AL True 4 1 0 SHIFT_LSR 4,
   jump st CC_CC 14, imm_op INSTR_RSB CC_AL True 4 1 0, jump st CC_CS 34,
   shift_op INSTR_MOV CC_CS False 1 0 1 SHIFT_LSR 8]
  @ group_code 7 @ group_code 6 @ group_code 5 @ group_code 4 @ group_code 3 @ group_code 2 @ group_code 1
  @ [reg_op INSTR_RSB CC_AL True 4 1 0, reg_op INSTR_SUB CC_CS False 0 0 1,
   reg_op INSTR_ADC CC_AL True 5 5 5, jump st CC_CS (- 27), imm_op INSTR_CMP CC_AL True 0 2 0,
   jump st CC_NE 3, reg_op INSTR_MOV CC_AL False 0 0 5] @ return_code @ return_code
  @ [imm_op INSTR_MOV CC_AL False 0 0 18,
   Stran INSTR_STR (stran CC_AL 0 12 (OP2_REG 7) True False False False),
   imm_op INSTR_MVN CC_AL False 0 0 0,
   Stran INSTR_STR (stran CC_AL 0 12 (OP2_REG 3) True False False False),
   reg_op INSTR_MOV CC_AL False 15 0 14]"
  unfolding idiv_code_def idiv_instrs
  apply (simp add: upt_rec idiv_labels instrs_of.simps)
  apply (simp add: idiv_ops_def step_ops_def return_ops_def branch_to_def data_def shift_op_def reg_op_def
      imm_op_def shifted_def jump_def stran_def)
  done

section \<open>Single instructions\<close>

text \<open>
  The routine is in memory from the word \<open>base\<close> on, and the machine will execute it.
\<close>

definition idiv_loaded :: "stale \<Rightarrow> nat \<Rightarrow> arm_vm \<Rightarrow> bool" where
  "idiv_loaded st base vm \<longleftrightarrow> base + 65 \<le> vm_code_size vm \<and> base + 65 \<le> 2 ^ 29 \<and> \<not> vm_quit vm
     \<and> (\<forall>k < 65. \<exists>w. read_word (vm_memory vm) (4 * (base + k)) = Inr w
          \<and> subtilis_arm_disass st w (vm_vfp vm) = Inr (idiv_code st ! k))"

text \<open>What the routine does not change once the offset of the error number is loaded.\<close>

definition kept :: "arm_vm \<Rightarrow> arm_vm \<Rightarrow> bool" where
  "kept vm0 vm \<longleftrightarrow> vm_memory vm = vm_memory vm0 \<and> vm_code_size vm = vm_code_size vm0
     \<and> vm_start_address vm = vm_start_address vm0 \<and> vm_quit vm = vm_quit vm0 \<and> vm_vfp vm = vm_vfp vm0
     \<and> (\<forall>x. x \<notin> {0, 1, 4, 5, 6, 15} \<longrightarrow> vm_regs vm x = vm_regs vm0 x)"

definition idiv_state :: "nat \<Rightarrow> arm_vm \<Rightarrow> nat \<Rightarrow> u32 \<Rightarrow> u32 \<Rightarrow> u32 \<Rightarrow> u32 \<Rightarrow> bool \<Rightarrow> arm_vm \<Rightarrow> bool" where
  "idiv_state base vm0 k r d q sg c vm \<longleftrightarrow> at_word (base + k) vm \<and> kept vm0 vm
     \<and> vm_regs vm 0 = r \<and> vm_regs vm 1 = d \<and> vm_regs vm 5 = q \<and> vm_regs vm 6 = sg \<and> vm_carry_flag vm = c"

definition leads :: "(u32 \<Rightarrow> u32) \<Rightarrow> stale \<Rightarrow> nat \<Rightarrow> arm_vm \<Rightarrow> (arm_vm \<Rightarrow> bool) \<Rightarrow> bool" where
  "leads sar32 st n vm S \<longleftrightarrow> (\<exists>m vm'. m \<le> n \<and> runs_to m sar32 st vm vm' \<and> S vm')"

lemma leads_now: "S vm \<Longrightarrow> leads sar32 st n vm S"
  unfolding leads_def using runs_to_refl by blast

lemma leads_trans:
  assumes "leads sar32 st m vm S" and "\<And>vm'. S vm' \<Longrightarrow> leads sar32 st n vm' T"
  shows "leads sar32 st (m + n) vm T"
  using assms unfolding leads_def by (meson add_mono runs_to_trans)

lemma leads_weaken: "leads sar32 st m vm S \<Longrightarrow> m \<le> n \<Longrightarrow> (\<And>vm'. S vm' \<Longrightarrow> T vm') \<Longrightarrow> leads sar32 st n vm T"
  unfolding leads_def by (meson order_trans)

lemma loaded_kept: "kept vm0 vm \<Longrightarrow> idiv_loaded st base vm0 \<Longrightarrow> idiv_loaded st base vm"
  by (simp add: kept_def idiv_loaded_def)

lemma leads_exec:
  assumes "idiv_loaded st base vm0" and "kept vm0 vm" and "at_word (base + k) vm" and "k < 65"
    and "idiv_code st ! k = i" and "exec_instr sar32 i vm = Some (Inr vm')" and "S vm'"
  shows "leads sar32 st 1 vm S"
proof -
  note l = loaded_kept [OF assms(2,1)]
  then obtain w where "read_word (vm_memory vm) (4 * (base + k)) = Inr w"
    "subtilis_arm_disass st w (vm_vfp vm) = Inr i"
    using assms(4,5) by (auto simp: idiv_loaded_def)
  with l assms(3,4,6) have "runs_to 1 sar32 st vm vm'"
    by (intro runs_to_step [of "base + k"]) (simp_all add: idiv_loaded_def)
  with assms(7) show ?thesis
    unfolding leads_def by blast
qed

lemma at_word_next: "at_word k vm \<Longrightarrow> at_word (Suc k) (vm\<lparr>vm_regs := (vm_regs vm)(15 := vm_regs vm 15 + 4)\<rparr>)"
  by (simp add: at_word_def)

text \<open>The right shift of the simulator for the amounts the routine uses.\<close>

lemma lsr_value:
  assumes "0 < n" and "n < 32"
  shows "(let w = signed_drop_bit n reg in if sint reg < 0 \<and> sint w < 0 then w AND drop_bit n 0xffffffff else w)
    = drop_bit n (reg :: u32)"
proof -
  have ones: "(0xffffffff :: u32) = mask 32"
    by (simp add: mask_eq_exp_minus_1)
  have sign: "sint w < 0 \<longleftrightarrow> bit w 31" for w :: u32
    using bit_last_iff [of w] by simp
  have out: "\<not> bit reg (n + m)" if "32 - n \<le> m" for m
    using bit_imp_le_length [of reg "n + m"] that by auto
  have "signed_drop_bit n reg AND drop_bit n 0xffffffff = drop_bit n reg"
    unfolding ones by (rule bit_word_eqI) (auto simp: bit_simps not_le min_def out)
  moreover have "signed_drop_bit n reg = drop_bit n reg" if "\<not> bit reg 31"
    by (rule bit_word_eqI) (use that assms in \<open>auto simp: bit_simps not_le min_def dest: bit_imp_le_length\<close>)
  moreover have "bit (signed_drop_bit n reg) 31" if "bit reg 31"
    using that assms by (auto simp: bit_simps)
  ultimately show ?thesis
    by (auto simp: sign Let_def)
qed

lemma eval_lsr:
  assumes "0 < n" and "n < 32"
  shows "eval_shift sar32 vm \<lparr>shift_of_reg = x, shift_kind = SHIFT_LSR, shift_by = Shift_integer (of_nat n)\<rparr>
    = Inr (drop_bit n (vm_regs vm x))"
proof -
  have "sint (of_nat n :: u32) = int n"
    using assms(2) by (simp add: signed_of_nat signed_take_bit_int_eq_self)
  then show ?thesis
    using lsr_value [OF assms, of "vm_regs vm x"] assms
    by (auto simp: eval_shift_def shift_value_def Let_def split: if_splits)
qed

lemma eval_lsl:
  assumes "n < 32"
  shows "eval_shift sar32 vm \<lparr>shift_of_reg = x, shift_kind = SHIFT_LSL, shift_by = Shift_integer (of_nat n)\<rparr>
    = Inr (push_bit n (vm_regs vm x))"
proof -
  have "sint (of_nat n :: u32) = int n"
    using assms by (simp add: signed_of_nat signed_take_bit_int_eq_self)
  then show ?thesis
    using assms by (simp add: eval_shift_def shift_value_def Let_def)
qed

lemmas exec_simps = shift_op_def reg_op_def imm_op_def shifted_def data_def prv_process_rsb_def
  prv_process_sub_def prv_process_adc_def prv_process_mov_def prv_process_orr_def logic_op_def
  conditionally_def prv_eval_op2_def eval_lsr eval_lsl advance_def set_reg_def

lemma sub_flags_frame [simp]:
  "vm_regs (prv_set_sub_flags a b c vm) = vm_regs vm" "vm_memory (prv_set_sub_flags a b c vm) = vm_memory vm"
  "vm_code_size (prv_set_sub_flags a b c vm) = vm_code_size vm"
  "vm_start_address (prv_set_sub_flags a b c vm) = vm_start_address vm"
  "vm_quit (prv_set_sub_flags a b c vm) = vm_quit vm" "vm_vfp (prv_set_sub_flags a b c vm) = vm_vfp vm"
  by (simp_all add: prv_set_sub_flags_def Let_def)

lemma add_flags_frame [simp]:
  "vm_regs (prv_set_add_flags a b c vm) = vm_regs vm" "vm_memory (prv_set_add_flags a b c vm) = vm_memory vm"
  "vm_code_size (prv_set_add_flags a b c vm) = vm_code_size vm"
  "vm_start_address (prv_set_add_flags a b c vm) = vm_start_address vm"
  "vm_quit (prv_set_add_flags a b c vm) = vm_quit vm" "vm_vfp (prv_set_add_flags a b c vm) = vm_vfp vm"
  by (simp_all add: prv_set_add_flags_def Let_def)

lemma leads_state:
  assumes "idiv_loaded st base vm0" and "idiv_state base vm0 k r d q sg c vm" and "k < 65"
    and "exec_instr sar32 (idiv_code st ! k) vm = Some (Inr vm')" and "S vm'"
  shows "leads sar32 st 1 vm S"
  by (rule leads_exec [where k = k, OF assms(1) _ _ assms(3) refl assms(4)])
    (use assms(2,5) in \<open>simp_all add: idiv_state_def\<close>)

lemmas state_simps = idiv_state_def kept_def at_word_def Let_def advance_def set_reg_def sub_flags_result
  add_flags_result prv_set_and_flags_def

lemma step_rsbs:
  assumes "idiv_loaded st base vm0" and "idiv_state base vm0 k r d q sg c vm" and "k < 65"
    and "idiv_code st ! k = shift_op INSTR_RSB CC_AL True 4 1 0 SHIFT_LSR (of_nat n)" and "0 < n" and "n < 32"
  shows "leads sar32 st 1 vm (idiv_state base vm0 (Suc k) r d q sg (d \<le> drop_bit n r))"
  by (rule leads_state [OF assms(1-3)], simp add: assms(4-6) exec_simps Let_def)
    (use assms(2) in \<open>simp add: state_simps\<close>)

lemma step_rsbs_reg:
  assumes "idiv_loaded st base vm0" and "idiv_state base vm0 k r d q sg c vm" and "k < 65"
    and "idiv_code st ! k = reg_op INSTR_RSB CC_AL True 4 1 0"
  shows "leads sar32 st 1 vm (idiv_state base vm0 (Suc k) r d q sg (d \<le> r))"
  by (rule leads_state [OF assms(1-3)], simp add: assms(4) exec_simps Let_def)
    (use assms(2) in \<open>simp add: state_simps\<close>)

lemma sub_flags_zero: "vm_carry_flag (prv_set_sub_flags 0 b (- b) vm) \<longleftrightarrow> b = 0"
  using sub_flags_result(1) [of 0 b vm] by simp

lemma step_rsbs_zero:
  assumes "idiv_loaded st base vm0" and "idiv_state base vm0 k r d q sg c vm" and "k < 65"
    and "idiv_code st ! k = imm_op INSTR_RSB CC_AL True 4 1 0"
  shows "leads sar32 st 1 vm (idiv_state base vm0 (Suc k) r d q sg (d = 0))"
  by (rule leads_state [OF assms(1-3)], simp add: assms(4) exec_simps prv_decode_imm_def Let_def)
    (use assms(2) in \<open>simp add: state_simps sub_flags_zero\<close>)

lemma step_sub:
  assumes "idiv_loaded st base vm0" and "idiv_state base vm0 k r d q sg c vm" and "k < 65"
    and "idiv_code st ! k = shift_op INSTR_SUB CC_CS False 0 0 1 SHIFT_LSL (of_nat n)" and "n < 32"
  shows "leads sar32 st 1 vm (idiv_state base vm0 (Suc k) (if c then r - push_bit n d else r) d q sg c)"
proof -
  have "vm_carry_flag vm = c"
    using assms(2) by (simp add: idiv_state_def)
  then show ?thesis
    by (cases c; intro leads_state [OF assms(1-3)]; simp add: assms(4,5) exec_simps)
      (use assms(2) in \<open>simp_all add: state_simps\<close>)
qed

lemma step_sub_reg:
  assumes "idiv_loaded st base vm0" and "idiv_state base vm0 k r d q sg c vm" and "k < 65"
    and "idiv_code st ! k = reg_op INSTR_SUB CC_CS False 0 0 1"
  shows "leads sar32 st 1 vm (idiv_state base vm0 (Suc k) (if c then r - d else r) d q sg c)"
proof -
  have "vm_carry_flag vm = c"
    using assms(2) by (simp add: idiv_state_def)
  then show ?thesis
    by (cases c; intro leads_state [OF assms(1-3)]; simp add: assms(4) exec_simps)
      (use assms(2) in \<open>simp_all add: state_simps\<close>)
qed

lemma step_adc:
  assumes "idiv_loaded st base vm0" and "idiv_state base vm0 k r d q sg c vm" and "k < 65"
    and "idiv_code st ! k = reg_op INSTR_ADC CC_AL False 5 5 5"
  shows "leads sar32 st 1 vm (idiv_state base vm0 (Suc k) r d (q + q + of_bool c) sg c)"
proof -
  have "vm_carry_flag vm = c"
    using assms(2) by (simp add: idiv_state_def)
  then show ?thesis
    by (intro leads_state [OF assms(1-3)]; simp add: assms(4) exec_simps)
      (use assms(2) in \<open>simp_all add: state_simps\<close>)
qed

lemma add_flags_carry:
  "c = a + b \<Longrightarrow> vm_carry_flag (prv_set_add_flags a b c vm) \<longleftrightarrow> 4294967296 \<le> uint a + uint b"
  using add_flags_result(1) by simp

lemma adcs_carry:
  assumes "bit q 31 \<Longrightarrow> q \<noteq> 0xffffffff"
  shows "4294967296 \<le> uint q + uint (q + of_bool c) \<longleftrightarrow> bit (q :: u32) 31"
proof -
  have bit: "bit q 31 \<longleftrightarrow> 2147483648 \<le> uint q"
    using bit_last_iff [of q] uint_u32_bounds [of q] by (simp add: sint_u32)
  have "uint q \<noteq> 4294967295" if "bit q 31"
    using assms [OF that] by (metis uint_word_of_int_eq word_of_int_uint word_of_int_numeral)
  moreover have "uint q < 4294967295 \<or> uint q = 4294967295"
    using uint_u32_bounds [of q] by linarith
  ultimately show ?thesis
    using uint_u32_bounds [of q] by (cases c) (auto simp: bit uint_u32_add)
qed

lemma step_adcs:
  assumes "idiv_loaded st base vm0" and "idiv_state base vm0 k r d q sg c vm" and "k < 65"
    and "idiv_code st ! k = reg_op INSTR_ADC CC_AL True 5 5 5" and "bit q 31 \<Longrightarrow> q \<noteq> 0xffffffff"
  shows "leads sar32 st 1 vm (idiv_state base vm0 (Suc k) r d (q + q + of_bool c) sg (bit q 31))"
proof -
  have "vm_carry_flag vm = c"
    using assms(2) by (simp add: idiv_state_def)
  then show ?thesis
    by (intro leads_state [OF assms(1-3)]; simp add: assms(4) exec_simps Let_def)
      (use assms(2) adcs_carry [OF assms(5), of c] in
        \<open>cases c; simp add: state_simps add_flags_carry add.assoc\<close>)
qed

lemma exec_jump:
  assumes "at_word (base + k) vm" and "int j = int k + 2 + off" and "base + j < 2 ^ 29"
    and "base + j < vm_code_size vm" and "prv_match_ccode vm cc"
  shows "exec_instr sar32 (jump st cc off) vm = Some (Inr (set_reg 15 (vm_start_address vm + 8 + of_nat (4 * (base + j))) vm))"
proof -
  let ?vm = "set_reg 15 (vm_start_address vm + 8 + of_nat (4 * (base + j))) vm"
  have "at_word (base + j) ?vm"
    by (simp add: at_word_def set_reg_def)
  then have "prv_calc_pc ?vm = base + j"
    using assms(3) by (rule at_word_calc_pc)
  moreover have "vm_regs vm 15 + (word_of_int off * 4 + 8) = vm_start_address vm + 8 + of_nat (4 * (base + j))"
  proof -
    have "of_nat j = (of_nat k + 2 + word_of_int off :: u32)"
      using arg_cong [OF assms(2), of "word_of_int :: int \<Rightarrow> u32"] by simp
    then show ?thesis
      using assms(1) by (simp add: at_word_def algebra_simps)
  qed
  moreover have "vm_code_size ?vm = vm_code_size vm"
    by (simp add: set_reg_def)
  ultimately show ?thesis
    using assms(4,5) by (simp only: jump_def exec_instr.simps prv_process_b_def conditionally_def Let_def
        br_instr.simps br_target.case simp_thms if_True if_False not_le ensure_simps rbind_simps)
qed

lemma step_jump:
  assumes "idiv_loaded st base vm0" and "idiv_state base vm0 k r d q sg c vm" and "k < 65"
    and "idiv_code st ! k = jump st (if b then CC_CS else CC_CC) off" and "int j = int k + 2 + off" and "j < 65"
  shows "leads sar32 st 1 vm (idiv_state base vm0 (if c = b then j else Suc k) r d q sg c)"
proof -
  have state: "at_word (base + k) vm" "vm_carry_flag vm = c" "idiv_loaded st base vm"
    using assms(1,2) loaded_kept by (auto simp: idiv_state_def)
  show ?thesis
  proof (cases "c = b")
    case True
    then have "prv_match_ccode vm (if b then CC_CS else CC_CC)"
      using state(2) by simp
    from exec_jump [OF state(1) assms(5) _ _ this, of sar32 st] state(3) assms(4,6)
    have "exec_instr sar32 (idiv_code st ! k) vm = Some (Inr (set_reg 15 (vm_start_address vm + 8 + of_nat (4 * (base + j))) vm))"
      by (simp add: idiv_loaded_def)
    then show ?thesis
      by (rule leads_state [OF assms(1-3)]) (use assms(2) True in \<open>simp add: state_simps\<close>)
  next
    case False
    then have "\<not> prv_match_ccode vm (if b then CC_CS else CC_CC)"
      using state(2) by auto
    then have "exec_instr sar32 (idiv_code st ! k) vm = Some (Inr (advance vm))"
      by (simp add: assms(4) jump_def prv_process_b_def conditionally_def del: prv_match_ccode.simps)
    then show ?thesis
      by (rule leads_state [OF assms(1-3)]) (use assms(2) False in \<open>simp add: state_simps\<close>)
  qed
qed

lemma step_shift_d:
  assumes "idiv_loaded st base vm0" and "idiv_state base vm0 k r d q sg c vm" and "k < 65"
    and "idiv_code st ! k = shift_op INSTR_MOV (if b then CC_CS else CC_AL) False 1 0 1 SHIFT_LSL (of_nat n)"
    and "n < 32"
  shows "leads sar32 st 1 vm (idiv_state base vm0 (Suc k) r (if b \<longrightarrow> c then push_bit n d else d) q sg c)"
proof -
  have "vm_carry_flag vm = c"
    using assms(2) by (simp add: idiv_state_def)
  then show ?thesis
    by (cases c; cases b; intro leads_state [OF assms(1-3)]; simp add: assms(4,5) exec_simps)
      (use assms(2) in \<open>simp_all add: state_simps\<close>)
qed

lemma step_unshift_d:
  assumes "idiv_loaded st base vm0" and "idiv_state base vm0 k r d q sg c vm" and "k < 65"
    and "idiv_code st ! k = shift_op INSTR_MOV CC_CS False 1 0 1 SHIFT_LSR (of_nat n)" and "0 < n" and "n < 32"
  shows "leads sar32 st 1 vm (idiv_state base vm0 (Suc k) r (if c then drop_bit n d else d) q sg c)"
proof -
  have "vm_carry_flag vm = c"
    using assms(2) by (simp add: idiv_state_def)
  then show ?thesis
    by (cases c; intro leads_state [OF assms(1-3)]; simp add: assms(4-6) exec_simps)
      (use assms(2) in \<open>simp_all add: state_simps\<close>)
qed

lemma step_mark:
  assumes "idiv_loaded st base vm0" and "idiv_state base vm0 k r d q sg c vm" and "k < 65"
    and "idiv_code st ! k = imm_op INSTR_ORR (if b then CC_CS else CC_AL) False 5 5 i"
  shows "leads sar32 st 1 vm (idiv_state base vm0 (Suc k) r d (if b \<longrightarrow> c then q OR prv_decode_imm i else q) sg c)"
proof -
  have "vm_carry_flag vm = c"
    using assms(2) by (simp add: idiv_state_def)
  then show ?thesis
    by (cases c; cases b; intro leads_state [OF assms(1-3)]; simp add: assms(4) exec_simps)
      (use assms(2) in \<open>simp_all add: state_simps\<close>)
qed

section \<open>The steps of the division\<close>

lemma group_cases:
  assumes "1 \<le> n" and "n \<le> (7 :: nat)"
  obtains "n = 1" | "n = 2" | "n = 3" | "n = 4" | "n = 5" | "n = 6" | "n = 7"
  using assms by linarith

lemma group_code_at:
  assumes "1 \<le> n" and "n \<le> 7"
  shows "idiv_code st ! (47 - 3 * n) = shift_op INSTR_RSB CC_AL True 4 1 0 SHIFT_LSR (of_nat n)"
    and "idiv_code st ! Suc (47 - 3 * n) = shift_op INSTR_SUB CC_CS False 0 0 1 SHIFT_LSL (of_nat n)"
    and "idiv_code st ! Suc (Suc (47 - 3 * n)) = reg_op INSTR_ADC CC_AL False 5 5 5"
  using assms by (cases rule: group_cases; simp add: idiv_code_eq)+

lemma unat_drop_bit: "unat (drop_bit n w) = drop_bit n (unat w)" for w :: u32
  by (rule bit_eqI) (auto simp: bit_unsigned_iff bit_drop_bit_eq dest: bit_imp_le_length)

lemma le_drop_bit:
  assumes "R < 2 ^ 32" and "D < 2 ^ 32"
  shows "(of_nat D :: u32) \<le> drop_bit n (of_nat R) \<longleftrightarrow> D * 2 ^ n \<le> R"
proof -
  have "unat (of_nat R :: u32) = R" "unat (of_nat D :: u32) = D"
    using assms by (simp_all add: unat_of_nat take_bit_eq_mod)
  then have "(of_nat D :: u32) \<le> drop_bit n (of_nat R) \<longleftrightarrow> D \<le> R div 2 ^ n"
    by (simp only: word_le_nat_alt unat_drop_bit drop_bit_eq_div [of n R])
  then show ?thesis
    by (simp add: less_eq_div_iff_mult_less_eq)
qed

lemma diff_push_bit: "D * 2 ^ n \<le> R \<Longrightarrow> (of_nat R :: u32) - push_bit n (of_nat D) = of_nat (R - D * 2 ^ n)"
  by (simp add: push_bit_eq_mult of_nat_diff mult.commute)

lemma step_group:
  assumes l: "idiv_loaded st base vm0" and n: "1 \<le> n" "n \<le> 7"
    and s: "idiv_state base vm0 (47 - 3 * n) (of_nat R) (of_nat D) (of_nat Q) sg c vm"
    and R: "R < 2 ^ 32" and D: "D < 2 ^ 32"
  shows "leads sar32 st 3 vm (\<lambda>vm. \<exists>c. idiv_state base vm0 (47 - 3 * (n - 1))
    (of_nat (if D * 2 ^ n \<le> R then R - D * 2 ^ n else R)) (of_nat D)
    (of_nat (2 * Q + of_bool (D * 2 ^ n \<le> R))) sg c vm)"
proof -
  let ?b = "D * 2 ^ n \<le> R" and ?k = "47 - 3 * n"
  have k: "?k < 65" "Suc ?k < 65" "Suc (Suc ?k) < 65" "Suc (Suc (Suc ?k)) = 47 - 3 * (n - 1)"
    using n by auto
  have "leads sar32 st 1 vm (idiv_state base vm0 (Suc ?k) (of_nat R) (of_nat D) (of_nat Q) sg ?b)"
    using step_rsbs [OF l s k(1) group_code_at(1) [OF n], of sar32] n by (simp add: le_drop_bit [OF R D])
  then have "leads sar32 st (1 + 1) vm (idiv_state base vm0 (Suc (Suc ?k))
      (if ?b then of_nat R - push_bit n (of_nat D) else of_nat R) (of_nat D) (of_nat Q) sg ?b)"
    by (rule leads_trans) (rule step_sub [OF l _ k(2) group_code_at(2) [OF n]], use n in auto)
  then have "leads sar32 st (1 + 1 + 1) vm (idiv_state base vm0 (Suc (Suc (Suc ?k)))
      (if ?b then of_nat R - push_bit n (of_nat D) else of_nat R) (of_nat D)
      (of_nat Q + of_nat Q + of_bool ?b) sg ?b)"
    by (rule leads_trans) (rule step_adc [OF l _ k(3) group_code_at(3) [OF n]])
  moreover have "(if ?b then of_nat R - push_bit n (of_nat D) else of_nat R) = (of_nat (if ?b then R - D * 2 ^ n else R) :: u32)"
    by (simp add: diff_push_bit)
  moreover have "of_nat Q + of_nat Q + of_bool ?b = (of_nat (2 * Q + of_bool ?b) :: u32)"
    by simp
  ultimately show ?thesis
    unfolding k(4) by (elim leads_weaken) auto
qed

lemma groups:
  assumes l: "idiv_loaded st base vm0" and n: "n \<le> 7"
    and s: "idiv_state base vm0 (47 - 3 * n) (of_nat R) (of_nat D) (of_nat Q) sg c vm"
    and R: "R < 2 ^ 32" "R < D * 2 ^ Suc n" and D: "D < 2 ^ 32"
  shows "leads sar32 st (3 * n) vm (\<lambda>vm. \<exists>c. idiv_state base vm0 47 (of_nat (R mod (2 * D))) (of_nat D)
    (of_nat (Q * 2 ^ n + R div (2 * D))) sg c vm)"
  using n s R
proof (induction n arbitrary: R Q c vm)
  case 0
  then show ?case
    by (intro leads_now) (auto simp: mult.commute)
next
  case (Suc n)
  let ?b = "D * 2 ^ Suc n \<le> R"
  define R' where "R' = (if ?b then R - D * 2 ^ Suc n else R)"
  define Q' where "Q' = 2 * Q + of_bool ?b"
  have D0: "0 < D"
    using Suc.prems(4) by (cases D) auto
  have one: "leads sar32 st 3 vm (\<lambda>vm. \<exists>c. idiv_state base vm0 (47 - 3 * n) (of_nat R') (of_nat D)
      (of_nat Q') sg c vm)"
    using step_group [OF l _ Suc.prems(1,2,3) D, of sar32] unfolding R'_def Q'_def diff_Suc_1 by simp
  have R': "R' < 2 ^ 32" "R' < D * 2 ^ Suc n"
    using Suc.prems(3,4) by (auto simp: R'_def)
  have "R = R' + of_bool ?b * 2 ^ n * (2 * D)"
    by (auto simp: R'_def)
  then have "R mod (2 * D) = R' mod (2 * D)" and "R div (2 * D) = R' div (2 * D) + of_bool ?b * 2 ^ n"
    using D0 by (metis mod_mult_self1, metis div_mult_self1 add.commute mult_eq_0_iff zero_neq_numeral
      less_not_refl)
  then have eq: "R' mod (2 * D) = R mod (2 * D)" "Q' * 2 ^ n + R' div (2 * D) = Q * 2 ^ Suc n + R div (2 * D)"
    by (simp_all add: algebra_simps Q'_def)
  have "leads sar32 st (3 * n) vm' (\<lambda>vm. \<exists>c. idiv_state base vm0 47 (of_nat (R' mod (2 * D))) (of_nat D)
      (of_nat (Q' * 2 ^ n + R' div (2 * D))) sg c vm)"
    if "\<exists>c. idiv_state base vm0 (47 - 3 * n) (of_nat R') (of_nat D) (of_nat Q') sg c vm'" for vm'
    using that Suc.IH [OF _ _ R'] Suc.prems(1) by (meson Suc_leD)
  from leads_trans [OF one this] show ?case
    unfolding eq by (rule leads_weaken) auto
qed

end
