(* ===== verification/Arm_Div_Loop.thy ===== *)
theory Arm_Div_Loop
  imports Arm_Div_Run
begin

text \<open>
  The loop of the division routine in the simulator: eight steps a pass, as many passes as the marker
  bits in the quotient ask for, after at most three scalings of the divisor.
\<close>

section \<open>One pass\<close>

lemma halves:
  assumes "0 < (D :: nat)"
  shows "R div D = 2 * (R div (2 * D)) + of_bool (D \<le> R mod (2 * D))"
    and "R mod D = (if D \<le> R mod (2 * D) then R mod (2 * D) - D else R mod (2 * D))"
proof -
  let ?X = "R mod (2 * D)"
  have R: "R = ?X + 2 * (R div (2 * D)) * D"
    by (metis mod_div_mult_eq mult.assoc mult.commute)
  have X: "?X < 2 * D"
    using assms by simp
  have "R div D = ?X div D + 2 * (R div (2 * D))"
    using assms by (subst R) simp
  moreover have "?X div D = of_bool (D \<le> ?X)"
  proof (cases "D \<le> ?X")
    case True
    then have "?X div D = Suc ((?X - D) div D)"
      using assms by (simp add: le_div_geq)
    with True X show ?thesis
      by simp
  qed simp
  ultimately show "R div D = 2 * (R div (2 * D)) + of_bool (D \<le> ?X)"
    by simp
  have "R mod D = ?X mod D"
    by (subst R) simp
  also have "\<dots> = (if D \<le> ?X then ?X - D else ?X)"
  proof (cases "D \<le> ?X")
    case True
    with X show ?thesis
      by (simp only: le_mod_geq if_True) simp
  qed simp
  finally show "R mod D = (if D \<le> ?X then ?X - D else ?X)" .
qed

lemma bit_u32_of_nat: "i < 32 \<Longrightarrow> bit (of_nat N :: u32) i \<longleftrightarrow> bit N i"
  by transfer (simp add: bit_take_bit_iff bit_of_nat_iff_bit)

lemma bit_shifted_in:
  assumes "X < 2 ^ n" and "n \<le> i" and "i < 32"
  shows "bit (of_nat (Q * 2 ^ n + X) :: u32) i \<longleftrightarrow> bit (Q :: nat) (i - n)"
proof -
  have "(2 :: nat) ^ i = 2 ^ n * 2 ^ (i - n)"
    using assms(2) by (simp flip: power_add)
  then have "(Q * 2 ^ n + X) div 2 ^ i = (Q * 2 ^ n + X) div 2 ^ n div 2 ^ (i - n)"
    by (simp only: div_mult2_eq)
  also have "\<dots> = Q div 2 ^ (i - n)"
    using assms(1) by simp
  finally show ?thesis
    using assms(3) by (simp add: bit_u32_of_nat bit_iff_odd [of "Q * 2 ^ n + X"] bit_iff_odd [of Q]
        del: of_nat_add of_nat_mult)
qed

lemma pass:
  assumes l: "idiv_loaded st base vm0" and n: "n \<le> 7"
    and s: "idiv_state base vm0 (47 - 3 * n) (of_nat R) (of_nat D) (of_nat Q) sg c vm"
    and R: "R < 2 ^ 32" "R < D * 2 ^ Suc n" and D: "0 < D" "D < 2 ^ 32"
    and Q: "bit Q (31 - n) \<Longrightarrow> \<exists>j < 31 - n. \<not> bit Q j"
  shows "leads sar32 st (3 * n + 3) vm (idiv_state base vm0 50 (of_nat (R mod D)) (of_nat D)
    (of_nat (Q * 2 ^ Suc n + R div D)) sg (bit Q (31 - n)))"
proof -
  define X where "X = R mod (2 * D)"
  define Y where "Y = Q * 2 ^ n + R div (2 * D)"
  have "R div (2 * D) < 2 ^ n"
    using R(2) D by (simp add: div_less_iff_less_mult ac_simps)
  then have bits: "bit (of_nat Y :: u32) i \<longleftrightarrow> bit Q (i - n)" if "n \<le> i" "i < 32" for i
    unfolding Y_def using that by (rule bit_shifted_in)
  have le: "(of_nat D :: u32) \<le> of_nat X \<longleftrightarrow> D \<le> X"
    using le_drop_bit [of X D 0] R D by (simp add: X_def order.strict_trans1 [OF mod_less_eq_dividend])
  have last: "leads sar32 st (1 + 1 + 1) vm' (idiv_state base vm0 50 (of_nat (R mod D)) (of_nat D)
    (of_nat (Q * 2 ^ Suc n + R div D)) sg (bit Q (31 - n)))"
    if v: "idiv_state base vm0 47 (of_nat X) (of_nat D) (of_nat Y) sg c' vm'" for c' vm'
  proof -
    have "leads sar32 st 1 vm' (idiv_state base vm0 48 (of_nat X) (of_nat D) (of_nat Y) sg (D \<le> X))"
      using step_rsbs_reg [OF l v, of sar32] by (simp add: idiv_code_eq le)
    then have "leads sar32 st (1 + 1) vm' (idiv_state base vm0 49 (if D \<le> X then of_nat X - of_nat D else of_nat X)
        (of_nat D) (of_nat Y) sg (D \<le> X))"
    proof (rule leads_trans)
      fix vm''
      assume v: "idiv_state base vm0 48 (of_nat X) (of_nat D) (of_nat Y) sg (D \<le> X) vm''"
      show "leads sar32 st 1 vm'' (idiv_state base vm0 49 (if D \<le> X then of_nat X - of_nat D else of_nat X)
          (of_nat D) (of_nat Y) sg (D \<le> X))"
        using step_sub_reg [OF l v] by (simp add: idiv_code_eq)
    qed
    then have "leads sar32 st (1 + 1 + 1) vm' (idiv_state base vm0 50 (if D \<le> X then of_nat X - of_nat D else of_nat X)
        (of_nat D) (of_nat Y + of_nat Y + of_bool (D \<le> X)) sg (bit (of_nat Y :: u32) 31))"
    proof (rule leads_trans)
      fix vm''
      assume v: "idiv_state base vm0 49 (if D \<le> X then of_nat X - of_nat D else of_nat X)
        (of_nat D) (of_nat Y) sg (D \<le> X) vm''"
      have "(of_nat Y :: u32) \<noteq> 0xffffffff" if b: "bit (of_nat Y :: u32) 31"
      proof
        assume "(of_nat Y :: u32) = 0xffffffff"
        then have "(of_nat Y :: u32) = - 1"
          by simp
        moreover obtain j where "j < 31 - n" "\<not> bit Q j"
          using Q b bits [of 31] n by auto
        then have "\<not> bit (of_nat Y :: u32) (j + n)"
          using bits [of "j + n"] by simp
        ultimately show False
          using \<open>j < 31 - n\<close> by simp
      qed
      then show "leads sar32 st 1 vm'' (idiv_state base vm0 50 (if D \<le> X then of_nat X - of_nat D else of_nat X)
          (of_nat D) (of_nat Y + of_nat Y + of_bool (D \<le> X)) sg (bit (of_nat Y :: u32) 31))"
        using step_adcs [OF l v] by (simp add: idiv_code_eq)
    qed
    moreover have "(if D \<le> X then of_nat X - of_nat D else of_nat X) = (of_nat (R mod D) :: u32)"
      using halves(2) [OF D(1), of R] by (simp add: X_def of_nat_diff)
    moreover have "of_nat Y + of_nat Y + of_bool (D \<le> X) = (of_nat (Q * 2 ^ Suc n + R div D) :: u32)"
      unfolding halves(1) [OF D(1), of R] by (simp add: X_def Y_def algebra_simps)
    ultimately show ?thesis
      using bits [of 31] n by simp
  qed
  have "leads sar32 st (3 * n + (1 + 1 + 1)) vm (idiv_state base vm0 50 (of_nat (R mod D)) (of_nat D)
    (of_nat (Q * 2 ^ Suc n + R div D)) sg (bit Q (31 - n)))"
    by (rule leads_trans [OF groups [OF l n s R D(2)]]) (use last in \<open>auto simp: X_def Y_def\<close>)
  then show ?thesis
    by (simp only: one_add_one numeral_plus_one semiring_norm)
qed

section \<open>The loop\<close>

text \<open>
  The bits of the quotient at the end of a pass that say how many passes are still to come: bit 24
  leaves the register with the last step of the next pass.
\<close>

definition markers :: "nat \<Rightarrow> nat \<Rightarrow> nat \<Rightarrow> bool" where
  "markers e p Q \<longleftrightarrow> (\<forall>i < p. bit Q (e - 8 * i) \<longleftrightarrow> Suc i < p)"

lemma markers_shifted_in:
  assumes "markers (24 - n) p Q" and "p \<le> 3" and "n \<le> 8" and "X < 2 ^ n"
  shows "markers 24 p (Q * 2 ^ n + X)"
  unfolding markers_def
proof (intro allI impI)
  fix i
  assume "i < p"
  then have le: "n \<le> 24 - 8 * i" and eq: "24 - n - 8 * i = 24 - 8 * i - n"
    using assms(2,3) by auto
  have "bit (Q * 2 ^ n + X) (24 - 8 * i) \<longleftrightarrow> bit Q (24 - 8 * i - n)"
    using bit_shifted_in [OF assms(4) le, of Q] bit_u32_of_nat [of "24 - 8 * i" "Q * 2 ^ n + X"]
    by (simp del: of_nat_add of_nat_mult)
  then show "bit (Q * 2 ^ n + X) (24 - 8 * i) \<longleftrightarrow> Suc i < p"
    using assms(1) \<open>i < p\<close> unfolding markers_def eq [symmetric] by blast
qed

lemma step_back:
  assumes l: "idiv_loaded st base vm0"
    and s: "idiv_state base vm0 50 r (of_nat (D * 256)) q sg True vm" and D: "D * 256 < 2 ^ 32"
  shows "leads sar32 st 2 vm (idiv_state base vm0 26 r (of_nat D) q sg True)"
proof -
  have "leads sar32 st 1 vm (idiv_state base vm0 25 r (of_nat (D * 256)) q sg True)"
    using step_jump [OF l s, of True "- 27" 25] by (simp add: idiv_code_eq)
  moreover have "leads sar32 st 1 vm' (idiv_state base vm0 26 r (of_nat D) q sg True)"
    if v: "idiv_state base vm0 25 r (of_nat (D * 256)) q sg True vm'" for vm'
  proof -
    have "drop_bit 8 (of_nat (D * 256) :: u32) = of_nat D"
      using D by (simp add: word_unat_eq_iff unat_drop_bit unat_of_nat take_bit_eq_mod
          drop_bit_eq_div [of 8 "D * 256"] del: of_nat_mult)
    then show ?thesis
      using step_unshift_d [OF l v, of 8] by (simp add: idiv_code_eq del: of_nat_mult)
  qed
  ultimately have "leads sar32 st (1 + 1) vm (idiv_state base vm0 26 r (of_nat D) q sg True)"
    by (rule leads_trans)
  then show ?thesis
    by (simp only: one_add_one)
qed

lemma passes:
  assumes l: "idiv_loaded st base vm0" and D: "0 < D"
    and "idiv_state base vm0 50 (of_nat R) (of_nat (D * 256 ^ p)) (of_nat Q) sg (0 < p) vm"
    and "R < D * 256 ^ p" and "D * 256 ^ p < 2 ^ 32" and "markers 24 p Q"
  shows "leads sar32 st (26 * p + 1) vm (idiv_state base vm0 51 (of_nat (R mod D)) (of_nat D)
    (of_nat (Q * 256 ^ p + R div D)) sg False)"
  using assms(3-)
proof (induction p arbitrary: R Q vm)
  case 0
  then show ?case
    using step_jump [OF l 0(1), of True "- 27" 25] by (simp add: idiv_code_eq)
next
  case (Suc p)
  let ?D = "D * 256 ^ p"
  have p: "p < 4"
  proof (rule ccontr)
    assume "\<not> p < 4"
    then have "(256 :: nat) ^ 4 \<le> 256 ^ p"
      by (intro power_increasing) auto
    also have "\<dots> \<le> ?D"
      using D by simp
    finally show False
      using Suc.prems(3) by simp
  qed
  then have "p \<le> 3"
    by simp
  have prems: "R < ?D * 2 ^ Suc 7" "R < 2 ^ 32" "0 < ?D" "?D < 2 ^ 32" "?D * 256 < 2 ^ 32"
    using Suc.prems(2,3) D by (auto simp: ac_simps)
  have Q: "bit Q 24 \<longleftrightarrow> 0 < p"
    using Suc.prems(4) by (auto simp: markers_def dest: spec [of _ 0])
  have zero: "bit Q 24 \<Longrightarrow> \<exists>j < 24. \<not> bit Q j"
    using Suc.prems(4) \<open>p \<le> 3\<close> Q by (intro exI [of _ "24 - 8 * p"]) (auto simp: markers_def)
  have "leads sar32 st 2 vm (idiv_state base vm0 26 (of_nat R) (of_nat ?D) (of_nat Q) sg True)"
    using Suc.prems(1) prems(5) by (intro step_back [OF l]) (simp_all add: ac_simps)
  then have "leads sar32 st (2 + 24) vm (idiv_state base vm0 50 (of_nat (R mod ?D)) (of_nat ?D)
      (of_nat (Q * 2 ^ Suc 7 + R div ?D)) sg (bit Q 24))"
  proof (rule leads_trans)
    fix vm'
    assume "idiv_state base vm0 26 (of_nat R) (of_nat ?D) (of_nat Q) sg True vm'"
    then show "leads sar32 st 24 vm' (idiv_state base vm0 50 (of_nat (R mod ?D)) (of_nat ?D)
        (of_nat (Q * 2 ^ Suc 7 + R div ?D)) sg (bit Q 24))"
      using pass [OF l _ _ prems(2,1,3,4), of Q sg True vm'] zero by simp
  qed
  then have "leads sar32 st (2 + 24 + (26 * p + 1)) vm (idiv_state base vm0 51 (of_nat (R mod ?D mod D)) (of_nat D)
      (of_nat ((Q * 2 ^ Suc 7 + R div ?D) * 256 ^ p + R mod ?D div D)) sg False)"
  proof (rule leads_trans)
    fix vm'
    assume v: "idiv_state base vm0 50 (of_nat (R mod ?D)) (of_nat ?D) (of_nat (Q * 2 ^ Suc 7 + R div ?D)) sg (bit Q 24) vm'"
    have "R div ?D < 256"
      using prems(1) D by (simp add: div_less_iff_less_mult ac_simps)
    moreover have "markers (24 - 8) p Q"
      unfolding markers_def
    proof (intro allI impI)
      fix i assume "i < p"
      then show "bit Q (24 - 8 - 8 * i) \<longleftrightarrow> Suc i < p"
        using spec [OF Suc.prems(4) [unfolded markers_def], of "Suc i"] by simp
    qed
    ultimately have "markers 24 p (Q * 2 ^ Suc 7 + R div ?D)"
      using markers_shifted_in [of 8 p Q "R div ?D"] \<open>p \<le> 3\<close> by simp
    moreover have "R mod ?D < ?D"
      using prems(3) by simp
    ultimately show "leads sar32 st (26 * p + 1) vm' (idiv_state base vm0 51 (of_nat (R mod ?D mod D)) (of_nat D)
      (of_nat ((Q * 2 ^ Suc 7 + R div ?D) * 256 ^ p + R mod ?D div D)) sg False)"
      using v [unfolded Q] prems(4) by (intro Suc.IH)
  qed
  moreover have "R mod ?D mod D = R mod D"
    by (simp add: mod_mod_cancel)
  moreover have "R div D = R div ?D * 256 ^ p + R mod ?D div D"
  proof -
    have "R = R mod ?D + R div ?D * ?D"
      by (simp only: mod_div_mult_eq)
    also have "R div ?D * ?D = R div ?D * 256 ^ p * D"
      by (simp only: ac_simps)
    finally have "R div D = (R mod ?D + R div ?D * 256 ^ p * D) div D"
      by (rule arg_cong)
    then show ?thesis
      using D by (simp only: div_mult_self1 less_not_refl2 not_False_eq_True)
  qed
  then have "(Q * 2 ^ Suc 7 + R div ?D) * 256 ^ p + R mod ?D div D = Q * 256 ^ Suc p + R div D"
    by (simp add: add_mult_distrib)
  moreover have "2 + 24 + (26 * p + 1) = 26 * Suc p + 1"
    by simp
  ultimately show ?case
    by (simp only:)
qed

section \<open>The scaling of the divisor\<close>

lemma leads_step:
  "leads sar32 st 1 vm S \<Longrightarrow> (\<And>vm'. S vm' \<Longrightarrow> leads sar32 st n vm' T) \<Longrightarrow> leads sar32 st (Suc n) vm T"
  using leads_trans [of sar32 st 1 vm S n T] by simp

text \<open>The loop entered with \<open>n + 1\<close> steps to do in its first pass and \<open>s\<close> more passes.\<close>

lemma enter:
  assumes l: "idiv_loaded st base vm0" and n: "n \<le> 7" and s: "s \<le> 3"
    and v: "idiv_state base vm0 k (of_nat R) (of_nat (D * 256 ^ s)) (of_nat Q) sg c vm" "k = 47 - 3 * n"
    and R: "R < 2 ^ 32" "R < D * 256 ^ s * 2 ^ Suc n" and D: "0 < D" "D * 256 ^ s < 2 ^ 32"
    and Q: "bit Q (31 - n) \<longleftrightarrow> 0 < s" "markers (23 - n) s Q" "of_nat (Q * 2 ^ Suc n * 256 ^ s) = (0 :: u32)"
  shows "leads sar32 st 103 vm (idiv_state base vm0 51 (of_nat (R mod D)) (of_nat D) (of_nat (R div D)) sg False)"
proof -
  let ?D = "D * 256 ^ s"
  have "\<exists>j < 31 - n. \<not> bit Q j" if "bit Q (31 - n)"
    using Q that n s by (intro exI [of _ "23 - n - 8 * (s - 1)"]) (auto simp: markers_def)
  then have "leads sar32 st (3 * n + 3) vm (idiv_state base vm0 50 (of_nat (R mod ?D)) (of_nat ?D)
    (of_nat (Q * 2 ^ Suc n + R div ?D)) sg (0 < s))"
    using pass [OF l n v(1) [unfolded v(2)] R _ D(2)] D(1) Q(1) by simp
  then have "leads sar32 st ((3 * n + 3) + (26 * s + 1)) vm (idiv_state base vm0 51 (of_nat (R mod ?D mod D)) (of_nat D)
      (of_nat ((Q * 2 ^ Suc n + R div ?D) * 256 ^ s + R mod ?D div D)) sg False)"
  proof (rule leads_trans)
    fix vm'
    assume v: "idiv_state base vm0 50 (of_nat (R mod ?D)) (of_nat ?D) (of_nat (Q * 2 ^ Suc n + R div ?D)) sg (0 < s) vm'"
    have "R mod ?D < ?D"
      using D(1) by simp
    have "R div ?D < 2 ^ Suc n"
      using R(2) D by (simp add: div_less_iff_less_mult ac_simps)
    then have "markers 24 s (Q * 2 ^ Suc n + R div ?D)"
      using Q(2) s n by (intro markers_shifted_in) simp_all
    with passes [OF l D(1) v \<open>R mod ?D < ?D\<close> D(2)]
    show "leads sar32 st (26 * s + 1) vm' (idiv_state base vm0 51 (of_nat (R mod ?D mod D)) (of_nat D)
      (of_nat ((Q * 2 ^ Suc n + R div ?D) * 256 ^ s + R mod ?D div D)) sg False)"
      by blast
  qed
  moreover have "R mod ?D mod D = R mod D"
    by (simp add: mod_mod_cancel)
  moreover have "of_nat ((Q * 2 ^ Suc n + R div ?D) * 256 ^ s + R mod ?D div D) = (of_nat (R div D) :: u32)"
  proof -
    have "R = R mod ?D + R div ?D * ?D"
      by (simp only: mod_div_mult_eq)
    also have "R div ?D * ?D = R div ?D * 256 ^ s * D"
      by (simp only: ac_simps)
    finally have "R div D = (R mod ?D + R div ?D * 256 ^ s * D) div D"
      by (rule arg_cong)
    then have "R div D = R div ?D * 256 ^ s + R mod ?D div D"
      using D by (simp only: div_mult_self1 less_not_refl2 not_False_eq_True)
    then have "(Q * 2 ^ Suc n + R div ?D) * 256 ^ s + R mod ?D div D = Q * 2 ^ Suc n * 256 ^ s + R div D"
      by (simp only: add_mult_distrib add.assoc)
    then show ?thesis
      by (simp only: of_nat_add Q(3) add_0)
  qed
  moreover have "3 * n + 3 + (26 * s + 1) \<le> 103"
    using n s by simp
  ultimately show ?thesis
    by (simp only:) (erule leads_weaken)
qed

lemma step_rsbs_nat:
  assumes l: "idiv_loaded st base vm0" and v: "idiv_state base vm0 k (of_nat R) (of_nat D) q sg c vm" and "k < 65"
    and "idiv_code st ! k = shift_op INSTR_RSB CC_AL True 4 1 0 SHIFT_LSR (of_nat n)" and "0 < n" and "n < 32"
    and "R < 2 ^ 32" and "D < 2 ^ 32"
  shows "leads sar32 st 1 vm (idiv_state base vm0 (Suc k) (of_nat R) (of_nat D) q sg (D * 2 ^ n \<le> R))"
  using step_rsbs [OF l v assms(3-6)] by (simp only: le_drop_bit [OF assms(7,8)])

lemma step_scale:
  assumes l: "idiv_loaded st base vm0" and v: "idiv_state base vm0 k r (of_nat D) q sg c vm" and "k < 65"
    and "idiv_code st ! k = shift_op INSTR_MOV (if b then CC_CS else CC_AL) False 1 0 1 SHIFT_LSL 8"
  shows "leads sar32 st 1 vm (idiv_state base vm0 (Suc k) r (of_nat (if b \<longrightarrow> c then D * 256 else D)) q sg c)"
proof -
  have "(if b \<longrightarrow> c then push_bit 8 (of_nat D) else of_nat D) = (of_nat (if b \<longrightarrow> c then D * 256 else D) :: u32)"
    by (simp add: push_bit_eq_mult mult.commute)
  with step_shift_d [OF l v assms(3), of b 8] assms(4) show ?thesis
    by simp
qed

lemma from_23:
  assumes l: "idiv_loaded st base vm0" and s: "s \<le> 3"
    and v: "idiv_state base vm0 23 (of_nat R) (of_nat (D * 256 ^ s)) (of_nat Q) sg c vm"
    and R: "R < 2 ^ 32" "R < D * 256 ^ s * 256" and D: "0 < D" "D * 256 ^ s < 2 ^ 32"
    and Q: "bit Q 24 \<longleftrightarrow> 0 < s" "markers 16 s Q" "of_nat (Q * 256 * 256 ^ s) = (0 :: u32)"
  shows "leads sar32 st 106 vm (idiv_state base vm0 51 (of_nat (R mod D)) (of_nat D) (of_nat (R div D)) sg False)"
proof -
  have nz: "(of_nat (D * 256 ^ s) :: u32) \<noteq> 0"
    using D by (simp add: word_unat_eq_iff unat_of_nat take_bit_eq_mod del: of_nat_mult of_nat_power)
  have "leads sar32 st 1 vm (idiv_state base vm0 24 (of_nat R) (of_nat (D * 256 ^ s)) (of_nat Q) sg False)"
    using step_rsbs_zero [OF l v] nz by (simp add: idiv_code_eq)
  then have "leads sar32 st (Suc (Suc (Suc 103))) vm (idiv_state base vm0 51 (of_nat (R mod D)) (of_nat D) (of_nat (R div D)) sg False)"
  proof (rule leads_step)
    fix vm1
    assume "idiv_state base vm0 24 (of_nat R) (of_nat (D * 256 ^ s)) (of_nat Q) sg False vm1"
    note step_jump [OF l this, of True 34 60]
    then have "leads sar32 st 1 vm1 (idiv_state base vm0 25 (of_nat R) (of_nat (D * 256 ^ s)) (of_nat Q) sg False)"
      by (simp add: idiv_code_eq del: of_nat_mult of_nat_power)
    then show "leads sar32 st (Suc (Suc 103)) vm1 (idiv_state base vm0 51 (of_nat (R mod D)) (of_nat D) (of_nat (R div D)) sg False)"
    proof (rule leads_step)
      fix vm2
      assume "idiv_state base vm0 25 (of_nat R) (of_nat (D * 256 ^ s)) (of_nat Q) sg False vm2"
      note step_unshift_d [OF l this, of 8]
      then have "leads sar32 st 1 vm2 (idiv_state base vm0 26 (of_nat R) (of_nat (D * 256 ^ s)) (of_nat Q) sg False)"
        by (simp add: idiv_code_eq del: of_nat_mult of_nat_power)
      then show "leads sar32 st (Suc 103) vm2 (idiv_state base vm0 51 (of_nat (R mod D)) (of_nat D) (of_nat (R div D)) sg False)"
      proof (rule leads_step)
        fix vm3
        assume v: "idiv_state base vm0 26 (of_nat R) (of_nat (D * 256 ^ s)) (of_nat Q) sg False vm3"
        show "leads sar32 st 103 vm3 (idiv_state base vm0 51 (of_nat (R mod D)) (of_nat D) (of_nat (R div D)) sg False)"
          by (rule enter [OF l _ s v _ R(1) _ D, of 7]) (use R(2) Q in simp_all)
      qed
    qed
  qed
  then show ?thesis
    by simp
qed

text \<open>The marker bits of two and three scalings, and the numbers they stand for.\<close>

lemma marker_values:
  "prv_decode_imm 0x4ff = 0xff000000" "prv_decode_imm 0x8ff = 0xff0000" "prv_decode_imm 0xcff = 0xff00"
  by code_simp+

lemma marker_bits:
  "markers e 0 Q" "markers e (Suc 0) Q \<longleftrightarrow> \<not> bit Q e"
  "markers e 2 Q \<longleftrightarrow> bit Q e \<and> \<not> bit Q (e - 8)"
  "markers e 3 Q \<longleftrightarrow> bit Q e \<and> bit Q (e - 8) \<and> \<not> bit Q (e - 16)"
  by (auto simp: markers_def numeral_2_eq_2 numeral_3_eq_3 less_Suc_eq)

definition scale_mark :: "nat \<Rightarrow> nat" where
  "scale_mark s = (if s = 0 then 0 else if s = 1 then 0xff000000 else if s = 2 then 0xffff0000 else 0xffffff00)"

lemma scale_mark_ok:
  assumes "s \<le> 3"
  shows "bit (scale_mark s) 24 \<longleftrightarrow> 0 < s" "markers 16 s (scale_mark s)"
    and "of_nat (scale_mark s * 256 * 256 ^ s) = (0 :: u32)"
    and "bit (scale_mark s) 28 \<longleftrightarrow> 0 < s" "markers 20 s (scale_mark s)"
    and "of_nat (scale_mark s * 16 * 256 ^ s) = (0 :: u32)"
proof -
  have "s = 0 \<or> s = 1 \<or> s = 2 \<or> s = 3"
    using assms by linarith
  then show "bit (scale_mark s) 24 \<longleftrightarrow> 0 < s" "markers 16 s (scale_mark s)"
    "of_nat (scale_mark s * 256 * 256 ^ s) = (0 :: u32)"
    "bit (scale_mark s) 28 \<longleftrightarrow> 0 < s" "markers 20 s (scale_mark s)"
    "of_nat (scale_mark s * 16 * 256 ^ s) = (0 :: u32)"
    by (auto simp: scale_mark_def marker_bits bit_iff_odd)
qed

lemma from_21:
  assumes l: "idiv_loaded st base vm0" and s: "s \<le> 3" 
    and v: "idiv_state base vm0 21 (of_nat R) (of_nat (D * 256 ^ s)) (of_nat (scale_mark s)) sg c vm"
    and R: "R < 2 ^ 32" "R < D * 256 ^ s * 256" and D: "0 < D" "D * 256 ^ s < 2 ^ 32"
  shows "leads sar32 st 108 vm (idiv_state base vm0 51 (of_nat (R mod D)) (of_nat D) (of_nat (R div D)) sg False)"
    (is "leads _ _ _ _ ?F")
proof -
  let ?b = "D * 256 ^ s * 16 \<le> R"
  have "leads sar32 st 1 vm (idiv_state base vm0 22 (of_nat R) (of_nat (D * 256 ^ s)) (of_nat (scale_mark s)) sg ?b)"
    using step_rsbs_nat [OF l v, of 4] R(1) D(2) by (simp add: idiv_code_eq del: of_nat_mult of_nat_power)
  then have "leads sar32 st (Suc (Suc 106)) vm ?F"
  proof (rule leads_step)
    fix vm1
    assume "idiv_state base vm0 22 (of_nat R) (of_nat (D * 256 ^ s)) (of_nat (scale_mark s)) sg ?b vm1"
    note step_jump [OF l this, of False 14 38]
    then have "leads sar32 st 1 vm1 (idiv_state base vm0 (if ?b then 23 else 38) (of_nat R) (of_nat (D * 256 ^ s))
        (of_nat (scale_mark s)) sg ?b)"
      by (cases ?b; simp add: idiv_code_eq del: of_nat_mult of_nat_power)
    then show "leads sar32 st (Suc 106) vm1 ?F"
    proof (rule leads_step)
      fix vm2
      assume v: "idiv_state base vm0 (if ?b then 23 else 38) (of_nat R) (of_nat (D * 256 ^ s)) (of_nat (scale_mark s)) sg ?b vm2"
      show "leads sar32 st 106 vm2 ?F"
      proof (cases ?b)
        case True
        show ?thesis
          by (rule from_23 [OF l s _ R D scale_mark_ok(1-3) [OF s]]) (use True v in simp)
      next
        case False
        have "leads sar32 st 103 vm2 ?F"
          by (rule enter [OF l _ s _ _ R(1) _ D, of 3]) (use False v scale_mark_ok(4-6) [OF s] in simp_all)
        then show ?thesis
          by (rule leads_weaken) simp_all
      qed
    qed
  qed
  then show ?thesis
    by simp
qed

lemma scale_marks:
  "(of_nat (scale_mark 0) :: u32) = 0"
  "of_nat (scale_mark 0) OR prv_decode_imm 0x4ff = (of_nat (scale_mark 1) :: u32)"
  "of_nat (scale_mark 1) OR prv_decode_imm 0x8ff = (of_nat (scale_mark 2) :: u32)"
  "of_nat (scale_mark 2) OR prv_decode_imm 0xcff = (of_nat (scale_mark 3) :: u32)"
  by (simp_all add: scale_mark_def marker_values)

text \<open>The divisor has been scaled twice; a third time when it still fits.\<close>

lemma from_18:
  assumes l: "idiv_loaded st base vm0"
    and v: "idiv_state base vm0 18 (of_nat R) (of_nat (D * 256 ^ 2)) (of_nat (scale_mark 2)) sg c vm"
    and R: "R < 2 ^ 32" and D: "0 < D" "D * 256 ^ 2 < 2 ^ 32"
  shows "leads sar32 st 111 vm (idiv_state base vm0 51 (of_nat (R mod D)) (of_nat D) (of_nat (R div D)) sg False)"
    (is "leads _ _ _ _ ?F")
proof -
  let ?b = "D * 256 ^ 3 \<le> R"
  define s where "s = (if ?b then 3 else 2 :: nat)"
  have "leads sar32 st 1 vm (idiv_state base vm0 19 (of_nat R) (of_nat (D * 256 ^ 2)) (of_nat (scale_mark 2)) sg ?b)"
    using step_rsbs_nat [OF l v, of 8] R D(2) by (simp add: idiv_code_eq mult.commute del: of_nat_mult of_nat_power)
  then have "leads sar32 st (Suc (Suc (Suc 108))) vm ?F"
  proof (rule leads_step)
    fix vm1
    assume "idiv_state base vm0 19 (of_nat R) (of_nat (D * 256 ^ 2)) (of_nat (scale_mark 2)) sg ?b vm1"
    note step_scale [OF l this, of True]
    then have "leads sar32 st 1 vm1 (idiv_state base vm0 20 (of_nat R) (of_nat (D * 256 ^ s)) (of_nat (scale_mark 2)) sg ?b)"
      by (cases ?b; simp add: idiv_code_eq s_def mult.commute del: of_nat_mult of_nat_power)
    then show "leads sar32 st (Suc (Suc 108)) vm1 ?F"
    proof (rule leads_step)
      fix vm2
      assume "idiv_state base vm0 20 (of_nat R) (of_nat (D * 256 ^ s)) (of_nat (scale_mark 2)) sg ?b vm2"
      note step_mark [OF l this, of True "0xcff"]
      then have "leads sar32 st 1 vm2 (idiv_state base vm0 21 (of_nat R) (of_nat (D * 256 ^ s)) (of_nat (scale_mark s)) sg ?b)"
        by (cases ?b; simp add: idiv_code_eq s_def scale_marks del: of_nat_mult of_nat_power)
      then show "leads sar32 st (Suc 108) vm2 ?F"
      proof (rule leads_step)
        fix vm3
        assume v: "idiv_state base vm0 21 (of_nat R) (of_nat (D * 256 ^ s)) (of_nat (scale_mark s)) sg ?b vm3"
        show "leads sar32 st 108 vm3 ?F"
          by (rule from_21 [OF l _ v R _ D(1)]) (use R D in \<open>auto simp: s_def\<close>)
      qed
    qed
  qed
  then show ?thesis
    by simp
qed

text \<open>The divisor has been scaled once.\<close>

lemma entered_once:
  assumes l: "idiv_loaded st base vm0" and R: "R < 2 ^ 32" and D: "0 < D" "D * 256 ^ 1 < 2 ^ 32"
    and v: "idiv_state base vm0 (47 - 3 * n) (of_nat R) (of_nat (D * 256 ^ 1)) (of_nat (scale_mark 1)) sg c vm"
    and n: "R < D * 256 ^ 1 * 2 ^ Suc n" "n = 3 \<or> n = 7"
  shows "leads sar32 st 103 vm (idiv_state base vm0 51 (of_nat (R mod D)) (of_nat D) (of_nat (R div D)) sg False)"
  by (rule enter [OF l _ _ v refl R n(1) D]) (use n(2) scale_mark_ok [of 1, simplified] in auto)

lemma from_16:
  assumes l: "idiv_loaded st base vm0"
    and v: "idiv_state base vm0 16 (of_nat R) (of_nat (D * 256 ^ 1)) (of_nat (scale_mark 1)) sg c vm"
    and R: "R < 2 ^ 32" "D * 256 ^ 2 \<le> R" and D: "0 < D"
  shows "leads sar32 st 113 vm (idiv_state base vm0 51 (of_nat (R mod D)) (of_nat D) (of_nat (R div D)) sg False)"
    (is "leads _ _ _ _ ?F")
proof -
  let ?m = "of_nat (scale_mark 1) :: u32"
  have "leads sar32 st 1 vm (idiv_state base vm0 17 (of_nat R) (of_nat (D * 256 ^ 2)) ?m sg c)"
    using step_scale [OF l v, of False] by (simp add: idiv_code_eq mult.commute del: of_nat_mult of_nat_power)
  then have "leads sar32 st (Suc (Suc 111)) vm ?F"
  proof (rule leads_step)
    fix vm1
    assume v: "idiv_state base vm0 17 (of_nat R) (of_nat (D * 256 ^ 2)) ?m sg c vm1"
    have "leads sar32 st 1 vm1 (idiv_state base vm0 18 (of_nat R) (of_nat (D * 256 ^ 2)) (of_nat (scale_mark 2)) sg c)"
      using step_mark [OF l v, of False "0x8ff"] by (simp add: idiv_code_eq scale_marks [simplified] del: of_nat_mult of_nat_power)
    then show "leads sar32 st (Suc 111) vm1 ?F"
      by (rule leads_step, intro from_18 [OF l _ R(1) D]) (use R in simp_all)
  qed
  then show ?thesis
    by simp
qed

lemma from_14:
  assumes l: "idiv_loaded st base vm0"
    and v: "idiv_state base vm0 14 (of_nat R) (of_nat (D * 256 ^ 1)) (of_nat (scale_mark 1)) sg c vm"
    and R: "R < 2 ^ 32" and D: "0 < D" "D * 256 ^ 1 < 2 ^ 32"
  shows "leads sar32 st 115 vm (idiv_state base vm0 51 (of_nat (R mod D)) (of_nat D) (of_nat (R div D)) sg False)"
    (is "leads _ _ _ _ ?F")
proof -
  let ?D = "D * 256 ^ 1" and ?m = "of_nat (scale_mark 1) :: u32" and ?b = "D * 256 ^ 2 \<le> R"
  have "leads sar32 st 1 vm (idiv_state base vm0 15 (of_nat R) (of_nat ?D) ?m sg ?b)"
    using step_rsbs_nat [OF l v, of 8] R D(2) by (simp add: idiv_code_eq mult.commute del: of_nat_mult of_nat_power)
  then have "leads sar32 st (Suc (Suc 113)) vm ?F"
  proof (rule leads_step)
    fix vm1
    assume v: "idiv_state base vm0 15 (of_nat R) (of_nat ?D) ?m sg ?b vm1"
    have "leads sar32 st 1 vm1 (idiv_state base vm0 (if ?b then 16 else 26) (of_nat R) (of_nat ?D) ?m sg ?b)"
      using step_jump [OF l v, of False 9 26] by (cases ?b; simp add: idiv_code_eq del: of_nat_mult of_nat_power)
    then show "leads sar32 st (Suc 113) vm1 ?F"
    proof (rule leads_step)
      fix vm2
      assume v: "idiv_state base vm0 (if ?b then 16 else 26) (of_nat R) (of_nat ?D) ?m sg ?b vm2"
      show "leads sar32 st 113 vm2 ?F"
      proof (cases ?b)
        case True
        show ?thesis
          by (rule from_16 [OF l, where c = True]) (use True v R D in simp_all)
      next
        case False
        have "leads sar32 st 103 vm2 ?F"
          by (rule entered_once [OF l R D, of 7]) (use False v in simp_all)
        then show ?thesis
          by (rule leads_weaken) simp_all
      qed
    qed
  qed
  then show ?thesis
    by simp
qed

lemma from_12:
  assumes l: "idiv_loaded st base vm0"
    and v: "idiv_state base vm0 12 (of_nat R) (of_nat (D * 256 ^ 1)) (of_nat (scale_mark 1)) sg c vm"
    and R: "R < 2 ^ 32" and D: "0 < D" "D * 256 ^ 1 < 2 ^ 32"
  shows "leads sar32 st 117 vm (idiv_state base vm0 51 (of_nat (R mod D)) (of_nat D) (of_nat (R div D)) sg False)"
    (is "leads _ _ _ _ ?F")
proof -
  let ?D = "D * 256 ^ 1" and ?m = "of_nat (scale_mark 1) :: u32"
  let ?b = "?D * 16 \<le> R"
  have "leads sar32 st 1 vm (idiv_state base vm0 13 (of_nat R) (of_nat ?D) ?m sg ?b)"
    using step_rsbs_nat [OF l v, of 4] R D(2) by (simp add: idiv_code_eq del: of_nat_mult of_nat_power)
  then have "leads sar32 st (Suc (Suc 115)) vm ?F"
  proof (rule leads_step)
    fix vm1
    assume v: "idiv_state base vm0 13 (of_nat R) (of_nat ?D) ?m sg ?b vm1"
    have "leads sar32 st 1 vm1 (idiv_state base vm0 (if ?b then 14 else 38) (of_nat R) (of_nat ?D) ?m sg ?b)"
      using step_jump [OF l v, of False 23 38] by (cases ?b; simp add: idiv_code_eq del: of_nat_mult of_nat_power)
    then show "leads sar32 st (Suc 115) vm1 ?F"
    proof (rule leads_step)
      fix vm2
      assume v: "idiv_state base vm0 (if ?b then 14 else 38) (of_nat R) (of_nat ?D) ?m sg ?b vm2"
      show "leads sar32 st 115 vm2 ?F"
      proof (cases ?b)
        case True
        show ?thesis
          by (rule from_14 [OF l, where c = True]) (use True v R D in simp_all)
      next
        case False
        have "leads sar32 st 103 vm2 ?F"
          by (rule entered_once [OF l R D, of 3]) (use False v in simp_all)
        then show ?thesis
          by (rule leads_weaken) simp_all
      qed
    qed
  qed
  then show ?thesis
    by simp
qed

text \<open>The divisor as it is.\<close>

lemma entered_unscaled:
  assumes l: "idiv_loaded st base vm0" and R: "R < 2 ^ 32" and D: "0 < D" "D < 2 ^ 32"
    and v: "idiv_state base vm0 (47 - 3 * n) (of_nat R) (of_nat D) 0 sg c vm"
    and n: "R < D * 2 ^ Suc n" "n = 2 \<or> n = 7"
  shows "leads sar32 st 103 vm (idiv_state base vm0 51 (of_nat (R mod D)) (of_nat D) (of_nat (R div D)) sg False)"
  by (rule enter [OF l, where n = n and s = 0 and Q = 0]) (use n v R D in \<open>auto simp: marker_bits\<close>)

lemma from_10:
  assumes l: "idiv_loaded st base vm0"
    and v: "idiv_state base vm0 10 (of_nat R) (of_nat D) 0 sg c vm"
    and R: "R < 2 ^ 32" "D * 256 \<le> R" and D: "0 < D"
  shows "leads sar32 st 119 vm (idiv_state base vm0 51 (of_nat (R mod D)) (of_nat D) (of_nat (R div D)) sg False)"
    (is "leads _ _ _ _ ?F")
proof -
  have "leads sar32 st 1 vm (idiv_state base vm0 11 (of_nat R) (of_nat (D * 256 ^ 1)) (of_nat (scale_mark 0)) sg c)"
    using step_scale [OF l v, of False] by (simp add: idiv_code_eq scale_marks mult.commute del: of_nat_mult of_nat_power)
  then have "leads sar32 st (Suc (Suc 117)) vm ?F"
  proof (rule leads_step)
    fix vm1
    assume v: "idiv_state base vm0 11 (of_nat R) (of_nat (D * 256 ^ 1)) (of_nat (scale_mark 0)) sg c vm1"
    have "leads sar32 st 1 vm1 (idiv_state base vm0 12 (of_nat R) (of_nat (D * 256 ^ 1)) (of_nat (scale_mark 1)) sg c)"
      using step_mark [OF l v, of False "0x4ff"] scale_marks(2)
      by (simp add: idiv_code_eq del: of_nat_mult of_nat_power)
    then show "leads sar32 st (Suc 117) vm1 ?F"
      by (rule leads_step, intro from_12 [OF l _ R(1) D]) (use R in simp_all)
  qed
  then show ?thesis
    by simp
qed

lemma from_8:
  assumes l: "idiv_loaded st base vm0"
    and v: "idiv_state base vm0 8 (of_nat R) (of_nat D) 0 sg c vm"
    and R: "R < 2 ^ 32" and D: "0 < D" "D < 2 ^ 32"
  shows "leads sar32 st 121 vm (idiv_state base vm0 51 (of_nat (R mod D)) (of_nat D) (of_nat (R div D)) sg False)"
    (is "leads _ _ _ _ ?F")
proof -
  let ?b = "D * 256 \<le> R"
  have "leads sar32 st 1 vm (idiv_state base vm0 9 (of_nat R) (of_nat D) 0 sg ?b)"
    using step_rsbs_nat [OF l v, of 8] R D(2) by (simp add: idiv_code_eq)
  then have "leads sar32 st (Suc (Suc 119)) vm ?F"
  proof (rule leads_step)
    fix vm1
    assume v: "idiv_state base vm0 9 (of_nat R) (of_nat D) 0 sg ?b vm1"
    have "leads sar32 st 1 vm1 (idiv_state base vm0 (if ?b then 10 else 26) (of_nat R) (of_nat D) 0 sg ?b)"
      using step_jump [OF l v, of False 15 26] by (cases ?b; simp add: idiv_code_eq)
    then show "leads sar32 st (Suc 119) vm1 ?F"
    proof (rule leads_step)
      fix vm2
      assume v: "idiv_state base vm0 (if ?b then 10 else 26) (of_nat R) (of_nat D) 0 sg ?b vm2"
      show "leads sar32 st 119 vm2 ?F"
      proof (cases ?b)
        case True
        show ?thesis
          by (rule from_10 [OF l, where c = True]) (use True v R D in simp_all)
      next
        case False
        have "leads sar32 st 103 vm2 ?F"
          by (rule entered_unscaled [OF l R D, of 7]) (use False v in simp_all)
        then show ?thesis
          by (rule leads_weaken) simp_all
      qed
    qed
  qed
  then show ?thesis
    by simp
qed

lemma divides:
  assumes l: "idiv_loaded st base vm0"
    and v: "idiv_state base vm0 6 (of_nat R) (of_nat D) 0 sg c vm"
    and R: "R < 2 ^ 32" and D: "0 < D" "D < 2 ^ 32"
  shows "leads sar32 st 123 vm (idiv_state base vm0 51 (of_nat (R mod D)) (of_nat D) (of_nat (R div D)) sg False)"
    (is "leads _ _ _ _ ?F")
proof -
  let ?b = "D * 8 \<le> R"
  have "leads sar32 st 1 vm (idiv_state base vm0 7 (of_nat R) (of_nat D) 0 sg ?b)"
    using step_rsbs_nat [OF l v, of 3] R D(2) by (simp add: idiv_code_eq)
  then have "leads sar32 st (Suc (Suc 121)) vm ?F"
  proof (rule leads_step)
    fix vm1
    assume v: "idiv_state base vm0 7 (of_nat R) (of_nat D) 0 sg ?b vm1"
    have "leads sar32 st 1 vm1 (idiv_state base vm0 (if ?b then 8 else 41) (of_nat R) (of_nat D) 0 sg ?b)"
      using step_jump [OF l v, of False 32 41] by (cases ?b; simp add: idiv_code_eq)
    then show "leads sar32 st (Suc 121) vm1 ?F"
    proof (rule leads_step)
      fix vm2
      assume v: "idiv_state base vm0 (if ?b then 8 else 41) (of_nat R) (of_nat D) 0 sg ?b vm2"
      show "leads sar32 st 121 vm2 ?F"
      proof (cases ?b)
        case True
        show ?thesis
          by (rule from_8 [OF l, where c = True]) (use True v R D in simp_all)
      next
        case False
        have "leads sar32 st 103 vm2 ?F"
          by (rule entered_unscaled [OF l R D, of 2]) (use False v in simp_all)
        then show ?thesis
          by (rule leads_weaken) simp_all
      qed
    qed
  qed
  then show ?thesis
    by simp
qed

end
