(* ===== verification/Arm_Div_Result.thy ===== *)
theory Arm_Div_Result
  imports Arm_Div_Loop
begin

text \<open>
  What a call of the division routine returns in the simulator: the signs, the result and the division
  by zero.
\<close>

section \<open>The signs\<close>

lemma magnitude: "(of_nat (nat \<bar>sint w\<bar>) :: u32) = (if bit w 31 then - w else w)"
proof -
  have "(of_nat (nat \<bar>sint w\<bar>) :: u32) = word_of_int \<bar>sint w\<bar>"
    by simp
  then show ?thesis
    by (simp add: abs_if negative_bit)
qed

lemma magnitude_bound: "nat \<bar>sint (w :: u32)\<bar> < 2 ^ 32"
  using sint_range_size [of w] by (auto simp: word_size abs_if nat_less_iff)

lemma word_of_quotient:
  "word_of_int (c_div (sint a) (sint b))
    = (if bit (a :: u32) 31 \<noteq> bit (b :: u32) 31 then - of_nat (nat \<bar>sint a\<bar> div nat \<bar>sint b\<bar>)
       else of_nat (nat \<bar>sint a\<bar> div nat \<bar>sint b\<bar>) :: u32)"
proof -
  have "c_div a b = (if (a < 0) \<noteq> (b < 0) then - (\<bar>a\<bar> div \<bar>b\<bar>) else \<bar>a\<bar> div \<bar>b\<bar>)" for a b
    by (cases "a = 0"; cases "b = 0") (auto simp: c_div_def sgn_if)
  moreover have "of_nat (nat \<bar>sint a\<bar> div nat \<bar>sint b\<bar>) = (word_of_int (\<bar>sint a\<bar> div \<bar>sint b\<bar>) :: u32)"
    by (simp flip: nat_div_distrib) (simp add: pos_imp_zdiv_nonneg_iff div_int_pos_iff)
  ultimately show ?thesis
    by (simp add: negative_bit)
qed

lemma step_sign:
  assumes "idiv_loaded st base vm0" and "idiv_state base vm0 1 r d q sg c vm"
  shows "leads sar32 st 1 vm (\<lambda>vm. idiv_state base vm0 2 r d q (d AND 0x80000000) c vm
    \<and> vm_negative_flag vm = bit d 31)"
  by (rule leads_state [OF assms], simp, simp add: idiv_code_eq exec_simps prv_decode_imm_def
    prv_process_and_def logic_op_def logic_flags_def Let_def)
    (use assms(2) in \<open>simp add: state_simps negative_bit bit_and_iff\<close>)

lemma step_negate_d:
  assumes "idiv_loaded st base vm0" and "idiv_state base vm0 2 r d q sg c vm" and "vm_negative_flag vm = b"
  shows "leads sar32 st 1 vm (idiv_state base vm0 3 r (if b then - d else d) q sg c)"
  using assms(3) by (cases b; intro leads_state [OF assms(1,2)]; simp add: idiv_code_eq exec_simps prv_decode_imm_def)
    (use assms(2) in \<open>simp_all add: state_simps\<close>)

lemma step_signs:
  assumes "idiv_loaded st base vm0" and "idiv_state base vm0 3 r d q sg c vm"
    and "sint (sar32 r) < 0 \<longleftrightarrow> sint r < 0"
  shows "leads sar32 st 1 vm (idiv_state base vm0 4 r d q (sg XOR sar32 r) (bit r 31))"
proof -
  have "vm_regs vm 0 = r" and "\<not> (sint r < 0 \<and> 0 < sint (sar32 r))"
    using assms(2,3) by (auto simp: idiv_state_def)
  then show ?thesis
    by (intro leads_state [OF assms(1,2)], simp, simp add: idiv_code_eq exec_simps
      prv_process_eor_def logic_op_def logic_flags_def prv_set_shift_flags_def shift_carry_def eval_shift_def
      prv_eval_op2_def shift_value_def Let_def)
      (use assms(2) in \<open>simp add: state_simps\<close>)
qed

lemma step_negate_r:
  assumes "idiv_loaded st base vm0" and "idiv_state base vm0 k r d q sg c vm" and "k < 65"
    and "idiv_code st ! k = imm_op INSTR_RSB CC_CS False 0 0 0"
  shows "leads sar32 st 1 vm (idiv_state base vm0 (Suc k) (if c then - r else r) d q sg c)"
proof -
  have "vm_carry_flag vm = c"
    using assms(2) by (simp add: idiv_state_def)
  then show ?thesis
    by (cases c; intro leads_state [OF assms(1-3)]; simp add: assms(4) exec_simps prv_decode_imm_def)
      (use assms(2) in \<open>simp_all add: state_simps\<close>)
qed

lemma step_clear_q:
  assumes "idiv_loaded st base vm0" and "idiv_state base vm0 5 r d q sg c vm"
  shows "leads sar32 st 1 vm (idiv_state base vm0 6 r d 0 sg c)"
  by (rule leads_state [OF assms], simp, simp add: idiv_code_eq exec_simps prv_decode_imm_def)
    (use assms(2) in \<open>simp add: state_simps\<close>)

section \<open>The result\<close>

lemma zero_flag_sub: "vm_zero_flag (prv_set_sub_flags a b c vm) \<longleftrightarrow> c = 0"
  by (simp add: prv_set_sub_flags_def Let_def)

lemma step_compare:
  assumes "idiv_loaded st base vm0" and "idiv_state base vm0 51 r d q sg c vm"
  shows "leads sar32 st 1 vm (\<lambda>vm. \<exists>c. idiv_state base vm0 52 r d q sg c vm
    \<and> vm_zero_flag vm = (vm_regs vm0 2 = 0))"
  by (rule leads_state [OF assms], simp, simp add: idiv_code_eq exec_simps prv_decode_imm_def
    prv_process_cmp_def compare_def prv_set_status_flags_def Let_def)
    (use assms(2) in \<open>simp add: state_simps zero_flag_sub\<close>)

lemma step_take_q:
  assumes "idiv_loaded st base vm0" and "idiv_state base vm0 53 r d q sg c vm"
  shows "leads sar32 st 1 vm (idiv_state base vm0 54 q d q sg c)"
  by (rule leads_state [OF assms], simp, simp add: idiv_code_eq exec_simps)
    (use assms(2) in \<open>simp add: state_simps\<close>)

lemma step_result_sign:
  assumes "idiv_loaded st base vm0" and "idiv_state base vm0 k r d q sg c vm" and "k = 54 \<or> k = 57"
  shows "leads sar32 st 1 vm (idiv_state base vm0 (Suc k) r d q (push_bit 1 sg) (bit sg 31))"
proof -
  have "idiv_code st ! k = shift_op INSTR_MOV CC_AL True 6 0 6 SHIFT_LSL 1" "k < 65"
    using assms(3) by (auto simp: idiv_code_eq)
  then show ?thesis
    by (intro leads_state [OF assms(1,2)]) (simp_all add: exec_simps logic_flags_def prv_set_shift_flags_def
      shift_carry_def eval_shift_def prv_eval_op2_def shift_value_def Let_def,
      use assms(2) in \<open>simp_all add: state_simps\<close>)
qed

lemma step_result_choice:
  assumes "idiv_loaded st base vm0" and "idiv_state base vm0 52 r d q sg c vm" and "vm_zero_flag vm = b"
  shows "leads sar32 st 1 vm (idiv_state base vm0 (if b then 53 else 57) r d q sg c)"
proof -
  have state: "at_word (base + 52) vm" "idiv_loaded st base vm"
    using assms(1,2) loaded_kept by (auto simp: idiv_state_def)
  have code: "idiv_code st ! 52 = jump st CC_NE 3"
    by (simp add: idiv_code_eq)
  show ?thesis
  proof (cases b)
    case True
    then have "exec_instr sar32 (idiv_code st ! 52) vm = Some (Inr (advance vm))"
      using assms(3) by (simp add: code jump_def prv_process_b_def conditionally_def)
    then show ?thesis
      by (rule leads_state [OF assms(1,2), rotated]) (use True assms(2) in \<open>simp_all add: state_simps\<close>)
  next
    case False
    then have "prv_match_ccode vm CC_NE"
      using assms(3) by simp
    from exec_jump [OF state(1) _ _ _ this, of 57 3 sar32 st] state(2)
    have "exec_instr sar32 (idiv_code st ! 52) vm
        = Some (Inr (set_reg 15 (vm_start_address vm + 8 + of_nat (4 * (base + 57))) vm))"
      by (simp add: code idiv_loaded_def)
    then show ?thesis
      by (rule leads_state [OF assms(1,2), rotated]) (use False assms(2) in \<open>simp_all add: state_simps\<close>)
  qed
qed

definition returned :: "arm_vm \<Rightarrow> u32 \<Rightarrow> arm_vm \<Rightarrow> bool" where
  "returned vm0 r vm \<longleftrightarrow> vm_regs vm 0 = r \<and> vm_regs vm 15 = vm_regs vm0 14 + 8 \<and> vm_memory vm = vm_memory vm0
     \<and> (\<forall>x. x \<notin> {0, 1, 4, 5, 6, 7, 15} \<longrightarrow> vm_regs vm x = vm_regs vm0 x) \<and> \<not> vm_quit vm"

lemma step_return:
  assumes "idiv_loaded st base vm0" and "idiv_state base vm0 k r d q sg c vm" and "k = 56 \<or> k = 59"
    and "vm_regs vm0 14 < 0x1000000"
  shows "leads sar32 st 1 vm (returned vm0 r)"
proof -
  have code: "idiv_code st ! k = reg_op INSTR_MOV CC_AL False 15 0 14" "k < 65"
    using assms(3) by (auto simp: idiv_code_eq)
  have "vm_regs vm0 14 AND 0xffffff = vm_regs vm0 14"
    using less_mask_eq [of "vm_regs vm0 14" 24] assms(4) by (simp add: mask_eq_exp_minus_1 take_bit_eq_mask)
  moreover have "vm_regs vm 14 = vm_regs vm0 14" "\<not> vm_quit vm0"
    using assms(1,2) by (simp_all add: idiv_state_def kept_def idiv_loaded_def)
  ultimately show ?thesis
    by (intro leads_state [OF assms(1,2) code(2)]) (simp_all add: code exec_simps,
      use assms(2) in \<open>simp_all add: state_simps returned_def\<close>)
qed

lemma leads_result:
  assumes l: "idiv_loaded st base vm0" and v: "idiv_state base vm0 51 (of_nat rem) d (of_nat q) sg c vm"
    and "vm_regs vm0 14 < 0x1000000"
  shows "leads sar32 st 6 vm (returned vm0 (let r = (if vm_regs vm0 2 = 0 then of_nat q else of_nat rem)
    in if bit sg 31 then - r else r))"
    (is "leads _ _ _ _ ?F")
proof -
  let ?b = "vm_regs vm0 2 = 0"
  let ?r = "(if ?b then of_nat q else of_nat rem) :: u32"
  have final: "leads sar32 st (Suc (Suc 1)) vm2 ?F"
    if v: "idiv_state base vm0 k ?r d (of_nat q) sg c vm2" and k: "k = 54 \<or> k = 57" for k c vm2
  proof (rule leads_step [OF step_result_sign [OF l v k]])
    fix vm3
    assume v: "idiv_state base vm0 (Suc k) ?r d (of_nat q) (push_bit 1 sg) (bit sg 31) vm3"
    have code: "idiv_code st ! Suc k = imm_op INSTR_RSB CC_CS False 0 0 0" "Suc k < 65" "Suc (Suc k) = 56 \<or> Suc (Suc k) = 59"
      using k by (auto simp: idiv_code_eq)
    show "leads sar32 st (Suc 1) vm3 ?F"
    proof (rule leads_step [OF step_negate_r [OF l v code(2,1)]])
      fix vm4
      assume v: "idiv_state base vm0 (Suc (Suc k)) (if bit sg 31 then - ?r else ?r) d (of_nat q) (push_bit 1 sg) (bit sg 31) vm4"
      show "leads sar32 st 1 vm4 ?F"
        using step_return [OF l v code(3) assms(3)] by (simp add: Let_def)
    qed
  qed
  have "leads sar32 st (Suc (Suc (Suc (Suc (Suc 1))))) vm ?F"
  proof (rule leads_step [OF step_compare [OF l v]])
    fix vm1
    assume "\<exists>c. idiv_state base vm0 52 (of_nat rem) d (of_nat q) sg c vm1 \<and> vm_zero_flag vm1 = ?b"
    then obtain c where v: "idiv_state base vm0 52 (of_nat rem) d (of_nat q) sg c vm1" "vm_zero_flag vm1 = ?b"
      by blast
    show "leads sar32 st (Suc (Suc (Suc (Suc 1)))) vm1 ?F"
    proof (rule leads_step [OF step_result_choice [OF l v]])
      fix vm2
      assume v: "idiv_state base vm0 (if ?b then 53 else 57) (of_nat rem) d (of_nat q) sg c vm2"
      show "leads sar32 st (Suc (Suc (Suc 1))) vm2 ?F"
      proof (cases ?b)
        case True
        with v have v: "idiv_state base vm0 53 (of_nat rem) d (of_nat q) sg c vm2"
          by simp
        show ?thesis
          by (rule leads_step [OF step_take_q [OF l v]], rule final) (use True in auto)
      next
        case False
        with v have "idiv_state base vm0 57 ?r d (of_nat q) sg c vm2"
          by simp
        then have "leads sar32 st (Suc (Suc 1)) vm2 ?F"
          by (rule final) simp
        then show ?thesis
          by (rule leads_weaken) simp_all
      qed
    qed
  qed
  then show ?thesis
    by (rule leads_weaken) simp_all
qed

lemma leads_signs:
  assumes l: "idiv_loaded st base vm0" and v: "idiv_state base vm0 1 r d q sg c vm"
    and sar: "sint (sar32 r) < 0 \<longleftrightarrow> sint r < 0"
  shows "leads sar32 st 5 vm (\<lambda>vm. \<exists>sg c. idiv_state base vm0 6 (of_nat (nat \<bar>sint r\<bar>)) (of_nat (nat \<bar>sint d\<bar>)) 0 sg c vm
    \<and> (bit sg 31 \<longleftrightarrow> bit r 31 \<noteq> bit d 31))"
    (is "leads _ _ _ _ ?F")
proof -
  let ?sg = "(d AND 0x80000000) XOR sar32 r"
  have sg: "bit ?sg 31 \<longleftrightarrow> bit r 31 \<noteq> bit d 31"
    using sar by (auto simp: negative_bit bit_xor_iff bit_and_iff)
  have "leads sar32 st (Suc (Suc (Suc (Suc 1)))) vm ?F"
  proof (rule leads_step [OF step_sign [OF l v]], elim conjE)
    fix vm1
    assume v: "idiv_state base vm0 2 r d q (d AND 0x80000000) c vm1" "vm_negative_flag vm1 = bit d 31"
    have "leads sar32 st 1 vm1 (idiv_state base vm0 3 r (of_nat (nat \<bar>sint d\<bar>)) q (d AND 0x80000000) c)"
      using step_negate_d [OF l v] by (simp only: magnitude)
    then show "leads sar32 st (Suc (Suc (Suc 1))) vm1 ?F"
    proof (rule leads_step)
      fix vm2
      assume v: "idiv_state base vm0 3 r (of_nat (nat \<bar>sint d\<bar>)) q (d AND 0x80000000) c vm2"
      show "leads sar32 st (Suc (Suc 1)) vm2 ?F"
      proof (rule leads_step [OF step_signs [OF l v, of sar32, OF sar]])
        fix vm3
        assume v: "idiv_state base vm0 4 r (of_nat (nat \<bar>sint d\<bar>)) q ?sg (bit r 31) vm3"
        have "leads sar32 st 1 vm3 (idiv_state base vm0 5 (of_nat (nat \<bar>sint r\<bar>)) (of_nat (nat \<bar>sint d\<bar>)) q ?sg (bit r 31))"
          using step_negate_r [OF l v] by (simp add: idiv_code_eq magnitude [of r] del: of_nat_nat)
        then show "leads sar32 st (Suc 1) vm3 ?F"
        proof (rule leads_step)
          fix vm4
          assume v: "idiv_state base vm0 5 (of_nat (nat \<bar>sint r\<bar>)) (of_nat (nat \<bar>sint d\<bar>)) q ?sg (bit r 31) vm4"
          show "leads sar32 st 1 vm4 ?F"
            by (rule leads_weaken [OF step_clear_q [OF l v]]) (use sg in auto)
        qed
      qed
    qed
  qed
  then show ?thesis
    by (rule leads_weaken) simp_all
qed

section \<open>The call\<close>

text \<open>The word below the stack pointer, from which the routine loads the offset of the error number.\<close>

definition below_sp :: "arm_vm \<Rightarrow> u64" where
  "below_sp vm = scast (vm_regs vm 13 - 4) - scast (vm_start_address vm)"

definition callable :: "stale \<Rightarrow> nat \<Rightarrow> arm_vm \<Rightarrow> bool" where
  "callable st base vm \<longleftrightarrow> idiv_loaded st base vm \<and> at_word base vm \<and> vm_regs vm 14 < 0x1000000
     \<and> \<not> mem_size vm < below_sp vm + 4 \<and> (\<exists>w. load_word (below_sp vm) vm = Inr w)"

lemma first_step:
  assumes "callable st base vm"
  obtains vm1 where "leads sar32 st 1 vm (\<lambda>vm. vm = vm1)" "idiv_loaded st base vm1"
    "idiv_state base vm1 1 (vm_regs vm 0) (vm_regs vm 1) (vm_regs vm 5) (vm_regs vm 6) (vm_carry_flag vm) vm1"
    "vm_memory vm1 = vm_memory vm" "\<And>x. x \<noteq> 7 \<Longrightarrow> x \<noteq> 15 \<Longrightarrow> vm_regs vm1 x = vm_regs vm x"
    "load_word (below_sp vm) vm = Inr (vm_regs vm1 7)" "vm_start_address vm1 = vm_start_address vm"
proof -
  from assms obtain w where l: "idiv_loaded st base vm" and at: "at_word base vm"
    and w: "load_word (below_sp vm) vm = Inr w" and b: "\<not> mem_size vm < below_sp vm + 4"
    unfolding callable_def by blast
  let ?vm = "advance (set_reg 7 w vm)"
  have exec: "exec_instr sar32 (idiv_code st ! 0) vm = Some (Inr ?vm)"
    using w b by (simp add: idiv_code_eq stran_def prv_process_ldr_def conditionally_def prv_compute_stran_addr_def
        indexed_addr_def checked_addr_def below_sp_def Let_def)
  have "leads sar32 st 1 vm (\<lambda>vm. vm = ?vm)"
    by (rule leads_exec [OF l _ _ _ refl exec]) (use at in \<open>simp_all add: kept_def\<close>)
  moreover have "idiv_loaded st base ?vm"
    using l by (simp add: idiv_loaded_def advance_def set_reg_def)
  ultimately show ?thesis
    using at w by (intro that [of ?vm]) (simp_all add: state_simps)
qed

lemma idiv_call:
  assumes c: "callable st base vm" and d: "vm_regs vm 1 \<noteq> 0"
    and sar: "\<forall>w. sint (sar32 w) < 0 \<longleftrightarrow> sint w < 0"
  shows "leads sar32 st 135 vm (returned vm
    (let a = sint (vm_regs vm 0); b = sint (vm_regs vm 1);
         r = of_nat (if vm_regs vm 2 = 0 then nat \<bar>a\<bar> div nat \<bar>b\<bar> else nat \<bar>a\<bar> mod nat \<bar>b\<bar>)
     in if (a < 0) \<noteq> (b < 0) then - r else r))"
    (is "leads _ _ _ _ ?F")
proof -
  from first_step [OF c, of sar32] obtain vm1 where one: "leads sar32 st 1 vm (\<lambda>vm. vm = vm1)" and l: "idiv_loaded st base vm1"
    and v: "idiv_state base vm1 1 (vm_regs vm 0) (vm_regs vm 1) (vm_regs vm 5) (vm_regs vm 6) (vm_carry_flag vm) vm1"
    and same: "vm_memory vm1 = vm_memory vm" "\<And>x. x \<noteq> 7 \<Longrightarrow> x \<noteq> 15 \<Longrightarrow> vm_regs vm1 x = vm_regs vm x"
    by metis
  let ?r = "vm_regs vm 0" and ?d = "vm_regs vm 1"
  let ?R = "nat \<bar>sint ?r\<bar>" and ?D = "nat \<bar>sint ?d\<bar>"
  have D: "0 < ?D" "?D < 2 ^ 32" "?R < 2 ^ 32"
    using d magnitude_bound by (auto simp: signed_eq_0_iff)
  have ret: "vm_regs vm1 14 < 0x1000000"
    using c same(2) by (simp add: callable_def)
  have "leads sar32 st (1 + (5 + (123 + 6))) vm ?F"
  proof (rule leads_trans [OF one], elim ssubst, rule leads_trans [OF leads_signs [OF l v]])
    fix vm2
    assume "\<exists>sg c. idiv_state base vm1 6 (of_nat ?R) (of_nat ?D) 0 sg c vm2 \<and> (bit sg 31 \<longleftrightarrow> bit ?r 31 \<noteq> bit ?d 31)"
    then obtain sg c where v: "idiv_state base vm1 6 (of_nat ?R) (of_nat ?D) 0 sg c vm2"
      and sg: "bit sg 31 \<longleftrightarrow> bit ?r 31 \<noteq> bit ?d 31"
      by blast
    show "leads sar32 st (123 + 6) vm2 ?F"
    proof (rule leads_trans [OF divides [OF l v D(3,1,2)]])
      fix vm3
      assume v: "idiv_state base vm1 51 (of_nat (?R mod ?D)) (of_nat ?D) (of_nat (?R div ?D)) sg False vm3"
      show "leads sar32 st 6 vm3 ?F"
        by (rule leads_weaken [OF leads_result [OF l v ret]])
          (use same sg in \<open>auto simp: returned_def negative_bit Let_def\<close>)
    qed
  qed (use sar in blast)
  then show ?thesis
    by simp
qed

section \<open>Division by zero\<close>

text \<open>Every comparison with a divisor of zero sets the carry, down to the test for zero.\<close>

lemma zero_rsbs:
  assumes "idiv_loaded st base vm0" and "idiv_state base vm0 k r 0 q sg c vm" and "k \<in> {6, 8, 12, 14, 18, 21}"
  shows "leads sar32 st 1 vm (idiv_state base vm0 (Suc k) r 0 q sg True)"
proof -
  let ?n = "if k = 6 then 3 else if k = 12 \<or> k = 21 then 4 else 8 :: nat"
  show ?thesis
    using step_rsbs [OF assms(1,2), of ?n] assms(3) by (auto simp: idiv_code_eq)
qed

lemma zero_jump:
  assumes "idiv_loaded st base vm0" and "idiv_state base vm0 k r 0 q sg True vm" and "k \<in> {7, 9, 13, 15, 22}"
  shows "leads sar32 st 1 vm (idiv_state base vm0 (Suc k) r 0 q sg True)"
proof -
  let ?off = "if k = 7 then 32 else if k = 9 then 15 else if k = 13 then 23 else if k = 15 then 9 else 14 :: int"
  show ?thesis
    using step_jump [OF assms(1,2), of False ?off "nat (int k + 2 + ?off)"] assms(3) by (auto simp: idiv_code_eq)
qed

lemma zero_shift:
  assumes "idiv_loaded st base vm0" and "idiv_state base vm0 k r 0 q sg True vm" and "k \<in> {10, 16, 19}"
  shows "leads sar32 st 1 vm (idiv_state base vm0 (Suc k) r 0 q sg True)"
  using step_scale [OF assms(1), where D = 0 and b = "k = 19", simplified, OF assms(2)] assms(3)
  by (auto simp: idiv_code_eq)

lemma zero_mark:
  assumes "idiv_loaded st base vm0" and "idiv_state base vm0 k r 0 q sg True vm" and "k \<in> {11, 17, 20}"
  shows "leads sar32 st 1 vm (\<lambda>vm. \<exists>q. idiv_state base vm0 (Suc k) r 0 q sg True vm)"
proof -
  let ?i = "if k = 11 then 0x4ff else if k = 17 then 0x8ff else 0xcff :: u32"
  have "leads sar32 st 1 vm (idiv_state base vm0 (Suc k) r 0 (q OR prv_decode_imm ?i) sg True)"
    using step_mark [OF assms(1,2), of "k = 20" ?i] assms(3) by (auto simp: idiv_code_eq)
  then show ?thesis
    by (rule leads_weaken) auto
qed

lemma zero_step:
  assumes "idiv_loaded st base vm0" and "idiv_state base vm0 k r 0 q sg (k \<noteq> 6 \<or> c) vm" and "6 \<le> k" "k < 23"
  shows "leads sar32 st 1 vm (\<lambda>vm. \<exists>q. idiv_state base vm0 (Suc k) r 0 q sg True vm)"
proof -
  have "k = 6 \<or> k = 7 \<or> k = 8 \<or> k = 9 \<or> k = 10 \<or> k = 11 \<or> k = 12 \<or> k = 13 \<or> k = 14 \<or> k = 15 \<or> k = 16
      \<or> k = 17 \<or> k = 18 \<or> k = 19 \<or> k = 20 \<or> k = 21 \<or> k = 22"
    using assms(3,4) by arith
  then consider "k \<in> {6, 8, 12, 14, 18, 21}" | "k \<in> {7, 9, 13, 15, 22}" "k \<noteq> 6" | "k \<in> {10, 16, 19}" "k \<noteq> 6"
    | "k \<in> {11, 17, 20}" "k \<noteq> 6"
    by auto
  then show ?thesis
  proof cases
    case 4
    then show ?thesis
      using assms(2) by (intro zero_mark [OF assms(1)]) simp_all
  qed (use assms(1,2) in \<open>auto intro: leads_weaken [OF zero_rsbs] leads_weaken [OF zero_jump]
      leads_weaken [OF zero_shift]\<close>)
qed

lemma zero_steps:
  assumes "idiv_loaded st base vm0" and "idiv_state base vm0 6 r 0 q sg c vm" and "n \<le> 17"
  shows "leads sar32 st n vm (\<lambda>vm. \<exists>q. idiv_state base vm0 (6 + n) r 0 q sg (n \<noteq> 0 \<or> c) vm)"
  using assms(3)
proof (induction n)
  case 0
  show ?case
    using assms(2) by (intro leads_now) auto
next
  case (Suc n)
  then have "leads sar32 st n vm (\<lambda>vm. \<exists>q. idiv_state base vm0 (6 + n) r 0 q sg (n \<noteq> 0 \<or> c) vm)"
    by simp
  then have "leads sar32 st (n + 1) vm (\<lambda>vm. \<exists>q. idiv_state base vm0 (Suc (6 + n)) r 0 q sg True vm)"
  proof (rule leads_trans)
    fix vm'
    assume "\<exists>q. idiv_state base vm0 (6 + n) r 0 q sg (n \<noteq> 0 \<or> c) vm'"
    then obtain q where "idiv_state base vm0 (6 + n) r 0 q sg (6 + n \<noteq> 6 \<or> c) vm'"
      by auto
    then show "leads sar32 st 1 vm' (\<lambda>vm. \<exists>q. idiv_state base vm0 (Suc (6 + n)) r 0 q sg True vm)"
      by (rule zero_step [OF assms(1)]) (use Suc.prems in simp_all)
  qed
  then show ?case
    by simp
qed

lemma leads_zero:
  assumes l: "idiv_loaded st base vm0" and v: "idiv_state base vm0 6 r 0 0 sg c vm"
  shows "leads sar32 st 19 vm (\<lambda>vm. \<exists>r q c. idiv_state base vm0 60 r 0 q sg c vm)"
    (is "leads _ _ _ _ ?F")
proof -
  have "leads sar32 st (17 + (1 + 1)) vm ?F"
  proof (rule leads_trans [OF zero_steps [OF l v order_refl]], elim exE)
    fix vm1 q
    assume "idiv_state base vm0 (6 + 17) r 0 q sg (17 \<noteq> (0 :: nat) \<or> c) vm1"
    then have v: "idiv_state base vm0 23 r 0 q sg True vm1"
      by simp
    have "leads sar32 st 1 vm1 (idiv_state base vm0 24 r 0 q sg True)"
      using step_rsbs_zero [OF l v] by (simp add: idiv_code_eq)
    then show "leads sar32 st (1 + 1) vm1 ?F"
    proof (rule leads_trans)
      fix vm2
      assume v: "idiv_state base vm0 24 r 0 q sg True vm2"
      have "leads sar32 st 1 vm2 (idiv_state base vm0 60 r 0 q sg True)"
        using step_jump [OF l v, of True 34 60] by (simp add: idiv_code_eq)
      then show "leads sar32 st 1 vm2 ?F"
        by (rule leads_weaken) auto
    qed
  qed
  then show ?thesis
    by simp
qed

text \<open>The error number and the error flag are two words of the block that \<open>R12\<close> points to.\<close>

definition in_block :: "arm_vm \<Rightarrow> u32 \<Rightarrow> u64" where
  "in_block vm offset = scast (vm_regs vm 12 + offset) - scast (vm_start_address vm)"

definition writable :: "nat \<Rightarrow> u64 \<Rightarrow> arm_vm \<Rightarrow> bool" where
  "writable base a vm \<longleftrightarrow> \<not> mem_size vm < a + 4 \<and> unat a + 4 \<le> length (vm_memory vm) \<and> 4 * (base + 65) \<le> unat a"

lemma store_keeps_code:
  assumes "idiv_loaded st base vm" and "4 * (base + 65) \<le> i" and "write_word (vm_memory vm) i w = Inr m"
  shows "idiv_loaded st base (vm\<lparr>vm_memory := m\<rparr>)"
  unfolding idiv_loaded_def
proof (intro conjI allI impI)
  fix k :: nat
  assume "k < 65"
  with assms(2,3) have "read_word m (4 * (base + k)) = read_word (vm_memory vm) (4 * (base + k))"
    by (intro read_write_word_other) auto
  then show "\<exists>w. read_word (vm_memory (vm\<lparr>vm_memory := m\<rparr>)) (4 * (base + k)) = Inr w
      \<and> subtilis_arm_disass st w (vm_vfp (vm\<lparr>vm_memory := m\<rparr>)) = Inr (idiv_code st ! k)"
    using assms(1) \<open>k < 65\<close> by (simp add: idiv_loaded_def)
qed (use assms(1) in \<open>simp_all add: idiv_loaded_def\<close>)

text \<open>A constant is put into \<open>R0\<close> and stored in the block.\<close>

lemma step_store:
  assumes l: "idiv_loaded st base vm0" and v: "idiv_state base vm0 k w d q sg c vm" and k: "k < 65"
    and code: "idiv_code st ! k = Stran INSTR_STR (stran CC_AL 0 12 (OP2_REG x) True False False False)"
    and x: "x = 3 \<or> x = 7" and a: "writable base (in_block vm0 (vm_regs vm0 x)) vm0"
  obtains m where "write_word (vm_memory vm0) (unat (in_block vm0 (vm_regs vm0 x))) w = Inr m"
    and "idiv_loaded st base (vm0\<lparr>vm_memory := m\<rparr>)"
    and "leads sar32 st 1 vm (idiv_state base (vm0\<lparr>vm_memory := m\<rparr>) (Suc k) w d q sg c)"
proof -
  let ?a = "in_block vm0 (vm_regs vm0 x)"
  obtain m where m: "write_word (vm_memory vm0) (unat ?a) w = Inr m"
    using a by (auto simp: writable_def write_word_def)
  have l': "idiv_loaded st base (vm0\<lparr>vm_memory := m\<rparr>)"
    using store_keeps_code [OF l _ m] a by (simp add: writable_def)
  have vm: "vm_memory vm = vm_memory vm0" "vm_regs vm 12 = vm_regs vm0 12" "vm_regs vm x = vm_regs vm0 x"
      "vm_start_address vm = vm_start_address vm0" "vm_regs vm 0 = w" "kept vm0 vm" "at_word (base + k) vm"
    using v x by (auto simp: idiv_state_def kept_def)
  have "exec_instr sar32 (idiv_code st ! k) vm = Some (Inr (advance (vm\<lparr>vm_memory := m\<rparr>)))"
    using vm(1-5) m a by (simp add: code stran_def prv_process_str_def conditionally_def prv_compute_stran_addr_def
      prv_eval_op2_def indexed_addr_def checked_addr_def in_block_def writable_def mem_size_def store_word_def Let_def)
  then have "leads sar32 st 1 vm (idiv_state base (vm0\<lparr>vm_memory := m\<rparr>) (Suc k) w d q sg c)"
    by (rule leads_exec [OF l vm(6,7) k refl]) (use v in \<open>simp add: state_simps\<close>)
  with m l' show ?thesis
    by (rule that)
qed

lemma step_error_number:
  assumes "idiv_loaded st base vm0" and "idiv_state base vm0 60 r d q sg c vm"
  shows "leads sar32 st 1 vm (idiv_state base vm0 61 18 d q sg c)"
  by (rule leads_state [OF assms], simp, simp add: idiv_code_eq exec_simps prv_decode_imm_def)
    (use assms(2) in \<open>simp add: state_simps\<close>)

lemma step_error_flag:
  assumes "idiv_loaded st base vm0" and "idiv_state base vm0 62 r d q sg c vm"
  shows "leads sar32 st 1 vm (idiv_state base vm0 63 (- 1) d q sg c)"
  by (rule leads_state [OF assms], simp, simp add: idiv_code_eq exec_simps prv_process_mvn_def
      prv_decode_imm_def) (use assms(2) in \<open>simp add: state_simps\<close>)

lemma step_error_return:
  assumes "idiv_loaded st base vm0" and "idiv_state base vm0 64 r d q sg c vm" and "vm_regs vm0 14 < 0x1000000"
  shows "leads sar32 st 1 vm (returned vm0 r)"
proof -
  have code: "idiv_code st ! 64 = reg_op INSTR_MOV CC_AL False 15 0 14"
    by (simp add: idiv_code_eq)
  have "vm_regs vm0 14 AND 0xffffff = vm_regs vm0 14"
    using less_mask_eq [of "vm_regs vm0 14" 24] assms(3) by (simp add: mask_eq_exp_minus_1 take_bit_eq_mask)
  moreover have "vm_regs vm 14 = vm_regs vm0 14" "\<not> vm_quit vm0"
    using assms(1,2) by (simp_all add: idiv_state_def kept_def idiv_loaded_def)
  ultimately show ?thesis
    by (intro leads_state [OF assms(1,2)]) (simp_all add: code exec_simps,
      use assms(2) in \<open>simp_all add: state_simps returned_def\<close>)
qed

lemma writable_update:
  "length m = length (vm_memory vm) \<Longrightarrow> writable base a (vm\<lparr>vm_memory := m\<rparr>) \<longleftrightarrow> writable base a vm"
  by (simp add: writable_def mem_size_def)

lemma in_block_update: "in_block (vm\<lparr>vm_memory := m\<rparr>) x = in_block vm x"
  by (simp add: in_block_def)

text \<open>The number and the flag are written, in this order, and the caller is returned to.\<close>

lemma leads_error:
  assumes l: "idiv_loaded st base vm0" and v: "idiv_state base vm0 60 r d q sg c vm"
    and a: "writable base (in_block vm0 (vm_regs vm0 7)) vm0" "writable base (in_block vm0 (vm_regs vm0 3)) vm0"
    and ret: "vm_regs vm0 14 < 0x1000000"
  obtains m1 m2 where "write_word (vm_memory vm0) (unat (in_block vm0 (vm_regs vm0 7))) 18 = Inr m1"
    and "write_word m1 (unat (in_block vm0 (vm_regs vm0 3))) (- 1) = Inr m2"
    and "leads sar32 st 5 vm (returned (vm0\<lparr>vm_memory := m2\<rparr>) (- 1))"
proof -
  have codes: "idiv_code st ! 61 = Stran INSTR_STR (stran CC_AL 0 12 (OP2_REG 7) True False False False)"
    "idiv_code st ! 63 = Stran INSTR_STR (stran CC_AL 0 12 (OP2_REG 3) True False False False)"
    by (simp_all add: idiv_code_eq)
  obtain m1 where m1: "write_word (vm_memory vm0) (unat (in_block vm0 (vm_regs vm0 7))) 18 = Inr m1"
    and l1: "idiv_loaded st base (vm0\<lparr>vm_memory := m1\<rparr>)"
    using a(1) store_keeps_code [OF l] by (auto simp: writable_def write_word_def)
  let ?vm1 = "vm0\<lparr>vm_memory := m1\<rparr>"
  have len: "length m1 = length (vm_memory vm0)"
    using m1 by (rule length_write_word)
  have a1: "writable base (in_block ?vm1 (vm_regs ?vm1 3)) ?vm1"
    using a(2) by (simp add: writable_update [OF len] in_block_update)
  obtain m2 where m2: "write_word (vm_memory ?vm1) (unat (in_block ?vm1 (vm_regs ?vm1 3))) (- 1) = Inr m2"
    and l2: "idiv_loaded st base (?vm1\<lparr>vm_memory := m2\<rparr>)"
    using a1 store_keeps_code [OF l1] by (auto simp: writable_def write_word_def)
  have "leads sar32 st (1 + (1 + (1 + (1 + 1)))) vm (returned (vm0\<lparr>vm_memory := m2\<rparr>) (- 1))"
  proof (rule leads_trans [OF step_error_number [OF l v]])
    fix v1
    assume v: "idiv_state base vm0 61 18 d q sg c v1"
    show "leads sar32 st (1 + (1 + (1 + 1))) v1 (returned (vm0\<lparr>vm_memory := m2\<rparr>) (- 1))"
    proof (rule step_store [OF l v _ codes(1) _ a(1), of sar32], simp, simp)
      fix m
      assume "write_word (vm_memory vm0) (unat (in_block vm0 (vm_regs vm0 7))) 18 = Inr m"
        and "leads sar32 st 1 v1 (idiv_state base (vm0\<lparr>vm_memory := m\<rparr>) (Suc 61) 18 d q sg c)"
      with m1 have "leads sar32 st 1 v1 (idiv_state base ?vm1 62 18 d q sg c)"
        by simp
      then show ?thesis
      proof (rule leads_trans, elim leads_trans [OF step_error_flag [OF l1]])
        fix v2 v3
        assume v: "idiv_state base ?vm1 63 (- 1) d q sg c v3"
        show "leads sar32 st (1 + 1) v3 (returned (vm0\<lparr>vm_memory := m2\<rparr>) (- 1))"
        proof (rule step_store [OF l1 v _ codes(2) _ a1, of sar32], simp, simp)
          fix m
          assume "write_word (vm_memory ?vm1) (unat (in_block ?vm1 (vm_regs ?vm1 3))) (- 1) = Inr m"
            and "leads sar32 st 1 v3 (idiv_state base (?vm1\<lparr>vm_memory := m\<rparr>) (Suc 63) (- 1) d q sg c)"
          with m2 have "leads sar32 st 1 v3 (idiv_state base (?vm1\<lparr>vm_memory := m2\<rparr>) 64 (- 1) d q sg c)"
            by simp
          then show ?thesis
            by (rule leads_trans) (use step_error_return [OF l2] ret in simp)
        qed
      qed
    qed
  qed
  then have "leads sar32 st 5 vm (returned (vm0\<lparr>vm_memory := m2\<rparr>) (- 1))"
    by (rule leads_weaken) simp_all
  with m1 m2 show ?thesis
    by (intro that) (simp_all add: in_block_update)
qed

lemma idiv_zero_call:
  assumes c: "callable st base vm" and d: "vm_regs vm 1 = 0"
    and sar: "\<forall>w. sint (sar32 w) < 0 \<longleftrightarrow> sint w < 0"
    and err: "load_word (below_sp vm) vm = Inr err_offset"
    and a: "writable base (in_block vm err_offset) vm" "writable base (in_block vm (vm_regs vm 3)) vm"
  obtains m1 m2 where "write_word (vm_memory vm) (unat (in_block vm err_offset)) 18 = Inr m1"
    and "write_word m1 (unat (in_block vm (vm_regs vm 3))) (- 1) = Inr m2"
    and "leads sar32 st 30 vm (returned (vm\<lparr>vm_memory := m2\<rparr>) (- 1))"
proof -
  from first_step [OF c, of sar32] obtain vm1 where one: "leads sar32 st 1 vm (\<lambda>vm. vm = vm1)" and l: "idiv_loaded st base vm1"
    and v: "idiv_state base vm1 1 (vm_regs vm 0) (vm_regs vm 1) (vm_regs vm 5) (vm_regs vm 6) (vm_carry_flag vm) vm1"
    and same: "vm_memory vm1 = vm_memory vm" "\<And>x. x \<noteq> 7 \<Longrightarrow> x \<noteq> 15 \<Longrightarrow> vm_regs vm1 x = vm_regs vm x"
      "vm_start_address vm1 = vm_start_address vm" "load_word (below_sp vm) vm = Inr (vm_regs vm1 7)"
    by metis
  have "vm_regs vm1 7 = err_offset"
    using same(4) err by simp
  then have block: "in_block vm1 (vm_regs vm1 7) = in_block vm err_offset" "in_block vm1 (vm_regs vm1 3) = in_block vm (vm_regs vm 3)"
    using same(2,3) by (simp_all add: in_block_def)
  have a1: "writable base (in_block vm1 (vm_regs vm1 7)) vm1" "writable base (in_block vm1 (vm_regs vm1 3)) vm1"
    using a same(1) unfolding block by (simp_all add: writable_def mem_size_def)
  have ret: "vm_regs vm1 14 < 0x1000000"
    using c same(2) by (simp add: callable_def)
  obtain m1 m2 where m: "write_word (vm_memory vm) (unat (in_block vm err_offset)) 18 = Inr m1"
    "write_word m1 (unat (in_block vm (vm_regs vm 3))) (- 1) = Inr m2"
    using a by (auto simp: writable_def write_word_def)
  have "leads sar32 st (1 + (5 + (19 + 5))) vm (returned (vm\<lparr>vm_memory := m2\<rparr>) (- 1))"
  proof (rule leads_trans [OF one], elim ssubst, rule leads_trans [OF leads_signs [OF l v]])
    fix vm2
    assume "\<exists>sg c. idiv_state base vm1 6 (of_nat (nat \<bar>sint (vm_regs vm 0)\<bar>)) (of_nat (nat \<bar>sint (vm_regs vm 1)\<bar>)) 0 sg c vm2
      \<and> (bit sg 31 \<longleftrightarrow> bit (vm_regs vm 0) 31 \<noteq> bit (vm_regs vm 1) 31)"
    then obtain sg c where "idiv_state base vm1 6 (of_nat (nat \<bar>sint (vm_regs vm 0)\<bar>)) 0 0 sg c vm2"
      using d by auto
    then show "leads sar32 st (19 + 5) vm2 (returned (vm\<lparr>vm_memory := m2\<rparr>) (- 1))"
    proof (rule leads_trans [OF leads_zero [OF l]], elim exE)
      fix vm3 r q c
      assume v: "idiv_state base vm1 60 r 0 q sg c vm3"
      show "leads sar32 st 5 vm3 (returned (vm\<lparr>vm_memory := m2\<rparr>) (- 1))"
      proof (rule leads_error [OF l v a1 ret, of sar32, unfolded block same(1)])
        fix m1' m2'
        assume "write_word (vm_memory vm) (unat (in_block vm err_offset)) 18 = Inr m1'"
          and "write_word m1' (unat (in_block vm (vm_regs vm 3))) (- 1) = Inr m2'"
          and "leads sar32 st 5 vm3 (returned (vm1\<lparr>vm_memory := m2'\<rparr>) (- 1))"
        with m have "leads sar32 st 5 vm3 (returned (vm1\<lparr>vm_memory := m2\<rparr>) (- 1))"
          by simp
        then show ?thesis
          by (rule leads_weaken) (use same(2) in \<open>simp_all add: returned_def\<close>)
      qed
    qed
  qed (use sar in blast)
  with m show ?thesis
    by (intro that) simp_all
qed

end
