(* ===== verification/Arm_Div_Correct.thy ===== *)
theory Arm_Div_Correct
  imports Arm_Div_Result
begin

text \<open>
  The properties of the division routine: what the generator appends to a section, and what the encoded
  routine computes when the simulator runs it.
\<close>

section \<open>The routine in a section\<close>

lemma idiv_section_ok:
  assumes "sec_ops s = idiv_ops" and "7 \<le> sec_label_counter s"
  shows "labelled_section vfp s"
proof -
  have "\<forall>op\<in>set idiv_ops. section_op_ok vfp (sec_label_counter s) op"
    using assms(2) by (simp add: decodable_def idiv_ops_def step_ops_def return_ops_def branch_to_def data_def shifted_def stran_def)
  moreover have "distinct (labels_of idiv_ops) \<and> labels_defined idiv_ops"
    by (simp add: idiv_ops_def step_ops_def return_ops_def branch_to_def data_def shifted_def stran_def
        labels_defined_def)
  ultimately show ?thesis
    by (simp add: labelled_section_def assms(1) idiv_instrs)
qed

text \<open>Code that was encoded from the routine is code the machine can execute as such.\<close>

lemma idiv_encoded_loaded:
  assumes "length (ud_code ud) \<le> ud_max_bytes ud" and "length (ud_code ud) = 4 * base"
    and "set (ud_allocs ud) \<subseteq> {True}" and "vec_ok (ud_back_patches ud)"
    and "sec_label_counter s \<le> length (ud_label_offsets ud)"
    and "sec_ops s = idiv_ops" and "7 \<le> sec_label_counter s" and "n < length (link_sections (ud_link ud))"
    and "base + 65 \<le> 2 ^ 29"
  shows "\<exists>ud'. encode_section (n, s) ud = Inr ud' \<and> length (ud_code ud') = 4 * (base + 65)
    \<and> (\<forall>vm st rest. vm_memory vm = ud_code ud' @ rest \<longrightarrow> base + 65 \<le> vm_code_size vm
      \<longrightarrow> \<not> vm_quit vm \<longrightarrow> idiv_loaded st base vm)"
proof -
  have resolved: "\<exists>ud'. encode_section (n, s) ud = Inr ud'
    \<and> length (ud_code ud') = length (ud_code ud) + 4 * length (instrs_of (sec_ops s))
    \<and> (\<forall>k < length (instrs_of (sec_ops s)). \<exists>w.
        read_word (ud_code ud') (length (ud_code ud) + 4 * k) = Inr w
        \<and> subtilis_arm_disass st w vfp = Inr (resolved_decoded st (label_index (sec_ops s)) k
            (instrs_of (sec_ops s) ! k)))" for st vfp
    using assms(1-5,8) idiv_section_ok [OF assms(6,7)] by (intro section_resolved) simp_all
  from resolved [of undefined False] obtain ud' where ud': "encode_section (n, s) ud = Inr ud'"
    "length (ud_code ud') = 4 * (base + 65)"
    by (auto simp: assms(2,6) idiv_instrs)
  show ?thesis
  proof (intro exI conjI allI impI, rule ud'(1), rule ud'(2))
    fix vm :: arm_vm and st rest
    assume vm: "vm_memory vm = ud_code ud' @ rest" "base + 65 \<le> vm_code_size vm" "\<not> vm_quit vm"
    have "\<exists>w. read_word (vm_memory vm) (4 * (base + k)) = Inr w
        \<and> subtilis_arm_disass st w (vm_vfp vm) = Inr (idiv_code st ! k)" if "k < 65" for k
    proof -
      from resolved [of st "vm_vfp vm"] ud'(1) that obtain w where "read_word (ud_code ud') (4 * base + 4 * k) = Inr w"
        "subtilis_arm_disass st w (vm_vfp vm) = Inr (resolved_decoded st (label_index idiv_ops) k (instrs_of idiv_ops ! k))"
        by (auto simp: assms(2,6) idiv_instrs)
      moreover have "idiv_code st ! k = resolved_decoded st (label_index idiv_ops) k (instrs_of idiv_ops ! k)"
        using that by (simp add: idiv_code_def idiv_instrs)
      moreover have "4 * base + 4 * k + 4 \<le> length (ud_code ud')"
        using that ud'(2) by simp
      ultimately show ?thesis
        unfolding vm(1) by (simp add: read_word_append1)
    qed
    then show "idiv_loaded st base vm"
      using vm(2,3) assms(9) by (simp add: idiv_loaded_def)
  qed
qed

section \<open>An example\<close>

definition idiv_section :: arm_section where
  "idiv_section = \<lparr>sec_ops = idiv_ops, sec_label_counter = 7, sec_ui32 = [], sec_real = []\<rparr>"

text \<open>A machine with the routine in memory, and a stack and a block for errors after it.\<close>

definition division_vm :: "u8 list \<Rightarrow> u32 \<Rightarrow> u32 \<Rightarrow> u32 \<Rightarrow> arm_vm" where
  "division_vm code a b rem = \<lparr>vm_regs = (\<lambda>r. if r = 0 then a else if r = 1 then b else if r = 2 then rem
      else if r = 3 then 4 else if r = 12 then 0x8000 + 264 else if r = 13 then 0x8000 + 264
      else if r = 15 then 0x8000 + 8 else 0),
    vm_negative_flag = False, vm_zero_flag = False, vm_carry_flag = False, vm_overflow_flag = False,
    vm_memory = code @ replicate 12 0, vm_code_size = 65, vm_start_address = 0x8000, vm_fpscr = 0,
    vm_quit = False, vm_vfp = False\<rparr>"

lemma division_vm_callable:
  obtains ud where "prv_init_encode_ud \<lparr>prog_sections = [idiv_section], prog_op_pool_len = 100,
      prog_constants = [], prog_reverse_fpa_consts = False\<rparr> [] = Inr ud"
    and "\<exists>ud'. encode_section (0, idiv_section) ud = Inr ud' \<and> length (ud_code ud') = 260
      \<and> (\<forall>st a b rem. callable st 0 (division_vm (ud_code ud') a b rem)
        \<and> load_word (below_sp (division_vm (ud_code ud') a b rem)) (division_vm (ud_code ud') a b rem) = Inr 0)"
proof -
  let ?p = "\<lparr>prog_sections = [idiv_section], prog_op_pool_len = 100, prog_constants = [],
    prog_reverse_fpa_consts = False\<rparr>"
  obtain ud where init: "prv_init_encode_ud ?p [] = Inr ud" and "between_sections 1 ud" and code: "ud_code ud = []"
    using init_between_sections [of "[]" ?p] by auto
  moreover from init have "ud_label_offsets ud = replicate 7 None" "ud_back_patches ud = vec_empty"
    by (auto simp: prv_init_encode_ud_def idiv_section_def arm_link_new_def rbind_eq_Inr
        split: sum.splits prod.splits)
  ultimately have "\<exists>ud'. encode_section (0, idiv_section) ud = Inr ud' \<and> length (ud_code ud') = 4 * (0 + 65)
    \<and> (\<forall>vm st rest. vm_memory vm = ud_code ud' @ rest \<longrightarrow> 0 + 65 \<le> vm_code_size vm
      \<longrightarrow> \<not> vm_quit vm \<longrightarrow> idiv_loaded st 0 vm)"
    by (intro idiv_encoded_loaded) (simp_all add: between_sections_def idiv_section_def)
  then obtain ud' where enc: "encode_section (0, idiv_section) ud = Inr ud'" and len: "length (ud_code ud') = 260"
    and loaded: "\<And>vm st rest. vm_memory vm = ud_code ud' @ rest \<Longrightarrow> 65 \<le> vm_code_size vm
      \<Longrightarrow> \<not> vm_quit vm \<Longrightarrow> idiv_loaded st 0 vm"
    by auto
  have zero: "read_word (ud_code ud' @ replicate 12 0) 260 = Inr 0"
    using read_word_append2 [of "ud_code ud'" "replicate 12 0" 0] len by (simp add: read_word_def bytes_word_def numeral_eq_Suc)
  have "callable st 0 (division_vm (ud_code ud') a b rem)
      \<and> load_word (below_sp (division_vm (ud_code ud') a b rem)) (division_vm (ud_code ud') a b rem) = Inr 0" for st a b rem
  proof -
    have "idiv_loaded st 0 (division_vm (ud_code ud') a b rem)"
      by (rule loaded) (simp_all add: division_vm_def)
    moreover have "below_sp (division_vm (ud_code ud') a b rem) = 260"
      by (simp add: below_sp_def division_vm_def)
    ultimately show ?thesis
      using zero len by (simp add: callable_def at_word_def load_word_def mem_size_def) (simp add: division_vm_def len)
  qed
  with init enc len show ?thesis
    by (intro that) auto
qed

section \<open>The generator\<close>

text \<open>
  C28: on a section whose pool has room for it, the generator of the division routine succeeds and appends
  exactly the seventy-two instructions and labels of the routine, in order; what the section held before
  is unchanged. This takes the copies it makes through pointers into the pool of operations together.
\<close>

theorem idiv_generated:
  assumes "well_linked s" and "length (as_pool s) + 128 \<le> as_pool_max s"
  shows "\<exists>s'. subtilis_arm2_idiv_add s = Inr ((), s') \<and> well_linked s'
    \<and> section_ops s' = section_ops s @ idiv_ops"
  using idiv_emits [OF assms] by (auto simp: outcome_def emitted_def split: sum.splits)

definition empty_section :: arm_s where
  "empty_section = example_section\<lparr>as_pool := [], as_first := None, as_last := None, as_len := 0\<rparr>"

theorem idiv_generated_witness:
  "\<exists>s'. subtilis_arm2_idiv_add empty_section = Inr ((), s') \<and> section_ops s' = idiv_ops"
proof -
  have "linked empty_section []"
    by (simp add: empty_section_def linked_def)
  then have "well_linked empty_section" and "section_ops empty_section = []"
    by (auto simp: well_linked_def section_ops_linked ops_at_def)
  with idiv_generated [of empty_section] show ?thesis
    by (auto simp: empty_section_def example_section_def)
qed

section \<open>The quotient\<close>

text \<open>
  C3: called with a divisor other than zero and with \<open>R2\<close> zero, the routine returns to its caller after
  at most 135 instructions with the quotient of the signed numbers in \<open>R0\<close>, rounded towards zero as that
  of C and wrapped to 32 bits; it changes no memory and no register but \<open>R0\<close>, \<open>R1\<close> and \<open>R4\<close> to \<open>R7\<close>. The
  hypothesis on \<open>sar32\<close> says that shifting an \<^verbatim>\<open>int32_t\<close> by 32 on the machine that runs the simulator keeps
  its sign.
\<close>

theorem idiv_quotient:
  assumes "callable st base vm" and "vm_regs vm 1 \<noteq> 0" and "vm_regs vm 2 = 0"
    and "\<forall>w. sint (sar32 w) < 0 \<longleftrightarrow> sint w < 0"
  shows "\<exists>n \<le> 135. \<exists>vm'. runs_to n sar32 st vm vm'
    \<and> vm_regs vm' 0 = word_of_int (c_div (sint (vm_regs vm 0)) (sint (vm_regs vm 1)))
    \<and> vm_regs vm' 15 = vm_regs vm 14 + 8 \<and> vm_memory vm' = vm_memory vm
    \<and> (\<forall>x. x \<notin> {0, 1, 4, 5, 6, 7, 15} \<longrightarrow> vm_regs vm' x = vm_regs vm x)"
proof -
  have "leads sar32 st 135 vm (returned vm (word_of_int (c_div (sint (vm_regs vm 0)) (sint (vm_regs vm 1)))))"
    using idiv_call [OF assms(1,2,4)] assms(3) by (simp only: word_of_quotient negative_bit Let_def refl if_True)
  then show ?thesis
    unfolding leads_def returned_def by blast
qed

theorem idiv_quotient_witness:
  "\<forall>st. \<exists>ud ud' n vm'. encode_section (0, idiv_section) ud = Inr ud'
    \<and> runs_to n id st (division_vm (ud_code ud') (- 7) 2 0) vm'
    \<and> n \<le> 135 \<and> vm_regs vm' 0 = - 3"
proof
  fix st
  obtain ud ud' where "encode_section (0, idiv_section) ud = Inr ud'"
    and "callable st 0 (division_vm (ud_code ud') (- 7) 2 0)"
    by (rule division_vm_callable) blast
  moreover from idiv_quotient [OF this(2), of id] obtain n vm' where "n \<le> 135"
    "runs_to n id st (division_vm (ud_code ud') (- 7) 2 0) vm'" "vm_regs vm' 0 = - 3"
    by (auto simp: division_vm_def c_div_def)
  ultimately show "\<exists>ud ud' n vm'. encode_section (0, idiv_section) ud = Inr ud'
    \<and> runs_to n id st (division_vm (ud_code ud') (- 7) 2 0) vm'
    \<and> n \<le> 135 \<and> vm_regs vm' 0 = - 3"
    by blast
qed

section \<open>The remainder\<close>

text \<open>
  C26: with \<open>R2\<close> not zero the routine returns the remainder, but with the sign of the quotient instead of
  that of the dividend: the remainder of C for a positive divisor, its negation for a negative one.
\<close>

lemma minus_c_div: "a - b * c_div a b = sgn a * (\<bar>a\<bar> mod \<bar>b\<bar>)"
proof -
  have "b * c_div a b = sgn a * (\<bar>b\<bar> * (\<bar>a\<bar> div \<bar>b\<bar>))"
    by (simp add: c_div_def sgn_if abs_if)
  then have "a - b * c_div a b = sgn a * \<bar>a\<bar> - sgn a * (\<bar>b\<bar> * (\<bar>a\<bar> div \<bar>b\<bar>))"
    by (simp add: sgn_mult_abs)
  also have "\<dots> = sgn a * (\<bar>a\<bar> mod \<bar>b\<bar>)"
    by (simp only: right_diff_distrib [symmetric] minus_mult_div_eq_mod)
  finally show ?thesis .
qed

theorem idiv_remainder:
  assumes "callable st base vm" and "vm_regs vm 1 \<noteq> 0" and "vm_regs vm 2 \<noteq> 0"
    and "\<forall>w. sint (sar32 w) < 0 \<longleftrightarrow> sint w < 0"
  shows "let a = sint (vm_regs vm 0); b = sint (vm_regs vm 1); m = a - b * c_div a b in
    \<exists>n \<le> 135. \<exists>vm'. runs_to n sar32 st vm vm'
      \<and> vm_regs vm' 0 = word_of_int (if 0 < b then m else - m) \<and> vm_regs vm' 15 = vm_regs vm 14 + 8"
proof -
  let ?a = "sint (vm_regs vm 0)" and ?b = "sint (vm_regs vm 1)"
  have b: "?b \<noteq> 0"
    using assms(2) by (simp add: signed_eq_0_iff)
  have "nat \<bar>?a\<bar> mod nat \<bar>?b\<bar> = nat (\<bar>?a\<bar> mod \<bar>?b\<bar>)"
    by (simp add: nat_mod_distrib)
  then have "(of_nat (nat \<bar>?a\<bar> mod nat \<bar>?b\<bar>) :: u32) = word_of_int (\<bar>?a\<bar> mod \<bar>?b\<bar>)"
    using b by simp
  then have "(if (?a < 0) \<noteq> (?b < 0) then - of_nat (nat \<bar>?a\<bar> mod nat \<bar>?b\<bar>) else of_nat (nat \<bar>?a\<bar> mod nat \<bar>?b\<bar>))
      = (word_of_int (if 0 < ?b then ?a - ?b * c_div ?a ?b else - (?a - ?b * c_div ?a ?b)) :: u32)"
    using b by (auto simp: minus_c_div sgn_if)
  with idiv_call [OF assms(1,2,4)] assms(3)
  have "leads sar32 st 135 vm (returned vm
      (word_of_int (if 0 < ?b then ?a - ?b * c_div ?a ?b else - (?a - ?b * c_div ?a ?b))))"
    by (simp only: Let_def if_False)
  then show ?thesis
    unfolding leads_def returned_def Let_def by blast
qed

theorem idiv_remainder_witness:
  "\<forall>st. \<exists>ud ud' n vm'. encode_section (0, idiv_section) ud = Inr ud'
    \<and> runs_to n id st (division_vm (ud_code ud') 7 (- 2) 1) vm' \<and> vm_regs vm' 0 = - 1"
proof
  fix st
  obtain ud ud' where "encode_section (0, idiv_section) ud = Inr ud'"
    and "callable st 0 (division_vm (ud_code ud') 7 (- 2) 1)"
    by (rule division_vm_callable) blast
  moreover from idiv_remainder [OF this(2), of id] obtain n vm'
    where "runs_to n id st (division_vm (ud_code ud') 7 (- 2) 1) vm'" "vm_regs vm' 0 = - 1"
    by (auto simp: division_vm_def c_div_def)
  ultimately show "\<exists>ud ud' n vm'. encode_section (0, idiv_section) ud = Inr ud'
    \<and> runs_to n id st (division_vm (ud_code ud') 7 (- 2) 1) vm' \<and> vm_regs vm' 0 = - 1"
    by blast
qed

section \<open>Division by zero\<close>

text \<open>
  C27: called with a divisor of zero, the routine writes the error number 18 and then the error flag
  \<open>- 1\<close> to the block that \<open>R12\<close> points to, at the offsets it found below the stack pointer and in \<open>R3\<close>,
  and returns to its caller after at most thirty instructions; no other memory is changed.
\<close>

theorem idiv_by_zero:
  assumes "callable st base vm" and "vm_regs vm 1 = 0" and "\<forall>w. sint (sar32 w) < 0 \<longleftrightarrow> sint w < 0"
    and "load_word (below_sp vm) vm = Inr err_offset"
    and "writable base (in_block vm err_offset) vm" and "writable base (in_block vm (vm_regs vm 3)) vm"
  shows "\<exists>m1 m2 n vm'. n \<le> 30 \<and> runs_to n sar32 st vm vm'
    \<and> write_word (vm_memory vm) (unat (in_block vm err_offset)) SUBTILIS_ERROR_CODE_DIV_BY_ZERO = Inr m1
    \<and> write_word m1 (unat (in_block vm (vm_regs vm 3))) (- 1) = Inr m2
    \<and> vm_memory vm' = m2 \<and> vm_regs vm' 15 = vm_regs vm 14 + 8"
  by (rule idiv_zero_call [OF assms])
    (auto simp: leads_def returned_def SUBTILIS_ERROR_CODE_DIV_BY_ZERO_def)

theorem idiv_by_zero_witness:
  "\<forall>st. \<exists>ud ud' n vm'. encode_section (0, idiv_section) ud = Inr ud'
    \<and> runs_to n id st (division_vm (ud_code ud') 7 0 0) vm' \<and> n \<le> 30
    \<and> vm_regs vm' 15 = 8"
proof
  fix st
  obtain ud ud' where "encode_section (0, idiv_section) ud = Inr ud'" and len: "length (ud_code ud') = 260"
    and "callable st 0 (division_vm (ud_code ud') 7 0 0)"
    and "load_word (below_sp (division_vm (ud_code ud') 7 0 0)) (division_vm (ud_code ud') 7 0 0) = Inr 0"
    by (rule division_vm_callable) blast
  moreover from idiv_by_zero [OF this(3) _ _ this(4), of id] len obtain n vm'
    where "runs_to n id st (division_vm (ud_code ud') 7 0 0) vm'" "n \<le> 30" "vm_regs vm' 15 = 8"
    by (auto simp: division_vm_def writable_def in_block_def mem_size_def)
  ultimately show "\<exists>ud ud' n vm'. encode_section (0, idiv_section) ud = Inr ud'
    \<and> runs_to n id st (division_vm (ud_code ud') 7 0 0) vm' \<and> n \<le> 30
    \<and> vm_regs vm' 15 = 8"
    by blast
qed

end
