(* ===== verification/Vm_Heap.thy ===== *)
theory Vm_Heap
  imports Subtilis_Memory "HOL-Library.Multiset"
begin

text \<open>
  The heap of the IR interpreter, common/vm_heap.c: two linked lists of blocks, one of free blocks
  and one of blocks in use. A list of the model holds the blocks in the order of the \<^verbatim>\<open>next\<close>
  pointers. The theory states the allocator as the locale \<open>allocator\<close>, whose clients see only
  that every byte of the region is owned exactly once, and interprets it on the code's functions.
\<close>

section \<open>Blocks and the two lists\<close>

record heap_block =
  blk_start :: u32
  blk_size :: u32

record vm_heap =
  free_list :: "heap_block list"
  used_list :: "heap_block list"

definition subtilis_vm_heap_init :: vm_heap where
  "subtilis_vm_heap_init = \<lparr>free_list = [], used_list = []\<rparr>"

definition subtilis_vm_heap_new_block :: "u32 \<Rightarrow> u32 \<Rightarrow> allocs \<Rightarrow> (heap_block \<times> allocs) c_result" where
  "subtilis_vm_heap_new_block start sz al =
     rbind (alloc al) (\<lambda>al. Inr (\<lparr>blk_start = start, blk_size = sz\<rparr>, al))"

text \<open>
  The two loops of the code that walk a list while remembering the block before: what they find is
  a split of the list at the first block that satisfies the condition.
\<close>

fun find_split :: "('a \<Rightarrow> bool) \<Rightarrow> 'a list \<Rightarrow> ('a list \<times> 'a \<times> 'a list) option" where
  "find_split P [] = None"
| "find_split P (x # xs) = (if P x then Some ([], x, xs)
     else map_option (\<lambda>(before, y, behind). (x # before, y, behind)) (find_split P xs))"

definition subtilis_vm_heap_find_block :: "vm_heap \<Rightarrow> u32 \<Rightarrow> heap_block option" where
  "subtilis_vm_heap_find_block heap start = find (\<lambda>block. blk_start block = start) (used_list heap)"

text \<open>
  \<open>None\<close> is the null pointer the code returns without setting an error when no free block is large
  enough.
\<close>

definition subtilis_vm_heap_claim_block ::
    "vm_heap \<Rightarrow> u32 \<Rightarrow> allocs \<Rightarrow> (heap_block option \<times> vm_heap \<times> allocs) c_result" where
  "subtilis_vm_heap_claim_block heap sz al =
     (case (case find_split (\<lambda>b. blk_size b = sz) (free_list heap) of
              Some found \<Rightarrow> Some found
            | None \<Rightarrow> find_split (\<lambda>b. \<not> blk_size b < sz) (free_list heap)) of
        None \<Rightarrow> Inr (None, heap, al)
      | Some (before, block, behind) \<Rightarrow>
          if blk_size block = sz then
            Inr (Some block, \<lparr>free_list = before @ behind, used_list = block # used_list heap\<rparr>, al)
          else
            rbind (subtilis_vm_heap_new_block (blk_start block) sz al) (\<lambda>(new_block, al).
              Inr (Some new_block,
                \<lparr>free_list = before @ \<lparr>blk_start = blk_start block + sz, blk_size = blk_size block - sz\<rparr> # behind,
                 used_list = new_block # used_list heap\<rparr>, al)))"

definition subtilis_vm_heap_free_block :: "vm_heap \<Rightarrow> u32 \<Rightarrow> vm_heap c_result" where
  "subtilis_vm_heap_free_block heap ptr =
     (case find_split (\<lambda>b. blk_start b = ptr) (used_list heap) of
        None \<Rightarrow> Inl assertion_failed
      | Some (before, block, behind) \<Rightarrow>
          Inr \<lparr>free_list = block # free_list heap, used_list = before @ behind\<rparr>)"

text \<open>The size parameter is an \<^verbatim>\<open>int32_t\<close> in the code and is converted back; \<open>old_size\<close> is written on success only.\<close>

definition subtilis_vm_heap_realloc ::
    "vm_heap \<Rightarrow> u32 \<Rightarrow> u32 \<Rightarrow> allocs \<Rightarrow> ((heap_block \<times> u32) option \<times> vm_heap \<times> allocs) c_result" where
  "subtilis_vm_heap_realloc heap ptr sz al =
     (case subtilis_vm_heap_find_block heap ptr of
        None \<Rightarrow> Inl assertion_failed
      | Some block \<Rightarrow>
          rbind (subtilis_vm_heap_claim_block heap sz al) (\<lambda>(new_block, heap, al).
            Inr (map_option (\<lambda>new_block. (new_block, blk_size block)) new_block, heap, al)))"

text \<open>The sum is a \<^verbatim>\<open>size_t\<close>; it wraps only for more than \<open>2 ^ 32\<close> blocks.\<close>

definition subtilis_vm_heap_free_space :: "vm_heap \<Rightarrow> u64" where
  "subtilis_vm_heap_free_space heap = (\<Sum>b \<leftarrow> free_list heap. ucast (blk_size b))"

section \<open>Ownership of the bytes\<close>

text \<open>
  The bytes of a block, and the multiset of all bytes of a list of blocks: a byte owned by two
  blocks is counted twice.
\<close>

definition block_bytes :: "heap_block \<Rightarrow> nat multiset" where
  "block_bytes b = mset_set {unat (blk_start b)..<unat (blk_start b) + unat (blk_size b)}"

definition list_bytes :: "heap_block list \<Rightarrow> nat multiset" where
  "list_bytes bs = (\<Sum>b \<leftarrow> bs. block_bytes b)"

definition heap_bytes :: "vm_heap \<Rightarrow> nat multiset" where
  "heap_bytes heap = list_bytes (free_list heap) + list_bytes (used_list heap)"

text \<open>The heap owns each byte of the region \<open>lo..hi\<close> exactly once, and no block in use is empty.\<close>

definition heap_owns :: "nat \<Rightarrow> nat \<Rightarrow> vm_heap \<Rightarrow> bool" where
  "heap_owns lo hi heap \<longleftrightarrow> heap_bytes heap = mset_set {lo..<hi} \<and> hi \<le> 2 ^ 32
     \<and> (\<forall>b\<in>set (used_list heap). 0 < blk_size b)"

lemma list_bytes_simps [simp]:
  "list_bytes [] = {#}"
  "list_bytes (b # bs) = block_bytes b + list_bytes bs"
  "list_bytes (bs @ cs) = list_bytes bs + list_bytes cs"
  by (simp_all add: list_bytes_def)

lemma set_block_bytes:
  "set_mset (block_bytes b) = {unat (blk_start b)..<unat (blk_start b) + unat (blk_size b)}"
  by (simp add: block_bytes_def)

lemma size_block_bytes [simp]: "size (block_bytes b) = unat (blk_size b)"
  by (simp add: block_bytes_def)

lemma find_split_Some:
  "find_split P xs = Some (before, y, behind)
    \<longleftrightarrow> xs = before @ y # behind \<and> P y \<and> (\<forall>x\<in>set before. \<not> P x)"
  by (induction xs arbitrary: before) (auto simp: Cons_eq_append_conv)

lemma find_split_None: "find_split P xs = None \<longleftrightarrow> (\<forall>x\<in>set xs. \<not> P x)"
  by (induction xs) auto

lemma find_as_split: "find P xs = map_option (\<lambda>(before, y, behind). y) (find_split P xs)"
  by (induction xs) (auto simp: option.map_comp comp_def case_prod_unfold)

lemma block_bytes_split:
  assumes "n < blk_size b" and "unat (blk_start b) + unat (blk_size b) \<le> 2 ^ 32"
  shows "block_bytes b = block_bytes \<lparr>blk_start = blk_start b, blk_size = n\<rparr>
    + block_bytes \<lparr>blk_start = blk_start b + n, blk_size = blk_size b - n\<rparr>"
proof -
  let ?s = "unat (blk_start b)" and ?n = "unat n" and ?k = "unat (blk_size b)"
  have n: "?n < ?k"
    using assms(1) by (simp add: word_less_nat_alt)
  have start: "unat (blk_start b + n) = ?s + ?n"
    using assms(2) n by (intro unat_add_lem [THEN iffD1]) simp
  have size: "unat (blk_size b - n) = ?k - ?n"
    using assms(1) by (simp add: unat_sub)
  have "{?s..<?s + ?k} = {?s..<?s + ?n} \<union> {?s + ?n..<?s + ?n + (?k - ?n)}"
    using n by auto
  then show ?thesis
    using mset_set_Union [of "{?s..<?s + ?n}" "{?s + ?n..<?s + ?n + (?k - ?n)}"]
    by (simp add: block_bytes_def start size)
qed

text \<open>A nonempty block of a list all of whose bytes are in a region ends inside the region.\<close>

lemma block_in_region:
  assumes "b \<in> set bs" and "list_bytes bs \<subseteq># mset_set {lo..<hi}" and "0 < blk_size b"
  shows "lo \<le> unat (blk_start b)" and "unat (blk_start b) + unat (blk_size b) \<le> hi"
proof -
  have "block_bytes b \<subseteq># list_bytes bs"
    using assms(1) by (induction bs) (auto intro: subset_mset.add_increasing2 subset_mset.add_increasing)
  then have "block_bytes b \<subseteq># mset_set {lo..<hi}"
    using assms(2) by (rule subset_mset.order_trans)
  then have "{unat (blk_start b)..<unat (blk_start b) + unat (blk_size b)} \<subseteq> {lo..<hi}"
    using set_mset_mono set_block_bytes by (metis finite_atLeastLessThan finite_set_mset_mset_set)
  moreover have "0 < unat (blk_size b)"
    using assms(3) by (simp add: unat_gt_0 word_neq_0_conv)
  ultimately show "lo \<le> unat (blk_start b)" "unat (blk_start b) + unat (blk_size b) \<le> hi"
    by auto
qed

lemma owned_block:
  assumes "heap_owns lo hi heap" and "b \<in> set (free_list heap) \<union> set (used_list heap)" and "0 < blk_size b"
  shows "lo \<le> unat (blk_start b)" and "unat (blk_start b) + unat (blk_size b) \<le> hi"
    and "unat (blk_start b) + unat (blk_size b) \<le> 2 ^ 32"
proof -
  have "list_bytes (free_list heap @ used_list heap) \<subseteq># mset_set {lo..<hi}"
    using assms(1) by (simp add: heap_owns_def heap_bytes_def)
  from block_in_region [OF _ this assms(3)] assms(1,2)
  show "lo \<le> unat (blk_start b)" "unat (blk_start b) + unat (blk_size b) \<le> hi"
    "unat (blk_start b) + unat (blk_size b) \<le> 2 ^ 32"
    by (auto simp: heap_owns_def intro: order_trans)
qed

section \<open>The operations\<close>

lemma claim_cases:
  assumes "subtilis_vm_heap_claim_block heap n al = Inr (r, heap', al')"
  obtains (none) "r = None" "heap' = heap" "al' = al" "\<forall>b\<in>set (free_list heap). blk_size b < n"
  | (exact) before b behind where "r = Some b" "blk_size b = n" "free_list heap = before @ b # behind"
      "heap' = \<lparr>free_list = before @ behind, used_list = b # used_list heap\<rparr>" "al' = al"
      "\<forall>b\<in>set before. blk_size b \<noteq> n"
  | (split) before b behind where "r = Some \<lparr>blk_start = blk_start b, blk_size = n\<rparr>" "n < blk_size b"
      "free_list heap = before @ b # behind"
      "heap' = \<lparr>free_list = before @ \<lparr>blk_start = blk_start b + n, blk_size = blk_size b - n\<rparr> # behind,
        used_list = \<lparr>blk_start = blk_start b, blk_size = n\<rparr> # used_list heap\<rparr>"
      "alloc al = Inr al'" "\<forall>b\<in>set before. blk_size b < n"
      "\<forall>b\<in>set (free_list heap). blk_size b \<noteq> n"
proof (cases "find_split (\<lambda>b. blk_size b = n) (free_list heap)")
  case None
  note exact = this
  show ?thesis
  proof (cases "find_split (\<lambda>b. \<not> blk_size b < n) (free_list heap)")
    case None
    with exact assms have "r = None" "heap' = heap" "al' = al"
      by (simp_all add: subtilis_vm_heap_claim_block_def)
    moreover have "\<forall>b\<in>set (free_list heap). blk_size b < n"
      using None by (simp add: find_split_None)
    ultimately show ?thesis
      by (rule none)
  next
    case (Some f)
    obtain before b behind where f: "f = (before, b, behind)"
      by (cases f)
    have b: "free_list heap = before @ b # behind" "\<not> blk_size b < n" "\<forall>b\<in>set before. blk_size b < n"
      using Some by (auto simp: f find_split_Some)
    moreover have ne: "\<forall>b\<in>set (free_list heap). blk_size b \<noteq> n"
      using exact by (simp add: find_split_None)
    ultimately have "n < blk_size b"
      by auto
    with exact Some assms b ne show ?thesis
      by (intro split [of b before behind])
        (auto simp: f subtilis_vm_heap_claim_block_def subtilis_vm_heap_new_block_def rbind_eq_Inr)
  qed
next
  case (Some f)
  obtain before b behind where f: "f = (before, b, behind)"
    by (cases f)
  have b: "free_list heap = before @ b # behind" "blk_size b = n" "\<forall>b\<in>set before. blk_size b \<noteq> n"
    using Some by (auto simp: f find_split_Some)
  with Some assms show ?thesis
    by (intro exact [of b before behind]) (simp_all add: f subtilis_vm_heap_claim_block_def)
qed

lemma claim_owns:
  assumes "subtilis_vm_heap_claim_block heap n al = Inr (r, heap', al')" and "heap_owns lo hi heap" and "0 < n"
  shows "heap_owns lo hi heap'"
  using assms(1)
proof (cases rule: claim_cases)
  case (split before b behind)
  have "0 < blk_size b"
    using split(2) by (rule le_less_trans [OF word_zero_le])
  with split(3) owned_block(3) [OF assms(2), of b] have "unat (blk_start b) + unat (blk_size b) \<le> 2 ^ 32"
    by simp
  from block_bytes_split [OF split(2) this] split(3,4) assms(2,3) show ?thesis
    by (simp add: heap_owns_def heap_bytes_def ac_simps)
qed (use assms(2,3) in \<open>auto simp: heap_owns_def heap_bytes_def ac_simps\<close>)

lemma claim_result:
  assumes "subtilis_vm_heap_claim_block heap n al = Inr (Some b, heap', al')"
  shows "blk_size b = n" and "used_list heap' = b # used_list heap"
  using assms by (cases rule: claim_cases; simp)+

lemma claim_granted:
  assumes "set al \<subseteq> {True}" and "\<exists>b\<in>set (free_list heap). n \<le> blk_size b"
  obtains b heap' al' where "subtilis_vm_heap_claim_block heap n al = Inr (Some b, heap', al')"
proof (cases "subtilis_vm_heap_claim_block heap n al")
  case (Inl e)
  obtain al' where "alloc al = Inr al'"
    using alloc_all_granted [OF assms(1)] by blast
  with Inl show ?thesis
    by (auto simp: subtilis_vm_heap_claim_block_def subtilis_vm_heap_new_block_def
        split: option.splits prod.splits if_splits)
next
  case (Inr p)
  obtain r heap' al' where p: "p = (r, heap', al')"
    by (cases p)
  from Inr [unfolded p] show ?thesis
  proof (cases rule: claim_cases)
    case none
    with assms(2) show ?thesis
      by fastforce
  qed (use Inr p that in blast)+
qed

lemma free_cases:
  assumes "subtilis_vm_heap_free_block heap ptr = Inr heap'"
  obtains before b behind where "used_list heap = before @ b # behind" and "blk_start b = ptr"
    and "\<forall>b\<in>set before. blk_start b \<noteq> ptr"
    and "heap' = \<lparr>free_list = b # free_list heap, used_list = before @ behind\<rparr>"
  using assms by (auto simp: subtilis_vm_heap_free_block_def find_split_Some split: option.splits)

lemma free_owns:
  assumes "subtilis_vm_heap_free_block heap ptr = Inr heap'" and "heap_owns lo hi heap"
  shows "heap_owns lo hi heap'"
  using assms by (elim free_cases) (auto simp: heap_owns_def heap_bytes_def ac_simps)

lemma free_Inl:
  "subtilis_vm_heap_free_block heap ptr = Inl e
    \<longleftrightarrow> e = assertion_failed \<and> (\<forall>b\<in>set (used_list heap). blk_start b \<noteq> ptr)"
  by (auto simp: subtilis_vm_heap_free_block_def find_split_None find_split_Some split: option.splits)

text \<open>Blocks in use are disjoint, so a start address names at most one of them.\<close>

lemma owns_distinct:
  assumes "heap_owns lo hi heap" and "used_list heap = before @ b # behind"
    and "b' \<in> set (before @ behind) \<union> set (free_list heap)"
  shows "set_mset (block_bytes b) \<inter> set_mset (block_bytes b') = {}"
proof -
  have "b' \<in> set (before @ behind @ free_list heap)"
    using assms(3) by auto
  then have sub: "block_bytes b' \<subseteq># list_bytes (before @ behind @ free_list heap)"
    by (induction "before @ behind @ free_list heap" arbitrary: before behind)
      (auto dest!: split_list)
  have "block_bytes b + block_bytes b' \<subseteq># heap_bytes heap"
    using subset_mset.add_left_mono [OF sub, of "block_bytes b"] assms(2)
    by (simp add: heap_bytes_def ac_simps)
  then have le: "block_bytes b + block_bytes b' \<subseteq># mset_set {lo..<hi}"
    using assms(1) by (simp add: heap_owns_def)
  have "count (block_bytes b) x + count (block_bytes b') x \<le> 1" for x
    using mset_subset_eq_count [OF le, of x] by (simp add: count_mset_set' split: if_splits)
  then have "\<not> (x \<in># block_bytes b \<and> x \<in># block_bytes b')" for x
    using count_greater_eq_one_iff [of "block_bytes b" x] count_greater_eq_one_iff [of "block_bytes b'" x]
    by (metis (no_types) Suc_eq_plus1 add_mono not_less_eq_eq order_trans)
  then show ?thesis
    by (simp add: disjoint_iff)
qed

section \<open>The interface of an allocator\<close>

text \<open>
  What a client relies on: \<open>claim\<close> hands out a block that nobody owns, \<open>release\<close> takes back a block
  in use, and both keep the account of the bytes. The blocks in use are a list, \<open>bytes\<close> are the
  bytes a block occupies.
\<close>

fun claim_all :: "('h \<Rightarrow> 'n \<Rightarrow> 'm \<Rightarrow> 'e + 'b option \<times> 'h \<times> 'm) \<Rightarrow> 'n list \<Rightarrow> 'h \<Rightarrow> 'm \<Rightarrow> 'e + 'h \<times> 'm" where
  "claim_all claim [] h m = Inr (h, m)"
| "claim_all claim (n # ns) h m = rbind (claim h n m) (\<lambda>(r, h, m). claim_all claim ns h m)"

locale allocator =
  fixes claim :: "'h \<Rightarrow> 'n \<Rightarrow> 'm \<Rightarrow> 'e + 'b option \<times> 'h \<times> 'm" and release :: "'h \<Rightarrow> 'p \<Rightarrow> 'e + 'h"
    and used :: "'h \<Rightarrow> 'b list" and start :: "'b \<Rightarrow> 'p" and bytes :: "'b \<Rightarrow> nat multiset"
    and spare :: "'h \<Rightarrow> nat multiset" and ok :: "'h \<Rightarrow> bool" and askable :: "'n \<Rightarrow> bool"
  assumes claim_used: "claim h n m = Inr (Some b, h', m') \<Longrightarrow> used h' = b # used h"
    and claim_none: "claim h n m = Inr (None, h', m') \<Longrightarrow> h' = h"
    and claim_ok: "claim h n m = Inr (r, h', m') \<Longrightarrow> ok h \<Longrightarrow> askable n \<Longrightarrow> ok h'"
    and claim_bytes: "claim h n m = Inr (Some b, h', m') \<Longrightarrow> ok h \<Longrightarrow> askable n \<Longrightarrow> spare h = bytes b + spare h'"
    and release_ok: "release h p = Inr h' \<Longrightarrow> ok h \<Longrightarrow> ok h'"
    and release_used: "release h p = Inr h' \<Longrightarrow> ok h \<Longrightarrow> \<exists>b. start b = p \<and> mset (used h) = add_mset b (mset (used h'))
      \<and> spare h' = bytes b + spare h"
    and unique: "ok h \<Longrightarrow> mset (used h) = add_mset b M \<Longrightarrow> mset (used h) = add_mset b' M' \<Longrightarrow> start b = start b' \<Longrightarrow> b = b'"
    and release_Inr: "b \<in> set (used h) \<Longrightarrow> \<exists>h'. release h (start b) = Inr h'"
begin

text \<open>A block that is claimed and released at once leaves the account as it was.\<close>

lemma claim_release:
  assumes "claim h n m = Inr (Some b, h1, m')" and "ok h" and "askable n"
  obtains h' where "release h1 (start b) = Inr h'" and "ok h'" and "mset (used h') = mset (used h)"
    and "spare h' = spare h"
proof -
  have used: "used h1 = b # used h"
    using assms(1) by (rule claim_used)
  obtain h' where h': "release h1 (start b) = Inr h'"
    using release_Inr [of b h1] used by auto
  have ok1: "ok h1"
    using claim_ok [OF assms] .
  from release_used [OF h' ok1] obtain b' where b': "start b' = start b"
      "mset (used h1) = add_mset b' (mset (used h'))" "spare h' = bytes b' + spare h1"
    by blast
  have "b' = b"
    using unique [OF ok1 b'(2), of b "mset (used h)"] used b'(1) by simp
  with b' used claim_bytes [OF assms] release_ok [OF h' ok1] h' show ?thesis
    by (intro that [of h']) simp_all
qed

text \<open>Any series of claims: what was spare is spare still or in the claimed blocks.\<close>

lemma claim_all_bytes:
  assumes "claim_all claim ns h m = Inr (h', m')" and "ok h" and "\<forall>n\<in>set ns. askable n"
  shows "ok h' \<and> (\<exists>bs. used h' = bs @ used h \<and> spare h = (\<Sum>b \<leftarrow> bs. bytes b) + spare h')"
  using assms
proof (induction ns arbitrary: h m)
  case (Cons n ns)
  then obtain r h1 m1 where claim: "claim h n m = Inr (r, h1, m1)" and "claim_all claim ns h1 m1 = Inr (h', m')"
    by (auto simp: rbind_eq_Inr)
  moreover have ok1: "ok h1"
    using claim_ok [OF claim] Cons.prems by simp
  ultimately obtain bs where bs: "ok h'" "used h' = bs @ used h1" "spare h1 = (\<Sum>b \<leftarrow> bs. bytes b) + spare h'"
    using Cons.IH [of h1 m1] Cons.prems(3) by auto
  show ?case
  proof (cases r)
    case None
    then have "h1 = h"
      using claim claim_none by simp
    with bs show ?thesis
      by blast
  next
    case (Some b)
    with claim bs claim_used [of h n m b h1 m1] claim_bytes [of h n m b h1 m1] Cons.prems show ?thesis
      by (intro conjI exI [of _ "bs @ [b]"]) (auto simp: ac_simps)
  qed
qed simp

end

definition spare_bytes :: "vm_heap \<Rightarrow> nat multiset" where
  "spare_bytes heap = list_bytes (free_list heap)"

lemma claim_spare:
  assumes "subtilis_vm_heap_claim_block heap n al = Inr (Some b, heap', al')"
    and "heap_owns lo hi heap" and "0 < n"
  shows "spare_bytes heap = block_bytes b + spare_bytes heap'"
proof -
  have "heap_bytes heap = heap_bytes heap'"
    using assms(2) claim_owns [OF assms] by (simp add: heap_owns_def)
  with claim_result(2) [OF assms(1)] show ?thesis
    by (simp add: heap_bytes_def spare_bytes_def ac_simps)
qed

text \<open>Nonempty disjoint blocks have different start addresses.\<close>

lemma owns_start_unique:
  assumes "heap_owns lo hi heap" and "b \<in> set (used_list heap)" and "b' \<in> set (used_list heap)"
    and "blk_start b = blk_start b'"
  shows "b = b'"
proof (rule ccontr)
  assume "b \<noteq> b'"
  obtain before behind where bs: "used_list heap = before @ b # behind"
    using assms(2) by (meson split_list)
  with \<open>b \<noteq> b'\<close> assms(3) have "b' \<in> set (before @ behind) \<union> set (free_list heap)"
    by auto
  from owns_distinct [OF assms(1) bs this] have "unat (blk_start b) \<notin># block_bytes b \<or> unat (blk_start b') \<notin># block_bytes b'"
    using assms(4) by auto
  moreover have "0 < blk_size b" "0 < blk_size b'"
    using assms(1-3) by (simp_all add: heap_owns_def)
  ultimately show False
    by (simp add: block_bytes_def unat_gt_0 word_neq_0_conv)
qed

interpretation vm_heaps: allocator subtilis_vm_heap_claim_block subtilis_vm_heap_free_block used_list
  blk_start block_bytes spare_bytes "heap_owns lo hi" "\<lambda>n. 0 < n"
proof (unfold_locales, goal_cases)
  case (1 h n m b h' m')
  then show ?case
    by (rule claim_result)
next
  case (2 h n m h' m')
  then show ?case
    by (cases rule: claim_cases) simp_all
next
  case (3 h n m r h' m')
  then show ?case
    by (rule claim_owns)
next
  case (4 h n m b h' m')
  then show ?case
    by (rule claim_spare)
next
  case (5 h p h')
  then show ?case
    by (rule free_owns)
next
  case (6 h p h')
  from 6(1) show ?case
    by (rule free_cases) (auto simp: spare_bytes_def)
next
  case (7 h b M b' M')
  have "b \<in># mset (used_list h)" "b' \<in># mset (used_list h)"
    by (subst 7(2), simp) (subst 7(3), simp)
  with owns_start_unique [OF 7(1)] 7(4) show ?case
    by simp
next
  case (8 b h)
  then show ?case
    by (cases "subtilis_vm_heap_free_block h (blk_start b)") (auto simp: free_Inl)
qed

section \<open>Runs of the heap\<close>

text \<open>
  The heaps a program can bring about: \<^verbatim>\<open>subitlis_vm_new\<close> puts one free block into an empty heap, and
  the operations follow in any order, with any outcome of the allocations.
\<close>

inductive heap_reachable :: "u32 \<Rightarrow> u32 \<Rightarrow> vm_heap \<Rightarrow> bool" for start sz where
  new: "subtilis_vm_heap_new_block start sz al = Inr (block, al')
    \<Longrightarrow> heap_reachable start sz (subtilis_vm_heap_init\<lparr>free_list := [block]\<rparr>)"
| claim: "heap_reachable start sz heap \<Longrightarrow> 0 < n
    \<Longrightarrow> subtilis_vm_heap_claim_block heap n al = Inr (r, heap', al') \<Longrightarrow> heap_reachable start sz heap'"
| free: "heap_reachable start sz heap \<Longrightarrow> subtilis_vm_heap_free_block heap ptr = Inr heap'
    \<Longrightarrow> heap_reachable start sz heap'"
| realloc: "heap_reachable start sz heap \<Longrightarrow> 0 < n
    \<Longrightarrow> subtilis_vm_heap_realloc heap ptr n al = Inr (rr, heap', al') \<Longrightarrow> heap_reachable start sz heap'"

lemma reachable_owns:
  assumes "heap_reachable start sz heap" and "unat start + unat sz \<le> 2 ^ 32"
  shows "heap_owns (unat start) (unat start + unat sz) heap"
  using assms
proof (induction rule: heap_reachable.induct)
  case (new al block al')
  then show ?case
    by (auto simp: heap_owns_def heap_bytes_def subtilis_vm_heap_init_def subtilis_vm_heap_new_block_def
        block_bytes_def rbind_eq_Inr)
next
  case (claim heap n al r heap' al')
  then show ?case
    by (blast intro: claim_owns)
next
  case (free heap ptr heap')
  then show ?case
    by (blast intro: free_owns)
next
  case (realloc heap n ptr al rr heap' al')
  then obtain r al'' where "subtilis_vm_heap_claim_block heap n al = Inr (r, heap', al'')"
    by (auto simp: subtilis_vm_heap_realloc_def rbind_eq_Inr split: option.splits)
  with realloc show ?case
    by (blast intro: claim_owns)
qed

lemma size_list_bytes: "size (list_bytes bs) = (\<Sum>b \<leftarrow> bs. unat (blk_size b))"
  by (induction bs) simp_all

lemma unat_sum_list:
  "(\<Sum>b \<leftarrow> bs. unat (blk_size b)) < 2 ^ 64
    \<Longrightarrow> unat (\<Sum>b \<leftarrow> bs. ucast (blk_size b) :: u64) = (\<Sum>b \<leftarrow> bs. unat (blk_size b))"
proof (induction bs)
  case (Cons b bs)
  have "unat (ucast (blk_size b) :: u64) = unat (blk_size b)"
    using unsigned_less [of "blk_size b", where ?'a = nat] by (simp add: unsigned_ucast_eq take_bit_nat_eq_self)
  with Cons show ?case
    by (simp add: unat_word_ariths)
qed simp

lemma free_space_used:
  assumes "heap_owns lo hi heap"
  shows "unat (subtilis_vm_heap_free_space heap) + (\<Sum>b \<leftarrow> used_list heap. unat (blk_size b)) = hi - lo"
proof -
  have "size (heap_bytes heap) = hi - lo"
    using assms by (simp add: heap_owns_def)
  then have sum: "(\<Sum>b \<leftarrow> free_list heap. unat (blk_size b)) + (\<Sum>b \<leftarrow> used_list heap. unat (blk_size b)) = hi - lo"
    by (simp add: heap_bytes_def size_list_bytes)
  moreover have "hi - lo < 2 ^ 64"
    using assms by (auto simp: heap_owns_def intro: le_less_trans [of _ hi])
  ultimately show ?thesis
    by (simp add: subtilis_vm_heap_free_space_def unat_sum_list)
qed

section \<open>Properties\<close>

lemma used_apart:
  assumes "heap_owns lo hi heap" and "i < j" and "j < length (used_list heap)"
  defines "b \<equiv> used_list heap ! i" and "c \<equiv> used_list heap ! j"
  shows "unat (blk_start b) + unat (blk_size b) \<le> unat (blk_start c)
    \<or> unat (blk_start c) + unat (blk_size c) \<le> unat (blk_start b)"
proof -
  have bs: "used_list heap = take i (used_list heap) @ b # drop (Suc i) (used_list heap)"
    using assms(2,3) by (simp add: b_def id_take_nth_drop)
  have "c = drop (Suc i) (used_list heap) ! (j - Suc i)"
    using assms(2,3) by (simp add: c_def)
  moreover have "j - Suc i < length (drop (Suc i) (used_list heap))"
    using assms(2,3) by simp
  ultimately have "c \<in> set (drop (Suc i) (used_list heap))"
    by (metis nth_mem)
  with owns_distinct [OF assms(1) bs, of c]
  have "{unat (blk_start b)..<unat (blk_start b) + unat (blk_size b)}
      \<inter> {unat (blk_start c)..<unat (blk_start c) + unat (blk_size c)} = {}"
    by (simp add: set_block_bytes)
  moreover have "0 < blk_size b" "0 < blk_size c"
    using assms by (auto simp: heap_owns_def)
  then have "0 < unat (blk_size b)" "0 < unat (blk_size c)"
    by (simp_all add: unat_gt_0 word_neq_0_conv)
  ultimately show ?thesis
    by (auto simp: ivl_disj_int_two linorder_not_le)
qed

text \<open>
  C29: in every heap that a run of claims of nonempty blocks, releases and reallocations can reach, any two
  blocks in use do not overlap, every block in use lies in the region the heap was created with, and
  the free space reported is the size of the region less the blocks in use.
\<close>

theorem heap_blocks_disjoint:
  assumes "heap_reachable start sz heap" and "unat start + unat sz \<le> 2 ^ 32"
  shows "(\<forall>j < length (used_list heap). \<forall>i < j.
        unat (blk_start (used_list heap ! i)) + unat (blk_size (used_list heap ! i)) \<le> unat (blk_start (used_list heap ! j))
      \<or> unat (blk_start (used_list heap ! j)) + unat (blk_size (used_list heap ! j)) \<le> unat (blk_start (used_list heap ! i)))
    \<and> (\<forall>b \<in> set (used_list heap). unat start \<le> unat (blk_start b)
        \<and> unat (blk_start b) + unat (blk_size b) \<le> unat start + unat sz)
    \<and> unat (subtilis_vm_heap_free_space heap) + (\<Sum>b \<leftarrow> used_list heap. unat (blk_size b)) = unat sz"
proof -
  note owns = reachable_owns [OF assms]
  have "0 < blk_size b" if "b \<in> set (used_list heap)" for b
    using owns that by (simp add: heap_owns_def)
  with owned_block(1,2) [OF owns] used_apart [OF owns] free_space_used [OF owns] show ?thesis
    by simp
qed

lemma heap_example:
  "heap_reachable 0x100 0x8000 \<lparr>free_list = [\<lparr>blk_start = 0x118, blk_size = 0x7fe8\<rparr>],
    used_list = [\<lparr>blk_start = 0x10c, blk_size = 12\<rparr>, \<lparr>blk_start = 0x100, blk_size = 12\<rparr>]\<rparr>"
proof -
  have "heap_reachable 0x100 0x8000 (subtilis_vm_heap_init\<lparr>free_list := [\<lparr>blk_start = 0x100, blk_size = 0x8000\<rparr>]\<rparr>)"
    by (rule heap_reachable.new [of _ _ "[]"]) (simp add: subtilis_vm_heap_new_block_def)
  then have "heap_reachable 0x100 0x8000 \<lparr>free_list = [\<lparr>blk_start = 0x10c, blk_size = 0x7ff4\<rparr>],
      used_list = [\<lparr>blk_start = 0x100, blk_size = 12\<rparr>]\<rparr>"
    by (rule heap_reachable.claim [of _ _ _ 12 "[]"])
      (simp_all add: subtilis_vm_heap_init_def subtilis_vm_heap_claim_block_def subtilis_vm_heap_new_block_def)
  then show ?thesis
    by (rule heap_reachable.claim [of _ _ _ 12 "[]"])
      (simp_all add: subtilis_vm_heap_claim_block_def subtilis_vm_heap_new_block_def)
qed

theorem heap_blocks_disjoint_witness:
  "unat (subtilis_vm_heap_free_space \<lparr>free_list = [\<lparr>blk_start = 0x118, blk_size = 0x7fe8\<rparr>],
    used_list = [\<lparr>blk_start = 0x10c, blk_size = 12\<rparr>, \<lparr>blk_start = 0x100, blk_size = 12\<rparr>]\<rparr>) + 24 = 0x8000"
  using heap_blocks_disjoint [OF heap_example] by simp

text \<open>
  C30: when memory is granted, a claim of a nonempty block succeeds exactly when some free block is
  large enough; the block has the size asked for, it is found by its address, and releasing it
  restores the free space and makes the next claim of the same size return the same block.
\<close>

theorem heap_claim_free:
  assumes "heap_reachable start sz heap" and "unat start + unat sz \<le> 2 ^ 32" and "0 < n"
    and "\<exists>b\<in>set (free_list heap). n \<le> blk_size b" and "set al \<subseteq> {True}"
  shows "\<exists>b heap' heap'' al'. subtilis_vm_heap_claim_block heap n al = Inr (Some b, heap', al')
    \<and> blk_size b = n
    \<and> subtilis_vm_heap_find_block heap' (blk_start b) = Some b
    \<and> subtilis_vm_heap_free_block heap' (blk_start b) = Inr heap''
    \<and> used_list heap'' = used_list heap
    \<and> subtilis_vm_heap_free_space heap'' = subtilis_vm_heap_free_space heap
    \<and> subtilis_vm_heap_claim_block heap'' n al' = Inr (Some b, \<lparr>free_list = tl (free_list heap''), used_list = used_list heap'\<rparr>, al')"
proof -
  note owns = reachable_owns [OF assms(1,2)]
  obtain b heap' al' where claim: "subtilis_vm_heap_claim_block heap n al = Inr (Some b, heap', al')"
    using claim_granted [OF assms(5,4)] by blast
  note result = claim_result [OF claim]
  let ?heap'' = "\<lparr>free_list = b # free_list heap', used_list = used_list heap\<rparr>"
  have free: "subtilis_vm_heap_free_block heap' (blk_start b) = Inr ?heap''"
    by (simp add: subtilis_vm_heap_free_block_def result(2))
  have "subtilis_vm_heap_free_space ?heap'' = subtilis_vm_heap_free_space heap"
    using free_space_used [OF owns] free_space_used [OF free_owns [OF free claim_owns [OF claim owns assms(3)]]]
    by (simp add: word_unat_eq_iff)
  with claim free result show ?thesis
    by (intro exI [of _ b] exI [of _ heap'] exI [of _ ?heap''] exI [of _ al'])
      (simp add: subtilis_vm_heap_find_block_def subtilis_vm_heap_claim_block_def)
qed

theorem heap_claim_free_witness:
  "\<exists>b heap'. subtilis_vm_heap_claim_block \<lparr>free_list = [\<lparr>blk_start = 0x118, blk_size = 0x7fe8\<rparr>],
    used_list = [\<lparr>blk_start = 0x10c, blk_size = 12\<rparr>, \<lparr>blk_start = 0x100, blk_size = 12\<rparr>]\<rparr> 16 [] = Inr (Some b, heap', [])
    \<and> blk_size b = 16"
proof -
  have al: "alloc [] = Inr []"
    by simp
  show ?thesis
    using heap_claim_free [OF heap_example, of 16 "[]"] al
    by (auto simp: subtilis_vm_heap_claim_block_def subtilis_vm_heap_new_block_def)
qed

end
