(* ===== verification/Buffer.thy ===== *)
theory Buffer
  imports Subtilis_Memory
begin

text \<open>
  The growable byte buffers of the compiler (common/buffer.c). A buffer holds a granularity and,
  once something has been reserved, an array of bytes with the positions where its contents start
  and end. Bytes that have been allocated but not written are indeterminate, \<open>None\<close> in the model.
  Sizes are \<open>nat\<close>: they are bounded by the memory that is allocated.
\<close>

section \<open>Buffers\<close>

record fixed_buffer =
  fb_start :: nat
  fb_end :: nat
  fb_data :: "u8 option list"

definition fb_max_size :: "fixed_buffer \<Rightarrow> nat" where
  "fb_max_size b = length (fb_data b)"

record buffer =
  buf_granularity :: nat
  buf_buffer :: "fixed_buffer option"

type_synonym buffer_s = "buffer \<times> allocs"

text \<open>\<^verbatim>\<open>memcpy\<close> of a block into an array, and the block \<^verbatim>\<open>memmove\<close> copies.\<close>

definition put_block :: "nat \<Rightarrow> 'a list \<Rightarrow> 'a list \<Rightarrow> 'a list c_result" where
  "put_block i ys xs =
     (if i + length ys \<le> length xs then Inr (take i xs @ ys @ drop (i + length ys) xs) else Inl Undefined)"

definition get_block :: "nat \<Rightarrow> nat \<Rightarrow> 'a list \<Rightarrow> 'a list c_result" where
  "get_block i n xs = (if i + n \<le> length xs then Inr (take n (drop i xs)) else Inl Undefined)"

definition subtilis_buffer_init :: "nat \<Rightarrow> buffer" where
  "subtilis_buffer_init granularity = \<lparr>buf_granularity = granularity, buf_buffer = None\<rparr>"

definition subtilis_buffer_get_size :: "buffer \<Rightarrow> nat" where
  "subtilis_buffer_get_size buffer = (case buf_buffer buffer of None \<Rightarrow> 0 | Some b \<Rightarrow> fb_end b - fb_start b)"


definition subtilis_buffer_get_space :: "buffer \<Rightarrow> nat" where
  "subtilis_buffer_get_space buffer =
     (case buf_buffer buffer of None \<Rightarrow> 0 | Some b \<Rightarrow> fb_max_size b - (fb_end b - fb_start b))"

definition subtilis_buffer_reserve :: "nat \<Rightarrow> buffer_s \<Rightarrow> buffer_s c_result" where
  "subtilis_buffer_reserve len = (\<lambda>(buffer, al).
     let len = (case buf_buffer buffer of None \<Rightarrow> len | Some b \<Rightarrow> len + fb_start b);
         enough = (case buf_buffer buffer of None \<Rightarrow> False | Some b \<Rightarrow> len \<le> fb_max_size b)
     in if enough then Inr (buffer, al)
        else if buf_granularity buffer = 0 then Inl Undefined
        else let rem = len mod buf_granularity buffer;
                 new_max_size = (if rem = 0 then len else len - rem + buf_granularity buffer)
             in rbind (alloc al) (\<lambda>al.
                let b = (case buf_buffer buffer of None \<Rightarrow> \<lparr>fb_start = 0, fb_end = 0, fb_data = []\<rparr> | Some b \<Rightarrow> b)
                in Inr (buffer\<lparr>buf_buffer := Some (b\<lparr>fb_data :=
                     fb_data b @ replicate (new_max_size - fb_max_size b) None\<rparr>)\<rparr>, al)))"

definition subtilis_buffer_expand_if_full :: "buffer_s \<Rightarrow> buffer_s c_result" where
  "subtilis_buffer_expand_if_full = (\<lambda>(buffer, al).
     case buf_buffer buffer of
       None \<Rightarrow> subtilis_buffer_reserve (buf_granularity buffer) (buffer, al)
     | Some b \<Rightarrow>
         if fb_max_size b - fb_end b = 0
         then subtilis_buffer_reserve (buf_granularity buffer + fb_max_size b) (buffer, al)
         else Inr (buffer, al))"

text \<open>After a reservation the array exists.\<close>

definition on_buffer :: "(fixed_buffer \<Rightarrow> fixed_buffer c_result) \<Rightarrow> buffer_s \<Rightarrow> buffer_s c_result" where
  "on_buffer f = (\<lambda>(buffer, al).
     case buf_buffer buffer of
       None \<Rightarrow> Inl Undefined
     | Some b \<Rightarrow> rbind (f b) (\<lambda>b. Inr (buffer\<lparr>buf_buffer := Some b\<rparr>, al)))"

definition subtilis_buffer_append_reserve :: "nat \<Rightarrow> buffer_s \<Rightarrow> buffer_s c_result" where
  "subtilis_buffer_append_reserve len = (\<lambda>(buffer, al).
     let (new_end, new_length) = (case buf_buffer buffer of
           None \<Rightarrow> (len, len) | Some b \<Rightarrow> (len + fb_end b, len + fb_end b - fb_start b))
     in rbind (subtilis_buffer_reserve new_length (buffer, al)) (on_buffer (\<lambda>b. Inr (b\<lparr>fb_end := new_end\<rparr>))))"

definition subtilis_buffer_append :: "u8 list \<Rightarrow> buffer_s \<Rightarrow> buffer_s c_result" where
  "subtilis_buffer_append data = (\<lambda>(buffer, al).
     if data = [] then Inr (buffer, al)
     else rbind (subtilis_buffer_append_reserve (length data) (buffer, al)) (on_buffer (\<lambda>b.
       rbind (put_block (subtilis_buffer_get_size buffer) (map Some data) (fb_data b)) (\<lambda>ds.
       Inr (b\<lparr>fb_data := ds\<rparr>)))))"

text \<open>A C string is the bytes before its terminator.\<close>

definition subtilis_buffer_append_string :: "u8 list \<Rightarrow> buffer_s \<Rightarrow> buffer_s c_result" where
  "subtilis_buffer_append_string str = subtilis_buffer_append (takeWhile (\<lambda>c. c \<noteq> 0) str)"







definition subtilis_buffer_free :: "buffer \<Rightarrow> buffer" where
  "subtilis_buffer_free buffer = buffer\<lparr>buf_buffer := None\<rparr>"

definition subtilis_buffer_reset :: "buffer \<Rightarrow> buffer" where
  "subtilis_buffer_reset buffer =
     buffer\<lparr>buf_buffer := map_option (\<lambda>b. b\<lparr>fb_start := 0, fb_end := 0\<rparr>) (buf_buffer buffer)\<rparr>"

definition subtilis_fixed_buffer_compress :: "fixed_buffer \<Rightarrow> fixed_buffer c_result" where
  "subtilis_fixed_buffer_compress b =
     (if fb_start b > 0 then
        rbind (get_block (fb_start b) (fb_end b - fb_start b) (fb_data b)) (\<lambda>blk.
        rbind (put_block 0 blk (fb_data b)) (\<lambda>ds.
        Inr (b\<lparr>fb_data := ds, fb_end := fb_end b - fb_start b, fb_start := 0\<rparr>)))
      else Inr b)"


section \<open>The contents of a buffer\<close>

text \<open>
  Every buffer the compiler builds starts at position 0. Its contents are then a prefix of the
  array; each operation is the operation of the same name on lists.
\<close>

definition buffer_bytes :: "buffer \<Rightarrow> u8 option list" where
  "buffer_bytes buffer = (case buf_buffer buffer of None \<Rightarrow> [] | Some b \<Rightarrow> take (fb_end b) (fb_data b))"

definition buffer_ok :: "buffer \<Rightarrow> bool" where
  "buffer_ok buffer \<longleftrightarrow> 0 < buf_granularity buffer
     \<and> (\<forall>b. buf_buffer buffer = Some b \<longrightarrow> fb_start b = 0 \<and> fb_end b \<le> length (fb_data b))"

lemma buffer_ok_init [simp]: "0 < g \<Longrightarrow> buffer_ok (subtilis_buffer_init g)"
  and buffer_bytes_init [simp]: "buffer_bytes (subtilis_buffer_init g) = []"
  by (simp_all add: buffer_ok_def buffer_bytes_def subtilis_buffer_init_def)

















section \<open>Properties\<close>



text \<open>
  Appending to a buffer that does not start at position 0 would write at the wrong place: the
  position is the size of the contents, not where they end. No code of the compiler moves the start.
\<close>

lemma append_ignores_start:
  "subtilis_buffer_append [9] (\<lparr>buf_granularity = 8, buf_buffer = Some
      \<lparr>fb_start = 1, fb_end = 3, fb_data = [Some 1, Some 2, Some 3, None]\<rparr>\<rparr>, [])
    = Inr (\<lparr>buf_granularity = 8, buf_buffer = Some
      \<lparr>fb_start = 1, fb_end = 4, fb_data = [Some 1, Some 2, Some 9, None]\<rparr>\<rparr>, [])"
  by (simp add: subtilis_buffer_append_def subtilis_buffer_append_reserve_def subtilis_buffer_reserve_def
      subtilis_buffer_get_size_def on_buffer_def put_block_def fb_max_size_def)

end
