(* ===== verification/Pools.thy ===== *)
theory Pools
  imports Subtilis_Memory
begin

text \<open>
  The pools of a program: the strings that name its procedures (common/string_pool.c) and its
  constant data (common/constant_pool.c), and the growable vector of \<^verbatim>\<open>size_t\<close> (common/sizet_vector.c).
  Both pools give every distinct element one index, which is stated once as the locale \<open>interner\<close>.
  The reference counts, which only decide when memory is returned, are left out.
\<close>

section \<open>The first element that satisfies a condition\<close>

fun index_of :: "('a \<Rightarrow> bool) \<Rightarrow> 'a list \<Rightarrow> nat option" where
  "index_of P [] = None"
| "index_of P (x # xs) = (if P x then Some 0 else map_option Suc (index_of P xs))"

lemma index_of_Some:
  "index_of P xs = Some i \<longleftrightarrow> i < length xs \<and> P (xs ! i) \<and> (\<forall>j<i. \<not> P (xs ! j))"
proof (induction xs arbitrary: i)
  case (Cons x xs)
  then show ?case
    by (cases i) (auto simp: All_less_Suc2)
qed simp

lemma index_of_None: "index_of P xs = None \<longleftrightarrow> (\<forall>x\<in>set xs. \<not> P x)"
  by (induction xs) auto

lemma index_of_append:
  "index_of P (xs @ ys) = (case index_of P xs of Some i \<Rightarrow> Some i
    | None \<Rightarrow> map_option ((+) (length xs)) (index_of P ys))"
proof (induction xs)
  case Nil
  have "(+) 0 = (id :: nat \<Rightarrow> nat)"
    by auto
  then show ?case
    by (simp add: option.map_id)
next
  case (Cons x xs)
  then show ?case
    by (cases "index_of P ys") (auto split: option.splits)
qed

lemma index_of_distinct:
  assumes "distinct xs" and "i < length xs"
  shows "index_of (\<lambda>x. x = xs ! i) xs = Some i"
  using assms by (auto simp: index_of_Some nth_eq_iff_index_eq)

section \<open>String pool, constant pool, vector\<close>

definition CONFIG_PROC_GRAN :: nat where
  "CONFIG_PROC_GRAN = 64"

definition CONFIG_CONSTANT_POOL_GRAN :: nat where
  "CONFIG_CONSTANT_POOL_GRAN = 32"

definition CONFIG_SIZET_SIZE :: nat where
  "CONFIG_SIZET_SIZE = 64"

type_synonym string_pool = "string cvec"

text \<open>A pool whose allocation fails is written to all the same.\<close>

definition subtilis_string_pool_new :: "allocs \<Rightarrow> (string_pool \<times> allocs) c_result" where
  "subtilis_string_pool_new al =
     (case alloc al of Inl e \<Rightarrow> Inl Undefined | Inr al \<Rightarrow> Inr (vec_empty, al))"

definition subtilis_string_pool_find :: "string_pool \<Rightarrow> string \<Rightarrow> nat option" where
  "subtilis_string_pool_find pool str = index_of (\<lambda>s. s = str) (vec_items pool)"

definition subtilis_string_pool_register :: "string \<Rightarrow> string_pool \<times> allocs \<Rightarrow> (nat \<times> string_pool \<times> allocs) c_result" where
  "subtilis_string_pool_register str = (\<lambda>(pool, al).
     case subtilis_string_pool_find pool str of
       Some i \<Rightarrow> Inr (i, pool, al)
     | None \<Rightarrow>
         rbind (alloc al) (\<lambda>al.
         rbind (vec_push CONFIG_PROC_GRAN str pool al) (\<lambda>(pool', al).
         Inr (length (vec_items pool), pool', al))))"

record constant_data =
  cd_data :: "u8 list"
  cd_dbl :: bool

type_synonym constant_pool = "constant_data cvec"

definition subtilis_constant_pool_new :: "allocs \<Rightarrow> (constant_pool \<times> allocs) c_result" where
  "subtilis_constant_pool_new al = rbind (alloc al) (\<lambda>al. Inr (vec_empty, al))"

definition subtilis_constant_pool_add :: "constant_data \<Rightarrow> constant_pool \<times> allocs \<Rightarrow> (nat \<times> constant_pool \<times> allocs) c_result" where
  "subtilis_constant_pool_add c = (\<lambda>(pool, al).
     case index_of (\<lambda>d. cd_dbl c = cd_dbl d \<and> length (cd_data c) = length (cd_data d) \<and> cd_data c = cd_data d)
         (vec_items pool) of
       Some i \<Rightarrow> Inr (i, pool, al)
     | None \<Rightarrow>
         rbind (vec_push CONFIG_CONSTANT_POOL_GRAN c pool al) (\<lambda>(pool', al).
         Inr (length (vec_items pool), pool', al)))"

text \<open>The offset of every constant when the constants are laid out one after the other, and the mem_size.\<close>

fun constant_offsets :: "constant_data list \<Rightarrow> nat \<Rightarrow> nat list \<times> nat" where
  "constant_offsets [] mem_size = ([], mem_size)"
| "constant_offsets (c # cs) mem_size =
     (let (ptrs, sum) = constant_offsets cs (mem_size + length (cd_data c)) in (mem_size # ptrs, sum))"

definition subtilis_constant_pool_mem_size :: "constant_pool \<Rightarrow> allocs \<Rightarrow> (nat list \<times> nat \<times> allocs) c_result" where
  "subtilis_constant_pool_mem_size pool al =
     rbind (alloc al) (\<lambda>al. let (ptrs, mem_size) = constant_offsets (vec_items pool) 0 in Inr (ptrs, mem_size, al))"

type_synonym sizet_vector = "nat cvec"

definition subtilis_sizet_vector_append :: "nat \<Rightarrow> sizet_vector \<Rightarrow> allocs \<Rightarrow> (sizet_vector \<times> allocs) c_result" where
  "subtilis_sizet_vector_append val v al = vec_push CONFIG_SIZET_SIZE val v al"

section \<open>The interface of a table of distinct elements\<close>

text \<open>A series of registrations, with the indices they return.\<close>

fun register_all :: "('a \<Rightarrow> 's \<Rightarrow> 'e + nat \<times> 's) \<Rightarrow> 'a list \<Rightarrow> 's \<Rightarrow> 'e + nat list \<times> 's" where
  "register_all register [] s = Inr ([], s)"
| "register_all register (x # xs) s = rbind (register x s) (\<lambda>(i, s).
     rbind (register_all register xs s) (\<lambda>(js, s). Inr (i # js, s)))"

locale interner =
  fixes register :: "'a \<Rightarrow> 's \<times> 'm \<Rightarrow> 'e + nat \<times> 's \<times> 'm" and items :: "'s \<Rightarrow> 'a list" and ok :: "'s \<Rightarrow> bool"
  assumes register_known: "ok s \<Longrightarrow> x \<in> set (items s) \<Longrightarrow>
      \<exists>i<length (items s). items s ! i = x \<and> register x (s, m) = Inr (i, s, m)"
    and register_new: "ok s \<Longrightarrow> x \<notin> set (items s) \<Longrightarrow> register x (s, m) = Inr (i, s', m') \<Longrightarrow>
      ok s' \<and> items s' = items s @ [x] \<and> i = length (items s)"
begin

definition well_formed :: "'s \<Rightarrow> bool" where
  "well_formed s \<longleftrightarrow> ok s \<and> distinct (items s)"

lemma register_step:
  assumes "register x (s, m) = Inr (i, s', m')" and "well_formed s"
  shows "well_formed s'" and "i < length (items s')" and "items s' ! i = x"
    and "take (length (items s)) (items s') = items s" and "set (items s') = insert x (set (items s))"
proof -
  have "well_formed s' \<and> i < length (items s') \<and> items s' ! i = x
      \<and> take (length (items s)) (items s') = items s \<and> set (items s') = insert x (set (items s))"
  proof (cases "x \<in> set (items s)")
    case True
    with assms register_known [of s x m] show ?thesis
      by (auto simp: well_formed_def)
  next
    case False
    with assms register_new [of s x m i s' m'] show ?thesis
      by (auto simp: well_formed_def nth_append)
  qed
  then show "well_formed s'" "i < length (items s')" "items s' ! i = x"
    "take (length (items s)) (items s') = items s" "set (items s') = insert x (set (items s))"
    by blast+
qed

text \<open>An element that has been registered keeps its index whatever is registered later.\<close>

lemma register_all_indices:
  assumes "register_all register xs (s, m) = Inr (js, s', m')" and "well_formed s"
  shows "well_formed s' \<and> map ((!) (items s')) js = xs \<and> set (items s') = set (items s) \<union> set xs
    \<and> (\<forall>j\<in>set js. j < length (items s')) \<and> take (length (items s)) (items s') = items s"
  using assms
proof (induction xs arbitrary: s m js)
  case Nil
  then show ?case
    by simp
next
  case (Cons x xs)
  then obtain i s1 m1 js' where
    x: "register x (s, m) = Inr (i, s1, m1)" and xs: "register_all register xs (s1, m1) = Inr (js', s', m')" and js: "js = i # js'"
    by (auto simp: rbind_eq_Inr)
  note step = register_step [OF x Cons.prems(2)]
  note IH = Cons.IH [OF xs step(1)]
  then have prefix: "take (length (items s1)) (items s') = items s1" and le: "length (items s1) \<le> length (items s')"
    using length_take [of "length (items s1)" "items s'"] by auto
  from prefix step(2,3) have "items s' ! i = x"
    by (metis nth_take)
  moreover have "take (length (items s)) (items s') = items s"
    using step(4) prefix by (metis min.absorb1 min.coboundedI2 nat_le_linear take_all take_take)
  ultimately show ?case
    using IH step(2,5) js le by auto
qed

text \<open>Two registrations give the same index exactly when they are of the same element.\<close>

lemma register_all_injective:
  assumes "register_all register xs (s, m) = Inr (js, s', m')" and "well_formed s" and "a < length xs" and "b < length xs"
  shows "js ! a = js ! b \<longleftrightarrow> xs ! a = xs ! b"
proof -
  note all = register_all_indices [OF assms(1,2)]
  then have "length js = length xs"
    by (metis length_map)
  with all assms(3,4) have "xs ! a = items s' ! (js ! a)" "xs ! b = items s' ! (js ! b)"
    "js ! a < length (items s')" "js ! b < length (items s')"
    by (metis nth_map, metis nth_map, auto)
  with all show ?thesis
    by (simp add: well_formed_def nth_eq_iff_index_eq)
qed

end

interpretation strings: interner subtilis_string_pool_register vec_items vec_ok
proof (unfold_locales, goal_cases)
  case (1 s x m)
  then obtain i where i: "subtilis_string_pool_find s x = Some i"
    by (cases "subtilis_string_pool_find s x") (auto simp: subtilis_string_pool_find_def index_of_None)
  then have "i < length (vec_items s) \<and> vec_items s ! i = x"
    by (simp add: subtilis_string_pool_find_def index_of_Some)
  with i show ?case
    by (auto simp: subtilis_string_pool_register_def)
next
  case (2 s x m i s' m')
  then have "subtilis_string_pool_find s x = None"
    by (auto simp: subtilis_string_pool_find_def index_of_None)
  with 2 show ?case
    by (auto simp: subtilis_string_pool_register_def rbind_eq_Inr dest: vec_push_Inr)
qed

lemma same_constant:
  fixes c d :: constant_data
  shows "cd_dbl c = cd_dbl d \<and> length (cd_data c) = length (cd_data d) \<and> cd_data c = cd_data d \<longleftrightarrow> d = c"
  by (cases c; cases d) auto

interpretation constants: interner subtilis_constant_pool_add vec_items vec_ok
proof (unfold_locales, goal_cases)
  case (1 s x m)
  then obtain i where i: "index_of (\<lambda>d. d = x) (vec_items s) = Some i"
    by (cases "index_of (\<lambda>d. d = x) (vec_items s)") (auto simp: index_of_None)
  then have "i < length (vec_items s) \<and> vec_items s ! i = x"
    by (simp add: index_of_Some)
  with i show ?case
    by (auto simp: subtilis_constant_pool_add_def same_constant)
next
  case (2 s x m i s' m')
  then have "index_of (\<lambda>d. d = x) (vec_items s) = None"
    by (auto simp: index_of_None)
  with 2 show ?case
    by (auto simp: subtilis_constant_pool_add_def same_constant rbind_eq_Inr dest: vec_push_Inr)
qed

section \<open>The layout of the constants\<close>

lemma constant_offsets_total:
  "snd (constant_offsets cs n) = n + length (concat (map cd_data cs))"
  by (induction cs arbitrary: n) (simp_all add: Let_def case_prod_unfold)

lemma length_constant_offsets [simp]: "length (fst (constant_offsets cs n)) = length cs"
  by (induction cs arbitrary: n) (simp_all add: Let_def case_prod_unfold)

lemma constant_offsets_nth:
  "i < length cs \<Longrightarrow> fst (constant_offsets cs n) ! i = n + length (concat (map cd_data (take i cs)))"
proof (induction cs arbitrary: n i)
  case (Cons c cs)
  then show ?case
    by (cases i) (simp_all add: Let_def case_prod_unfold)
qed simp

text \<open>In the concatenation of the data every constant lies at its offset.\<close>

lemma constant_at_offset:
  assumes "i < length cs"
  shows "take (length (cd_data (cs ! i))) (drop (fst (constant_offsets cs 0) ! i) (concat (map cd_data cs))) = cd_data (cs ! i)"
proof -
  have "concat (map cd_data cs) = concat (map cd_data (take i cs)) @ cd_data (cs ! i) @ concat (map cd_data (drop (Suc i) cs))"
    using assms by (metis concat.simps(2) concat_append id_take_nth_drop list.simps(9) map_append)
  with assms show ?thesis
    by (simp add: constant_offsets_nth)
qed

section \<open>Properties\<close>

text \<open>
  C32: names registered with the string pool of a program get indices that name them for good: two
  names have the same index exactly when they are equal, and every index finds its name and is found
  by it.
\<close>

theorem string_pool_interns:
  assumes "register_all subtilis_string_pool_register names (vec_empty, al) = Inr (js, pool, al')" and "a < length names" and "b < length names"
  shows "(js ! a = js ! b \<longleftrightarrow> names ! a = names ! b)
    \<and> vec_items pool ! (js ! a) = names ! a
    \<and> subtilis_string_pool_find pool (names ! a) = Some (js ! a)"
proof -
  have wf: "strings.well_formed vec_empty"
    by (simp add: strings.well_formed_def)
  note all = strings.register_all_indices [OF assms(1) wf]
  then have "length js = length names"
    by (metis length_map)
  with all assms(2) have a: "vec_items pool ! (js ! a) = names ! a" "js ! a < length (vec_items pool)"
    by (metis nth_map, metis nth_mem)
  then have "subtilis_string_pool_find pool (names ! a) = Some (js ! a)"
    using all index_of_distinct [of "vec_items pool" "js ! a"]
    by (simp add: subtilis_string_pool_find_def strings.well_formed_def)
  with a strings.register_all_injective [OF assms(1) wf assms(2,3)] show ?thesis
    by simp
qed

theorem string_pool_interns_witness:
  "\<exists>pool al' j. register_all subtilis_string_pool_register [''main'', ''f'', ''main''] (vec_empty, []) = Inr ([0, 1, 0], pool, al')
    \<and> subtilis_string_pool_find pool ''f'' = Some 1"
proof -
  obtain pool al' where
    run: "register_all subtilis_string_pool_register [''main'', ''f'', ''main''] (vec_empty, []) = Inr ([0, 1, 0], pool, al')"
    by (simp add: subtilis_string_pool_register_def subtilis_string_pool_find_def vec_push_def vec_empty_def
        CONFIG_PROC_GRAN_def)
  from string_pool_interns [OF this, of 1 0] run show ?thesis
    by simp
qed

text \<open>
  C33: the constants of a program, laid out one after the other as the interpreter copies them into
  its memory, lie at the offsets \<^verbatim>\<open>subtilis_constant_pool_mem_size\<close> computes, and no constant is held
  twice.
\<close>

theorem constants_at_offsets:
  assumes "register_all subtilis_constant_pool_add cs (vec_empty, al) = Inr (js, pool, al')"
    and "subtilis_constant_pool_mem_size pool al' = Inr (ptrs, mem_size, al'')" and "a < length cs"
  shows "mem_size = length (concat (map cd_data (vec_items pool))) \<and> distinct (vec_items pool)
    \<and> take (length (cd_data (cs ! a))) (drop (ptrs ! (js ! a)) (concat (map cd_data (vec_items pool)))) = cd_data (cs ! a)"
proof -
  have wf: "constants.well_formed vec_empty"
    by (simp add: constants.well_formed_def)
  note all = constants.register_all_indices [OF assms(1) wf]
  then have "length js = length cs"
    by (metis length_map)
  with all assms(3) have a: "vec_items pool ! (js ! a) = cs ! a" "js ! a < length (vec_items pool)"
    by (metis nth_map, metis nth_mem)
  have ptrs: "ptrs = fst (constant_offsets (vec_items pool) 0)" "mem_size = snd (constant_offsets (vec_items pool) 0)"
    using assms(2) by (auto simp: subtilis_constant_pool_mem_size_def rbind_eq_Inr Let_def case_prod_unfold)
  with all a constant_at_offset [of "js ! a" "vec_items pool"] show ?thesis
    by (simp add: constant_offsets_total constants.well_formed_def)
qed

theorem constants_at_offsets_witness:
  "\<exists>pool al' ptrs mem_size al''.
    register_all subtilis_constant_pool_add [\<lparr>cd_data = [1, 2], cd_dbl = False\<rparr>, \<lparr>cd_data = [3], cd_dbl = False\<rparr>, \<lparr>cd_data = [1, 2], cd_dbl = False\<rparr>]
      (vec_empty, []) = Inr ([0, 1, 0], pool, al')
    \<and> subtilis_constant_pool_mem_size pool al' = Inr (ptrs, mem_size, al'') \<and> mem_size = 3"
proof -
  obtain pool al' where
    run: "register_all subtilis_constant_pool_add [\<lparr>cd_data = [1, 2], cd_dbl = False\<rparr>, \<lparr>cd_data = [3], cd_dbl = False\<rparr>, \<lparr>cd_data = [1, 2], cd_dbl = False\<rparr>]
      (vec_empty, []) = Inr ([0, 1, 0], pool, al')" "al' = []"
      "concat (map cd_data (vec_items pool)) = [1, 2, 3]"
    by (simp add: subtilis_constant_pool_add_def vec_push_def vec_empty_def CONFIG_CONSTANT_POOL_GRAN_def)
  moreover obtain ptrs mem_size where "subtilis_constant_pool_mem_size pool al' = Inr (ptrs, mem_size, [])"
    using run(2) by (cases "constant_offsets (vec_items pool) 0") (simp add: subtilis_constant_pool_mem_size_def)
  ultimately show ?thesis
    using constants_at_offsets [OF run(1), of ptrs mem_size "[]" 0] by auto
qed

end
