(* ===== verification/Ir.thy ===== *)
theory Ir
  imports Subtilis_Memory Pools
begin

text \<open>
  The intermediate representation (common/ir.h, common/ir.c): instructions and their operands, the
  sections of a program, and the functions with which the front end appends operations to a section
  and adds sections to a program. The dumping of a program and the freeing of its memory are output
  and clean-up only and are left out, as are the parts of a section that only the inline assembler
  uses.
\<close>

section \<open>Instructions\<close>

text \<open>
  The instruction types are the values of the enumeration, which index the tables of the
  intermediate representation and of the interpreter.
\<close>

datatype ir_instr_type = IR_TYPE (ir_number: nat)

abbreviation IR_ADD_I32 :: ir_instr_type where "IR_ADD_I32 \<equiv> IR_TYPE 0"
abbreviation IR_ADD_REAL :: ir_instr_type where "IR_ADD_REAL \<equiv> IR_TYPE 1"
abbreviation IR_SUB_I32 :: ir_instr_type where "IR_SUB_I32 \<equiv> IR_TYPE 2"
abbreviation IR_SUB_REAL :: ir_instr_type where "IR_SUB_REAL \<equiv> IR_TYPE 3"
abbreviation IR_MUL_I32 :: ir_instr_type where "IR_MUL_I32 \<equiv> IR_TYPE 4"
abbreviation IR_MUL_REAL :: ir_instr_type where "IR_MUL_REAL \<equiv> IR_TYPE 5"
abbreviation IR_DIV_I32 :: ir_instr_type where "IR_DIV_I32 \<equiv> IR_TYPE 6"
abbreviation IR_MOD_I32 :: ir_instr_type where "IR_MOD_I32 \<equiv> IR_TYPE 7"
abbreviation IR_DIV_REAL :: ir_instr_type where "IR_DIV_REAL \<equiv> IR_TYPE 8"
abbreviation IR_ADDI_I32 :: ir_instr_type where "IR_ADDI_I32 \<equiv> IR_TYPE 9"
abbreviation IR_ADDI_REAL :: ir_instr_type where "IR_ADDI_REAL \<equiv> IR_TYPE 10"
abbreviation IR_SUBI_I32 :: ir_instr_type where "IR_SUBI_I32 \<equiv> IR_TYPE 11"
abbreviation IR_SUBI_REAL :: ir_instr_type where "IR_SUBI_REAL \<equiv> IR_TYPE 12"
abbreviation IR_MULI_I32 :: ir_instr_type where "IR_MULI_I32 \<equiv> IR_TYPE 13"
abbreviation IR_MULI_REAL :: ir_instr_type where "IR_MULI_REAL \<equiv> IR_TYPE 14"
abbreviation IR_DIVI_I32 :: ir_instr_type where "IR_DIVI_I32 \<equiv> IR_TYPE 15"
abbreviation IR_DIVI_REAL :: ir_instr_type where "IR_DIVI_REAL \<equiv> IR_TYPE 16"
abbreviation IR_LOADO_I8 :: ir_instr_type where "IR_LOADO_I8 \<equiv> IR_TYPE 17"
abbreviation IR_LOADO_I32 :: ir_instr_type where "IR_LOADO_I32 \<equiv> IR_TYPE 18"
abbreviation IR_LOADO_REAL :: ir_instr_type where "IR_LOADO_REAL \<equiv> IR_TYPE 19"
abbreviation IR_LOAD_I32 :: ir_instr_type where "IR_LOAD_I32 \<equiv> IR_TYPE 20"
abbreviation IR_LOAD_REAL :: ir_instr_type where "IR_LOAD_REAL \<equiv> IR_TYPE 21"
abbreviation IR_STOREO_I8 :: ir_instr_type where "IR_STOREO_I8 \<equiv> IR_TYPE 22"
abbreviation IR_STOREO_I32 :: ir_instr_type where "IR_STOREO_I32 \<equiv> IR_TYPE 23"
abbreviation IR_STOREO_REAL :: ir_instr_type where "IR_STOREO_REAL \<equiv> IR_TYPE 24"
abbreviation IR_STORE_I32 :: ir_instr_type where "IR_STORE_I32 \<equiv> IR_TYPE 25"
abbreviation IR_STORE_REAL :: ir_instr_type where "IR_STORE_REAL \<equiv> IR_TYPE 26"
abbreviation IR_MOVI_I32 :: ir_instr_type where "IR_MOVI_I32 \<equiv> IR_TYPE 27"
abbreviation IR_MOVI_REAL :: ir_instr_type where "IR_MOVI_REAL \<equiv> IR_TYPE 28"
abbreviation IR_MOV :: ir_instr_type where "IR_MOV \<equiv> IR_TYPE 29"
abbreviation IR_MOVFP :: ir_instr_type where "IR_MOVFP \<equiv> IR_TYPE 30"
abbreviation IR_PRINT_STR :: ir_instr_type where "IR_PRINT_STR \<equiv> IR_TYPE 31"
abbreviation IR_PRINT_NL :: ir_instr_type where "IR_PRINT_NL \<equiv> IR_TYPE 32"
abbreviation IR_RSUBI_I32 :: ir_instr_type where "IR_RSUBI_I32 \<equiv> IR_TYPE 33"
abbreviation IR_RSUBI_REAL :: ir_instr_type where "IR_RSUBI_REAL \<equiv> IR_TYPE 34"
abbreviation IR_RDIVI_REAL :: ir_instr_type where "IR_RDIVI_REAL \<equiv> IR_TYPE 35"
abbreviation IR_AND_I32 :: ir_instr_type where "IR_AND_I32 \<equiv> IR_TYPE 36"
abbreviation IR_ANDI_I32 :: ir_instr_type where "IR_ANDI_I32 \<equiv> IR_TYPE 37"
abbreviation IR_OR_I32 :: ir_instr_type where "IR_OR_I32 \<equiv> IR_TYPE 38"
abbreviation IR_ORI_I32 :: ir_instr_type where "IR_ORI_I32 \<equiv> IR_TYPE 39"
abbreviation IR_EOR_I32 :: ir_instr_type where "IR_EOR_I32 \<equiv> IR_TYPE 40"
abbreviation IR_EORI_I32 :: ir_instr_type where "IR_EORI_I32 \<equiv> IR_TYPE 41"
abbreviation IR_NOT_I32 :: ir_instr_type where "IR_NOT_I32 \<equiv> IR_TYPE 42"
abbreviation IR_EQ_I32 :: ir_instr_type where "IR_EQ_I32 \<equiv> IR_TYPE 43"
abbreviation IR_EQ_REAL :: ir_instr_type where "IR_EQ_REAL \<equiv> IR_TYPE 44"
abbreviation IR_EQI_I32 :: ir_instr_type where "IR_EQI_I32 \<equiv> IR_TYPE 45"
abbreviation IR_EQI_REAL :: ir_instr_type where "IR_EQI_REAL \<equiv> IR_TYPE 46"
abbreviation IR_NEQ_I32 :: ir_instr_type where "IR_NEQ_I32 \<equiv> IR_TYPE 47"
abbreviation IR_NEQ_REAL :: ir_instr_type where "IR_NEQ_REAL \<equiv> IR_TYPE 48"
abbreviation IR_NEQI_I32 :: ir_instr_type where "IR_NEQI_I32 \<equiv> IR_TYPE 49"
abbreviation IR_NEQI_REAL :: ir_instr_type where "IR_NEQI_REAL \<equiv> IR_TYPE 50"
abbreviation IR_GT_I32 :: ir_instr_type where "IR_GT_I32 \<equiv> IR_TYPE 51"
abbreviation IR_GT_REAL :: ir_instr_type where "IR_GT_REAL \<equiv> IR_TYPE 52"
abbreviation IR_GTI_I32 :: ir_instr_type where "IR_GTI_I32 \<equiv> IR_TYPE 53"
abbreviation IR_GTI_REAL :: ir_instr_type where "IR_GTI_REAL \<equiv> IR_TYPE 54"
abbreviation IR_LTE_I32 :: ir_instr_type where "IR_LTE_I32 \<equiv> IR_TYPE 55"
abbreviation IR_LTE_REAL :: ir_instr_type where "IR_LTE_REAL \<equiv> IR_TYPE 56"
abbreviation IR_LTEI_I32 :: ir_instr_type where "IR_LTEI_I32 \<equiv> IR_TYPE 57"
abbreviation IR_LTEI_REAL :: ir_instr_type where "IR_LTEI_REAL \<equiv> IR_TYPE 58"
abbreviation IR_LT_I32 :: ir_instr_type where "IR_LT_I32 \<equiv> IR_TYPE 59"
abbreviation IR_LT_REAL :: ir_instr_type where "IR_LT_REAL \<equiv> IR_TYPE 60"
abbreviation IR_LTI_I32 :: ir_instr_type where "IR_LTI_I32 \<equiv> IR_TYPE 61"
abbreviation IR_LTI_REAL :: ir_instr_type where "IR_LTI_REAL \<equiv> IR_TYPE 62"
abbreviation IR_GTE_I32 :: ir_instr_type where "IR_GTE_I32 \<equiv> IR_TYPE 63"
abbreviation IR_GTE_REAL :: ir_instr_type where "IR_GTE_REAL \<equiv> IR_TYPE 64"
abbreviation IR_GTEI_I32 :: ir_instr_type where "IR_GTEI_I32 \<equiv> IR_TYPE 65"
abbreviation IR_GTEI_REAL :: ir_instr_type where "IR_GTEI_REAL \<equiv> IR_TYPE 66"
abbreviation IR_JMPC :: ir_instr_type where "IR_JMPC \<equiv> IR_TYPE 67"
abbreviation IR_JMPC_NF :: ir_instr_type where "IR_JMPC_NF \<equiv> IR_TYPE 68"
abbreviation IR_JMP :: ir_instr_type where "IR_JMP \<equiv> IR_TYPE 69"
abbreviation IR_RET :: ir_instr_type where "IR_RET \<equiv> IR_TYPE 70"
abbreviation IR_RET_I32 :: ir_instr_type where "IR_RET_I32 \<equiv> IR_TYPE 71"
abbreviation IR_RETI_I32 :: ir_instr_type where "IR_RETI_I32 \<equiv> IR_TYPE 72"
abbreviation IR_RET_REAL :: ir_instr_type where "IR_RET_REAL \<equiv> IR_TYPE 73"
abbreviation IR_RETI_REAL :: ir_instr_type where "IR_RETI_REAL \<equiv> IR_TYPE 74"
abbreviation IR_LSL_I32 :: ir_instr_type where "IR_LSL_I32 \<equiv> IR_TYPE 75"
abbreviation IR_LSLI_I32 :: ir_instr_type where "IR_LSLI_I32 \<equiv> IR_TYPE 76"
abbreviation IR_LSR_I32 :: ir_instr_type where "IR_LSR_I32 \<equiv> IR_TYPE 77"
abbreviation IR_LSRI_I32 :: ir_instr_type where "IR_LSRI_I32 \<equiv> IR_TYPE 78"
abbreviation IR_ASR_I32 :: ir_instr_type where "IR_ASR_I32 \<equiv> IR_TYPE 79"
abbreviation IR_ASRI_I32 :: ir_instr_type where "IR_ASRI_I32 \<equiv> IR_TYPE 80"
abbreviation IR_MOV_I32_FP :: ir_instr_type where "IR_MOV_I32_FP \<equiv> IR_TYPE 81"
abbreviation IR_MOV_FP_I32 :: ir_instr_type where "IR_MOV_FP_I32 \<equiv> IR_TYPE 82"
abbreviation IR_MOV_FPRD_I32 :: ir_instr_type where "IR_MOV_FPRD_I32 \<equiv> IR_TYPE 83"
abbreviation IR_NOP :: ir_instr_type where "IR_NOP \<equiv> IR_TYPE 84"
abbreviation IR_MODE_I32 :: ir_instr_type where "IR_MODE_I32 \<equiv> IR_TYPE 85"
abbreviation IR_PLOT :: ir_instr_type where "IR_PLOT \<equiv> IR_TYPE 86"
abbreviation IR_GCOL :: ir_instr_type where "IR_GCOL \<equiv> IR_TYPE 87"
abbreviation IR_GCOL_TINT :: ir_instr_type where "IR_GCOL_TINT \<equiv> IR_TYPE 88"
abbreviation IR_ORIGIN :: ir_instr_type where "IR_ORIGIN \<equiv> IR_TYPE 89"
abbreviation IR_GETTIME :: ir_instr_type where "IR_GETTIME \<equiv> IR_TYPE 90"
abbreviation IR_CLS :: ir_instr_type where "IR_CLS \<equiv> IR_TYPE 91"
abbreviation IR_CLG :: ir_instr_type where "IR_CLG \<equiv> IR_TYPE 92"
abbreviation IR_ON :: ir_instr_type where "IR_ON \<equiv> IR_TYPE 93"
abbreviation IR_OFF :: ir_instr_type where "IR_OFF \<equiv> IR_TYPE 94"
abbreviation IR_WAIT :: ir_instr_type where "IR_WAIT \<equiv> IR_TYPE 95"
abbreviation IR_SIN :: ir_instr_type where "IR_SIN \<equiv> IR_TYPE 96"
abbreviation IR_COS :: ir_instr_type where "IR_COS \<equiv> IR_TYPE 97"
abbreviation IR_TAN :: ir_instr_type where "IR_TAN \<equiv> IR_TYPE 98"
abbreviation IR_ASN :: ir_instr_type where "IR_ASN \<equiv> IR_TYPE 99"
abbreviation IR_ACS :: ir_instr_type where "IR_ACS \<equiv> IR_TYPE 100"
abbreviation IR_ATN :: ir_instr_type where "IR_ATN \<equiv> IR_TYPE 101"
abbreviation IR_SQR :: ir_instr_type where "IR_SQR \<equiv> IR_TYPE 102"
abbreviation IR_LOG :: ir_instr_type where "IR_LOG \<equiv> IR_TYPE 103"
abbreviation IR_LN :: ir_instr_type where "IR_LN \<equiv> IR_TYPE 104"
abbreviation IR_ABSR :: ir_instr_type where "IR_ABSR \<equiv> IR_TYPE 105"
abbreviation IR_POWR :: ir_instr_type where "IR_POWR \<equiv> IR_TYPE 106"
abbreviation IR_EXPR :: ir_instr_type where "IR_EXPR \<equiv> IR_TYPE 107"
abbreviation IR_GET :: ir_instr_type where "IR_GET \<equiv> IR_TYPE 108"
abbreviation IR_GET_TO :: ir_instr_type where "IR_GET_TO \<equiv> IR_TYPE 109"
abbreviation IR_INKEY :: ir_instr_type where "IR_INKEY \<equiv> IR_TYPE 110"
abbreviation IR_OS_BYTE_ID :: ir_instr_type where "IR_OS_BYTE_ID \<equiv> IR_TYPE 111"
abbreviation IR_VDUI :: ir_instr_type where "IR_VDUI \<equiv> IR_TYPE 112"
abbreviation IR_VDU :: ir_instr_type where "IR_VDU \<equiv> IR_TYPE 113"
abbreviation IR_POINT :: ir_instr_type where "IR_POINT \<equiv> IR_TYPE 114"
abbreviation IR_TINT :: ir_instr_type where "IR_TINT \<equiv> IR_TYPE 115"
abbreviation IR_END :: ir_instr_type where "IR_END \<equiv> IR_TYPE 116"
abbreviation IR_TESTESC :: ir_instr_type where "IR_TESTESC \<equiv> IR_TYPE 117"
abbreviation IR_ALLOC :: ir_instr_type where "IR_ALLOC \<equiv> IR_TYPE 118"
abbreviation IR_REALLOC :: ir_instr_type where "IR_REALLOC \<equiv> IR_TYPE 119"
abbreviation IR_REF :: ir_instr_type where "IR_REF \<equiv> IR_TYPE 120"
abbreviation IR_DEREF :: ir_instr_type where "IR_DEREF \<equiv> IR_TYPE 121"
abbreviation IR_GETREF :: ir_instr_type where "IR_GETREF \<equiv> IR_TYPE 122"
abbreviation IR_PUSH_I32 :: ir_instr_type where "IR_PUSH_I32 \<equiv> IR_TYPE 123"
abbreviation IR_POP_I32 :: ir_instr_type where "IR_POP_I32 \<equiv> IR_TYPE 124"
abbreviation IR_LCA :: ir_instr_type where "IR_LCA \<equiv> IR_TYPE 125"
abbreviation IR_AT :: ir_instr_type where "IR_AT \<equiv> IR_TYPE 126"
abbreviation IR_POS :: ir_instr_type where "IR_POS \<equiv> IR_TYPE 127"
abbreviation IR_VPOS :: ir_instr_type where "IR_VPOS \<equiv> IR_TYPE 128"
abbreviation IR_TCOL :: ir_instr_type where "IR_TCOL \<equiv> IR_TYPE 129"
abbreviation IR_TCOL_TINT :: ir_instr_type where "IR_TCOL_TINT \<equiv> IR_TYPE 130"
abbreviation IR_PALETTE :: ir_instr_type where "IR_PALETTE \<equiv> IR_TYPE 131"
abbreviation IR_I32TODEC :: ir_instr_type where "IR_I32TODEC \<equiv> IR_TYPE 132"
abbreviation IR_REALTODEC :: ir_instr_type where "IR_REALTODEC \<equiv> IR_TYPE 133"
abbreviation IR_I32TOHEX :: ir_instr_type where "IR_I32TOHEX \<equiv> IR_TYPE 134"
abbreviation IR_HEAP_FREE :: ir_instr_type where "IR_HEAP_FREE \<equiv> IR_TYPE 135"
abbreviation IR_BLOCK_FREE :: ir_instr_type where "IR_BLOCK_FREE \<equiv> IR_TYPE 136"
abbreviation IR_BLOCK_ADJUST :: ir_instr_type where "IR_BLOCK_ADJUST \<equiv> IR_TYPE 137"
abbreviation IR_CMOV_I32 :: ir_instr_type where "IR_CMOV_I32 \<equiv> IR_TYPE 138"
abbreviation IR_OPENOUT :: ir_instr_type where "IR_OPENOUT \<equiv> IR_TYPE 139"
abbreviation IR_OPENUP :: ir_instr_type where "IR_OPENUP \<equiv> IR_TYPE 140"
abbreviation IR_OPENIN :: ir_instr_type where "IR_OPENIN \<equiv> IR_TYPE 141"
abbreviation IR_CLOSE :: ir_instr_type where "IR_CLOSE \<equiv> IR_TYPE 142"
abbreviation IR_BGET :: ir_instr_type where "IR_BGET \<equiv> IR_TYPE 143"
abbreviation IR_BPUT :: ir_instr_type where "IR_BPUT \<equiv> IR_TYPE 144"
abbreviation IR_BLOCK_GET :: ir_instr_type where "IR_BLOCK_GET \<equiv> IR_TYPE 145"
abbreviation IR_BLOCK_PUT :: ir_instr_type where "IR_BLOCK_PUT \<equiv> IR_TYPE 146"
abbreviation IR_EOF :: ir_instr_type where "IR_EOF \<equiv> IR_TYPE 147"
abbreviation IR_EXT :: ir_instr_type where "IR_EXT \<equiv> IR_TYPE 148"
abbreviation IR_GET_PTR :: ir_instr_type where "IR_GET_PTR \<equiv> IR_TYPE 149"
abbreviation IR_SET_PTR :: ir_instr_type where "IR_SET_PTR \<equiv> IR_TYPE 150"
abbreviation IR_SIGNX_8_TO_32 :: ir_instr_type where "IR_SIGNX_8_TO_32 \<equiv> IR_TYPE 151"
abbreviation IR_MOV_I8_FP :: ir_instr_type where "IR_MOV_I8_FP \<equiv> IR_TYPE 152"
abbreviation IR_MOV_FP_I32_I32 :: ir_instr_type where "IR_MOV_FP_I32_I32 \<equiv> IR_TYPE 153"
abbreviation IR_OSCLI :: ir_instr_type where "IR_OSCLI \<equiv> IR_TYPE 154"
abbreviation IR_GET_PROC_ADDR :: ir_instr_type where "IR_GET_PROC_ADDR \<equiv> IR_TYPE 155"
abbreviation IR_OS_ARGS :: ir_instr_type where "IR_OS_ARGS \<equiv> IR_TYPE 156"

datatype ir_instr_class =
    CLASS_REG_REG_REG_REG | CLASS_REG_REG_REG | CLASS_FREG_FREG_FREG | CLASS_REG_REG_I32
  | CLASS_FREG_REG_I32 | CLASS_FREG_FREG_REAL | CLASS_REG_LABEL_LABEL | CLASS_REG_FREG_FREG
  | CLASS_REG_FREG_REAL | CLASS_REG_FREG_REG | CLASS_REG_REG_FREG | CLASS_REG_I32 | CLASS_FREG_REAL
  | CLASS_REG_REG | CLASS_FREG_FREG | CLASS_REG_FREG | CLASS_FREG_REG | CLASS_REG | CLASS_FREG
  | CLASS_I32 | CLASS_REAL | CLASS_LABEL | CLASS_NONE

text \<open>The table \<open>op_desc\<close>: the name and the class of every instruction.\<close>

definition op_desc :: "(string \<times> ir_instr_class) list" where
  "op_desc = [
    (''addi32'', CLASS_REG_REG_REG),
    (''addr'', CLASS_FREG_FREG_FREG),
    (''subi32'', CLASS_REG_REG_REG),
    (''subr'', CLASS_FREG_FREG_FREG),
    (''muli32'', CLASS_REG_REG_REG),
    (''mulr'', CLASS_FREG_FREG_FREG),
    (''divi32'', CLASS_REG_REG_REG),
    (''modi32'', CLASS_REG_REG_REG),
    (''divr'', CLASS_FREG_FREG_FREG),
    (''addii32'', CLASS_REG_REG_I32),
    (''addir'', CLASS_FREG_FREG_REAL),
    (''subii32'', CLASS_REG_REG_I32),
    (''subir'', CLASS_FREG_FREG_REAL),
    (''mulii32'', CLASS_REG_REG_I32),
    (''mulir'', CLASS_FREG_FREG_REAL),
    (''divii32'', CLASS_REG_REG_I32),
    (''divir'', CLASS_FREG_FREG_REAL),
    (''loadoi8'', CLASS_REG_REG_I32),
    (''loadoi32'', CLASS_REG_REG_I32),
    (''loador'', CLASS_FREG_REG_I32),
    (''loadi32'', CLASS_REG_REG),
    (''loadr'', CLASS_REG_REG),
    (''storeoi8'', CLASS_REG_REG_I32),
    (''storeoi32'', CLASS_REG_REG_I32),
    (''storeor'', CLASS_FREG_REG_I32),
    (''storei32'', CLASS_REG_REG),
    (''storer'', CLASS_REG_REG),
    (''movii32'', CLASS_REG_I32),
    (''movir'', CLASS_FREG_REAL),
    (''mov'', CLASS_REG_REG),
    (''movfp'', CLASS_FREG_FREG),
    (''printstr'', CLASS_REG_REG),
    (''printnl'', CLASS_NONE),
    (''rsubii32'', CLASS_REG_REG_I32),
    (''rsubir'', CLASS_FREG_FREG_REAL),
    (''rdivir'', CLASS_FREG_FREG_REAL),
    (''andi32'', CLASS_REG_REG_REG),
    (''andii32'', CLASS_REG_REG_I32),
    (''ori32'', CLASS_REG_REG_REG),
    (''orii32'', CLASS_REG_REG_I32),
    (''eori32'', CLASS_REG_REG_REG),
    (''eorii32'', CLASS_REG_REG_I32),
    (''noti32'', CLASS_REG_REG),
    (''eqi32'', CLASS_REG_REG_REG),
    (''eqr'', CLASS_REG_FREG_FREG),
    (''eqii32'', CLASS_REG_REG_I32),
    (''eqir'', CLASS_REG_FREG_REAL),
    (''neqi32'', CLASS_REG_REG_REG),
    (''neqr'', CLASS_REG_FREG_FREG),
    (''neqii32'', CLASS_REG_REG_I32),
    (''neqir'', CLASS_REG_FREG_REAL),
    (''gti32'', CLASS_REG_REG_REG),
    (''gtr'', CLASS_REG_FREG_FREG),
    (''gtii32'', CLASS_REG_REG_I32),
    (''gtir'', CLASS_REG_FREG_REAL),
    (''ltei32'', CLASS_REG_REG_REG),
    (''lter'', CLASS_REG_FREG_FREG),
    (''lteii32'', CLASS_REG_REG_I32),
    (''lteir'', CLASS_REG_FREG_REAL),
    (''lti32'', CLASS_REG_REG_REG),
    (''ltr'', CLASS_REG_FREG_FREG),
    (''ltii32'', CLASS_REG_REG_I32),
    (''ltir'', CLASS_REG_FREG_REAL),
    (''gtei32'', CLASS_REG_REG_REG),
    (''gter'', CLASS_REG_FREG_FREG),
    (''gteii32'', CLASS_REG_REG_I32),
    (''gteir'', CLASS_REG_FREG_REAL),
    (''jmpc'', CLASS_REG_LABEL_LABEL),
    (''jmpcnf'', CLASS_REG_LABEL_LABEL),
    (''jmp'', CLASS_LABEL),
    (''ret'', CLASS_NONE),
    (''reti32'', CLASS_REG),
    (''retii32'', CLASS_I32),
    (''retr'', CLASS_FREG),
    (''retir'', CLASS_REAL),
    (''lsli32'', CLASS_REG_REG_REG),
    (''lslii32'', CLASS_REG_REG_I32),
    (''lsri32'', CLASS_REG_REG_REG),
    (''lsrii32'', CLASS_REG_REG_I32),
    (''asri32'', CLASS_REG_REG_REG),
    (''asrii32'', CLASS_REG_REG_I32),
    (''movi32fp'', CLASS_FREG_REG),
    (''movfpi32'', CLASS_REG_FREG),
    (''movfprdi32'', CLASS_REG_FREG),
    (''nop'', CLASS_NONE),
    (''modei32'', CLASS_REG),
    (''plot'', CLASS_REG_REG_REG),
    (''gcol'', CLASS_REG_REG),
    (''gcoltint'', CLASS_REG_REG_REG),
    (''origin'', CLASS_REG_REG),
    (''gettime'', CLASS_REG),
    (''cls'', CLASS_NONE),
    (''clg'', CLASS_NONE),
    (''on'', CLASS_NONE),
    (''off'', CLASS_NONE),
    (''wait'', CLASS_NONE),
    (''sin'', CLASS_FREG_FREG),
    (''cos'', CLASS_FREG_FREG),
    (''tan'', CLASS_FREG_FREG),
    (''asn'', CLASS_FREG_FREG),
    (''acs'', CLASS_FREG_FREG),
    (''atn'', CLASS_FREG_FREG),
    (''sqr'', CLASS_FREG_FREG),
    (''log'', CLASS_FREG_FREG),
    (''ln'', CLASS_FREG_FREG),
    (''absr'', CLASS_FREG_FREG),
    (''powr'', CLASS_FREG_FREG_FREG),
    (''expr'', CLASS_FREG_FREG),
    (''get'', CLASS_REG),
    (''gettimeout'', CLASS_REG_REG),
    (''inkey'', CLASS_REG_REG),
    (''osbyteid'', CLASS_REG),
    (''vdui'', CLASS_I32),
    (''vdu'', CLASS_REG),
    (''point'', CLASS_REG_REG_REG),
    (''tint'', CLASS_REG_REG_REG),
    (''end'', CLASS_NONE),
    (''testesc'', CLASS_NONE),
    (''alloc'', CLASS_REG_REG),
    (''realloc'', CLASS_REG_REG_REG),
    (''ref'', CLASS_REG),
    (''deref'', CLASS_REG),
    (''getref'', CLASS_REG_REG),
    (''pushi32'', CLASS_REG),
    (''popi32'', CLASS_REG),
    (''lca'', CLASS_REG_I32),
    (''at'', CLASS_REG_REG),
    (''pos'', CLASS_REG),
    (''vpos'', CLASS_REG),
    (''tcol'', CLASS_REG),
    (''tcoltint'', CLASS_REG_REG),
    (''palette'', CLASS_REG_REG_REG_REG),
    (''i32todec'', CLASS_REG_REG_REG),
    (''realtodec'', CLASS_REG_FREG_REG),
    (''i32tohex'', CLASS_REG_REG_REG),
    (''heapfree'', CLASS_REG),
    (''blockfree'', CLASS_REG_REG),
    (''blockadjust'', CLASS_REG_REG),
    (''cmovi32'', CLASS_REG_REG_REG_REG),
    (''openout'', CLASS_REG_REG),
    (''openup'', CLASS_REG_REG),
    (''openin'', CLASS_REG_REG),
    (''close'', CLASS_REG),
    (''bget'', CLASS_REG_REG),
    (''bput'', CLASS_REG_REG),
    (''blockget'', CLASS_REG_REG_REG_REG),
    (''blockput'', CLASS_REG_REG_REG),
    (''eof'', CLASS_REG_REG),
    (''ext'', CLASS_REG_REG),
    (''getptr'', CLASS_REG_REG),
    (''setptr'', CLASS_REG_REG),
    (''signx8to32'', CLASS_REG_REG),
    (''movi8tofp'', CLASS_FREG_REG),
    (''movfptoi32i32'', CLASS_REG_REG_FREG),
    (''oscli'', CLASS_REG),
    (''getprocaddr'', CLASS_REG_I32),
    (''osargs'', CLASS_REG)]"

datatype ir_operand_class =
  OPERAND_REGISTER | OPERAND_FREGISTER | OPERAND_I32 | OPERAND_REAL | OPERAND_LABEL

text \<open>\<open>class_details\<close>: the operands of an instruction of each class; \<open>op_count\<close> is the length of the list.\<close>

primrec class_details :: "ir_instr_class \<Rightarrow> ir_operand_class list" where
  "class_details CLASS_REG_REG_REG_REG = [OPERAND_REGISTER, OPERAND_REGISTER, OPERAND_REGISTER, OPERAND_REGISTER]"
| "class_details CLASS_REG_REG_REG = [OPERAND_REGISTER, OPERAND_REGISTER, OPERAND_REGISTER]"
| "class_details CLASS_FREG_FREG_FREG = [OPERAND_FREGISTER, OPERAND_FREGISTER, OPERAND_FREGISTER]"
| "class_details CLASS_REG_REG_I32 = [OPERAND_REGISTER, OPERAND_REGISTER, OPERAND_I32]"
| "class_details CLASS_FREG_REG_I32 = [OPERAND_FREGISTER, OPERAND_REGISTER, OPERAND_I32]"
| "class_details CLASS_FREG_FREG_REAL = [OPERAND_FREGISTER, OPERAND_FREGISTER, OPERAND_REAL]"
| "class_details CLASS_REG_LABEL_LABEL = [OPERAND_REGISTER, OPERAND_LABEL, OPERAND_LABEL]"
| "class_details CLASS_REG_FREG_FREG = [OPERAND_REGISTER, OPERAND_FREGISTER, OPERAND_FREGISTER]"
| "class_details CLASS_REG_FREG_REAL = [OPERAND_REGISTER, OPERAND_FREGISTER, OPERAND_REAL]"
| "class_details CLASS_REG_FREG_REG = [OPERAND_REGISTER, OPERAND_FREGISTER, OPERAND_REGISTER]"
| "class_details CLASS_REG_REG_FREG = [OPERAND_REGISTER, OPERAND_REGISTER, OPERAND_FREGISTER]"
| "class_details CLASS_REG_I32 = [OPERAND_REGISTER, OPERAND_I32]"
| "class_details CLASS_FREG_REAL = [OPERAND_FREGISTER, OPERAND_REAL]"
| "class_details CLASS_REG_REG = [OPERAND_REGISTER, OPERAND_REGISTER]"
| "class_details CLASS_FREG_FREG = [OPERAND_FREGISTER, OPERAND_FREGISTER]"
| "class_details CLASS_REG_FREG = [OPERAND_REGISTER, OPERAND_FREGISTER]"
| "class_details CLASS_FREG_REG = [OPERAND_FREGISTER, OPERAND_REGISTER]"
| "class_details CLASS_REG = [OPERAND_REGISTER]"
| "class_details CLASS_FREG = [OPERAND_FREGISTER]"
| "class_details CLASS_I32 = [OPERAND_I32]"
| "class_details CLASS_REAL = [OPERAND_REAL]"
| "class_details CLASS_LABEL = [OPERAND_LABEL]"
| "class_details CLASS_NONE = []"

definition instr_operands :: "ir_instr_type \<Rightarrow> ir_operand_class list" where
  "instr_operands type = class_details (snd (op_desc ! ir_number type))"

section \<open>Operands\<close>

text \<open>
  An operand is the union of an \<^verbatim>\<open>int32_t\<close>, a \<^verbatim>\<open>double\<close> and two \<^verbatim>\<open>size_t\<close>: the 64 bits it occupies, on a
  little-endian host. A double is its bit pattern. Storing the integer leaves the upper half of the
  union as it was. The operands of an instruction are an array of four, whose elements are
  indeterminate (\<open>None\<close>) until they are written.
\<close>

type_synonym ir_operand = u64

definition op_integer :: "ir_operand \<Rightarrow> u32" where
  "op_integer op = ucast op"

definition op_reg :: "ir_operand \<Rightarrow> nat" where
  "op_reg op = unat op"

definition op_label :: "ir_operand \<Rightarrow> nat" where
  "op_label op = unat op"

definition set_integer :: "u32 \<Rightarrow> ir_operand \<Rightarrow> ir_operand" where
  "set_integer n op = (op AND NOT (mask 32)) OR ucast n"

definition reg_operand :: "nat \<Rightarrow> ir_operand" where
  "reg_operand r = of_nat r"

definition IR_MAX_OP_ARGS :: nat where
  "IR_MAX_OP_ARGS = 4"

record ir_inst =
  inst_type :: ir_instr_type
  inst_operands :: "ir_operand option list"

definition operand :: "ir_inst \<Rightarrow> nat \<Rightarrow> ir_operand c_result" where
  "operand instr i =
     rbind (array_get (inst_operands instr) i) (\<lambda>op.
     case op of None \<Rightarrow> Inl Undefined | Some op \<Rightarrow> Inr op)"

lemma op_integer_set [simp]: "op_integer (set_integer n op) = n"
  by (rule bit_word_eqI) (auto simp: op_integer_def set_integer_def bit_simps)

lemma op_reg_operand [simp]: "r < 2 ^ 64 \<Longrightarrow> op_reg (reg_operand r) = r"
  by (simp add: op_reg_def reg_operand_def unat_of_nat take_bit_nat_eq_self)

section \<open>Operations\<close>

definition IR_REG_UNDEFINED :: nat where "IR_REG_UNDEFINED = 0"
definition IR_REG_GLOBAL :: nat where "IR_REG_GLOBAL = 1"
definition IR_REG_LOCAL :: nat where "IR_REG_LOCAL = 2"
definition IR_REG_STACK :: nat where "IR_REG_STACK = 3"
definition IR_REG_TEMP_START :: nat where "IR_REG_TEMP_START = 4"

definition SIZE_MAX :: nat where
  "SIZE_MAX = 2 ^ 64 - 1"

datatype ir_reg_type = REG_TYPE_INTEGER | REG_TYPE_REAL

record ir_arg =
  arg_type :: ir_reg_type
  arg_reg :: nat
  arg_nop :: nat

text \<open>The register of a call that returns nothing is never written (\<open>None\<close>).\<close>

record ir_call =
  call_proc_id :: nat
  call_reg :: "nat option"
  call_args :: "ir_arg list"

record ir_sys_out_reg =
  out_reg :: nat
  out_local :: bool

record ir_sys_call =
  sys_call_id :: nat
  sys_in_mask :: u32
  sys_out_mask :: u32
  sys_flags_reg :: nat
  sys_flags_local :: bool
  sys_in_regs :: "nat list"
  sys_out_regs :: "ir_sys_out_reg list"

datatype ir_op =
    OP_INSTR ir_inst
  | OP_LABEL nat
  | OP_CALL ir_call
  | OP_CALLI32 ir_call
  | OP_CALLREAL ir_call
  | OP_CALL_PTR ir_call
  | OP_CALLI32_PTR ir_call
  | OP_CALLREAL_PTR ir_call
  | OP_SYS_CALL ir_sys_call

fun prv_is_call :: "ir_op \<Rightarrow> bool" where
  "prv_is_call (OP_INSTR _) = False"
| "prv_is_call (OP_LABEL _) = False"
| "prv_is_call (OP_SYS_CALL _) = False"
| "prv_is_call _ = True"

section \<open>Sections and programs\<close>

datatype builtin_type =
  BUILTINS_IDIV | BUILTINS_MEMSETI32 | BUILTINS_MEMCPY | BUILTINS_MEMCMP | BUILTINS_COMPARE |
  BUILTINS_MEMSETI8 | BUILTINS_ALLOC | BUILTINS_DEREF | BUILTINS_MEMSETI64 | BUILTINS_MAX

datatype subtilis_type_type =
  TYPE_CONST_REAL | TYPE_CONST_INTEGER | TYPE_CONST_BYTE | TYPE_CONST_STRING | TYPE_REAL |
  TYPE_INTEGER | TYPE_BYTE | TYPE_STRING | TYPE_VOID | TYPE_FN | TYPE_ARRAY_REAL |
  TYPE_ARRAY_INTEGER | TYPE_ARRAY_BYTE | TYPE_ARRAY_STRING | TYPE_ARRAY_FN | TYPE_ARRAY_REC |
  TYPE_VECTOR_REAL | TYPE_VECTOR_INTEGER | TYPE_VECTOR_BYTE | TYPE_VECTOR_STRING | TYPE_VECTOR_FN |
  TYPE_VECTOR_REC | TYPE_REC | TYPE_LOCAL_BUFFER | TYPE_TYPEDEF

datatype ir_section_type = SECTION_IR | SECTION_BACKEND_BUILTIN | SECTION_ASM

text \<open>Of the type of a section, the numbers of parameter registers and the kind of its result.\<close>

record type_section =
  ts_ret_val :: subtilis_type_type
  ts_int_regs :: nat
  ts_fp_regs :: nat

record handler =
  hd_level :: nat
  hd_label :: nat

record ir_section =
  ir_section_type :: ir_section_type
  ir_type :: type_section
  ir_locals :: nat
  ir_reg_counter :: nat
  ir_freg_counter :: nat
  ir_label_counter :: nat
  ir_ftype :: builtin_type
  ir_ops :: "ir_op cvec"
  ir_in_error_handler :: bool
  ir_error_ops :: "ir_op cvec"
  ir_handler_list :: "handler list"
  ir_handler_offset :: nat
  ir_eflag_offset :: u32
  ir_error_offset :: u32
  ir_end_label :: nat
  ir_nofree_label :: nat
  ir_ret_reg :: nat
  ir_array_access :: nat
  ir_cleanup_stack :: nat
  ir_cleanup_stack_nop :: nat
  ir_cleanup_stack_reg :: nat

text \<open>The table of sections is an array of pointers, \<open>None\<close> for the null pointer.\<close>

record ir_prog =
  ip_sections :: "ir_section option list"
  ip_max_sections :: nat
  ip_string_pool :: string_pool
  ip_constant_pool :: constant_pool
  ip_lambdas :: nat

type_synonym ir_s = "ir_section \<times> allocs"

definition CONFIG_PROGRAM_GRAN :: nat where
  "CONFIG_PROGRAM_GRAN = 4096"

definition prv_ir_section_new :: "type_section \<Rightarrow> ir_section" where
  "prv_ir_section_new tp =
     \<lparr>ir_section_type = SECTION_IR, ir_type = tp, ir_locals = 0,
      ir_reg_counter = IR_REG_TEMP_START, ir_freg_counter = 0, ir_label_counter = 0,
      ir_ftype = BUILTINS_MAX, ir_ops = vec_empty, ir_in_error_handler = False, ir_error_ops = vec_empty,
      ir_handler_list = [], ir_handler_offset = 0, ir_eflag_offset = 0, ir_error_offset = 0,
      ir_end_label = 0, ir_nofree_label = 0, ir_ret_reg = 0, ir_array_access = SIZE_MAX,
      ir_cleanup_stack = SIZE_MAX, ir_cleanup_stack_nop = SIZE_MAX, ir_cleanup_stack_reg = SIZE_MAX\<rparr>"

subsection \<open>The list of error handlers\<close>

definition subtilis_handler_list_truncate :: "handler list \<Rightarrow> nat \<Rightarrow> handler list" where
  "subtilis_handler_list_truncate hs level = dropWhile (\<lambda>h. level < hd_level h) hs"

definition subtilis_handler_list_update ::
    "handler list \<Rightarrow> nat \<Rightarrow> nat \<Rightarrow> allocs \<Rightarrow> (handler list \<times> allocs) c_result" where
  "subtilis_handler_list_update hs level label al =
     (case hs of
        [] \<Rightarrow> rbind (alloc al) (\<lambda>al. Inr ([\<lparr>hd_level = level, hd_label = label\<rparr>], al))
      | h # hs' \<Rightarrow>
          if level > hd_level h then
            rbind (alloc al) (\<lambda>al. Inr (\<lparr>hd_level = level, hd_label = label\<rparr> # hs, al))
          else if level < hd_level h then Inl assertion_failed
          else Inr (h\<lparr>hd_label := label\<rparr> # hs', al))"

subsection \<open>Appending operations\<close>

text \<open>
  \<^verbatim>\<open>prv_ensure_buffer\<close> and \<^verbatim>\<open>prv_ensure_error_buffer\<close> make room in one of the two arrays of a section;
  the operation is then allocated and stored.
\<close>

definition prv_ensure_buffer :: "ir_op cvec \<Rightarrow> allocs \<Rightarrow> (ir_op cvec \<times> allocs) c_result" where
  "prv_ensure_buffer v al =
     (if length (vec_items v) < vec_max v then Inr (v, al)
      else rbind (alloc al) (\<lambda>al. Inr (v\<lparr>vec_max := vec_max v + CONFIG_PROGRAM_GRAN\<rparr>, al)))"

definition vec_put :: "'a \<Rightarrow> 'a cvec \<Rightarrow> 'a cvec c_result" where
  "vec_put x v = (if length (vec_items v) < vec_max v then Inr (v\<lparr>vec_items := vec_items v @ [x]\<rparr>) else Inl Undefined)"

definition add_op :: "ir_op \<Rightarrow> (unit, ir_s) c_state" where
  "add_op op = (\<lambda>(s, al).
     rbind (prv_ensure_buffer (if ir_in_error_handler s then ir_error_ops s else ir_ops s) al) (\<lambda>(v, al).
     rbind (alloc al) (\<lambda>al.
     rbind (vec_put op v) (\<lambda>v.
       Inr ((), (if ir_in_error_handler s then s\<lparr>ir_error_ops := v\<rparr> else s\<lparr>ir_ops := v\<rparr>, al))))))"

definition subtilis_ir_section_add_instr_reg ::
    "ir_instr_type \<Rightarrow> ir_operand \<Rightarrow> ir_operand \<Rightarrow> ir_operand \<Rightarrow> (unit, ir_s) c_state" where
  "subtilis_ir_section_add_instr_reg type op0 op1 op2 =
     add_op (OP_INSTR \<lparr>inst_type = type, inst_operands = [Some op0, Some op1, Some op2, None]\<rparr>)"

definition subtilis_ir_section_add_instr4 ::
    "ir_instr_type \<Rightarrow> ir_operand \<Rightarrow> ir_operand \<Rightarrow> ir_operand \<Rightarrow> ir_operand \<Rightarrow> (unit, ir_s) c_state" where
  "subtilis_ir_section_add_instr4 type op0 op1 op2 op3 =
     add_op (OP_INSTR \<lparr>inst_type = type, inst_operands = [Some op0, Some op1, Some op2, Some op3]\<rparr>)"

definition subtilis_ir_section_add_instr :: "ir_instr_type \<Rightarrow> ir_operand \<Rightarrow> ir_operand \<Rightarrow> (nat, ir_s) c_state" where
  "subtilis_ir_section_add_instr type op1 op2 = (\<lambda>(s, al).
     case instr_operands type of
       [] \<Rightarrow> Inl assertion_failed
     | OPERAND_REGISTER # _ \<Rightarrow>
         rbind (subtilis_ir_section_add_instr_reg type (reg_operand (ir_reg_counter s)) op1 op2 (s, al)) (\<lambda>(_, s', al).
         Inr (ir_reg_counter s, s'\<lparr>ir_reg_counter := ir_reg_counter s' + 1\<rparr>, al))
     | OPERAND_FREGISTER # _ \<Rightarrow>
         rbind (subtilis_ir_section_add_instr_reg type (reg_operand (ir_freg_counter s)) op1 op2 (s, al)) (\<lambda>(_, s', al).
         Inr (ir_freg_counter s, s'\<lparr>ir_freg_counter := ir_freg_counter s' + 1\<rparr>, al))
     | _ \<Rightarrow> Inl assertion_failed)"

definition subtilis_ir_section_add_instr2 :: "ir_instr_type \<Rightarrow> ir_operand \<Rightarrow> (nat, ir_s) c_state" where
  "subtilis_ir_section_add_instr2 type op1 = subtilis_ir_section_add_instr type op1 0"

definition subtilis_ir_section_add_instr1 :: "ir_instr_type \<Rightarrow> (nat, ir_s) c_state" where
  "subtilis_ir_section_add_instr1 type = subtilis_ir_section_add_instr type 0 0"

definition subtilis_ir_section_add_instr_no_reg :: "ir_instr_type \<Rightarrow> ir_operand \<Rightarrow> (unit, ir_s) c_state" where
  "subtilis_ir_section_add_instr_no_reg type op0 = subtilis_ir_section_add_instr_reg type op0 0 0"

definition subtilis_ir_section_add_instr_no_reg2 :: "ir_instr_type \<Rightarrow> ir_operand \<Rightarrow> ir_operand \<Rightarrow> (unit, ir_s) c_state" where
  "subtilis_ir_section_add_instr_no_reg2 type op0 op1 = subtilis_ir_section_add_instr_reg type op0 op1 0"

definition subtilis_ir_section_add_instr_no_arg :: "ir_instr_type \<Rightarrow> (unit, ir_s) c_state" where
  "subtilis_ir_section_add_instr_no_arg type = subtilis_ir_section_add_instr_no_reg type 0"

text \<open>The position returned is that of \<^verbatim>\<open>ops\<close> also when the operation goes to \<^verbatim>\<open>error_ops\<close>.\<close>

definition subtilis_ir_section_add_nop :: "(nat, ir_s) c_state" where
  "subtilis_ir_section_add_nop = (\<lambda>(s, al).
     rbind (add_op (OP_INSTR \<lparr>inst_type = IR_NOP, inst_operands = replicate IR_MAX_OP_ARGS None\<rparr>) (s, al)) (\<lambda>(_, sal).
     Inr (length (vec_items (ir_ops s)), sal)))"

definition subtilis_ir_section_promote_nop :: "nat \<Rightarrow> ir_instr_type \<Rightarrow> nat \<Rightarrow> (nat, ir_s) c_state" where
  "subtilis_ir_section_promote_nop nop type op1 = (\<lambda>(s, al).
     rbind (ensure (\<not> ir_in_error_handler s
         \<and> type \<in> {IR_MOV_I32_FP, IR_MOV_FP_I32, IR_SIGNX_8_TO_32, IR_MOV_I8_FP}) assertion_failed) (\<lambda>_.
     rbind (ensure (nop < length (vec_items (ir_ops s))) assertion_failed) (\<lambda>_.
     case vec_items (ir_ops s) ! nop of
       OP_INSTR instr \<Rightarrow>
         rbind (ensure (inst_type instr = IR_NOP) assertion_failed) (\<lambda>_.
         let real = type \<in> {IR_MOV_I32_FP, IR_MOV_I8_FP};
             reg = (if real then ir_freg_counter s else ir_reg_counter s);
             s = (if real then s\<lparr>ir_freg_counter := reg + 1\<rparr> else s\<lparr>ir_reg_counter := reg + 1\<rparr>);
             instr = instr\<lparr>inst_type := type,
               inst_operands := (inst_operands instr)[0 := Some (reg_operand reg), 1 := Some (reg_operand op1)]\<rparr>
         in Inr (reg, s\<lparr>ir_ops := (ir_ops s)\<lparr>vec_items := (vec_items (ir_ops s))[nop := OP_INSTR instr]\<rparr>\<rparr>, al))
     | _ \<Rightarrow> Inl assertion_failed)))"

definition subtilis_ir_section_new_label :: "(nat, ir_s) c_state" where
  "subtilis_ir_section_new_label = (\<lambda>(s, al). Inr (ir_label_counter s, s\<lparr>ir_label_counter := ir_label_counter s + 1\<rparr>, al))"

definition subtilis_ir_section_add_label :: "nat \<Rightarrow> (unit, ir_s) c_state" where
  "subtilis_ir_section_add_label l = add_op (OP_LABEL l)"

subsection \<open>Calls\<close>

definition prv_add_call :: "(ir_call \<Rightarrow> ir_op) \<Rightarrow> ir_arg list \<Rightarrow> nat option \<Rightarrow> nat \<Rightarrow> (unit, ir_s) c_state" where
  "prv_add_call type args reg proc_id =
     add_op (type \<lparr>call_proc_id = proc_id, call_reg = reg, call_args = args\<rparr>)"

text \<open>
  The register of a call with a result is written into the operation once it has been appended
  (\<^verbatim>\<open>prv_get_i32_call_reg\<close>, \<^verbatim>\<open>prv_get_real_call_reg\<close>); nothing looks at the operation in between.
\<close>

definition add_i32_call :: "(ir_call \<Rightarrow> ir_op) \<Rightarrow> ir_arg list \<Rightarrow> nat \<Rightarrow> (nat, ir_s) c_state" where
  "add_i32_call type args proc_id = (\<lambda>(s, al).
     rbind (prv_add_call type args (Some (ir_reg_counter s)) proc_id (s, al)) (\<lambda>(_, s', al).
     Inr (ir_reg_counter s', s'\<lparr>ir_reg_counter := ir_reg_counter s' + 1\<rparr>, al)))"

definition add_real_call :: "(ir_call \<Rightarrow> ir_op) \<Rightarrow> ir_arg list \<Rightarrow> nat \<Rightarrow> (nat, ir_s) c_state" where
  "add_real_call type args proc_id = (\<lambda>(s, al).
     rbind (prv_add_call type args (Some (ir_freg_counter s)) proc_id (s, al)) (\<lambda>(_, s', al).
     Inr (ir_freg_counter s', s'\<lparr>ir_freg_counter := ir_freg_counter s' + 1\<rparr>, al)))"

definition subtilis_ir_section_add_call :: "ir_arg list \<Rightarrow> (unit, ir_s) c_state" where
  "subtilis_ir_section_add_call args = prv_add_call OP_CALL args None 0"

definition subtilis_ir_section_add_i32_call :: "ir_arg list \<Rightarrow> (nat, ir_s) c_state" where
  "subtilis_ir_section_add_i32_call args = add_i32_call OP_CALLI32 args 0"

definition subtilis_ir_section_add_real_call :: "ir_arg list \<Rightarrow> (nat, ir_s) c_state" where
  "subtilis_ir_section_add_real_call args = add_real_call OP_CALLREAL args 0"

definition subtilis_ir_section_add_call_ptr :: "ir_arg list \<Rightarrow> nat \<Rightarrow> (unit, ir_s) c_state" where
  "subtilis_ir_section_add_call_ptr args ptr = prv_add_call OP_CALL_PTR args None ptr"

definition subtilis_ir_section_add_i32_call_ptr :: "ir_arg list \<Rightarrow> nat \<Rightarrow> (nat, ir_s) c_state" where
  "subtilis_ir_section_add_i32_call_ptr args ptr = add_i32_call OP_CALLI32_PTR args ptr"

definition subtilis_ir_section_add_real_call_ptr :: "ir_arg list \<Rightarrow> nat \<Rightarrow> (nat, ir_s) c_state" where
  "subtilis_ir_section_add_real_call_ptr args ptr = add_real_call OP_CALLREAL_PTR args ptr"

definition subtilis_ir_section_add_sys_call :: "ir_sys_call \<Rightarrow> (unit, ir_s) c_state" where
  "subtilis_ir_section_add_sys_call c = add_op (OP_SYS_CALL c)"

text \<open>The address of a procedure that is not known yet; the second result is where to patch it in.\<close>

definition subtilis_ir_section_add_get_partial_addr :: "(nat \<times> nat, ir_s) c_state" where
  "subtilis_ir_section_add_get_partial_addr =
     sbind (subtilis_ir_section_add_instr2 IR_GET_PROC_ADDR (reg_operand SIZE_MAX)) (\<lambda>call_reg (s, al).
     Inr ((call_reg, length (vec_items (if ir_in_error_handler s then ir_error_ops s else ir_ops s)) - 1), s, al))"

subsection \<open>Merging the error handlers\<close>

text \<open>The two arrays become one; the array of error handlers is freed.\<close>

definition subtilis_ir_merge_errors :: "(unit, ir_s) c_state" where
  "subtilis_ir_merge_errors = (\<lambda>(s, al).
     rbind (each (\<lambda>op (v, al). rbind (prv_ensure_buffer v al) (\<lambda>(v, al). rbind (vec_put op v) (\<lambda>v. Inr (v, al))))
              (vec_items (ir_error_ops s)) (ir_ops s, al)) (\<lambda>(v, al).
     Inr ((), s\<lparr>ir_handler_offset := length (vec_items (ir_ops s)), ir_ops := v, ir_error_ops := vec_empty\<rparr>, al)))"

section \<open>Programs\<close>

definition subtilis_ir_prog_new :: "allocs \<Rightarrow> (ir_prog \<times> allocs) c_result" where
  "subtilis_ir_prog_new al =
     rbind (alloc al) (\<lambda>al.
     rbind (subtilis_string_pool_new al) (\<lambda>(strings, al).
     rbind (subtilis_constant_pool_new al) (\<lambda>(constants, al).
     Inr (\<lparr>ip_sections = [], ip_max_sections = 0, ip_string_pool = strings,
           ip_constant_pool = constants, ip_lambdas = 0\<rparr>, al))))"

text \<open>The register that holds the result, and the counters after it; \<open>None\<close> where the code asserts.\<close>

definition ret_reg_of :: "ir_section \<Rightarrow> ir_section option" where
  "ret_reg_of s =
     (let t = ts_ret_val (ir_type s) in
      if t = TYPE_VOID then Some (s\<lparr>ir_ret_reg := SIZE_MAX\<rparr>)
      else if t = TYPE_REAL then Some (s\<lparr>ir_ret_reg := ir_freg_counter s, ir_freg_counter := ir_freg_counter s + 1\<rparr>)
      else if t \<in> {TYPE_INTEGER, TYPE_BYTE, TYPE_ARRAY_REAL, TYPE_ARRAY_INTEGER, TYPE_ARRAY_BYTE, TYPE_ARRAY_STRING,
          TYPE_ARRAY_FN, TYPE_ARRAY_REC, TYPE_VECTOR_REAL, TYPE_VECTOR_INTEGER, TYPE_VECTOR_BYTE, TYPE_VECTOR_STRING,
          TYPE_VECTOR_FN, TYPE_VECTOR_REC, TYPE_STRING, TYPE_FN, TYPE_REC}
        then Some (s\<lparr>ir_ret_reg := ir_reg_counter s, ir_reg_counter := ir_reg_counter s + 1\<rparr>)
      else None)"

text \<open>
  When the index of the name is beyond the table, the table is enlarged with null pointers up to the
  new number of sections.
\<close>

definition prv_ir_prog_section_new ::
    "string \<Rightarrow> ir_section_type \<Rightarrow> nat \<Rightarrow> type_section \<Rightarrow> builtin_type \<Rightarrow> u32 \<Rightarrow> u32
      \<Rightarrow> (nat, ir_prog \<times> allocs) c_state" where
  "prv_ir_prog_section_new name section_type locals tp ftype eflag_offset error_offset = (\<lambda>(p, al).
     rbind (alloc al) (\<lambda>al.
     let s = prv_ir_section_new tp;
         regs = ir_reg_counter s + ts_int_regs tp;
         s = s\<lparr>ir_section_type := section_type, ir_eflag_offset := eflag_offset, ir_error_offset := error_offset,
               ir_cleanup_stack_reg := regs, ir_reg_counter := regs + 1,
               ir_freg_counter := ir_freg_counter s + ts_fp_regs tp, ir_ftype := ftype\<rparr>
     in rbind (subtilis_string_pool_register name (ip_string_pool p, al)) (\<lambda>(index, strings, al).
     let p = p\<lparr>ip_string_pool := strings\<rparr>
     in rbind (if index < length (ip_sections p) then
                 rbind (ensure (ip_sections p ! index = None) (Error ERROR_ALREADY_DEFINED)) (\<lambda>_. Inr (p, al))
               else
                 rbind (if index \<ge> ip_max_sections p then
                          rbind (alloc al) (\<lambda>al.
                            Inr (p\<lparr>ip_max_sections := max (ip_max_sections p + CONFIG_PROC_GRAN) (index + 1)\<rparr>, al))
                        else Inr (p, al)) (\<lambda>(p, al).
                 Inr (p\<lparr>ip_sections := ip_sections p @ replicate (index + 1 - length (ip_sections p)) None\<rparr>, al)))
       (\<lambda>(p, al).
     let s = s\<lparr>ir_locals := locals, ir_end_label := 0, ir_nofree_label := 1, ir_label_counter := 2\<rparr>
     in case ret_reg_of s of
          None \<Rightarrow> Inl assertion_failed
        | Some s \<Rightarrow> Inr (index, p\<lparr>ip_sections := (ip_sections p)[index := Some s]\<rparr>, al)))))"

definition subtilis_ir_prog_section_new ::
    "string \<Rightarrow> nat \<Rightarrow> type_section \<Rightarrow> builtin_type \<Rightarrow> u32 \<Rightarrow> u32 \<Rightarrow> (nat, ir_prog \<times> allocs) c_state" where
  "subtilis_ir_prog_section_new name locals tp ftype eflag_offset error_offset =
     prv_ir_prog_section_new name (if ftype = BUILTINS_MAX then SECTION_IR else SECTION_BACKEND_BUILTIN)
       locals tp ftype eflag_offset error_offset"

definition subtilis_ir_prog_asm_section_new ::
    "string \<Rightarrow> type_section \<Rightarrow> u32 \<Rightarrow> u32 \<Rightarrow> (nat, ir_prog \<times> allocs) c_state" where
  "subtilis_ir_prog_asm_section_new name tp eflag_offset error_offset =
     prv_ir_prog_section_new name SECTION_ASM 0 tp BUILTINS_MAX eflag_offset error_offset"

definition subtilis_ir_prog_find_section :: "ir_prog \<Rightarrow> string \<Rightarrow> ir_section option" where
  "subtilis_ir_prog_find_section p name =
     (case subtilis_string_pool_find (ip_string_pool p) name of
        None \<Rightarrow> None
      | Some index \<Rightarrow> if index < length (ip_sections p) then ip_sections p ! index else None)"

end
