(* ===== verification/Ir_Vm.thy ===== *)
theory Ir_Vm
  imports Ir Buffer Vm_Heap "HOL-Library.Signed_Division"
begin

text \<open>
  The interpreter of the intermediate representation (frontend/vm.c): its state, every instruction
  that works on registers, memory and the heap, jumps, calls and returns, the built-in procedures
  and the loop that runs a program.

  A double is its bit pattern, and what the host computes with doubles is an argument (\<open>ir_host\<close>), as
  are the contents of memory that has been allocated but not written, and the instructions that are
  calls of the operating system: the clock, the keyboard, files and \<^verbatim>\<open>OSCLI\<close>. Integer arithmetic of
  the interpreter is C's: a signed overflow, a shift by 32 or more, an access outside an array are
  \<open>Undefined\<close>. The shift of a negative number is what the compilers make of it. The interpreter's
  pointer to the current section always is that of its index, and is left out.
\<close>

section \<open>The state\<close>

record ir_vm =
  iv_regs :: "u32 list"
  iv_fregs :: "u64 list"
  iv_memory :: "u8 list"
  iv_index :: nat
  iv_pc :: u64
  iv_labels :: "u64 list"
  iv_top :: nat
  iv_quit :: bool
  iv_heap :: vm_heap
  iv_constants :: "nat list"
  iv_cmd_line_ptr :: nat
  iv_out :: buffer
  iv_allocs :: allocs

text \<open>
  What the interpreter takes from the host: operations on doubles, the conversion of a double, when
  it fits an integer, the comparison of memory blocks, the contents of fresh memory, and the
  instructions that call the operating system.
\<close>

record ir_host =
  host_add :: "u64 \<Rightarrow> u64 \<Rightarrow> u64"
  host_sub :: "u64 \<Rightarrow> u64 \<Rightarrow> u64"
  host_mul :: "u64 \<Rightarrow> u64 \<Rightarrow> u64"
  host_div :: "u64 \<Rightarrow> u64 \<Rightarrow> u64"
  host_pow :: "u64 \<Rightarrow> u64 \<Rightarrow> u64"
  host_eq :: "u64 \<Rightarrow> u64 \<Rightarrow> bool"
  host_gt :: "u64 \<Rightarrow> u64 \<Rightarrow> bool"
  host_le :: "u64 \<Rightarrow> u64 \<Rightarrow> bool"
  host_lt :: "u64 \<Rightarrow> u64 \<Rightarrow> bool"
  host_ge :: "u64 \<Rightarrow> u64 \<Rightarrow> bool"
  host_of_int :: "int \<Rightarrow> u64"
  host_to_i32 :: "u64 \<Rightarrow> u32 option"
  host_floor :: "u64 \<Rightarrow> u64"
  host_sin :: "u64 \<Rightarrow> u64"
  host_cos :: "u64 \<Rightarrow> u64"
  host_tan :: "u64 \<Rightarrow> u64"
  host_asin :: "u64 \<Rightarrow> u64"
  host_acos :: "u64 \<Rightarrow> u64"
  host_atan :: "u64 \<Rightarrow> u64"
  host_sqrt :: "u64 \<Rightarrow> u64"
  host_log10 :: "u64 \<Rightarrow> u64"
  host_log :: "u64 \<Rightarrow> u64"
  host_fabs :: "u64 \<Rightarrow> u64"
  host_exp :: "u64 \<Rightarrow> u64"
  host_strncmp :: "u8 list \<Rightarrow> u8 list \<Rightarrow> nat \<Rightarrow> u32"
  host_fresh :: "nat \<Rightarrow> u64"
  host_os :: "ir_instr_type \<Rightarrow> ir_inst \<Rightarrow> ir_vm \<Rightarrow> ir_vm c_result"

text \<open>The value of a \<^verbatim>\<open>double\<close> constant \<open>0.0\<close>.\<close>

definition real_zero :: u64 where
  "real_zero = 0"

definition CONFIG_LABEL_GRAN :: nat where
  "CONFIG_LABEL_GRAN = CONFIG_PROGRAM_GRAN div 4"

definition SUBTILIS_VM_HEAP_SIZE :: nat where
  "SUBTILIS_VM_HEAP_SIZE = 32 * 1024"

section \<open>Registers, operands and memory\<close>

text \<open>An \<^verbatim>\<open>int32_t\<close> that does not fit is undefined behaviour.\<close>

definition i32 :: "int \<Rightarrow> u32 c_result" where
  "i32 k = (if - (2 ^ 31) \<le> k \<and> k < 2 ^ 31 then Inr (word_of_int k) else Inl Undefined)"

text \<open>An index of C: a negative one is outside every array.\<close>

definition array_at :: "'a list \<Rightarrow> int \<Rightarrow> 'a c_result" where
  "array_at xs i = (if i < 0 then Inl Undefined else array_get xs (nat i))"

definition reg_at :: "nat \<Rightarrow> ir_vm \<Rightarrow> u32 c_result" where
  "reg_at r vm = array_get (iv_regs vm) r"

definition freg_at :: "nat \<Rightarrow> ir_vm \<Rightarrow> u64 c_result" where
  "freg_at r vm = array_get (iv_fregs vm) r"

definition set_reg_at :: "nat \<Rightarrow> u32 \<Rightarrow> ir_vm \<Rightarrow> ir_vm c_result" where
  "set_reg_at r v vm = rbind (array_set (iv_regs vm) r v) (\<lambda>rs. Inr (vm\<lparr>iv_regs := rs\<rparr>))"

definition set_freg_at :: "nat \<Rightarrow> u64 \<Rightarrow> ir_vm \<Rightarrow> ir_vm c_result" where
  "set_freg_at r v vm = rbind (array_set (iv_fregs vm) r v) (\<lambda>rs. Inr (vm\<lparr>iv_fregs := rs\<rparr>))"

text \<open>
  The ways in which the functions of the interpreter read operand \<open>i\<close>: the register whose number is
  the operand, the register whose number is taken from the integer of the union, the integer itself,
  the floating point register and the double.
\<close>

type_synonym 'a ir_source = "ir_inst \<Rightarrow> nat \<Rightarrow> ir_vm \<Rightarrow> 'a c_result"

definition src_reg :: "u32 ir_source" where
  "src_reg instr i vm = rbind (operand instr i) (\<lambda>op. reg_at (op_reg op) vm)"

definition src_int_reg :: "u32 ir_source" where
  "src_int_reg instr i vm = rbind (operand instr i) (\<lambda>op. array_at (iv_regs vm) (sint (op_integer op)))"

definition src_imm :: "u32 ir_source" where
  "src_imm instr i vm = rbind (operand instr i) (\<lambda>op. Inr (op_integer op))"

definition src_freg :: "u64 ir_source" where
  "src_freg instr i vm = rbind (operand instr i) (\<lambda>op. freg_at (op_reg op) vm)"

definition src_real :: "u64 ir_source" where
  "src_real instr i vm = operand instr i"

definition put_reg :: "ir_inst \<Rightarrow> nat \<Rightarrow> u32 \<Rightarrow> ir_vm \<Rightarrow> ir_vm c_result" where
  "put_reg instr i v vm = rbind (operand instr i) (\<lambda>op. set_reg_at (op_reg op) v vm)"

definition put_freg :: "ir_inst \<Rightarrow> nat \<Rightarrow> u64 \<Rightarrow> ir_vm \<Rightarrow> ir_vm c_result" where
  "put_freg instr i v vm = rbind (operand instr i) (\<lambda>op. set_freg_at (op_reg op) v vm)"

text \<open>Blocks of memory; a C index is an \<^verbatim>\<open>int32_t\<close>.\<close>

definition mem_get :: "int \<Rightarrow> nat \<Rightarrow> ir_vm \<Rightarrow> u8 list c_result" where
  "mem_get a n vm = (if a < 0 then Inl Undefined else get_block (nat a) n (iv_memory vm))"

definition mem_put :: "int \<Rightarrow> u8 list \<Rightarrow> ir_vm \<Rightarrow> ir_vm c_result" where
  "mem_put a bs vm =
     (if a < 0 then Inl Undefined
      else rbind (put_block (nat a) bs (iv_memory vm)) (\<lambda>m. Inr (vm\<lparr>iv_memory := m\<rparr>)))"

definition dword_bytes :: "u64 \<Rightarrow> u8 list" where
  "dword_bytes w = word_bytes (ucast w) @ word_bytes (ucast (drop_bit 32 w))"

definition word_of_bytes :: "u8 list \<Rightarrow> u32" where
  "word_of_bytes bs = bytes_word (bs ! 0) (bs ! 1) (bs ! 2) (bs ! 3)"

definition dword_of_bytes :: "u8 list \<Rightarrow> u64" where
  "dword_of_bytes bs = ucast (word_of_bytes (take 4 bs)) OR push_bit 32 (ucast (word_of_bytes (drop 4 bs)))"

definition mem_get32 :: "int \<Rightarrow> ir_vm \<Rightarrow> u32 c_result" where
  "mem_get32 a vm = rbind (mem_get a 4 vm) (\<lambda>bs. Inr (word_of_bytes bs))"

definition mem_get64 :: "int \<Rightarrow> ir_vm \<Rightarrow> u64 c_result" where
  "mem_get64 a vm = rbind (mem_get a 8 vm) (\<lambda>bs. Inr (dword_of_bytes bs))"

text \<open>The \<^verbatim>\<open>size_t\<close> an \<^verbatim>\<open>int32_t\<close> converts to.\<close>

definition size_of_i32 :: "u32 \<Rightarrow> nat" where
  "size_of_i32 w = unat (scast w :: u64)"

definition section_at :: "ir_prog \<Rightarrow> nat \<Rightarrow> ir_section c_result" where
  "section_at p i =
     rbind (array_get (ip_sections p) i) (\<lambda>s. case s of None \<Rightarrow> Inl Undefined | Some s \<Rightarrow> Inr s)"

section \<open>Labels and the stack\<close>

definition prv_ensure_label_buffer :: "ir_host \<Rightarrow> nat \<Rightarrow> ir_vm \<Rightarrow> ir_vm c_result" where
  "prv_ensure_label_buffer h label vm =
     (if label < length (iv_labels vm) then Inr vm
      else rbind (alloc (iv_allocs vm)) (\<lambda>al.
        let new_max = label + CONFIG_LABEL_GRAN
        in Inr (vm\<lparr>iv_labels := iv_labels vm @ map (host_fresh h) [length (iv_labels vm)..<new_max], iv_allocs := al\<rparr>)))"

definition prv_compute_labels :: "ir_host \<Rightarrow> ir_section \<Rightarrow> ir_vm \<Rightarrow> ir_vm c_result" where
  "prv_compute_labels h s vm =
     each (\<lambda>(i, op) vm.
         case op of
           OP_LABEL label \<Rightarrow>
             rbind (prv_ensure_label_buffer h label vm) (\<lambda>vm.
             rbind (array_set (iv_labels vm) label (of_nat i)) (\<lambda>ls. Inr (vm\<lparr>iv_labels := ls\<rparr>)))
         | _ \<Rightarrow> Inr vm)
       (enumerate 0 (vec_items (ir_ops s))) vm"

definition prv_reserve_stack :: "ir_host \<Rightarrow> nat \<Rightarrow> ir_vm \<Rightarrow> ir_vm c_result" where
  "prv_reserve_stack h bytes vm =
     (let needed = iv_top vm + bytes in
      if needed \<le> length (iv_memory vm) then Inr vm
      else let new_max = max (length (iv_memory vm) + 4096) needed
           in rbind (alloc (iv_allocs vm)) (\<lambda>al.
              Inr (vm\<lparr>iv_memory := iv_memory vm @ map (\<lambda>i. ucast (host_fresh h i)) [length (iv_memory vm)..<new_max],
                      iv_allocs := al\<rparr>)))"

text \<open>Bytes stored at the top of the stack.\<close>

definition push_bytes :: "u8 list \<Rightarrow> ir_vm \<Rightarrow> ir_vm c_result" where
  "push_bytes bs vm = rbind (mem_put (int (iv_top vm)) bs vm) (\<lambda>vm. Inr (vm\<lparr>iv_top := iv_top vm + length bs\<rparr>))"

text \<open>A \<^verbatim>\<open>size_t\<close> that is decreased below zero wraps around to an address outside the memory.\<close>

definition pop_bytes :: "nat \<Rightarrow> ir_vm \<Rightarrow> (u8 list \<times> ir_vm) c_result" where
  "pop_bytes n vm =
     (if iv_top vm < n then Inl Undefined
      else rbind (mem_get (int (iv_top vm - n)) n vm) (\<lambda>bs. Inr (bs, vm\<lparr>iv_top := iv_top vm - n\<rparr>)))"

definition prv_generate_error :: "ir_section \<Rightarrow> u32 \<Rightarrow> ir_vm \<Rightarrow> ir_vm c_result" where
  "prv_generate_error s code vm =
     rbind (reg_at IR_REG_GLOBAL vm) (\<lambda>base.
     rbind (i32 (sint base + sint (ir_eflag_offset s))) (\<lambda>a.
     rbind (mem_put (sint a) [-1] vm) (\<lambda>vm.
     rbind (i32 (sint base + sint (ir_error_offset s))) (\<lambda>a.
     mem_put (sint a) (word_bytes code) vm))))"

definition ERROR_CODE_OOM :: u32 where "ERROR_CODE_OOM = 11"
definition ERROR_CODE_DIV_BY_ZERO :: u32 where "ERROR_CODE_DIV_BY_ZERO = 18"
definition ERROR_CODE_LOG_RANGE :: u32 where "ERROR_CODE_LOG_RANGE = 22"
definition ERROR_CODE_BUFFER_OVERFLOW :: u32 where "ERROR_CODE_BUFFER_OVERFLOW = 484"

section \<open>Arithmetic, comparisons and moves\<close>

definition int_op :: "(u32 \<Rightarrow> u32 \<Rightarrow> u32 c_result) \<Rightarrow> u32 ir_source \<Rightarrow> u32 ir_source \<Rightarrow> ir_inst \<Rightarrow> ir_vm \<Rightarrow> ir_vm c_result" where
  "int_op f src1 src2 instr vm =
     rbind (src1 instr 1 vm) (\<lambda>a.
     rbind (src2 instr 2 vm) (\<lambda>b.
     rbind (f a b) (\<lambda>v. put_reg instr 0 v vm)))"

definition real_op :: "(u64 \<Rightarrow> u64 \<Rightarrow> u64) \<Rightarrow> u64 ir_source \<Rightarrow> u64 ir_source \<Rightarrow> ir_inst \<Rightarrow> ir_vm \<Rightarrow> ir_vm c_result" where
  "real_op f src1 src2 instr vm =
     rbind (src1 instr 1 vm) (\<lambda>a.
     rbind (src2 instr 2 vm) (\<lambda>b. put_freg instr 0 (f a b) vm))"

definition truth :: "bool \<Rightarrow> u32" where
  "truth b = (if b then -1 else 0)"

definition compare_op :: "(u64 \<Rightarrow> u64 \<Rightarrow> bool) \<Rightarrow> u64 ir_source \<Rightarrow> u64 ir_source \<Rightarrow> ir_inst \<Rightarrow> ir_vm \<Rightarrow> ir_vm c_result" where
  "compare_op f src1 src2 instr vm =
     rbind (src1 instr 1 vm) (\<lambda>a.
     rbind (src2 instr 2 vm) (\<lambda>b. put_reg instr 0 (truth (f a b)) vm))"

text \<open>A shift by 32 or more is undefined.\<close>

definition shift_op :: "(nat \<Rightarrow> u32 \<Rightarrow> u32) \<Rightarrow> u32 \<Rightarrow> u32 \<Rightarrow> u32 c_result" where
  "shift_op f a b = (let n = unat (b AND 63) in if n < 32 then Inr (f n a) else Inl Undefined)"

definition prv_addi32 :: "ir_inst \<Rightarrow> ir_vm \<Rightarrow> ir_vm c_result" where
  "prv_addi32 = int_op (\<lambda>a b. i32 (sint a + sint b)) src_int_reg src_int_reg"

definition prv_addr :: "ir_host \<Rightarrow> ir_inst \<Rightarrow> ir_vm \<Rightarrow> ir_vm c_result" where
  "prv_addr h = real_op (host_add h) src_freg src_freg"

definition prv_subi32 :: "ir_inst \<Rightarrow> ir_vm \<Rightarrow> ir_vm c_result" where
  "prv_subi32 = int_op (\<lambda>a b. i32 (sint a - sint b)) src_int_reg src_int_reg"

definition prv_subr :: "ir_host \<Rightarrow> ir_inst \<Rightarrow> ir_vm \<Rightarrow> ir_vm c_result" where
  "prv_subr h = real_op (host_sub h) src_freg src_freg"

definition prv_muli32 :: "ir_inst \<Rightarrow> ir_vm \<Rightarrow> ir_vm c_result" where
  "prv_muli32 = int_op (\<lambda>a b. i32 (sint a * sint b)) src_reg src_reg"

definition prv_mulr :: "ir_host \<Rightarrow> ir_inst \<Rightarrow> ir_vm \<Rightarrow> ir_vm c_result" where
  "prv_mulr h = real_op (host_mul h) src_freg src_freg"

definition prv_addii32 :: "ir_inst \<Rightarrow> ir_vm \<Rightarrow> ir_vm c_result" where
  "prv_addii32 = int_op (\<lambda>a b. i32 (sint a + sint b)) src_reg src_imm"

definition prv_addir :: "ir_host \<Rightarrow> ir_inst \<Rightarrow> ir_vm \<Rightarrow> ir_vm c_result" where
  "prv_addir h = real_op (host_add h) src_freg src_real"

definition prv_subii32 :: "ir_inst \<Rightarrow> ir_vm \<Rightarrow> ir_vm c_result" where
  "prv_subii32 = int_op (\<lambda>a b. i32 (sint a - sint b)) src_reg src_imm"

definition prv_subir :: "ir_host \<Rightarrow> ir_inst \<Rightarrow> ir_vm \<Rightarrow> ir_vm c_result" where
  "prv_subir h = real_op (host_sub h) src_freg src_real"

definition prv_mulii32 :: "ir_inst \<Rightarrow> ir_vm \<Rightarrow> ir_vm c_result" where
  "prv_mulii32 = int_op (\<lambda>a b. i32 (sint a * sint b)) src_reg src_imm"

definition prv_mulir :: "ir_host \<Rightarrow> ir_inst \<Rightarrow> ir_vm \<Rightarrow> ir_vm c_result" where
  "prv_mulir h = real_op (host_mul h) src_freg src_real"

definition prv_divii32 :: "ir_inst \<Rightarrow> ir_vm \<Rightarrow> ir_vm c_result" where
  "prv_divii32 = int_op (\<lambda>a b. if b = 0 then Inl Undefined else i32 (sint a sdiv sint b)) src_reg src_imm"

definition prv_divir :: "ir_host \<Rightarrow> ir_inst \<Rightarrow> ir_vm \<Rightarrow> ir_vm c_result" where
  "prv_divir h = real_op (host_div h) src_freg src_real"

definition prv_rsubii32 :: "ir_inst \<Rightarrow> ir_vm \<Rightarrow> ir_vm c_result" where
  "prv_rsubii32 = int_op (\<lambda>a b. i32 (sint b - sint a)) src_reg src_imm"

definition prv_rsubir :: "ir_host \<Rightarrow> ir_inst \<Rightarrow> ir_vm \<Rightarrow> ir_vm c_result" where
  "prv_rsubir h = real_op (\<lambda>a b. host_sub h b a) src_freg src_real"

definition prv_andi32 :: "ir_inst \<Rightarrow> ir_vm \<Rightarrow> ir_vm c_result" where
  "prv_andi32 = int_op (\<lambda>a b. Inr (a AND b)) src_int_reg src_int_reg"

definition prv_andii32 :: "ir_inst \<Rightarrow> ir_vm \<Rightarrow> ir_vm c_result" where
  "prv_andii32 = int_op (\<lambda>a b. Inr (a AND b)) src_reg src_imm"

definition prv_ori32 :: "ir_inst \<Rightarrow> ir_vm \<Rightarrow> ir_vm c_result" where
  "prv_ori32 = int_op (\<lambda>a b. Inr (a OR b)) src_int_reg src_int_reg"

definition prv_orii32 :: "ir_inst \<Rightarrow> ir_vm \<Rightarrow> ir_vm c_result" where
  "prv_orii32 = int_op (\<lambda>a b. Inr (a OR b)) src_reg src_imm"

definition prv_eori32 :: "ir_inst \<Rightarrow> ir_vm \<Rightarrow> ir_vm c_result" where
  "prv_eori32 = int_op (\<lambda>a b. Inr (a XOR b)) src_int_reg src_int_reg"

definition prv_eorii32 :: "ir_inst \<Rightarrow> ir_vm \<Rightarrow> ir_vm c_result" where
  "prv_eorii32 = int_op (\<lambda>a b. Inr (a XOR b)) src_reg src_imm"

definition prv_eqi32 :: "ir_inst \<Rightarrow> ir_vm \<Rightarrow> ir_vm c_result" where
  "prv_eqi32 = int_op (\<lambda>a b. Inr (truth (a = b))) src_int_reg src_int_reg"

definition prv_eqr :: "ir_host \<Rightarrow> ir_inst \<Rightarrow> ir_vm \<Rightarrow> ir_vm c_result" where
  "prv_eqr h = compare_op (\<lambda>a b. host_eq h a b) src_freg src_freg"

definition prv_eqii32 :: "ir_inst \<Rightarrow> ir_vm \<Rightarrow> ir_vm c_result" where
  "prv_eqii32 = int_op (\<lambda>a b. Inr (truth (a = b))) src_reg src_imm"

definition prv_eqir :: "ir_host \<Rightarrow> ir_inst \<Rightarrow> ir_vm \<Rightarrow> ir_vm c_result" where
  "prv_eqir h = compare_op (\<lambda>a b. host_eq h a b) src_freg src_real"

definition prv_neqi32 :: "ir_inst \<Rightarrow> ir_vm \<Rightarrow> ir_vm c_result" where
  "prv_neqi32 = int_op (\<lambda>a b. Inr (truth (a \<noteq> b))) src_int_reg src_int_reg"

definition prv_neqr :: "ir_host \<Rightarrow> ir_inst \<Rightarrow> ir_vm \<Rightarrow> ir_vm c_result" where
  "prv_neqr h = compare_op (\<lambda>a b. \<not> host_eq h a b) src_freg src_freg"

definition prv_neqii32 :: "ir_inst \<Rightarrow> ir_vm \<Rightarrow> ir_vm c_result" where
  "prv_neqii32 = int_op (\<lambda>a b. Inr (truth (a \<noteq> b))) src_reg src_imm"

definition prv_neqir :: "ir_host \<Rightarrow> ir_inst \<Rightarrow> ir_vm \<Rightarrow> ir_vm c_result" where
  "prv_neqir h = compare_op (\<lambda>a b. \<not> host_eq h a b) src_freg src_real"

definition prv_gti32 :: "ir_inst \<Rightarrow> ir_vm \<Rightarrow> ir_vm c_result" where
  "prv_gti32 = int_op (\<lambda>a b. Inr (truth (sint a > sint b))) src_int_reg src_int_reg"

definition prv_gtr :: "ir_host \<Rightarrow> ir_inst \<Rightarrow> ir_vm \<Rightarrow> ir_vm c_result" where
  "prv_gtr h = compare_op (\<lambda>a b. host_gt h a b) src_freg src_freg"

definition prv_gtii32 :: "ir_inst \<Rightarrow> ir_vm \<Rightarrow> ir_vm c_result" where
  "prv_gtii32 = int_op (\<lambda>a b. Inr (truth (sint a > sint b))) src_reg src_imm"

definition prv_gtir :: "ir_host \<Rightarrow> ir_inst \<Rightarrow> ir_vm \<Rightarrow> ir_vm c_result" where
  "prv_gtir h = compare_op (\<lambda>a b. host_gt h a b) src_freg src_real"

definition prv_ltei32 :: "ir_inst \<Rightarrow> ir_vm \<Rightarrow> ir_vm c_result" where
  "prv_ltei32 = int_op (\<lambda>a b. Inr (truth (sint a \<le> sint b))) src_int_reg src_int_reg"

definition prv_lter :: "ir_host \<Rightarrow> ir_inst \<Rightarrow> ir_vm \<Rightarrow> ir_vm c_result" where
  "prv_lter h = compare_op (\<lambda>a b. host_le h a b) src_freg src_freg"

definition prv_lteii32 :: "ir_inst \<Rightarrow> ir_vm \<Rightarrow> ir_vm c_result" where
  "prv_lteii32 = int_op (\<lambda>a b. Inr (truth (sint a \<le> sint b))) src_reg src_imm"

definition prv_lteir :: "ir_host \<Rightarrow> ir_inst \<Rightarrow> ir_vm \<Rightarrow> ir_vm c_result" where
  "prv_lteir h = compare_op (\<lambda>a b. host_le h a b) src_freg src_real"

definition prv_lti32 :: "ir_inst \<Rightarrow> ir_vm \<Rightarrow> ir_vm c_result" where
  "prv_lti32 = int_op (\<lambda>a b. Inr (truth (sint a < sint b))) src_int_reg src_int_reg"

definition prv_ltr :: "ir_host \<Rightarrow> ir_inst \<Rightarrow> ir_vm \<Rightarrow> ir_vm c_result" where
  "prv_ltr h = compare_op (\<lambda>a b. host_lt h a b) src_freg src_freg"

definition prv_ltii32 :: "ir_inst \<Rightarrow> ir_vm \<Rightarrow> ir_vm c_result" where
  "prv_ltii32 = int_op (\<lambda>a b. Inr (truth (sint a < sint b))) src_reg src_imm"

definition prv_ltir :: "ir_host \<Rightarrow> ir_inst \<Rightarrow> ir_vm \<Rightarrow> ir_vm c_result" where
  "prv_ltir h = compare_op (\<lambda>a b. host_lt h a b) src_freg src_real"

definition prv_gtei32 :: "ir_inst \<Rightarrow> ir_vm \<Rightarrow> ir_vm c_result" where
  "prv_gtei32 = int_op (\<lambda>a b. Inr (truth (sint a \<ge> sint b))) src_int_reg src_int_reg"

definition prv_gter :: "ir_host \<Rightarrow> ir_inst \<Rightarrow> ir_vm \<Rightarrow> ir_vm c_result" where
  "prv_gter h = compare_op (\<lambda>a b. host_ge h a b) src_freg src_freg"

definition prv_gteii32 :: "ir_inst \<Rightarrow> ir_vm \<Rightarrow> ir_vm c_result" where
  "prv_gteii32 = int_op (\<lambda>a b. Inr (truth (sint a \<ge> sint b))) src_reg src_imm"

definition prv_gteir :: "ir_host \<Rightarrow> ir_inst \<Rightarrow> ir_vm \<Rightarrow> ir_vm c_result" where
  "prv_gteir h = compare_op (\<lambda>a b. host_ge h a b) src_freg src_real"

definition prv_lsli32 :: "ir_inst \<Rightarrow> ir_vm \<Rightarrow> ir_vm c_result" where
  "prv_lsli32 = int_op (shift_op (\<lambda>n a. push_bit n a)) src_reg src_reg"

definition prv_lslii32 :: "ir_inst \<Rightarrow> ir_vm \<Rightarrow> ir_vm c_result" where
  "prv_lslii32 = int_op (shift_op (\<lambda>n a. push_bit n a)) src_reg src_imm"

definition prv_lsri32 :: "ir_inst \<Rightarrow> ir_vm \<Rightarrow> ir_vm c_result" where
  "prv_lsri32 = int_op (shift_op (\<lambda>n a. drop_bit n a)) src_reg src_reg"

definition prv_lsrii32 :: "ir_inst \<Rightarrow> ir_vm \<Rightarrow> ir_vm c_result" where
  "prv_lsrii32 = int_op (shift_op (\<lambda>n a. drop_bit n a)) src_reg src_imm"

definition prv_asri32 :: "ir_inst \<Rightarrow> ir_vm \<Rightarrow> ir_vm c_result" where
  "prv_asri32 = int_op (shift_op (\<lambda>n a. signed_drop_bit n a)) src_reg src_reg"

definition prv_asrii32 :: "ir_inst \<Rightarrow> ir_vm \<Rightarrow> ir_vm c_result" where
  "prv_asrii32 = int_op (shift_op (\<lambda>n a. signed_drop_bit n a)) src_reg src_imm"


text \<open>The divisions that test their divisor set the program's error flag; the dividend is read afterwards.\<close>

definition prv_divi32 :: "ir_section \<Rightarrow> ir_inst \<Rightarrow> ir_vm \<Rightarrow> ir_vm c_result" where
  "prv_divi32 s instr vm =
     rbind (src_reg instr 2 vm) (\<lambda>divisor.
     if divisor = 0 then prv_generate_error s ERROR_CODE_DIV_BY_ZERO vm
     else rbind (src_reg instr 1 vm) (\<lambda>a. rbind (i32 (sint a sdiv sint divisor)) (\<lambda>v. put_reg instr 0 v vm)))"

definition prv_modi32 :: "ir_section \<Rightarrow> ir_inst \<Rightarrow> ir_vm \<Rightarrow> ir_vm c_result" where
  "prv_modi32 s instr vm =
     rbind (src_reg instr 2 vm) (\<lambda>divisor.
     if divisor = 0 then prv_generate_error s ERROR_CODE_DIV_BY_ZERO vm
     else rbind (src_reg instr 1 vm) (\<lambda>a.
       rbind (i32 (sint a sdiv sint divisor)) (\<lambda>_. put_reg instr 0 (word_of_int (sint a smod sint divisor)) vm)))"

definition prv_divr :: "ir_host \<Rightarrow> ir_section \<Rightarrow> ir_inst \<Rightarrow> ir_vm \<Rightarrow> ir_vm c_result" where
  "prv_divr h s instr vm =
     rbind (src_freg instr 2 vm) (\<lambda>divisor.
     if host_eq h divisor real_zero then prv_generate_error s ERROR_CODE_DIV_BY_ZERO vm
     else rbind (src_freg instr 1 vm) (\<lambda>a. put_freg instr 0 (host_div h a divisor) vm))"

definition prv_rdivir :: "ir_host \<Rightarrow> ir_section \<Rightarrow> ir_inst \<Rightarrow> ir_vm \<Rightarrow> ir_vm c_result" where
  "prv_rdivir h s instr vm =
     rbind (src_freg instr 1 vm) (\<lambda>divisor.
     if host_eq h divisor real_zero then prv_generate_error s ERROR_CODE_DIV_BY_ZERO vm
     else rbind (src_real instr 2 vm) (\<lambda>a. put_freg instr 0 (host_div h a divisor) vm))"

definition prv_movii32 :: "ir_inst \<Rightarrow> ir_vm \<Rightarrow> ir_vm c_result" where
  "prv_movii32 instr vm = rbind (src_imm instr 1 vm) (\<lambda>v. put_reg instr 0 v vm)"

definition prv_movir :: "ir_inst \<Rightarrow> ir_vm \<Rightarrow> ir_vm c_result" where
  "prv_movir instr vm = rbind (src_real instr 1 vm) (\<lambda>v. put_freg instr 0 v vm)"

definition prv_mov :: "ir_inst \<Rightarrow> ir_vm \<Rightarrow> ir_vm c_result" where
  "prv_mov instr vm = rbind (src_reg instr 1 vm) (\<lambda>v. put_reg instr 0 v vm)"

definition prv_movfp :: "ir_inst \<Rightarrow> ir_vm \<Rightarrow> ir_vm c_result" where
  "prv_movfp instr vm = rbind (src_freg instr 1 vm) (\<lambda>v. put_freg instr 0 v vm)"

definition prv_noti32 :: "ir_inst \<Rightarrow> ir_vm \<Rightarrow> ir_vm c_result" where
  "prv_noti32 instr vm = rbind (src_reg instr 1 vm) (\<lambda>v. put_reg instr 0 (NOT v) vm)"

definition prv_movi32fp :: "ir_host \<Rightarrow> ir_inst \<Rightarrow> ir_vm \<Rightarrow> ir_vm c_result" where
  "prv_movi32fp h instr vm = rbind (src_reg instr 1 vm) (\<lambda>v. put_freg instr 0 (host_of_int h (sint v)) vm)"

text \<open>The conversion of a double that does not fit an \<^verbatim>\<open>int32_t\<close> is undefined.\<close>

definition real_to_i32 :: "ir_host \<Rightarrow> u64 \<Rightarrow> u32 c_result" where
  "real_to_i32 h x = (case host_to_i32 h x of None \<Rightarrow> Inl Undefined | Some v \<Rightarrow> Inr v)"

definition prv_movfpi32 :: "ir_host \<Rightarrow> ir_inst \<Rightarrow> ir_vm \<Rightarrow> ir_vm c_result" where
  "prv_movfpi32 h instr vm =
     rbind (src_freg instr 1 vm) (\<lambda>x. rbind (real_to_i32 h x) (\<lambda>v. put_reg instr 0 v vm))"

definition prv_movfprdi32 :: "ir_host \<Rightarrow> ir_inst \<Rightarrow> ir_vm \<Rightarrow> ir_vm c_result" where
  "prv_movfprdi32 h instr vm =
     rbind (src_freg instr 1 vm) (\<lambda>x. rbind (real_to_i32 h (host_floor h x)) (\<lambda>v. put_reg instr 0 v vm))"

definition prv_signx8to32 :: "ir_inst \<Rightarrow> ir_vm \<Rightarrow> ir_vm c_result" where
  "prv_signx8to32 instr vm = rbind (src_reg instr 1 vm) (\<lambda>v. put_reg instr 0 (scast (ucast v :: u8)) vm)"

definition prv_movi8tofp :: "ir_host \<Rightarrow> ir_inst \<Rightarrow> ir_vm \<Rightarrow> ir_vm c_result" where
  "prv_movi8tofp h instr vm =
     rbind (src_reg instr 1 vm) (\<lambda>v. put_freg instr 0 (host_of_int h (sint (ucast v :: u8))) vm)"

definition prv_movfpi32i32 :: "ir_inst \<Rightarrow> ir_vm \<Rightarrow> ir_vm c_result" where
  "prv_movfpi32i32 instr vm =
     rbind (src_freg instr 2 vm) (\<lambda>x.
     rbind (put_reg instr 0 (ucast x) vm) (\<lambda>vm. put_reg instr 1 (ucast (drop_bit 32 x)) vm))"

definition prv_cmov_i32 :: "ir_inst \<Rightarrow> ir_vm \<Rightarrow> ir_vm c_result" where
  "prv_cmov_i32 instr vm =
     rbind (src_reg instr 1 vm) (\<lambda>c.
     rbind (src_reg instr (if c \<noteq> 0 then 2 else 3) vm) (\<lambda>v. put_reg instr 0 v vm))"

text \<open>The functions of one double.\<close>

definition fn_op :: "(u64 \<Rightarrow> u64) \<Rightarrow> ir_inst \<Rightarrow> ir_vm \<Rightarrow> ir_vm c_result" where
  "fn_op f instr vm = rbind (src_freg instr 1 vm) (\<lambda>a. put_freg instr 0 (f a) vm)"

definition log_op :: "ir_host \<Rightarrow> ir_section \<Rightarrow> (u64 \<Rightarrow> u64) \<Rightarrow> ir_inst \<Rightarrow> ir_vm \<Rightarrow> ir_vm c_result" where
  "log_op h s f instr vm =
     rbind (src_freg instr 1 vm) (\<lambda>a.
     if host_le h a real_zero then prv_generate_error s ERROR_CODE_LOG_RANGE vm
     else put_freg instr 0 (f a) vm)"

section \<open>Loads and stores\<close>

definition mem_operand :: "ir_inst \<Rightarrow> ir_vm \<Rightarrow> int c_result" where
  "mem_operand instr vm =
     rbind (src_reg instr 1 vm) (\<lambda>base.
     rbind (src_imm instr 2 vm) (\<lambda>off.
     rbind (i32 (sint base + sint off)) (\<lambda>a. Inr (sint a))))"

definition prv_storeoi8 :: "ir_inst \<Rightarrow> ir_vm \<Rightarrow> ir_vm c_result" where
  "prv_storeoi8 instr vm =
     rbind (mem_operand instr vm) (\<lambda>a. rbind (src_reg instr 0 vm) (\<lambda>v. mem_put a [ucast v] vm))"

definition prv_storeoi32 :: "ir_inst \<Rightarrow> ir_vm \<Rightarrow> ir_vm c_result" where
  "prv_storeoi32 instr vm =
     rbind (mem_operand instr vm) (\<lambda>a. rbind (src_reg instr 0 vm) (\<lambda>v. mem_put a (word_bytes v) vm))"

definition prv_storeor :: "ir_inst \<Rightarrow> ir_vm \<Rightarrow> ir_vm c_result" where
  "prv_storeor instr vm =
     rbind (mem_operand instr vm) (\<lambda>a. rbind (src_freg instr 0 vm) (\<lambda>v. mem_put a (dword_bytes v) vm))"

definition prv_loadoi8 :: "ir_inst \<Rightarrow> ir_vm \<Rightarrow> ir_vm c_result" where
  "prv_loadoi8 instr vm =
     rbind (mem_operand instr vm) (\<lambda>a. rbind (mem_get a 1 vm) (\<lambda>bs. put_reg instr 0 (ucast (hd bs)) vm))"

definition prv_loadoi32 :: "ir_inst \<Rightarrow> ir_vm \<Rightarrow> ir_vm c_result" where
  "prv_loadoi32 instr vm =
     rbind (mem_operand instr vm) (\<lambda>a. rbind (mem_get32 a vm) (\<lambda>v. put_reg instr 0 v vm))"

definition prv_loador :: "ir_inst \<Rightarrow> ir_vm \<Rightarrow> ir_vm c_result" where
  "prv_loador instr vm =
     rbind (mem_operand instr vm) (\<lambda>a. rbind (mem_get64 a vm) (\<lambda>v. put_freg instr 0 v vm))"

definition prv_pushi32 :: "ir_host \<Rightarrow> ir_inst \<Rightarrow> ir_vm \<Rightarrow> ir_vm c_result" where
  "prv_pushi32 h instr vm =
     rbind (prv_reserve_stack h 4 vm) (\<lambda>vm.
     rbind (src_reg instr 0 vm) (\<lambda>v. push_bytes (word_bytes v) vm))"

definition prv_popi32 :: "ir_inst \<Rightarrow> ir_vm \<Rightarrow> ir_vm c_result" where
  "prv_popi32 instr vm = rbind (pop_bytes 4 vm) (\<lambda>(bs, vm). put_reg instr 0 (word_of_bytes bs) vm)"

definition prv_lca :: "ir_inst \<Rightarrow> ir_vm \<Rightarrow> ir_vm c_result" where
  "prv_lca instr vm =
     rbind (src_imm instr 1 vm) (\<lambda>i. rbind (array_at (iv_constants vm) (sint i)) (\<lambda>c. put_reg instr 0 (of_nat c) vm))"

section \<open>Output\<close>

definition write_out :: "u8 list \<Rightarrow> ir_vm \<Rightarrow> ir_vm c_result" where
  "write_out bs vm =
     rbind (subtilis_buffer_append bs (iv_out vm, iv_allocs vm)) (\<lambda>(b, al). Inr (vm\<lparr>iv_out := b, iv_allocs := al\<rparr>))"

definition prv_printstr :: "ir_inst \<Rightarrow> ir_vm \<Rightarrow> ir_vm c_result" where
  "prv_printstr instr vm =
     rbind (src_reg instr 0 vm) (\<lambda>a.
     rbind (src_reg instr 1 vm) (\<lambda>n.
     rbind (mem_get (sint a) (size_of_i32 n) vm) (\<lambda>bs. write_out bs vm)))"

definition prv_printnl :: "ir_vm \<Rightarrow> ir_vm c_result" where
  "prv_printnl vm = write_out [10] vm"

text \<open>\<^verbatim>\<open>VDU\<close> writes a string of one character, which is empty for character 0.\<close>

definition vdu :: "u32 \<Rightarrow> ir_vm \<Rightarrow> ir_vm c_result" where
  "vdu c vm = write_out (takeWhile (\<lambda>c. c \<noteq> 0) [ucast c]) vm"

definition prv_vdui :: "ir_inst \<Rightarrow> ir_vm \<Rightarrow> ir_vm c_result" where
  "prv_vdui instr vm = rbind (src_imm instr 0 vm) (\<lambda>c. vdu c vm)"

definition prv_vdu :: "ir_inst \<Rightarrow> ir_vm \<Rightarrow> ir_vm c_result" where
  "prv_vdu instr vm = rbind (src_reg instr 0 vm) (\<lambda>c. vdu c vm)"

text \<open>The decimal representation \<^verbatim>\<open>sprintf\<close> writes for \<^verbatim>\<open>%d\<close>.\<close>

fun decimal :: "nat \<Rightarrow> u8 list" where
  "decimal n = (if n < 10 then [of_nat (48 + n)] else decimal (n div 10) @ [of_nat (48 + n mod 10)])"

declare decimal.simps [simp del]

definition signed_decimal :: "int \<Rightarrow> u8 list" where
  "signed_decimal k = (if k < 0 then [45] else []) @ decimal (nat \<bar>k\<bar>)"

definition prv_i32_to_dec :: "ir_inst \<Rightarrow> ir_vm \<Rightarrow> ir_vm c_result" where
  "prv_i32_to_dec instr vm =
     rbind (src_reg instr 2 vm) (\<lambda>a.
     rbind (src_reg instr 1 vm) (\<lambda>v.
     let str = signed_decimal (sint v)
     in rbind (mem_put (sint a) (str @ [0]) vm) (\<lambda>vm. put_reg instr 0 (of_nat (length str)) vm)))"

section \<open>The heap\<close>

text \<open>A block on the heap starts with a count of the references to it, a \<^verbatim>\<open>size_t\<close>.\<close>

definition heap_oom :: "ir_section \<Rightarrow> u32 \<Rightarrow> ir_inst \<Rightarrow> ir_vm \<Rightarrow> ir_vm c_result" where
  "heap_oom s base instr vm =
     rbind (i32 (sint base + sint (ir_eflag_offset s))) (\<lambda>a.
     rbind (mem_put (sint a) [-1] vm) (\<lambda>vm.
     rbind (i32 (sint base + sint (ir_error_offset s))) (\<lambda>a.
     rbind (mem_put (sint a) [ucast ERROR_CODE_OOM] vm) (\<lambda>vm.
     put_reg instr 2 0 vm))))"

text \<open>\<^verbatim>\<open>size_t to_alloc\<close> is passed on as a \<^verbatim>\<open>uint32_t\<close>.\<close>

definition prv_alloc :: "ir_section \<Rightarrow> ir_inst \<Rightarrow> ir_vm \<Rightarrow> ir_vm c_result" where
  "prv_alloc s instr vm =
     rbind (src_reg instr 1 vm) (\<lambda>n.
     rbind (reg_at IR_REG_GLOBAL vm) (\<lambda>base.
     rbind (subtilis_vm_heap_claim_block (iv_heap vm) (n + 8) (iv_allocs vm)) (\<lambda>(block, heap, al).
     let vm = vm\<lparr>iv_heap := heap, iv_allocs := al\<rparr>
     in case block of
          None \<Rightarrow> heap_oom s base instr vm
        | Some block \<Rightarrow>
            rbind (mem_put (int (unat (blk_start block))) (dword_bytes 1) vm) (\<lambda>vm.
            put_reg instr 0 (blk_start block + 8) vm))))"

definition find_block :: "u32 \<Rightarrow> ir_vm \<Rightarrow> heap_block c_result" where
  "find_block start vm =
     (case subtilis_vm_heap_find_block (iv_heap vm) start of None \<Rightarrow> Inl assertion_failed | Some block \<Rightarrow> Inr block)"

definition prv_deref :: "ir_inst \<Rightarrow> ir_vm \<Rightarrow> ir_vm c_result" where
  "prv_deref instr vm =
     rbind (src_reg instr 0 vm) (\<lambda>p.
     let start = p - 8
     in rbind (find_block start vm) (\<lambda>block.
        rbind (mem_get64 (int (unat (blk_start block))) vm) (\<lambda>count.
        if count = 0 then Inl assertion_failed
        else if count > 1 then mem_put (int (unat (blk_start block))) (dword_bytes (count - 1)) vm
        else rbind (subtilis_vm_heap_free_block (iv_heap vm) start) (\<lambda>heap. Inr (vm\<lparr>iv_heap := heap\<rparr>)))))"

definition prv_ref :: "ir_inst \<Rightarrow> ir_vm \<Rightarrow> ir_vm c_result" where
  "prv_ref instr vm =
     rbind (src_reg instr 0 vm) (\<lambda>p.
     rbind (find_block (p - 8) vm) (\<lambda>block.
     rbind (mem_get64 (int (unat (blk_start block))) vm) (\<lambda>count.
     mem_put (int (unat (blk_start block))) (dword_bytes (count + 1)) vm)))"

definition prv_getref :: "ir_inst \<Rightarrow> ir_vm \<Rightarrow> ir_vm c_result" where
  "prv_getref instr vm =
     rbind (src_reg instr 1 vm) (\<lambda>p.
     rbind (find_block (p - 8) vm) (\<lambda>block.
     rbind (mem_get64 (int (unat (blk_start block))) vm) (\<lambda>count.
     if count = 0 then Inl assertion_failed else put_reg instr 0 (ucast count) vm)))"

text \<open>The copy takes the size of the old block also when the new one is smaller.\<close>

definition prv_realloc :: "ir_section \<Rightarrow> ir_inst \<Rightarrow> ir_vm \<Rightarrow> ir_vm c_result" where
  "prv_realloc s instr vm =
     rbind (src_reg instr 0 vm) (\<lambda>p.
     rbind (src_reg instr 1 vm) (\<lambda>n.
     rbind (reg_at IR_REG_GLOBAL vm) (\<lambda>base.
     rbind (subtilis_vm_heap_realloc (iv_heap vm) (p - 8) (n + 8) (iv_allocs vm)) (\<lambda>(found, heap, al).
     let vm = vm\<lparr>iv_heap := heap, iv_allocs := al\<rparr>
     in case found of
          None \<Rightarrow> heap_oom s base instr vm
        | Some (block, old_size) \<Rightarrow>
            rbind (mem_get (sint p - 8) (unat old_size) vm) (\<lambda>bs.
            rbind (mem_put (int (unat (blk_start block))) bs vm) (\<lambda>vm.
            rbind (prv_deref instr vm) (\<lambda>vm.
            put_reg instr 2 (blk_start block + 8) vm)))))))"

definition prv_heap_free :: "ir_inst \<Rightarrow> ir_vm \<Rightarrow> ir_vm c_result" where
  "prv_heap_free instr vm = put_reg instr 0 (ucast (subtilis_vm_heap_free_space (iv_heap vm))) vm"

section \<open>Jumps\<close>

text \<open>The test that the label is known lets through the label just past the array.\<close>

definition jump :: "ir_section \<Rightarrow> nat \<Rightarrow> ir_vm \<Rightarrow> ir_vm c_result" where
  "jump s label vm =
     rbind (ensure (\<not> label > length (iv_labels vm)) assertion_failed) (\<lambda>_.
     rbind (array_get (iv_labels vm) label) (\<lambda>pc.
     rbind (ensure (unat pc < length (vec_items (ir_ops s))) assertion_failed) (\<lambda>_.
     Inr (vm\<lparr>iv_pc := pc\<rparr>))))"

definition prv_jmpc :: "ir_section \<Rightarrow> ir_inst \<Rightarrow> ir_vm \<Rightarrow> ir_vm c_result" where
  "prv_jmpc s instr vm =
     rbind (src_reg instr 0 vm) (\<lambda>c.
     rbind (operand instr (if c \<noteq> 0 then 1 else 2)) (\<lambda>op. jump s (op_label op) vm))"

definition prv_jmp :: "ir_section \<Rightarrow> ir_inst \<Rightarrow> ir_vm \<Rightarrow> ir_vm c_result" where
  "prv_jmp s instr vm = rbind (operand instr 0) (\<lambda>op. jump s (op_label op) vm)"

definition prv_getprocaddr :: "ir_inst \<Rightarrow> ir_vm \<Rightarrow> ir_vm c_result" where
  "prv_getprocaddr instr vm = rbind (operand instr 1) (\<lambda>op. put_reg instr 0 (ucast op) vm)"

section \<open>Built-in procedures\<close>

definition arg_value :: "ir_call \<Rightarrow> nat \<Rightarrow> ir_vm \<Rightarrow> u32 c_result" where
  "arg_value call i vm = rbind (array_get (call_args call) i) (\<lambda>a. reg_at (arg_reg a) vm)"

definition put_result :: "ir_call \<Rightarrow> u32 \<Rightarrow> ir_vm \<Rightarrow> ir_vm c_result" where
  "put_result call v vm = (case call_reg call of None \<Rightarrow> Inl Undefined | Some r \<Rightarrow> set_reg_at r v vm)"

definition prv_memseti32 :: "ir_call \<Rightarrow> ir_vm \<Rightarrow> ir_vm c_result" where
  "prv_memseti32 call vm =
     rbind (arg_value call 1 vm) (\<lambda>n.
     rbind (arg_value call 0 vm) (\<lambda>a.
     rbind (ensure (size_of_i32 n mod 4 = 0) assertion_failed) (\<lambda>_.
     rbind (arg_value call 2 vm) (\<lambda>v.
     mem_put (sint a) (concat (replicate (size_of_i32 n div 4) (word_bytes v))) vm))))"

definition prv_memset :: "ir_call \<Rightarrow> ir_vm \<Rightarrow> ir_vm c_result" where
  "prv_memset call vm =
     rbind (arg_value call 0 vm) (\<lambda>a.
     rbind (arg_value call 2 vm) (\<lambda>v.
     rbind (arg_value call 1 vm) (\<lambda>n.
     mem_put (sint a) (replicate (size_of_i32 n) (ucast v)) vm)))"

definition prv_memset64 :: "ir_call \<Rightarrow> ir_vm \<Rightarrow> ir_vm c_result" where
  "prv_memset64 call vm =
     rbind (arg_value call 1 vm) (\<lambda>n.
     rbind (arg_value call 0 vm) (\<lambda>a.
     rbind (ensure (size_of_i32 n mod 8 = 0) assertion_failed) (\<lambda>_.
     rbind (arg_value call 2 vm) (\<lambda>v.
     rbind (arg_value call 3 vm) (\<lambda>w.
     mem_put (sint a) (concat (replicate (size_of_i32 n div 8) (word_bytes v @ word_bytes w))) vm)))))"

text \<open>Copying between blocks that overlap is undefined.\<close>

definition prv_memcpy :: "ir_call \<Rightarrow> ir_vm \<Rightarrow> ir_vm c_result" where
  "prv_memcpy call vm =
     rbind (arg_value call 0 vm) (\<lambda>d.
     rbind (arg_value call 1 vm) (\<lambda>a.
     rbind (arg_value call 2 vm) (\<lambda>n.
     rbind (mem_get (sint a) (size_of_i32 n) vm) (\<lambda>bs.
     if \<bar>sint d - sint a\<bar> < int (size_of_i32 n) then Inl Undefined else mem_put (sint d) bs vm))))"

definition prv_memcmp :: "ir_call \<Rightarrow> ir_vm \<Rightarrow> ir_vm c_result" where
  "prv_memcmp call vm =
     rbind (arg_value call 0 vm) (\<lambda>a.
     rbind (arg_value call 1 vm) (\<lambda>b.
     rbind (arg_value call 2 vm) (\<lambda>n.
     rbind (mem_get (sint a) (size_of_i32 n) vm) (\<lambda>xs.
     rbind (mem_get (sint b) (size_of_i32 n) vm) (\<lambda>ys.
     put_result call (truth (xs = ys)) vm)))))"

text \<open>\<^verbatim>\<open>strncmp\<close> reads no further than the end of the memory.\<close>

definition prv_compare :: "ir_host \<Rightarrow> ir_call \<Rightarrow> ir_vm \<Rightarrow> ir_vm c_result" where
  "prv_compare h call vm =
     rbind (arg_value call 0 vm) (\<lambda>a.
     rbind (arg_value call 1 vm) (\<lambda>a_len.
     rbind (arg_value call 2 vm) (\<lambda>b.
     rbind (arg_value call 3 vm) (\<lambda>b_len.
     let n = size_of_i32 a_len; m = size_of_i32 b_len
     in if n = 0 \<and> m > 0 then put_result call (-1) vm
        else if n > 0 \<and> m = 0 then put_result call 1 vm
        else rbind (mem_get (sint a) (min n m) vm) (\<lambda>xs.
             rbind (mem_get (sint b) (min n m) vm) (\<lambda>ys.
             put_result call (host_strncmp h xs ys (min n m)) vm))))))"

fun prv_handle_builtin :: "ir_host \<Rightarrow> builtin_type \<Rightarrow> ir_call \<Rightarrow> ir_vm \<Rightarrow> ir_vm c_result" where
  "prv_handle_builtin h BUILTINS_MEMSETI32 call vm = prv_memseti32 call vm"
| "prv_handle_builtin h BUILTINS_MEMCPY call vm = prv_memcpy call vm"
| "prv_handle_builtin h BUILTINS_MEMCMP call vm = prv_memcmp call vm"
| "prv_handle_builtin h BUILTINS_COMPARE call vm = prv_compare h call vm"
| "prv_handle_builtin h BUILTINS_MEMSETI8 call vm = prv_memset call vm"
| "prv_handle_builtin h BUILTINS_MEMSETI64 call vm = prv_memset64 call vm"
| "prv_handle_builtin h _ call vm = Inl assertion_failed"

section \<open>Calls and returns\<close>

text \<open>
  The arguments are copied twice, so that a parameter register that is also an argument is read
  before it is written. The second copy is used without a test that it was allocated.
\<close>

definition collect_args :: "ir_call \<Rightarrow> ir_vm \<Rightarrow> (u32 list \<times> u64 list) c_result" where
  "collect_args call vm =
     each (\<lambda>a (ints, reals).
         case arg_type a of
           REG_TYPE_REAL \<Rightarrow> rbind (freg_at (arg_reg a) vm) (\<lambda>v. Inr (ints, reals @ [v]))
         | REG_TYPE_INTEGER \<Rightarrow> rbind (reg_at (arg_reg a) vm) (\<lambda>v. Inr (ints @ [v], reals)))
       (call_args call) ([], [])"

definition prv_set_args :: "ir_call \<Rightarrow> ir_vm \<Rightarrow> ir_vm c_result" where
  "prv_set_args call vm =
     rbind (alloc (iv_allocs vm)) (\<lambda>al.
     let (granted, al) = (case alloc al of Inr al' \<Rightarrow> (True, al') | Inl _ \<Rightarrow> (False, tl al))
     in rbind (collect_args call vm) (\<lambda>(ints, reals).
     rbind (ensure (granted \<or> ints = []) Undefined) (\<lambda>_.
     rbind (put_block IR_REG_TEMP_START ints (iv_regs vm)) (\<lambda>regs.
     rbind (put_block 0 reals (iv_fregs vm)) (\<lambda>fregs.
     Inr (vm\<lparr>iv_regs := regs, iv_fregs := fregs, iv_allocs := al\<rparr>))))))"

definition grow_regs :: "ir_host \<Rightarrow> ir_section \<Rightarrow> ir_vm \<Rightarrow> ir_vm c_result" where
  "grow_regs h s vm =
     rbind (if ir_reg_counter s > length (iv_regs vm) then
              rbind (alloc (iv_allocs vm)) (\<lambda>al.
                Inr (vm\<lparr>iv_regs := iv_regs vm @ map (\<lambda>i. ucast (host_fresh h i)) [length (iv_regs vm)..<ir_reg_counter s],
                        iv_allocs := al\<rparr>))
            else Inr vm) (\<lambda>vm.
     if ir_freg_counter s > length (iv_fregs vm) then
       rbind (alloc (iv_allocs vm)) (\<lambda>al.
         Inr (vm\<lparr>iv_fregs := iv_fregs vm @ map (host_fresh h) [length (iv_fregs vm)..<ir_freg_counter s],
                 iv_allocs := al\<rparr>))
     else Inr vm)"

text \<open>What a call saves of its caller, from the bottom to the top of the stack.\<close>

definition push_frame :: "ir_section \<Rightarrow> bool \<Rightarrow> ir_call \<Rightarrow> ir_vm \<Rightarrow> ir_vm c_result" where
  "push_frame caller returns call vm =
     rbind (get_block 0 (ir_label_counter caller) (iv_labels vm)) (\<lambda>labels.
     rbind (push_bytes (concat (map dword_bytes labels)) vm) (\<lambda>vm.
     rbind (get_block 0 (ir_reg_counter caller) (iv_regs vm)) (\<lambda>regs.
     rbind (push_bytes (concat (map word_bytes regs)) vm) (\<lambda>vm.
     rbind (get_block 0 (ir_freg_counter caller) (iv_fregs vm)) (\<lambda>fregs.
     rbind (push_bytes (concat (map dword_bytes fregs)) vm) (\<lambda>vm.
     rbind (push_bytes (word_bytes (ucast (iv_pc vm))) vm) (\<lambda>vm.
     rbind (push_bytes (word_bytes (of_nat (iv_index vm))) vm) (\<lambda>vm.
     if returns then
       (case call_reg call of
          None \<Rightarrow> Inl Undefined
        | Some r \<Rightarrow> push_bytes (word_bytes (of_nat r)) vm)
     else Inr vm))))))))"

definition prv_call :: "ir_host \<Rightarrow> ir_prog \<Rightarrow> ir_section \<Rightarrow> bool \<Rightarrow> ir_call \<Rightarrow> nat \<Rightarrow> ir_vm \<Rightarrow> ir_vm c_result" where
  "prv_call h p caller returns call section_index vm =
     rbind (ensure (section_index < length (ip_sections p)) assertion_failed) (\<lambda>_.
     rbind (section_at p section_index) (\<lambda>s.
     if ir_ftype s \<noteq> BUILTINS_MAX then prv_handle_builtin h (ir_ftype s) call vm
     else
       rbind (grow_regs h s vm) (\<lambda>vm.
       rbind (prv_reserve_stack h (ir_label_counter caller * 8 + (ir_reg_counter caller + 2) * 4
           + ir_freg_counter caller * 8 + ir_locals s + (if returns then 4 else 0)) vm) (\<lambda>vm.
       rbind (push_frame caller returns call vm) (\<lambda>vm.
       rbind (prv_set_args call vm) (\<lambda>vm.
       rbind (set_reg_at IR_REG_LOCAL (of_nat (iv_top vm)) vm) (\<lambda>vm.
       rbind (if ir_locals s > 0 then push_bytes (replicate (ir_locals s) 0) vm else Inr vm) (\<lambda>vm.
       prv_compute_labels h s (vm\<lparr>iv_index := section_index, iv_pc := -1\<rparr>)))))))))"

definition prv_call_direct :: "ir_host \<Rightarrow> ir_prog \<Rightarrow> ir_section \<Rightarrow> bool \<Rightarrow> ir_call \<Rightarrow> ir_vm \<Rightarrow> ir_vm c_result" where
  "prv_call_direct h p s returns call vm = prv_call h p s returns call (call_proc_id call) vm"

text \<open>The number of the procedure is an \<^verbatim>\<open>int32_t\<close> that is converted to a \<^verbatim>\<open>size_t\<close>.\<close>

definition prv_call_indirect :: "ir_host \<Rightarrow> ir_prog \<Rightarrow> ir_section \<Rightarrow> bool \<Rightarrow> ir_call \<Rightarrow> ir_vm \<Rightarrow> ir_vm c_result" where
  "prv_call_indirect h p s returns call vm =
     rbind (reg_at (call_proc_id call) vm) (\<lambda>n. prv_call h p s returns call (size_of_i32 n) vm)"

fun words_of :: "u8 list \<Rightarrow> u32 list" where
  "words_of (a # b # c # d # bs) = bytes_word a b c d # words_of bs"
| "words_of _ = []"

fun dwords_of :: "u8 list \<Rightarrow> u64 list" where
  "dwords_of (a # b # c # d # e # f # g # i # bs) = dword_of_bytes [a, b, c, d, e, f, g, i] # dwords_of bs"
| "dwords_of _ = []"

definition prv_ret_gen :: "ir_prog \<Rightarrow> ir_section \<Rightarrow> bool \<Rightarrow> ir_vm \<Rightarrow> (nat \<times> ir_vm) c_result" where
  "prv_ret_gen p s returns vm =
     rbind (ensure (\<not> ir_locals s + 4 + (if returns then 4 else 0) > iv_top vm) assertion_failed) (\<lambda>_.
     let vm = vm\<lparr>iv_top := iv_top vm - ir_locals s\<rparr>
     in rbind (if returns then rbind (pop_bytes 4 vm) (\<lambda>(bs, vm). Inr (size_of_i32 (word_of_bytes bs), vm))
               else Inr (IR_REG_UNDEFINED, vm)) (\<lambda>(reg, vm).
        rbind (pop_bytes 4 vm) (\<lambda>(bs, vm).
        let caller_index = size_of_i32 (word_of_bytes bs)
        in rbind (ensure (caller_index < length (ip_sections p)) assertion_failed) (\<lambda>_.
           rbind (section_at p caller_index) (\<lambda>cs.
           rbind (ensure (\<not> (ir_reg_counter cs + 1) * 4 + ir_freg_counter cs * 8 > iv_top vm) assertion_failed) (\<lambda>_.
           rbind (pop_bytes 4 vm) (\<lambda>(bs, vm).
           let vm = vm\<lparr>iv_pc := scast (word_of_bytes bs), iv_index := caller_index\<rparr>
           in rbind (pop_bytes (ir_freg_counter cs * 8) vm) (\<lambda>(bs, vm).
              rbind (put_block 0 (dwords_of bs) (iv_fregs vm)) (\<lambda>fregs.
              rbind (pop_bytes (ir_reg_counter cs * 4) vm) (\<lambda>(bs, vm).
              rbind (put_block 0 (words_of bs) (iv_regs vm)) (\<lambda>regs.
              rbind (pop_bytes (ir_label_counter cs * 8) vm) (\<lambda>(bs, vm).
              rbind (put_block 0 (dwords_of bs) (iv_labels vm)) (\<lambda>labels.
              Inr (reg, vm\<lparr>iv_regs := regs, iv_fregs := fregs, iv_labels := labels\<rparr>))))))))))))))"

definition prv_ret :: "ir_prog \<Rightarrow> ir_section \<Rightarrow> ir_vm \<Rightarrow> ir_vm c_result" where
  "prv_ret p s vm = rbind (prv_ret_gen p s False vm) (\<lambda>(_, vm). Inr vm)"

definition prv_reti32 :: "ir_prog \<Rightarrow> ir_section \<Rightarrow> ir_inst \<Rightarrow> ir_vm \<Rightarrow> ir_vm c_result" where
  "prv_reti32 p s instr vm =
     rbind (src_reg instr 0 vm) (\<lambda>v. rbind (prv_ret_gen p s True vm) (\<lambda>(reg, vm). set_reg_at reg v vm))"

definition prv_retii32 :: "ir_prog \<Rightarrow> ir_section \<Rightarrow> ir_inst \<Rightarrow> ir_vm \<Rightarrow> ir_vm c_result" where
  "prv_retii32 p s instr vm =
     rbind (prv_ret_gen p s True vm) (\<lambda>(reg, vm). rbind (src_imm instr 0 vm) (\<lambda>v. set_reg_at reg v vm))"

definition prv_retr :: "ir_prog \<Rightarrow> ir_section \<Rightarrow> ir_inst \<Rightarrow> ir_vm \<Rightarrow> ir_vm c_result" where
  "prv_retr p s instr vm =
     rbind (src_freg instr 0 vm) (\<lambda>v. rbind (prv_ret_gen p s True vm) (\<lambda>(reg, vm). set_freg_at reg v vm))"

definition prv_retir :: "ir_prog \<Rightarrow> ir_section \<Rightarrow> ir_inst \<Rightarrow> ir_vm \<Rightarrow> ir_vm c_result" where
  "prv_retir p s instr vm =
     rbind (prv_ret_gen p s True vm) (\<lambda>(reg, vm). rbind (src_real instr 0 vm) (\<lambda>v. set_freg_at reg v vm))"

section \<open>System calls\<close>

text \<open>
  Character write_out by number, \<^verbatim>\<open>OS_Write0\<close>, \<^verbatim>\<open>OS_GetEnv\<close> and \<^verbatim>\<open>OS_ConvertInteger4\<close>. The address of the
  converted number is read again after the results have been stored.
\<close>

definition in_reg :: "ir_sys_call \<Rightarrow> nat \<Rightarrow> ir_vm \<Rightarrow> u32 c_result" where
  "in_reg c i vm = rbind (array_get (sys_in_regs c) i) (\<lambda>r. reg_at r vm)"

definition put_out :: "ir_sys_call \<Rightarrow> nat \<Rightarrow> u32 \<Rightarrow> ir_vm \<Rightarrow> ir_vm c_result" where
  "put_out c i v vm =
     rbind (array_get (sys_out_regs c) i) (\<lambda>r.
     if out_local r then set_reg_at (out_reg r) v vm
     else rbind (reg_at (out_reg r) vm) (\<lambda>a. mem_put (sint a) [ucast v] vm))"

definition put_out_if :: "ir_sys_call \<Rightarrow> nat \<Rightarrow> (ir_vm \<Rightarrow> u32 c_result) \<Rightarrow> ir_vm \<Rightarrow> ir_vm c_result" where
  "put_out_if c i f vm =
     rbind (array_get (sys_out_regs c) i) (\<lambda>r.
     if out_reg r \<noteq> SIZE_MAX then rbind (f vm) (\<lambda>v. set_reg_at (out_reg r) v vm) else Inr vm)"

definition c_string_at :: "int \<Rightarrow> ir_vm \<Rightarrow> u8 list c_result" where
  "c_string_at a vm =
     (if a < 0 \<or> 0 \<notin> set (drop (nat a) (iv_memory vm)) then Inl Undefined
      else Inr (takeWhile (\<lambda>c. c \<noteq> 0) (drop (nat a) (iv_memory vm))))"

definition prv_sys_call :: "ir_section \<Rightarrow> ir_sys_call \<Rightarrow> ir_vm \<Rightarrow> ir_vm c_result" where
  "prv_sys_call s c vm =
     (let code = unat ((of_nat (sys_call_id c) :: u64) AND NOT 0x20000); id = sys_call_id c in
      if code \<ge> 256 + 32 \<and> code < 512 then write_out (takeWhile (\<lambda>c. c \<noteq> 0) [of_nat code - 256]) vm
      else if id = 2 \<or> id = 0x20002 then
        rbind (in_reg c 0 vm) (\<lambda>a. rbind (c_string_at (sint a) vm) (\<lambda>str. write_out str vm))
      else if id = 0x10 \<or> id = 0x20010 then
        rbind (put_out c 0 0 vm) (\<lambda>vm.
        rbind (put_out c 1 (of_nat (length (iv_memory vm))) vm) (\<lambda>vm.
        put_out c 2 0 vm))
      else if id = 0xdc \<or> id = 0x200dc then
        rbind (in_reg c 0 vm) (\<lambda>v.
        let str = signed_decimal (sint v); written = length str
        in rbind (in_reg c 2 vm) (\<lambda>n.
           if written + 1 > size_of_i32 n then prv_generate_error s ERROR_CODE_BUFFER_OVERFLOW vm
           else
             rbind (put_out_if c 0 (in_reg c 1) vm) (\<lambda>vm.
             rbind (put_out_if c 1 (\<lambda>vm. rbind (in_reg c 1 vm) (\<lambda>a. Inr (a + of_nat written))) vm) (\<lambda>vm.
             rbind (put_out_if c 2 (\<lambda>vm. rbind (in_reg c 2 vm) (\<lambda>n. Inr (n - of_nat written))) vm) (\<lambda>vm.
             rbind (in_reg c 1 vm) (\<lambda>a. mem_put (sint a) (str @ [0]) vm))))))
      else Inl assertion_failed)"

section \<open>The remaining instructions\<close>

definition prv_nop :: "ir_vm \<Rightarrow> ir_vm c_result" where
  "prv_nop vm = Inr vm"

definition prv_sin :: "ir_host \<Rightarrow> ir_inst \<Rightarrow> ir_vm \<Rightarrow> ir_vm c_result" where
  "prv_sin h instr vm = fn_op (host_sin h) instr vm"

definition prv_cos :: "ir_host \<Rightarrow> ir_inst \<Rightarrow> ir_vm \<Rightarrow> ir_vm c_result" where
  "prv_cos h instr vm = fn_op (host_cos h) instr vm"

definition prv_tan :: "ir_host \<Rightarrow> ir_inst \<Rightarrow> ir_vm \<Rightarrow> ir_vm c_result" where
  "prv_tan h instr vm = fn_op (host_tan h) instr vm"

definition prv_asn :: "ir_host \<Rightarrow> ir_inst \<Rightarrow> ir_vm \<Rightarrow> ir_vm c_result" where
  "prv_asn h instr vm = fn_op (host_asin h) instr vm"

definition prv_acs :: "ir_host \<Rightarrow> ir_inst \<Rightarrow> ir_vm \<Rightarrow> ir_vm c_result" where
  "prv_acs h instr vm = fn_op (host_acos h) instr vm"

definition prv_atn :: "ir_host \<Rightarrow> ir_inst \<Rightarrow> ir_vm \<Rightarrow> ir_vm c_result" where
  "prv_atn h instr vm = fn_op (host_atan h) instr vm"

definition prv_sqr :: "ir_host \<Rightarrow> ir_inst \<Rightarrow> ir_vm \<Rightarrow> ir_vm c_result" where
  "prv_sqr h instr vm = fn_op (host_sqrt h) instr vm"

definition prv_log :: "ir_host \<Rightarrow> ir_section \<Rightarrow> ir_inst \<Rightarrow> ir_vm \<Rightarrow> ir_vm c_result" where
  "prv_log h s instr vm = log_op h s (host_log10 h) instr vm"

definition prv_ln :: "ir_host \<Rightarrow> ir_section \<Rightarrow> ir_inst \<Rightarrow> ir_vm \<Rightarrow> ir_vm c_result" where
  "prv_ln h s instr vm = log_op h s (host_log h) instr vm"

definition prv_absr :: "ir_host \<Rightarrow> ir_inst \<Rightarrow> ir_vm \<Rightarrow> ir_vm c_result" where
  "prv_absr h instr vm = fn_op (host_fabs h) instr vm"

definition prv_powr :: "ir_host \<Rightarrow> ir_inst \<Rightarrow> ir_vm \<Rightarrow> ir_vm c_result" where
  "prv_powr h instr vm = real_op (host_pow h) src_freg src_freg instr vm"

definition prv_expr :: "ir_host \<Rightarrow> ir_inst \<Rightarrow> ir_vm \<Rightarrow> ir_vm c_result" where
  "prv_expr h instr vm = fn_op (host_exp h) instr vm"

definition prv_osbyteid :: "ir_inst \<Rightarrow> ir_vm \<Rightarrow> ir_vm c_result" where
  "prv_osbyteid instr vm = put_reg instr 0 1 vm"

definition prv_point :: "ir_inst \<Rightarrow> ir_vm \<Rightarrow> ir_vm c_result" where
  "prv_point instr vm = put_reg instr 0 0 vm"

definition prv_tint :: "ir_inst \<Rightarrow> ir_vm \<Rightarrow> ir_vm c_result" where
  "prv_tint instr vm = put_reg instr 0 0 vm"

definition prv_end :: "ir_vm \<Rightarrow> ir_vm c_result" where
  "prv_end vm = Inr (vm\<lparr>iv_quit := True\<rparr>)"

definition prv_testesc :: "ir_vm \<Rightarrow> ir_vm c_result" where
  "prv_testesc vm = Inr vm"

definition prv_pos :: "ir_inst \<Rightarrow> ir_vm \<Rightarrow> ir_vm c_result" where
  "prv_pos instr vm = put_reg instr 0 0 vm"

definition prv_block_free :: "ir_vm \<Rightarrow> ir_vm c_result" where
  "prv_block_free vm = Inl assertion_failed"

definition prv_block_adjust :: "ir_vm \<Rightarrow> ir_vm c_result" where
  "prv_block_adjust vm = Inl assertion_failed"

definition prv_getcmdline :: "ir_inst \<Rightarrow> ir_vm \<Rightarrow> ir_vm c_result" where
  "prv_getcmdline instr vm = put_reg instr 0 (of_nat (iv_cmd_line_ptr vm)) vm"

section \<open>Running a program\<close>

text \<open>The table \<open>op_execute_fns\<close>, which the interpreter indexes with the type of the instruction.\<close>

definition op_execute_fns :: "(ir_host \<Rightarrow> ir_prog \<Rightarrow> ir_section \<Rightarrow> ir_inst \<Rightarrow> ir_vm \<Rightarrow> ir_vm c_result) list" where
  "op_execute_fns = [
    \<lambda>h p s instr vm. prv_addi32 instr vm,
    \<lambda>h p s instr vm. prv_addr h instr vm,
    \<lambda>h p s instr vm. prv_subi32 instr vm,
    \<lambda>h p s instr vm. prv_subr h instr vm,
    \<lambda>h p s instr vm. prv_muli32 instr vm,
    \<lambda>h p s instr vm. prv_mulr h instr vm,
    \<lambda>h p s instr vm. prv_divi32 s instr vm,
    \<lambda>h p s instr vm. prv_modi32 s instr vm,
    \<lambda>h p s instr vm. prv_divr h s instr vm,
    \<lambda>h p s instr vm. prv_addii32 instr vm,
    \<lambda>h p s instr vm. prv_addir h instr vm,
    \<lambda>h p s instr vm. prv_subii32 instr vm,
    \<lambda>h p s instr vm. prv_subir h instr vm,
    \<lambda>h p s instr vm. prv_mulii32 instr vm,
    \<lambda>h p s instr vm. prv_mulir h instr vm,
    \<lambda>h p s instr vm. prv_divii32 instr vm,
    \<lambda>h p s instr vm. prv_divir h instr vm,
    \<lambda>h p s instr vm. prv_loadoi8 instr vm,
    \<lambda>h p s instr vm. prv_loadoi32 instr vm,
    \<lambda>h p s instr vm. prv_loador instr vm,
    \<lambda>h p s instr vm. Inl assertion_failed,
    \<lambda>h p s instr vm. Inl assertion_failed,
    \<lambda>h p s instr vm. prv_storeoi8 instr vm,
    \<lambda>h p s instr vm. prv_storeoi32 instr vm,
    \<lambda>h p s instr vm. prv_storeor instr vm,
    \<lambda>h p s instr vm. Inl assertion_failed,
    \<lambda>h p s instr vm. Inl assertion_failed,
    \<lambda>h p s instr vm. prv_movii32 instr vm,
    \<lambda>h p s instr vm. prv_movir instr vm,
    \<lambda>h p s instr vm. prv_mov instr vm,
    \<lambda>h p s instr vm. prv_movfp instr vm,
    \<lambda>h p s instr vm. prv_printstr instr vm,
    \<lambda>h p s instr vm. prv_printnl vm,
    \<lambda>h p s instr vm. prv_rsubii32 instr vm,
    \<lambda>h p s instr vm. prv_rsubir h instr vm,
    \<lambda>h p s instr vm. prv_rdivir h s instr vm,
    \<lambda>h p s instr vm. prv_andi32 instr vm,
    \<lambda>h p s instr vm. prv_andii32 instr vm,
    \<lambda>h p s instr vm. prv_ori32 instr vm,
    \<lambda>h p s instr vm. prv_orii32 instr vm,
    \<lambda>h p s instr vm. prv_eori32 instr vm,
    \<lambda>h p s instr vm. prv_eorii32 instr vm,
    \<lambda>h p s instr vm. prv_noti32 instr vm,
    \<lambda>h p s instr vm. prv_eqi32 instr vm,
    \<lambda>h p s instr vm. prv_eqr h instr vm,
    \<lambda>h p s instr vm. prv_eqii32 instr vm,
    \<lambda>h p s instr vm. prv_eqir h instr vm,
    \<lambda>h p s instr vm. prv_neqi32 instr vm,
    \<lambda>h p s instr vm. prv_neqr h instr vm,
    \<lambda>h p s instr vm. prv_neqii32 instr vm,
    \<lambda>h p s instr vm. prv_neqir h instr vm,
    \<lambda>h p s instr vm. prv_gti32 instr vm,
    \<lambda>h p s instr vm. prv_gtr h instr vm,
    \<lambda>h p s instr vm. prv_gtii32 instr vm,
    \<lambda>h p s instr vm. prv_gtir h instr vm,
    \<lambda>h p s instr vm. prv_ltei32 instr vm,
    \<lambda>h p s instr vm. prv_lter h instr vm,
    \<lambda>h p s instr vm. prv_lteii32 instr vm,
    \<lambda>h p s instr vm. prv_lteir h instr vm,
    \<lambda>h p s instr vm. prv_lti32 instr vm,
    \<lambda>h p s instr vm. prv_ltr h instr vm,
    \<lambda>h p s instr vm. prv_ltii32 instr vm,
    \<lambda>h p s instr vm. prv_ltir h instr vm,
    \<lambda>h p s instr vm. prv_gtei32 instr vm,
    \<lambda>h p s instr vm. prv_gter h instr vm,
    \<lambda>h p s instr vm. prv_gteii32 instr vm,
    \<lambda>h p s instr vm. prv_gteir h instr vm,
    \<lambda>h p s instr vm. prv_jmpc s instr vm,
    \<lambda>h p s instr vm. prv_jmpc s instr vm,
    \<lambda>h p s instr vm. prv_jmp s instr vm,
    \<lambda>h p s instr vm. prv_ret p s vm,
    \<lambda>h p s instr vm. prv_reti32 p s instr vm,
    \<lambda>h p s instr vm. prv_retii32 p s instr vm,
    \<lambda>h p s instr vm. prv_retr p s instr vm,
    \<lambda>h p s instr vm. prv_retir p s instr vm,
    \<lambda>h p s instr vm. prv_lsli32 instr vm,
    \<lambda>h p s instr vm. prv_lslii32 instr vm,
    \<lambda>h p s instr vm. prv_lsri32 instr vm,
    \<lambda>h p s instr vm. prv_lsrii32 instr vm,
    \<lambda>h p s instr vm. prv_asri32 instr vm,
    \<lambda>h p s instr vm. prv_asrii32 instr vm,
    \<lambda>h p s instr vm. prv_movi32fp h instr vm,
    \<lambda>h p s instr vm. prv_movfpi32 h instr vm,
    \<lambda>h p s instr vm. prv_movfprdi32 h instr vm,
    \<lambda>h p s instr vm. prv_nop vm,
    \<lambda>h p s instr vm. prv_nop vm,
    \<lambda>h p s instr vm. prv_nop vm,
    \<lambda>h p s instr vm. prv_nop vm,
    \<lambda>h p s instr vm. prv_nop vm,
    \<lambda>h p s instr vm. prv_nop vm,
    \<lambda>h p s instr vm. host_os h IR_GETTIME instr vm,
    \<lambda>h p s instr vm. prv_nop vm,
    \<lambda>h p s instr vm. prv_nop vm,
    \<lambda>h p s instr vm. prv_nop vm,
    \<lambda>h p s instr vm. prv_nop vm,
    \<lambda>h p s instr vm. prv_nop vm,
    \<lambda>h p s instr vm. prv_sin h instr vm,
    \<lambda>h p s instr vm. prv_cos h instr vm,
    \<lambda>h p s instr vm. prv_tan h instr vm,
    \<lambda>h p s instr vm. prv_asn h instr vm,
    \<lambda>h p s instr vm. prv_acs h instr vm,
    \<lambda>h p s instr vm. prv_atn h instr vm,
    \<lambda>h p s instr vm. prv_sqr h instr vm,
    \<lambda>h p s instr vm. prv_log h s instr vm,
    \<lambda>h p s instr vm. prv_ln h s instr vm,
    \<lambda>h p s instr vm. prv_absr h instr vm,
    \<lambda>h p s instr vm. prv_powr h instr vm,
    \<lambda>h p s instr vm. prv_expr h instr vm,
    \<lambda>h p s instr vm. host_os h IR_GET instr vm,
    \<lambda>h p s instr vm. host_os h IR_GET_TO instr vm,
    \<lambda>h p s instr vm. prv_nop vm,
    \<lambda>h p s instr vm. prv_osbyteid instr vm,
    \<lambda>h p s instr vm. prv_vdui instr vm,
    \<lambda>h p s instr vm. prv_vdu instr vm,
    \<lambda>h p s instr vm. prv_point instr vm,
    \<lambda>h p s instr vm. prv_tint instr vm,
    \<lambda>h p s instr vm. prv_end vm,
    \<lambda>h p s instr vm. prv_testesc vm,
    \<lambda>h p s instr vm. prv_alloc s instr vm,
    \<lambda>h p s instr vm. prv_realloc s instr vm,
    \<lambda>h p s instr vm. prv_ref instr vm,
    \<lambda>h p s instr vm. prv_deref instr vm,
    \<lambda>h p s instr vm. prv_getref instr vm,
    \<lambda>h p s instr vm. prv_pushi32 h instr vm,
    \<lambda>h p s instr vm. prv_popi32 instr vm,
    \<lambda>h p s instr vm. prv_lca instr vm,
    \<lambda>h p s instr vm. prv_nop vm,
    \<lambda>h p s instr vm. prv_pos instr vm,
    \<lambda>h p s instr vm. prv_pos instr vm,
    \<lambda>h p s instr vm. prv_nop vm,
    \<lambda>h p s instr vm. prv_nop vm,
    \<lambda>h p s instr vm. prv_nop vm,
    \<lambda>h p s instr vm. prv_i32_to_dec instr vm,
    \<lambda>h p s instr vm. prv_nop vm,
    \<lambda>h p s instr vm. prv_nop vm,
    \<lambda>h p s instr vm. prv_heap_free instr vm,
    \<lambda>h p s instr vm. prv_block_free vm,
    \<lambda>h p s instr vm. prv_block_adjust vm,
    \<lambda>h p s instr vm. prv_cmov_i32 instr vm,
    \<lambda>h p s instr vm. host_os h IR_OPENOUT instr vm,
    \<lambda>h p s instr vm. host_os h IR_OPENUP instr vm,
    \<lambda>h p s instr vm. host_os h IR_OPENIN instr vm,
    \<lambda>h p s instr vm. host_os h IR_CLOSE instr vm,
    \<lambda>h p s instr vm. host_os h IR_BGET instr vm,
    \<lambda>h p s instr vm. host_os h IR_BPUT instr vm,
    \<lambda>h p s instr vm. host_os h IR_BLOCK_GET instr vm,
    \<lambda>h p s instr vm. host_os h IR_BLOCK_PUT instr vm,
    \<lambda>h p s instr vm. host_os h IR_EOF instr vm,
    \<lambda>h p s instr vm. host_os h IR_EXT instr vm,
    \<lambda>h p s instr vm. host_os h IR_GET_PTR instr vm,
    \<lambda>h p s instr vm. host_os h IR_SET_PTR instr vm,
    \<lambda>h p s instr vm. prv_signx8to32 instr vm,
    \<lambda>h p s instr vm. prv_movi8tofp h instr vm,
    \<lambda>h p s instr vm. prv_movfpi32i32 instr vm,
    \<lambda>h p s instr vm. host_os h IR_OSCLI instr vm,
    \<lambda>h p s instr vm. prv_getprocaddr instr vm,
    \<lambda>h p s instr vm. prv_getcmdline instr vm]"

definition execute :: "ir_instr_type \<Rightarrow> ir_host \<Rightarrow> ir_prog \<Rightarrow> ir_section \<Rightarrow> ir_inst \<Rightarrow> ir_vm \<Rightarrow> ir_vm c_result" where
  "execute itype h p s instr vm = rbind (array_get op_execute_fns (ir_number itype)) (\<lambda>fn. fn h p s instr vm)"


definition execute_op :: "ir_host \<Rightarrow> ir_prog \<Rightarrow> ir_section \<Rightarrow> ir_op \<Rightarrow> ir_vm \<Rightarrow> ir_vm c_result" where
  "execute_op h p s op vm =
     (case op of
        OP_CALL c \<Rightarrow> prv_call_direct h p s False c vm
      | OP_CALLI32 c \<Rightarrow> prv_call_direct h p s True c vm
      | OP_CALLREAL c \<Rightarrow> prv_call_direct h p s True c vm
      | OP_CALL_PTR c \<Rightarrow> prv_call_indirect h p s False c vm
      | OP_CALLI32_PTR c \<Rightarrow> prv_call_indirect h p s True c vm
      | OP_CALLREAL_PTR c \<Rightarrow> prv_call_indirect h p s True c vm
      | OP_SYS_CALL c \<Rightarrow> prv_sys_call s c vm
      | OP_LABEL _ \<Rightarrow> Inr vm
      | OP_INSTR instr \<Rightarrow> execute (inst_type instr) h p s instr vm)"

definition prv_check_heap :: "ir_vm \<Rightarrow> ir_vm c_result" where
  "prv_check_heap vm = (if used_list (iv_heap vm) = [] then Inr vm else Inl assertion_failed)"

text \<open>
  The loop of \<^verbatim>\<open>subitlis_vm_run\<close>. A program need not end: the result is \<open>None\<close> when the fuel does not
  suffice for the number of operations executed.
\<close>

fun vm_run_loop :: "ir_host \<Rightarrow> ir_prog \<Rightarrow> nat \<Rightarrow> ir_vm \<Rightarrow> ir_vm c_result option" where
  "vm_run_loop h p 0 vm = None"
| "vm_run_loop h p (Suc fuel) vm =
     (case section_at p (iv_index vm) of
        Inl e \<Rightarrow> Some (Inl e)
      | Inr s \<Rightarrow>
          if unat (iv_pc vm) < length (vec_items (ir_ops s)) then
            (case execute_op h p s (vec_items (ir_ops s) ! unat (iv_pc vm)) vm of
               Inl e \<Rightarrow> Some (Inl e)
             | Inr vm \<Rightarrow> if iv_quit vm then Some (Inr vm) else vm_run_loop h p fuel (vm\<lparr>iv_pc := iv_pc vm + 1\<rparr>))
          else Some (prv_check_heap vm))"

definition subitlis_vm_run :: "ir_host \<Rightarrow> ir_prog \<Rightarrow> nat \<Rightarrow> ir_vm \<Rightarrow> ir_vm c_result option" where
  "subitlis_vm_run h p fuel vm = vm_run_loop h p fuel (vm\<lparr>iv_pc := 0\<rparr>)"

text \<open>The command line is the arguments separated by spaces; there must be one that is not empty.\<close>

fun join_args :: "u8 list list \<Rightarrow> u8 list" where
  "join_args [] = []"
| "join_args [a] = a"
| "join_args (a # args) = a @ [32] @ join_args args"

definition subtilis_make_cmdline :: "u8 list list \<Rightarrow> allocs \<Rightarrow> (u8 list \<times> allocs) c_result" where
  "subtilis_make_cmdline args al =
     rbind (ensure (\<not> (\<Sum>a \<leftarrow> args. length a + 1) < 2) assertion_failed) (\<lambda>_.
     rbind (alloc al) (\<lambda>al. Inr (join_args args, al)))"

definition subitlis_vm_new :: "ir_host \<Rightarrow> ir_prog \<Rightarrow> nat \<Rightarrow> u8 list list \<Rightarrow> buffer \<Rightarrow> allocs \<Rightarrow> ir_vm c_result" where
  "subitlis_vm_new h p max_allocated args out al =
     rbind (alloc al) (\<lambda>al.
     rbind (section_at p 0) (\<lambda>s.
     rbind (alloc al) (\<lambda>al.
     rbind (alloc al) (\<lambda>al.
     rbind (subtilis_constant_pool_mem_size (ip_constant_pool p) al) (\<lambda>(constants, const_size, al).
     rbind (subtilis_make_cmdline args al) (\<lambda>(cmd_line, al).
     let size = const_size + (length cmd_line + 1);
         adjust_size = (if size mod 4 \<noteq> 0 then size + (4 - size mod 4) else size);
         memory_size = adjust_size + SUBTILIS_VM_HEAP_SIZE + max_allocated + ir_locals s;
         contents = concat (map cd_data (vec_items (ip_constant_pool p))) @ cmd_line @ [0];
         vm = \<lparr>iv_regs = replicate (ir_reg_counter s) 0, iv_fregs = replicate (ir_freg_counter s) 0,
               iv_memory = contents @ replicate (memory_size - length contents) 0,
               iv_index = 0, iv_pc = 0, iv_labels = [], iv_top = memory_size, iv_quit = False,
               iv_heap = subtilis_vm_heap_init, iv_constants = constants,
               iv_cmd_line_ptr = const_size, iv_out = out, iv_allocs = al\<rparr>
     in rbind (alloc al) (\<lambda>al.
        rbind (set_reg_at IR_REG_GLOBAL (of_nat (adjust_size + SUBTILIS_VM_HEAP_SIZE)) (vm\<lparr>iv_allocs := al\<rparr>)) (\<lambda>vm.
        rbind (set_reg_at IR_REG_LOCAL (of_nat (adjust_size + SUBTILIS_VM_HEAP_SIZE + max_allocated)) vm) (\<lambda>vm.
        rbind (prv_compute_labels h s vm) (\<lambda>vm.
        rbind (subtilis_vm_heap_new_block (of_nat adjust_size) (of_nat SUBTILIS_VM_HEAP_SIZE) (iv_allocs vm)) (\<lambda>(block, al).
        Inr (vm\<lparr>iv_heap := (iv_heap vm)\<lparr>free_list := [block]\<rparr>, iv_allocs := al\<rparr>))))))))))))"

end
