(* ===== verification/Ir_Vm_Laws.thy ===== *)
theory Ir_Vm_Laws
  imports Ir_Vm
begin

text \<open>
  What the interpreter guarantees: a jump arrives at its label, a procedure returns to its caller
  with the caller's registers and labels as they were, and the references to a block are counted.
\<close>

section \<open>The stack\<close>

text \<open>The bytes at the top of the stack.\<close>

definition on_stack :: "u8 list \<Rightarrow> ir_vm \<Rightarrow> bool" where
  "on_stack bs vm \<longleftrightarrow> length bs \<le> iv_top vm \<and> iv_top vm \<le> length (iv_memory vm)
     \<and> take (length bs) (drop (iv_top vm - length bs) (iv_memory vm)) = bs"

lemma on_stack_Nil [simp]: "on_stack [] vm \<longleftrightarrow> iv_top vm \<le> length (iv_memory vm)"
  by (simp add: on_stack_def)

lemma take_drop_append:
  "take (m + n) (drop i xs) = take m (drop i xs) @ take n (drop (i + m) xs)"
  by (simp add: take_add add.commute)

lemma push_bytes_Inr:
  "push_bytes bs vm = Inr vm' \<longleftrightarrow> iv_top vm + length bs \<le> length (iv_memory vm)
    \<and> vm' = vm\<lparr>iv_memory := take (iv_top vm) (iv_memory vm) @ bs @ drop (iv_top vm + length bs) (iv_memory vm),
               iv_top := iv_top vm + length bs\<rparr>"
  by (auto simp: push_bytes_def mem_put_def put_block_def rbind_eq_Inr)

lemma push_bytes_if:
  "push_bytes bs vm = (if iv_top vm + length bs \<le> length (iv_memory vm)
     then Inr (vm\<lparr>iv_memory := take (iv_top vm) (iv_memory vm) @ bs @ drop (iv_top vm + length bs) (iv_memory vm),
               iv_top := iv_top vm + length bs\<rparr>) else Inl Undefined)"
  by (simp add: push_bytes_def mem_put_def put_block_def)

lemma push_on_stack:
  assumes "push_bytes bs vm = Inr vm'" and "on_stack as vm"
  shows "on_stack (as @ bs) vm'"
proof -
  let ?t = "iv_top vm" and ?m = "iv_memory vm"
  have fits: "?t + length bs \<le> length ?m" and vm':
      "vm' = vm\<lparr>iv_memory := take ?t ?m @ bs @ drop (?t + length bs) ?m, iv_top := ?t + length bs\<rparr>"
    using assms(1) by (simp_all add: push_bytes_Inr)
  have as: "length as \<le> ?t" "take (length as) (drop (?t - length as) ?m) = as"
    using assms(2) by (simp_all add: on_stack_def)
  have "take (length as + length bs) (drop (?t - length as) (take ?t ?m @ bs @ drop (?t + length bs) ?m)) = as @ bs"
    using as fits by (simp add: drop_take take_drop_append)
  with as fits show ?thesis
    by (simp add: on_stack_def vm')
qed

lemma pop_from_stack:
  assumes "on_stack (as @ bs) vm" and "length bs = n"
  shows "pop_bytes n vm = Inr (bs, vm\<lparr>iv_top := iv_top vm - n\<rparr>)" and "on_stack as (vm\<lparr>iv_top := iv_top vm - n\<rparr>)"
proof -
  let ?t = "iv_top vm" and ?m = "iv_memory vm"
  have fits: "length as + n \<le> ?t" "?t \<le> length ?m"
    and bytes: "take (length as + n) (drop (?t - (length as + n)) ?m) = as @ bs"
    using assms by (simp_all add: on_stack_def)
  have "take (length as + n) (drop (?t - (length as + n)) ?m)
      = take (length as) (drop (?t - (length as + n)) ?m) @ take n (drop (?t - n) ?m)"
    using fits(1) by (simp add: take_drop_append)
  moreover have "length (take (length as) (drop (?t - (length as + n)) ?m)) = length as"
    using fits by simp
  ultimately have "take (length as) (drop (?t - (length as + n)) ?m) = as" and "take n (drop (?t - n) ?m) = bs"
    using bytes by simp_all
  moreover have "length as \<le> ?t - n" "?t - n \<le> length ?m"
    using fits by linarith+
  ultimately show "pop_bytes n vm = Inr (bs, vm\<lparr>iv_top := iv_top vm - n\<rparr>)"
      "on_stack as (vm\<lparr>iv_top := iv_top vm - n\<rparr>)"
    using fits by (simp_all add: pop_bytes_def mem_get_def get_block_def on_stack_def nat_diff_distrib add.commute)
qed

lemma pop_at:
  assumes "on_stack (as @ bs) (vm\<lparr>iv_top := t\<rparr>)" and "length bs = n"
  shows "pop_bytes n (vm\<lparr>iv_top := t\<rparr>) = Inr (bs, vm\<lparr>iv_top := t - n\<rparr>)" and "on_stack as (vm\<lparr>iv_top := t - n\<rparr>)"
  using pop_from_stack [OF assms] by simp_all

text \<open>What is on the stack is there in every state with the same memory below the top.\<close>

lemma on_stack_cong:
  assumes "on_stack bs vm" and "iv_top vm' = iv_top vm" and "take (iv_top vm) (iv_memory vm') = take (iv_top vm) (iv_memory vm)"
  shows "on_stack bs vm'"
proof -
  let ?t = "iv_top vm" and ?n = "length bs"
  have fits: "?n \<le> ?t" "?t \<le> length (iv_memory vm)" "take ?n (drop (?t - ?n) (iv_memory vm)) = bs"
    using assms(1) by (simp_all add: on_stack_def)
  have *: "take ?n (drop (?t - ?n) m) = drop (?t - ?n) (take ?t m)" for m :: "u8 list"
    using fits(1) by (simp add: drop_take)
  have "?t \<le> length (iv_memory vm')"
    using assms(3) fits(2) by (metis length_take min.absorb2 min.cobounded1)
  with fits * [of "iv_memory vm"] * [of "iv_memory vm'"] assms(2,3) show ?thesis
    by (simp add: on_stack_def)
qed

section \<open>Words as bytes\<close>

lemma word_of_word_bytes [simp]: "word_of_bytes (word_bytes w) = w"
  by (simp add: word_of_bytes_def word_bytes_def bytes_word_bytes)

lemma length_dword_bytes [simp]: "length (dword_bytes w) = 8"
  by (simp add: dword_bytes_def)

lemma dword_of_dword_bytes [simp]: "dword_of_bytes (dword_bytes w) = w"
proof -
  have "ucast (ucast w :: u32) OR push_bit 32 (ucast (ucast (drop_bit 32 w) :: u32)) = w"
    by (rule bit_word_eqI) (auto simp: bit_simps)
  then show ?thesis
    by (simp add: dword_of_bytes_def dword_bytes_def)
qed

lemma words_of_word_bytes: "words_of (concat (map word_bytes ws)) = ws"
  by (induction ws) (simp_all add: word_bytes_def bytes_word_bytes)

lemma dwords_of_append8: "length bs = 8 \<Longrightarrow> dwords_of (bs @ cs) = dword_of_bytes bs # dwords_of cs"
  by (auto simp: numeral_eq_Suc length_Suc_conv)

lemma dwords_of_dword_bytes: "dwords_of (concat (map dword_bytes ws)) = ws"
  by (induction ws) (simp_all add: dwords_of_append8)

lemma length_concat_words [simp]: "length (concat (map word_bytes ws)) = length ws * 4"
  and length_concat_dwords [simp]: "length (concat (map dword_bytes ds)) = length ds * 8"
  by (induction ws; simp) (induction ds; simp)

lemma scast_small:
  assumes "n < 2 ^ 31"
  shows "scast (of_nat n :: u32) = (of_nat n :: u64)"
proof -
  have "sint (of_nat n :: u32) = int n"
    using assms by (simp add: signed_of_nat signed_take_bit_int_eq_self)
  then show ?thesis
    by (metis of_int_of_nat_eq of_int_sint)
qed

lemma size_of_small:
  assumes "n < 2 ^ 31"
  shows "size_of_i32 (of_nat n) = n"
proof -
  have "scast (of_nat n :: u32) = (of_nat n :: u64)"
    using assms by (rule scast_small)
  with assms show ?thesis
    by (simp add: size_of_i32_def unat_of_nat take_bit_nat_eq_self)
qed

section \<open>Calls and returns\<close>

definition frame_bytes :: "ir_section \<Rightarrow> bool \<Rightarrow> ir_call \<Rightarrow> ir_vm \<Rightarrow> u8 list" where
  "frame_bytes caller returns call vm =
     concat (map dword_bytes (take (ir_label_counter caller) (iv_labels vm)))
     @ concat (map word_bytes (take (ir_reg_counter caller) (iv_regs vm)))
     @ concat (map dword_bytes (take (ir_freg_counter caller) (iv_fregs vm)))
     @ word_bytes (ucast (iv_pc vm))
     @ word_bytes (of_nat (iv_index vm))
     @ (if returns then word_bytes (of_nat (the (call_reg call))) else [])"

text \<open>The arrays of the interpreter hold at least the registers and labels of the section.\<close>

definition holds_section :: "ir_section \<Rightarrow> ir_vm \<Rightarrow> bool" where
  "holds_section s vm \<longleftrightarrow> ir_label_counter s \<le> length (iv_labels vm) \<and> ir_reg_counter s \<le> length (iv_regs vm)
     \<and> ir_freg_counter s \<le> length (iv_fregs vm)"

lemma push_other_fields:
  assumes "push_bytes bs vm = Inr vm'"
  shows "iv_labels vm' = iv_labels vm" "iv_regs vm' = iv_regs vm" "iv_fregs vm' = iv_fregs vm"
    "iv_pc vm' = iv_pc vm" "iv_index vm' = iv_index vm" "iv_heap vm' = iv_heap vm"
    "iv_top vm' = iv_top vm + length bs" "take (iv_top vm) (iv_memory vm') = take (iv_top vm) (iv_memory vm)"
    "length (iv_memory vm') = length (iv_memory vm)"
  using assms by (auto simp: push_bytes_Inr)

lemma push_bytes_append:
  assumes "push_bytes as vm = Inr vm1" and "push_bytes bs vm1 = Inr vm2"
  shows "push_bytes (as @ bs) vm = Inr vm2"
proof -
  have a: "iv_top vm + length as \<le> length (iv_memory vm)" and vm1: "vm1 = vm\<lparr>iv_memory := take (iv_top vm) (iv_memory vm) @ as
      @ drop (iv_top vm + length as) (iv_memory vm), iv_top := iv_top vm + length as\<rparr>"
    using assms(1) by (simp_all add: push_bytes_Inr)
  with assms(2) show ?thesis
    by (auto simp: push_bytes_Inr ac_simps)
qed

lemma push_frame_bytes:
  assumes "push_frame caller returns call vm = Inr vm'"
  shows "push_bytes (frame_bytes caller returns call vm) vm = Inr vm'" and "returns \<Longrightarrow> call_reg call \<noteq> None"
proof -
  let ?labels = "take (ir_label_counter caller) (iv_labels vm)" and ?regs = "take (ir_reg_counter caller) (iv_regs vm)"
    and ?fregs = "take (ir_freg_counter caller) (iv_fregs vm)"
  obtain vm1 where 1: "push_bytes (concat (map dword_bytes ?labels)) vm = Inr vm1"
    using assms by (auto simp: push_frame_def rbind_eq_Inr get_block_def split: if_splits)
  note f1 = push_other_fields [OF 1]
  obtain vm2 where 2: "push_bytes (concat (map word_bytes ?regs)) vm1 = Inr vm2"
    using assms 1 f1 by (auto simp: push_frame_def rbind_eq_Inr get_block_def split: if_splits)
  note f2 = push_other_fields [OF 2]
  obtain vm3 where 3: "push_bytes (concat (map dword_bytes ?fregs)) vm2 = Inr vm3"
    using assms 1 2 f1 f2 by (auto simp: push_frame_def rbind_eq_Inr get_block_def split: if_splits)
  note f3 = push_other_fields [OF 3]
  obtain vm4 where 4: "push_bytes (word_bytes (ucast (iv_pc vm))) vm3 = Inr vm4"
    using assms 1 2 3 f1 f2 f3 by (auto simp: push_frame_def rbind_eq_Inr get_block_def split: if_splits)
  note f4 = push_other_fields [OF 4]
  obtain vm5 where 5: "push_bytes (word_bytes (of_nat (iv_index vm))) vm4 = Inr vm5"
    and rest: "(if returns then case call_reg call of None \<Rightarrow> Inl Undefined
      | Some r \<Rightarrow> push_bytes (word_bytes (of_nat r)) vm5 else Inr vm5) = Inr vm'"
    using assms 1 2 3 4 f1 f2 f3 f4 by (auto simp: push_frame_def rbind_eq_Inr get_block_def split: if_splits)
  from rest have 6: "push_bytes (if returns then word_bytes (of_nat (the (call_reg call))) else []) vm5 = Inr vm'"
    using 5 by (auto simp: push_bytes_Inr split: if_splits option.splits)
  show "push_bytes (frame_bytes caller returns call vm) vm = Inr vm'"
    using push_bytes_append [OF 1 push_bytes_append [OF 2 push_bytes_append [OF 3 push_bytes_append [OF 4 push_bytes_append [OF 5 6]]]]]
    by (simp add: frame_bytes_def)
  show "returns \<Longrightarrow> call_reg call \<noteq> None"
    using rest by (cases "call_reg call") simp_all
qed

text \<open>Returning through a frame restores what the frame holds.\<close>

definition resumed :: "ir_section \<Rightarrow> ir_vm \<Rightarrow> nat \<Rightarrow> ir_vm \<Rightarrow> ir_vm" where
  "resumed caller vm t vm' = vm'\<lparr>
     iv_regs := take (ir_reg_counter caller) (iv_regs vm) @ drop (ir_reg_counter caller) (iv_regs vm'),
     iv_fregs := take (ir_freg_counter caller) (iv_fregs vm) @ drop (ir_freg_counter caller) (iv_fregs vm'),
     iv_labels := take (ir_label_counter caller) (iv_labels vm) @ drop (ir_label_counter caller) (iv_labels vm'),
     iv_pc := scast (ucast (iv_pc vm) :: u32), iv_index := iv_index vm, iv_top := t\<rparr>"

lemma ret_gen_frame:
  assumes stack: "on_stack (frame_bytes caller returns call vm) (vm'\<lparr>iv_top := iv_top vm' - ir_locals s\<rparr>)"
    and locals: "ir_locals s \<le> iv_top vm'"
    and caller: "section_at p (iv_index vm) = Inr caller" "iv_index vm < 2 ^ 31"
    and sizes: "holds_section caller vm" "holds_section caller vm'"
    and reg: "returns \<Longrightarrow> call_reg call = Some r \<and> r < 2 ^ 31"
  shows "prv_ret_gen p s returns vm' = Inr (if returns then r else IR_REG_UNDEFINED,
    resumed caller vm (iv_top vm' - ir_locals s - length (frame_bytes caller returns call vm)) vm')"
proof -
  let ?labels = "take (ir_label_counter caller) (iv_labels vm)" and ?regs = "take (ir_reg_counter caller) (iv_regs vm)"
    and ?fregs = "take (ir_freg_counter caller) (iv_fregs vm)"
  define t where "t = iv_top vm' - ir_locals s"
  define u where "u = (if returns then t - 4 else t)"
  define labels where "labels = concat (map dword_bytes ?labels)"
  define regs where "regs = concat (map word_bytes ?regs)"
  define fregs where "fregs = concat (map dword_bytes ?fregs)"
  define pc where "pc = word_bytes (ucast (iv_pc vm))"
  define index where "index = word_bytes (of_nat (iv_index vm))"
  define result where "result = (if returns then word_bytes (of_nat r) else [])"
  have lens: "length labels = ir_label_counter caller * 8" "length regs = ir_reg_counter caller * 4"
      "length fregs = ir_freg_counter caller * 8" "length pc = 4" "length index = 4"
      "length result = (if returns then 4 else 0)"
    using sizes(1) by (simp_all add: labels_def regs_def fregs_def pc_def index_def result_def holds_section_def)
  have frame: "frame_bytes caller returns call vm = ((((labels @ regs) @ fregs) @ pc) @ index) @ result"
    using reg by (cases returns)
      (simp_all add: frame_bytes_def labels_def regs_def fregs_def pc_def index_def result_def)
  note 1 = pop_at [OF stack [unfolded frame, folded t_def], OF lens(6)]
  have 2: "(if returns then rbind (pop_bytes 4 (vm'\<lparr>iv_top := t\<rparr>)) (\<lambda>(bs, vm). Inr (size_of_i32 (word_of_bytes bs), vm))
      else Inr (IR_REG_UNDEFINED, vm'\<lparr>iv_top := t\<rparr>)) = Inr (if returns then r else IR_REG_UNDEFINED, vm'\<lparr>iv_top := u\<rparr>)"
    using 1(1) reg by (cases returns) (simp_all add: result_def u_def size_of_small)
  have s2: "on_stack ((((labels @ regs) @ fregs) @ pc) @ index) (vm'\<lparr>iv_top := u\<rparr>)"
    using 1(2) by (cases returns) (simp_all add: u_def)
  note 3 = pop_at [OF s2 lens(5)]
  note 4 = pop_at [OF 3(2) lens(4)]
  note 5 = pop_at [OF 4(2) lens(3)]
  note 6 = pop_at [OF 5(2) lens(2)]
  have s6: "on_stack ([] @ labels) (vm'\<lparr>iv_top := u - 4 - 4 - ir_freg_counter caller * 8 - ir_reg_counter caller * 4\<rparr>)"
    using 6(2) by simp
  note 7 = pop_at [OF s6 lens(1)]
  have enough: "ir_locals s + 4 + (if returns then 4 else 0) \<le> iv_top vm'"
      "(ir_reg_counter caller + 1) * 4 + ir_freg_counter caller * 8 \<le> u - 4"
      "u - 4 - 4 - ir_freg_counter caller * 8 - ir_reg_counter caller * 4 - ir_label_counter caller * 8
        = t - length (frame_bytes caller returns call vm)"
    using stack locals lens by (auto simp: on_stack_def frame t_def u_def)
  have pop: "pop_bytes n (vm'\<lparr>iv_top := a, iv_pc := b, iv_index := c\<rparr>)
      = rbind (pop_bytes n (vm'\<lparr>iv_top := a\<rparr>)) (\<lambda>(bs, vm). Inr (bs, vm\<lparr>iv_pc := b, iv_index := c\<rparr>))" for n a b c
    by (cases vm') (simp add: pop_bytes_def mem_get_def rbind_assoc)
  have idx: "size_of_i32 (word_of_bytes index) = iv_index vm"
    using caller(2) by (simp add: index_def size_of_small)
  have sec: "iv_index vm < length (ip_sections p)"
    using caller(1) by (auto simp: section_at_def rbind_eq_Inr array_get_eq_Inr)
  show ?thesis
    using enough(1,2) caller sec lens sizes 2 3(1) 4(1) 5(1) 6(1) 7(1) enough(3)
    by (simp add: prv_ret_gen_def Let_def t_def [symmetric] pop idx pc_def
        put_block_def holds_section_def resumed_def labels_def regs_def fregs_def words_of_word_bytes dwords_of_dword_bytes)
qed

lemma grow_regs_Inr:
  assumes "grow_regs h s vm = Inr vm'" and "holds_section caller vm"
  shows "frame_bytes caller returns call vm' = frame_bytes caller returns call vm" and "holds_section caller vm'"
    and "iv_top vm' = iv_top vm" and "iv_memory vm' = iv_memory vm" and "iv_heap vm' = iv_heap vm"
  using assms by (auto simp: grow_regs_def rbind_eq_Inr frame_bytes_def holds_section_def split: if_splits)

lemma reserve_stack_Inr:
  assumes "prv_reserve_stack h n vm = Inr vm'"
  shows "frame_bytes caller returns call vm' = frame_bytes caller returns call vm" and "holds_section s vm' = holds_section s vm"
    and "iv_top vm' = iv_top vm" and "iv_top vm \<le> length (iv_memory vm) \<Longrightarrow> take (iv_top vm) (iv_memory vm') = take (iv_top vm) (iv_memory vm)"
    and "iv_top vm + n \<le> length (iv_memory vm')" and "length (iv_memory vm) \<le> length (iv_memory vm')"
    and "iv_heap vm' = iv_heap vm"
  using assms by (auto simp: prv_reserve_stack_def Let_def rbind_eq_Inr frame_bytes_def holds_section_def split: if_splits)

lemma compute_labels_Inr:
  assumes "prv_compute_labels h s vm = Inr vm'"
  shows "iv_top vm' = iv_top vm" and "iv_memory vm' = iv_memory vm" and "iv_regs vm' = iv_regs vm" and "iv_fregs vm' = iv_fregs vm"
    and "length (iv_labels vm) \<le> length (iv_labels vm')" and "iv_pc vm' = iv_pc vm" and "iv_index vm' = iv_index vm"
    and "iv_heap vm' = iv_heap vm"
proof -
  have "iv_top vm' = iv_top vm \<and> iv_memory vm' = iv_memory vm \<and> iv_regs vm' = iv_regs vm \<and> iv_fregs vm' = iv_fregs vm
      \<and> length (iv_labels vm) \<le> length (iv_labels vm') \<and> iv_pc vm' = iv_pc vm \<and> iv_index vm' = iv_index vm \<and> iv_heap vm' = iv_heap vm"
    by (rule each_preserves [OF assms [unfolded prv_compute_labels_def]])
      (auto simp: prv_ensure_label_buffer_def Let_def rbind_eq_Inr array_set_eq_Inr split: ir_op.splits if_splits)
  then show "iv_top vm' = iv_top vm" "iv_memory vm' = iv_memory vm" "iv_regs vm' = iv_regs vm" "iv_fregs vm' = iv_fregs vm"
    "length (iv_labels vm) \<le> length (iv_labels vm')" "iv_pc vm' = iv_pc vm" "iv_index vm' = iv_index vm" "iv_heap vm' = iv_heap vm"
    by simp_all
qed

lemma set_args_Inr:
  assumes "prv_set_args call vm = Inr vm'"
  shows "iv_top vm' = iv_top vm" and "iv_memory vm' = iv_memory vm" and "iv_labels vm' = iv_labels vm"
    and "length (iv_regs vm') = length (iv_regs vm)" and "length (iv_fregs vm') = length (iv_fregs vm)"
    and "iv_heap vm' = iv_heap vm"
  using assms by (auto simp: prv_set_args_def Let_def rbind_eq_Inr put_block_def case_prod_unfold
      split: if_splits)

lemma call_frame:
  assumes call: "prv_call h p caller returns call i vm = Inr vm'" and s: "section_at p i = Inr s" "ir_ftype s = BUILTINS_MAX"
    and caller: "holds_section caller vm" and top: "iv_top vm \<le> length (iv_memory vm)"
  shows "on_stack (frame_bytes caller returns call vm) (vm'\<lparr>iv_top := iv_top vm' - ir_locals s\<rparr>)"
    and "iv_top vm' = iv_top vm + length (frame_bytes caller returns call vm) + ir_locals s"
    and "holds_section caller vm'" and "returns \<Longrightarrow> call_reg call \<noteq> None"
    and "iv_index vm' = i" and "iv_pc vm' = -1"
    and "take (iv_top vm) (iv_memory vm') = take (iv_top vm) (iv_memory vm)"
proof -
  let ?frame = "frame_bytes caller returns call vm"
  from call s obtain vm1 vm2 vm3 vm4 vm5 vm6 where
    1: "grow_regs h s vm = Inr vm1" and
    2: "prv_reserve_stack h (ir_label_counter caller * 8 + (ir_reg_counter caller + 2) * 4
      + ir_freg_counter caller * 8 + ir_locals s + (if returns then 4 else 0)) vm1 = Inr vm2" and
    3: "push_frame caller returns call vm2 = Inr vm3" and
    4: "prv_set_args call vm3 = Inr vm4" and
    5: "set_reg_at IR_REG_LOCAL (of_nat (iv_top vm4)) vm4 = Inr vm5" and
    6: "(if ir_locals s > 0 then push_bytes (replicate (ir_locals s) 0) vm5 else Inr vm5) = Inr vm6" and
    7: "prv_compute_labels h s (vm6\<lparr>iv_index := i, iv_pc := -1\<rparr>) = Inr vm'"
    unfolding prv_call_def by (auto simp: rbind_eq_Inr)
  note g1 = grow_regs_Inr [OF 1 caller] and g2 = reserve_stack_Inr [OF 2] and g4 = set_args_Inr [OF 4]
    and g7 = compute_labels_Inr [OF 7]
  have frame2: "frame_bytes caller returns call vm2 = ?frame"
    using g1(1) g2(1) by simp
  note p3 = push_frame_bytes [OF 3, unfolded frame2]
  note o3 = push_other_fields [OF p3(1)]
  have g5: "iv_top vm5 = iv_top vm4" "iv_memory vm5 = iv_memory vm4" "iv_labels vm5 = iv_labels vm4"
      "length (iv_regs vm5) = length (iv_regs vm4)" "iv_fregs vm5 = iv_fregs vm4"
    using 5 by (auto simp: set_reg_at_def rbind_eq_Inr array_set_eq_Inr)
  have 6: "push_bytes (replicate (ir_locals s) 0) vm5 = Inr vm6"
    using 6 g5 g4 o3 g2(3,5) g1(3) p3(1) by (auto simp: push_bytes_Inr split: if_splits)
  note o6 = push_other_fields [OF 6]
  have "on_stack [] vm2"
    using g1(3,4) g2(3,6) top by simp
  from push_on_stack [OF p3(1) this] have "on_stack ?frame vm3"
    by simp
  then have "on_stack ?frame vm5"
    by (rule on_stack_cong) (simp_all add: g4 g5)
  then have "on_stack ?frame (vm6\<lparr>iv_top := iv_top vm5\<rparr>)"
    by (rule on_stack_cong) (simp_all add: o6)
  then show "on_stack ?frame (vm'\<lparr>iv_top := iv_top vm' - ir_locals s\<rparr>)"
    by (rule on_stack_cong) (simp_all add: g7 o6)
  show "iv_top vm' = iv_top vm + length ?frame + ir_locals s"
    by (simp add: g7 o6 g5 g4 o3 g2 g1)
  show "holds_section caller vm'"
    using g1(2) g2(2) [of caller] g7(5) by (simp add: holds_section_def g7(3,4) o6 g5 g4 o3)
  show "call_reg call \<noteq> None" if returns
    using p3(2) that by blast
  show "iv_index vm' = i" "iv_pc vm' = -1"
    by (simp_all add: g7)
  have "take (iv_top vm) (take (iv_top vm5) (iv_memory vm6)) = take (iv_top vm) (take (iv_top vm5) (iv_memory vm5))"
    by (simp only: o6)
  moreover have "iv_top vm \<le> iv_top vm5"
    by (simp add: g5 g4 o3 g2 g1)
  ultimately have "take (iv_top vm) (iv_memory vm') = take (iv_top vm) (iv_memory vm3)"
    by (simp add: g7 g5 g4 min_def)
  moreover have "take (iv_top vm) (iv_memory vm3) = take (iv_top vm) (iv_memory vm)"
    using o3(8) g2(3,4) g1(3,4) top by simp
  ultimately show "take (iv_top vm) (iv_memory vm') = take (iv_top vm) (iv_memory vm)"
    by simp
qed

section \<open>Jumps\<close>

lemma labels_computed:
  assumes "prv_compute_labels h s vm = Inr vm'" and "(i, OP_LABEL l) \<in> set (enumerate 0 (vec_items (ir_ops s)))"
    and "\<And>j. (j, OP_LABEL l) \<in> set (enumerate 0 (vec_items (ir_ops s))) \<Longrightarrow> j = i"
  shows "l < length (iv_labels vm') \<and> iv_labels vm' ! l = of_nat i"
proof -
  let ?f = "\<lambda>(i, op) vm. case op of
       OP_LABEL label \<Rightarrow>
         rbind (prv_ensure_label_buffer h label vm) (\<lambda>vm.
         rbind (array_set (iv_labels vm) label (of_nat i)) (\<lambda>ls. Inr (vm\<lparr>iv_labels := ls\<rparr>)))
     | _ \<Rightarrow> Inr vm"
  have "l < length (iv_labels vm') \<and> iv_labels vm' ! l = of_nat i"
    if "each ?f xs vm = Inr vm'" and "(i, OP_LABEL l) \<in> set xs" and "\<And>j. (j, OP_LABEL l) \<in> set xs \<Longrightarrow> j = i" for xs
    using that
  proof (induction xs arbitrary: vm' rule: rev_induct)
    case (snoc x xs)
    obtain j op where x: "x = (j, op)"
      by (cases x)
    from snoc.prems(1) obtain vm1 where
      1: "each ?f xs vm = Inr vm1" and 2: "?f (j, op) vm1 = Inr vm'"
      by (auto simp: each_append rbind_eq_Inr x)
    show ?case
    proof (cases "op = OP_LABEL l")
      case True
      with snoc.prems(3) [of j] have "j = i"
        by (simp add: x)
      with 2 True obtain vm2 where "l < length (iv_labels vm2)" and "vm' = vm2\<lparr>iv_labels := (iv_labels vm2)[l := of_nat i]\<rparr>"
        by (auto simp: rbind_eq_Inr array_set_eq_Inr)
      then show ?thesis
        by simp
    next
      case False
      with snoc.prems(2) x have mem: "(i, OP_LABEL l) \<in> set xs"
        by simp
      have only: "j = i" if "(j, OP_LABEL l) \<in> set xs" for j
        using that by (intro snoc.prems(3)) simp
      have IH: "l < length (iv_labels vm1)" "iv_labels vm1 ! l = of_nat i"
        using snoc.IH [OF 1 mem only] by simp_all
      show ?thesis
      proof (cases "\<exists>l'. op = OP_LABEL l'")
        case True
        then obtain l' vm2 where op: "op = OP_LABEL l'" and ens: "prv_ensure_label_buffer h l' vm1 = Inr vm2"
          and vm': "l' < length (iv_labels vm2)" "vm' = vm2\<lparr>iv_labels := (iv_labels vm2)[l' := of_nat j]\<rparr>"
          using 2 by (auto simp: rbind_eq_Inr array_set_eq_Inr)
        have "l < length (iv_labels vm2) \<and> iv_labels vm2 ! l = of_nat i"
          using ens IH by (auto simp: prv_ensure_label_buffer_def Let_def rbind_eq_Inr nth_append split: if_splits)
        with vm' False op show ?thesis
          by auto
      next
        case False
        with 2 have "vm' = vm1"
          by (cases op) simp_all
        with IH show ?thesis
          by simp
      qed
    qed
  qed simp
  from this [OF assms(1) [unfolded prv_compute_labels_def] assms(2,3)] show ?thesis .
qed

section \<open>References to blocks\<close>

lemma mem_get64_put:
  assumes "mem_put a (dword_bytes w) vm = Inr vm'"
  shows "mem_get64 a vm' = Inr w"
  using assms by (auto simp: mem_put_def put_block_def mem_get64_def mem_get_def get_block_def rbind_eq_Inr min_def
      split: if_splits)

lemma bytes_of_dword_of_bytes:
  assumes "length bs = 8"
  shows "dword_bytes (dword_of_bytes bs) = bs"
proof -
  have w: "word_bytes (bytes_word a b c d) = [a, b, c, d]" for a b c d
  proof -
    have "ucast (bytes_word a b c d) = a" "ucast (drop_bit 8 (bytes_word a b c d)) = b"
      "ucast (drop_bit 16 (bytes_word a b c d)) = c" "ucast (drop_bit 24 (bytes_word a b c d)) = d"
      by (rule bit_word_eqI; auto simp: bytes_word_def bit_simps dest: bit_imp_le_length)+
    then show ?thesis
      by (simp add: word_bytes_def)
  qed
  have "ucast (ucast x OR push_bit 32 (ucast y) :: u64) = x" and "ucast (drop_bit 32 (ucast x OR push_bit 32 (ucast y) :: u64)) = y"
    for x y :: u32
    by (rule bit_word_eqI; auto simp: bit_simps dest: bit_imp_le_length)+
  then show ?thesis
    using assms w by (auto simp: dword_bytes_def dword_of_bytes_def word_of_bytes_def numeral_eq_Suc length_Suc_conv)
qed

lemma mem_put_back:
  assumes "mem_get64 a vm = Inr c" and "mem_put a (dword_bytes w) vm = Inr vm'"
  shows "mem_put a (dword_bytes c) vm' = Inr vm"
proof -
  let ?n = "nat a"
  have a: "0 \<le> a" "?n + 8 \<le> length (iv_memory vm)" and c: "c = dword_of_bytes (take 8 (drop ?n (iv_memory vm)))"
    using assms(1) by (auto simp: mem_get64_def mem_get_def get_block_def rbind_eq_Inr split: if_splits)
  have vm': "vm' = vm\<lparr>iv_memory := take ?n (iv_memory vm) @ dword_bytes w @ drop (?n + 8) (iv_memory vm)\<rparr>"
    using assms(2) a by (auto simp: mem_put_def put_block_def rbind_eq_Inr)
  have "dword_bytes c = take 8 (drop ?n (iv_memory vm))"
    unfolding c using a by (intro bytes_of_dword_of_bytes) simp
  moreover have "take ?n (iv_memory vm) @ take 8 (drop ?n (iv_memory vm)) @ drop (?n + 8) (iv_memory vm) = iv_memory vm"
    by (metis add.commute append_take_drop_id drop_drop)
  ultimately show ?thesis
    using a by (simp add: vm' mem_put_def put_block_def min_def)
qed

lemma next_ref:
  assumes "0 < refs" and "refs < (2 ^ 64 - 1 :: u64)"
  shows "1 < refs + 1" and "refs + 1 \<noteq> 0"
proof -
  have "unat refs < 2 ^ 64 - 1" and "0 < unat refs"
    using assms by (simp_all add: word_less_nat_alt)
  then have "unat (refs + 1) = unat refs + 1" 
    by (simp add: unat_word_ariths)
  with \<open>0 < unat refs\<close> show "1 < refs + 1" "refs + 1 \<noteq> 0"
    by (auto simp: word_less_nat_alt unat_eq_0 [symmetric] simp del: unat_eq_0)
qed

section \<open>Properties\<close>

text \<open>
  C34: a procedure that keeps the stack below its locals and leaves the stack pointer where it found it
  returns to the operation after its call, in the section of the caller, with all registers, floating
  point registers and labels of the caller and the stack pointer as they were at the call, and with the number of
  the register for the result.
\<close>

theorem call_then_return:
  assumes call: "prv_call h p caller returns call i vm = Inr vm1" and s: "section_at p i = Inr s" "ir_ftype s = BUILTINS_MAX"
    and caller: "section_at p (iv_index vm) = Inr caller" "holds_section caller vm"
    and bounds: "iv_index vm < 2 ^ 31" "unat (iv_pc vm) < 2 ^ 31" "iv_top vm \<le> length (iv_memory vm)"
      "\<forall>r. call_reg call = Some r \<longrightarrow> r < 2 ^ 31"
    and body: "iv_top vm2 = iv_top vm1" "holds_section caller vm2"
      "take (iv_top vm1 - ir_locals s) (iv_memory vm2) = take (iv_top vm1 - ir_locals s) (iv_memory vm1)"
  shows "\<exists>vm3. prv_ret_gen p s returns vm2 = Inr (if returns then the (call_reg call) else IR_REG_UNDEFINED, vm3)
    \<and> iv_pc vm3 = iv_pc vm \<and> iv_index vm3 = iv_index vm \<and> iv_top vm3 = iv_top vm
    \<and> take (ir_reg_counter caller) (iv_regs vm3) = take (ir_reg_counter caller) (iv_regs vm)
    \<and> take (ir_freg_counter caller) (iv_fregs vm3) = take (ir_freg_counter caller) (iv_fregs vm)
    \<and> take (ir_label_counter caller) (iv_labels vm3) = take (ir_label_counter caller) (iv_labels vm)
    \<and> iv_memory vm3 = iv_memory vm2 \<and> iv_heap vm3 = iv_heap vm2"
proof -
  note frame = call_frame [OF call s caller(2) bounds(3)]
  have "on_stack (frame_bytes caller returns call vm) (vm2\<lparr>iv_top := iv_top vm2 - ir_locals s\<rparr>)"
    using frame(1) by (rule on_stack_cong) (simp_all add: body)
  moreover have "ir_locals s \<le> iv_top vm2"
    using frame(2) body(1) by simp
  moreover have "call_reg call = Some (the (call_reg call)) \<and> the (call_reg call) < 2 ^ 31" if returns
    using frame(4) [OF that] bounds(4) by (cases "call_reg call") auto
  ultimately have ret: "prv_ret_gen p s returns vm2 = Inr (if returns then the (call_reg call) else IR_REG_UNDEFINED,
      resumed caller vm (iv_top vm2 - ir_locals s - length (frame_bytes caller returns call vm)) vm2)"
    by (rule ret_gen_frame [OF _ _ caller(1) bounds(1) caller(2) body(2)])
  have "ucast (iv_pc vm) = (of_nat (unat (iv_pc vm)) :: u32)"
    by (metis ucast_u64_of_nat of_nat_unat)
  then have "scast (ucast (iv_pc vm) :: u32) = iv_pc vm"
    using scast_small [OF bounds(2)] by simp
  with ret caller(2) frame(2) body(1) show ?thesis
    by (simp add: resumed_def holds_section_def min_def)
qed

text \<open>A program of two sections: the second procedure has two local bytes.\<close>

definition example_section :: "nat \<Rightarrow> ir_section" where
  "example_section locals = (prv_ir_section_new \<lparr>ts_ret_val = TYPE_VOID, ts_int_regs = 0, ts_fp_regs = 0\<rparr>)
     \<lparr>ir_locals := locals, ir_reg_counter := 5\<rparr>"

definition example_prog :: ir_prog where
  "example_prog = \<lparr>ip_sections = [Some (example_section 0), Some (example_section 2)], ip_max_sections = 64,
     ip_string_pool = vec_empty, ip_constant_pool = vec_empty, ip_lambdas = 0\<rparr>"

definition example_vm :: ir_vm where
  "example_vm = \<lparr>iv_regs = [0, 8, 9, 10, 11], iv_fregs = [], iv_memory = replicate 64 0, iv_index = 0, iv_pc = 7,
     iv_labels = [], iv_top = 4, iv_quit = False, iv_heap = subtilis_vm_heap_init, iv_constants = [],
     iv_cmd_line_ptr = 0, iv_out = subtilis_buffer_init 8, iv_allocs = []\<rparr>"

lemma example_section_simps:
  "ir_locals (example_section k) = k" "ir_reg_counter (example_section k) = 5" "ir_freg_counter (example_section k) = 0"
  "ir_label_counter (example_section k) = 0" "ir_ftype (example_section k) = BUILTINS_MAX"
  "vec_items (ir_ops (example_section k)) = []"
  by (simp_all add: example_section_def prv_ir_section_new_def)

theorem call_then_return_witness:
  "\<forall>h. \<exists>vm1 vm3. prv_call h example_prog (example_section 0) False
      \<lparr>call_proc_id = 1, call_reg = None, call_args = [\<lparr>arg_type = REG_TYPE_INTEGER, arg_reg = 3, arg_nop = 0\<rparr>]\<rparr> 1 example_vm = Inr vm1
    \<and> iv_regs vm1 = [0, 8, 32, 10, 10]
    \<and> prv_ret_gen example_prog (example_section 2) False vm1 = Inr (IR_REG_UNDEFINED, vm3)
    \<and> iv_pc vm3 = 7 \<and> take 5 (iv_regs vm3) = [0, 8, 9, 10, 11] \<and> iv_top vm3 = 4"
proof
  fix h
  let ?call = "\<lparr>call_proc_id = 1, call_reg = None, call_args = [\<lparr>arg_type = REG_TYPE_INTEGER, arg_reg = 3, arg_nop = 0\<rparr>]\<rparr>"
  have sections: "section_at example_prog 0 = Inr (example_section 0)" "section_at example_prog (Suc 0) = Inr (example_section 2)"
    "length (ip_sections example_prog) = 2"
    by (simp_all add: section_at_def example_prog_def array_get_def)
  obtain vm1 where vm1: "prv_call h example_prog (example_section 0) False ?call 1 example_vm = Inr vm1"
      "iv_regs vm1 = [0, 8, 32, 10, 10]"
    by (simp add: prv_call_def sections example_section_simps grow_regs_def prv_reserve_stack_def example_vm_def push_frame_def
        get_block_def push_bytes_if prv_set_args_def collect_args_def reg_at_def array_get_def put_block_def
        IR_REG_TEMP_START_def IR_REG_LOCAL_def set_reg_at_def array_set_def prv_compute_labels_def)
  note frame = call_frame [OF vm1(1) sections(2) [folded One_nat_def] example_section_simps(5)]
  have holds: "holds_section (example_section 0) example_vm" "iv_top example_vm \<le> length (iv_memory example_vm)"
    by (simp_all add: holds_section_def example_section_simps example_vm_def)
  show "\<exists>vm1 vm3. prv_call h example_prog (example_section 0) False
      \<lparr>call_proc_id = 1, call_reg = None, call_args = [\<lparr>arg_type = REG_TYPE_INTEGER, arg_reg = 3, arg_nop = 0\<rparr>]\<rparr> 1 example_vm = Inr vm1
    \<and> iv_regs vm1 = [0, 8, 32, 10, 10]
    \<and> prv_ret_gen example_prog (example_section 2) False vm1 = Inr (IR_REG_UNDEFINED, vm3)
    \<and> iv_pc vm3 = 7 \<and> take 5 (iv_regs vm3) = [0, 8, 9, 10, 11] \<and> iv_top vm3 = 4"
    using call_then_return [OF vm1(1) sections(2) [folded One_nat_def] example_section_simps(5), of vm1] sections holds frame(3) [OF holds] vm1
    by (fastforce simp: example_vm_def example_section_simps)
qed

text \<open>
  C35: once the labels of a section have been computed, a jump to a label that occurs once in the
  section succeeds and arrives at the operation that is that label.
\<close>

theorem jump_arrives:
  assumes "prv_compute_labels h s vm = Inr vm'" and "i < length (vec_items (ir_ops s))"
    and "vec_items (ir_ops s) ! i = OP_LABEL l" and "length (vec_items (ir_ops s)) < 2 ^ 64"
    and "\<forall>j<length (vec_items (ir_ops s)). vec_items (ir_ops s) ! j = OP_LABEL l \<longrightarrow> j = i"
  shows "jump s l vm' = Inr (vm'\<lparr>iv_pc := of_nat i\<rparr>) \<and> vec_items (ir_ops s) ! unat (of_nat i :: u64) = OP_LABEL l"
proof -
  have "(i, OP_LABEL l) \<in> set (enumerate 0 (vec_items (ir_ops s)))"
    using assms(2,3) by (simp add: in_set_enumerate_eq)
  moreover have "j = i" if "(j, OP_LABEL l) \<in> set (enumerate 0 (vec_items (ir_ops s)))" for j
    using that assms(5) by (simp add: in_set_enumerate_eq)
  ultimately have "l < length (iv_labels vm') \<and> iv_labels vm' ! l = of_nat i"
    by (rule labels_computed [OF assms(1)])
  moreover have "unat (of_nat i :: u64) = i"
    using assms(2,4) by (simp add: unat_of_nat take_bit_nat_eq_self)
  ultimately show ?thesis
    using assms(2,3) by (simp add: jump_def)
qed

theorem jump_arrives_witness:
  "\<forall>h. \<exists>vm'. prv_compute_labels h ((example_section 0)\<lparr>ir_ops := \<lparr>vec_items = [OP_LABEL 1, OP_LABEL 0], vec_max = 4096\<rparr>\<rparr>) example_vm = Inr vm'
    \<and> jump ((example_section 0)\<lparr>ir_ops := \<lparr>vec_items = [OP_LABEL 1, OP_LABEL 0], vec_max = 4096\<rparr>\<rparr>) 0 vm' = Inr (vm'\<lparr>iv_pc := 1\<rparr>)"
proof
  fix h
  let ?s = "(example_section 0)\<lparr>ir_ops := \<lparr>vec_items = [OP_LABEL 1, OP_LABEL 0], vec_max = 4096\<rparr>\<rparr>"
  obtain vm' where vm': "prv_compute_labels h ?s example_vm = Inr vm'"
    by (simp add: prv_compute_labels_def prv_ensure_label_buffer_def example_vm_def CONFIG_LABEL_GRAN_def
        CONFIG_PROGRAM_GRAN_def array_set_def)
  have "\<forall>j<length (vec_items (ir_ops ?s)). vec_items (ir_ops ?s) ! j = OP_LABEL 0 \<longrightarrow> j = 1"
    by (auto simp: less_Suc_eq)
  then show "\<exists>vm'. prv_compute_labels h ((example_section 0)\<lparr>ir_ops := \<lparr>vec_items = [OP_LABEL 1, OP_LABEL 0], vec_max = 4096\<rparr>\<rparr>) example_vm = Inr vm'
    \<and> jump ((example_section 0)\<lparr>ir_ops := \<lparr>vec_items = [OP_LABEL 1, OP_LABEL 0], vec_max = 4096\<rparr>\<rparr>) 0 vm' = Inr (vm'\<lparr>iv_pc := 1\<rparr>)"
    using vm' jump_arrives [OF vm', of 1 0] by simp
qed

text \<open>
  C36: taking a reference to a block of the heap and giving it up again leaves the interpreter as it
  was, the count read in between is one more, and giving up the last reference returns the block to
  the heap.
\<close>

theorem references_counted:
  assumes "src_reg instr 0 vm = Inr ptr" and "find_block (ptr - 8) vm = Inr b"
    and "mem_get64 (int (unat (blk_start b))) vm = Inr refs" and "0 < refs" and "refs < 2 ^ 64 - 1"
  shows "(\<exists>vm1. prv_ref instr vm = Inr vm1 \<and> mem_get64 (int (unat (blk_start b))) vm1 = Inr (refs + 1)
      \<and> prv_deref instr vm1 = Inr vm)
    \<and> (refs = 1 \<longrightarrow> (\<exists>heap. subtilis_vm_heap_free_block (iv_heap vm) (ptr - 8) = Inr heap
      \<and> prv_deref instr vm = Inr (vm\<lparr>iv_heap := heap\<rparr>) \<and> b \<in> set (free_list heap)))"
proof (intro conjI impI)
  let ?a = "int (unat (blk_start b))"
  have "nat ?a + 8 \<le> length (iv_memory vm)"
    using assms(3) by (auto simp: mem_get64_def mem_get_def get_block_def rbind_eq_Inr split: if_splits)
  then obtain vm1 where put: "mem_put ?a (dword_bytes (refs + 1)) vm = Inr vm1"
    by (simp add: mem_put_def put_block_def)
  then have same: "iv_regs vm1 = iv_regs vm" "iv_heap vm1 = iv_heap vm"
    by (auto simp: mem_put_def rbind_eq_Inr)
  then have "src_reg instr 0 vm1 = Inr ptr" "find_block (ptr - 8) vm1 = Inr b"
    using assms(1,2) by (simp_all add: src_reg_def reg_at_def find_block_def)
  moreover have "1 < refs + 1" "refs + 1 \<noteq> 0"
    using assms(4,5) by (simp_all add: next_ref)
  ultimately have "prv_deref instr vm1 = mem_put ?a (dword_bytes refs) vm1"
    using mem_get64_put [OF put] by (simp add: prv_deref_def Let_def)
  then have "prv_deref instr vm1 = Inr vm"
    using mem_put_back [OF assms(3) put] by simp
  moreover have "prv_ref instr vm = Inr vm1"
    using assms(1,2,3) put by (simp add: prv_ref_def)
  ultimately show "\<exists>vm1. prv_ref instr vm = Inr vm1 \<and> mem_get64 ?a vm1 = Inr (refs + 1) \<and> prv_deref instr vm1 = Inr vm"
    using mem_get64_put [OF put] by blast
next
  assume "refs = 1"
  have "b \<in> set (used_list (iv_heap vm))" and "blk_start b = ptr - 8"
    using assms(2) by (auto simp: find_block_def subtilis_vm_heap_find_block_def find_Some_iff split: option.splits)
  then have "\<forall>e. subtilis_vm_heap_free_block (iv_heap vm) (ptr - 8) \<noteq> Inl e"
    by (auto simp: free_Inl)
  then obtain heap where heap: "subtilis_vm_heap_free_block (iv_heap vm) (ptr - 8) = Inr heap"
    by (cases "subtilis_vm_heap_free_block (iv_heap vm) (ptr - 8)") auto
  moreover have "b \<in> set (free_list heap)"
    using heap assms(2)
    by (auto simp: subtilis_vm_heap_free_block_def find_block_def subtilis_vm_heap_find_block_def find_as_split split: option.splits)
  ultimately show "\<exists>heap. subtilis_vm_heap_free_block (iv_heap vm) (ptr - 8) = Inr heap
      \<and> prv_deref instr vm = Inr (vm\<lparr>iv_heap := heap\<rparr>) \<and> b \<in> set (free_list heap)"
    using assms(1-3) \<open>refs = 1\<close> by (simp add: prv_deref_def)
qed

theorem references_counted_witness:
  "\<exists>vm1. prv_ref \<lparr>inst_type = IR_REF, inst_operands = [Some 4, Some 0, Some 0, None]\<rparr>
      (example_vm\<lparr>iv_regs := [0, 8, 9, 10, 24], iv_memory := replicate 16 0 @ dword_bytes 1 @ replicate 40 0,
        iv_heap := \<lparr>free_list = [], used_list = [\<lparr>blk_start = 16, blk_size = 12\<rparr>]\<rparr>\<rparr>) = Inr vm1
    \<and> mem_get64 16 vm1 = Inr 2"
proof -
  let ?vm = "example_vm\<lparr>iv_regs := [0, 8, 9, 10, 24], iv_memory := replicate 16 0 @ dword_bytes 1 @ replicate 40 0,
        iv_heap := \<lparr>free_list = [], used_list = [\<lparr>blk_start = 16, blk_size = 12\<rparr>]\<rparr>\<rparr>"
  have "mem_get64 16 ?vm = Inr 1"
    by (simp add: mem_get64_def mem_get_def get_block_def)
  then have m: "mem_get64 (int (unat (blk_start \<lparr>blk_start = 16, blk_size = 12\<rparr>))) ?vm = Inr 1"
    by simp
  have "src_reg \<lparr>inst_type = IR_REF, inst_operands = [Some 4, Some 0, Some 0, None]\<rparr> 0 ?vm = Inr 24"
    by (simp add: src_reg_def operand_def reg_at_def op_reg_def array_get_def)
  moreover have "find_block (24 - 8) ?vm = Inr \<lparr>blk_start = 16, blk_size = 12\<rparr>"
    by (simp add: find_block_def subtilis_vm_heap_find_block_def)
  ultimately show ?thesis
    using references_counted [OF _ _ m] by fastforce
qed

end
