(* ===== verification/Ir_Match.thy ===== *)
theory Ir_Match
  imports Ir
begin

text \<open>
  The matcher of the back ends (common/ir.c): rules are parsed from their text, and a section is
  translated by running over its operations the action of the first rule that matches at each place.
\<close>

section \<open>Rules\<close>

datatype ir_op_match_type = OP_MATCH_ANY | OP_MATCH_FIXED | OP_MATCH_FLOATING

text \<open>
  The arrays \<^verbatim>\<open>operands\<close> and \<^verbatim>\<open>op_match\<close> are filled together, element after element: one list. Of the union
  only the member that belongs to the class of the operand is ever read.
\<close>

record ir_inst_match =
  im_type :: ir_instr_type
  im_operands :: "(ir_op_match_type \<times> ir_operand) list"

record ir_label_match =
  lm_label :: nat
  lm_match :: ir_op_match_type

datatype ir_op_match =
    MT_INSTR ir_inst_match
  | MT_LABEL ir_label_match
  | MT_CALL | MT_CALLI32 | MT_CALLREAL
  | MT_CALL_PTR | MT_CALLI32_PTR | MT_CALLREAL_PTR
  | MT_SYS_CALL

text \<open>An action gets the section, the place of the match and the state of the back end.\<close>

type_synonym 'u ir_action = "nat \<Rightarrow> ir_section \<times> 'u \<Rightarrow> (ir_section \<times> 'u) c_result"

record 'u ir_rule =
  rule_matches :: "ir_op_match list"
  rule_action :: "'u ir_action"

definition IR_MAX_MATCHES :: nat where
  "IR_MAX_MATCHES = 5"

section \<open>Parsing rules\<close>

definition prv_is_white_space :: "char \<Rightarrow> bool" where
  "prv_is_white_space c \<longleftrightarrow> c = CHR '' '' \<or> c = CHR 0x09 \<or> c = CHR 0x0A \<or> c = CHR 0x0D"

definition is_digit :: "char \<Rightarrow> bool" where
  "is_digit c \<longleftrightarrow> 48 \<le> (of_char c :: nat) \<and> (of_char c :: nat) \<le> 57"

definition is_space :: "char \<Rightarrow> bool" where
  "is_space c \<longleftrightarrow> c = CHR '' '' \<or> 9 \<le> (of_char c :: nat) \<and> (of_char c :: nat) \<le> 13"

definition decimal_value :: "string \<Rightarrow> nat" where
  "decimal_value = foldl (\<lambda>n c. n * 10 + (of_char c - 48)) 0"

text \<open>
  \<^verbatim>\<open>strtoul\<close> to the base 10 on 64-bit numbers: the number, unless it is out of range, and the rest of the
  text. A sign is accepted, and without a digit the number is zero and nothing is consumed.
\<close>

definition strtoul :: "string \<Rightarrow> nat option \<times> string" where
  "strtoul text =
     (let signed = dropWhile is_space text;
          negative = (signed \<noteq> [] \<and> hd signed = CHR ''-'');
          digits = (if negative \<or> signed \<noteq> [] \<and> hd signed = CHR ''+'' then tl signed else signed);
          n = decimal_value (takeWhile is_digit digits)
      in if takeWhile is_digit digits = [] then (Some 0, text)
         else (if n \<ge> 2 ^ 64 then None else if negative then Some ((2 ^ 64 - n) mod 2 ^ 64) else Some n,
               dropWhile is_digit digits))"

definition INT_MAX :: nat where
  "INT_MAX = 2 ^ 31 - 1"

definition parse_number :: "string \<Rightarrow> nat c_result" where
  "parse_number text =
     (case strtoul text of
        (Some n, rest) \<Rightarrow> if rest \<noteq> [] \<or> n > INT_MAX then Inl assertion_failed else Inr n
      | (None, _) \<Rightarrow> Inl assertion_failed)"

definition prv_parse_label :: "string \<Rightarrow> ir_label_match c_result" where
  "prv_parse_label text =
     (if text = ''*'' then Inr \<lparr>lm_label = 0, lm_match = OP_MATCH_ANY\<rparr>
      else rbind (parse_number text) (\<lambda>n. Inr \<lparr>lm_label = n, lm_match = OP_MATCH_FLOATING\<rparr>))"

text \<open>The arrays \<^verbatim>\<open>instr\<close> and \<^verbatim>\<open>operand\<close> have 32 elements, which leaves room for 31 characters.\<close>

definition MAX_TOKEN :: nat where
  "MAX_TOKEN = 32"

definition token :: "(char \<Rightarrow> bool) \<Rightarrow> string \<Rightarrow> (string \<times> string) c_result" where
  "token stop rule =
     (let t = takeWhile (\<lambda>c. \<not> stop c) rule
      in if length t < MAX_TOKEN then Inr (t, drop (length t) rule) else Inl Undefined)"

text \<open>The text of an operand: the comma that ends it is consumed.\<close>

definition operand_token :: "string \<Rightarrow> (string \<times> string) c_result" where
  "operand_token rule =
     rbind (token (\<lambda>c. prv_is_white_space c \<or> c = CHR '','') (dropWhile prv_is_white_space rule)) (\<lambda>(t, rest).
     Inr (t, if rest \<noteq> [] \<and> hd rest = CHR '','' then tl rest else rest))"

definition has_prefix :: "string \<Rightarrow> string \<Rightarrow> bool" where
  "has_prefix p text \<longleftrightarrow> take (length p) text = p"

definition LABEL_STR :: string where
  "LABEL_STR = ''label_''"

definition parse_operand :: "ir_operand_class \<Rightarrow> string \<Rightarrow> (ir_op_match_type \<times> ir_operand) c_result" where
  "parse_operand cls t =
     (if t = ''*'' then Inr (OP_MATCH_ANY, 0)
      else if has_prefix LABEL_STR t then
        if cls \<noteq> OPERAND_LABEL then Inl assertion_failed
        else rbind (prv_parse_label (drop (length LABEL_STR) t)) (\<lambda>l. Inr (lm_match l, of_nat (lm_label l)))
      else if has_prefix ''#'' t then
        if cls \<noteq> OPERAND_I32 then Inl assertion_failed
        else rbind (parse_number (tl t)) (\<lambda>n. Inr (OP_MATCH_FIXED, of_nat n))
      else if has_prefix ''r'' t \<or> has_prefix ''f'' t then
        if has_prefix ''r'' t \<and> cls \<noteq> OPERAND_REGISTER \<or> has_prefix ''f'' t \<and> cls \<noteq> OPERAND_FREGISTER
        then Inl assertion_failed
        else if tl t = [] then Inl assertion_failed
        else if has_prefix ''_'' (tl t) then
          rbind (parse_number (drop 2 t)) (\<lambda>n. Inr (OP_MATCH_FLOATING, of_nat n))
        else rbind (parse_number (tl t)) (\<lambda>n. Inr (OP_MATCH_FIXED, of_nat n))
      else Inl assertion_failed)"

fun prv_parse_operands :: "ir_operand_class list \<Rightarrow> string \<Rightarrow> ((ir_op_match_type \<times> ir_operand) list \<times> string) c_result" where
  "prv_parse_operands [] rule = Inr ([], rule)"
| "prv_parse_operands (cls # classes) rule =
     rbind (operand_token rule) (\<lambda>(t, rule).
     rbind (parse_operand cls t) (\<lambda>m.
     rbind (prv_parse_operands classes rule) (\<lambda>(ms, rule). Inr (m # ms, rule))))"

text \<open>
  One operation of a rule and the rest of the text, or \<open>None\<close> at its end. After a bad label the
  code goes on with the rest of the text; the rule is refused in any case.
\<close>

definition prv_parse_match :: "string \<Rightarrow> (ir_op_match \<times> string) option c_result" where
  "prv_parse_match text =
     (let rule = dropWhile prv_is_white_space text
      in if rule = [] then Inr None
         else rbind (token prv_is_white_space rule) (\<lambda>(instr, rule).
           if has_prefix LABEL_STR instr then
             rbind (prv_parse_label (drop (length LABEL_STR) instr)) (\<lambda>l. Inr (Some (MT_LABEL l, rule)))
           else if instr = ''call'' then Inr (Some (MT_CALL, rule))
           else if instr = ''calli32'' then Inr (Some (MT_CALLI32, rule))
           else if instr = ''callr'' then Inr (Some (MT_CALLREAL, rule))
           else if instr = ''callptr'' then Inr (Some (MT_CALL_PTR, rule))
           else if instr = ''calli32ptr'' then Inr (Some (MT_CALLI32_PTR, rule))
           else if instr = ''callrptr'' then Inr (Some (MT_CALLREAL_PTR, rule))
           else if instr = ''syscall'' then Inr (Some (MT_SYS_CALL, rule))
           else case index_of (\<lambda>d. fst d = instr) op_desc of
             None \<Rightarrow> Inl assertion_failed
           | Some i \<Rightarrow>
               rbind (prv_parse_operands (class_details (snd (op_desc ! i))) rule) (\<lambda>(ms, rule).
               Inr (Some (MT_INSTR \<lparr>im_type = IR_TYPE i, im_operands = ms\<rparr>, rule)))))"

fun parse_matches :: "nat \<Rightarrow> string \<Rightarrow> ir_op_match list c_result" where
  "parse_matches 0 rule = Inr []"
| "parse_matches (Suc n) rule =
     rbind (prv_parse_match rule) (\<lambda>r.
     case r of
       None \<Rightarrow> Inr []
     | Some (m, rule) \<Rightarrow> rbind (parse_matches n rule) (\<lambda>ms. Inr (m # ms)))"

fun subtilis_ir_parse_rules :: "(string \<times> 'u ir_action) list \<Rightarrow> 'u ir_rule list c_result" where
  "subtilis_ir_parse_rules [] = Inr []"
| "subtilis_ir_parse_rules ((text, action) # raw) =
     rbind (parse_matches IR_MAX_MATCHES text) (\<lambda>ms.
     if ms = [] then Inl assertion_failed
     else rbind (subtilis_ir_parse_rules raw) (\<lambda>rules.
       Inr (\<lparr>rule_matches = ms, rule_action = action\<rparr> # rules)))"

section \<open>Matching\<close>

definition MAX_MATCH_WILDCARDS :: nat where
  "MAX_MATCH_WILDCARDS = 16"

text \<open>The values given to the wildcards of a rule, as pairs of a key and a value in the order they were met.\<close>

type_synonym match_pairs = "(nat \<times> nat) list"

record match_state =
  ms_regs :: match_pairs
  ms_fregs :: match_pairs
  ms_labels :: match_pairs

definition process_floating :: "nat \<Rightarrow> nat \<Rightarrow> match_pairs \<Rightarrow> (bool \<times> match_pairs) c_result" where
  "process_floating instr_value match_key pairs =
     (case find (\<lambda>p. fst p = match_key) pairs of
        Some p \<Rightarrow> Inr (snd p = instr_value, pairs)
      | None \<Rightarrow>
          if length pairs = MAX_MATCH_WILDCARDS then Inl assertion_failed
          else Inr (True, pairs @ [(match_key, instr_value)]))"

definition prv_process_floating_label :: "match_state \<Rightarrow> nat \<Rightarrow> nat \<Rightarrow> (bool \<times> match_state) c_result" where
  "prv_process_floating_label state instr_label match_label =
     rbind (process_floating instr_label match_label (ms_labels state)) (\<lambda>(ok, ps). Inr (ok, state\<lparr>ms_labels := ps\<rparr>))"

definition prv_process_floating_reg :: "match_state \<Rightarrow> nat \<Rightarrow> nat \<Rightarrow> (bool \<times> match_state) c_result" where
  "prv_process_floating_reg state instr_reg match_reg =
     rbind (process_floating instr_reg match_reg (ms_regs state)) (\<lambda>(ok, ps). Inr (ok, state\<lparr>ms_regs := ps\<rparr>))"

definition prv_process_floating_freg :: "match_state \<Rightarrow> nat \<Rightarrow> nat \<Rightarrow> (bool \<times> match_state) c_result" where
  "prv_process_floating_freg state instr_reg match_reg =
     rbind (process_floating instr_reg match_reg (ms_fregs state)) (\<lambda>(ok, ps). Inr (ok, state\<lparr>ms_fregs := ps\<rparr>))"

text \<open>One operand of an instruction; \<open>real_eq\<close> is the comparison of doubles of the host.\<close>

definition match_operand ::
    "(u64 \<Rightarrow> u64 \<Rightarrow> bool) \<Rightarrow> ir_operand_class \<Rightarrow> ir_op_match_type \<times> ir_operand \<Rightarrow> ir_inst \<Rightarrow> nat \<Rightarrow> match_state
     \<Rightarrow> (bool \<times> match_state) c_result" where
  "match_operand real_eq cls m instr j state =
     (case fst m of
        OP_MATCH_ANY \<Rightarrow> Inr (True, state)
      | OP_MATCH_FIXED \<Rightarrow>
          rbind (ensure (cls \<noteq> OPERAND_LABEL) assertion_failed) (\<lambda>_.
          rbind (operand instr j) (\<lambda>op.
          Inr (case cls of
                 OPERAND_I32 \<Rightarrow> op_integer (snd m) = op_integer op
               | OPERAND_REAL \<Rightarrow> real_eq (snd m) op
               | _ \<Rightarrow> op_reg (snd m) = op_reg op, state)))
      | OP_MATCH_FLOATING \<Rightarrow>
          (case cls of
             OPERAND_REGISTER \<Rightarrow> rbind (operand instr j) (\<lambda>op. prv_process_floating_reg state (op_reg op) (op_reg (snd m)))
           | OPERAND_FREGISTER \<Rightarrow> rbind (operand instr j) (\<lambda>op. prv_process_floating_freg state (op_reg op) (op_reg (snd m)))
           | OPERAND_LABEL \<Rightarrow> rbind (operand instr j) (\<lambda>op. prv_process_floating_label state (op_label op) (op_label (snd m)))
           | _ \<Rightarrow> Inl assertion_failed))"

fun match_operands ::
    "(u64 \<Rightarrow> u64 \<Rightarrow> bool) \<Rightarrow> ir_operand_class list \<Rightarrow> (ir_op_match_type \<times> ir_operand) list \<Rightarrow> ir_inst \<Rightarrow> nat
     \<Rightarrow> match_state \<Rightarrow> (bool \<times> match_state) c_result" where
  "match_operands real_eq [] ms instr j state = Inr (True, state)"
| "match_operands real_eq (cls # classes) [] instr j state = Inl Undefined"
| "match_operands real_eq (cls # classes) (m # ms) instr j state =
     rbind (match_operand real_eq cls m instr j state) (\<lambda>(ok, state).
     if ok then match_operands real_eq classes ms instr (Suc j) state else Inr (False, state))"

primrec same_op_type :: "ir_op \<Rightarrow> ir_op_match \<Rightarrow> bool" where
  "same_op_type (OP_INSTR x) m = (case m of MT_INSTR _ \<Rightarrow> True | _ \<Rightarrow> False)"
| "same_op_type (OP_LABEL x) m = (case m of MT_LABEL _ \<Rightarrow> True | _ \<Rightarrow> False)"
| "same_op_type (OP_CALL x) m = (case m of MT_CALL \<Rightarrow> True | _ \<Rightarrow> False)"
| "same_op_type (OP_CALLI32 x) m = (case m of MT_CALLI32 \<Rightarrow> True | _ \<Rightarrow> False)"
| "same_op_type (OP_CALLREAL x) m = (case m of MT_CALLREAL \<Rightarrow> True | _ \<Rightarrow> False)"
| "same_op_type (OP_CALL_PTR x) m = (case m of MT_CALL_PTR \<Rightarrow> True | _ \<Rightarrow> False)"
| "same_op_type (OP_CALLI32_PTR x) m = (case m of MT_CALLI32_PTR \<Rightarrow> True | _ \<Rightarrow> False)"
| "same_op_type (OP_CALLREAL_PTR x) m = (case m of MT_CALLREAL_PTR \<Rightarrow> True | _ \<Rightarrow> False)"
| "same_op_type (OP_SYS_CALL x) m = (case m of MT_SYS_CALL \<Rightarrow> True | _ \<Rightarrow> False)"

definition prv_match_op :: "(u64 \<Rightarrow> u64 \<Rightarrow> bool) \<Rightarrow> ir_op \<Rightarrow> ir_op_match \<Rightarrow> match_state \<Rightarrow> (bool \<times> match_state) c_result" where
  "prv_match_op real_eq op m state =
     (if \<not> same_op_type op m then Inr (False, state)
      else case (op, m) of
        (OP_LABEL l, MT_LABEL lm) \<Rightarrow> prv_process_floating_label state l (lm_label lm)
      | (OP_INSTR instr, MT_INSTR im) \<Rightarrow>
          if inst_type instr \<noteq> im_type im then Inr (False, state)
          else match_operands real_eq (instr_operands (im_type im)) (im_operands im) instr 0 state
      | _ \<Rightarrow> Inr (True, state))"

text \<open>The operations from some place on, matched against a rule.\<close>

fun match_window :: "(u64 \<Rightarrow> u64 \<Rightarrow> bool) \<Rightarrow> ir_op_match list \<Rightarrow> ir_op list \<Rightarrow> match_state \<Rightarrow> bool c_result" where
  "match_window real_eq [] ops state = Inr True"
| "match_window real_eq (m # ms) [] state = Inr False"
| "match_window real_eq (m # ms) (op # ops) state =
     rbind (prv_match_op real_eq op m state) (\<lambda>(ok, state).
     if ok then match_window real_eq ms ops state else Inr False)"

definition no_pairs :: match_state where
  "no_pairs = \<lparr>ms_regs = [], ms_fregs = [], ms_labels = []\<rparr>"

fun first_rule :: "(u64 \<Rightarrow> u64 \<Rightarrow> bool) \<Rightarrow> 'u ir_rule list \<Rightarrow> ir_op list \<Rightarrow> 'u ir_rule option c_result" where
  "first_rule real_eq [] ops = Inr None"
| "first_rule real_eq (r # rules) ops =
     rbind (match_window real_eq (rule_matches r) ops no_pairs) (\<lambda>ok.
     if ok then Inr (Some r) else first_rule real_eq rules ops)"

definition is_nop :: "ir_op \<Rightarrow> bool" where
  "is_nop op = (case op of OP_INSTR instr \<Rightarrow> inst_type instr = IR_NOP | _ \<Rightarrow> False)"

text \<open>
  The loop over the section. An action may change the section, and a rule without operations would never
  move on, so that the loop need not end: the result is \<open>None\<close> when the fuel does not suffice.
\<close>

fun ir_match_loop ::
    "(u64 \<Rightarrow> u64 \<Rightarrow> bool) \<Rightarrow> 'u ir_rule list \<Rightarrow> nat \<Rightarrow> nat \<Rightarrow> ir_section \<times> 'u \<Rightarrow> (ir_section \<times> 'u) c_result option" where
  "ir_match_loop real_eq rules 0 pc su = None"
| "ir_match_loop real_eq rules (Suc fuel) pc su =
     (let ops = vec_items (ir_ops (fst su)) in
      if pc < length ops then
        if is_nop (ops ! pc) then ir_match_loop real_eq rules fuel (pc + 1) su
        else case first_rule real_eq rules (drop pc ops) of
            Inl e \<Rightarrow> Some (Inl e)
          | Inr None \<Rightarrow> Some (Inl assertion_failed)
          | Inr (Some r) \<Rightarrow>
              (case rule_action r pc su of
                 Inl e \<Rightarrow> Some (Inl e)
               | Inr su \<Rightarrow> ir_match_loop real_eq rules fuel (pc + length (rule_matches r)) su)
      else Some (Inr su))"

definition subtilis_ir_match ::
    "(u64 \<Rightarrow> u64 \<Rightarrow> bool) \<Rightarrow> 'u ir_rule list \<Rightarrow> nat \<Rightarrow> ir_section \<times> 'u \<Rightarrow> (ir_section \<times> 'u) c_result option" where
  "subtilis_ir_match real_eq rules fuel su =
     (if ir_in_error_handler (fst su) then Some (Inl assertion_failed)
      else ir_match_loop real_eq rules fuel 0 su)"

end
