(* ===== verification/Arm_Gen.thy ===== *)
theory Arm_Gen
  imports Ir_Match Arm_Section
begin

text \<open>
  The selection of ARM instructions (arch/arm32/arm_gen.c): the actions of the rules of the ARM back
  ends for integers, memory, control flow and calls. Each reads the operations of a section of intermediate
  representation from \<open>start\<close> on and appends instructions to the section of the back end.
  The floating point unit, for which there are two sets of functions, is reached through the
  function pointers of \<^verbatim>\<open>subtilis_arm_fp_if_t\<close>, here a record of functions.
\<close>

section \<open>Reading the intermediate representation\<close>

definition ir_op_at :: "ir_section \<Rightarrow> nat \<Rightarrow> ir_op c_result" where
  "ir_op_at s i = array_get (vec_items (ir_ops s)) i"

text \<open>The members of the union \<^verbatim>\<open>op\<close>; reading another member than the one written is not modelled.\<close>

definition ir_inst_at :: "ir_section \<Rightarrow> nat \<Rightarrow> ir_inst c_result" where
  "ir_inst_at s i = rbind (ir_op_at s i) (\<lambda>op. case op of OP_INSTR instr \<Rightarrow> Inr instr | _ \<Rightarrow> Inl Undefined)"

fun op_call :: "ir_op \<Rightarrow> ir_call c_result" where
  "op_call (OP_CALL c) = Inr c"
| "op_call (OP_CALLI32 c) = Inr c"
| "op_call (OP_CALLREAL c) = Inr c"
| "op_call (OP_CALL_PTR c) = Inr c"
| "op_call (OP_CALLI32_PTR c) = Inr c"
| "op_call (OP_CALLREAL_PTR c) = Inr c"
| "op_call (OP_SYS_CALL _) = Inl Undefined"
| "op_call (OP_INSTR _) = Inl Undefined"
| "op_call (OP_LABEL _) = Inl Undefined"

definition ir_call_at :: "ir_section \<Rightarrow> nat \<Rightarrow> ir_call c_result" where
  "ir_call_at s i = rbind (ir_op_at s i) op_call"

definition ir_label_at :: "ir_section \<Rightarrow> nat \<Rightarrow> nat c_result" where
  "ir_label_at s i = rbind (ir_op_at s i) (\<lambda>op. case op of OP_LABEL l \<Rightarrow> Inr l | _ \<Rightarrow> Inl Undefined)"

definition arm_reg_operand :: "ir_inst \<Rightarrow> nat \<Rightarrow> arm_reg c_result" where
  "arm_reg_operand instr i = rbind (operand instr i) (\<lambda>op. Inr (arm_ir_to_arm_reg (op_reg op)))"

definition integer_operand :: "ir_inst \<Rightarrow> nat \<Rightarrow> u32 c_result" where
  "integer_operand instr i = rbind (operand instr i) (\<lambda>op. Inr (op_integer op))"

definition label_operand :: "ir_inst \<Rightarrow> nat \<Rightarrow> u64 c_result" where
  "label_operand instr i = operand instr i"

text \<open>A value that is read before the section of the back end is touched.\<close>

definition reading :: "'a c_result \<Rightarrow> ('a \<Rightarrow> ('b, 's) c_state) \<Rightarrow> ('b, 's) c_state" where
  "reading r f s = rbind r (\<lambda>x. f x s)"

definition ignore :: "('a, 's) c_state \<Rightarrow> (unit, 's) c_state" where
  "ignore m = sthen m (sret ())"

type_synonym arm_gen = "ir_section \<Rightarrow> nat \<Rightarrow> (unit, arm_s) c_state"

section \<open>Data processing\<close>

definition prv_data_simple :: "data_type \<Rightarrow> ccode \<Rightarrow> arm_gen" where
  "prv_data_simple itype cc s start =
     reading (ir_inst_at s start) (\<lambda>ir_op.
     reading (arm_reg_operand ir_op 0) (\<lambda>dest.
     reading (arm_reg_operand ir_op 1) (\<lambda>op1.
     reading (arm_reg_operand ir_op 2) (\<lambda>op2.
     ignore (arm_section_add_instr (Data itype (data cc False dest op1 (OP2_REG op2))))))))"

definition prv_cmp_simple :: "data_type \<Rightarrow> ccode \<Rightarrow> arm_gen" where
  "prv_cmp_simple itype cc s start =
     reading (ir_inst_at s start) (\<lambda>ir_op.
     reading (arm_reg_operand ir_op 1) (\<lambda>op1.
     reading (arm_reg_operand ir_op 2) (\<lambda>op2.
     ignore (arm_add_cmp itype cc op1 op2))))"

definition subtilis_arm_gen_mov :: arm_gen where
  "subtilis_arm_gen_mov s start =
     reading (ir_inst_at s start) (\<lambda>instr.
     reading (arm_reg_operand instr 0) (\<lambda>dest.
     reading (arm_reg_operand instr 1) (\<lambda>op2.
     ignore (arm_add_mov_reg CC_AL False dest op2))))"

definition subtilis_arm_gen_movii32 :: arm_gen where
  "subtilis_arm_gen_movii32 s start =
     reading (ir_inst_at s start) (\<lambda>instr.
     reading (integer_operand instr 1) (\<lambda>op2.
     reading (arm_reg_operand instr 0) (\<lambda>dest.
     arm_add_mov_imm CC_AL False dest op2)))"

text \<open>The destination, the first operand and the number of an instruction.\<close>

definition with_imm :: "(arm_reg \<Rightarrow> arm_reg \<Rightarrow> u32 \<Rightarrow> (unit, arm_s) c_state) \<Rightarrow> arm_gen" where
  "with_imm f s start =
     reading (ir_inst_at s start) (\<lambda>instr.
     reading (integer_operand instr 2) (\<lambda>op2.
     reading (arm_reg_operand instr 0) (\<lambda>dest.
     reading (arm_reg_operand instr 1) (\<lambda>op1. f dest op1 op2))))"

definition subtilis_arm_gen_addii32 :: arm_gen where
  "subtilis_arm_gen_addii32 = with_imm (arm_add_add_imm CC_AL False)"

definition subtilis_arm_gen_subii32 :: arm_gen where
  "subtilis_arm_gen_subii32 = with_imm (arm_add_sub_imm CC_AL False)"

definition subtilis_arm_gen_rsubii32 :: arm_gen where
  "subtilis_arm_gen_rsubii32 = with_imm (arm_add_rsub_imm CC_AL False)"

definition subtilis_arm_gen_mulii32 :: arm_gen where
  "subtilis_arm_gen_mulii32 = with_imm (\<lambda>dest op1 op2. ignore (arm_add_mul_imm CC_AL False dest op1 op2))"

definition subtilis_arm_gen_muli32 :: arm_gen where
  "subtilis_arm_gen_muli32 s start =
     reading (ir_inst_at s start) (\<lambda>instr.
     reading (arm_reg_operand instr 0) (\<lambda>dest.
     reading (arm_reg_operand instr 1) (\<lambda>op1.
     reading (arm_reg_operand instr 2) (\<lambda>op2.
     ignore (arm_add_mul CC_AL False dest op1 op2)))))"

definition prv_data_imm :: "data_type \<Rightarrow> ccode \<Rightarrow> bool \<Rightarrow> arm_gen" where
  "prv_data_imm itype cc status = with_imm (\<lambda>dest op1 op2. ignore (arm_add_data_imm itype cc status dest op1 op2))"

definition subtilis_arm_gen_addi32 :: arm_gen where
  "subtilis_arm_gen_addi32 = prv_data_simple INSTR_ADD CC_AL"

definition subtilis_arm_gen_subi32 :: arm_gen where
  "subtilis_arm_gen_subi32 = prv_data_simple INSTR_SUB CC_AL"

definition subtilis_arm_gen_eorii32 :: arm_gen where
  "subtilis_arm_gen_eorii32 = prv_data_imm INSTR_EOR CC_AL False"

definition subtilis_arm_gen_orii32 :: arm_gen where
  "subtilis_arm_gen_orii32 = prv_data_imm INSTR_ORR CC_AL False"

definition subtilis_arm_gen_andii32 :: arm_gen where
  "subtilis_arm_gen_andii32 = prv_data_imm INSTR_AND CC_AL False"

definition subtilis_arm_gen_eori32 :: arm_gen where
  "subtilis_arm_gen_eori32 = prv_data_simple INSTR_EOR CC_AL"

definition subtilis_arm_gen_ori32 :: arm_gen where
  "subtilis_arm_gen_ori32 = prv_data_simple INSTR_ORR CC_AL"

definition subtilis_arm_gen_andi32 :: arm_gen where
  "subtilis_arm_gen_andi32 = prv_data_simple INSTR_AND CC_AL"

definition subtilis_arm_gen_mvni32 :: arm_gen where
  "subtilis_arm_gen_mvni32 s start =
     reading (ir_inst_at s start) (\<lambda>instr.
     reading (arm_reg_operand instr 0) (\<lambda>dest.
     reading (arm_reg_operand instr 1) (\<lambda>op2.
     ignore (arm_add_movmvn_reg INSTR_MVN CC_AL False dest op2))))"

section \<open>Memory\<close>

definition prv_stran_instr :: "stran_type \<Rightarrow> bool \<Rightarrow> arm_gen" where
  "prv_stran_instr itype byte =
     with_imm (\<lambda>dest base offset. ignore (arm_add_stran_imm itype CC_AL dest base offset byte))"

definition subtilis_arm_gen_storeoi8 :: arm_gen where
  "subtilis_arm_gen_storeoi8 = prv_stran_instr INSTR_STR True"

definition subtilis_arm_gen_storeoi32 :: arm_gen where
  "subtilis_arm_gen_storeoi32 = prv_stran_instr INSTR_STR False"

definition subtilis_arm_gen_loadoi8 :: arm_gen where
  "subtilis_arm_gen_loadoi8 = prv_stran_instr INSTR_LDR True"

definition subtilis_arm_gen_loadoi32 :: arm_gen where
  "subtilis_arm_gen_loadoi32 = prv_stran_instr INSTR_LDR False"

definition subtilis_arm_gen_pushi32 :: arm_gen where
  "subtilis_arm_gen_pushi32 s start =
     reading (ir_inst_at s start) (\<lambda>ir_op.
     reading (arm_reg_operand ir_op 0) (\<lambda>dest. ignore (arm_add_push CC_AL dest)))"

definition subtilis_arm_gen_popi32 :: arm_gen where
  "subtilis_arm_gen_popi32 s start =
     reading (ir_inst_at s start) (\<lambda>ir_op.
     reading (arm_reg_operand ir_op 0) (\<lambda>dest. ignore (arm_add_pop CC_AL dest)))"

section \<open>Labels, jumps and comparisons\<close>

definition subtilis_arm_gen_label :: arm_gen where
  "subtilis_arm_gen_label s start = reading (ir_label_at s start) arm_section_add_label"

definition branch_to :: "ccode \<Rightarrow> u64 \<Rightarrow> (unit, arm_s) c_state" where
  "branch_to cc label = ignore (arm_section_add_instr (Br \<lparr>br_ccode = cc, br_link = False, br_local = False,
     br_indirect = False, br_kind = BR_LINK_VOID, br_target = Target_label label\<rparr>))"

definition prv_cmp_jmp_imm :: "ccode \<Rightarrow> arm_gen" where
  "prv_cmp_jmp_imm cc s start =
     reading (ir_inst_at s start) (\<lambda>cmp.
     reading (ir_inst_at s (start + 1)) (\<lambda>jmp.
     reading (arm_reg_operand cmp 1) (\<lambda>op1.
     reading (integer_operand cmp 2) (\<lambda>op2.
     sthen (arm_add_cmp_imm INSTR_CMP CC_AL op1 op2)
       (reading (label_operand jmp 2) (branch_to cc))))))"

definition prv_cmp_jmp :: "ccode \<Rightarrow> arm_gen" where
  "prv_cmp_jmp cc s start =
     reading (ir_inst_at s (start + 1)) (\<lambda>jmp.
     sthen (prv_cmp_simple INSTR_CMP CC_AL s start)
       (reading (label_operand jmp 2) (branch_to cc)))"

definition subtilis_arm_gen_if_lt_imm :: arm_gen where
  "subtilis_arm_gen_if_lt_imm = prv_cmp_jmp_imm CC_GE"

definition subtilis_arm_gen_if_lte_imm :: arm_gen where
  "subtilis_arm_gen_if_lte_imm = prv_cmp_jmp_imm CC_GT"

definition subtilis_arm_gen_if_neq_imm :: arm_gen where
  "subtilis_arm_gen_if_neq_imm = prv_cmp_jmp_imm CC_EQ"

definition subtilis_arm_gen_if_eq_imm :: arm_gen where
  "subtilis_arm_gen_if_eq_imm = prv_cmp_jmp_imm CC_NE"

definition subtilis_arm_gen_if_gt_imm :: arm_gen where
  "subtilis_arm_gen_if_gt_imm = prv_cmp_jmp_imm CC_LE"

definition subtilis_arm_gen_if_gte_imm :: arm_gen where
  "subtilis_arm_gen_if_gte_imm = prv_cmp_jmp_imm CC_LT"

definition subtilis_arm_gen_if_lt :: arm_gen where
  "subtilis_arm_gen_if_lt = prv_cmp_jmp CC_GE"

definition subtilis_arm_gen_if_lte :: arm_gen where
  "subtilis_arm_gen_if_lte = prv_cmp_jmp CC_GT"

definition subtilis_arm_gen_if_neq :: arm_gen where
  "subtilis_arm_gen_if_neq = prv_cmp_jmp CC_EQ"

definition subtilis_arm_gen_if_eq :: arm_gen where
  "subtilis_arm_gen_if_eq = prv_cmp_jmp CC_NE"

definition subtilis_arm_gen_if_gt :: arm_gen where
  "subtilis_arm_gen_if_gt = prv_cmp_jmp CC_LE"

definition subtilis_arm_gen_if_gte :: arm_gen where
  "subtilis_arm_gen_if_gte = prv_cmp_jmp CC_LT"

definition prv_cmp_imm :: "ccode \<Rightarrow> ccode \<Rightarrow> arm_gen" where
  "prv_cmp_imm ok nok s start =
     reading (ir_inst_at s start) (\<lambda>cmp.
     reading (arm_reg_operand cmp 1) (\<lambda>op1.
     reading (integer_operand cmp 2) (\<lambda>op2.
     sthen (arm_add_cmp_imm INSTR_CMP CC_AL op1 op2)
       (reading (arm_reg_operand cmp 0) (\<lambda>dest.
        sthen (arm_add_mov_imm ok False dest (- 1)) (arm_add_mov_imm nok False dest 0))))))"

definition prv_cmp :: "ccode \<Rightarrow> ccode \<Rightarrow> arm_gen" where
  "prv_cmp ok nok s start =
     reading (ir_inst_at s start) (\<lambda>cmp.
     sthen (prv_cmp_simple INSTR_CMP CC_AL s start)
       (reading (arm_reg_operand cmp 0) (\<lambda>dest.
        sthen (arm_add_mov_imm ok False dest (- 1)) (arm_add_mov_imm nok False dest 0))))"

definition subtilis_arm_gen_gtii32 :: arm_gen where
  "subtilis_arm_gen_gtii32 = prv_cmp_imm CC_GT CC_LE"

definition subtilis_arm_gen_ltii32 :: arm_gen where
  "subtilis_arm_gen_ltii32 = prv_cmp_imm CC_LT CC_GE"

definition subtilis_arm_gen_gteii32 :: arm_gen where
  "subtilis_arm_gen_gteii32 = prv_cmp_imm CC_GE CC_LT"

definition subtilis_arm_gen_lteii32 :: arm_gen where
  "subtilis_arm_gen_lteii32 = prv_cmp_imm CC_LE CC_GT"

definition subtilis_arm_gen_eqii32 :: arm_gen where
  "subtilis_arm_gen_eqii32 = prv_cmp_imm CC_EQ CC_NE"

definition subtilis_arm_gen_neqii32 :: arm_gen where
  "subtilis_arm_gen_neqii32 = prv_cmp_imm CC_NE CC_EQ"

definition subtilis_arm_gen_gti32 :: arm_gen where
  "subtilis_arm_gen_gti32 = prv_cmp CC_GT CC_LE"

definition subtilis_arm_gen_lti32 :: arm_gen where
  "subtilis_arm_gen_lti32 = prv_cmp CC_LT CC_GE"

definition subtilis_arm_gen_gtei32 :: arm_gen where
  "subtilis_arm_gen_gtei32 = prv_cmp CC_GE CC_LT"

definition subtilis_arm_gen_ltei32 :: arm_gen where
  "subtilis_arm_gen_ltei32 = prv_cmp CC_LE CC_GT"

definition subtilis_arm_gen_eqi32 :: arm_gen where
  "subtilis_arm_gen_eqi32 = prv_cmp CC_EQ CC_NE"

definition subtilis_arm_gen_neqi32 :: arm_gen where
  "subtilis_arm_gen_neqi32 = prv_cmp CC_NE CC_EQ"

definition subtilis_arm_gen_jump :: arm_gen where
  "subtilis_arm_gen_jump s start =
     reading (ir_inst_at s start) (\<lambda>jmp. reading (label_operand jmp 0) (branch_to CC_AL))"

definition cmp_zero :: "ir_inst \<Rightarrow> (unit, arm_s) c_state" where
  "cmp_zero jmp = reading (arm_reg_operand jmp 0) (\<lambda>op1. arm_add_cmp_imm INSTR_CMP CC_AL op1 0)"

definition subtilis_arm_gen_jmpc :: arm_gen where
  "subtilis_arm_gen_jmpc s start =
     reading (ir_inst_at s start) (\<lambda>jmp.
     sthen (cmp_zero jmp) (reading (label_operand jmp 2) (branch_to CC_EQ)))"

definition subtilis_arm_gen_jmpc_rev :: arm_gen where
  "subtilis_arm_gen_jmpc_rev s start =
     reading (ir_inst_at s start) (\<lambda>jmp.
     sthen (cmp_zero jmp) (reading (label_operand jmp 1) (branch_to CC_NE)))"

definition subtilis_arm_gen_jmpc_no_label :: arm_gen where
  "subtilis_arm_gen_jmpc_no_label s start =
     reading (ir_inst_at s start) (\<lambda>jmp.
     sthen (cmp_zero jmp)
       (sthen (reading (label_operand jmp 1) (branch_to CC_NE))
         (reading (label_operand jmp 2) (branch_to CC_EQ))))"

section \<open>Conditional moves\<close>

text \<open>
  The function that appends the instruction takes the false condition before the true one, and is
  given them in this order; the fields of the instruction have the names of the two parameters.
\<close>

definition prv_cmovi32_fused :: "ccode \<Rightarrow> ccode \<Rightarrow> arm_gen" where
  "prv_cmovi32_fused true_cond false_cond s start =
     reading (ir_inst_at s (start + 1)) (\<lambda>cmov.
     sthen (prv_cmp_simple INSTR_CMP CC_AL s start)
       (reading (arm_reg_operand cmov 0) (\<lambda>op0.
        reading (arm_reg_operand cmov 2) (\<lambda>op2.
        reading (arm_reg_operand cmov 3) (\<lambda>op3.
        ignore (arm_add_cmov_fused op0 op2 op3 false_cond true_cond))))))"

definition subtilis_arm_gen_cmovi32_gti32 :: arm_gen where
  "subtilis_arm_gen_cmovi32_gti32 = prv_cmovi32_fused CC_GT CC_LE"

definition subtilis_arm_gen_cmovi32_lti32 :: arm_gen where
  "subtilis_arm_gen_cmovi32_lti32 = prv_cmovi32_fused CC_LT CC_GE"

definition subtilis_arm_gen_cmovi32 :: arm_gen where
  "subtilis_arm_gen_cmovi32 s start =
     reading (ir_inst_at s start) (\<lambda>cmov.
     reading (arm_reg_operand cmov 0) (\<lambda>op0.
     reading (arm_reg_operand cmov 1) (\<lambda>op1.
     reading (arm_reg_operand cmov 2) (\<lambda>op2.
     reading (arm_reg_operand cmov 3) (\<lambda>op3.
     ignore (arm_add_cmov op0 op1 op2 op3))))))"

section \<open>Shifts\<close>

definition prv_gen_shift :: "shift_type \<Rightarrow> arm_gen" where
  "prv_gen_shift kind s start =
     reading (ir_inst_at s start) (\<lambda>ir_op.
     reading (arm_reg_operand ir_op 0) (\<lambda>dest.
     reading (arm_reg_operand ir_op 1) (\<lambda>op1.
     reading (arm_reg_operand ir_op 2) (\<lambda>op2.
     ignore (arm_section_add_instr (Data INSTR_MOV (data CC_AL False dest 0
       (OP2_SHIFTED \<lparr>shift_of_reg = op1, shift_kind = kind, shift_by = Shift_reg op2\<rparr>))))))))"

definition prv_gen_shift_i32 :: "shift_type \<Rightarrow> arm_gen" where
  "prv_gen_shift_i32 kind s start =
     reading (ir_inst_at s start) (\<lambda>ir_op.
     reading (arm_reg_operand ir_op 0) (\<lambda>dest.
     reading (arm_reg_operand ir_op 1) (\<lambda>op1.
     reading (integer_operand ir_op 2) (\<lambda>n.
     ignore (arm_section_add_instr (Data INSTR_MOV (data CC_AL False dest 0
       (OP2_SHIFTED \<lparr>shift_of_reg = op1, shift_kind = kind, shift_by = Shift_integer n\<rparr>))))))))"

definition subtilis_arm_gen_lsli32 :: arm_gen where
  "subtilis_arm_gen_lsli32 = prv_gen_shift SHIFT_LSL"

definition subtilis_arm_gen_lslii32 :: arm_gen where
  "subtilis_arm_gen_lslii32 = prv_gen_shift_i32 SHIFT_LSL"

definition subtilis_arm_gen_lsri32 :: arm_gen where
  "subtilis_arm_gen_lsri32 = prv_gen_shift SHIFT_LSR"

definition subtilis_arm_gen_lsrii32 :: arm_gen where
  "subtilis_arm_gen_lsrii32 = prv_gen_shift_i32 SHIFT_LSR"

definition subtilis_arm_gen_asri32 :: arm_gen where
  "subtilis_arm_gen_asri32 = prv_gen_shift SHIFT_ASR"

definition subtilis_arm_gen_asrii32 :: arm_gen where
  "subtilis_arm_gen_asrii32 = prv_gen_shift_i32 SHIFT_ASR"

section \<open>Addresses of constants and procedures\<close>

definition add_pc :: "arm_reg \<Rightarrow> (unit, arm_s) c_state" where
  "add_pc dest = ignore (arm_section_add_instr (Data INSTR_ADD (data CC_AL False dest 15 (OP2_REG dest))))"

definition subtilis_arm_gen_lca :: arm_gen where
  "subtilis_arm_gen_lca s start =
     reading (ir_inst_at s start) (\<lambda>ir_op.
     reading (arm_reg_operand ir_op 0) (\<lambda>dest.
     reading (integer_operand ir_op 1) (\<lambda>n.
     sthen (add_explicit_ldr CC_AL dest n True) (add_pc dest))))"

definition subtilis_arm_gen_get_proc_addr :: arm_gen where
  "subtilis_arm_gen_get_proc_addr s start =
     reading (ir_inst_at s start) (\<lambda>ir_op.
     sbind arm_new_label (\<lambda>label.
     reading (arm_reg_operand ir_op 0) (\<lambda>dest.
     reading (label_operand ir_op 1) (\<lambda>l.
     sthen (add_ldrp CC_AL dest (unat l) label) (add_pc dest)))))"

section \<open>Calls and returns\<close>

text \<open>The functions for the floating point unit that a call needs, as \<^verbatim>\<open>subtilis_arm_fp_if_t\<close> holds them.\<close>

record arm_fp_if =
  fp_store_dbl :: "arm_reg \<Rightarrow> arm_reg \<Rightarrow> nat \<Rightarrow> (unit, arm_s) c_state"
  fp_mov_reg :: "arm_reg \<Rightarrow> arm_reg \<Rightarrow> (unit, arm_s) c_state"
  fp_preserve_regs :: "nat \<Rightarrow> (nat, arm_s) c_state"
  fp_restore_regs :: "nat \<Rightarrow> (nat, arm_s) c_state"

definition last_op :: "(nat, arm_s) c_state" where
  "last_op s = (case as_last s of None \<Rightarrow> Inl Undefined | Some l \<Rightarrow> Inr (l, s))"

text \<open>
  The arguments beyond the fourth of each kind are stored below the stack pointer, the last one first; the
  results are the numbers of the operations that store them, the number left and the offset reached.
\<close>

fun stack_int_args :: "ir_arg list \<Rightarrow> nat \<Rightarrow> nat \<Rightarrow> (nat list \<times> nat \<times> nat, arm_s) c_state" where
  "stack_int_args [] left offset = sret ([], left, offset)"
| "stack_int_args (a # args) left offset =
     (if \<not> 4 < left then sret ([], left, offset)
      else if arg_type a = REG_TYPE_REAL then stack_int_args args left offset
      else sthen (arm_section_add_instr (Stran INSTR_STR
             (stran CC_AL (arm_ir_to_arm_reg (arg_reg a)) 13 (OP2_I32 (of_nat (offset + 4))) True False True False)))
           (sbind last_op (\<lambda>op.
            sbind (stack_int_args args (left - 1) (offset + 4)) (\<lambda>(ops, rest). sret (op # ops, rest)))))"

fun stack_real_args :: "arm_fp_if \<Rightarrow> ir_arg list \<Rightarrow> nat \<Rightarrow> nat \<Rightarrow> (nat list \<times> nat, arm_s) c_state" where
  "stack_real_args fp [] left offset = sret ([], left)"
| "stack_real_args fp (a # args) left offset =
     (if \<not> 4 < left then sret ([], left)
      else if arg_type a \<noteq> REG_TYPE_REAL then stack_real_args fp args left offset
      else sthen (\<lambda>s. fp_store_dbl fp (arm_ir_to_real_reg s (arg_reg a)) 13 (offset + 8) s)
           (sbind last_op (\<lambda>op.
            sbind (stack_real_args fp args (left - 1) (offset + 8)) (\<lambda>(ops, left). sret (op # ops, left)))))"

text \<open>The other arguments are moved to the first registers in their order.\<close>

fun move_int_args :: "ir_arg list \<Rightarrow> nat \<Rightarrow> nat \<Rightarrow> (unit, arm_s) c_state" where
  "move_int_args [] left arg = sret ()"
| "move_int_args (a # args) left arg =
     (if \<not> arg < left then sret ()
      else if arg_type a \<noteq> REG_TYPE_INTEGER then move_int_args args left arg
      else sthen (arm_add_mov_reg CC_AL False (of_nat arg) (arm_ir_to_arm_reg (arg_reg a)))
             (move_int_args args left (arg + 1)))"

fun move_real_args :: "arm_fp_if \<Rightarrow> ir_arg list \<Rightarrow> nat \<Rightarrow> nat \<Rightarrow> (unit, arm_s) c_state" where
  "move_real_args fp [] left arg = sret ()"
| "move_real_args fp (a # args) left arg =
     (if \<not> arg < left then sret ()
      else if arg_type a \<noteq> REG_TYPE_REAL then move_real_args fp args left arg
      else sthen (\<lambda>s. fp_mov_reg fp (of_nat arg) (arm_ir_to_real_reg s (arg_reg a)) s)
             (move_real_args fp args left (arg + 1)))"

definition prv_stack_args :: "arm_fp_if \<Rightarrow> ir_call \<Rightarrow> nat \<Rightarrow> nat \<Rightarrow> (nat list \<times> nat list, arm_s) c_state" where
  "prv_stack_args fp call int_args_left real_args_left =
     sbind (stack_int_args (rev (call_args call)) int_args_left 0) (\<lambda>(int_arg_ops, int_args_left, offset).
     sbind (stack_real_args fp (rev (call_args call)) real_args_left offset) (\<lambda>(real_arg_ops, real_args_left).
     sthen (move_int_args (call_args call) int_args_left 0)
       (sthen (move_real_args fp (call_args call) real_args_left 0)
         (sret (int_arg_ops, real_arg_ops)))))"

definition SITE_NONE :: nat where
  "SITE_NONE = INT_MAX"

definition subtilis_arm_gen_call_gen :: "arm_fp_if option \<Rightarrow> br_link_type \<Rightarrow> bool \<Rightarrow> arm_gen" where
  "subtilis_arm_gen_call_gen fp_if link_type indirect s start =
     reading (ir_call_at s start) (\<lambda>call.
     case fp_if of
       None \<Rightarrow> (\<lambda>_. Inl assertion_failed)
     | Some fp \<Rightarrow>
         (let real_args = length (filter (\<lambda>a. arg_type a = REG_TYPE_REAL) (call_args call));
              int_args = length (call_args call) - real_args;
              save_real_start = min real_args 4;
              reg_list = push_bit 14 1 OR push_bit 11 1
          in if real_args > SUBTILIS_IR_MAX_ARGS_PER_TYPE \<or> int_args > SUBTILIS_IR_MAX_ARGS_PER_TYPE
             then (\<lambda>_. Inl assertion_failed)
             else
               sbind (prv_stack_args fp call int_args real_args) (\<lambda>(int_arg_ops, real_arg_ops).
               sthen (arm_add_mtran INSTR_STM CC_AL 13 reg_list MTRAN_FD True False)
               (sbind last_op (\<lambda>stm_site.
               sbind (if ir_freg_counter s > 0 then fp_preserve_regs fp save_real_start else sret SITE_NONE) (\<lambda>stf_site.
               sthen (if indirect then ignore (arm_add_mov_reg CC_AL False 14 15) else sret ())
               (sthen (arm_section_add_instr (Br \<lparr>br_ccode = CC_AL, br_link = True, br_local = False,
                  br_indirect = indirect, br_kind = link_type,
                  br_target = (if indirect then Target_reg (arm_ir_to_arm_reg (call_proc_id call))
                               else Target_label (of_nat (call_proc_id call)))\<rparr>))
               (sbind last_op (\<lambda>call_site.
               sbind (if ir_freg_counter s > 0 then fp_restore_regs fp save_real_start else sret SITE_NONE) (\<lambda>ldf_site.
               sthen (arm_add_mtran INSTR_LDM CC_AL 13 reg_list MTRAN_FD True False)
               (sbind last_op (\<lambda>ldm_site.
               arm_section_add_call_site stm_site ldm_site stf_site ldf_site int_arg_ops real_arg_ops
                 int_args real_args call_site))))))))))))"

definition subtilis_arm_gen_call :: "arm_fp_if option \<Rightarrow> arm_gen" where
  "subtilis_arm_gen_call fp_if = subtilis_arm_gen_call_gen fp_if BR_LINK_VOID False"

definition prv_gen_calli32 :: "arm_fp_if option \<Rightarrow> bool \<Rightarrow> arm_gen" where
  "prv_gen_calli32 fp_if indirect s start =
     reading (ir_call_at s start) (\<lambda>call.
     sthen (subtilis_arm_gen_call_gen fp_if BR_LINK_INT indirect s start)
       (case call_reg call of
          None \<Rightarrow> (\<lambda>_. Inl Undefined)
        | Some reg \<Rightarrow> ignore (arm_add_mov_reg CC_AL False (arm_ir_to_arm_reg reg) 0)))"

definition subtilis_arm_gen_calli32 :: "arm_fp_if option \<Rightarrow> arm_gen" where
  "subtilis_arm_gen_calli32 fp_if = prv_gen_calli32 fp_if False"

definition subtilis_arm_gen_call_ptr :: "arm_fp_if option \<Rightarrow> arm_gen" where
  "subtilis_arm_gen_call_ptr fp_if = subtilis_arm_gen_call_gen fp_if BR_LINK_VOID True"

definition subtilis_arm_gen_calli32_ptr :: "arm_fp_if option \<Rightarrow> arm_gen" where
  "subtilis_arm_gen_calli32_ptr fp_if = prv_gen_calli32 fp_if True"

definition subtilis_arm_gen_ret :: arm_gen where
  "subtilis_arm_gen_ret s start =
     sthen (arm_section_add_instr (Data INSTR_ADD (data CC_AL False 13 13 (OP2_I32 0))))
       (sbind last_op (\<lambda>op.
        sthen (arm_section_add_ret_site op)
          (ignore (arm_add_mov_reg CC_AL False 15 14))))"

definition subtilis_arm_gen_reti32 :: arm_gen where
  "subtilis_arm_gen_reti32 s start =
     reading (ir_inst_at s start) (\<lambda>instr.
     reading (arm_reg_operand instr 0) (\<lambda>op2.
     sthen (arm_add_mov_reg CC_AL False 0 op2) (subtilis_arm_gen_ret s start)))"

definition subtilis_arm_gen_retii32 :: arm_gen where
  "subtilis_arm_gen_retii32 s start =
     reading (ir_inst_at s start) (\<lambda>instr.
     reading (integer_operand instr 0) (\<lambda>op2.
     sthen (arm_add_mov_imm CC_AL False 0 op2) (subtilis_arm_gen_ret s start)))"

section \<open>Errors and sign extension\<close>

text \<open>The error flag and the error number are at offsets from the global pointer, register 12.\<close>

definition subtilis_arm_gen_sete :: "ir_section \<Rightarrow> ccode \<Rightarrow> arm_reg \<Rightarrow> u32 \<Rightarrow> (unit, arm_s) c_state" where
  "subtilis_arm_gen_sete s cc reg error_code =
     sthen (arm_add_mov_imm cc False reg (- 1))
     (sthen (arm_add_stran_imm INSTR_STR cc reg 12 (ir_eflag_offset s) False)
     (sthen (arm_add_mov_imm cc False reg error_code)
     (ignore (arm_add_stran_imm INSTR_STR cc reg 12 (ir_error_offset s) False))))"

definition subtilis_arm_gen_sete_load_reg :: "ir_section \<Rightarrow> ccode \<Rightarrow> arm_reg \<Rightarrow> (unit, arm_s) c_state" where
  "subtilis_arm_gen_sete_load_reg s cc reg =
     sthen (arm_add_mov_imm cc False reg (- 1))
     (sthen (arm_add_stran_imm INSTR_STR cc reg 12 (ir_eflag_offset s) False)
     (sthen (arm_add_stran_imm INSTR_LDR cc 0 0 0 False)
     (ignore (arm_add_stran_imm INSTR_STR cc 0 12 (ir_error_offset s) False))))"

definition subtilis_arm_gen_signx8to32_helper :: "arm_reg \<Rightarrow> arm_reg \<Rightarrow> (unit, arm_s) c_state" where
  "subtilis_arm_gen_signx8to32_helper dest src =
     sthen (arm_add_cmp_imm INSTR_TST CC_AL src (push_bit 7 1))
     (sthen (arm_add_mov_reg CC_EQ False dest src)
     (sthen (arm_add_data_imm INSTR_AND CC_EQ False dest dest 0xff)
     (sthen (arm_add_mvn_imm CC_NE False dest 255)
     (ignore (arm_section_add_instr (Data INSTR_ORR (data CC_NE False dest dest (OP2_REG src))))))))"

end
