(* ===== verification/Arm_Rules.thy ===== *)
theory Arm_Rules
  imports Arm_Gen
begin

text \<open>
  The rules of the back end for RISC OS on the ARM 2 (backends/riscos/riscos_arm2.c). The actions that
  arch/arm32/arm_gen.c defines are those of the model; the others, for the floating point
  unit and for the operating system, are an argument, which gives the action of each function.
\<close>

text \<open>The lines of a rule; a text that ends with a newline has an empty last one.\<close>

fun lines :: "string list \<Rightarrow> string" where
  "lines [] = []"
| "lines [l] = l"
| "lines (l # ls) = l @ CHR 0x0A # lines ls"

definition arm_action :: "arm_gen \<Rightarrow> arm_s ir_action" where
  "arm_action g start = (\<lambda>(s, a). rbind (g s start a) (\<lambda>(_, a). Inr (s, a)))"

definition riscos_arm2_rules :: "arm_fp_if option \<Rightarrow> (string \<Rightarrow> arm_s ir_action) \<Rightarrow> (string \<times> arm_s ir_action) list" where
  "riscos_arm2_rules fp_if other = [
    (lines [''ltii32 r_1, *, *'', ''jmpc r_1, label_1, *'', ''label_1''], arm_action subtilis_arm_gen_if_lt_imm),
    (lines [''gtii32 r_1, *, *'', ''jmpc r_1, label_1, *'', ''label_1''], arm_action subtilis_arm_gen_if_gt_imm),
    (lines [''lteii32 r_1, *, *'', ''jmpc r_1, label_1, *'', ''label_1''], arm_action subtilis_arm_gen_if_lte_imm),
    (lines [''neqii32 r_1, *, *'', ''jmpc r_1, label_1, *'', ''label_1''], arm_action subtilis_arm_gen_if_neq_imm),
    (lines [''eqii32 r_1, *, *'', ''jmpc r_1, label_1, *'', ''label_1''], arm_action subtilis_arm_gen_if_eq_imm),
    (lines [''gteii32 r_1, *, *'', ''jmpc r_1, label_1, *'', ''label_1''], arm_action subtilis_arm_gen_if_gte_imm),
    (lines [''lti32 r_1, *, *'', ''jmpc r_1, label_1, *'', ''label_1''], arm_action subtilis_arm_gen_if_lt),
    (lines [''gti32 r_1, *, *'', ''jmpc r_1, label_1, *'', ''label_1''], arm_action subtilis_arm_gen_if_gt),
    (lines [''ltei32 r_1, *, *'', ''jmpc r_1, label_1, *'', ''label_1''], arm_action subtilis_arm_gen_if_lte),
    (lines [''eqi32 r_1, *, *'', ''jmpc r_1, label_1, *'', ''label_1''], arm_action subtilis_arm_gen_if_eq),
    (lines [''neqi32 r_1, *, *'', ''jmpc r_1, label_1, *'', ''label_1''], arm_action subtilis_arm_gen_if_neq),
    (lines [''gtei32 r_1, *, *'', ''jmpc r_1, label_1, *'', ''label_1''], arm_action subtilis_arm_gen_if_gte),
    (lines [''ltir r_1, *, *'', ''jmpc r_1, label_1, *'', ''label_1''], other ''subtilis_fpa_gen_if_lt_imm''),
    (lines [''gtir r_1, *, *'', ''jmpc r_1, label_1, *'', ''label_1''], other ''subtilis_fpa_gen_if_gt_imm''),
    (lines [''lteir r_1, *, *'', ''jmpc r_1, label_1, *'', ''label_1''], other ''subtilis_fpa_gen_if_lte_imm''),
    (lines [''neqir r_1, *, *'', ''jmpc r_1, label_1, *'', ''label_1''], other ''subtilis_fpa_gen_if_neq_imm''),
    (lines [''eqir r_1, *, *'', ''jmpc r_1, label_1, *'', ''label_1''], other ''subtilis_fpa_gen_if_eq_imm''),
    (lines [''gteir r_1, *, *'', ''jmpc r_1, label_1, *'', ''label_1''], other ''subtilis_fpa_gen_if_gte_imm''),
    (lines [''ltr r_1, *, *'', ''jmpc r_1, label_1, *'', ''label_1''], other ''subtilis_fpa_gen_if_lt''),
    (lines [''gtr r_1, *, *'', ''jmpc r_1, label_1, *'', ''label_1''], other ''subtilis_fpa_gen_if_gt''),
    (lines [''lter r_1, *, *'', ''jmpc r_1, label_1, *'', ''label_1''], other ''subtilis_fpa_gen_if_lte''),
    (lines [''eqr r_1, *, *'', ''jmpc r_1, label_1, *'', ''label_1''], other ''subtilis_fpa_gen_if_eq''),
    (lines [''neqr r_1, *, *'', ''jmpc r_1, label_1, *'', ''label_1''], other ''subtilis_fpa_gen_if_neq''),
    (lines [''gter r_1, *, *'', ''jmpc r_1, label_1, *'', ''label_1''], other ''subtilis_fpa_gen_if_gte''),
    (lines [''jmpc *, label_1, *'', ''label_1'', ''''], arm_action subtilis_arm_gen_jmpc),
    (lines [''jmpc *, *, label_1'', ''label_1'', ''''], arm_action subtilis_arm_gen_jmpc_rev),
    (lines [''jmpc *, *, *'', ''''], arm_action subtilis_arm_gen_jmpc_no_label),
    (lines [''jmpcnf *, *, *'', ''''], arm_action subtilis_arm_gen_jmpc_no_label),
    (lines [''gti32 r_1, *, *'', ''cmovi32 *, r_1, *, *'', ''''], arm_action subtilis_arm_gen_cmovi32_gti32),
    (lines [''lti32 r_1, *, *'', ''cmovi32 *, r_1, *, *'', ''''], arm_action subtilis_arm_gen_cmovi32_lti32),
    (lines [''cmovi32 *, *, *, *'', ''''], arm_action subtilis_arm_gen_cmovi32),
    (lines [''call'', ''''], arm_action (subtilis_arm_gen_call fp_if)),
    (lines [''calli32'', ''''], arm_action (subtilis_arm_gen_calli32 fp_if)),
    (lines [''callr'', ''''], other ''subtilis_fpa_gen_callr''),
    (lines [''callptr'', ''''], arm_action (subtilis_arm_gen_call_ptr fp_if)),
    (lines [''calli32ptr'', ''''], arm_action (subtilis_arm_gen_calli32_ptr fp_if)),
    (lines [''callrptr'', ''''], other ''subtilis_fpa_gen_callr_ptr''),
    (lines [''ret'', ''''], arm_action subtilis_arm_gen_ret),
    (lines [''reti32 *'', ''''], arm_action subtilis_arm_gen_reti32),
    (lines [''retii32 *'', ''''], arm_action subtilis_arm_gen_retii32),
    (lines [''retr *'', ''''], other ''subtilis_fpa_gen_retr''),
    (lines [''retir *'', ''''], other ''subtilis_fpa_gen_retir''),
    (lines [''gtii32 *, *, *'', ''''], arm_action subtilis_arm_gen_gtii32),
    (lines [''gtir *, *, *'', ''''], other ''subtilis_fpa_gen_gtir''),
    (lines [''ltii32 *, *, *'', ''''], arm_action subtilis_arm_gen_ltii32),
    (lines [''ltir *, *, *'', ''''], other ''subtilis_fpa_gen_ltir''),
    (lines [''gteii32 *, *, *'', ''''], arm_action subtilis_arm_gen_gteii32),
    (lines [''gteir *, *, *'', ''''], other ''subtilis_fpa_gen_gteir''),
    (lines [''lteii32 *, *, *'', ''''], arm_action subtilis_arm_gen_lteii32),
    (lines [''lteir *, *, *'', ''''], other ''subtilis_fpa_gen_lteir''),
    (lines [''eqii32 *, *, *'', ''''], arm_action subtilis_arm_gen_eqii32),
    (lines [''eqir *, *, *'', ''''], other ''subtilis_fpa_gen_eqir''),
    (lines [''neqii32 *, *, *'', ''''], arm_action subtilis_arm_gen_neqii32),
    (lines [''neqir *, *, *'', ''''], other ''subtilis_fpa_gen_neqir''),
    (lines [''gti32 *, *, *'', ''''], arm_action subtilis_arm_gen_gti32),
    (lines [''gtr *, *, *'', ''''], other ''subtilis_fpa_gen_gtr''),
    (lines [''lti32 *, *, *'', ''''], arm_action subtilis_arm_gen_lti32),
    (lines [''ltr *, *, *'', ''''], other ''subtilis_fpa_gen_ltr''),
    (lines [''eqi32 *, *, *'', ''''], arm_action subtilis_arm_gen_eqi32),
    (lines [''eqr *, *, *'', ''''], other ''subtilis_fpa_gen_eqr''),
    (lines [''neqi32 *, *, *'', ''''], arm_action subtilis_arm_gen_neqi32),
    (lines [''neqr *, *, *'', ''''], other ''subtilis_fpa_gen_neqr''),
    (lines [''gtei32 *, *, *'', ''''], arm_action subtilis_arm_gen_gtei32),
    (lines [''gter *, *, *'', ''''], other ''subtilis_fpa_gen_gter''),
    (lines [''ltei32 *, *, *'', ''''], arm_action subtilis_arm_gen_ltei32),
    (lines [''lter *, *, *'', ''''], other ''subtilis_fpa_gen_lter''),
    (''mov *, *'', arm_action subtilis_arm_gen_mov),
    (''movii32 *, *'', arm_action subtilis_arm_gen_movii32),
    (''addii32 *, *, *'', arm_action subtilis_arm_gen_addii32),
    (''mulii32 *, *, *'', arm_action subtilis_arm_gen_mulii32),
    (''muli32 *, *, *'', arm_action subtilis_arm_gen_muli32),
    (''subii32 *, *, *'', arm_action subtilis_arm_gen_subii32),
    (''rsubii32 *, *, *'', arm_action subtilis_arm_gen_rsubii32),
    (''addi32 *, *, *'', arm_action subtilis_arm_gen_addi32),
    (''subi32 *, *, *'', arm_action subtilis_arm_gen_subi32),
    (''storeoi8 *, *, *'', arm_action subtilis_arm_gen_storeoi8),
    (''storeoi32 *, *, *'', arm_action subtilis_arm_gen_storeoi32),
    (''loadoi8 *, *, *'', arm_action subtilis_arm_gen_loadoi8),
    (''loadoi32 *, *, *'', arm_action subtilis_arm_gen_loadoi32),
    (''label_1'', arm_action subtilis_arm_gen_label),
    (lines [''printstr *, *'', ''''], other ''subtilis_riscos_arm_printstr''),
    (lines [''printnl'', ''''], other ''subtilis_riscos_arm_printnl''),
    (lines [''jmp *'', ''''], arm_action subtilis_arm_gen_jump),
    (lines [''andii32 *, *, *'', ''''], arm_action subtilis_arm_gen_andii32),
    (lines [''orii32 *, *, *'', ''''], arm_action subtilis_arm_gen_orii32),
    (lines [''eorii32 *, *, *'', ''''], arm_action subtilis_arm_gen_eorii32),
    (lines [''noti32 *, *'', ''''], arm_action subtilis_arm_gen_mvni32),
    (lines [''andi32 *, *, *'', ''''], arm_action subtilis_arm_gen_andi32),
    (lines [''ori32 *, *, *'', ''''], arm_action subtilis_arm_gen_ori32),
    (lines [''eori32 *, *, *'', ''''], arm_action subtilis_arm_gen_eori32),
    (lines [''lsli32 *, *, *'', ''''], arm_action subtilis_arm_gen_lsli32),
    (lines [''lslii32 *, *, *'', ''''], arm_action subtilis_arm_gen_lslii32),
    (lines [''lsri32 *, *, *'', ''''], arm_action subtilis_arm_gen_lsri32),
    (lines [''lsrii32 *, *, *'', ''''], arm_action subtilis_arm_gen_lsrii32),
    (lines [''asri32 *, *, *'', ''''], arm_action subtilis_arm_gen_asri32),
    (lines [''asrii32 *, *, *'', ''''], arm_action subtilis_arm_gen_asrii32),
    (lines [''movfp *, *'', ''''], other ''subtilis_fpa_gen_movr''),
    (lines [''movir *, *'', ''''], other ''subtilis_fpa_gen_movir''),
    (lines [''movfpi32 *, *'', ''''], other ''subtilis_fpa_gen_movri32''),
    (lines [''movfprdi32 *, *'', ''''], other ''subtilis_fpa_gen_movrrdi32''),
    (lines [''movi32fp *, *'', ''''], other ''subtilis_fpa_gen_movi32r''),
    (lines [''addr *, *, *'', ''''], other ''subtilis_fpa_gen_addr''),
    (lines [''addir *, *, *'', ''''], other ''subtilis_fpa_gen_addir''),
    (lines [''subr *, *, *'', ''''], other ''subtilis_fpa_gen_subr''),
    (lines [''subir *, *, *'', ''''], other ''subtilis_fpa_gen_subir''),
    (lines [''rsubir *, *, *'', ''''], other ''subtilis_fpa_gen_rsubir''),
    (lines [''mulr *, *, *'', ''''], other ''subtilis_fpa_gen_mulr''),
    (lines [''mulir *, *, *'', ''''], other ''subtilis_fpa_gen_mulir''),
    (lines [''divr *, *, *'', ''''], other ''subtilis_fpa_gen_divr''),
    (lines [''divir *, *, *'', ''''], other ''subtilis_fpa_gen_divir''),
    (lines [''rdivir *, *, *'', ''''], other ''subtilis_fpa_gen_rdivir''),
    (lines [''storeor *, *, *'', ''''], other ''subtilis_fpa_gen_storeor''),
    (lines [''loador *, *, *'', ''''], other ''subtilis_fpa_gen_loador''),
    (lines [''modei32 *'', ''''], other ''subtilis_riscos_arm_modei32''),
    (lines [''plot *, *, *'', ''''], other ''subtilis_riscos_arm_plot''),
    (lines [''gcol *, *'', ''''], other ''subtilis_riscos_arm_gcol''),
    (lines [''gcoltint *, *, *'', ''''], other ''subtilis_riscos_arm_gcol_tint''),
    (lines [''origin *, *'', ''''], other ''subtilis_riscos_arm_origin''),
    (lines [''gettime *'', ''''], other ''subtilis_riscos_arm_gettime''),
    (lines [''cls'', ''''], other ''subtilis_riscos_arm_cls''),
    (lines [''clg'', ''''], other ''subtilis_riscos_arm_clg''),
    (lines [''on'', ''''], other ''subtilis_riscos_arm_on''),
    (lines [''off'', ''''], other ''subtilis_riscos_arm_off''),
    (lines [''wait'', ''''], other ''subtilis_riscos_arm_wait''),
    (lines [''sin *, *'', ''''], other ''subtilis_fpa_gen_sin''),
    (lines [''cos *, *'', ''''], other ''subtilis_fpa_gen_cos''),
    (lines [''tan *, *'', ''''], other ''subtilis_fpa_gen_tan''),
    (lines [''asn *, *'', ''''], other ''subtilis_fpa_gen_asn''),
    (lines [''acs *, *'', ''''], other ''subtilis_fpa_gen_acs''),
    (lines [''atn *, *'', ''''], other ''subtilis_fpa_gen_atn''),
    (lines [''sqr *, *'', ''''], other ''subtilis_fpa_gen_sqr''),
    (lines [''log *, *'', ''''], other ''subtilis_fpa_gen_log''),
    (lines [''ln *, *'', ''''], other ''subtilis_fpa_gen_ln''),
    (lines [''absr *, *'', ''''], other ''subtilis_fpa_gen_absr''),
    (lines [''get *'', ''''], other ''subtilis_riscos_arm_get''),
    (lines [''gettimeout *, *'', ''''], other ''subtilis_riscos_arm_get_to''),
    (lines [''inkey *, *'', ''''], other ''subtilis_riscos_arm_inkey''),
    (lines [''osbyteid *'', ''''], other ''subtilis_riscos_arm_os_byte_id''),
    (lines [''vdui *'', ''''], other ''subtilis_riscos_arm_vdui''),
    (lines [''vdu *'', ''''], other ''subtilis_riscos_arm_vdu''),
    (lines [''point *, *, *'', ''''], other ''subtilis_riscos_arm_point''),
    (lines [''tint *, *, *'', ''''], other ''subtilis_riscos_arm_tint''),
    (lines [''end'', ''''], other ''subtilis_riscos_arm_end''),
    (lines [''testesc'', ''''], other ''subtilis_riscos_arm_testesc''),
    (lines [''ref *'', ''''], other ''subtilis_riscos_arm_ref''),
    (lines [''getref *, *'', ''''], other ''subtilis_riscos_arm_getref''),
    (lines [''pushi32 *'', ''''], arm_action subtilis_arm_gen_pushi32),
    (lines [''popi32 *'', ''''], arm_action subtilis_arm_gen_popi32),
    (lines [''lca *, *'', ''''], arm_action subtilis_arm_gen_lca),
    (lines [''at *, *'', ''''], other ''subtilis_riscos_arm_at''),
    (lines [''pos *'', ''''], other ''subtilis_riscos_arm_pos''),
    (lines [''vpos *'', ''''], other ''subtilis_riscos_arm_vpos''),
    (lines [''powr *, *, *'', ''''], other ''subtilis_fpa_gen_pow''),
    (lines [''expr *, *'', ''''], other ''subtilis_fpa_gen_exp''),
    (lines [''tcol *'', ''''], other ''subtilis_riscos_tcol''),
    (lines [''tcoltint *, *'', ''''], other ''subtilis_riscos_tcol_tint''),
    (lines [''palette *, *, *, *'', ''''], other ''subtilis_riscos_palette''),
    (lines [''i32todec *, *, *'', ''''], other ''subtilis_riscos_arm_i32_to_dec''),
    (lines [''i32tohex *, *, *'', ''''], other ''subtilis_riscos_arm_i32_to_hex''),
    (lines [''heapfree *'', ''''], other ''subtilis_riscos_arm_heap_free_space''),
    (lines [''blockfree *, *'', ''''], other ''subtilis_riscos_arm_block_free_space''),
    (lines [''blockadjust *, *'', ''''], other ''subtilis_riscos_arm_block_adjust''),
    (lines [''syscall'', ''''], other ''subtilis_riscos_arm2_syscall''),
    (lines [''openout *, *'', ''''], other ''subtilis_riscos_openout''),
    (lines [''openup *, *'', ''''], other ''subtilis_riscos_openup''),
    (lines [''openin *, *'', ''''], other ''subtilis_riscos_openin''),
    (lines [''close *'', ''''], other ''subtilis_riscos_close''),
    (lines [''bget *, *'', ''''], other ''subtilis_riscos_bget''),
    (lines [''bput *, *'', ''''], other ''subtilis_riscos_bput''),
    (lines [''blockget *, *, *, *'', ''''], other ''subtilis_riscos_block_get''),
    (lines [''blockput *, *, *'', ''''], other ''subtilis_riscos_block_put''),
    (lines [''eof *, *'', ''''], other ''subtilis_riscos_eof''),
    (lines [''ext *, *'', ''''], other ''subtilis_riscos_ext''),
    (lines [''getptr *, *'', ''''], other ''subtilis_riscos_get_ptr''),
    (lines [''setptr *, *'', ''''], other ''subtilis_riscos_set_ptr''),
    (lines [''signx8to32 *, *'', ''''], other ''subtilis_riscos_signx8to32''),
    (lines [''movi8tofp *, *'', ''''], other ''subtilis_fpa_gen_movi8tofp''),
    (lines [''movfptoi32i32 *, *, *'', ''''], other ''subtilis_fpa_gen_movfptoi32i32''),
    (lines [''oscli *'', ''''], other ''subtilis_riscos_oscli''),
    (''getprocaddr *, *'', arm_action subtilis_arm_gen_get_proc_addr),
    (lines [''osargs *'', ''''], other ''subtilis_riscos_osargs'')]"

end
