(* ===== verification/Ir_Match_Laws.thy ===== *)
theory Ir_Match_Laws
  imports Ir_Match
begin

text \<open>
  What the matcher computes. A rule matches when values can be assigned to its wildcards such that every
  operation is an instance of its pattern; the loop cuts a section into consecutive windows and runs on
  each the action of the first rule that matches; and rules are parsed back from their printed form.
\<close>

section \<open>Instances of patterns\<close>

text \<open>Values for the wildcards of the three kinds.\<close>

record assignment =
  val_reg :: "nat \<Rightarrow> nat"
  val_freg :: "nat \<Rightarrow> nat"
  val_label :: "nat \<Rightarrow> nat"

definition operand_fits :: "(u64 \<Rightarrow> u64 \<Rightarrow> bool) \<Rightarrow> assignment \<Rightarrow> ir_operand_class \<Rightarrow> ir_op_match_type \<times> ir_operand \<Rightarrow> ir_operand \<Rightarrow> bool" where
  "operand_fits real_eq v cls m op =
     (case fst m of
        OP_MATCH_ANY \<Rightarrow> True
      | OP_MATCH_FIXED \<Rightarrow>
          (case cls of
             OPERAND_I32 \<Rightarrow> op_integer (snd m) = op_integer op
           | OPERAND_REAL \<Rightarrow> real_eq (snd m) op
           | _ \<Rightarrow> op_reg (snd m) = op_reg op)
      | OP_MATCH_FLOATING \<Rightarrow>
          (case cls of
             OPERAND_REGISTER \<Rightarrow> val_reg v (op_reg (snd m)) = op_reg op
           | OPERAND_FREGISTER \<Rightarrow> val_freg v (op_reg (snd m)) = op_reg op
           | _ \<Rightarrow> val_label v (op_label (snd m)) = op_label op))"

fun operands_fit :: "(u64 \<Rightarrow> u64 \<Rightarrow> bool) \<Rightarrow> assignment \<Rightarrow> ir_operand_class list \<Rightarrow> (ir_op_match_type \<times> ir_operand) list
    \<Rightarrow> ir_operand option list \<Rightarrow> bool" where
  "operands_fit real_eq v [] ms ops = True"
| "operands_fit real_eq v (cls # classes) (m # ms) (Some op # ops) =
     (operand_fits real_eq v cls m op \<and> operands_fit real_eq v classes ms ops)"
| "operands_fit real_eq v _ _ _ = False"

definition op_fits :: "(u64 \<Rightarrow> u64 \<Rightarrow> bool) \<Rightarrow> assignment \<Rightarrow> ir_op_match \<Rightarrow> ir_op \<Rightarrow> bool" where
  "op_fits real_eq v m op \<longleftrightarrow> same_op_type op m \<and>
     (case (op, m) of
        (OP_LABEL l, MT_LABEL lm) \<Rightarrow> val_label v (lm_label lm) = l
      | (OP_INSTR instr, MT_INSTR im) \<Rightarrow> inst_type instr = im_type im
          \<and> operands_fit real_eq v (instr_operands (im_type im)) (im_operands im) (inst_operands instr)
      | _ \<Rightarrow> True)"

definition rule_fits :: "(u64 \<Rightarrow> u64 \<Rightarrow> bool) \<Rightarrow> ir_op_match list \<Rightarrow> ir_op list \<Rightarrow> bool" where
  "rule_fits real_eq ms ops \<longleftrightarrow> length ms \<le> length ops \<and>
     (\<exists>v. list_all2 (op_fits real_eq v) ms (take (length ms) ops))"

section \<open>Well-formed rules and operations\<close>

fun operand_ok :: "ir_operand_class \<Rightarrow> ir_op_match_type \<times> ir_operand \<Rightarrow> bool" where
  "operand_ok cls (OP_MATCH_ANY, _) = True"
| "operand_ok cls (OP_MATCH_FIXED, _) = (cls \<noteq> OPERAND_LABEL)"
| "operand_ok cls (OP_MATCH_FLOATING, _) = (cls \<in> {OPERAND_REGISTER, OPERAND_FREGISTER, OPERAND_LABEL})"

fun match_ok :: "ir_op_match \<Rightarrow> bool" where
  "match_ok (MT_INSTR im) = list_all2 operand_ok (instr_operands (im_type im)) (im_operands im)"
| "match_ok _ = True"

text \<open>The wildcards of one kind in a rule.\<close>

definition floating :: "ir_operand_class \<Rightarrow> (ir_operand_class \<times> ir_op_match_type \<times> ir_operand) list \<Rightarrow> nat set" where
  "floating cls ms = {unat op |op. (cls, OP_MATCH_FLOATING, op) \<in> set ms}"

fun classed :: "ir_op_match \<Rightarrow> (ir_operand_class \<times> ir_op_match_type \<times> ir_operand) list" where
  "classed (MT_INSTR im) = zip (instr_operands (im_type im)) (im_operands im)"
| "classed _ = []"

fun label_wildcard :: "ir_op_match \<Rightarrow> nat set" where
  "label_wildcard (MT_LABEL lm) = {lm_label lm}"
| "label_wildcard _ = {}"

definition wildcards :: "ir_operand_class \<Rightarrow> ir_op_match \<Rightarrow> nat set" where
  "wildcards cls m = floating cls (classed m) \<union> (if cls = OPERAND_LABEL then label_wildcard m else {})"

definition rule_ok :: "ir_op_match list \<Rightarrow> bool" where
  "rule_ok ms \<longleftrightarrow> list_all match_ok ms
     \<and> (\<forall>cls. card (\<Union>m \<in> set ms. wildcards cls m) \<le> MAX_MATCH_WILDCARDS)"

text \<open>The operands an instruction has are there.\<close>

fun op_ok :: "ir_op \<Rightarrow> bool" where
  "op_ok (OP_INSTR instr) = (length (instr_operands (inst_type instr)) \<le> length (inst_operands instr)
     \<and> list_all (\<lambda>x. x \<noteq> None) (take (length (instr_operands (inst_type instr))) (inst_operands instr)))"
| "op_ok _ = True"

section \<open>The state of a match is a partial assignment\<close>

definition pairs_ok :: "nat set \<Rightarrow> match_pairs \<Rightarrow> bool" where
  "pairs_ok W ps \<longleftrightarrow> distinct (map fst ps) \<and> fst ` set ps \<subseteq> W \<and> finite W \<and> card W \<le> MAX_MATCH_WILDCARDS"

definition follows :: "(nat \<Rightarrow> nat) \<Rightarrow> match_pairs \<Rightarrow> bool" where
  "follows f ps \<longleftrightarrow> (\<forall>(k, x) \<in> set ps. f k = x)"

lemma process_floating_total:
  assumes "pairs_ok W ps" and "k \<in> W"
  shows "\<exists>ok ps'. process_floating x k ps = Inr (ok, ps') \<and> pairs_ok W ps'
    \<and> (\<forall>f. ok \<and> follows f ps' \<longleftrightarrow> follows f ps \<and> f k = x)"
proof (cases "find (\<lambda>p. fst p = k) ps")
  case None
  then have new: "k \<notin> fst ` set ps"
    by (auto simp: find_None_iff)
  have "length ps = card (fst ` set ps)"
    using assms(1) by (metis distinct_card length_map list.set_map pairs_ok_def)
  also have "\<dots> < card W"
    using assms new by (intro psubset_card_mono) (auto simp: pairs_ok_def)
  finally have "length ps \<noteq> MAX_MATCH_WILDCARDS"
    using assms(1) by (simp add: pairs_ok_def)
  with None new assms show ?thesis
    by (auto simp: process_floating_def pairs_ok_def follows_def)
next
  case (Some p)
  then have p: "p \<in> set ps" "fst p = k"
    by (auto simp: find_Some_iff)
  then have "f k = snd p" if "follows f ps" for f
    using that by (cases p) (auto simp: follows_def)
  with Some assms(1) show ?thesis
    by (auto simp: process_floating_def)
qed

text \<open>The bounds on the wildcards met so far and still to come.\<close>

definition state_ok :: "(ir_operand_class \<Rightarrow> nat set) \<Rightarrow> match_state \<Rightarrow> bool" where
  "state_ok W st \<longleftrightarrow> pairs_ok (W OPERAND_REGISTER) (ms_regs st) \<and> pairs_ok (W OPERAND_FREGISTER) (ms_fregs st)
     \<and> pairs_ok (W OPERAND_LABEL) (ms_labels st)"

definition agrees :: "assignment \<Rightarrow> match_state \<Rightarrow> bool" where
  "agrees v st \<longleftrightarrow> follows (val_reg v) (ms_regs st) \<and> follows (val_freg v) (ms_fregs st) \<and> follows (val_label v) (ms_labels st)"

text \<open>
  A step of the match succeeds with a state that stands for the assignments of the state before that also satisfy \<open>P\<close>.
\<close>

definition refines :: "(ir_operand_class \<Rightarrow> nat set) \<Rightarrow> match_state \<Rightarrow> (assignment \<Rightarrow> bool) \<Rightarrow> (bool \<times> match_state) c_result \<Rightarrow> bool" where
  "refines W st P r \<longleftrightarrow> (\<exists>ok st'. r = Inr (ok, st') \<and> state_ok W st'
     \<and> (\<forall>v. ok \<and> agrees v st' \<longleftrightarrow> agrees v st \<and> P v))"

lemma refinesI: "state_ok W st' \<Longrightarrow> (\<And>v. ok \<and> agrees v st' \<longleftrightarrow> agrees v st \<and> P v) \<Longrightarrow> refines W st P (Inr (ok, st'))"
  by (auto simp: refines_def)

lemma refines_skip [simp]:
  "state_ok W st \<Longrightarrow> refines W st P (Inr (True, st)) \<longleftrightarrow> (\<forall>v. agrees v st \<longrightarrow> P v)"
  "state_ok W st \<Longrightarrow> refines W st P (Inr (False, st)) \<longleftrightarrow> (\<forall>v. agrees v st \<longrightarrow> \<not> P v)"
  by (auto simp: refines_def)

lemma refines_floating:
  assumes "state_ok W st"
  shows "k \<in> W OPERAND_REGISTER \<Longrightarrow> refines W st (\<lambda>v. val_reg v k = x) (prv_process_floating_reg st x k)"
    and "k \<in> W OPERAND_FREGISTER \<Longrightarrow> refines W st (\<lambda>v. val_freg v k = x) (prv_process_floating_freg st x k)"
    and "k \<in> W OPERAND_LABEL \<Longrightarrow> refines W st (\<lambda>v. val_label v k = x) (prv_process_floating_label st x k)"
proof -
  assume k: "k \<in> W OPERAND_REGISTER"
  have "pairs_ok (W OPERAND_REGISTER) (ms_regs st)"
    using assms by (simp add: state_ok_def)
  then obtain ok ps where p: "process_floating x k (ms_regs st) = Inr (ok, ps)" "pairs_ok (W OPERAND_REGISTER) ps"
    and f: "\<forall>f. ok \<and> follows f ps \<longleftrightarrow> follows f (ms_regs st) \<and> f k = x"
    using process_floating_total [OF _ k, of _ x] by blast
  have "state_ok W (st\<lparr>ms_regs := ps\<rparr>)"
    using assms p(2) by (simp add: state_ok_def)
  moreover have "ok \<and> agrees v (st\<lparr>ms_regs := ps\<rparr>) \<longleftrightarrow> agrees v st \<and> val_reg v k = x" for v
    using f [rule_format, of "val_reg v"] by (auto simp: agrees_def)
  ultimately show "refines W st (\<lambda>v. val_reg v k = x) (prv_process_floating_reg st x k)"
    unfolding prv_process_floating_reg_def by (simp add: p(1) refinesI)
next
  assume k: "k \<in> W OPERAND_FREGISTER"
  have "pairs_ok (W OPERAND_FREGISTER) (ms_fregs st)"
    using assms by (simp add: state_ok_def)
  then obtain ok ps where p: "process_floating x k (ms_fregs st) = Inr (ok, ps)" "pairs_ok (W OPERAND_FREGISTER) ps"
    and f: "\<forall>f. ok \<and> follows f ps \<longleftrightarrow> follows f (ms_fregs st) \<and> f k = x"
    using process_floating_total [OF _ k, of _ x] by blast
  have "state_ok W (st\<lparr>ms_fregs := ps\<rparr>)"
    using assms p(2) by (simp add: state_ok_def)
  moreover have "ok \<and> agrees v (st\<lparr>ms_fregs := ps\<rparr>) \<longleftrightarrow> agrees v st \<and> val_freg v k = x" for v
    using f [rule_format, of "val_freg v"] by (auto simp: agrees_def)
  ultimately show "refines W st (\<lambda>v. val_freg v k = x) (prv_process_floating_freg st x k)"
    unfolding prv_process_floating_freg_def by (simp add: p(1) refinesI)
next
  assume k: "k \<in> W OPERAND_LABEL"
  have "pairs_ok (W OPERAND_LABEL) (ms_labels st)"
    using assms by (simp add: state_ok_def)
  then obtain ok ps where p: "process_floating x k (ms_labels st) = Inr (ok, ps)" "pairs_ok (W OPERAND_LABEL) ps"
    and f: "\<forall>f. ok \<and> follows f ps \<longleftrightarrow> follows f (ms_labels st) \<and> f k = x"
    using process_floating_total [OF _ k, of _ x] by blast
  have "state_ok W (st\<lparr>ms_labels := ps\<rparr>)"
    using assms p(2) by (simp add: state_ok_def)
  moreover have "ok \<and> agrees v (st\<lparr>ms_labels := ps\<rparr>) \<longleftrightarrow> agrees v st \<and> val_label v k = x" for v
    using f [rule_format, of "val_label v"] by (auto simp: agrees_def)
  ultimately show "refines W st (\<lambda>v. val_label v k = x) (prv_process_floating_label st x k)"
    unfolding prv_process_floating_label_def by (simp add: p(1) refinesI)
qed

lemma refines_seq:
  assumes "refines W st P r" and "\<And>st'. state_ok W st' \<Longrightarrow> refines W st' Q (f st')"
  shows "refines W st (\<lambda>v. P v \<and> Q v) (rbind r (\<lambda>(ok, st'). if ok then f st' else Inr (False, st')))"
proof -
  obtain ok st' where 1: "r = Inr (ok, st')" "state_ok W st'" "\<And>v. ok \<and> agrees v st' \<longleftrightarrow> agrees v st \<and> P v"
    using assms(1) by (auto simp: refines_def)
  show ?thesis
  proof (cases ok)
    case True
    with 1(3) assms(2) [OF 1(2)] show ?thesis
      by (auto simp: 1(1) refines_def)
  next
    case False
    with 1 show ?thesis
      by (auto simp: refines_def)
  qed
qed

lemma refines_cong: "refines W st P r \<Longrightarrow> (\<And>v. P v \<longleftrightarrow> Q v) \<Longrightarrow> refines W st Q r"
  by (simp add: refines_def)

section \<open>One operation\<close>

lemma op_label_reg: "op_label = op_reg"
  by (simp add: fun_eq_iff op_label_def op_reg_def)

lemma match_operand_refines:
  assumes st: "state_ok W st" and m: "operand_ok cls m" "\<And>c. floating c [(cls, m)] \<subseteq> W c"
    and op: "operand instr j = Inr op"
  shows "refines W st (\<lambda>v. operand_fits real_eq v cls m op) (match_operand real_eq cls m instr j st)"
proof (cases m)
  case (Pair t x)
  have W: "op_reg x \<in> W cls" if "t = OP_MATCH_FLOATING"
    using m(2) [of cls] that by (auto simp: Pair floating_def op_reg_def)
  show ?thesis
  proof (cases t)
    case OP_MATCH_ANY
    with st Pair show ?thesis
      by (simp add: match_operand_def operand_fits_def)
  next
    case OP_MATCH_FIXED
    with st Pair m(1) op show ?thesis
      by (auto simp: match_operand_def operand_fits_def intro!: refinesI)
  next
    case OP_MATCH_FLOATING
    with W Pair m(1) op refines_floating [OF st, of "op_reg x"] show ?thesis
      by (auto simp: match_operand_def operand_fits_def op_label_reg)
  qed
qed

lemma match_operands_refines:
  assumes "list_all2 operand_ok classes ms" and "state_ok W st" and "\<And>c. floating c (zip classes ms) \<subseteq> W c"
    and "j + length classes \<le> length (inst_operands instr)"
    and "list_all (\<lambda>x. x \<noteq> None) (take (length classes) (drop j (inst_operands instr)))"
  shows "refines W st (\<lambda>v. operands_fit real_eq v classes ms (drop j (inst_operands instr)))
    (match_operands real_eq classes ms instr j st)"
  using assms
proof (induction classes ms arbitrary: j st rule: list_all2_induct)
  case (Cons cls classes m ms)
  let ?ops = "inst_operands instr"
  have j: "drop j ?ops = ?ops ! j # drop (Suc j) ?ops" "j < length ?ops"
    using Cons.prems(3) by (simp_all add: Cons_nth_drop_Suc)
  with Cons.prems(4) obtain op where op: "?ops ! j = Some op"
    by auto
  have sub: "floating c [(cls, m)] \<subseteq> W c" "floating c (zip classes ms) \<subseteq> W c" for c
    using Cons.prems(2) [of c] by (auto simp: floating_def)
  have "refines W st (\<lambda>v. operand_fits real_eq v cls m op) (match_operand real_eq cls m instr j st)"
    using Cons.prems(1) Cons.hyps(1) sub(1) op j(2) by (intro match_operand_refines) (auto simp: operand_def)
  moreover have "refines W st' (\<lambda>v. operands_fit real_eq v classes ms (drop (Suc j) ?ops))
      (match_operands real_eq classes ms instr (Suc j) st')" if "state_ok W st'" for st'
    using Cons.prems(3,4) j sub(2) that by (intro Cons.IH) simp_all
  ultimately have "refines W st (\<lambda>v. operand_fits real_eq v cls m op \<and> operands_fit real_eq v classes ms (drop (Suc j) ?ops))
      (match_operands real_eq (cls # classes) (m # ms) instr j st)"
    unfolding match_operands.simps by (rule refines_seq)
  then show ?case
    by (simp add: j(1) op)
qed simp

lemma match_op_refines:
  assumes "state_ok W st" and "match_ok m" and "\<And>c. wildcards c m \<subseteq> W c" and "op_ok op"
  shows "refines W st (\<lambda>v. op_fits real_eq v m op) (prv_match_op real_eq op m st)"
proof -
  consider (instr) instr im where "op = OP_INSTR instr" "m = MT_INSTR im"
    | (label) l lm where "op = OP_LABEL l" "m = MT_LABEL lm"
    | (call) "prv_match_op real_eq op m st = Inr (True, st)" "\<And>v. op_fits real_eq v m op"
    | (other) "\<not> same_op_type op m"
    by (cases op; cases m; simp add: prv_match_op_def op_fits_def)
  then show ?thesis
  proof cases
    case instr
    have "refines W st (\<lambda>v. operands_fit real_eq v (instr_operands (im_type im)) (im_operands im) (drop 0 (inst_operands instr)))
        (match_operands real_eq (instr_operands (im_type im)) (im_operands im) instr 0 st)"
      if "inst_type instr = im_type im"
      using assms instr that by (intro match_operands_refines) (auto simp: wildcards_def split: if_splits)
    with assms(1) instr show ?thesis
      by (auto simp: prv_match_op_def op_fits_def)
  next
    case label
    have "lm_label lm \<in> W OPERAND_LABEL"
      using assms(3) [of OPERAND_LABEL] label by (simp add: wildcards_def)
    with refines_floating(3) [OF assms(1)] label show ?thesis
      by (simp add: prv_match_op_def op_fits_def)
  next
    case call
    with assms(1) show ?thesis
      by simp
  next
    case other
    with assms(1) show ?thesis
      by (simp add: prv_match_op_def op_fits_def)
  qed
qed

section \<open>A rule\<close>

lemma match_window_correct:
  assumes "state_ok W st" and "list_all match_ok ms" and "\<And>c. (\<Union>m \<in> set ms. wildcards c m) \<subseteq> W c" and "list_all op_ok ops"
  shows "\<exists>ok. match_window real_eq ms ops st = Inr ok
    \<and> (ok \<longleftrightarrow> length ms \<le> length ops \<and> (\<exists>v. agrees v st \<and> list_all2 (op_fits real_eq v) ms (take (length ms) ops)))"
  using assms
proof (induction real_eq ms ops st rule: match_window.induct)
  case (1 real_eq ops state)
  define val :: "match_pairs \<Rightarrow> nat \<Rightarrow> nat" where "val ps k = the (map_of ps k)" for ps k
  have "follows (val ps) ps" if "pairs_ok A ps" for A ps
    using that by (auto simp: follows_def val_def pairs_ok_def)
  then have "agrees \<lparr>val_reg = val (ms_regs state), val_freg = val (ms_fregs state), val_label = val (ms_labels state)\<rparr> state"
    using "1.prems"(1) by (auto simp: agrees_def state_ok_def)
  then show ?case
    by auto
next
  case (2 real_eq m ms state)
  show ?case
    by auto
next
  case (3 real_eq m ms op ops state)
  have "refines W state (\<lambda>v. op_fits real_eq v m op) (prv_match_op real_eq op m state)"
    using "3.prems" by (intro match_op_refines) auto
  then obtain ok st where st: "prv_match_op real_eq op m state = Inr (ok, st)" "state_ok W st"
    "\<And>v. ok \<and> agrees v st \<longleftrightarrow> agrees v state \<and> op_fits real_eq v m op"
    by (auto simp: refines_def)
  show ?case
  proof (cases ok)
    case True
    with "3.IH" [OF st(1) refl True st(2)] "3.prems" st show ?thesis
      by auto
  next
    case False
    with st show ?thesis
      by auto
  qed
qed

text \<open>The number of the wildcards of a rule bounds the pairs that a match can need.\<close>

lemma rule_wildcards:
  assumes "rule_ok ms"
  shows "state_ok (\<lambda>c. \<Union>m \<in> set ms. wildcards c m) no_pairs"
proof -
  have "finite (floating c xs)" for c and xs :: "(ir_operand_class \<times> ir_op_match_type \<times> ir_operand) list"
  proof -
    have "floating c xs \<subseteq> (\<lambda>(_, _, op). unat op) ` set xs"
      by (force simp: floating_def)
    then show ?thesis
      by (rule finite_subset) simp
  qed
  moreover have "finite (label_wildcard m)" for m
    by (cases m rule: label_wildcard.cases) simp_all
  ultimately have "finite (wildcards c m)" for c m
    by (simp add: wildcards_def)
  with assms show ?thesis
    by (simp add: state_ok_def pairs_ok_def no_pairs_def rule_ok_def)
qed

lemma rule_match_iff:
  assumes "rule_ok ms" and "list_all op_ok ops"
  shows "match_window real_eq ms ops no_pairs = Inr (rule_fits real_eq ms ops)"
proof -
  have "agrees v no_pairs" for v
    by (simp add: agrees_def no_pairs_def follows_def)
  with match_window_correct [OF rule_wildcards [OF assms(1)], of ms ops real_eq] assms show ?thesis
    by (auto simp: rule_fits_def rule_ok_def)
qed

section \<open>The loop\<close>

text \<open>The first rule of a list that fits.\<close>

definition chosen :: "(u64 \<Rightarrow> u64 \<Rightarrow> bool) \<Rightarrow> 'u ir_rule list \<Rightarrow> ir_op list \<Rightarrow> 'u ir_rule \<Rightarrow> bool" where
  "chosen real_eq rules ops r \<longleftrightarrow> (\<exists>before after. rules = before @ r # after \<and> rule_fits real_eq (rule_matches r) ops
     \<and> (\<forall>q \<in> set before. \<not> rule_fits real_eq (rule_matches q) ops))"

lemma first_rule_chosen:
  assumes "\<forall>r \<in> set rules. rule_ok (rule_matches r)" and "list_all op_ok ops"
  shows "(\<exists>r. first_rule real_eq rules ops = Inr (Some r) \<and> chosen real_eq rules ops r)
    \<or> first_rule real_eq rules ops = Inr None \<and> (\<forall>r \<in> set rules. \<not> rule_fits real_eq (rule_matches r) ops)"
  using assms(1)
proof (induction rules)
  case (Cons q rules)
  show ?case
  proof (cases "rule_fits real_eq (rule_matches q) ops")
    case True
    then have "chosen real_eq (q # rules) ops q"
      unfolding chosen_def by (intro exI [of _ "[]"] exI [of _ rules]) simp
    with True Cons.prems show ?thesis
      by (simp add: rule_match_iff assms(2))
  next
    case False
    then have "chosen real_eq rules ops r \<Longrightarrow> chosen real_eq (q # rules) ops r" for r
      unfolding chosen_def by (metis append_Cons set_ConsD)
    with False Cons show ?thesis
      by (auto simp: rule_match_iff assms(2))
  qed
qed simp

text \<open>
  The translation of the operations from \<open>pc\<close> to \<open>i\<close>: windows of consecutive operations with nothing but
  \<open>NOP\<close> between them, each with the rule that was chosen there.
\<close>

inductive windows :: "(u64 \<Rightarrow> u64 \<Rightarrow> bool) \<Rightarrow> 'u ir_rule list \<Rightarrow> ir_op list \<Rightarrow> nat \<Rightarrow> (nat \<times> 'u ir_rule) list \<Rightarrow> nat \<Rightarrow> bool"
  for real_eq rules ops where
  Stop: "windows real_eq rules ops pc [] pc"
| Nop: "pc < length ops \<Longrightarrow> is_nop (ops ! pc) \<Longrightarrow> windows real_eq rules ops (Suc pc) ws i \<Longrightarrow> windows real_eq rules ops pc ws i"
| Window: "pc < length ops \<Longrightarrow> \<not> is_nop (ops ! pc) \<Longrightarrow> chosen real_eq rules (drop pc ops) r
    \<Longrightarrow> windows real_eq rules ops (pc + length (rule_matches r)) ws i \<Longrightarrow> windows real_eq rules ops pc ((pc, r) # ws) i"

inductive_cases windows_NilE: "windows real_eq rules ops pc [] i"

definition run_actions :: "(nat \<times> 'u ir_rule) list \<Rightarrow> ir_section \<times> 'u \<Rightarrow> (ir_section \<times> 'u) c_result" where
  "run_actions = each (\<lambda>(i, r). rule_action r i)"

lemma run_actions_simps [simp]:
  "run_actions [] su = Inr su"
  "run_actions ((i, r) # ws) su = rbind (rule_action r i su) (run_actions ws)"
  by (simp_all add: run_actions_def)

text \<open>How a translation can end that began at \<open>pc\<close>.\<close>

definition outcome :: "(u64 \<Rightarrow> u64 \<Rightarrow> bool) \<Rightarrow> 'u ir_rule list \<Rightarrow> ir_op list \<Rightarrow> nat \<Rightarrow> ir_section \<times> 'u
    \<Rightarrow> (ir_section \<times> 'u) c_result \<Rightarrow> bool" where
  "outcome real_eq rules ops pc su res \<longleftrightarrow> (\<exists>ws i su'. windows real_eq rules ops pc ws i \<and> run_actions ws su = Inr su'
     \<and> (i = length ops \<and> res = Inr su'
        \<or> i < length ops \<and> \<not> is_nop (ops ! i)
          \<and> ((\<forall>r \<in> set rules. \<not> rule_fits real_eq (rule_matches r) (drop i ops)) \<and> res = Inl assertion_failed
             \<or> (\<exists>r e. chosen real_eq rules (drop i ops) r \<and> rule_action r i su' = Inl e \<and> res = Inl e))))"

lemma outcome_nop:
  "pc < length ops \<Longrightarrow> is_nop (ops ! pc) \<Longrightarrow> outcome real_eq rules ops (Suc pc) su res \<Longrightarrow> outcome real_eq rules ops pc su res"
  unfolding outcome_def by (blast intro: Nop)

lemma outcome_window:
  assumes "pc < length ops" and "\<not> is_nop (ops ! pc)" and "chosen real_eq rules (drop pc ops) r" and "rule_action r pc su = Inr su1"
    and "outcome real_eq rules ops (pc + length (rule_matches r)) su1 res"
  shows "outcome real_eq rules ops pc su res"
proof -
  obtain ws i su' where ws: "windows real_eq rules ops (pc + length (rule_matches r)) ws i" "run_actions ws su1 = Inr su'"
    and rest: "i = length ops \<and> res = Inr su'
        \<or> i < length ops \<and> \<not> is_nop (ops ! i)
          \<and> ((\<forall>r \<in> set rules. \<not> rule_fits real_eq (rule_matches r) (drop i ops)) \<and> res = Inl assertion_failed
             \<or> (\<exists>r e. chosen real_eq rules (drop i ops) r \<and> rule_action r i su' = Inl e \<and> res = Inl e))"
    using assms(5) unfolding outcome_def by blast
  have "windows real_eq rules ops pc ((pc, r) # ws) i"
    using assms(1-3) ws(1) by (rule Window)
  moreover have "run_actions ((pc, r) # ws) su = Inr su'"
    using assms(4) ws(2) by simp
  ultimately show ?thesis
    using rest unfolding outcome_def by blast
qed

lemma chosen_fits: "chosen real_eq rules ops r \<Longrightarrow> r \<in> set rules \<and> length (rule_matches r) \<le> length ops"
  by (auto simp: chosen_def rule_fits_def)

lemma match_loop_outcome:
  assumes "\<forall>r \<in> set rules. rule_ok (rule_matches r) \<and> rule_matches r \<noteq> []"
    and "\<forall>r \<in> set rules. \<forall>i su su'. rule_action r i su = Inr su'
      \<longrightarrow> vec_items (ir_ops (fst su')) = vec_items (ir_ops (fst su))"
    and "list_all op_ok ops" and "vec_items (ir_ops (fst su)) = ops"
    and "pc \<le> length ops" and "length ops - pc < fuel"
  shows "\<exists>res. ir_match_loop real_eq rules fuel pc su = Some res \<and> outcome real_eq rules ops pc su res"
  using assms(4-6)
proof (induction fuel arbitrary: pc su)
  case (Suc fuel)
  note ops = Suc.prems(1)
  have ok: "list_all op_ok (drop pc ops)"
    using assms(3) by (auto simp: list_all_iff dest: in_set_dropD)
  consider "pc = length ops" | "pc < length ops" "is_nop (ops ! pc)" | "pc < length ops" "\<not> is_nop (ops ! pc)"
    using Suc.prems(2) by linarith
  then show ?case
  proof cases
    case 1
    then have "outcome real_eq rules ops pc su (Inr su)"
      unfolding outcome_def by (intro exI [of _ "[]"] exI [of _ pc] exI [of _ su]) (simp add: Stop)
    with 1 ops show ?thesis
      by simp
  next
    case 2
    then have "Suc pc \<le> length ops" "length ops - Suc pc < fuel"
      using Suc.prems(3) by linarith+
    then obtain res where "ir_match_loop real_eq rules fuel (Suc pc) su = Some res"
        "outcome real_eq rules ops (Suc pc) su res"
      using Suc.IH [OF ops, of "Suc pc"] by blast
    moreover from this(2) have "outcome real_eq rules ops pc su res"
      by (rule outcome_nop [OF 2])
    ultimately show ?thesis
      using 2 ops by auto
  next
    case 3
    show ?thesis
    proof (cases "first_rule real_eq rules (drop pc ops) = Inr None")
      case True
      then have "\<forall>r \<in> set rules. \<not> rule_fits real_eq (rule_matches r) (drop pc ops)"
        using first_rule_chosen [OF _ ok, of rules real_eq] assms(1) by auto
      then have "outcome real_eq rules ops pc su (Inl assertion_failed)"
        unfolding outcome_def using 3 by (intro exI [of _ "[]"] exI [of _ pc] exI [of _ su]) (simp add: Stop)
      with 3 True ops show ?thesis
        by simp
    next
      case False
      then obtain r where r: "first_rule real_eq rules (drop pc ops) = Inr (Some r)" "chosen real_eq rules (drop pc ops) r"
        using first_rule_chosen [OF _ ok, of rules real_eq] assms(1) by auto
      have bounds: "r \<in> set rules" "0 < length (rule_matches r)" "pc + length (rule_matches r) \<le> length ops"
        using chosen_fits [OF r(2)] assms(1) 3(1) by auto
      show ?thesis
      proof (cases "rule_action r pc su")
        case (Inl e)
        then have "outcome real_eq rules ops pc su (Inl e)"
          unfolding outcome_def using 3 r(2) by (intro exI [of _ "[]"] exI [of _ pc] exI [of _ su]) (auto simp: Stop)
        with 3 r(1) Inl ops show ?thesis
          by simp
      next
        case (Inr su')
        from Inr have ops': "vec_items (ir_ops (fst su')) = ops"
          using assms(2) [rule_format, OF bounds(1)] ops by simp
        have "length ops - (pc + length (rule_matches r)) < fuel"
          using Suc.prems(3) bounds(2,3) by linarith
        then obtain res where "ir_match_loop real_eq rules fuel (pc + length (rule_matches r)) su' = Some res"
            "outcome real_eq rules ops (pc + length (rule_matches r)) su' res"
          using Suc.IH [OF ops', of "pc + length (rule_matches r)"] bounds(3) by blast
        moreover from this(2) have "outcome real_eq rules ops pc su res"
          by (rule outcome_window [OF 3 r(2) Inr])
        ultimately show ?thesis
          using 3 r(1) Inr ops by auto
      qed
    qed
  qed
qed simp

section \<open>Printing rules\<close>

text \<open>Rules in the syntax of the tables of the back ends.\<close>

fun show_nat :: "nat \<Rightarrow> string" where
  "show_nat n = (if n < 10 then [char_of (48 + n)] else show_nat (n div 10) @ [char_of (48 + n mod 10)])"

declare show_nat.simps [simp del]

fun show_operand :: "ir_operand_class \<Rightarrow> ir_op_match_type \<times> ir_operand \<Rightarrow> string" where
  "show_operand cls (OP_MATCH_ANY, x) = ''*''"
| "show_operand OPERAND_LABEL (_, x) = ''label_'' @ show_nat (unat x)"
| "show_operand OPERAND_REGISTER (OP_MATCH_FLOATING, x) = ''r_'' @ show_nat (unat x)"
| "show_operand OPERAND_FREGISTER (OP_MATCH_FLOATING, x) = ''f_'' @ show_nat (unat x)"
| "show_operand OPERAND_REGISTER (_, x) = ''r'' @ show_nat (unat x)"
| "show_operand OPERAND_FREGISTER (_, x) = ''f'' @ show_nat (unat x)"
| "show_operand _ (_, x) = ''#'' @ show_nat (unat x)"

fun show_operands :: "ir_operand_class list \<Rightarrow> (ir_op_match_type \<times> ir_operand) list \<Rightarrow> string" where
  "show_operands (cls # classes) (m # ms) =
     '' '' @ show_operand cls m @ (if ms = [] then [] else '','') @ show_operands classes ms"
| "show_operands _ _ = []"

fun show_match :: "ir_op_match \<Rightarrow> string" where
  "show_match (MT_INSTR im) = fst (op_desc ! ir_number (im_type im)) @ show_operands (instr_operands (im_type im)) (im_operands im)"
| "show_match (MT_LABEL lm) = ''label_'' @ show_nat (lm_label lm)"
| "show_match MT_CALL = ''call''"
| "show_match MT_CALLI32 = ''calli32''"
| "show_match MT_CALLREAL = ''callr''"
| "show_match MT_CALL_PTR = ''callptr''"
| "show_match MT_CALLI32_PTR = ''calli32ptr''"
| "show_match MT_CALLREAL_PTR = ''callrptr''"
| "show_match MT_SYS_CALL = ''syscall''"

fun show_rule :: "ir_op_match list \<Rightarrow> string" where
  "show_rule [] = []"
| "show_rule (m # ms) = show_match m @ [CHR 0x0A] @ show_rule ms"

text \<open>What can be written down.\<close>

fun operand_printable :: "ir_operand_class \<Rightarrow> ir_op_match_type \<times> ir_operand \<Rightarrow> bool" where
  "operand_printable cls (OP_MATCH_ANY, x) \<longleftrightarrow> x = 0"
| "operand_printable cls (OP_MATCH_FIXED, x) \<longleftrightarrow> cls \<in> {OPERAND_REGISTER, OPERAND_FREGISTER, OPERAND_I32} \<and> unat x \<le> INT_MAX"
| "operand_printable cls (OP_MATCH_FLOATING, x) \<longleftrightarrow> cls \<in> {OPERAND_REGISTER, OPERAND_FREGISTER, OPERAND_LABEL} \<and> unat x \<le> INT_MAX"

fun match_printable :: "ir_op_match \<Rightarrow> bool" where
  "match_printable (MT_INSTR im) \<longleftrightarrow> ir_number (im_type im) < length op_desc
     \<and> list_all2 operand_printable (instr_operands (im_type im)) (im_operands im)"
| "match_printable (MT_LABEL lm) \<longleftrightarrow> lm_label lm \<le> INT_MAX \<and> lm_match lm = OP_MATCH_FLOATING"
| "match_printable _ \<longleftrightarrow> True"

lemma is_digit_char: "(n::nat) < 10 \<Longrightarrow> is_digit (char_of (48 + n))"
  by (simp add: is_digit_def)

lemma show_nat_digits: "show_nat n \<noteq> [] \<and> list_all is_digit (show_nat n)"
proof (induction n rule: show_nat.induct)
  case (1 n)
  then show ?case
    by (cases "n < 10") (simp_all add: show_nat.simps [of n] is_digit_char)
qed

lemma decimal_value_snoc: "decimal_value (ds @ [c]) = decimal_value ds * 10 + (of_char c - 48)"
  by (simp add: decimal_value_def)

lemma decimal_show_nat: "decimal_value (show_nat n) = n"
proof (induction n rule: show_nat.induct)
  case (1 n)
  show ?case
  proof (cases "n < 10")
    case True
    then show ?thesis
      by (subst show_nat.simps) (simp add: decimal_value_def)
  next
    case False
    with 1 show ?thesis
      by (subst show_nat.simps) (simp add: decimal_value_snoc)
  qed
qed

lemma length_show_nat: "n < 10 ^ Suc k \<Longrightarrow> length (show_nat n) \<le> Suc k"
proof (induction k arbitrary: n)
  case 0
  then show ?case
    by (subst show_nat.simps) simp
next
  case (Suc k)
  then have "n div 10 < 10 ^ Suc k"
    by (simp add: div_less_iff_less_mult)
  with Suc.IH [of "n div 10"] show ?case
    by (subst show_nat.simps) simp
qed

lemma digit_facts:
  "is_digit c \<Longrightarrow> \<not> prv_is_white_space c" "is_digit c \<Longrightarrow> \<not> is_space c" "is_digit c \<Longrightarrow> c \<noteq> CHR '',''"
  "is_digit c \<Longrightarrow> c \<noteq> CHR ''-''" "is_digit c \<Longrightarrow> c \<noteq> CHR ''+''" "is_digit c \<Longrightarrow> c \<noteq> CHR ''_''" "is_digit c \<Longrightarrow> c \<noteq> CHR ''*''"
  by (auto simp: is_digit_def prv_is_white_space_def is_space_def)

lemma parse_show_nat:
  assumes "n \<le> INT_MAX"
  shows "parse_number (show_nat n) = Inr n"
proof -
  have ne: "show_nat n \<noteq> []" and digits: "list_all is_digit (show_nat n)"
    using show_nat_digits by auto
  then obtain d ds where n: "show_nat n = d # ds" "is_digit d"
    by (cases "show_nat n") auto
  have all: "takeWhile is_digit (show_nat n) = show_nat n" "dropWhile is_digit (show_nat n) = []"
    using digits by (auto simp: list_all_iff takeWhile_eq_all_conv dropWhile_eq_Nil_conv)
  have "strtoul (show_nat n) = (Some n, [])"
    using all digit_facts(2,4,5) [OF n(2)] assms ne decimal_show_nat [of n]
    by (simp add: strtoul_def Let_def n(1) INT_MAX_def)
  with assms show ?thesis
    by (simp add: parse_number_def)
qed

lemma length_show_int:
  assumes "n \<le> INT_MAX"
  shows "length (show_nat n) \<le> 10"
proof -
  have "n < 10 ^ Suc 9"
    using assms by (simp add: INT_MAX_def)
  then show ?thesis
    using length_show_nat [of n 9] by simp
qed

section \<open>Parsing what was printed\<close>

lemma takeWhile_all: "list_all (\<lambda>c. \<not> stop c) t \<Longrightarrow> stop c \<Longrightarrow> takeWhile (\<lambda>c. \<not> stop c) (t @ c # rest) = t"
  by (induction t) simp_all

lemma token_stop:
  assumes "list_all (\<lambda>c. \<not> stop c) t" and "stop c" and "length t < MAX_TOKEN"
  shows "token stop (t @ c # rest) = Inr (t, c # rest)"
  using assms by (simp add: token_def takeWhile_all)

lemma show_nat_Cons: obtains d ds where "show_nat n = d # ds" and "is_digit d" and "list_all is_digit ds"
  using show_nat_digits [of n] by (cases "show_nat n") auto

lemma parse_label_show: "n \<le> INT_MAX \<Longrightarrow> prv_parse_label (show_nat n) = Inr \<lparr>lm_label = n, lm_match = OP_MATCH_FLOATING\<rparr>"
  using digit_facts(7) by (auto simp: prv_parse_label_def parse_show_nat intro: show_nat_Cons [of n])

lemma parse_show_operand:
  assumes "operand_printable cls m"
  shows "parse_operand cls (show_operand cls m) = Inr m"
proof (cases m)
  case (Pair t x)
  obtain d ds where n: "show_nat (unat x) = d # ds" "is_digit d"
    by (rule show_nat_Cons)
  have d: "d \<noteq> CHR ''_''"
    using n(2) digit_facts(6) by blast
  show ?thesis
    using assms d parse_show_nat [of "unat x"] parse_label_show [of "unat x"] unfolding Pair
    by (cases t; cases cls) (simp_all add: parse_operand_def has_prefix_def LABEL_STR_def n(1))
qed

lemma show_operand_chars:
  assumes "operand_printable cls m"
  shows "list_all (\<lambda>c. \<not> (prv_is_white_space c \<or> c = CHR '','')) (show_operand cls m)"
    and "length (show_operand cls m) < MAX_TOKEN" and "show_operand cls m \<noteq> []"
proof -
  obtain t x where m: "m = (t, x)"
    by (cases m)
  have digits: "list_all (\<lambda>c. \<not> (prv_is_white_space c \<or> c = CHR '','')) (show_nat (unat x))"
    using show_nat_digits [of "unat x"] digit_facts(1,3) by (auto simp: list_all_iff)
  have len: "t \<noteq> OP_MATCH_ANY \<Longrightarrow> length (show_nat (unat x)) \<le> 10"
    using assms length_show_int [of "unat x"] by (cases t) (simp_all add: m)
  show "list_all (\<lambda>c. \<not> (prv_is_white_space c \<or> c = CHR '','')) (show_operand cls m)"
    using digits by (cases t; cases cls) (simp_all add: m prv_is_white_space_def)
  show "length (show_operand cls m) < MAX_TOKEN" and "show_operand cls m \<noteq> []"
    using len by (cases t; cases cls; simp add: m MAX_TOKEN_def)+
qed

lemma white_simps [simp]: "prv_is_white_space (CHR '' '')" "prv_is_white_space (CHR 0x0A)" "\<not> prv_is_white_space (CHR '','')"
  by (simp_all add: prv_is_white_space_def)

lemma parse_show_operands:
  assumes "list_all2 operand_printable classes ms"
  shows "prv_parse_operands classes (show_operands classes ms @ CHR 0x0A # rest) = Inr (ms, CHR 0x0A # rest)"
  using assms
proof (induction classes ms rule: list_all2_induct)
  case (Cons cls classes m ms)
  let ?stop = "\<lambda>c. prv_is_white_space c \<or> c = CHR '',''"
  note chars = show_operand_chars [OF Cons.hyps(1)]
  obtain c cs where c: "show_operand cls m = c # cs"
    using chars(3) by (cases "show_operand cls m") auto
  have skip: "dropWhile prv_is_white_space (show_operand cls m @ xs) = show_operand cls m @ xs" for xs
    using chars(1) by (simp add: c)
  have tok: "token ?stop (show_operand cls m @ d # xs) = Inr (show_operand cls m, d # xs)" if "?stop d" for d xs
    using chars(1,2) that by (intro token_stop) auto
  show ?case
  proof (cases ms)
    case Nil
    with Cons.hyps(2) have "classes = []"
      by simp
    with Nil show ?thesis
      using tok [of "CHR 0x0A" rest] parse_show_operand [OF Cons.hyps(1)]
      by (simp add: operand_token_def skip)
  next
    case (Cons m' ms')
    with Cons.IH show ?thesis
      using tok [of "CHR '',''"] parse_show_operand [OF Cons.hyps(1)]
      by (simp add: operand_token_def skip)
  qed
qed simp

text \<open>The names of the table of instructions can be told from each other and from the other operations.\<close>

definition name_ok :: "string \<Rightarrow> bool" where
  "name_ok t \<longleftrightarrow> t \<noteq> [] \<and> length t < MAX_TOKEN \<and> list_all (\<lambda>c. \<not> prv_is_white_space c) t \<and> \<not> has_prefix LABEL_STR t
     \<and> t \<notin> {''call'', ''calli32'', ''callr'', ''callptr'', ''calli32ptr'', ''callrptr'', ''syscall''}"

lemma op_desc_names: "list_all (\<lambda>d. name_ok (fst d)) op_desc"
  by (simp add: op_desc_def name_ok_def MAX_TOKEN_def LABEL_STR_def has_prefix_def prv_is_white_space_def)

lemma op_desc_distinct: "distinct (map fst op_desc)"
  by code_simp

lemma op_desc_index:
  assumes "i < length op_desc"
  shows "index_of (\<lambda>d. fst d = fst (op_desc ! i)) op_desc = Some i"
proof -
  have "fst (op_desc ! j) \<noteq> fst (op_desc ! i)" if "j < i" for j
    using op_desc_distinct that assms nth_eq_iff_index_eq [OF op_desc_distinct, of j i] by simp
  with assms show ?thesis
    by (simp add: index_of_Some)
qed

lemma parse_match_white: "prv_is_white_space c \<Longrightarrow> prv_parse_match (c # text) = prv_parse_match text"
  by (simp add: prv_parse_match_def)

lemma parse_match_name:
  assumes "name_ok t" and "prv_is_white_space c"
  shows "prv_parse_match (t @ c # rest) =
    (case index_of (\<lambda>d. fst d = t) op_desc of
       None \<Rightarrow> Inl assertion_failed
     | Some i \<Rightarrow> rbind (prv_parse_operands (class_details (snd (op_desc ! i))) (c # rest)) (\<lambda>(ms, rule).
         Inr (Some (MT_INSTR \<lparr>im_type = IR_TYPE i, im_operands = ms\<rparr>, rule))))"
proof -
  obtain d ds where t: "t = d # ds"
    using assms(1) by (cases t) (simp_all add: name_ok_def)
  have "\<not> prv_is_white_space d"
    using assms(1) by (simp add: name_ok_def t)
  then have "dropWhile prv_is_white_space (t @ c # rest) = t @ c # rest"
    by (simp add: t)
  moreover have "token prv_is_white_space (t @ c # rest) = Inr (t, c # rest)"
    using assms by (intro token_stop) (simp_all add: name_ok_def)
  ultimately show ?thesis
    using assms(1) by (simp add: prv_parse_match_def name_ok_def)
qed

lemma parse_match_word:
  assumes "list_all (\<lambda>c. \<not> prv_is_white_space c) t" and "length t < MAX_TOKEN" and "t \<noteq> []"
  shows "dropWhile prv_is_white_space (t @ CHR 0x0A # rest) = t @ CHR 0x0A # rest"
    and "token prv_is_white_space (t @ CHR 0x0A # rest) = Inr (t, CHR 0x0A # rest)"
  using assms by (cases t; simp) (rule token_stop; simp add: assms)

lemma show_operands_white:
  assumes "xs = show_operands classes ms @ CHR 0x0A # rest"
  obtains c ys where "xs = c # ys" and "prv_is_white_space c"
  using assms by (cases "(classes, ms)" rule: show_operands.cases) auto

lemma parse_show_instr:
  assumes "match_printable (MT_INSTR im)"
  shows "prv_parse_match (show_match (MT_INSTR im) @ CHR 0x0A # rest) = Inr (Some (MT_INSTR im, CHR 0x0A # rest))"
proof -
  define i where "i = ir_number (im_type im)"
  have i: "i < length op_desc" "im_type im = IR_TYPE i" "instr_operands (im_type im) = class_details (snd (op_desc ! i))"
    using assms by (simp_all add: i_def instr_operands_def)
  have ops: "list_all2 operand_printable (class_details (snd (op_desc ! i))) (im_operands im)"
    using assms i(3) by simp
  obtain c ys where white: "show_operands (class_details (snd (op_desc ! i))) (im_operands im) @ CHR 0x0A # rest = c # ys" "prv_is_white_space c"
    by (rule show_operands_white [OF refl])
  have name: "name_ok (fst (op_desc ! i))"
    using op_desc_names i(1) by (simp only: list_all_length)
  have shown: "show_match (MT_INSTR im) @ CHR 0x0A # rest = fst (op_desc ! i) @ c # ys"
    using white(1) by (simp add: i(2) instr_operands_def)
  have parsed: "prv_parse_operands (class_details (snd (op_desc ! i))) (c # ys) = Inr (im_operands im, CHR 0x0A # rest)"
    using parse_show_operands [OF ops, of rest] by (simp only: white(1))
  show ?thesis
    unfolding shown parse_match_name [OF name white(2)] op_desc_index [OF i(1)] option.case parsed rbind_simps prod.case
    by (simp add: i(2) [symmetric])
qed

lemma parse_show_label:
  assumes "match_printable (MT_LABEL lm)"
  shows "prv_parse_match (show_match (MT_LABEL lm) @ CHR 0x0A # rest) = Inr (Some (MT_LABEL lm, CHR 0x0A # rest))"
proof -
  let ?t = "''label_'' @ show_nat (lm_label lm)"
  have n: "lm_label lm \<le> INT_MAX" "lm_match lm = OP_MATCH_FLOATING"
    using assms by simp_all
  have t: "list_all (\<lambda>c. \<not> prv_is_white_space c) ?t" "length ?t < MAX_TOKEN" "?t \<noteq> []"
    using show_nat_digits [of "lm_label lm"] digit_facts(1) length_show_int [OF n(1)]
    by (auto simp: list_all_iff prv_is_white_space_def MAX_TOKEN_def)
  show ?thesis
    unfolding show_match.simps prv_parse_match_def parse_match_word [OF t] Let_def
    using parse_label_show [OF n(1)] n(2) by (simp add: has_prefix_def LABEL_STR_def)
qed

lemma parse_show_match:
  assumes "match_printable m"
  shows "prv_parse_match (show_match m @ CHR 0x0A # rest) = Inr (Some (m, CHR 0x0A # rest))"
proof (cases m)
  case (MT_INSTR im)
  with assms parse_show_instr show ?thesis
    by blast
next
  case (MT_LABEL lm)
  with assms parse_show_label show ?thesis
    by blast
qed (simp_all add: prv_parse_match_def token_def MAX_TOKEN_def has_prefix_def LABEL_STR_def prv_is_white_space_def)

lemma parse_show_rule:
  "list_all match_printable ms \<Longrightarrow> length ms \<le> n \<Longrightarrow> parse_matches n (show_rule ms) = Inr ms"
proof (induction ms arbitrary: n)
  case Nil
  then show ?case
    by (cases n) (simp_all add: prv_parse_match_def)
next
  case (Cons m ms)
  then obtain k where n: "n = Suc k"
    by (cases n) auto
  have "parse_matches k (CHR 0x0A # show_rule ms) = parse_matches k (show_rule ms)"
    by (cases k) (simp_all add: parse_match_white)
  with Cons n show ?case
    by (simp add: parse_show_match)
qed

section \<open>Properties\<close>

text \<open>
  C37: matching a well-formed rule at some place of a section never fails, and it succeeds exactly when
  values can be given to the wildcards of the rule under which all its operations are instances of those found there.
\<close>

theorem rule_match_correct:
  assumes "rule_ok ms" and "list_all op_ok ops"
  shows "match_window real_eq ms ops no_pairs = Inr (length ms \<le> length ops
    \<and> (\<exists>v. list_all2 (op_fits real_eq v) ms (take (length ms) ops)))"
  using rule_match_iff [OF assms, of real_eq] by (simp only: rule_fits_def)

text \<open>The rule for a comparison whose result is tested at once, and operations to which it applies.\<close>

definition example_rule :: "ir_op_match list" where
  "example_rule = [MT_INSTR \<lparr>im_type = IR_LTI_I32, im_operands = [(OP_MATCH_FLOATING, 1), (OP_MATCH_ANY, 0), (OP_MATCH_ANY, 0)]\<rparr>,
     MT_INSTR \<lparr>im_type = IR_JMPC, im_operands = [(OP_MATCH_FLOATING, 1), (OP_MATCH_FLOATING, 1), (OP_MATCH_ANY, 0)]\<rparr>,
     MT_LABEL \<lparr>lm_label = 1, lm_match = OP_MATCH_FLOATING\<rparr>]"

definition example_ops :: "nat \<Rightarrow> ir_op list" where
  "example_ops label = [OP_INSTR \<lparr>inst_type = IR_LTI_I32, inst_operands = [Some 8, Some 5, Some 10, None]\<rparr>,
     OP_INSTR \<lparr>inst_type = IR_JMPC, inst_operands = [Some 8, Some 3, Some 4, None]\<rparr>, OP_LABEL label]"

lemma example_operands: "instr_operands IR_LTI_I32 = [OPERAND_REGISTER, OPERAND_REGISTER, OPERAND_I32]"
  "instr_operands IR_JMPC = [OPERAND_REGISTER, OPERAND_LABEL, OPERAND_LABEL]"
  by (simp_all add: instr_operands_def op_desc_def)

lemma example_rule_ok: "rule_ok example_rule"
proof -
  have "(\<Union>m \<in> set example_rule. wildcards c m) \<subseteq> {1}" for c
    by (auto simp: example_rule_def wildcards_def floating_def example_operands)
  then have "card (\<Union>m \<in> set example_rule. wildcards c m) \<le> card {1 :: nat}" for c
    by (intro card_mono) simp_all
  then have "card (\<Union>m \<in> set example_rule. wildcards c m) \<le> MAX_MATCH_WILDCARDS" for c
    by (rule le_trans) (simp add: MAX_MATCH_WILDCARDS_def)
  moreover have "list_all match_ok example_rule"
    by (simp add: example_rule_def example_operands)
  ultimately show ?thesis
    by (simp only: rule_ok_def) blast
qed

lemma example_ops_ok: "list_all op_ok (example_ops l)"
  by (simp add: example_ops_def example_operands)

lemma example_fits: "list_all2 (op_fits (=) \<lparr>val_reg = \<lambda>_. 8, val_freg = \<lambda>_. 0, val_label = \<lambda>_. 3\<rparr>) example_rule (example_ops 3)"
  and example_misfits: "\<not> list_all2 (op_fits (=) v) example_rule (example_ops 4)"
  by (simp_all add: example_rule_def example_ops_def op_fits_def operand_fits_def example_operands op_reg_def op_label_def)

lemma length_example [simp]: "length example_rule = 3" "length (example_ops l) = 3" "take 3 (example_ops l) = example_ops l"
  by (simp_all add: example_rule_def example_ops_def)

theorem rule_match_correct_witness:
  "match_window (=) example_rule (example_ops 3) no_pairs = Inr True
    \<and> match_window (=) example_rule (example_ops 4) no_pairs = Inr False"
  using rule_match_correct [OF example_rule_ok example_ops_ok, of "(=)"] example_fits example_misfits by auto

text \<open>
  C38: take well-formed rules that have at least one operation each and whose actions, when they succeed, leave the
  operations of the section as they are (they may change the rest of it, as those of \<open>vfp_gen.c\<close> take new
  registers from its counters), and a section that is not in its error handler and whose operations have as many
  operands as their instructions ask for. Then the matcher returns after at most one round per operation. It has cut the
  operations up to some place into consecutive windows, only \<open>NOP\<close> being skipped, and run in this order the
  actions of the first rules that fit. Then it either is at the end, or no rule fits and it reports an error, or an
  action failed.
\<close>

theorem match_translates:
  assumes "\<forall>r \<in> set rules. rule_ok (rule_matches r) \<and> rule_matches r \<noteq> []"
    and "\<forall>r \<in> set rules. \<forall>i su su'. rule_action r i su = Inr su'
      \<longrightarrow> vec_items (ir_ops (fst su')) = vec_items (ir_ops (fst su))"
    and "list_all op_ok (vec_items (ir_ops s))" and "\<not> ir_in_error_handler s"
    and "length (vec_items (ir_ops s)) < fuel"
  shows "\<exists>res ws i su'. subtilis_ir_match real_eq rules fuel (s, u) = Some res
    \<and> windows real_eq rules (vec_items (ir_ops s)) 0 ws i \<and> run_actions ws (s, u) = Inr su'
    \<and> (i = length (vec_items (ir_ops s)) \<and> res = Inr su'
       \<or> i < length (vec_items (ir_ops s)) \<and> \<not> is_nop (vec_items (ir_ops s) ! i)
         \<and> ((\<forall>r \<in> set rules. \<not> rule_fits real_eq (rule_matches r) (drop i (vec_items (ir_ops s)))) \<and> res = Inl assertion_failed
            \<or> (\<exists>r e. chosen real_eq rules (drop i (vec_items (ir_ops s))) r \<and> rule_action r i su' = Inl e \<and> res = Inl e)))"
proof -
  obtain res where "ir_match_loop real_eq rules fuel 0 (s, u) = Some res"
    "outcome real_eq rules (vec_items (ir_ops s)) 0 (s, u) res"
    using match_loop_outcome [OF assms(1-3), of "(s, u)" 0 fuel real_eq] assms(5) by auto
  with assms(4) show ?thesis
    unfolding subtilis_ir_match_def outcome_def by (metis fst_conv)
qed

text \<open>A back end that notes where it was called and takes a register from the section, as the VFP one does.\<close>

definition example_rules :: "nat list ir_rule list" where
  "example_rules = [\<lparr>rule_matches = example_rule, rule_action = \<lambda>i (s, u). Inr (s\<lparr>ir_freg_counter := ir_freg_counter s + 1\<rparr>, u @ [i])\<rparr>]"

theorem match_translates_witness:
  "\<exists>s. vec_items (ir_ops s) = OP_INSTR \<lparr>inst_type = IR_NOP, inst_operands = []\<rparr> # example_ops 3
    \<and> subtilis_ir_match (=) example_rules 5 (s, []) = Some (Inr (s\<lparr>ir_freg_counter := ir_freg_counter s + 1\<rparr>, [1]))"
proof -
  define s where "s = (prv_ir_section_new \<lparr>ts_ret_val = TYPE_VOID, ts_int_regs = 0, ts_fp_regs = 0\<rparr>)
     \<lparr>ir_ops := \<lparr>vec_items = OP_INSTR \<lparr>inst_type = IR_NOP, inst_operands = []\<rparr> # example_ops 3, vec_max = 4096\<rparr>\<rparr>"
  have items: "vec_items (ir_ops s) = OP_INSTR \<lparr>inst_type = IR_NOP, inst_operands = []\<rparr> # example_ops 3"
    and handler: "\<not> ir_in_error_handler s"
    by (simp_all add: s_def prv_ir_section_new_def)
  have nop: "instr_operands IR_NOP = []"
    by (simp add: instr_operands_def op_desc_def)
  have rules: "\<forall>r \<in> set example_rules. rule_ok (rule_matches r) \<and> rule_matches r \<noteq> []"
    using example_rule_ok by (simp add: example_rules_def) (simp add: example_rule_def)
  have acts: "\<forall>r \<in> set example_rules. \<forall>i su su'. rule_action r i su = Inr su'
      \<longrightarrow> vec_items (ir_ops (fst su')) = vec_items (ir_ops (fst su))"
    by (auto simp: example_rules_def)
  have ops: "list_all op_ok (vec_items (ir_ops s))" "length (vec_items (ir_ops s)) < 5"
    by (simp_all add: items nop) (simp_all add: example_ops_def example_operands)
  obtain res where res: "subtilis_ir_match (=) example_rules 5 (s, []) = Some res"
    using match_translates [OF rules acts ops(1) handler ops(2), of "(=)" "[]"] by blast
  moreover have "res = Inr (s\<lparr>ir_freg_counter := ir_freg_counter s + 1\<rparr>, [1])"
  proof -
    have "match_window (=) example_rule (example_ops 3) no_pairs = Inr True"
      using rule_match_iff [OF example_rule_ok example_ops_ok, of "(=)"] example_fits by (auto simp: rule_fits_def)
    moreover have "\<not> is_nop (example_ops 3 ! 0)" "length (vec_items (ir_ops s)) = 4"
      by (simp_all add: example_ops_def is_nop_def items)
    ultimately have "ir_match_loop (=) example_rules (Suc (Suc (Suc (Suc (Suc 0))))) 0 (s, []) = Some (Inr (s\<lparr>ir_freg_counter := ir_freg_counter s + 1\<rparr>, [1]))"
      by (simp add: items is_nop_def example_rules_def)
    then show ?thesis
      using res handler by (simp add: subtilis_ir_match_def eval_nat_numeral)
  qed
  ultimately show ?thesis
    using items by blast
qed

text \<open>
  C39: rules are read back from their printed form: the table of rules whose texts are the printed
  rules is parsed to the rules with their actions.
\<close>

theorem rules_parse_back:
  assumes "\<forall>r \<in> set rules. list_all match_printable (rule_matches r) \<and> rule_matches r \<noteq> []
    \<and> length (rule_matches r) \<le> IR_MAX_MATCHES"
  shows "subtilis_ir_parse_rules (map (\<lambda>r. (show_rule (rule_matches r), rule_action r)) rules) = Inr rules"
  using assms
proof (induction rules)
  case (Cons r rules)
  then show ?case
    by (simp add: parse_show_rule)
qed simp

theorem rules_parse_back_witness:
  "subtilis_ir_parse_rules
     [(''ltii32 r_1, *, *'' @ [CHR 0x0A] @ ''jmpc r_1, label_1, *'' @ [CHR 0x0A] @ ''label_1'' @ [CHR 0x0A],
       \<lambda>i (s, u). Inr (s\<lparr>ir_freg_counter := ir_freg_counter s + 1\<rparr>, u @ [i]))] = Inr example_rules"
proof -
  have "show_nat 1 = ''1''"
    by code_simp
  then have printed: "show_rule example_rule
      = ''ltii32 r_1, *, *'' @ [CHR 0x0A] @ ''jmpc r_1, label_1, *'' @ [CHR 0x0A] @ ''label_1'' @ [CHR 0x0A]"
    by (simp add: example_rule_def example_operands op_desc_def)
  have "\<forall>r \<in> set example_rules. list_all match_printable (rule_matches r) \<and> rule_matches r \<noteq> []
      \<and> length (rule_matches r) \<le> IR_MAX_MATCHES"
    by (simp add: example_rules_def IR_MAX_MATCHES_def) (simp add: example_rule_def example_operands op_desc_def INT_MAX_def)
  from rules_parse_back [OF this] show ?thesis
    by (simp add: example_rules_def printed)
qed

end
