(* ===== verification/Arm_Rules_Laws.thy ===== *)
theory Arm_Rules_Laws
  imports Arm_Rules Ir_Match_Laws
begin

text \<open>
  The table of rules of the back end for the ARM 2 is read without an error, and each of its rules
  is well formed: the hypotheses of the theorems on the matcher hold for it.
\<close>

section \<open>A newline at the end of a rule\<close>

definition same_but_nl :: "string \<Rightarrow> string \<Rightarrow> bool" where
  "same_but_nl r r' \<longleftrightarrow> r' = r \<or> r' = r @ [CHR 0x0A] \<or> r = r' @ [CHR 0x0A]"

lemma same_but_nl_sym: "same_but_nl r r' \<Longrightarrow> same_but_nl r' r"
  by (auto simp: same_but_nl_def)

lemma same_but_nl_snoc: "same_but_nl r (r @ [CHR 0x0A])" "same_but_nl r r"
  by (simp_all add: same_but_nl_def)

lemma white_nl: "prv_is_white_space (CHR 0x0A)"
  by simp

lemma dropWhile_white_snoc:
  "dropWhile prv_is_white_space (r @ [CHR 0x0A]) = (if dropWhile prv_is_white_space r = [] then [] else dropWhile prv_is_white_space r @ [CHR 0x0A])"
  by (induction r) simp_all

lemma dropWhile_same_but_nl:
  assumes "same_but_nl r r'"
  shows "same_but_nl (dropWhile prv_is_white_space r) (dropWhile prv_is_white_space r')"
    and "dropWhile prv_is_white_space r = [] \<longleftrightarrow> dropWhile prv_is_white_space r' = []"
  using assms dropWhile_white_snoc [of r] dropWhile_white_snoc [of r'] by (auto simp: same_but_nl_def simp del: dropWhile_eq_Nil_conv split: if_splits)

lemma token_snoc:
  assumes "stop (CHR 0x0A)"
  shows "token stop (r @ [CHR 0x0A]) = rbind (token stop r) (\<lambda>(t, q). Inr (t, q @ [CHR 0x0A]))"
proof -
  have t: "takeWhile (\<lambda>c. \<not> stop c) (r @ [CHR 0x0A]) = takeWhile (\<lambda>c. \<not> stop c) r"
    using assms by (induction r) simp_all
  have "length (takeWhile (\<lambda>c. \<not> stop c) r) \<le> length r"
    by (rule length_takeWhile_le)
  then show ?thesis
    by (simp add: token_def t Let_def)
qed

lemma token_same_but_nl:
  assumes "same_but_nl r r'" and "stop (CHR 0x0A)" and "token stop r = Inr (t, q)"
  obtains q' where "token stop r' = Inr (t, q')" and "same_but_nl q q'"
  using assms token_snoc [of stop r] token_snoc [of stop r'] that
  by (auto simp: same_but_nl_def rbind_eq_Inr)

lemma operand_token_same_but_nl:
  assumes "same_but_nl r r'" and "operand_token r = Inr (t, q)"
  obtains q' where "operand_token r' = Inr (t, q')" and "same_but_nl q q'"
proof -
  let ?stop = "\<lambda>c. prv_is_white_space c \<or> c = CHR '',''"
  obtain x where x: "token ?stop (dropWhile prv_is_white_space r) = Inr (t, x)"
    and q: "q = (if x \<noteq> [] \<and> hd x = CHR '','' then tl x else x)"
    using assms(2) by (auto simp: operand_token_def rbind_eq_Inr)
  obtain x' where x': "token ?stop (dropWhile prv_is_white_space r') = Inr (t, x')" and s: "same_but_nl x x'"
    by (rule token_same_but_nl [OF dropWhile_same_but_nl(1) [OF assms(1)] _ x]) simp
  have "same_but_nl (if x \<noteq> [] \<and> hd x = CHR '','' then tl x else x) (if x' \<noteq> [] \<and> hd x' = CHR '','' then tl x' else x')"
    using s by (cases x; cases x') (auto simp: same_but_nl_def)
  with x' q show ?thesis
    by (intro that) (simp_all add: operand_token_def)
qed

lemma parse_operands_same_but_nl:
  assumes "same_but_nl r r'" and "prv_parse_operands classes r = Inr (ms, q)"
  shows "\<exists>q'. prv_parse_operands classes r' = Inr (ms, q') \<and> same_but_nl q q'"
  using assms
proof (induction classes arbitrary: r r' ms q)
  case (Cons cls classes)
  from Cons.prems(2) obtain t x m ms1 where x: "operand_token r = Inr (t, x)" and m: "parse_operand cls t = Inr m"
    and rest: "prv_parse_operands classes x = Inr (ms1, q)" and ms: "ms = m # ms1"
    by (auto simp: rbind_eq_Inr)
  obtain x' where "operand_token r' = Inr (t, x')" and "same_but_nl x x'"
    by (rule operand_token_same_but_nl [OF Cons.prems(1) x])
  with Cons.IH [of x x' ms1 q] rest m ms show ?case
    by auto
qed simp

text \<open>What is made of the first word of an operation.\<close>

definition words :: "(string \<times> ir_op_match) list" where
  "words = [(''call'', MT_CALL), (''calli32'', MT_CALLI32), (''callr'', MT_CALLREAL), (''callptr'', MT_CALL_PTR),
     (''calli32ptr'', MT_CALLI32_PTR), (''callrptr'', MT_CALLREAL_PTR), (''syscall'', MT_SYS_CALL)]"

definition match_of_word :: "string \<Rightarrow> string \<Rightarrow> (ir_op_match \<times> string) option c_result" where
  "match_of_word instr rule =
     (if has_prefix LABEL_STR instr then
        rbind (prv_parse_label (drop (length LABEL_STR) instr)) (\<lambda>l. Inr (Some (MT_LABEL l, rule)))
      else case map_of words instr of
        Some m \<Rightarrow> Inr (Some (m, rule))
      | None \<Rightarrow>
          (case index_of (\<lambda>d. fst d = instr) op_desc of
             None \<Rightarrow> Inl assertion_failed
           | Some i \<Rightarrow>
               rbind (prv_parse_operands (class_details (snd (op_desc ! i))) rule) (\<lambda>(ms, rule).
               Inr (Some (MT_INSTR \<lparr>im_type = IR_TYPE i, im_operands = ms\<rparr>, rule)))))"

lemma parse_match_word_eq:
  "prv_parse_match r = (if dropWhile prv_is_white_space r = [] then Inr None
     else rbind (token prv_is_white_space (dropWhile prv_is_white_space r)) (\<lambda>(instr, rule). match_of_word instr rule))"
proof -
  have "match_of_word = (\<lambda>instr rule.
           if has_prefix LABEL_STR instr then
             rbind (prv_parse_label (drop (length LABEL_STR) instr)) (\<lambda>l. Inr (Some (MT_LABEL l, rule)))
           else if instr = ''call'' then Inr (Some (MT_CALL, rule))
           else if instr = ''calli32'' then Inr (Some (MT_CALLI32, rule))
           else if instr = ''callr'' then Inr (Some (MT_CALLREAL, rule))
           else if instr = ''callptr'' then Inr (Some (MT_CALL_PTR, rule))
           else if instr = ''calli32ptr'' then Inr (Some (MT_CALLI32_PTR, rule))
           else if instr = ''callrptr'' then Inr (Some (MT_CALLREAL_PTR, rule))
           else if instr = ''syscall'' then Inr (Some (MT_SYS_CALL, rule))
           else case index_of (\<lambda>d. fst d = instr) op_desc of
             None \<Rightarrow> Inl assertion_failed
           | Some i \<Rightarrow>
               rbind (prv_parse_operands (class_details (snd (op_desc ! i))) rule) (\<lambda>(ms, rule).
               Inr (Some (MT_INSTR \<lparr>im_type = IR_TYPE i, im_operands = ms\<rparr>, rule))))"
    by (intro ext) (simp add: match_of_word_def words_def)
  then show ?thesis
    by (simp only: prv_parse_match_def Let_def)
qed

lemma match_of_word_same_but_nl:
  assumes "same_but_nl r r'" and "match_of_word t r = Inr res"
  shows "\<exists>m q q'. res = Some (m, q) \<and> match_of_word t r' = Inr (Some (m, q')) \<and> same_but_nl q q'"
proof (cases "has_prefix LABEL_STR t")
  case True
  with assms show ?thesis
    by (auto simp: match_of_word_def rbind_eq_Inr)
next
  case label: False
  show ?thesis
  proof (cases "map_of words t")
    case None
    with label assms(2) obtain i ms q where i: "index_of (\<lambda>d. fst d = t) op_desc = Some i"
      and ms: "prv_parse_operands (class_details (snd (op_desc ! i))) r = Inr (ms, q)"
      and res: "res = Some (MT_INSTR \<lparr>im_type = IR_TYPE i, im_operands = ms\<rparr>, q)"
      by (auto simp: match_of_word_def rbind_eq_Inr split: option.splits)
    from parse_operands_same_but_nl [OF assms(1) ms] obtain q' where
      "prv_parse_operands (class_details (snd (op_desc ! i))) r' = Inr (ms, q')" and "same_but_nl q q'"
      by blast
    with label None i res show ?thesis
      by (simp add: match_of_word_def)
  qed (use label assms in \<open>auto simp: match_of_word_def\<close>)
qed

lemma parse_match_same_but_nl:
  assumes "same_but_nl r r'"
  shows "prv_parse_match r = Inr None \<Longrightarrow> prv_parse_match r' = Inr None"
    and "prv_parse_match r = Inr (Some (m, q)) \<Longrightarrow> \<exists>q'. prv_parse_match r' = Inr (Some (m, q')) \<and> same_but_nl q q'"
proof -
  note d = dropWhile_same_but_nl [OF assms]
  show "prv_parse_match r' = Inr None" if none: "prv_parse_match r = Inr None"
  proof -
    have "dropWhile prv_is_white_space r = []"
    proof (rule ccontr)
      assume "dropWhile prv_is_white_space r \<noteq> []"
      with none obtain t x where "match_of_word t x = Inr None"
        by (auto simp: parse_match_word_eq rbind_eq_Inr simp del: dropWhile_eq_Nil_conv)
      with match_of_word_same_but_nl [of x x] show False
        by (auto simp: same_but_nl_def)
    qed
    with d(2) show ?thesis
      by (simp add: parse_match_word_eq del: dropWhile_eq_Nil_conv)
  qed
  assume some: "prv_parse_match r = Inr (Some (m, q))"
  then have ne: "dropWhile prv_is_white_space r \<noteq> []"
    by (auto simp: parse_match_word_eq simp del: dropWhile_eq_Nil_conv)
  with some obtain t x where tok: "token prv_is_white_space (dropWhile prv_is_white_space r) = Inr (t, x)"
    and m: "match_of_word t x = Inr (Some (m, q))"
    by (auto simp: parse_match_word_eq rbind_eq_Inr simp del: dropWhile_eq_Nil_conv)
  obtain x' where tok': "token prv_is_white_space (dropWhile prv_is_white_space r') = Inr (t, x')" and x: "same_but_nl x x'"
    by (rule token_same_but_nl [OF d(1) white_nl tok])
  from match_of_word_same_but_nl [OF x m] ne d(2) tok' show "\<exists>q'. prv_parse_match r' = Inr (Some (m, q')) \<and> same_but_nl q q'"
    by (auto simp: parse_match_word_eq simp del: dropWhile_eq_Nil_conv)
qed

lemma parse_matches_same_but_nl:
  assumes "same_but_nl r r'" and "parse_matches n r = Inr ms"
  shows "parse_matches n r' = Inr ms"
  using assms
proof (induction n arbitrary: r r' ms)
  case (Suc n)
  from Suc.prems(2) obtain o1 where o1: "prv_parse_match r = Inr o1"
    by (auto simp: rbind_eq_Inr)
  show ?case
  proof (cases o1)
    case None
    with Suc.prems o1 parse_match_same_but_nl(1) [OF Suc.prems(1)] show ?thesis
      by simp
  next
    case (Some mq)
    obtain m q where mq: "mq = (m, q)"
      by fastforce
    obtain q' where "prv_parse_match r' = Inr (Some (m, q'))" and "same_but_nl q q'"
      using parse_match_same_but_nl(2) [OF Suc.prems(1)] o1 Some mq by blast
    with Suc o1 Some mq show ?thesis
      by (auto simp: rbind_eq_Inr)
  qed
qed simp
section \<open>The rules of the table\<close>

abbreviation any_op :: "ir_op_match_type \<times> ir_operand" where
  "any_op \<equiv> (OP_MATCH_ANY, 0)"

abbreviation wild_op :: "ir_operand \<Rightarrow> ir_op_match_type \<times> ir_operand" where
  "wild_op n \<equiv> (OP_MATCH_FLOATING, n)"

abbreviation on_instr :: "nat \<Rightarrow> (ir_op_match_type \<times> ir_operand) list \<Rightarrow> ir_op_match" where
  "on_instr i ms \<equiv> MT_INSTR \<lparr>im_type = IR_TYPE i, im_operands = ms\<rparr>"

abbreviation on_label :: "nat \<Rightarrow> ir_op_match" where
  "on_label n \<equiv> MT_LABEL \<lparr>lm_label = n, lm_match = OP_MATCH_FLOATING\<rparr>"

text \<open>What the texts say, with the instructions by their numbers.\<close>

definition riscos_arm2_matches :: "ir_op_match list list" where
  "riscos_arm2_matches = [
    [on_instr 61 [wild_op 1, any_op, any_op], on_instr 67 [wild_op 1, wild_op 1, any_op], on_label 1],
    [on_instr 53 [wild_op 1, any_op, any_op], on_instr 67 [wild_op 1, wild_op 1, any_op], on_label 1],
    [on_instr 57 [wild_op 1, any_op, any_op], on_instr 67 [wild_op 1, wild_op 1, any_op], on_label 1],
    [on_instr 49 [wild_op 1, any_op, any_op], on_instr 67 [wild_op 1, wild_op 1, any_op], on_label 1],
    [on_instr 45 [wild_op 1, any_op, any_op], on_instr 67 [wild_op 1, wild_op 1, any_op], on_label 1],
    [on_instr 65 [wild_op 1, any_op, any_op], on_instr 67 [wild_op 1, wild_op 1, any_op], on_label 1],
    [on_instr 59 [wild_op 1, any_op, any_op], on_instr 67 [wild_op 1, wild_op 1, any_op], on_label 1],
    [on_instr 51 [wild_op 1, any_op, any_op], on_instr 67 [wild_op 1, wild_op 1, any_op], on_label 1],
    [on_instr 55 [wild_op 1, any_op, any_op], on_instr 67 [wild_op 1, wild_op 1, any_op], on_label 1],
    [on_instr 43 [wild_op 1, any_op, any_op], on_instr 67 [wild_op 1, wild_op 1, any_op], on_label 1],
    [on_instr 47 [wild_op 1, any_op, any_op], on_instr 67 [wild_op 1, wild_op 1, any_op], on_label 1],
    [on_instr 63 [wild_op 1, any_op, any_op], on_instr 67 [wild_op 1, wild_op 1, any_op], on_label 1],
    [on_instr 62 [wild_op 1, any_op, any_op], on_instr 67 [wild_op 1, wild_op 1, any_op], on_label 1],
    [on_instr 54 [wild_op 1, any_op, any_op], on_instr 67 [wild_op 1, wild_op 1, any_op], on_label 1],
    [on_instr 58 [wild_op 1, any_op, any_op], on_instr 67 [wild_op 1, wild_op 1, any_op], on_label 1],
    [on_instr 50 [wild_op 1, any_op, any_op], on_instr 67 [wild_op 1, wild_op 1, any_op], on_label 1],
    [on_instr 46 [wild_op 1, any_op, any_op], on_instr 67 [wild_op 1, wild_op 1, any_op], on_label 1],
    [on_instr 66 [wild_op 1, any_op, any_op], on_instr 67 [wild_op 1, wild_op 1, any_op], on_label 1],
    [on_instr 60 [wild_op 1, any_op, any_op], on_instr 67 [wild_op 1, wild_op 1, any_op], on_label 1],
    [on_instr 52 [wild_op 1, any_op, any_op], on_instr 67 [wild_op 1, wild_op 1, any_op], on_label 1],
    [on_instr 56 [wild_op 1, any_op, any_op], on_instr 67 [wild_op 1, wild_op 1, any_op], on_label 1],
    [on_instr 44 [wild_op 1, any_op, any_op], on_instr 67 [wild_op 1, wild_op 1, any_op], on_label 1],
    [on_instr 48 [wild_op 1, any_op, any_op], on_instr 67 [wild_op 1, wild_op 1, any_op], on_label 1],
    [on_instr 64 [wild_op 1, any_op, any_op], on_instr 67 [wild_op 1, wild_op 1, any_op], on_label 1],
    [on_instr 67 [any_op, wild_op 1, any_op], on_label 1],
    [on_instr 67 [any_op, any_op, wild_op 1], on_label 1],
    [on_instr 67 [any_op, any_op, any_op]],
    [on_instr 68 [any_op, any_op, any_op]],
    [on_instr 51 [wild_op 1, any_op, any_op], on_instr 138 [any_op, wild_op 1, any_op, any_op]],
    [on_instr 59 [wild_op 1, any_op, any_op], on_instr 138 [any_op, wild_op 1, any_op, any_op]],
    [on_instr 138 [any_op, any_op, any_op, any_op]],
    [MT_CALL],
    [MT_CALLI32],
    [MT_CALLREAL],
    [MT_CALL_PTR],
    [MT_CALLI32_PTR],
    [MT_CALLREAL_PTR],
    [on_instr 70 []],
    [on_instr 71 [any_op]],
    [on_instr 72 [any_op]],
    [on_instr 73 [any_op]],
    [on_instr 74 [any_op]],
    [on_instr 53 [any_op, any_op, any_op]],
    [on_instr 54 [any_op, any_op, any_op]],
    [on_instr 61 [any_op, any_op, any_op]],
    [on_instr 62 [any_op, any_op, any_op]],
    [on_instr 65 [any_op, any_op, any_op]],
    [on_instr 66 [any_op, any_op, any_op]],
    [on_instr 57 [any_op, any_op, any_op]],
    [on_instr 58 [any_op, any_op, any_op]],
    [on_instr 45 [any_op, any_op, any_op]],
    [on_instr 46 [any_op, any_op, any_op]],
    [on_instr 49 [any_op, any_op, any_op]],
    [on_instr 50 [any_op, any_op, any_op]],
    [on_instr 51 [any_op, any_op, any_op]],
    [on_instr 52 [any_op, any_op, any_op]],
    [on_instr 59 [any_op, any_op, any_op]],
    [on_instr 60 [any_op, any_op, any_op]],
    [on_instr 43 [any_op, any_op, any_op]],
    [on_instr 44 [any_op, any_op, any_op]],
    [on_instr 47 [any_op, any_op, any_op]],
    [on_instr 48 [any_op, any_op, any_op]],
    [on_instr 63 [any_op, any_op, any_op]],
    [on_instr 64 [any_op, any_op, any_op]],
    [on_instr 55 [any_op, any_op, any_op]],
    [on_instr 56 [any_op, any_op, any_op]],
    [on_instr 29 [any_op, any_op]],
    [on_instr 27 [any_op, any_op]],
    [on_instr 9 [any_op, any_op, any_op]],
    [on_instr 13 [any_op, any_op, any_op]],
    [on_instr 4 [any_op, any_op, any_op]],
    [on_instr 11 [any_op, any_op, any_op]],
    [on_instr 33 [any_op, any_op, any_op]],
    [on_instr 0 [any_op, any_op, any_op]],
    [on_instr 2 [any_op, any_op, any_op]],
    [on_instr 22 [any_op, any_op, any_op]],
    [on_instr 23 [any_op, any_op, any_op]],
    [on_instr 17 [any_op, any_op, any_op]],
    [on_instr 18 [any_op, any_op, any_op]],
    [on_label 1],
    [on_instr 31 [any_op, any_op]],
    [on_instr 32 []],
    [on_instr 69 [any_op]],
    [on_instr 37 [any_op, any_op, any_op]],
    [on_instr 39 [any_op, any_op, any_op]],
    [on_instr 41 [any_op, any_op, any_op]],
    [on_instr 42 [any_op, any_op]],
    [on_instr 36 [any_op, any_op, any_op]],
    [on_instr 38 [any_op, any_op, any_op]],
    [on_instr 40 [any_op, any_op, any_op]],
    [on_instr 75 [any_op, any_op, any_op]],
    [on_instr 76 [any_op, any_op, any_op]],
    [on_instr 77 [any_op, any_op, any_op]],
    [on_instr 78 [any_op, any_op, any_op]],
    [on_instr 79 [any_op, any_op, any_op]],
    [on_instr 80 [any_op, any_op, any_op]],
    [on_instr 30 [any_op, any_op]],
    [on_instr 28 [any_op, any_op]],
    [on_instr 82 [any_op, any_op]],
    [on_instr 83 [any_op, any_op]],
    [on_instr 81 [any_op, any_op]],
    [on_instr 1 [any_op, any_op, any_op]],
    [on_instr 10 [any_op, any_op, any_op]],
    [on_instr 3 [any_op, any_op, any_op]],
    [on_instr 12 [any_op, any_op, any_op]],
    [on_instr 34 [any_op, any_op, any_op]],
    [on_instr 5 [any_op, any_op, any_op]],
    [on_instr 14 [any_op, any_op, any_op]],
    [on_instr 8 [any_op, any_op, any_op]],
    [on_instr 16 [any_op, any_op, any_op]],
    [on_instr 35 [any_op, any_op, any_op]],
    [on_instr 24 [any_op, any_op, any_op]],
    [on_instr 19 [any_op, any_op, any_op]],
    [on_instr 85 [any_op]],
    [on_instr 86 [any_op, any_op, any_op]],
    [on_instr 87 [any_op, any_op]],
    [on_instr 88 [any_op, any_op, any_op]],
    [on_instr 89 [any_op, any_op]],
    [on_instr 90 [any_op]],
    [on_instr 91 []],
    [on_instr 92 []],
    [on_instr 93 []],
    [on_instr 94 []],
    [on_instr 95 []],
    [on_instr 96 [any_op, any_op]],
    [on_instr 97 [any_op, any_op]],
    [on_instr 98 [any_op, any_op]],
    [on_instr 99 [any_op, any_op]],
    [on_instr 100 [any_op, any_op]],
    [on_instr 101 [any_op, any_op]],
    [on_instr 102 [any_op, any_op]],
    [on_instr 103 [any_op, any_op]],
    [on_instr 104 [any_op, any_op]],
    [on_instr 105 [any_op, any_op]],
    [on_instr 108 [any_op]],
    [on_instr 109 [any_op, any_op]],
    [on_instr 110 [any_op, any_op]],
    [on_instr 111 [any_op]],
    [on_instr 112 [any_op]],
    [on_instr 113 [any_op]],
    [on_instr 114 [any_op, any_op, any_op]],
    [on_instr 115 [any_op, any_op, any_op]],
    [on_instr 116 []],
    [on_instr 117 []],
    [on_instr 120 [any_op]],
    [on_instr 122 [any_op, any_op]],
    [on_instr 123 [any_op]],
    [on_instr 124 [any_op]],
    [on_instr 125 [any_op, any_op]],
    [on_instr 126 [any_op, any_op]],
    [on_instr 127 [any_op]],
    [on_instr 128 [any_op]],
    [on_instr 106 [any_op, any_op, any_op]],
    [on_instr 107 [any_op, any_op]],
    [on_instr 129 [any_op]],
    [on_instr 130 [any_op, any_op]],
    [on_instr 131 [any_op, any_op, any_op, any_op]],
    [on_instr 132 [any_op, any_op, any_op]],
    [on_instr 134 [any_op, any_op, any_op]],
    [on_instr 135 [any_op]],
    [on_instr 136 [any_op, any_op]],
    [on_instr 137 [any_op, any_op]],
    [MT_SYS_CALL],
    [on_instr 139 [any_op, any_op]],
    [on_instr 140 [any_op, any_op]],
    [on_instr 141 [any_op, any_op]],
    [on_instr 142 [any_op]],
    [on_instr 143 [any_op, any_op]],
    [on_instr 144 [any_op, any_op]],
    [on_instr 145 [any_op, any_op, any_op, any_op]],
    [on_instr 146 [any_op, any_op, any_op]],
    [on_instr 147 [any_op, any_op]],
    [on_instr 148 [any_op, any_op]],
    [on_instr 149 [any_op, any_op]],
    [on_instr 150 [any_op, any_op]],
    [on_instr 151 [any_op, any_op]],
    [on_instr 152 [any_op, any_op]],
    [on_instr 153 [any_op, any_op, any_op]],
    [on_instr 154 [any_op]],
    [on_instr 155 [any_op, any_op]],
    [on_instr 156 [any_op]]]"

lemma show_nat_1: "show_nat (Suc 0) = ''1''" "show_nat 1 = ''1''"
  by code_simp+

text \<open>The rows of the table of instructions the rules need.\<close>

lemma op_desc_at:
  "op_desc ! 0 = (''addi32'', CLASS_REG_REG_REG)"
  "op_desc ! Suc 0 = (''addr'', CLASS_FREG_FREG_FREG)"
  "op_desc ! 2 = (''subi32'', CLASS_REG_REG_REG)"
  "op_desc ! 3 = (''subr'', CLASS_FREG_FREG_FREG)"
  "op_desc ! 4 = (''muli32'', CLASS_REG_REG_REG)"
  "op_desc ! 5 = (''mulr'', CLASS_FREG_FREG_FREG)"
  "op_desc ! 8 = (''divr'', CLASS_FREG_FREG_FREG)"
  "op_desc ! 9 = (''addii32'', CLASS_REG_REG_I32)"
  "op_desc ! 10 = (''addir'', CLASS_FREG_FREG_REAL)"
  "op_desc ! 11 = (''subii32'', CLASS_REG_REG_I32)"
  "op_desc ! 12 = (''subir'', CLASS_FREG_FREG_REAL)"
  "op_desc ! 13 = (''mulii32'', CLASS_REG_REG_I32)"
  "op_desc ! 14 = (''mulir'', CLASS_FREG_FREG_REAL)"
  "op_desc ! 16 = (''divir'', CLASS_FREG_FREG_REAL)"
  "op_desc ! 17 = (''loadoi8'', CLASS_REG_REG_I32)"
  "op_desc ! 18 = (''loadoi32'', CLASS_REG_REG_I32)"
  "op_desc ! 19 = (''loador'', CLASS_FREG_REG_I32)"
  "op_desc ! 22 = (''storeoi8'', CLASS_REG_REG_I32)"
  "op_desc ! 23 = (''storeoi32'', CLASS_REG_REG_I32)"
  "op_desc ! 24 = (''storeor'', CLASS_FREG_REG_I32)"
  "op_desc ! 27 = (''movii32'', CLASS_REG_I32)"
  "op_desc ! 28 = (''movir'', CLASS_FREG_REAL)"
  "op_desc ! 29 = (''mov'', CLASS_REG_REG)"
  "op_desc ! 30 = (''movfp'', CLASS_FREG_FREG)"
  "op_desc ! 31 = (''printstr'', CLASS_REG_REG)"
  "op_desc ! 32 = (''printnl'', CLASS_NONE)"
  "op_desc ! 33 = (''rsubii32'', CLASS_REG_REG_I32)"
  "op_desc ! 34 = (''rsubir'', CLASS_FREG_FREG_REAL)"
  "op_desc ! 35 = (''rdivir'', CLASS_FREG_FREG_REAL)"
  "op_desc ! 36 = (''andi32'', CLASS_REG_REG_REG)"
  "op_desc ! 37 = (''andii32'', CLASS_REG_REG_I32)"
  "op_desc ! 38 = (''ori32'', CLASS_REG_REG_REG)"
  "op_desc ! 39 = (''orii32'', CLASS_REG_REG_I32)"
  "op_desc ! 40 = (''eori32'', CLASS_REG_REG_REG)"
  "op_desc ! 41 = (''eorii32'', CLASS_REG_REG_I32)"
  "op_desc ! 42 = (''noti32'', CLASS_REG_REG)"
  "op_desc ! 43 = (''eqi32'', CLASS_REG_REG_REG)"
  "op_desc ! 44 = (''eqr'', CLASS_REG_FREG_FREG)"
  "op_desc ! 45 = (''eqii32'', CLASS_REG_REG_I32)"
  "op_desc ! 46 = (''eqir'', CLASS_REG_FREG_REAL)"
  "op_desc ! 47 = (''neqi32'', CLASS_REG_REG_REG)"
  "op_desc ! 48 = (''neqr'', CLASS_REG_FREG_FREG)"
  "op_desc ! 49 = (''neqii32'', CLASS_REG_REG_I32)"
  "op_desc ! 50 = (''neqir'', CLASS_REG_FREG_REAL)"
  "op_desc ! 51 = (''gti32'', CLASS_REG_REG_REG)"
  "op_desc ! 52 = (''gtr'', CLASS_REG_FREG_FREG)"
  "op_desc ! 53 = (''gtii32'', CLASS_REG_REG_I32)"
  "op_desc ! 54 = (''gtir'', CLASS_REG_FREG_REAL)"
  "op_desc ! 55 = (''ltei32'', CLASS_REG_REG_REG)"
  "op_desc ! 56 = (''lter'', CLASS_REG_FREG_FREG)"
  "op_desc ! 57 = (''lteii32'', CLASS_REG_REG_I32)"
  "op_desc ! 58 = (''lteir'', CLASS_REG_FREG_REAL)"
  "op_desc ! 59 = (''lti32'', CLASS_REG_REG_REG)"
  "op_desc ! 60 = (''ltr'', CLASS_REG_FREG_FREG)"
  "op_desc ! 61 = (''ltii32'', CLASS_REG_REG_I32)"
  "op_desc ! 62 = (''ltir'', CLASS_REG_FREG_REAL)"
  "op_desc ! 63 = (''gtei32'', CLASS_REG_REG_REG)"
  "op_desc ! 64 = (''gter'', CLASS_REG_FREG_FREG)"
  "op_desc ! 65 = (''gteii32'', CLASS_REG_REG_I32)"
  "op_desc ! 66 = (''gteir'', CLASS_REG_FREG_REAL)"
  "op_desc ! 67 = (''jmpc'', CLASS_REG_LABEL_LABEL)"
  "op_desc ! 68 = (''jmpcnf'', CLASS_REG_LABEL_LABEL)"
  "op_desc ! 69 = (''jmp'', CLASS_LABEL)"
  "op_desc ! 70 = (''ret'', CLASS_NONE)"
  "op_desc ! 71 = (''reti32'', CLASS_REG)"
  "op_desc ! 72 = (''retii32'', CLASS_I32)"
  "op_desc ! 73 = (''retr'', CLASS_FREG)"
  "op_desc ! 74 = (''retir'', CLASS_REAL)"
  "op_desc ! 75 = (''lsli32'', CLASS_REG_REG_REG)"
  "op_desc ! 76 = (''lslii32'', CLASS_REG_REG_I32)"
  "op_desc ! 77 = (''lsri32'', CLASS_REG_REG_REG)"
  "op_desc ! 78 = (''lsrii32'', CLASS_REG_REG_I32)"
  "op_desc ! 79 = (''asri32'', CLASS_REG_REG_REG)"
  "op_desc ! 80 = (''asrii32'', CLASS_REG_REG_I32)"
  "op_desc ! 81 = (''movi32fp'', CLASS_FREG_REG)"
  "op_desc ! 82 = (''movfpi32'', CLASS_REG_FREG)"
  "op_desc ! 83 = (''movfprdi32'', CLASS_REG_FREG)"
  "op_desc ! 85 = (''modei32'', CLASS_REG)"
  "op_desc ! 86 = (''plot'', CLASS_REG_REG_REG)"
  "op_desc ! 87 = (''gcol'', CLASS_REG_REG)"
  "op_desc ! 88 = (''gcoltint'', CLASS_REG_REG_REG)"
  "op_desc ! 89 = (''origin'', CLASS_REG_REG)"
  "op_desc ! 90 = (''gettime'', CLASS_REG)"
  "op_desc ! 91 = (''cls'', CLASS_NONE)"
  "op_desc ! 92 = (''clg'', CLASS_NONE)"
  "op_desc ! 93 = (''on'', CLASS_NONE)"
  "op_desc ! 94 = (''off'', CLASS_NONE)"
  "op_desc ! 95 = (''wait'', CLASS_NONE)"
  "op_desc ! 96 = (''sin'', CLASS_FREG_FREG)"
  "op_desc ! 97 = (''cos'', CLASS_FREG_FREG)"
  "op_desc ! 98 = (''tan'', CLASS_FREG_FREG)"
  "op_desc ! 99 = (''asn'', CLASS_FREG_FREG)"
  "op_desc ! 100 = (''acs'', CLASS_FREG_FREG)"
  "op_desc ! 101 = (''atn'', CLASS_FREG_FREG)"
  "op_desc ! 102 = (''sqr'', CLASS_FREG_FREG)"
  "op_desc ! 103 = (''log'', CLASS_FREG_FREG)"
  "op_desc ! 104 = (''ln'', CLASS_FREG_FREG)"
  "op_desc ! 105 = (''absr'', CLASS_FREG_FREG)"
  "op_desc ! 106 = (''powr'', CLASS_FREG_FREG_FREG)"
  "op_desc ! 107 = (''expr'', CLASS_FREG_FREG)"
  "op_desc ! 108 = (''get'', CLASS_REG)"
  "op_desc ! 109 = (''gettimeout'', CLASS_REG_REG)"
  "op_desc ! 110 = (''inkey'', CLASS_REG_REG)"
  "op_desc ! 111 = (''osbyteid'', CLASS_REG)"
  "op_desc ! 112 = (''vdui'', CLASS_I32)"
  "op_desc ! 113 = (''vdu'', CLASS_REG)"
  "op_desc ! 114 = (''point'', CLASS_REG_REG_REG)"
  "op_desc ! 115 = (''tint'', CLASS_REG_REG_REG)"
  "op_desc ! 116 = (''end'', CLASS_NONE)"
  "op_desc ! 117 = (''testesc'', CLASS_NONE)"
  "op_desc ! 120 = (''ref'', CLASS_REG)"
  "op_desc ! 122 = (''getref'', CLASS_REG_REG)"
  "op_desc ! 123 = (''pushi32'', CLASS_REG)"
  "op_desc ! 124 = (''popi32'', CLASS_REG)"
  "op_desc ! 125 = (''lca'', CLASS_REG_I32)"
  "op_desc ! 126 = (''at'', CLASS_REG_REG)"
  "op_desc ! 127 = (''pos'', CLASS_REG)"
  "op_desc ! 128 = (''vpos'', CLASS_REG)"
  "op_desc ! 129 = (''tcol'', CLASS_REG)"
  "op_desc ! 130 = (''tcoltint'', CLASS_REG_REG)"
  "op_desc ! 131 = (''palette'', CLASS_REG_REG_REG_REG)"
  "op_desc ! 132 = (''i32todec'', CLASS_REG_REG_REG)"
  "op_desc ! 134 = (''i32tohex'', CLASS_REG_REG_REG)"
  "op_desc ! 135 = (''heapfree'', CLASS_REG)"
  "op_desc ! 136 = (''blockfree'', CLASS_REG_REG)"
  "op_desc ! 137 = (''blockadjust'', CLASS_REG_REG)"
  "op_desc ! 138 = (''cmovi32'', CLASS_REG_REG_REG_REG)"
  "op_desc ! 139 = (''openout'', CLASS_REG_REG)"
  "op_desc ! 140 = (''openup'', CLASS_REG_REG)"
  "op_desc ! 141 = (''openin'', CLASS_REG_REG)"
  "op_desc ! 142 = (''close'', CLASS_REG)"
  "op_desc ! 143 = (''bget'', CLASS_REG_REG)"
  "op_desc ! 144 = (''bput'', CLASS_REG_REG)"
  "op_desc ! 145 = (''blockget'', CLASS_REG_REG_REG_REG)"
  "op_desc ! 146 = (''blockput'', CLASS_REG_REG_REG)"
  "op_desc ! 147 = (''eof'', CLASS_REG_REG)"
  "op_desc ! 148 = (''ext'', CLASS_REG_REG)"
  "op_desc ! 149 = (''getptr'', CLASS_REG_REG)"
  "op_desc ! 150 = (''setptr'', CLASS_REG_REG)"
  "op_desc ! 151 = (''signx8to32'', CLASS_REG_REG)"
  "op_desc ! 152 = (''movi8tofp'', CLASS_FREG_REG)"
  "op_desc ! 153 = (''movfptoi32i32'', CLASS_REG_REG_FREG)"
  "op_desc ! 154 = (''oscli'', CLASS_REG)"
  "op_desc ! 155 = (''getprocaddr'', CLASS_REG_I32)"
  "op_desc ! 156 = (''osargs'', CLASS_REG)"
  by (simp_all add: op_desc_def)

lemma length_op_desc: "length op_desc = 157"
  by (simp add: op_desc_def)

definition text_of :: "string \<Rightarrow> ir_op_match list \<Rightarrow> bool" where
  "text_of t ms \<longleftrightarrow> list_all match_printable ms \<and> ms \<noteq> [] \<and> length ms \<le> IR_MAX_MATCHES
     \<and> (t = show_rule ms \<or> t @ [CHR 0x0A] = show_rule ms)"

lemma table_texts: "list_all2 text_of (map fst (riscos_arm2_rules fp_if other)) riscos_arm2_matches"
  by (simp add: riscos_arm2_rules_def riscos_arm2_matches_def text_of_def IR_MAX_MATCHES_def show_nat_1 instr_operands_def op_desc_at length_op_desc INT_MAX_def)

text \<open>No rule of the table has a wildcard other than that with the number one.\<close>

fun one_wildcard :: "ir_op_match \<Rightarrow> bool" where
  "one_wildcard (MT_INSTR im) \<longleftrightarrow> list_all (\<lambda>(t, x). t = OP_MATCH_FLOATING \<longrightarrow> unat x = 1) (im_operands im)"
| "one_wildcard (MT_LABEL lm) \<longleftrightarrow> lm_label lm = 1"
| "one_wildcard _ \<longleftrightarrow> True"

lemma one_wildcard_subset: "one_wildcard m \<Longrightarrow> wildcards cls m \<subseteq> {1}"
  by (cases m) (auto simp: wildcards_def floating_def list_all_iff dest!: set_zip_rightD)

lemma one_wildcard_rule_ok:
  assumes "list_all match_ok ms" and "list_all one_wildcard ms"
  shows "rule_ok ms"
proof -
  have "(\<Union>m \<in> set ms. wildcards cls m) \<subseteq> {1}" for cls
    using assms(2) one_wildcard_subset by (fastforce simp: list_all_iff)
  then have "card (\<Union>m \<in> set ms. wildcards cls m) \<le> card {1 :: nat}" for cls
    by (intro card_mono) simp_all
  then have "card (\<Union>m \<in> set ms. wildcards cls m) \<le> MAX_MATCH_WILDCARDS" for cls
    by (rule le_trans) (simp add: MAX_MATCH_WILDCARDS_def)
  with assms(1) show ?thesis
    by (simp add: rule_ok_def)
qed

lemma table_rules_ok: "list_all rule_ok riscos_arm2_matches"
proof -
  have "list_all (\<lambda>ms. list_all match_ok ms \<and> list_all one_wildcard ms) riscos_arm2_matches"
    by (simp add: riscos_arm2_matches_def instr_operands_def op_desc_at)
  then show ?thesis
    using one_wildcard_rule_ok by (auto simp: list_all_iff)
qed

lemma text_of_parses: "text_of t ms \<Longrightarrow> parse_matches IR_MAX_MATCHES t = Inr ms \<and> ms \<noteq> []"
  using parse_show_rule [of ms IR_MAX_MATCHES] parse_matches_same_but_nl [of "t @ [CHR 0x0A]" t]
  by (auto simp: text_of_def same_but_nl_def)

lemma parse_rules_texts:
  assumes "list_all2 text_of (map fst raw) mss"
  shows "subtilis_ir_parse_rules raw = Inr (map (\<lambda>(ms, act). \<lparr>rule_matches = ms, rule_action = act\<rparr>) (zip mss (map snd raw)))"
  using assms
proof (induction raw arbitrary: mss)
  case (Cons r raw)
  obtain t act where r: "r = (t, act)"
    by fastforce
  from Cons.prems obtain ms mss' where mss: "mss = ms # mss'" "text_of t ms" "list_all2 text_of (map fst raw) mss'"
    by (auto simp: r list_all2_Cons1)
  with Cons.IH [of mss'] text_of_parses [of t ms] show ?case
    by (simp add: r)
qed simp

definition riscos_arm2_parsed :: "arm_fp_if option \<Rightarrow> (string \<Rightarrow> arm_s ir_action) \<Rightarrow> arm_s ir_rule list" where
  "riscos_arm2_parsed fp_if other = map (\<lambda>(ms, act). \<lparr>rule_matches = ms, rule_action = act\<rparr>)
     (zip riscos_arm2_matches (map snd (riscos_arm2_rules fp_if other)))"

lemma rule_actions_zip:
  "length mss = length acts \<Longrightarrow> map rule_action (map (\<lambda>(ms, act). \<lparr>rule_matches = ms, rule_action = act\<rparr>) (zip mss acts)) = acts"
  by (induction mss acts rule: list_induct2) simp_all

lemma length_matches: "length riscos_arm2_matches = length (riscos_arm2_rules fp_if other)"
  using list_all2_lengthD [OF table_texts [of fp_if other]] by simp

lemma parsed_rules_ok: "list_all (\<lambda>r. rule_ok (rule_matches r) \<and> rule_matches r \<noteq> []) (riscos_arm2_parsed fp_if other)"
proof -
  have "ms \<noteq> []" if "ms \<in> set riscos_arm2_matches" for ms
    using table_texts [of fp_if other] that by (auto simp: list_all2_conv_all_nth in_set_conv_nth text_of_def)
  moreover have "r \<in> set (riscos_arm2_parsed fp_if other) \<Longrightarrow> rule_matches r \<in> set riscos_arm2_matches" for r
    by (auto simp: riscos_arm2_parsed_def dest: set_zip_leftD)
  ultimately show ?thesis
    using table_rules_ok by (simp add: list_all_iff)
qed

lemma parsed_actions: "map rule_action (riscos_arm2_parsed fp_if other) = map snd (riscos_arm2_rules fp_if other)"
  using length_matches [of fp_if other] by (simp add: riscos_arm2_parsed_def rule_actions_zip del: map_map)

text \<open>
  C40: the table of rules of the back end for the ARM 2 is read without an error, in its order and with its
  actions, and every rule is well formed: it has an operation, its operands are of the classes of its
  instructions and its wildcards fit the matcher's tables.
\<close>

theorem riscos_arm2_rules_parse:
  "subtilis_ir_parse_rules (riscos_arm2_rules fp_if other) = Inr (riscos_arm2_parsed fp_if other)
    \<and> map rule_action (riscos_arm2_parsed fp_if other) = map snd (riscos_arm2_rules fp_if other)
    \<and> list_all (\<lambda>r. rule_ok (rule_matches r) \<and> rule_matches r \<noteq> []) (riscos_arm2_parsed fp_if other)"
  using parse_rules_texts [OF table_texts] parsed_rules_ok parsed_actions by (simp add: riscos_arm2_parsed_def)

end
