(* ===== verification/Arm_Emit.thy ===== *)
theory Arm_Emit
  imports Arm_Section_Laws Arm_Vm_Laws
begin

text \<open>
  What the functions that append instructions to a section (arch/arm32/arm_core.c) append. The
  instructions are run by the simulator's functions on registers that are not yet allocated, of
  which there are as many as the section has used; \<open>appends a a' vm post\<close> says that the code between two
  states of a section runs from \<open>vm\<close> to a state with \<open>post\<close>, whatever is appended to the section and
  its constants afterwards.
\<close>

section \<open>Sections to which operations are appended\<close>

definition chained :: "arm_s \<Rightarrow> nat list \<Rightarrow> bool" where
  "chained s xs \<longleftrightarrow> seg (as_pool s) (as_first s) xs None \<and> as_len s = length xs \<and> distinct xs
     \<and> as_last s = (if xs = [] then None else Some (last xs))"

lemma seg_in_pool: "seg pool a xs b \<Longrightarrow> x \<in> set xs \<Longrightarrow> x < length pool"
  by (induction xs arbitrary: a) auto

lemma seg_extend:
  assumes "seg pool a xs b" and "distinct xs" and "xs \<noteq> []"
    and "\<And>x. x \<in> set xs \<Longrightarrow> x < length pool'"
    and "\<And>x. x \<in> set xs \<Longrightarrow> x \<noteq> last xs \<Longrightarrow> nd_next (pool' ! x) = nd_next (pool ! x)"
    and "nd_next (pool' ! last xs) = Some c"
  shows "seg pool' a xs (Some c)"
  using assms
proof (induction xs arbitrary: a)
  case (Cons x xs)
  show ?case
  proof (cases "xs = []")
    case True
    with Cons.prems show ?thesis by simp
  next
    case False
    then have "x \<noteq> last xs"
      using Cons.prems(2) by auto
    with Cons.prems(5) [of x] False have "nd_next (pool' ! x) = nd_next (pool ! x)"
      by simp
    moreover have "seg pool' (nd_next (pool ! x)) xs (Some c)"
      using False Cons.prems by (intro Cons.IH) auto
    ultimately show ?thesis
      using Cons.prems by simp
  qed
qed simp

lemma chained_in_pool: "chained s xs \<Longrightarrow> x \<in> set xs \<Longrightarrow> x < length (as_pool s)"
  by (auto simp: chained_def dest: seg_in_pool)

lemma section_ops_chained: "chained s xs \<Longrightarrow> section_ops s = ops_at s xs"
  by (simp add: chained_def section_ops_seg)

lemma linked_chained: "linked s xs \<Longrightarrow> chained s xs"
  using linked_seg by (auto simp: chained_def linked_def)

text \<open>A new node behind the last one.\<close>

lemma chained_append:
  assumes "chained s xs" and "length (as_pool s) = ptr"
    and "as_pool s' = (let p = as_pool s @ [n] in if xs = [] then p else p[last xs := (p ! last xs)\<lparr>nd_next := Some ptr\<rparr>])"
    and "as_first s' = Some (if xs = [] then ptr else hd xs)" and "as_last s' = Some ptr"
    and "as_len s' = as_len s + 1" and "nd_next n = None"
  shows "chained s' (xs @ [ptr])" and "section_ops s' = section_ops s @ [nd_op n]"
proof -
  have lt: "x < ptr" if "x \<in> set xs" for x
    using chained_in_pool [OF assms(1) that] assms(2) by simp
  have pool: "as_pool s' ! x = (if xs \<noteq> [] \<and> x = last xs then (as_pool s ! x)\<lparr>nd_next := Some ptr\<rparr>
      else if x < ptr then as_pool s ! x else n)" if "x \<le> ptr" for x
    using that lt [of "last xs"] assms(2)
    by (auto simp: assms(3) Let_def nth_append nth_list_update)
  have len: "length (as_pool s') = Suc ptr"
    using assms(2) by (simp add: assms(3) Let_def)
  have new: "as_pool s' ! ptr = n"
    using pool [of ptr] lt [of "last xs"] by (auto simp: less_irrefl)
  show ch: "chained s' (xs @ [ptr])"
  proof (cases "xs = []")
    case True
    with assms new len show ?thesis
      by (simp add: chained_def)
  next
    case False
    have "as_first s = Some (hd xs)"
      using assms(1) False by (cases xs) (auto simp: chained_def)
    with assms(1) have "seg (as_pool s) (Some (hd xs)) xs None" and "distinct xs"
      by (simp_all add: chained_def)
    moreover have "nd_next (as_pool s' ! x) = nd_next (as_pool s ! x)" if "x \<in> set xs" and "x \<noteq> last xs" for x
      using pool [of x] lt [OF that(1)] that(2) by simp
    moreover have "nd_next (as_pool s' ! last xs) = Some ptr"
      using pool [of "last xs"] lt [of "last xs"] False by simp
    ultimately have "seg (as_pool s') (Some (hd xs)) xs (Some ptr)"
      using len lt False by (intro seg_extend) (auto simp: less_SucI)
    with assms new len False lt show ?thesis
      by (auto simp: chained_def seg_append)
  qed
  have "nd_op (as_pool s' ! x) = nd_op (as_pool s ! x)" if "x \<in> set xs" for x
    using pool [of x] lt [OF that] by simp
  then have "ops_at s' xs = ops_at s xs"
    by (simp add: ops_at_def)
  with new show "section_ops s' = section_ops s @ [nd_op n]"
    by (simp add: section_ops_chained [OF ch] section_ops_chained [OF assms(1)]) (simp add: ops_at_def)
qed

lemma append_op_chained:
  assumes "prv_append_op op s = Inr (p, s')" and "chained s xs"
  shows "\<exists>ptr. chained s' (xs @ [ptr])" and "section_ops s' = section_ops s @ [op]"
    and "as_ui32 s' = as_ui32 s" and "as_reg_counter s' = as_reg_counter s"
    and "as_label_counter s' = as_label_counter s"
proof -
  from assms(1) obtain ptr s1 where alloc: "arm_op_pool_alloc s = Inr (ptr, s1)"
    by (auto simp: prv_append_op_def sbind_eq_Inr)
  from op_pool_alloc_Inr [OF alloc] obtain m al where ptr: "ptr = length (as_pool s)"
    and s1: "s1 = s\<lparr>as_pool_max := m, as_allocs := al\<rparr>"
    by blast
  let ?n = "\<lparr>nd_op = op, nd_next = None, nd_prev = as_last s\<rparr>"
  let ?p = "as_pool s @ [?n]"
  let ?pool = "if xs = [] then ?p else ?p[last xs := (?p ! last xs)\<lparr>nd_next := Some ptr\<rparr>]"
  have first: "as_first s = (if xs = [] then None else Some (hd xs))"
    using assms(2) by (cases xs) (auto simp: chained_def)
  have s': "s' = s1\<lparr>as_pool := ?pool, as_first := Some (if xs = [] then ptr else hd xs),
      as_last := Some ptr, as_len := as_len s1 + 1\<rparr>"
    using assms alloc chained_in_pool [OF assms(2), of "last xs"] first
    by (auto simp: prv_append_op_def sbind_def Let_def s1 chained_def split: if_splits option.splits)
  from chained_append [OF assms(2), of ptr s' ?n]
  show "\<exists>ptr. chained s' (xs @ [ptr])" and "section_ops s' = section_ops s @ [op]"
    by (auto simp: s' s1 ptr Let_def)
  show "as_ui32 s' = as_ui32 s" and "as_reg_counter s' = as_reg_counter s"
    and "as_label_counter s' = as_label_counter s"
    by (simp_all add: s' s1)
qed


text \<open>Writing to the last node.\<close>

lemma chained_update_last:
  assumes "chained s (xs @ [i])" and "nd_next n = nd_next (as_pool s ! i)" and "s' = s\<lparr>as_pool := (as_pool s)[i := n]\<rparr>"
  shows "chained s' (xs @ [i])" and "section_ops s' = butlast (section_ops s) @ [nd_op n]"
proof -
  have i: "i < length (as_pool s)" "i \<notin> set xs"
    using assms(1) chained_in_pool [OF assms(1), of i] by (auto simp: chained_def)
  have nodes: "x < length (as_pool s') \<and> nd_next (as_pool s' ! x) = nd_next (as_pool s ! x)" if "x \<in> set (xs @ [i])" for x
    using chained_in_pool [OF assms(1) that] assms(2) by (cases "x = i") (simp_all add: assms(3))
  have "seg (as_pool s) (as_first s) (xs @ [i]) None"
    using assms(1) by (simp add: chained_def)
  from seg_cong [OF nodes this] have "seg (as_pool s') (as_first s) (xs @ [i]) None"
    by blast
  then show ch: "chained s' (xs @ [i])"
    using assms(1,3) by (simp add: chained_def)
  have "ops_at s' xs = ops_at s xs"
    using i by (auto simp: ops_at_def assms(3) nth_list_update)
  with i(1) show "section_ops s' = butlast (section_ops s) @ [nd_op n]"
    by (simp add: section_ops_chained [OF ch] section_ops_chained [OF assms(1)]) (simp add: ops_at_def assms(3))
qed

lemma dup_instr_chained:
  assumes "arm_section_dup_instr f s = Inr (p, s')" and "chained s xs"
  shows "\<exists>ptr. chained s' (xs @ [ptr])"
    and "section_ops s' = section_ops s @ [f (last (section_ops s))]"
    and "as_ui32 s' = as_ui32 s" and "as_reg_counter s' = as_reg_counter s"
    and "as_label_counter s' = as_label_counter s"
proof -
  from assms obtain l i c s1 n where xs: "xs \<noteq> []" "l = last xs"
    and app: "prv_append_op Op_phi s = Inr ((i, c), s1)" and src: "deref (l, as_pool_max s) s1 = Inr n"
    and s': "s' = s1\<lparr>as_pool := (as_pool s1)[i := n\<lparr>nd_op := f (nd_op n), nd_next := None\<rparr>]\<rparr>"
    by (auto simp: arm_section_dup_instr_def rbind_eq_Inr sbind_eq_Inr chained_def split: if_splits)
  note a = append_op_chained [OF app assms(2)]
  have "as_last s1 = Some i"
    using app by (auto simp: prv_append_op_def sbind_eq_Inr rbind_eq_Inr Let_def)
  with a(1) have ch: "chained s1 (xs @ [i])"
    by (auto simp: chained_def)
  then have no_next: "nd_next (as_pool s1 ! i) = None"
    by (auto simp: chained_def seg_append)
  note u = chained_update_last [OF ch, of "n\<lparr>nd_op := f (nd_op n), nd_next := None\<rparr>" s', simplified no_next s', simplified]
  have "nd_op n = last (section_ops s)"
  proof -
    have "n = as_pool s1 ! l"
      using src by (auto simp: deref_def array_get_eq_Inr split: if_splits)
    moreover have "section_ops s1 = ops_at s1 xs @ [nd_op (as_pool s1 ! i)]"
      by (simp add: section_ops_chained [OF ch] ops_at_def)
    ultimately show ?thesis
      using a(2) xs by (simp add: ops_at_def last_map)
  qed
  with a u ch show "\<exists>ptr. chained s' (xs @ [ptr])"
    and "section_ops s' = section_ops s @ [f (last (section_ops s))]"
    and "as_ui32 s' = as_ui32 s" and "as_reg_counter s' = as_reg_counter s"
    and "as_label_counter s' = as_label_counter s"
    by (auto simp: s')
qed


section \<open>Running the code of a section\<close>

text \<open>
  The load of a constant is what it becomes when the constants \<open>ks\<close> are placed behind the code; link
  time constants, which are changed when the program is put together, are not loaded here.
\<close>

definition run_op :: "(u32 \<Rightarrow> u32) \<Rightarrow> ui32_constant list \<Rightarrow> arm_op \<Rightarrow> arm_vm \<Rightarrow> arm_vm c_result option" where
  "run_op sar32 ks op vm =
     (case op of
        Op_instr (Ldrc l) \<Rightarrow>
          if prv_match_ccode vm (ldrc_ccode l)
          then map_option (\<lambda>k. Inr (advance (set_reg (ldrc_dest l) (uc_integer k) vm)))
                 (find (\<lambda>k. uc_label k = ldrc_label l \<and> \<not> uc_link_time k) ks)
          else Some (Inr (advance vm))
      | Op_instr i \<Rightarrow> exec_instr sar32 i vm
      | _ \<Rightarrow> None)"

primrec run_ops :: "(u32 \<Rightarrow> u32) \<Rightarrow> ui32_constant list \<Rightarrow> arm_op list \<Rightarrow> arm_vm \<Rightarrow> arm_vm c_result option" where
  "run_ops sar32 ks [] vm = Some (Inr vm)"
| "run_ops sar32 ks (op # ops) vm =
     (case run_op sar32 ks op vm of Some (Inr vm') \<Rightarrow> run_ops sar32 ks ops vm' | r \<Rightarrow> r)"

lemma run_ops_append:
  "run_ops sar32 ks xs vm = Some (Inr vm1) \<Longrightarrow> run_ops sar32 ks (xs @ ys) vm = run_ops sar32 ks ys vm1"
  by (induction xs arbitrary: vm) (auto split: option.splits sum.splits)

abbreviation constants :: "arm_s \<Rightarrow> ui32_constant list" where
  "constants a \<equiv> vec_items (as_ui32 a)"

text \<open>A section without link time constants, whose labels are new when they are given out.\<close>

definition section_ok :: "arm_s \<Rightarrow> bool" where
  "section_ok a \<longleftrightarrow> (\<exists>xs. chained a xs) \<and> 4 \<le> as_reg_counter a \<and> distinct (map uc_label (constants a))
     \<and> (\<forall>k\<in>set (constants a). uc_label k < as_label_counter a \<and> \<not> uc_link_time k)"

definition grows :: "arm_s \<Rightarrow> arm_s \<Rightarrow> bool" where
  "grows a a' \<longleftrightarrow> section_ok a' \<and> as_reg_counter a \<le> as_reg_counter a'
     \<and> (\<exists>ops. section_ops a' = section_ops a @ ops) \<and> (\<exists>ks. constants a' = constants a @ ks)"

definition code_between :: "arm_s \<Rightarrow> arm_s \<Rightarrow> arm_op list" where
  "code_between a a' = drop (length (section_ops a)) (section_ops a')"

definition constants_for :: "arm_s \<Rightarrow> ui32_constant list \<Rightarrow> bool" where
  "constants_for a ks \<longleftrightarrow> (\<exists>more. ks = constants a @ more) \<and> distinct (map uc_label ks)"

definition appends :: "(u32 \<Rightarrow> u32) \<Rightarrow> arm_s \<Rightarrow> arm_s \<Rightarrow> (arm_vm \<Rightarrow> bool) \<Rightarrow> (arm_vm \<Rightarrow> arm_vm \<Rightarrow> bool) \<Rightarrow> bool" where
  "appends sar32 a a' pre post \<longleftrightarrow> (section_ok a \<longrightarrow> grows a a' \<and> (as_reg_counter a' \<le> 2 ^ 32 \<longrightarrow>
     (\<forall>ks vm. constants_for a' ks \<longrightarrow> pre vm \<longrightarrow>
       (\<exists>vm'. run_ops sar32 ks (code_between a a') vm = Some (Inr vm') \<and> post vm vm'))))"

lemma grows_trans: "grows a b \<Longrightarrow> grows b c \<Longrightarrow> grows a c"
  by (auto simp: grows_def)

lemma code_between_trans:
  assumes "grows a b" and "grows b c"
  shows "code_between a c = code_between a b @ code_between b c"
  using assms by (auto simp: grows_def code_between_def)

lemma constants_for_grows: "grows a b \<Longrightarrow> constants_for b ks \<Longrightarrow> constants_for a ks"
  by (auto simp: grows_def constants_for_def)

lemma appends_trans:
  assumes 1: "appends sar32 a b P R" and 2: "appends sar32 b c Q S"
    and mid: "\<And>vm vm1. P vm \<Longrightarrow> R vm vm1 \<Longrightarrow> Q vm1"
    and last: "\<And>vm vm1 vm2. section_ok a \<Longrightarrow> as_reg_counter b \<le> 2 ^ 32 \<Longrightarrow> as_reg_counter a \<le> as_reg_counter b
      \<Longrightarrow> P vm \<Longrightarrow> R vm vm1 \<Longrightarrow> S vm1 vm2 \<Longrightarrow> T vm vm2"
  shows "appends sar32 a c P T"
  unfolding appends_def
proof (intro impI conjI allI)
  assume ok: "section_ok a"
  with 1 have ab: "grows a b"
    by (simp add: appends_def)
  then have "section_ok b"
    by (simp add: grows_def)
  with 2 have bc: "grows b c"
    by (simp add: appends_def)
  from grows_trans [OF ab bc] show "grows a c" .
  fix ks vm
  assume reg: "as_reg_counter c \<le> 2 ^ 32" and ks: "constants_for c ks" and P: "P vm"
  have regb: "as_reg_counter b \<le> 2 ^ 32" "as_reg_counter a \<le> as_reg_counter b"
    using reg ab bc by (simp_all add: grows_def)
  obtain vm1 where vm1: "run_ops sar32 ks (code_between a b) vm = Some (Inr vm1)" "R vm vm1"
    using 1 ok regb(1) constants_for_grows [OF bc ks] P by (auto simp: appends_def)
  obtain vm2 where vm2: "run_ops sar32 ks (code_between b c) vm1 = Some (Inr vm2)" "S vm1 vm2"
    using 2 \<open>section_ok b\<close> reg ks mid [OF P vm1(2)] by (auto simp: appends_def)
  show "\<exists>vm'. run_ops sar32 ks (code_between a c) vm = Some (Inr vm') \<and> T vm vm'"
    using last [OF ok regb P vm1(2) vm2(2)] vm1(1) vm2(1)
    by (simp add: code_between_trans [OF ab bc] run_ops_append)
qed

lemma appends_mono:
  assumes "appends sar32 a b P R" and "\<And>vm. Q vm \<Longrightarrow> P vm" and "\<And>vm vm'. Q vm \<Longrightarrow> R vm vm' \<Longrightarrow> S vm vm'"
  shows "appends sar32 a b Q S"
  using assms by (fastforce simp: appends_def)

lemma appends_pre: "appends sar32 a b P R \<Longrightarrow> (\<And>vm. Q vm \<Longrightarrow> P vm) \<Longrightarrow> appends sar32 a b Q R"
  by (rule appends_mono)

text \<open>The number of registers is known to be small in both implications.\<close>

lemma appends_weaken:
  assumes "appends sar32 a b P R"
    and "\<And>vm. 4 \<le> as_reg_counter a \<Longrightarrow> as_reg_counter a \<le> 2 ^ 32 \<Longrightarrow> Q vm \<Longrightarrow> P vm"
    and "\<And>vm vm'. 4 \<le> as_reg_counter a \<Longrightarrow> as_reg_counter a \<le> 2 ^ 32 \<Longrightarrow> Q vm \<Longrightarrow> R vm vm' \<Longrightarrow> S vm vm'"
  shows "appends sar32 a b Q S"
  unfolding appends_def
proof (intro impI conjI allI)
  assume ok: "section_ok a"
  with assms(1) show grow: "grows a b"
    by (simp add: appends_def)
  fix ks vm
  assume reg: "as_reg_counter b \<le> 2 ^ 32" and ks: "constants_for b ks" and Q: "Q vm"
  have n: "4 \<le> as_reg_counter a" "as_reg_counter a \<le> 2 ^ 32"
    using ok grow reg by (auto simp: section_ok_def grows_def)
  from assms(1) ok reg ks assms(2) [OF n Q] obtain vm' where
    "run_ops sar32 ks (code_between a b) vm = Some (Inr vm')" and "R vm vm'"
    by (auto simp: appends_def)
  with assms(3) [OF n Q] show "\<exists>vm'. run_ops sar32 ks (code_between a b) vm = Some (Inr vm') \<and> S vm vm'"
    by blast
qed

subsection \<open>Single operations\<close>

lemma appends_op:
  assumes "prv_append_op op a = Inr (p, a')"
    and "\<And>ks vm. constants_for a ks \<Longrightarrow> section_ok a \<Longrightarrow> pre vm \<Longrightarrow> \<exists>vm'. run_op sar32 ks op vm = Some (Inr vm') \<and> post vm vm'"
  shows "appends sar32 a a' pre post"
  unfolding appends_def
proof (intro impI conjI allI)
  assume ok: "section_ok a"
  then obtain xs where ch: "chained a xs"
    by (auto simp: section_ok_def)
  note app = append_op_chained [OF assms(1) ch]
  show "grows a a'"
    using ok app by (auto simp: grows_def section_ok_def)
  fix ks vm
  assume "constants_for a' ks" and "pre vm"
  with assms(2) [of ks vm] ok app show "\<exists>vm'. run_ops sar32 ks (code_between a a') vm = Some (Inr vm') \<and> post vm vm'"
    by (fastforce simp: constants_for_def code_between_def)
qed

lemma appends_dup:
  assumes "arm_section_dup_instr (\<lambda>_. op) a = Inr (p, a')"
    and "\<And>ks vm. pre vm \<Longrightarrow> \<exists>vm'. run_op sar32 ks op vm = Some (Inr vm') \<and> post vm vm'"
  shows "appends sar32 a a' pre post"
  unfolding appends_def
proof (intro impI conjI allI)
  assume ok: "section_ok a"
  then obtain xs where ch: "chained a xs"
    by (auto simp: section_ok_def)
  note app = dup_instr_chained [OF assms(1) ch]
  show "grows a a'"
    using ok app by (auto simp: grows_def section_ok_def)
  fix ks vm
  assume "pre vm"
  with assms(2) [of vm ks] app show "\<exists>vm'. run_ops sar32 ks (code_between a a') vm = Some (Inr vm') \<and> post vm vm'"
    by (fastforce simp: code_between_def)
qed

lemma appends_nothing:
  assumes "grows a a'" and "section_ops a' = section_ops a"
  shows "appends sar32 a a' (\<lambda>_. True) (=)"
  using assms by (simp add: appends_def code_between_def)

lemma chained_fields [simp]:
  "chained (s\<lparr>as_reg_counter := n\<rparr>) xs = chained s xs"
  "chained (s\<lparr>as_label_counter := n\<rparr>) xs = chained s xs"
  "chained (s\<lparr>as_ui32 := v, as_allocs := al\<rparr>) xs = chained s xs"
  by (simp_all add: chained_def)

lemma section_ops_fields [simp]:
  "section_ops (s\<lparr>as_reg_counter := n\<rparr>) = section_ops s"
  "section_ops (s\<lparr>as_label_counter := n\<rparr>) = section_ops s"
  "section_ops (s\<lparr>as_ui32 := v, as_allocs := al\<rparr>) = section_ops s"
  by (simp_all add: section_ops_def)

lemma acquire_new_reg_appends:
  assumes "arm_acquire_new_reg a = Inr (r, a')"
  shows "appends sar32 a a' (\<lambda>_. True) (=)" and "r = arm_ir_to_arm_reg (as_reg_counter a)"
    and "as_reg_counter a' = as_reg_counter a + 1"
proof -
  have r: "r = arm_ir_to_arm_reg (as_reg_counter a)" and a': "a' = a\<lparr>as_reg_counter := as_reg_counter a + 1\<rparr>"
    using assms by (simp_all add: arm_acquire_new_reg_def)
  show "appends sar32 a a' (\<lambda>_. True) (=)"
  proof (cases "section_ok a")
    case True
    then have "grows a a'"
      by (auto simp: grows_def section_ok_def a')
    then show ?thesis
      by (rule appends_nothing) (simp add: a')
  qed (simp add: appends_def)
  show "as_reg_counter a' = as_reg_counter a + 1"
    by (simp add: a')
qed (use assms in \<open>simp add: arm_acquire_new_reg_def\<close>)


section \<open>What single instructions do\<close>

text \<open>
  The registers a section with the register counter \<open>n\<close> uses, apart from the program counter; an
  instruction that keeps or sets them leaves the memory and the flags alone.
\<close>

definition in_use :: "nat \<Rightarrow> arm_reg \<Rightarrow> bool" where
  "in_use n r \<longleftrightarrow> r \<noteq> 15 \<and> unat r < n + 12"

definition sets :: "nat \<Rightarrow> arm_reg \<Rightarrow> u32 \<Rightarrow> arm_vm \<Rightarrow> arm_vm \<Rightarrow> bool" where
  "sets n dest v vm vm' \<longleftrightarrow> vm_regs vm' dest = v \<and> (\<forall>r. in_use n r \<longrightarrow> r \<noteq> dest \<longrightarrow> vm_regs vm' r = vm_regs vm r)
     \<and> vm_memory vm' = vm_memory vm \<and> (\<forall>cc. prv_match_ccode vm' cc = prv_match_ccode vm cc)"

definition moves :: "nat \<Rightarrow> ccode \<Rightarrow> arm_reg \<Rightarrow> u32 \<Rightarrow> arm_vm \<Rightarrow> arm_vm \<Rightarrow> bool" where
  "moves n cc dest v vm vm' \<longleftrightarrow> sets n dest (if prv_match_ccode vm cc then v else vm_regs vm dest) vm vm'"

definition compared :: "nat \<Rightarrow> u32 \<Rightarrow> u32 \<Rightarrow> arm_vm \<Rightarrow> arm_vm \<Rightarrow> bool" where
  "compared n a b vm vm' \<longleftrightarrow> (\<forall>r. in_use n r \<longrightarrow> vm_regs vm' r = vm_regs vm r)
     \<and> vm_memory vm' = vm_memory vm \<and> (\<forall>cc. prv_match_ccode vm' cc = compares cc a b)"

lemma sets_mono: "sets m dest v vm vm' \<Longrightarrow> n \<le> m \<Longrightarrow> sets n dest v vm vm'"
  by (auto simp: sets_def in_use_def)

lemma compared_mono: "compared m a b vm vm' \<Longrightarrow> n \<le> m \<Longrightarrow> compared n a b vm vm'"
  by (auto simp: compared_def in_use_def)

lemma unused_reg:
  assumes "4 \<le> n" and "n \<le> 2 ^ 32"
  shows "unat (arm_ir_to_arm_reg n) = n + 12" and "arm_ir_to_arm_reg n \<noteq> 15" and "\<not> in_use n (arm_ir_to_arm_reg n)"
proof -
  have "arm_ir_to_arm_reg n = of_nat (n + 12)"
    using assms(1) by (simp add: arm_ir_to_arm_reg_def SUBTILIS_IR_REG_TEMP_START_def SUBTILIS_ARM_INT_VIRT_REG_START_def)
  moreover have "unat (of_nat (n + 12) :: u64) = n + 12"
    using assms(2) by (simp add: unsigned_of_nat take_bit_eq_mod del: of_nat_add)
  ultimately show u: "unat (arm_ir_to_arm_reg n) = n + 12"
    by simp
  with assms show "arm_ir_to_arm_reg n \<noteq> 15" and "\<not> in_use n (arm_ir_to_arm_reg n)"
    by (auto simp: in_use_def)
qed

text \<open>Setting a register that is not in use, and then one from it.\<close>

lemma sets_via:
  assumes "sets n tmp u vm vm1" and "\<not> in_use n tmp" and "sets m dest v vm1 vm2" and "n \<le> m"
  shows "sets n dest v vm vm2"
  using assms by (fastforce simp: sets_def in_use_def)

lemma sets_keeps: "sets n tmp u vm vm1 \<Longrightarrow> in_use n r \<Longrightarrow> r \<noteq> tmp \<Longrightarrow> vm_regs vm1 r = vm_regs vm r"
  by (simp add: sets_def)

fun data_fn :: "data_type \<Rightarrow> (u32 \<Rightarrow> u32 \<Rightarrow> u32) option" where
  "data_fn INSTR_AND = Some (AND)"
| "data_fn INSTR_EOR = Some (XOR)"
| "data_fn INSTR_SUB = Some (-)"
| "data_fn INSTR_RSB = Some (\<lambda>a b. b - a)"
| "data_fn INSTR_ADD = Some (+)"
| "data_fn INSTR_ORR = Some (OR)"
| "data_fn INSTR_MOV = Some (\<lambda>a b. b)"
| "data_fn INSTR_MVN = Some (\<lambda>a b. NOT b)"
| "data_fn _ = None"

lemma sets_set_reg [simp]:
  "dest \<noteq> 15 \<Longrightarrow> sets n dest v vm (advance (set_reg dest v vm))"
  "dest \<noteq> 15 \<Longrightarrow> sets n dest v vm (set_reg dest v (advance vm))"
  "dest \<noteq> 15 \<Longrightarrow> sets n dest (vm_regs vm dest) vm (advance vm)"
  by (auto simp: sets_def set_reg_def advance_def in_use_def) (rename_tac cc, case_tac cc, simp_all)+

lemma exec_data:
  assumes "data_fn itype = Some f" and "prv_eval_op2 sar32 False op2 vm = Inr (b, vm)" and "dest \<noteq> 15"
  shows "\<exists>vm'. exec_instr sar32 (Data itype (data cc False dest op1 op2)) vm = Some (Inr vm')
    \<and> moves n cc dest (f (vm_regs vm op1) b) vm vm'"
  using assms
  by (cases itype) (auto simp: data_def moves_def conditionally_def Let_def logic_op_def prv_process_and_def prv_process_eor_def
      prv_process_sub_def prv_process_rsb_def prv_process_add_def prv_process_orr_def prv_process_mov_def
      prv_process_mvn_def)

lemma eval_imm:
  assumes "arm_encode_imm k = Some e"
  shows "prv_eval_op2 sar32 status (OP2_I32 e) vm = Inr (k, vm)"
  using arm_encode_imm_SomeD [OF assms] by (simp add: prv_eval_op2_def)

lemma eval_reg: "prv_eval_op2 sar32 status (OP2_REG r) vm = Inr (vm_regs vm r, vm)"
  by (simp add: prv_eval_op2_def)

lemma exec_cmp:
  assumes "prv_eval_op2 sar32 True op2 vm = Inr (b, vm)"
  shows "\<exists>vm'. exec_instr sar32 (Data INSTR_CMP (data CC_AL True 0 op1 op2)) vm = Some (Inr vm')
      \<and> compared n (vm_regs vm op1) b vm vm'"
    and "\<exists>vm'. exec_instr sar32 (Data INSTR_CMN (data CC_AL True 0 op1 op2)) vm = Some (Inr vm')
      \<and> compared n (vm_regs vm op1) (- b) vm vm'"
  using assms sub_flags_conditions [of "vm_regs vm op1" b vm] sub_flags_conditions [of "vm_regs vm op1" "- b" vm]
  by (auto simp: data_def prv_process_cmp_def prv_process_cmn_def compare_def conditionally_def
      prv_set_status_flags_def compared_def in_use_def)
    (auto simp: advance_def set_reg_def prv_set_sub_flags_def Let_def in_use_def)

lemma run_op_instr: "\<forall>l. i \<noteq> Ldrc l \<Longrightarrow> run_op sar32 ks (Op_instr i) vm = exec_instr sar32 i vm"
  by (cases i) (auto simp: run_op_def)

section \<open>What the functions append\<close>

subsection \<open>Data processing\<close>

lemma add_data_appends:
  assumes "arm_section_add_instr (Data itype (data cc False dest op1 op2)) a = Inr (p, a')" and "data_fn itype = Some f"
    and "\<And>vm. pre vm \<Longrightarrow> prv_eval_op2 sar32 False op2 vm = Inr (b vm, vm) \<and> dest \<noteq> 15"
  shows "appends sar32 a a' pre (\<lambda>vm. moves (as_reg_counter a) cc dest (f (vm_regs vm op1) (b vm)) vm)"
  by (rule appends_op [OF assms(1) [unfolded arm_section_add_instr_def]])
    (use exec_data [OF assms(2)] assms(3) in \<open>simp add: run_op_instr\<close>)

lemma find_unique:
  assumes "k \<in> set ks" and "distinct (map uc_label ks)" and "\<not> uc_link_time k"
  shows "find (\<lambda>x. uc_label x = uc_label k \<and> \<not> uc_link_time x) ks = Some k"
  using assms by (induction ks) (auto simp: rev_image_eqI)

lemma ldrc_run:
  assumes "k \<in> set (constants a)" and "constants_for a ks" and "section_ok a" and "dest \<noteq> 15"
  shows "\<exists>vm'. run_op sar32 ks (Op_instr (ldrc cc dest (uc_label k) False)) vm = Some (Inr vm')
    \<and> moves n cc dest (uc_integer k) vm vm'"
proof -
  have "find (\<lambda>x. uc_label x = uc_label k \<and> \<not> uc_link_time x) ks = Some k"
    using assms by (intro find_unique) (auto simp: constants_for_def section_ok_def)
  with assms(4) show ?thesis
    by (simp add: run_op_def ldrc_def moves_def)
qed

lemma data_imm_ldr_appends:
  assumes "prv_add_data_imm_ldr cc dest n a = Inr (l, a')"
  shows "appends sar32 a a' (\<lambda>_. dest \<noteq> 15) (\<lambda>vm. moves (as_reg_counter a) cc dest n vm)"
proof (cases "find (\<lambda>k. uc_integer k = n) (constants a)")
  case None
  then obtain v al p where push: "vec_push 64 \<lparr>uc_integer = n, uc_label = as_label_counter a, uc_link_time = False\<rparr> (as_ui32 a) (as_allocs a) = Inr (v, al)"
    and app: "arm_section_add_instr (ldrc cc dest (as_label_counter a) False)
      (a\<lparr>as_label_counter := as_label_counter a + 1, as_ui32 := v, as_allocs := al\<rparr>) = Inr (p, a')"
    using assms(1) by (auto simp: prv_add_data_imm_ldr_def sbind_eq_Inr sthen_def arm_new_label_def
        prv_add_ui32_constant_def rbind_eq_Inr)
  let ?k = "\<lparr>uc_integer = n, uc_label = as_label_counter a, uc_link_time = False\<rparr>"
  let ?b = "a\<lparr>as_label_counter := as_label_counter a + 1, as_ui32 := v, as_allocs := al\<rparr>"
  have v: "vec_items v = constants a @ [?k]"
    using push by (auto simp: vec_push_def rbind_eq_Inr split: if_splits)
  have grow: "grows a ?b" if "section_ok a"
    using that by (force simp: grows_def section_ok_def v)
  have "section_ops ?b = section_ops a"
    by (simp add: section_ops_def)
  with grow have ab: "appends sar32 a ?b (\<lambda>_. True) (=)"
    using appends_nothing [of a ?b] by (cases "section_ok a") (simp_all add: appends_def)
  have bc: "appends sar32 ?b a' (\<lambda>_. dest \<noteq> 15) (\<lambda>vm. moves (as_reg_counter a) cc dest n vm)"
    by (rule appends_op [OF app [unfolded arm_section_add_instr_def]])
      (use ldrc_run [of ?k ?b _ dest sar32 cc] v in simp)
  show ?thesis
    by (rule appends_trans [OF appends_pre [OF ab] bc]) auto
next
  case (Some k)
  then have k: "k \<in> set (constants a)" "uc_integer k = n"
    by (auto simp: find_Some_iff)
  from Some assms(1) obtain p where "arm_section_add_instr (ldrc cc dest (uc_label k) False) a = Inr (p, a')"
    by (auto simp: prv_add_data_imm_ldr_def sbind_eq_Inr sthen_def)
  from appends_op [OF this [unfolded arm_section_add_instr_def]] show ?thesis
    using ldrc_run [OF k(1)] k(2) by simp
qed


lemma moves_AL [simp]: "moves n CC_AL dest v vm vm' = sets n dest v vm vm'"
  by (simp add: moves_def)

lemma mov_imm_appends:
  assumes "arm_add_mov_imm cc False dest n a = Inr (u, a')"
  shows "appends sar32 a a' (\<lambda>_. dest \<noteq> 15) (\<lambda>vm. moves (as_reg_counter a) cc dest n vm)"
proof -
  consider e p where "arm_encode_imm n = Some e"
      "arm_section_add_instr (Data INSTR_MOV (data cc False dest 0 (OP2_I32 e))) a = Inr (p, a')"
    | e p where "arm_encode_imm (NOT n) = Some e"
      "arm_section_add_instr (Data INSTR_MVN (data cc False dest 0 (OP2_I32 e))) a = Inr (p, a')"
    | l where "prv_add_data_imm_ldr cc dest n a = Inr (l, a')"
    using assms(1) by (auto simp: arm_add_mov_imm_def arm_add_movmvn_imm_def sbind_eq_Inr sthen_def split: option.splits)
  then show ?thesis
  proof cases
    case 1
    show ?thesis
      by (rule appends_mono [OF add_data_appends [OF 1(2) data_fn.simps(7), of "\<lambda>_. dest \<noteq> 15" sar32 "\<lambda>_. n"]])
        (simp_all add: eval_imm [OF 1(1)])
  next
    case 2
    show ?thesis
      by (rule appends_mono [OF add_data_appends [OF 2(2) data_fn.simps(8), of "\<lambda>_. dest \<noteq> 15" sar32 "\<lambda>_. NOT n"]])
        (simp_all add: eval_imm [OF 2(1)])
  next
    case 3
    from data_imm_ldr_appends [OF 3] show ?thesis .
  qed
qed

text \<open>A new register that is set to a value, and what follows.\<close>

definition keeps :: "nat \<Rightarrow> arm_vm \<Rightarrow> arm_vm \<Rightarrow> bool" where
  "keeps n vm vm' \<longleftrightarrow> (\<forall>r. in_use n r \<longrightarrow> vm_regs vm' r = vm_regs vm r) \<and> vm_memory vm' = vm_memory vm
     \<and> (\<forall>cc. prv_match_ccode vm' cc = prv_match_ccode vm cc)"

lemma via_new_reg:
  assumes acq: "arm_acquire_new_reg a = Inr (tmp, b)"
    and load: "appends sar32 b c (\<lambda>vm. P vm \<and> tmp \<noteq> 15) (\<lambda>vm. sets (as_reg_counter b) tmp (v vm) vm)"
    and op: "appends sar32 c d Q S"
    and pre: "\<And>vm vm1. P vm \<Longrightarrow> keeps (as_reg_counter a) vm vm1 \<Longrightarrow> Q vm1"
    and post: "\<And>vm vm1 vm2. P vm \<Longrightarrow> S vm1 vm2 \<Longrightarrow> vm_regs vm1 tmp = v vm \<Longrightarrow> keeps (as_reg_counter a) vm vm1
      \<Longrightarrow> as_reg_counter a \<le> as_reg_counter c \<Longrightarrow> T vm vm2"
  shows "appends sar32 a d P T"
proof -
  note acq' = acquire_new_reg_appends [OF acq]
  have 1: "appends sar32 a c (\<lambda>vm. P vm \<and> tmp \<noteq> 15) (\<lambda>vm. sets (as_reg_counter b) tmp (v vm) vm)"
    by (rule appends_trans [OF appends_pre [OF acq'(1)] load]) auto
  have tmp: "tmp \<noteq> 15" "\<not> in_use (as_reg_counter a) tmp" if "section_ok a" and "as_reg_counter a \<le> 2 ^ 32"
    using unused_reg [of "as_reg_counter a"] acq'(2) that by (auto simp: section_ok_def)
  let ?R = "\<lambda>vm vm1. vm_regs vm1 tmp = v vm \<and> keeps (as_reg_counter a) vm vm1"
  have "appends sar32 a c P ?R"
    unfolding appends_def
  proof (intro impI conjI allI)
    assume ok: "section_ok a"
    with 1 show grow: "grows a c"
      by (simp add: appends_def)
    fix ks vm
    assume reg: "as_reg_counter c \<le> 2 ^ 32" and ks: "constants_for c ks" and P: "P vm"
    have "as_reg_counter a \<le> 2 ^ 32"
      using reg grow by (simp add: grows_def)
    note tmp = tmp [OF ok this]
    obtain vm1 where run: "run_ops sar32 ks (code_between a c) vm = Some (Inr vm1)"
      and s: "sets (as_reg_counter b) tmp (v vm) vm vm1"
      using 1 ok reg ks P tmp by (auto simp: appends_def)
    have "vm_regs vm1 r = vm_regs vm r" if "in_use (as_reg_counter a) r" for r
      using sets_keeps [OF sets_mono [OF s, of "as_reg_counter a"], of r] that tmp(2) acq'(3) by auto
    with s have "?R vm vm1"
      by (simp add: sets_def keeps_def)
    with run show "\<exists>vm'. run_ops sar32 ks (code_between a c) vm = Some (Inr vm') \<and> ?R vm vm'"
      by blast
  qed
  then show ?thesis
  proof (rule appends_trans [OF _ op])
    fix vm vm1 vm2
    assume "P vm" and "?R vm vm1" and "S vm1 vm2" and "as_reg_counter a \<le> as_reg_counter c"
    then show "T vm vm2"
      using post by blast
  qed (use pre in blast)
qed

lemma keeps_sets: "keeps n vm vm1 \<Longrightarrow> sets m dest v vm1 vm2 \<Longrightarrow> n \<le> m \<Longrightarrow> sets n dest v vm vm2"
  by (auto simp: keeps_def sets_def in_use_def)

lemma keeps_compared: "keeps n vm vm1 \<Longrightarrow> compared m u v vm1 vm2 \<Longrightarrow> n \<le> m \<Longrightarrow> compared n u v vm vm2"
  by (auto simp: keeps_def compared_def in_use_def)

lemma keeps_reg: "keeps n vm vm1 \<Longrightarrow> in_use n r \<Longrightarrow> vm_regs vm1 r = vm_regs vm r"
  by (simp add: keeps_def)


lemma add_data_reg_appends:
  assumes "arm_section_add_instr (Data itype (data CC_AL False dest op1 (OP2_REG op2))) a = Inr (p, a')" and "data_fn itype = Some f"
  shows "appends sar32 a a' (\<lambda>_. dest \<noteq> 15) (\<lambda>vm. sets (as_reg_counter a) dest (f (vm_regs vm op1) (vm_regs vm op2)) vm)"
  by (rule appends_mono [OF add_data_appends [OF assms, of "\<lambda>_. dest \<noteq> 15" sar32 "\<lambda>vm. vm_regs vm op2"]])
    (simp_all add: eval_reg)

lemma add_data_imm_appends:
  assumes "arm_section_add_instr (Data itype (data CC_AL False dest op1 (OP2_I32 e))) a = Inr (p, a')" and "data_fn itype = Some f"
    and "prv_decode_imm e = k"
  shows "appends sar32 a a' (\<lambda>_. dest \<noteq> 15) (\<lambda>vm. sets (as_reg_counter a) dest (f (vm_regs vm op1) k) vm)"
  by (rule appends_mono [OF add_data_appends [OF assms(1,2), of "\<lambda>_. dest \<noteq> 15" sar32 "\<lambda>vm. k"]])
    (simp_all add: prv_eval_op2_def assms(3))

lemma dup_data_imm_appends:
  assumes "arm_section_dup_instr (\<lambda>_. Op_instr (Data itype (data CC_AL False dest op1 (OP2_I32 e)))) a = Inr (p, a')"
    and "data_fn itype = Some f"
  shows "appends sar32 a a' (\<lambda>_. dest \<noteq> 15) (\<lambda>vm. sets (as_reg_counter a) dest (f (vm_regs vm op1) (prv_decode_imm e)) vm)"
proof (rule appends_dup [OF assms(1)])
  fix ks vm
  assume "dest \<noteq> 15"
  moreover have "prv_eval_op2 sar32 False (OP2_I32 e) vm = Inr (prv_decode_imm e, vm)"
    by (simp add: prv_eval_op2_def)
  ultimately show "\<exists>vm'. run_op sar32 ks (Op_instr (Data itype (data CC_AL False dest op1 (OP2_I32 e)))) vm = Some (Inr vm')
      \<and> sets (as_reg_counter a) dest (f (vm_regs vm op1) (prv_decode_imm e)) vm vm'"
    using exec_data [OF assms(2), of sar32 "OP2_I32 e" vm _ dest CC_AL op1 "as_reg_counter a"]
    by (simp add: run_op_instr del: exec_instr.simps)
qed

lemma data_via_ldr_appends:
  assumes "add_data_imm_ldr_datai itype CC_AL False dest op1 n a = Inr (l, a')" and f: "data_fn itype = Some f"
  shows "appends sar32 a a' (\<lambda>_. dest \<noteq> 15 \<and> in_use (as_reg_counter a) op1)
    (\<lambda>vm. sets (as_reg_counter a) dest (f (vm_regs vm op1) n) vm)"
proof -
  obtain tmp b c lb p where acq: "arm_acquire_new_reg a = Inr (tmp, b)" and ldr: "prv_add_data_imm_ldr CC_AL tmp n b = Inr (lb, c)"
    and op: "arm_section_add_instr (Data itype (data CC_AL False dest op1 (OP2_REG tmp))) c = Inr (p, a')"
    using assms(1) by (auto simp: add_data_imm_ldr_datai_def sbind_eq_Inr sthen_def)
  show ?thesis
    by (rule via_new_reg [OF acq appends_pre [OF data_imm_ldr_appends [OF ldr, unfolded moves_AL]] add_data_reg_appends [OF op f]])
      (auto simp: keeps_reg elim: keeps_sets)
qed

lemma add_imm_or_negated_appends:
  assumes "arm_section_add_instr (Data (if neg then alt else itype) (data CC_AL False dest op1 (OP2_I32 e))) a = Inr (p, a')"
    and f: "data_fn itype = Some f" and g: "data_fn alt = Some g" and gf: "\<And>x k. g x k = f x (- k)"
    and e: "prv_decode_imm e = (if neg then - n else n)"
  shows "appends sar32 a a' (\<lambda>_. dest \<noteq> 15 \<and> Q) (\<lambda>vm. sets (as_reg_counter a) dest (f (vm_regs vm op1) n) vm)"
proof (cases neg)
  case True
  with assms(1) have "arm_section_add_instr (Data alt (data CC_AL False dest op1 (OP2_I32 e))) a = Inr (p, a')"
    by simp
  from add_data_imm_appends [OF this g e, of sar32] True have
    "appends sar32 a a' (\<lambda>_. dest \<noteq> 15) (\<lambda>vm. sets (as_reg_counter a) dest (f (vm_regs vm op1) n) vm)"
    by (simp add: gf)
  then show ?thesis
    by (rule appends_pre) simp
next
  case False
  with assms(1) have "arm_section_add_instr (Data itype (data CC_AL False dest op1 (OP2_I32 e))) a = Inr (p, a')"
    by simp
  from add_data_imm_appends [OF this f e, of sar32] False have
    "appends sar32 a a' (\<lambda>_. dest \<noteq> 15) (\<lambda>vm. sets (as_reg_counter a) dest (f (vm_regs vm op1) n) vm)"
    by simp
  then show ?thesis
    by (rule appends_pre) simp
qed

lemma addsub_imm_appends:
  assumes "arm_add_addsub_imm itype alt CC_AL False dest op1 n a = Inr (u, a')"
    and f: "data_fn itype = Some f" and g: "data_fn alt = Some g"
    and gf: "\<And>x k. g x k = f x (- k)" and ff: "\<And>x j k. f (f x j) k = f x (j + k)"
  shows "appends sar32 a a' (\<lambda>_. dest \<noteq> 15 \<and> in_use (as_reg_counter a) op1)
    (\<lambda>vm. sets (as_reg_counter a) dest (f (vm_regs vm op1) n) vm)"
proof (cases "encode_or_negated n")
  case (Some r)
  obtain e neg where r: "r = (e, neg)"
    by fastforce
  obtain p where "arm_section_add_instr (Data (if neg then alt else itype) (data CC_AL False dest op1 (OP2_I32 e))) a = Inr (p, a')"
    using assms(1) Some by (auto simp: arm_add_addsub_imm_def r sbind_eq_Inr sthen_def)
  moreover have "prv_decode_imm e = (if neg then - n else n)"
    using Some arm_encode_imm_SomeD by (auto simp: encode_or_negated_def r split: option.splits if_splits)
  ultimately show ?thesis
    by (rule add_imm_or_negated_appends [OF _ f g gf])
next
  case None
  consider l where "add_data_imm_ldr_datai itype CC_AL False dest op1 n a = Inr (l, a')"
    | e neg p where "encode_lvl2_or_negated n = Some ((e, 0), neg)"
      "arm_section_add_instr (Data (if neg then alt else itype) (data CC_AL False dest op1 (OP2_I32 e))) a = Inr (p, a')"
    | e e2 neg tmp b c p q where "encode_lvl2_or_negated n = Some ((e, e2), neg)"
      "arm_acquire_new_reg a = Inr (tmp, b)"
      "arm_section_add_instr (Data (if neg then alt else itype) (data CC_AL False tmp op1 (OP2_I32 e))) b = Inr (p, c)"
      "arm_section_dup_instr (\<lambda>_. Op_instr (Data (if neg then alt else itype) (data CC_AL False dest tmp (OP2_I32 e2)))) c = Inr (q, a')"
    using assms(1) None
    by (auto simp: arm_add_addsub_imm_def sbind_eq_Inr sthen_def Let_def split: option.splits if_splits)
  then show ?thesis
  proof cases
    case 1
    from data_via_ldr_appends [OF 1 f] show ?thesis .
  next
    case 2
    have "prv_decode_imm e = (if neg then - n else n)"
      using 2(1) arm_encode_lvl2_SomeD [of _ e 0]
      by (fastforce simp: encode_lvl2_or_negated_def prv_decode_imm_def split: option.splits if_splits)
    with 2(2) show ?thesis
      by (rule add_imm_or_negated_appends [OF _ f g gf])
  next
    case 3
    let ?h = "if neg then g else f" and ?t = "if neg then alt else itype"
    have h: "data_fn ?t = Some ?h"
      using f g by simp
    have sum: "prv_decode_imm e + prv_decode_imm e2 = (if neg then - n else n)"
      using 3(1) arm_encode_lvl2_SomeD [of _ e e2]
      by (auto simp: encode_lvl2_or_negated_def split: option.splits if_splits)
    have n: "(if neg then g else f) ((if neg then g else f) x (prv_decode_imm e)) (prv_decode_imm e2) = f x n" for x
    proof (cases neg)
      case True
      have "- prv_decode_imm e + - prv_decode_imm e2 = n"
        using sum True by (metis (full_types) minus_add_distrib minus_minus)
      with True show ?thesis
        by (simp only: gf ff if_True)
    qed (use sum in \<open>simp only: ff if_False\<close>)
    show ?thesis
      by (rule via_new_reg [OF 3(2) appends_pre [OF add_data_imm_appends [OF 3(3) h refl]] dup_data_imm_appends [OF 3(4) h]])
        (auto simp: keeps_reg n elim: keeps_sets)
  qed
qed


lemma rsub_imm_appends:
  assumes "arm_add_rsub_imm CC_AL False dest op1 n a = Inr (u, a')"
  shows "appends sar32 a a' (\<lambda>_. dest \<noteq> 15 \<and> in_use (as_reg_counter a) op1)
    (\<lambda>vm. sets (as_reg_counter a) dest (n - vm_regs vm op1) vm)"
proof -
  consider e p where "arm_encode_imm n = Some e"
      "arm_section_add_instr (Data INSTR_RSB (data CC_AL False dest op1 (OP2_I32 e))) a = Inr (p, a')"
    | e tmp b p c q where "arm_encode_imm (- n) = Some e" "arm_acquire_new_reg a = Inr (tmp, b)"
      "arm_section_add_instr (Data INSTR_RSB (data CC_AL False tmp op1 (OP2_I32 0))) b = Inr (p, c)"
      "arm_section_add_instr (Data INSTR_SUB (data CC_AL False dest tmp (OP2_I32 e))) c = Inr (q, a')"
    | l where "add_data_imm_ldr_datai INSTR_RSB CC_AL False dest op1 n a = Inr (l, a')"
    using assms by (auto simp: arm_add_rsub_imm_def sbind_eq_Inr sthen_def split: option.splits if_splits)
  then show ?thesis
  proof cases
    case 1
    show ?thesis
      by (rule appends_pre [OF add_data_imm_appends [OF 1(2) data_fn.simps(4)]])
        (simp_all add: arm_encode_imm_SomeD [OF 1(1)])
  next
    case 2
    have "prv_decode_imm 0 = 0"
      by (simp add: prv_decode_imm_def)
    note negate = add_data_imm_appends [OF 2(3) data_fn.simps(4) this]
    note subtract = add_data_imm_appends [OF 2(4) data_fn.simps(3) arm_encode_imm_SomeD [OF 2(1), THEN conjunct2]]
    show ?thesis
      by (rule via_new_reg [OF 2(2) appends_pre [OF negate] subtract]) (auto simp: keeps_reg elim: keeps_sets)
  next
    case 3
    from data_via_ldr_appends [OF 3 data_fn.simps(4)] show ?thesis .
  qed
qed

lemma data_imm_appends:
  assumes "arm_add_data_imm itype CC_AL False dest op1 n a = Inr (p, a')" and f: "data_fn itype = Some f"
  shows "appends sar32 a a' (\<lambda>_. dest \<noteq> 15 \<and> in_use (as_reg_counter a) op1)
    (\<lambda>vm. sets (as_reg_counter a) dest (f (vm_regs vm op1) n) vm)"
proof (cases "arm_encode_imm n")
  case None
  then obtain tmp b u c where acq: "arm_acquire_new_reg a = Inr (tmp, b)" and mov: "arm_add_mov_imm CC_AL False tmp n b = Inr (u, c)"
    and op: "arm_section_add_instr (Data itype (data CC_AL False dest op1 (OP2_REG tmp))) c = Inr (p, a')"
    using assms(1) by (auto simp: arm_add_data_imm_def sbind_eq_Inr sthen_def)
  show ?thesis
    by (rule via_new_reg [OF acq appends_pre [OF mov_imm_appends [OF mov, unfolded moves_AL]] add_data_reg_appends [OF op f]])
      (auto simp: keeps_reg elim: keeps_sets)
next
  case (Some e)
  with assms(1) have "arm_section_add_instr (Data itype (data CC_AL False dest op1 (OP2_I32 e))) a = Inr (p, a')"
    by (simp add: arm_add_data_imm_def)
  from add_data_imm_appends [OF this f arm_encode_imm_SomeD [OF Some, THEN conjunct2]] show ?thesis
    by (rule appends_pre) simp
qed

subsection \<open>Comparisons\<close>

lemma add_cmp_appends:
  assumes "arm_section_add_instr (Data INSTR_CMP (data CC_AL True 0 op1 op2)) a = Inr (p, a')"
    and "\<And>vm. prv_eval_op2 sar32 True op2 vm = Inr (b vm, vm)"
  shows "appends sar32 a a' (\<lambda>_. True) (\<lambda>vm. compared (as_reg_counter a) (vm_regs vm op1) (b vm) vm)"
  by (rule appends_op [OF assms(1) [unfolded arm_section_add_instr_def]])
    (use exec_cmp(1) [OF assms(2)] in \<open>simp add: run_op_instr\<close>)

lemma add_cmn_appends:
  assumes "arm_section_add_instr (Data INSTR_CMN (data CC_AL True 0 op1 op2)) a = Inr (p, a')"
    and "\<And>vm. prv_eval_op2 sar32 True op2 vm = Inr (b vm, vm)"
  shows "appends sar32 a a' (\<lambda>_. True) (\<lambda>vm. compared (as_reg_counter a) (vm_regs vm op1) (- b vm) vm)"
  by (rule appends_op [OF assms(1) [unfolded arm_section_add_instr_def]])
    (use exec_cmp(2) [OF assms(2)] in \<open>simp add: run_op_instr\<close>)

lemma cmp_appends:
  assumes "arm_add_cmp INSTR_CMP CC_AL op1 op2 a = Inr (p, a')"
  shows "appends sar32 a a' (\<lambda>_. True) (\<lambda>vm. compared (as_reg_counter a) (vm_regs vm op1) (vm_regs vm op2) vm)"
  using add_cmp_appends [OF assms [unfolded arm_add_cmp_def] eval_reg] .

lemma cmp_imm_appends:
  assumes "arm_add_cmp_imm INSTR_CMP CC_AL op1 n a = Inr (u, a')"
  shows "appends sar32 a a' (\<lambda>_. in_use (as_reg_counter a) op1)
    (\<lambda>vm. compared (as_reg_counter a) (vm_regs vm op1) n vm)"
proof -
  consider e p where "arm_encode_imm n = Some e"
      "arm_section_add_instr (Data INSTR_CMP (data CC_AL True 0 op1 (OP2_I32 e))) a = Inr (p, a')"
    | e p where "arm_encode_imm (- n) = Some e"
      "arm_section_add_instr (Data INSTR_CMN (data CC_AL True 0 op1 (OP2_I32 e))) a = Inr (p, a')"
    | l where "add_data_imm_ldr_datai INSTR_CMP CC_AL True 0 op1 n a = Inr (l, a')"
    using assms by (auto simp: arm_add_cmp_imm_def sbind_eq_Inr sthen_def split: option.splits)
  then show ?thesis
  proof cases
    case 1
    show ?thesis
      by (rule appends_pre [OF add_cmp_appends [OF 1(2) eval_imm [OF 1(1)]]]) simp
  next
    case 2
    from add_cmn_appends [OF 2(2) eval_imm [OF 2(1)]] have
      "appends sar32 a a' (\<lambda>_. True) (\<lambda>vm. compared (as_reg_counter a) (vm_regs vm op1) n vm)"
      by simp
    then show ?thesis
      by (rule appends_pre) simp
  next
    case 3
    then obtain tmp b c lb p where acq: "arm_acquire_new_reg a = Inr (tmp, b)"
      and ldr: "prv_add_data_imm_ldr CC_AL tmp n b = Inr (lb, c)"
      and op: "arm_section_add_instr (Data INSTR_CMP (data CC_AL True 0 op1 (OP2_REG tmp))) c = Inr (p, a')"
      by (auto simp: add_data_imm_ldr_datai_def sbind_eq_Inr sthen_def)
    show ?thesis
      by (rule via_new_reg [OF acq appends_pre [OF data_imm_ldr_appends [OF ldr, unfolded moves_AL]] add_cmp_appends [OF op eval_reg]])
        (auto simp: keeps_reg elim: keeps_compared)
  qed
qed

subsection \<open>Moves, multiplications and shifts\<close>

lemma movmvn_reg_appends:
  assumes "arm_add_movmvn_reg itype CC_AL False dest op2 a = Inr (p, a')" and "data_fn itype = Some f"
  shows "appends sar32 a a' (\<lambda>_. dest \<noteq> 15) (\<lambda>vm. sets (as_reg_counter a) dest (f (vm_regs vm 0) (vm_regs vm op2)) vm)"
  using add_data_reg_appends [OF assms(1) [unfolded arm_add_movmvn_reg_def] assms(2)] .

lemma add_mul_instr_appends:
  assumes "arm_section_add_instr (Mul INSTR_MUL (mul CC_AL False dest rm rs)) a = Inr (p, a')"
  shows "appends sar32 a a' (\<lambda>_. dest \<noteq> 15) (\<lambda>vm. sets (as_reg_counter a) dest (vm_regs vm rm * vm_regs vm rs) vm)"
  by (rule appends_op [OF assms [unfolded arm_section_add_instr_def]])
    (simp add: run_op_instr prv_process_mul_def mul_def conditionally_def)

lemma mul_appends:
  assumes "arm_add_mul CC_AL False dest rm rs a = Inr (p, a')"
  shows "appends sar32 a a' (\<lambda>_. dest \<noteq> 15) (\<lambda>vm. sets (as_reg_counter a) dest (vm_regs vm rm * vm_regs vm rs) vm)"
  using assms add_mul_instr_appends [of dest rs rm a p a' sar32] add_mul_instr_appends [of dest rm rs a p a' sar32]
  by (auto simp: arm_add_mul_def mult.commute split: if_splits)

lemma mul_imm_appends:
  assumes "arm_add_mul_imm CC_AL False dest rm n a = Inr (p, a')"
  shows "appends sar32 a a' (\<lambda>_. dest \<noteq> 15 \<and> in_use (as_reg_counter a) rm)
    (\<lambda>vm. sets (as_reg_counter a) dest (vm_regs vm rm * n) vm)"
proof -
  obtain tmp b u c where acq: "arm_acquire_new_reg a = Inr (tmp, b)" and mov: "arm_add_mov_imm CC_AL False tmp n b = Inr (u, c)"
    and op: "arm_section_add_instr (Mul INSTR_MUL (mul CC_AL False dest rm tmp)) c = Inr (p, a')"
    using assms(1) by (auto simp: arm_add_mul_imm_def sbind_eq_Inr sthen_def split: if_splits)
  show ?thesis
    by (rule via_new_reg [OF acq appends_pre [OF mov_imm_appends [OF mov, unfolded moves_AL]] add_mul_instr_appends [OF op]])
      (auto simp: keeps_reg elim: keeps_sets)
qed

text \<open>What a shift by \<open>n\<close> computes, for the numbers the simulator shifts by.\<close>

fun shift_fn :: "shift_type \<Rightarrow> nat \<Rightarrow> u32 \<Rightarrow> u32" where
  "shift_fn SHIFT_LSR n w = drop_bit n w"
| "shift_fn SHIFT_ASR n w = signed_drop_bit n w"
| "shift_fn _ n w = push_bit n w"

definition shift_amount_ok :: "shift_type \<Rightarrow> u32 \<Rightarrow> bool" where
  "shift_amount_ok kind k \<longleftrightarrow> k < 32 \<and> (kind = SHIFT_ASR \<longrightarrow> k \<noteq> 0)"

lemma signed_drop_bit_top: "bit (signed_drop_bit n (w :: u32) :: u32) 31 = bit w 31"
  by (cases n) (simp_all add: bit_signed_drop_bit_iff)

lemma signed_shift_mask:
  assumes "n < 32"
  shows "(if sint w < 0 \<and> sint (signed_drop_bit n w :: u32) < 0 then signed_drop_bit n w AND drop_bit n 0xffffffff
      else signed_drop_bit n w) = drop_bit n w"
proof -
  have m: "(0xffffffff :: u32) = mask 32"
    by (simp add: mask_eq_exp_minus_1)
  show ?thesis
    using assms signed_drop_bit_top [of n w]
    by (auto simp: negative_bit m u32_eq_iff_bits bit_simps min_def dest: bit_imp_le_length)
qed

lemma signed_shift_sign: "sint (w :: u32) < 0 \<Longrightarrow> \<not> 0 < sint (signed_drop_bit n w :: u32)"
  using negative_bit [of w] negative_bit [of "signed_drop_bit n w"] signed_drop_bit_top [of n w] by simp

lemma eval_shift_small:
  assumes "shift_amount_ok kind k" and "kind \<in> {SHIFT_LSL, SHIFT_LSR, SHIFT_ASR}" and "shift_value vm sh = sint k" and "shift_kind sh = kind"
  shows "eval_shift sar32 vm sh = Inr (shift_fn kind (unat k) (vm_regs vm (shift_of_reg sh)))"
proof -
  have "uint k < 32"
    using assms(1) by (auto simp: shift_amount_ok_def word_less_def)
  moreover have "unat k < 32"
    using assms(1) by (auto simp: shift_amount_ok_def word_less_nat_alt)
  ultimately obtain n where n: "unat k = n" "sint k = int n" "n < 32"
    by (auto simp: sint_u32)
  have asr: "kind = SHIFT_ASR \<Longrightarrow> n \<noteq> 0"
    using assms(1) n(1) unat_eq_zero [of k] by (simp add: shift_amount_ok_def)
  let ?w = "vm_regs vm (shift_of_reg sh)"
  from assms(2) consider "kind = SHIFT_LSL" | "kind = SHIFT_LSR" | "kind = SHIFT_ASR"
    by auto
  then show ?thesis
  proof cases
    case 3
    with asr n assms(3,4) signed_shift_sign [of ?w n] show ?thesis
      by (auto simp: eval_shift_def Let_def ensure_def)
  qed (use n assms(3,4) signed_shift_mask [OF n(3), of ?w] in
      \<open>auto simp: eval_shift_def Let_def ensure_def split: if_split_asm\<close>)
qed

lemma add_shift_appends:
  assumes "arm_section_add_instr (Data INSTR_MOV (data CC_AL False dest 0
      (OP2_SHIFTED \<lparr>shift_of_reg = op1, shift_kind = kind, shift_by = by'\<rparr>))) a = Inr (p, a')"
    and "kind \<in> {SHIFT_LSL, SHIFT_LSR, SHIFT_ASR}"
    and "\<And>vm. k vm = (case by' of Shift_reg r \<Rightarrow> vm_regs vm r | Shift_integer i \<Rightarrow> i)"
  shows "appends sar32 a a' (\<lambda>vm. dest \<noteq> 15 \<and> shift_amount_ok kind (k vm))
    (\<lambda>vm. sets (as_reg_counter a) dest (shift_fn kind (unat (k vm)) (vm_regs vm op1)) vm)"
proof -
  let ?sh = "\<lparr>shift_of_reg = op1, shift_kind = kind, shift_by = by'\<rparr>"
  have "prv_eval_op2 sar32 False (OP2_SHIFTED ?sh) vm = Inr (shift_fn kind (unat (k vm)) (vm_regs vm op1), vm)"
    if "shift_amount_ok kind (k vm)" for vm
  proof -
    have "\<not> 32 < sint (k vm)"
      using that by (auto simp: shift_amount_ok_def sint_u32 word_less_def)
    then have "shift_value vm ?sh = sint (k vm)"
      by (auto simp: shift_value_def assms(3) split: shift_amount.splits)
    from eval_shift_small [OF that assms(2) this] assms(2) show ?thesis
      by (simp add: prv_eval_op2_def)
  qed
  then show ?thesis
    by (intro appends_mono [OF add_data_appends [OF assms(1) data_fn.simps(7),
          of "\<lambda>vm. dest \<noteq> 15 \<and> shift_amount_ok kind (k vm)" sar32 "\<lambda>vm. shift_fn kind (unat (k vm)) (vm_regs vm op1)"]]) auto
qed

end
