(* ===== verification/Arm_Gen_Laws.thy ===== *)
theory Arm_Gen_Laws
  imports Arm_Rules_Laws Arm_Emit Ir_Vm
begin

text \<open>
  The instructions that are selected for integer operations do what the interpreter does: from a state
  of the ARM machine whose registers hold those of the interpreter, the code that was appended
  runs to one whose registers hold the interpreter's result.
\<close>

section \<open>The states of the two machines\<close>

text \<open>
  Register 0 of the intermediate representation is none: it would share its machine register with
  the global pointer.
\<close>

definition agree :: "ir_vm \<Rightarrow> arm_vm \<Rightarrow> bool" where
  "agree iv vm \<longleftrightarrow> (\<forall>r. 0 < r \<longrightarrow> r < length (iv_regs iv) \<longrightarrow> vm_regs vm (arm_ir_to_arm_reg r) = iv_regs iv ! r)"

lemma arm_reg_cases: "0 < r \<Longrightarrow> r < 2 ^ 33 \<Longrightarrow>
    unat (arm_ir_to_arm_reg r) = (if r = 1 then 12 else if r = 2 then 11 else if r = 3 then 13 else r + 12)"
proof -
  assume r: "0 < r" "r < 2 ^ 33"
  show ?thesis
  proof (cases "r < 4")
    case True
    then have "r = 1 \<or> r = 2 \<or> r = 3"
      using r(1) by auto
    then show ?thesis
      by (auto simp: arm_ir_to_arm_reg_def)
  next
    case False
    then have "arm_ir_to_arm_reg r = of_nat (r + 12)"
      by (simp add: arm_ir_to_arm_reg_def SUBTILIS_IR_REG_TEMP_START_def SUBTILIS_ARM_INT_VIRT_REG_START_def)
    moreover have "unat (of_nat (r + 12) :: u64) = r + 12"
      using r(2) by (simp add: unsigned_of_nat take_bit_eq_mod del: of_nat_add)
    ultimately show ?thesis
      using False by simp
  qed
qed

lemma arm_reg_in_use:
  assumes "0 < r" and "r < n" and "4 \<le> n" and "n \<le> 2 ^ 32"
  shows "in_use n (arm_ir_to_arm_reg r)" and "arm_ir_to_arm_reg r \<noteq> 15"
proof -
  have u: "unat (arm_ir_to_arm_reg r) = (if r = 1 then 12 else if r = 2 then 11 else if r = 3 then 13 else r + 12)"
    using assms by (intro arm_reg_cases) auto
  then show "arm_ir_to_arm_reg r \<noteq> 15"
    by (auto split: if_splits)
  with u assms show "in_use n (arm_ir_to_arm_reg r)"
    by (auto simp: in_use_def)
qed

lemma arm_reg_inj:
  assumes "arm_ir_to_arm_reg r = arm_ir_to_arm_reg q" and "0 < r" and "r < 2 ^ 33" and "0 < q" and "q < 2 ^ 33"
  shows "r = q"
proof -
  have "unat (arm_ir_to_arm_reg r) = unat (arm_ir_to_arm_reg q)"
    using assms(1) by simp
  with arm_reg_cases [OF assms(2,3)] arm_reg_cases [OF assms(4,5)] assms(2,4) show ?thesis
    by (auto split: if_splits)
qed

text \<open>The register that holds the result, and nothing else that is in use, has changed; flags may have.\<close>

definition yields :: "nat \<Rightarrow> arm_reg \<Rightarrow> u32 \<Rightarrow> arm_vm \<Rightarrow> arm_vm \<Rightarrow> bool" where
  "yields n dest v vm vm' \<longleftrightarrow> vm_regs vm' dest = v \<and> vm_memory vm' = vm_memory vm
     \<and> (\<forall>r. in_use n r \<longrightarrow> r \<noteq> dest \<longrightarrow> vm_regs vm' r = vm_regs vm r)"

lemma sets_yields: "sets n dest v vm vm' \<Longrightarrow> yields n dest v vm vm'"
  by (simp add: sets_def yields_def)

lemma yields_agree:
  assumes "yields n (arm_ir_to_arm_reg d) v vm vm'" and "agree iv vm" and "set_reg_at d v iv = Inr iv'"
    and "length (iv_regs iv) \<le> n" and "4 \<le> n" and "n \<le> 2 ^ 32" and "0 < d"
  shows "agree iv' vm'"
proof -
  have d: "d < length (iv_regs iv)" and iv': "iv' = iv\<lparr>iv_regs := (iv_regs iv)[d := v]\<rparr>"
    using assms(3) by (auto simp: set_reg_at_def rbind_eq_Inr array_set_eq_Inr)
  show ?thesis
    unfolding agree_def
  proof (intro allI impI)
    fix r
    assume r: "0 < r" "r < length (iv_regs iv')"
    then have lt: "r < length (iv_regs iv)"
      by (simp add: iv')
    show "vm_regs vm' (arm_ir_to_arm_reg r) = iv_regs iv' ! r"
    proof (cases "r = d")
      case True
      with assms(1) d show ?thesis
        by (simp add: yields_def iv')
    next
      case False
      have "arm_ir_to_arm_reg r \<noteq> arm_ir_to_arm_reg d"
        using False arm_reg_inj [of r d] r(1) lt d assms(4,6,7) by auto
      moreover have "in_use n (arm_ir_to_arm_reg r)"
        using arm_reg_in_use(1) [of r n] r(1) lt assms(4-6) by simp
      ultimately show ?thesis
        using assms(1,2) r lt False by (simp add: yields_def agree_def iv')
    qed
  qed
qed

section \<open>Simulation\<close>

text \<open>The operands that are registers.\<close>

definition register_operands_ok :: "ir_operand_class list \<Rightarrow> ir_inst \<Rightarrow> bool" where
  "register_operands_ok classes instr \<longleftrightarrow> (\<forall>i < length classes. classes ! i = OPERAND_REGISTER \<longrightarrow>
     (\<forall>op. operand instr i = Inr op \<longrightarrow> 0 < op_reg op \<and> op_reg op < 2 ^ 31))"

definition simulates ::
    "(u32 \<Rightarrow> u32) \<Rightarrow> arm_gen \<Rightarrow> ir_operand_class list \<Rightarrow> (ir_inst \<Rightarrow> ir_vm \<Rightarrow> bool) \<Rightarrow> (ir_inst \<Rightarrow> ir_vm \<Rightarrow> ir_vm c_result) \<Rightarrow> bool" where
  "simulates sar32 gen classes ok exec \<longleftrightarrow>
     (\<forall>s start instr a u a' iv iv'. ir_inst_at s start = Inr instr \<longrightarrow> gen s start a = Inr (u, a')
       \<longrightarrow> register_operands_ok classes instr \<longrightarrow> ok instr iv \<longrightarrow> exec instr iv = Inr iv'
       \<longrightarrow> length (iv_regs iv) \<le> as_reg_counter a \<longrightarrow> appends sar32 a a' (agree iv) (\<lambda>_. agree iv'))"

abbreviation "R3 \<equiv> [OPERAND_REGISTER, OPERAND_REGISTER, OPERAND_REGISTER]"
abbreviation "R2I \<equiv> [OPERAND_REGISTER, OPERAND_REGISTER, OPERAND_I32]"
abbreviation "R2 \<equiv> [OPERAND_REGISTER, OPERAND_REGISTER]"
abbreviation "RI \<equiv> [OPERAND_REGISTER, OPERAND_I32]"

text \<open>A register operand of the interpreter and what the ARM machine has in its register.\<close>

lemma read_register:
  assumes "register_operands_ok classes instr" and "i < length classes" and "classes ! i = OPERAND_REGISTER"
    and "operand instr i = Inr op"
  shows "src_int_reg instr i iv = src_reg instr i iv" and "0 < op_reg op"
    and "src_reg instr i iv = Inr v \<Longrightarrow> op_reg op < length (iv_regs iv) \<and> v = iv_regs iv ! op_reg op"
proof -
  have op: "0 < op_reg op" "op_reg op < 2 ^ 31"
    using assms by (auto simp: register_operands_ok_def)
  have u: "uint op = int (op_reg op)"
    by (simp add: op_reg_def)
  with op(2) have "uint (op_integer op) = uint op" and "uint op < 2147483648"
    by (simp_all add: op_integer_def unsigned_ucast_eq take_bit_eq_mod)
  with u have "sint (op_integer op) = int (op_reg op)"
    by (simp add: sint_u32)
  then show "src_int_reg instr i iv = src_reg instr i iv"
    by (simp add: src_int_reg_def src_reg_def assms(4) array_at_def reg_at_def)
  show "0 < op_reg op"
    by (rule op(1))
  show "src_reg instr i iv = Inr v \<Longrightarrow> op_reg op < length (iv_regs iv) \<and> v = iv_regs iv ! op_reg op"
    by (auto simp: src_reg_def assms(4) reg_at_def array_get_eq_Inr)
qed

lemma agree_reg: "agree iv vm \<Longrightarrow> 0 < r \<Longrightarrow> r < length (iv_regs iv) \<Longrightarrow> vm_regs vm (arm_ir_to_arm_reg r) = iv_regs iv ! r"
  by (simp add: agree_def)


lemma int_op_Inr:
  assumes "int_op k src1 src2 instr iv = Inr iv'" and "operand instr 0 = Inr d"
  obtains x y v where "src1 instr 1 iv = Inr x" and "src2 instr 2 iv = Inr y" and "k x y = Inr v"
    and "set_reg_at (op_reg d) v iv = Inr iv'"
  using assms by (auto simp: int_op_def rbind_eq_Inr put_reg_def)

text \<open>The two families of instructions with two sources.\<close>

abbreviation arm_reg_of :: "ir_operand \<Rightarrow> arm_reg" where
  "arm_reg_of op \<equiv> arm_ir_to_arm_reg (op_reg op)"

lemma simulates_imm:
  assumes gen: "\<And>s start instr a u a'. ir_inst_at s start = Inr instr \<Longrightarrow> gen s start a = Inr (u, a') \<Longrightarrow>
      \<exists>d o1 o2. operand instr 0 = Inr d \<and> operand instr 1 = Inr o1 \<and> operand instr 2 = Inr o2
        \<and> appends sar32 a a' (\<lambda>vm. arm_reg_of d \<noteq> 15 \<and> in_use (as_reg_counter a) (arm_reg_of o1) \<and> Q (op_integer o2))
            (\<lambda>vm. yields (as_reg_counter a) (arm_reg_of d) (f (vm_regs vm (arm_reg_of o1)) (op_integer o2)) vm)"
    and k: "\<And>x n v. Q n \<Longrightarrow> k x n = Inr v \<Longrightarrow> v = f x n"
    and ok: "\<And>instr iv n. ok instr iv \<Longrightarrow> src_imm instr 2 iv = Inr n \<Longrightarrow> Q n"
  shows "simulates sar32 gen R2I ok (int_op k src_reg src_imm)"
  unfolding simulates_def
proof (intro allI impI)
  fix s start instr a u a' iv iv'
  assume at: "ir_inst_at s start = Inr instr" "gen s start a = Inr (u, a')" and regs: "register_operands_ok R2I instr"
    and pre: "ok instr iv" and run: "int_op k src_reg src_imm instr iv = Inr iv'" and len: "length (iv_regs iv) \<le> as_reg_counter a"
  from gen [OF at] obtain d o1 o2 where ops: "operand instr 0 = Inr d" "operand instr 1 = Inr o1" "operand instr 2 = Inr o2"
    and app: "appends sar32 a a' (\<lambda>vm. arm_reg_of d \<noteq> 15 \<and> in_use (as_reg_counter a) (arm_reg_of o1) \<and> Q (op_integer o2))
            (\<lambda>vm. yields (as_reg_counter a) (arm_reg_of d) (f (vm_regs vm (arm_reg_of o1)) (op_integer o2)) vm)"
    by blast
  from int_op_Inr [OF run ops(1)] obtain x y v where x: "src_reg instr 1 iv = Inr x" and y: "src_imm instr 2 iv = Inr y"
    and v: "k x y = Inr v" and set: "set_reg_at (op_reg d) v iv = Inr iv'"
    by blast
  have y': "y = op_integer o2" "Q y"
    using y ok [OF pre y] by (simp_all add: src_imm_def ops)
  note d = read_register(2) [OF regs _ _ ops(1), simplified]
  note o1 = read_register(2,3) [OF regs _ _ ops(2), simplified, folded One_nat_def]
  have dl: "op_reg d < length (iv_regs iv)"
    using set by (auto simp: set_reg_at_def rbind_eq_Inr array_set_eq_Inr)
  show "appends sar32 a a' (agree iv) (\<lambda>_. agree iv')"
  proof (rule appends_weaken [OF app])
    fix vm
    assume n: "4 \<le> as_reg_counter a" "as_reg_counter a \<le> 2 ^ 32"
    show "arm_reg_of d \<noteq> 15 \<and> in_use (as_reg_counter a) (arm_reg_of o1) \<and> Q (op_integer o2)"
      using arm_reg_in_use [OF d _ n] arm_reg_in_use [OF o1(1) _ n] dl o1(2) [OF x] len y' by auto
  next
    fix vm vm'
    assume n: "4 \<le> as_reg_counter a" "as_reg_counter a \<le> 2 ^ 32" and ag: "agree iv vm"
      and yields: "yields (as_reg_counter a) (arm_reg_of d) (f (vm_regs vm (arm_reg_of o1)) (op_integer o2)) vm vm'"
    have "f (vm_regs vm (arm_reg_of o1)) (op_integer o2) = v"
      using agree_reg [OF ag o1(1)] o1(2) [OF x] k [OF y'(2) v] y'(1) by simp
    with yields yields_agree [OF _ ag set len n d] show "agree iv' vm'"
      by simp
  qed
qed

lemma simulates_reg:
  assumes gen: "\<And>s start instr a u a'. ir_inst_at s start = Inr instr \<Longrightarrow> gen s start a = Inr (u, a') \<Longrightarrow>
      \<exists>d o1 o2. operand instr 0 = Inr d \<and> operand instr 1 = Inr o1 \<and> operand instr 2 = Inr o2
        \<and> appends sar32 a a' (\<lambda>vm. arm_reg_of d \<noteq> 15 \<and> Q (vm_regs vm (arm_reg_of o2)))
            (\<lambda>vm. yields (as_reg_counter a) (arm_reg_of d) (f (vm_regs vm (arm_reg_of o1)) (vm_regs vm (arm_reg_of o2))) vm)"
    and k: "\<And>x n v. Q n \<Longrightarrow> k x n = Inr v \<Longrightarrow> v = f x n"
    and ok: "\<And>instr iv n. ok instr iv \<Longrightarrow> src_reg instr 2 iv = Inr n \<Longrightarrow> Q n"
    and src: "src = src_reg \<or> src = src_int_reg"
  shows "simulates sar32 gen R3 ok (int_op k src src)"
  unfolding simulates_def
proof (intro allI impI)
  fix s start instr a u a' iv iv'
  assume at: "ir_inst_at s start = Inr instr" "gen s start a = Inr (u, a')" and regs: "register_operands_ok R3 instr"
    and pre: "ok instr iv" and run: "int_op k src src instr iv = Inr iv'" and len: "length (iv_regs iv) \<le> as_reg_counter a"
  from gen [OF at] obtain d o1 o2 where ops: "operand instr 0 = Inr d" "operand instr 1 = Inr o1" "operand instr 2 = Inr o2"
    and app: "appends sar32 a a' (\<lambda>vm. arm_reg_of d \<noteq> 15 \<and> Q (vm_regs vm (arm_reg_of o2)))
            (\<lambda>vm. yields (as_reg_counter a) (arm_reg_of d) (f (vm_regs vm (arm_reg_of o1)) (vm_regs vm (arm_reg_of o2))) vm)"
    by blast
  note d = read_register(2) [OF regs _ _ ops(1), simplified]
  note o1 = read_register [OF regs _ _ ops(2), simplified, folded One_nat_def]
  note o2 = read_register [OF regs _ _ ops(3), simplified]
  from int_op_Inr [OF run ops(1)] src o1(1) o2(1) obtain x y v where x: "src_reg instr 1 iv = Inr x" and y: "src_reg instr 2 iv = Inr y"
    and v: "k x y = Inr v" and set: "set_reg_at (op_reg d) v iv = Inr iv'"
    by metis
  have dl: "op_reg d < length (iv_regs iv)"
    using set by (auto simp: set_reg_at_def rbind_eq_Inr array_set_eq_Inr)
  have vals: "vm_regs vm (arm_reg_of o1) = x" "vm_regs vm (arm_reg_of o2) = y" if "agree iv vm" for vm
    using agree_reg [OF that o1(2)] agree_reg [OF that o2(2)] o1(3) x o2(3) y by auto
  show "appends sar32 a a' (agree iv) (\<lambda>_. agree iv')"
  proof (rule appends_weaken [OF app])
    fix vm
    assume n: "4 \<le> as_reg_counter a" "as_reg_counter a \<le> 2 ^ 32" and "agree iv vm"
    with vals ok [OF pre y] show "arm_reg_of d \<noteq> 15 \<and> Q (vm_regs vm (arm_reg_of o2))"
      using arm_reg_in_use(2) [OF d _ n] dl len by auto
  next
    fix vm vm'
    assume n: "4 \<le> as_reg_counter a" "as_reg_counter a \<le> 2 ^ 32" and ag: "agree iv vm"
      and yields: "yields (as_reg_counter a) (arm_reg_of d) (f (vm_regs vm (arm_reg_of o1)) (vm_regs vm (arm_reg_of o2))) vm vm'"
    have "f (vm_regs vm (arm_reg_of o1)) (vm_regs vm (arm_reg_of o2)) = v"
      using vals [OF ag] k [OF ok [OF pre y] v] by simp
    with yields yields_agree [OF _ ag set len n d] show "agree iv' vm'"
      by simp
  qed
qed


section \<open>The generators\<close>

lemma reading_eq_Inr: "reading r f a = Inr x \<longleftrightarrow> (\<exists>y. r = Inr y \<and> f y a = Inr x)"
  by (auto simp: reading_def rbind_eq_Inr)

lemma ignore_eq_Inr: "ignore m a = Inr (u, a') \<longleftrightarrow> (\<exists>x. m a = Inr (x, a'))"
  by (auto simp: ignore_def sthen_def sbind_eq_Inr)

lemma arm_reg_operand_eq_Inr: "arm_reg_operand instr i = Inr r \<longleftrightarrow> (\<exists>op. operand instr i = Inr op \<and> r = arm_reg_of op)"
  by (auto simp: arm_reg_operand_def rbind_eq_Inr)

lemma integer_operand_eq_Inr: "integer_operand instr i = Inr n \<longleftrightarrow> (\<exists>op. operand instr i = Inr op \<and> n = op_integer op)"
  by (auto simp: integer_operand_def rbind_eq_Inr)

lemmas generator_simps = reading_eq_Inr ignore_eq_Inr arm_reg_operand_eq_Inr integer_operand_eq_Inr
  sthen_def sbind_eq_Inr

abbreviation always :: "ir_inst \<Rightarrow> ir_vm \<Rightarrow> bool" where
  "always \<equiv> \<lambda>_ _. True"

lemma with_imm_simulates:
  assumes g: "\<And>dest op1 n a u a'. g dest op1 n a = Inr (u, a') \<Longrightarrow>
      appends sar32 a a' (\<lambda>_. dest \<noteq> 15 \<and> in_use (as_reg_counter a) op1) (\<lambda>vm. sets (as_reg_counter a) dest (f (vm_regs vm op1) n) vm)"
    and k: "\<And>x n v. k x n = Inr v \<Longrightarrow> v = f x n"
  shows "simulates sar32 (with_imm g) R2I always (int_op k src_reg src_imm)"
proof (rule simulates_imm [where Q = "\<lambda>_. True"])
  fix s start instr a u a'
  assume "ir_inst_at s start = Inr instr" and "with_imm g s start a = Inr (u, a')"
  then obtain d o1 o2 where ops: "operand instr 0 = Inr d" "operand instr 1 = Inr o1" "operand instr 2 = Inr o2"
    and app: "g (arm_reg_of d) (arm_reg_of o1) (op_integer o2) a = Inr (u, a')"
    by (auto simp: with_imm_def generator_simps)
  have "appends sar32 a a' (\<lambda>_. arm_reg_of d \<noteq> 15 \<and> in_use (as_reg_counter a) (arm_reg_of o1) \<and> True)
      (\<lambda>vm. yields (as_reg_counter a) (arm_reg_of d) (f (vm_regs vm (arm_reg_of o1)) (op_integer o2)) vm)"
    by (rule appends_mono [OF g [OF app]]) (auto intro: sets_yields)
  with ops show "\<exists>d o1 o2. operand instr 0 = Inr d \<and> operand instr 1 = Inr o1 \<and> operand instr 2 = Inr o2
      \<and> appends sar32 a a' (\<lambda>_. arm_reg_of d \<noteq> 15 \<and> in_use (as_reg_counter a) (arm_reg_of o1) \<and> True)
      (\<lambda>vm. yields (as_reg_counter a) (arm_reg_of d) (f (vm_regs vm (arm_reg_of o1)) (op_integer o2)) vm)"
    by blast
qed (use k in auto)

lemma i32_Inr: "i32 k = Inr v \<Longrightarrow> v = word_of_int k"
  by (simp add: i32_def split: if_splits)

lemma sint_wraps: "word_of_int (sint a + sint b) = (a + b :: u32)" "word_of_int (sint a - sint b) = (a - b :: u32)"
  "word_of_int (sint a * sint b) = (a * b :: u32)"
  by (simp_all add: wi_hom_syms)

lemma addii32_simulates: "simulates sar32 subtilis_arm_gen_addii32 R2I always prv_addii32"
  unfolding subtilis_arm_gen_addii32_def prv_addii32_def arm_add_add_imm_def
  by (rule with_imm_simulates [OF addsub_imm_appends [OF _ data_fn.simps(5,3)]]) (auto simp: sint_wraps dest!: i32_Inr)

lemma subii32_simulates: "simulates sar32 subtilis_arm_gen_subii32 R2I always prv_subii32"
  unfolding subtilis_arm_gen_subii32_def prv_subii32_def arm_add_sub_imm_def
  by (rule with_imm_simulates [OF addsub_imm_appends [OF _ data_fn.simps(3,5)]]) (auto simp: sint_wraps dest!: i32_Inr)

lemma rsubii32_simulates: "simulates sar32 subtilis_arm_gen_rsubii32 R2I always prv_rsubii32"
  unfolding subtilis_arm_gen_rsubii32_def prv_rsubii32_def
  by (rule with_imm_simulates [where f = "\<lambda>x n. n - x", OF rsub_imm_appends]) (auto simp: sint_wraps dest!: i32_Inr)

lemma mulii32_simulates: "simulates sar32 subtilis_arm_gen_mulii32 R2I always prv_mulii32"
  unfolding subtilis_arm_gen_mulii32_def prv_mulii32_def
  by (rule with_imm_simulates [where f = "(*)"]) (auto simp: ignore_eq_Inr sint_wraps intro: mul_imm_appends dest!: i32_Inr)

lemma data_imm_simulates:
  assumes "data_fn itype = Some f"
  shows "simulates sar32 (prv_data_imm itype CC_AL False) R2I always (int_op (\<lambda>a b. Inr (f a b)) src_reg src_imm)"
  unfolding prv_data_imm_def
  by (rule with_imm_simulates [where f = f]) (auto simp: ignore_eq_Inr intro: data_imm_appends [OF _ assms])

lemma logic_imm_simulates:
  "simulates sar32 subtilis_arm_gen_andii32 R2I always prv_andii32"
  "simulates sar32 subtilis_arm_gen_orii32 R2I always prv_orii32"
  "simulates sar32 subtilis_arm_gen_eorii32 R2I always prv_eorii32"
  unfolding subtilis_arm_gen_andii32_def prv_andii32_def subtilis_arm_gen_orii32_def prv_orii32_def
    subtilis_arm_gen_eorii32_def prv_eorii32_def
  by (rule data_imm_simulates; simp)+

lemma data_simple_simulates:
  assumes f: "data_fn itype = Some f" and k: "\<And>x n v. k x n = Inr v \<Longrightarrow> v = f x n" and src: "src = src_reg \<or> src = src_int_reg"
  shows "simulates sar32 (prv_data_simple itype CC_AL) R3 always (int_op k src src)"
proof (rule simulates_reg [where Q = "\<lambda>_. True", OF _ _ _ src])
  fix s start instr a u a'
  assume "ir_inst_at s start = Inr instr" and "prv_data_simple itype CC_AL s start a = Inr (u, a')"
  then obtain d o1 o2 p where ops: "operand instr 0 = Inr d" "operand instr 1 = Inr o1" "operand instr 2 = Inr o2"
    and app: "arm_section_add_instr (Data itype (data CC_AL False (arm_reg_of d) (arm_reg_of o1) (OP2_REG (arm_reg_of o2)))) a = Inr (p, a')"
    by (auto simp: prv_data_simple_def generator_simps)
  have "appends sar32 a a' (\<lambda>_. arm_reg_of d \<noteq> 15 \<and> True)
      (\<lambda>vm. yields (as_reg_counter a) (arm_reg_of d) (f (vm_regs vm (arm_reg_of o1)) (vm_regs vm (arm_reg_of o2))) vm)"
    by (rule appends_mono [OF add_data_reg_appends [OF app f]]) (auto intro: sets_yields)
  with ops show "\<exists>d o1 o2. operand instr 0 = Inr d \<and> operand instr 1 = Inr o1 \<and> operand instr 2 = Inr o2
      \<and> appends sar32 a a' (\<lambda>_. arm_reg_of d \<noteq> 15 \<and> True)
      (\<lambda>vm. yields (as_reg_counter a) (arm_reg_of d) (f (vm_regs vm (arm_reg_of o1)) (vm_regs vm (arm_reg_of o2))) vm)"
    by blast
qed (use k in auto)

lemma data_reg_simulates:
  "simulates sar32 subtilis_arm_gen_addi32 R3 always prv_addi32"
  "simulates sar32 subtilis_arm_gen_subi32 R3 always prv_subi32"
  "simulates sar32 subtilis_arm_gen_andi32 R3 always prv_andi32"
  "simulates sar32 subtilis_arm_gen_ori32 R3 always prv_ori32"
  "simulates sar32 subtilis_arm_gen_eori32 R3 always prv_eori32"
  unfolding subtilis_arm_gen_addi32_def prv_addi32_def subtilis_arm_gen_subi32_def prv_subi32_def
    subtilis_arm_gen_andi32_def prv_andi32_def subtilis_arm_gen_ori32_def prv_ori32_def
    subtilis_arm_gen_eori32_def prv_eori32_def
  by (rule data_simple_simulates; auto simp: sint_wraps dest!: i32_Inr)+

lemma muli32_simulates: "simulates sar32 subtilis_arm_gen_muli32 R3 always prv_muli32"
  unfolding prv_muli32_def
proof (rule simulates_reg [where Q = "\<lambda>_. True" and f = "(*)"])
  fix s start instr a u a'
  assume "ir_inst_at s start = Inr instr" and "subtilis_arm_gen_muli32 s start a = Inr (u, a')"
  then obtain d o1 o2 p where ops: "operand instr 0 = Inr d" "operand instr 1 = Inr o1" "operand instr 2 = Inr o2"
    and app: "arm_add_mul CC_AL False (arm_reg_of d) (arm_reg_of o1) (arm_reg_of o2) a = Inr (p, a')"
    by (auto simp: subtilis_arm_gen_muli32_def generator_simps)
  have "appends sar32 a a' (\<lambda>_. arm_reg_of d \<noteq> 15 \<and> True)
      (\<lambda>vm. yields (as_reg_counter a) (arm_reg_of d) (vm_regs vm (arm_reg_of o1) * vm_regs vm (arm_reg_of o2)) vm)"
    by (rule appends_mono [OF mul_appends [OF app]]) (auto intro: sets_yields)
  with ops show "\<exists>d o1 o2. operand instr 0 = Inr d \<and> operand instr 1 = Inr o1 \<and> operand instr 2 = Inr o2
      \<and> appends sar32 a a' (\<lambda>_. arm_reg_of d \<noteq> 15 \<and> True)
      (\<lambda>vm. yields (as_reg_counter a) (arm_reg_of d) (vm_regs vm (arm_reg_of o1) * vm_regs vm (arm_reg_of o2)) vm)"
    by blast
qed (auto simp: sint_wraps dest!: i32_Inr)


subsection \<open>Comparisons\<close>

lemma flag_moves_append:
  assumes cmp: "appends sar32 a b P (\<lambda>vm. compared (as_reg_counter a) (x vm) (y vm) vm)"
    and ok: "arm_add_mov_imm ok False dest (- 1) b = Inr (u, c)" and nok: "arm_add_mov_imm nok False dest 0 c = Inr (v, d)"
    and conds: "\<And>p q. compares nok p q \<longleftrightarrow> \<not> compares ok p q"
  shows "appends sar32 a d (\<lambda>vm. P vm \<and> dest \<noteq> 15)
    (\<lambda>vm. yields (as_reg_counter a) dest (truth (compares ok (x vm) (y vm))) vm)"
proof -
  have "appends sar32 a c (\<lambda>vm. P vm \<and> dest \<noteq> 15) (\<lambda>vm vm2. \<exists>vm1. compared (as_reg_counter a) (x vm) (y vm) vm vm1
      \<and> moves (as_reg_counter b) ok dest (- 1) vm1 vm2 \<and> as_reg_counter a \<le> as_reg_counter b)"
    by (rule appends_trans [OF appends_pre [OF cmp] mov_imm_appends [OF ok]]) auto
  then show ?thesis
  proof (rule appends_trans [OF _ mov_imm_appends [OF nok]])
    fix vm vm2 vm3
    assume le: "as_reg_counter a \<le> as_reg_counter c"
      and "\<exists>vm1. compared (as_reg_counter a) (x vm) (y vm) vm vm1
        \<and> moves (as_reg_counter b) ok dest (- 1) vm1 vm2 \<and> as_reg_counter a \<le> as_reg_counter b"
      and 3: "moves (as_reg_counter c) nok dest 0 vm2 vm3"
    then obtain vm1 where 1: "compared (as_reg_counter a) (x vm) (y vm) vm vm1"
      and 2: "moves (as_reg_counter b) ok dest (- 1) vm1 vm2" and "as_reg_counter a \<le> as_reg_counter b"
      by blast
    from 2 have 2: "moves (as_reg_counter a) ok dest (- 1) vm1 vm2"
      using sets_mono [OF _ \<open>as_reg_counter a \<le> as_reg_counter b\<close>] by (simp add: moves_def)
    from 3 have 3: "moves (as_reg_counter a) nok dest 0 vm2 vm3"
      using sets_mono [OF _ le] by (simp add: moves_def)
    from 1 2 3 show "yields (as_reg_counter a) dest (truth (compares ok (x vm) (y vm))) vm vm3"
      by (auto simp: compared_def moves_def sets_def yields_def conds truth_def)
  qed auto
qed

lemma cmp_imm_simulates:
  assumes "\<And>p q. compares nok p q \<longleftrightarrow> \<not> compares ok p q"
  shows "simulates sar32 (prv_cmp_imm ok nok) R2I always (int_op (\<lambda>p q. Inr (truth (compares ok p q))) src_reg src_imm)"
proof (rule simulates_imm [where Q = "\<lambda>_. True" and f = "\<lambda>p q. truth (compares ok p q)"])
  fix s start instr a u a'
  assume "ir_inst_at s start = Inr instr" and "prv_cmp_imm ok nok s start a = Inr (u, a')"
  then obtain d o1 o2 b c where ops: "operand instr 0 = Inr d" "operand instr 1 = Inr o1" "operand instr 2 = Inr o2"
    and cmp: "arm_add_cmp_imm INSTR_CMP CC_AL (arm_reg_of o1) (op_integer o2) a = Inr ((), b)"
    and moves: "arm_add_mov_imm ok False (arm_reg_of d) (- 1) b = Inr ((), c)" "arm_add_mov_imm nok False (arm_reg_of d) 0 c = Inr ((), a')"
    by (auto simp: prv_cmp_imm_def generator_simps)
  have "appends sar32 a a' (\<lambda>_. arm_reg_of d \<noteq> 15 \<and> in_use (as_reg_counter a) (arm_reg_of o1) \<and> True)
      (\<lambda>vm. yields (as_reg_counter a) (arm_reg_of d) (truth (compares ok (vm_regs vm (arm_reg_of o1)) (op_integer o2))) vm)"
    by (rule appends_pre [OF flag_moves_append [OF cmp_imm_appends [OF cmp] moves assms]]) auto
  with ops show "\<exists>d o1 o2. operand instr 0 = Inr d \<and> operand instr 1 = Inr o1 \<and> operand instr 2 = Inr o2
      \<and> appends sar32 a a' (\<lambda>_. arm_reg_of d \<noteq> 15 \<and> in_use (as_reg_counter a) (arm_reg_of o1) \<and> True)
      (\<lambda>vm. yields (as_reg_counter a) (arm_reg_of d) (truth (compares ok (vm_regs vm (arm_reg_of o1)) (op_integer o2))) vm)"
    by blast
qed auto

lemma cmp_simulates:
  assumes "\<And>p q. compares nok p q \<longleftrightarrow> \<not> compares ok p q"
  shows "simulates sar32 (prv_cmp ok nok) R3 always (int_op (\<lambda>p q. Inr (truth (compares ok p q))) src_int_reg src_int_reg)"
proof (rule simulates_reg [where Q = "\<lambda>_. True" and f = "\<lambda>p q. truth (compares ok p q)"])
  fix s start instr a u a'
  assume "ir_inst_at s start = Inr instr" and "prv_cmp ok nok s start a = Inr (u, a')"
  then obtain d o1 o2 b c p where ops: "operand instr 0 = Inr d" "operand instr 1 = Inr o1" "operand instr 2 = Inr o2"
    and cmp: "arm_add_cmp INSTR_CMP CC_AL (arm_reg_of o1) (arm_reg_of o2) a = Inr (p, b)"
    and moves: "arm_add_mov_imm ok False (arm_reg_of d) (- 1) b = Inr ((), c)" "arm_add_mov_imm nok False (arm_reg_of d) 0 c = Inr ((), a')"
    by (auto simp: prv_cmp_def prv_cmp_simple_def generator_simps)
  have "appends sar32 a a' (\<lambda>_. arm_reg_of d \<noteq> 15 \<and> True)
      (\<lambda>vm. yields (as_reg_counter a) (arm_reg_of d) (truth (compares ok (vm_regs vm (arm_reg_of o1)) (vm_regs vm (arm_reg_of o2)))) vm)"
    by (rule appends_pre [OF flag_moves_append [OF cmp_appends [OF cmp] moves assms]]) auto
  with ops show "\<exists>d o1 o2. operand instr 0 = Inr d \<and> operand instr 1 = Inr o1 \<and> operand instr 2 = Inr o2
      \<and> appends sar32 a a' (\<lambda>_. arm_reg_of d \<noteq> 15 \<and> True)
      (\<lambda>vm. yields (as_reg_counter a) (arm_reg_of d) (truth (compares ok (vm_regs vm (arm_reg_of o1)) (vm_regs vm (arm_reg_of o2)))) vm)"
    by blast
qed auto

lemma compare_imm_simulates:
  "simulates sar32 subtilis_arm_gen_gtii32 R2I always prv_gtii32"
  "simulates sar32 subtilis_arm_gen_ltii32 R2I always prv_ltii32"
  "simulates sar32 subtilis_arm_gen_gteii32 R2I always prv_gteii32"
  "simulates sar32 subtilis_arm_gen_lteii32 R2I always prv_lteii32"
  "simulates sar32 subtilis_arm_gen_eqii32 R2I always prv_eqii32"
  "simulates sar32 subtilis_arm_gen_neqii32 R2I always prv_neqii32"
  unfolding subtilis_arm_gen_gtii32_def prv_gtii32_def subtilis_arm_gen_ltii32_def prv_ltii32_def
    subtilis_arm_gen_gteii32_def prv_gteii32_def subtilis_arm_gen_lteii32_def prv_lteii32_def
    subtilis_arm_gen_eqii32_def prv_eqii32_def subtilis_arm_gen_neqii32_def prv_neqii32_def
  using cmp_imm_simulates [of CC_LE CC_GT sar32] cmp_imm_simulates [of CC_GE CC_LT sar32] cmp_imm_simulates [of CC_LT CC_GE sar32]
    cmp_imm_simulates [of CC_GT CC_LE sar32] cmp_imm_simulates [of CC_NE CC_EQ sar32] cmp_imm_simulates [of CC_EQ CC_NE sar32]
  by (simp_all add: not_less not_le)

lemma compare_reg_simulates:
  "simulates sar32 subtilis_arm_gen_gti32 R3 always prv_gti32"
  "simulates sar32 subtilis_arm_gen_lti32 R3 always prv_lti32"
  "simulates sar32 subtilis_arm_gen_gtei32 R3 always prv_gtei32"
  "simulates sar32 subtilis_arm_gen_ltei32 R3 always prv_ltei32"
  "simulates sar32 subtilis_arm_gen_eqi32 R3 always prv_eqi32"
  "simulates sar32 subtilis_arm_gen_neqi32 R3 always prv_neqi32"
  unfolding subtilis_arm_gen_gti32_def prv_gti32_def subtilis_arm_gen_lti32_def prv_lti32_def
    subtilis_arm_gen_gtei32_def prv_gtei32_def subtilis_arm_gen_ltei32_def prv_ltei32_def
    subtilis_arm_gen_eqi32_def prv_eqi32_def subtilis_arm_gen_neqi32_def prv_neqi32_def
  using cmp_simulates [of CC_LE CC_GT sar32] cmp_simulates [of CC_GE CC_LT sar32] cmp_simulates [of CC_LT CC_GE sar32]
    cmp_simulates [of CC_GT CC_LE sar32] cmp_simulates [of CC_NE CC_EQ sar32] cmp_simulates [of CC_EQ CC_NE sar32]
  by (simp_all add: not_less not_le)

subsection \<open>Shifts\<close>

lemma shift_op_Inr:
  assumes "shift_amount_ok kind n" and "shift_op f x n = Inr v"
  shows "v = f (unat n) x"
proof -
  have "n AND 63 = n"
    using assms(1) by (simp add: shift_amount_ok_def u32_bits)
  with assms(2) show ?thesis
    by (simp add: shift_op_def Let_def split: if_splits)
qed

lemma shift_imm_simulates:
  assumes "kind \<in> {SHIFT_LSL, SHIFT_LSR, SHIFT_ASR}"
  shows "simulates sar32 (prv_gen_shift_i32 kind) R2I (\<lambda>instr iv. \<forall>n. src_imm instr 2 iv = Inr n \<longrightarrow> shift_amount_ok kind n)
    (int_op (shift_op (shift_fn kind)) src_reg src_imm)"
proof (rule simulates_imm [where Q = "shift_amount_ok kind" and f = "\<lambda>x n. shift_fn kind (unat n) x"])
  fix s start instr a u a'
  assume "ir_inst_at s start = Inr instr" and "prv_gen_shift_i32 kind s start a = Inr (u, a')"
  then obtain d o1 o2 p where ops: "operand instr 0 = Inr d" "operand instr 1 = Inr o1" "operand instr 2 = Inr o2"
    and app: "arm_section_add_instr (Data INSTR_MOV (data CC_AL False (arm_reg_of d) 0
      (OP2_SHIFTED \<lparr>shift_of_reg = arm_reg_of o1, shift_kind = kind, shift_by = Shift_integer (op_integer o2)\<rparr>))) a = Inr (p, a')"
    by (auto simp: prv_gen_shift_i32_def generator_simps)
  have "appends sar32 a a' (\<lambda>_. arm_reg_of d \<noteq> 15 \<and> in_use (as_reg_counter a) (arm_reg_of o1) \<and> shift_amount_ok kind (op_integer o2))
      (\<lambda>vm. yields (as_reg_counter a) (arm_reg_of d) (shift_fn kind (unat (op_integer o2)) (vm_regs vm (arm_reg_of o1))) vm)"
    by (rule appends_mono [OF add_shift_appends [OF app assms, where k = "\<lambda>_. op_integer o2"]]) (auto intro: sets_yields)
  with ops show "\<exists>d o1 o2. operand instr 0 = Inr d \<and> operand instr 1 = Inr o1 \<and> operand instr 2 = Inr o2
      \<and> appends sar32 a a' (\<lambda>_. arm_reg_of d \<noteq> 15 \<and> in_use (as_reg_counter a) (arm_reg_of o1) \<and> shift_amount_ok kind (op_integer o2))
      (\<lambda>vm. yields (as_reg_counter a) (arm_reg_of d) (shift_fn kind (unat (op_integer o2)) (vm_regs vm (arm_reg_of o1))) vm)"
    by blast
qed (auto dest: shift_op_Inr)

lemma shift_reg_simulates:
  assumes "kind \<in> {SHIFT_LSL, SHIFT_LSR, SHIFT_ASR}"
  shows "simulates sar32 (prv_gen_shift kind) R3 (\<lambda>instr iv. \<forall>n. src_reg instr 2 iv = Inr n \<longrightarrow> shift_amount_ok kind n)
    (int_op (shift_op (shift_fn kind)) src_reg src_reg)"
proof (rule simulates_reg [where Q = "shift_amount_ok kind" and f = "\<lambda>x n. shift_fn kind (unat n) x"])
  fix s start instr a u a'
  assume "ir_inst_at s start = Inr instr" and "prv_gen_shift kind s start a = Inr (u, a')"
  then obtain d o1 o2 p where ops: "operand instr 0 = Inr d" "operand instr 1 = Inr o1" "operand instr 2 = Inr o2"
    and app: "arm_section_add_instr (Data INSTR_MOV (data CC_AL False (arm_reg_of d) 0
      (OP2_SHIFTED \<lparr>shift_of_reg = arm_reg_of o1, shift_kind = kind, shift_by = Shift_reg (arm_reg_of o2)\<rparr>))) a = Inr (p, a')"
    by (auto simp: prv_gen_shift_def generator_simps)
  have "appends sar32 a a' (\<lambda>vm. arm_reg_of d \<noteq> 15 \<and> shift_amount_ok kind (vm_regs vm (arm_reg_of o2)))
      (\<lambda>vm. yields (as_reg_counter a) (arm_reg_of d) (shift_fn kind (unat (vm_regs vm (arm_reg_of o2))) (vm_regs vm (arm_reg_of o1))) vm)"
    by (rule appends_mono [OF add_shift_appends [OF app assms, where k = "\<lambda>vm. vm_regs vm (arm_reg_of o2)"]]) (auto intro: sets_yields)
  with ops show "\<exists>d o1 o2. operand instr 0 = Inr d \<and> operand instr 1 = Inr o1 \<and> operand instr 2 = Inr o2
      \<and> appends sar32 a a' (\<lambda>vm. arm_reg_of d \<noteq> 15 \<and> shift_amount_ok kind (vm_regs vm (arm_reg_of o2)))
      (\<lambda>vm. yields (as_reg_counter a) (arm_reg_of d) (shift_fn kind (unat (vm_regs vm (arm_reg_of o2))) (vm_regs vm (arm_reg_of o1))) vm)"
    by blast
qed (auto dest: shift_op_Inr)


lemma shift_fns: "shift_fn SHIFT_LSL = push_bit" "shift_fn SHIFT_LSR = drop_bit" "shift_fn SHIFT_ASR = signed_drop_bit"
  by (simp_all add: fun_eq_iff)

abbreviation shifts_ok :: "shift_type \<Rightarrow> u32 ir_source \<Rightarrow> ir_inst \<Rightarrow> ir_vm \<Rightarrow> bool" where
  "shifts_ok kind src \<equiv> \<lambda>instr iv. \<forall>n. src instr 2 iv = Inr n \<longrightarrow> shift_amount_ok kind n"

lemma shifts_simulate:
  "simulates sar32 subtilis_arm_gen_lsli32 R3 (shifts_ok SHIFT_LSL src_reg) prv_lsli32"
  "simulates sar32 subtilis_arm_gen_lsri32 R3 (shifts_ok SHIFT_LSR src_reg) prv_lsri32"
  "simulates sar32 subtilis_arm_gen_asri32 R3 (shifts_ok SHIFT_ASR src_reg) prv_asri32"
  "simulates sar32 subtilis_arm_gen_lslii32 R2I (shifts_ok SHIFT_LSL src_imm) prv_lslii32"
  "simulates sar32 subtilis_arm_gen_lsrii32 R2I (shifts_ok SHIFT_LSR src_imm) prv_lsrii32"
  "simulates sar32 subtilis_arm_gen_asrii32 R2I (shifts_ok SHIFT_ASR src_imm) prv_asrii32"
  unfolding subtilis_arm_gen_lsli32_def subtilis_arm_gen_lsri32_def subtilis_arm_gen_asri32_def
    subtilis_arm_gen_lslii32_def subtilis_arm_gen_lsrii32_def subtilis_arm_gen_asrii32_def
    prv_lsli32_def prv_lsri32_def prv_asri32_def prv_lslii32_def prv_lsrii32_def prv_asrii32_def
  using shift_reg_simulates [of SHIFT_LSL sar32] shift_reg_simulates [of SHIFT_LSR sar32] shift_reg_simulates [of SHIFT_ASR sar32]
    shift_imm_simulates [of SHIFT_LSL sar32] shift_imm_simulates [of SHIFT_LSR sar32] shift_imm_simulates [of SHIFT_ASR sar32]
  by (simp_all add: shift_fns)

subsection \<open>Moves\<close>

lemma simulates_move:
  assumes gen: "\<And>s start instr a u a'. ir_inst_at s start = Inr instr \<Longrightarrow> gen s start a = Inr (u, a') \<Longrightarrow>
      \<exists>d o1. operand instr 0 = Inr d \<and> operand instr 1 = Inr o1
        \<and> appends sar32 a a' (\<lambda>vm. arm_reg_of d \<noteq> 15) (\<lambda>vm. yields (as_reg_counter a) (arm_reg_of d) (f o1 vm) vm)"
    and val: "\<And>instr o1 iv v vm. operand instr 1 = Inr o1 \<Longrightarrow> register_operands_ok classes instr \<Longrightarrow> src instr 1 iv = Inr v
      \<Longrightarrow> agree iv vm \<Longrightarrow> f o1 vm = v"
    and classes: "classes ! 0 = OPERAND_REGISTER" "classes \<noteq> []"
  shows "simulates sar32 gen classes always (\<lambda>instr iv. rbind (src instr 1 iv) (\<lambda>v. put_reg instr 0 v iv))"
  unfolding simulates_def
proof (intro allI impI)
  fix s start instr a u a' iv iv'
  assume at: "ir_inst_at s start = Inr instr" "gen s start a = Inr (u, a')" and regs: "register_operands_ok classes instr"
    and run: "rbind (src instr 1 iv) (\<lambda>v. put_reg instr 0 v iv) = Inr iv'" and len: "length (iv_regs iv) \<le> as_reg_counter a"
  from gen [OF at] obtain d o1 where ops: "operand instr 0 = Inr d" "operand instr 1 = Inr o1"
    and app: "appends sar32 a a' (\<lambda>vm. arm_reg_of d \<noteq> 15) (\<lambda>vm. yields (as_reg_counter a) (arm_reg_of d) (f o1 vm) vm)"
    by blast
  from run obtain v where v: "src instr 1 iv = Inr v" and set: "set_reg_at (op_reg d) v iv = Inr iv'"
    by (auto simp: rbind_eq_Inr put_reg_def ops)
  have d: "0 < op_reg d"
    using read_register(2) [OF regs _ classes(1) ops(1)] classes(2) by simp
  have dl: "op_reg d < length (iv_regs iv)"
    using set by (auto simp: set_reg_at_def rbind_eq_Inr array_set_eq_Inr)
  show "appends sar32 a a' (agree iv) (\<lambda>_. agree iv')"
  proof (rule appends_weaken [OF app])
    fix vm
    assume n: "4 \<le> as_reg_counter a" "as_reg_counter a \<le> 2 ^ 32"
    show "arm_reg_of d \<noteq> 15"
      using arm_reg_in_use(2) [OF d _ n] dl len by auto
  next
    fix vm vm'
    assume n: "4 \<le> as_reg_counter a" "as_reg_counter a \<le> 2 ^ 32" and ag: "agree iv vm"
      and yields: "yields (as_reg_counter a) (arm_reg_of d) (f o1 vm) vm vm'"
    with val [OF ops(2) regs v ag] yields_agree [OF _ ag set len n d] show "agree iv' vm'"
      by simp
  qed
qed

lemma read_agree:
  assumes "operand instr 1 = Inr o1" and "register_operands_ok R2 instr" and "src_reg instr 1 iv = Inr v" and "agree iv vm"
  shows "vm_regs vm (arm_reg_of o1) = v"
  using read_register(2,3) [OF assms(2) _ _ assms(1)] assms(3) agree_reg [OF assms(4)] by simp

lemma mov_simulates: "simulates sar32 subtilis_arm_gen_mov R2 always prv_mov"
proof -
  have "simulates sar32 subtilis_arm_gen_mov R2 always (\<lambda>instr iv. rbind (src_reg instr 1 iv) (\<lambda>v. put_reg instr 0 v iv))"
  proof (rule simulates_move [where f = "\<lambda>o1 vm. vm_regs vm (arm_reg_of o1)"])
    fix s start instr a u a'
    assume "ir_inst_at s start = Inr instr" and "subtilis_arm_gen_mov s start a = Inr (u, a')"
    then obtain d o1 p where ops: "operand instr 0 = Inr d" "operand instr 1 = Inr o1"
      and app: "arm_add_mov_reg CC_AL False (arm_reg_of d) (arm_reg_of o1) a = Inr (p, a')"
      by (auto simp: subtilis_arm_gen_mov_def generator_simps)
    have "appends sar32 a a' (\<lambda>vm. arm_reg_of d \<noteq> 15) (\<lambda>vm. yields (as_reg_counter a) (arm_reg_of d) (vm_regs vm (arm_reg_of o1)) vm)"
      by (rule appends_mono [OF movmvn_reg_appends [OF app data_fn.simps(7)]]) (auto intro: sets_yields)
    with ops show "\<exists>d o1. operand instr 0 = Inr d \<and> operand instr 1 = Inr o1
        \<and> appends sar32 a a' (\<lambda>vm. arm_reg_of d \<noteq> 15) (\<lambda>vm. yields (as_reg_counter a) (arm_reg_of d) (vm_regs vm (arm_reg_of o1)) vm)"
      by blast
  qed (auto intro: read_agree)
  then show ?thesis
    by (simp add: prv_mov_def [abs_def])
qed

lemma noti32_simulates: "simulates sar32 subtilis_arm_gen_mvni32 R2 always prv_noti32"
proof -
  let ?src = "\<lambda>instr i iv. rbind (src_reg instr i iv) (\<lambda>v. Inr (NOT v))"
  have "simulates sar32 subtilis_arm_gen_mvni32 R2 always (\<lambda>instr iv. rbind (?src instr 1 iv) (\<lambda>v. put_reg instr 0 v iv))"
  proof (rule simulates_move [where f = "\<lambda>o1 vm. NOT (vm_regs vm (arm_reg_of o1))" and src = ?src])
    fix s start instr a u a'
    assume "ir_inst_at s start = Inr instr" and "subtilis_arm_gen_mvni32 s start a = Inr (u, a')"
    then obtain d o1 p where ops: "operand instr 0 = Inr d" "operand instr 1 = Inr o1"
      and app: "arm_add_movmvn_reg INSTR_MVN CC_AL False (arm_reg_of d) (arm_reg_of o1) a = Inr (p, a')"
      by (auto simp: subtilis_arm_gen_mvni32_def generator_simps)
    have "appends sar32 a a' (\<lambda>vm. arm_reg_of d \<noteq> 15) (\<lambda>vm. yields (as_reg_counter a) (arm_reg_of d) (NOT (vm_regs vm (arm_reg_of o1))) vm)"
      by (rule appends_mono [OF movmvn_reg_appends [OF app data_fn.simps(8)]]) (auto intro: sets_yields)
    with ops show "\<exists>d o1. operand instr 0 = Inr d \<and> operand instr 1 = Inr o1
        \<and> appends sar32 a a' (\<lambda>vm. arm_reg_of d \<noteq> 15) (\<lambda>vm. yields (as_reg_counter a) (arm_reg_of d) (NOT (vm_regs vm (arm_reg_of o1))) vm)"
      by blast
  qed (auto simp: rbind_eq_Inr intro: read_agree [unfolded One_nat_def])
  then show ?thesis
    by (simp add: prv_noti32_def [abs_def] rbind_assoc)
qed

lemma movii32_simulates: "simulates sar32 subtilis_arm_gen_movii32 RI always prv_movii32"
proof -
  have "simulates sar32 subtilis_arm_gen_movii32 RI always (\<lambda>instr iv. rbind (src_imm instr 1 iv) (\<lambda>v. put_reg instr 0 v iv))"
  proof (rule simulates_move [where f = "\<lambda>o1 vm. op_integer o1"])
    fix s start instr a u a'
    assume "ir_inst_at s start = Inr instr" and "subtilis_arm_gen_movii32 s start a = Inr (u, a')"
    then obtain d o1 where ops: "operand instr 0 = Inr d" "operand instr 1 = Inr o1"
      and app: "arm_add_mov_imm CC_AL False (arm_reg_of d) (op_integer o1) a = Inr (u, a')"
      by (auto simp: subtilis_arm_gen_movii32_def generator_simps)
    have "appends sar32 a a' (\<lambda>vm. arm_reg_of d \<noteq> 15) (\<lambda>vm. yields (as_reg_counter a) (arm_reg_of d) (op_integer o1) vm)"
      by (rule appends_mono [OF mov_imm_appends [OF app]]) (auto intro: sets_yields)
    with ops show "\<exists>d o1. operand instr 0 = Inr d \<and> operand instr 1 = Inr o1
        \<and> appends sar32 a a' (\<lambda>vm. arm_reg_of d \<noteq> 15) (\<lambda>vm. yields (as_reg_counter a) (arm_reg_of d) (op_integer o1) vm)"
      by blast
  qed (auto simp: src_imm_def rbind_eq_Inr)
  then show ?thesis
    by (simp add: prv_movii32_def [abs_def])
qed


section \<open>Integer operations\<close>

text \<open>The integer operations of the table that work on registers alone, with the functions that select their instructions.\<close>

definition integer_generators :: "(ir_instr_type \<times> arm_gen) list" where
  "integer_generators = [
    (IR_GTI_I32, subtilis_arm_gen_gtii32),
    (IR_LTI_I32, subtilis_arm_gen_ltii32),
    (IR_GTEI_I32, subtilis_arm_gen_gteii32),
    (IR_LTEI_I32, subtilis_arm_gen_lteii32),
    (IR_EQI_I32, subtilis_arm_gen_eqii32),
    (IR_NEQI_I32, subtilis_arm_gen_neqii32),
    (IR_GT_I32, subtilis_arm_gen_gti32),
    (IR_LT_I32, subtilis_arm_gen_lti32),
    (IR_EQ_I32, subtilis_arm_gen_eqi32),
    (IR_NEQ_I32, subtilis_arm_gen_neqi32),
    (IR_GTE_I32, subtilis_arm_gen_gtei32),
    (IR_LTE_I32, subtilis_arm_gen_ltei32),
    (IR_MOV, subtilis_arm_gen_mov),
    (IR_MOVI_I32, subtilis_arm_gen_movii32),
    (IR_ADDI_I32, subtilis_arm_gen_addii32),
    (IR_MULI_I32, subtilis_arm_gen_mulii32),
    (IR_MUL_I32, subtilis_arm_gen_muli32),
    (IR_SUBI_I32, subtilis_arm_gen_subii32),
    (IR_RSUBI_I32, subtilis_arm_gen_rsubii32),
    (IR_ADD_I32, subtilis_arm_gen_addi32),
    (IR_SUB_I32, subtilis_arm_gen_subi32),
    (IR_ANDI_I32, subtilis_arm_gen_andii32),
    (IR_ORI_I32, subtilis_arm_gen_orii32),
    (IR_EORI_I32, subtilis_arm_gen_eorii32),
    (IR_NOT_I32, subtilis_arm_gen_mvni32),
    (IR_AND_I32, subtilis_arm_gen_andi32),
    (IR_OR_I32, subtilis_arm_gen_ori32),
    (IR_EOR_I32, subtilis_arm_gen_eori32),
    (IR_LSL_I32, subtilis_arm_gen_lsli32),
    (IR_LSLI_I32, subtilis_arm_gen_lslii32),
    (IR_LSR_I32, subtilis_arm_gen_lsri32),
    (IR_LSRI_I32, subtilis_arm_gen_lsrii32),
    (IR_ASR_I32, subtilis_arm_gen_asri32),
    (IR_ASRI_I32, subtilis_arm_gen_asrii32)]"

text \<open>The shifts, and whether the distance is a number.\<close>

definition shift_types :: "(ir_instr_type \<times> shift_type \<times> bool) list" where
  "shift_types = [(IR_LSL_I32, SHIFT_LSL, False), (IR_LSLI_I32, SHIFT_LSL, True), (IR_LSR_I32, SHIFT_LSR, False),
     (IR_LSRI_I32, SHIFT_LSR, True), (IR_ASR_I32, SHIFT_ASR, False), (IR_ASRI_I32, SHIFT_ASR, True)]"

text \<open>
  The distances for which the two machines agree: the interpreter takes it modulo 64, the processor modulo 256, and
  the simulator shifts arithmetically by 32 when the distance is 0.
\<close>

definition distance_ok :: "ir_instr_type \<Rightarrow> ir_inst \<Rightarrow> ir_vm \<Rightarrow> bool" where
  "distance_ok t instr iv = (case map_of shift_types t of
     None \<Rightarrow> True
   | Some (kind, imm) \<Rightarrow> (case (if imm then src_imm else src_reg) instr 2 iv of Inl _ \<Rightarrow> True | Inr n \<Rightarrow> shift_amount_ok kind n))"

lemma distance_always: "map_of shift_types t = None \<Longrightarrow> distance_ok t = always"
  by (simp add: distance_ok_def fun_eq_iff)

lemma distance_shift:
  "map_of shift_types t = Some (kind, True) \<Longrightarrow> distance_ok t = shifts_ok kind src_imm"
  "map_of shift_types t = Some (kind, False) \<Longrightarrow> distance_ok t = shifts_ok kind src_reg"
  by (auto simp: distance_ok_def fun_eq_iff split: sum.splits)

lemma execute_integer:
  "execute IR_GTI_I32 h p s = prv_gtii32"
  "execute IR_LTI_I32 h p s = prv_ltii32"
  "execute IR_GTEI_I32 h p s = prv_gteii32"
  "execute IR_LTEI_I32 h p s = prv_lteii32"
  "execute IR_EQI_I32 h p s = prv_eqii32"
  "execute IR_NEQI_I32 h p s = prv_neqii32"
  "execute IR_GT_I32 h p s = prv_gti32"
  "execute IR_LT_I32 h p s = prv_lti32"
  "execute IR_EQ_I32 h p s = prv_eqi32"
  "execute IR_NEQ_I32 h p s = prv_neqi32"
  "execute IR_GTE_I32 h p s = prv_gtei32"
  "execute IR_LTE_I32 h p s = prv_ltei32"
  "execute IR_MOV h p s = prv_mov"
  "execute IR_MOVI_I32 h p s = prv_movii32"
  "execute IR_ADDI_I32 h p s = prv_addii32"
  "execute IR_MULI_I32 h p s = prv_mulii32"
  "execute IR_MUL_I32 h p s = prv_muli32"
  "execute IR_SUBI_I32 h p s = prv_subii32"
  "execute IR_RSUBI_I32 h p s = prv_rsubii32"
  "execute IR_ADD_I32 h p s = prv_addi32"
  "execute IR_SUB_I32 h p s = prv_subi32"
  "execute IR_ANDI_I32 h p s = prv_andii32"
  "execute IR_ORI_I32 h p s = prv_orii32"
  "execute IR_EORI_I32 h p s = prv_eorii32"
  "execute IR_NOT_I32 h p s = prv_noti32"
  "execute IR_AND_I32 h p s = prv_andi32"
  "execute IR_OR_I32 h p s = prv_ori32"
  "execute IR_EOR_I32 h p s = prv_eori32"
  "execute IR_LSL_I32 h p s = prv_lsli32"
  "execute IR_LSLI_I32 h p s = prv_lslii32"
  "execute IR_LSR_I32 h p s = prv_lsri32"
  "execute IR_LSRI_I32 h p s = prv_lsrii32"
  "execute IR_ASR_I32 h p s = prv_asri32"
  "execute IR_ASRI_I32 h p s = prv_asrii32"
  by (simp_all add: execute_def op_execute_fns_def fun_eq_iff)

lemma integer_operands:
  "instr_operands IR_GTI_I32 = R2I"
  "instr_operands IR_LTI_I32 = R2I"
  "instr_operands IR_GTEI_I32 = R2I"
  "instr_operands IR_LTEI_I32 = R2I"
  "instr_operands IR_EQI_I32 = R2I"
  "instr_operands IR_NEQI_I32 = R2I"
  "instr_operands IR_GT_I32 = R3"
  "instr_operands IR_LT_I32 = R3"
  "instr_operands IR_EQ_I32 = R3"
  "instr_operands IR_NEQ_I32 = R3"
  "instr_operands IR_GTE_I32 = R3"
  "instr_operands IR_LTE_I32 = R3"
  "instr_operands IR_MOV = R2"
  "instr_operands IR_MOVI_I32 = RI"
  "instr_operands IR_ADDI_I32 = R2I"
  "instr_operands IR_MULI_I32 = R2I"
  "instr_operands IR_MUL_I32 = R3"
  "instr_operands IR_SUBI_I32 = R2I"
  "instr_operands IR_RSUBI_I32 = R2I"
  "instr_operands IR_ADD_I32 = R3"
  "instr_operands IR_SUB_I32 = R3"
  "instr_operands IR_ANDI_I32 = R2I"
  "instr_operands IR_ORI_I32 = R2I"
  "instr_operands IR_EORI_I32 = R2I"
  "instr_operands IR_NOT_I32 = R2"
  "instr_operands IR_AND_I32 = R3"
  "instr_operands IR_OR_I32 = R3"
  "instr_operands IR_EOR_I32 = R3"
  "instr_operands IR_LSL_I32 = R3"
  "instr_operands IR_LSLI_I32 = R2I"
  "instr_operands IR_LSR_I32 = R3"
  "instr_operands IR_LSRI_I32 = R2I"
  "instr_operands IR_ASR_I32 = R3"
  "instr_operands IR_ASRI_I32 = R2I"
  by (simp_all add: instr_operands_def op_desc_def)

lemmas simulation_rules = addii32_simulates subii32_simulates rsubii32_simulates mulii32_simulates logic_imm_simulates
  data_reg_simulates muli32_simulates compare_imm_simulates compare_reg_simulates mov_simulates noti32_simulates movii32_simulates

lemma integer_simulates:
  "list_all (\<lambda>(t, g). simulates sar32 g (instr_operands t) (distance_ok t) (execute t h p s)) integer_generators"
  by (simp add: integer_generators_def integer_operands execute_integer simulation_rules distance_always distance_shift
      shifts_simulate shift_types_def)

end
