(* ===== verification/Arm_Gen_Correct.thy ===== *)
theory Arm_Gen_Correct
  imports Arm_Gen_Laws
begin

text \<open>
  The back end for the ARM 2 on a section of integer operations: the matcher chooses for each operation
  the rule that is meant for it, so that the code of the section simulates the interpreter's run of it.
\<close>

section \<open>The rules that are chosen\<close>

text \<open>The instruction of a rule with a single one.\<close>

fun single_type :: "ir_op_match list \<Rightarrow> nat option" where
  "single_type [MT_INSTR im] = Some (ir_number (im_type im))"
| "single_type _ = None"

definition integer_type :: "nat \<Rightarrow> bool" where
  "integer_type n \<longleftrightarrow> n \<in> set (map (ir_number \<circ> fst) integer_generators)"

lemma integer_type_iff: "integer_type n \<longleftrightarrow> n \<in> {53, 61, 65, 57, 45, 49, 51, 59, 43, 47, 63, 55, 29, 27, 9, 13, 4, 11, 33, 0, 2, 37, 39, 41, 42, 36, 38, 40, 75, 76, 77, 78, 79, 80}"
  by (simp add: integer_type_def integer_generators_def)

text \<open>The other rules do not begin with an integer operation or go on with one that is none.\<close>

fun never_integer :: "ir_op_match list \<Rightarrow> bool" where
  "never_integer (MT_INSTR _ # MT_INSTR im # _) \<longleftrightarrow> \<not> integer_type (ir_number (im_type im))"
| "never_integer (MT_INSTR _ # _ # _) \<longleftrightarrow> True"
| "never_integer (MT_INSTR _ # []) \<longleftrightarrow> False"
| "never_integer _ \<longleftrightarrow> True"

definition riscos_arm2_singles :: "nat option list" where
  "riscos_arm2_singles = [
    None, None, None, None, None, None, None, None, None, None, None, None,
    None, None, None, None, None, None, None, None, None, None, None, None,
    None, None, Some 67, Some 68, None, None, Some 138, None, None, None, None, None,
    None, Some 70, Some 71, Some 72, Some 73, Some 74, Some 53, Some 54, Some 61, Some 62, Some 65, Some 66,
    Some 57, Some 58, Some 45, Some 46, Some 49, Some 50, Some 51, Some 52, Some 59, Some 60, Some 43, Some 44,
    Some 47, Some 48, Some 63, Some 64, Some 55, Some 56, Some 29, Some 27, Some 9, Some 13, Some 4, Some 11,
    Some 33, Some 0, Some 2, Some 22, Some 23, Some 17, Some 18, None, Some 31, Some 32, Some 69, Some 37,
    Some 39, Some 41, Some 42, Some 36, Some 38, Some 40, Some 75, Some 76, Some 77, Some 78, Some 79, Some 80,
    Some 30, Some 28, Some 82, Some 83, Some 81, Some 1, Some 10, Some 3, Some 12, Some 34, Some 5, Some 14,
    Some 8, Some 16, Some 35, Some 24, Some 19, Some 85, Some 86, Some 87, Some 88, Some 89, Some 90, Some 91,
    Some 92, Some 93, Some 94, Some 95, Some 96, Some 97, Some 98, Some 99, Some 100, Some 101, Some 102, Some 103,
    Some 104, Some 105, Some 108, Some 109, Some 110, Some 111, Some 112, Some 113, Some 114, Some 115, Some 116, Some 117,
    Some 120, Some 122, Some 123, Some 124, Some 125, Some 126, Some 127, Some 128, Some 106, Some 107, Some 129, Some 130,
    Some 131, Some 132, Some 134, Some 135, Some 136, Some 137, None, Some 139, Some 140, Some 141, Some 142, Some 143,
    Some 144, Some 145, Some 146, Some 147, Some 148, Some 149, Some 150, Some 151, Some 152, Some 153, Some 154, Some 155,
    Some 156]"

lemma table_singles: "map single_type riscos_arm2_matches = riscos_arm2_singles"
  by (simp add: riscos_arm2_matches_def riscos_arm2_singles_def)

lemma table_others: "list_all (\<lambda>ms. single_type ms \<noteq> None \<or> never_integer ms) riscos_arm2_matches"
  by (simp add: riscos_arm2_matches_def integer_type_iff)

text \<open>The rows of the integer operations in the table.\<close>

definition integer_rows :: "nat list" where
  "integer_rows = [42, 44, 46, 48, 50, 52, 54, 56, 58, 60, 62, 64, 66, 67, 68, 69, 70, 71, 72, 73, 74, 83, 84, 85, 86, 87, 88, 89, 90, 91, 92, 93, 94, 95]"

lemma integer_rows_first:
  "list_all2 (\<lambda>(t, g) i. list_all (\<lambda>x. x \<noteq> Some (ir_number t)) (take i riscos_arm2_singles)) integer_generators integer_rows"
  by (simp add: integer_generators_def integer_rows_def riscos_arm2_singles_def)

lemma integer_rows_matches:
  "list_all2 (\<lambda>(t, g) i. riscos_arm2_matches ! i = [MT_INSTR \<lparr>im_type = t, im_operands = map (\<lambda>_. any_op) (instr_operands t)\<rparr>])
    integer_generators integer_rows"
  by (simp add: integer_generators_def integer_rows_def riscos_arm2_matches_def integer_operands)

lemma integer_rows_actions:
  "list_all2 (\<lambda>(t, g) i. map snd (riscos_arm2_rules fp_if other) ! i = arm_action g) integer_generators integer_rows"
  by (simp add: integer_generators_def integer_rows_def riscos_arm2_rules_def)


section \<open>Choosing the rule\<close>

text \<open>An operation of the sections considered here: an integer operation with its operands.\<close>

fun straight_op :: "ir_op \<Rightarrow> bool" where
  "straight_op (OP_INSTR instr) \<longleftrightarrow> op_ok (OP_INSTR instr) \<and> integer_type (ir_number (inst_type instr))
     \<and> register_operands_ok (instr_operands (inst_type instr)) instr"
| "straight_op _ \<longleftrightarrow> False"

lemma straight_opE:
  assumes "straight_op op"
  obtains instr where "op = OP_INSTR instr" and "op_ok op" and "integer_type (ir_number (inst_type instr))"
    and "register_operands_ok (instr_operands (inst_type instr)) instr"
  using assms by (cases op) auto

lemma integer_row:
  assumes "integer_type (ir_number t)"
  obtains g i where "(t, g) \<in> set integer_generators" and "i < length integer_generators" and "integer_generators ! i = (t, g)"
proof -
  from assms obtain t' g where g: "(t', g) \<in> set integer_generators" "ir_number t' = ir_number t"
    by (auto simp: integer_type_def)
  then have "t' = t"
    by (cases t; cases t') simp
  with g that show ?thesis
    by (auto simp: in_set_conv_nth)
qed

lemma table_lengths: "length riscos_arm2_matches = length (riscos_arm2_rules fp_if other)"
  "length riscos_arm2_singles = length riscos_arm2_matches" "length (riscos_arm2_parsed fp_if other) = length riscos_arm2_matches"
  using length_matches [of fp_if other] arg_cong [OF table_singles, of length]
  by (simp_all add: riscos_arm2_parsed_def)

lemma parsed_nth:
  assumes "i < length riscos_arm2_matches"
  shows "riscos_arm2_parsed fp_if other ! i
    = \<lparr>rule_matches = riscos_arm2_matches ! i, rule_action = map snd (riscos_arm2_rules fp_if other) ! i\<rparr>"
  using assms table_lengths(1) [of fp_if other] by (simp add: riscos_arm2_parsed_def)

lemma never_integer_misfits:
  assumes "never_integer ms" and "list_all straight_op ops" and "ms \<noteq> []"
  shows "\<not> rule_fits real_eq ms ops"
proof
  assume fit: "rule_fits real_eq ms ops"
  then obtain v where v: "list_all2 (op_fits real_eq v) ms (take (length ms) ops)"
    by (auto simp: rule_fits_def)
  from v assms(3) obtain m ms' op ops' where ms: "ms = m # ms'" and ops: "ops = op # ops'"
    by (cases ms; cases ops) auto
  from assms(2) ops obtain instr where op: "op = OP_INSTR instr"
    by (auto elim: straight_opE)
  from v ms ops op obtain im where m: "m = MT_INSTR im"
    by (cases m) (auto simp: op_fits_def)
  show False
  proof (cases ms')
    case Nil
    with assms(1) ms m show False
      by simp
  next
    case (Cons m2 ms2)
    with v ms ops obtain op2 ops2 where ops': "ops' = op2 # ops2" and fit2: "op_fits real_eq v m2 op2"
      by (cases ops') auto
    from assms(2) ops ops' obtain instr2 where op2: "op2 = OP_INSTR instr2" and t2: "integer_type (ir_number (inst_type instr2))"
      by (auto elim: straight_opE)
    from fit2 op2 obtain im2 where "m2 = MT_INSTR im2" and "inst_type instr2 = im_type im2"
      by (cases m2) (auto simp: op_fits_def)
    with assms(1) ms m Cons t2 show False
      by simp
  qed
qed

lemma any_operands_fit:
  "length classes \<le> length os \<Longrightarrow> list_all (\<lambda>x. x \<noteq> None) (take (length classes) os)
    \<Longrightarrow> operands_fit real_eq v classes (map (\<lambda>_. any_op) classes) os"
  by (induction classes arbitrary: os) (auto simp: operand_fits_def neq_Nil_conv Suc_le_length_iff)


abbreviation integer_rule :: "ir_instr_type \<Rightarrow> arm_gen \<Rightarrow> arm_s ir_rule" where
  "integer_rule t g \<equiv> \<lparr>rule_matches = [MT_INSTR \<lparr>im_type = t, im_operands = map (\<lambda>_. any_op) (instr_operands t)\<rparr>],
     rule_action = arm_action g\<rparr>"

lemma chosen_unique:
  assumes "chosen real_eq rules ops r" and "i < length rules" and "rule_fits real_eq (rule_matches (rules ! i)) ops"
    and "\<And>j. j < i \<Longrightarrow> \<not> rule_fits real_eq (rule_matches (rules ! j)) ops"
  shows "r = rules ! i"
proof -
  from assms(1) obtain before after where rules: "rules = before @ r # after" and fit: "rule_fits real_eq (rule_matches r) ops"
    and before: "\<forall>q \<in> set before. \<not> rule_fits real_eq (rule_matches q) ops"
    by (auto simp: chosen_def)
  have "\<not> i < length before"
    using before assms(3) by (auto simp: rules nth_append)
  moreover have "\<not> length before < i"
    using assms(4) [of "length before"] fit by (auto simp: rules)
  ultimately show ?thesis
    by (simp add: rules)
qed

lemma integer_row_facts:
  assumes "k < length integer_generators" and "integer_generators ! k = (t, g)"
  defines "i \<equiv> integer_rows ! k"
  shows "i < length riscos_arm2_matches"
    and "riscos_arm2_parsed fp_if other ! i = integer_rule t g"
    and "j < i \<Longrightarrow> riscos_arm2_singles ! j \<noteq> Some (ir_number t)"
proof -
  have len: "length integer_rows = length integer_generators" and "\<forall>i \<in> set integer_rows. i < length riscos_arm2_matches"
    by (simp_all add: integer_rows_def integer_generators_def riscos_arm2_matches_def)
  then show i: "i < length riscos_arm2_matches"
    using assms(1) by (simp add: i_def)
  show "riscos_arm2_parsed fp_if other ! i = integer_rule t g"
    using parsed_nth [OF i, of fp_if other] list_all2_nthD [OF integer_rows_matches assms(1)]
      list_all2_nthD [OF integer_rows_actions [of fp_if other] assms(1)] assms(2)
    by (simp add: i_def)
  assume "j < i"
  then have "riscos_arm2_singles ! j \<in> set (take i riscos_arm2_singles)"
    using i table_lengths(2) by (auto simp: in_set_conv_nth)
  with list_all2_nthD [OF integer_rows_first assms(1)] assms(2) show "riscos_arm2_singles ! j \<noteq> Some (ir_number t)"
    by (auto simp: i_def list_all_iff)
qed

lemma first_rule_straight:
  assumes ops: "list_all straight_op (OP_INSTR instr # ops)"
    and k: "k < length integer_generators" "integer_generators ! k = (inst_type instr, g)"
  shows "first_rule real_eq (riscos_arm2_parsed fp_if other) (OP_INSTR instr # ops) = Inr (Some (integer_rule (inst_type instr) g))"
proof -
  let ?rules = "riscos_arm2_parsed fp_if other" and ?i = "integer_rows ! k"
  note row = integer_row_facts [OF k]
  have i: "?i < length ?rules"
    using row(1) table_lengths(3) by simp
  have op: "op_ok (OP_INSTR instr)"
    using ops by simp
  have fit: "rule_fits real_eq (rule_matches (?rules ! ?i)) (OP_INSTR instr # ops)"
    using op any_operands_fit [of "instr_operands (inst_type instr)" "inst_operands instr"]
    by (simp add: row(2) rule_fits_def op_fits_def)
  have misfit: "\<not> rule_fits real_eq (rule_matches (?rules ! j)) (OP_INSTR instr # ops)" if j: "j < ?i" for j
  proof -
    have jl: "j < length riscos_arm2_matches"
      using j row(1) by simp
    have ms: "rule_matches (?rules ! j) = riscos_arm2_matches ! j"
      using parsed_nth [OF jl] by simp
    have single: "single_type (riscos_arm2_matches ! j) = riscos_arm2_singles ! j"
      using table_singles jl by (metis nth_map)
    show ?thesis
    proof (cases "single_type (riscos_arm2_matches ! j)")
      case None
      then have "never_integer (riscos_arm2_matches ! j)"
        using table_others jl by (auto simp: list_all_length)
      moreover have "riscos_arm2_matches ! j \<noteq> []"
        using parsed_rules_ok [of fp_if other] i j ms by (auto simp: list_all_length)
      ultimately show ?thesis
        using never_integer_misfits ops ms by simp
    next
      case (Some n)
      then obtain im where im: "riscos_arm2_matches ! j = [MT_INSTR im]" and n: "ir_number (im_type im) = n"
        by (cases "riscos_arm2_matches ! j" rule: single_type.cases) auto
      have "n \<noteq> ir_number (inst_type instr)"
        using row(3) [OF j] single Some by auto
      then show ?thesis
        using n by (auto simp: ms im rule_fits_def op_fits_def)
    qed
  qed
  have "\<forall>r \<in> set ?rules. rule_ok (rule_matches r)"
    using parsed_rules_ok by (simp add: list_all_iff)
  moreover have "list_all op_ok (OP_INSTR instr # ops)"
    using ops by (auto simp: list_all_iff elim: straight_opE)
  ultimately obtain r where "first_rule real_eq ?rules (OP_INSTR instr # ops) = Inr (Some r)"
    and "chosen real_eq ?rules (OP_INSTR instr # ops) r"
    using first_rule_chosen [of ?rules "OP_INSTR instr # ops" real_eq] fit i by fastforce
  with chosen_unique [OF _ i fit misfit] row(2) show ?thesis
    by simp
qed


section \<open>The run of the interpreter\<close>

text \<open>Integer operations write one register.\<close>

definition only_registers :: "(ir_inst \<Rightarrow> ir_vm \<Rightarrow> ir_vm c_result) \<Rightarrow> bool" where
  "only_registers f \<longleftrightarrow> (\<forall>instr iv iv'. f instr iv = Inr iv' \<longrightarrow>
     (\<exists>rs. iv' = iv\<lparr>iv_regs := rs\<rparr> \<and> length rs = length (iv_regs iv)))"

lemma put_reg_only: "put_reg instr i v iv = Inr iv' \<Longrightarrow> \<exists>rs. iv' = iv\<lparr>iv_regs := rs\<rparr> \<and> length rs = length (iv_regs iv)"
  by (auto simp: put_reg_def set_reg_at_def rbind_eq_Inr array_set_eq_Inr)

lemma int_op_only: "only_registers (int_op k src1 src2)"
  by (auto simp: only_registers_def int_op_def rbind_eq_Inr intro: put_reg_only)

lemma moves_only: "only_registers prv_mov" "only_registers prv_noti32" "only_registers prv_movii32"
  by (auto simp: only_registers_def prv_mov_def prv_noti32_def prv_movii32_def rbind_eq_Inr intro: put_reg_only)

lemma integer_only_registers: "list_all (\<lambda>(t, g). only_registers (execute t h p s)) integer_generators"
  unfolding integer_generators_def list.pred_inject prod.case execute_integer
  by (simp add: moves_only int_op_only prv_gtii32_def prv_ltii32_def prv_gteii32_def prv_lteii32_def prv_eqii32_def prv_neqii32_def
      prv_gti32_def prv_lti32_def prv_gtei32_def prv_ltei32_def prv_eqi32_def prv_neqi32_def prv_addii32_def prv_mulii32_def
      prv_muli32_def prv_subii32_def prv_rsubii32_def prv_addi32_def prv_subi32_def prv_andii32_def prv_orii32_def
      prv_eorii32_def prv_andi32_def prv_ori32_def prv_eori32_def prv_lsli32_def prv_lslii32_def prv_lsri32_def
      prv_lsrii32_def prv_asri32_def prv_asrii32_def)

text \<open>The distances of the shifts along a run.\<close>

fun distances_ok :: "ir_host \<Rightarrow> ir_prog \<Rightarrow> ir_section \<Rightarrow> ir_op list \<Rightarrow> ir_vm \<Rightarrow> bool" where
  "distances_ok h p s [] iv \<longleftrightarrow> True"
| "distances_ok h p s (OP_INSTR instr # ops) iv \<longleftrightarrow> distance_ok (inst_type instr) instr iv
     \<and> (case execute (inst_type instr) h p s instr iv of
          Inl _ \<Rightarrow> True
        | Inr iv' \<Rightarrow> distances_ok h p s ops (iv'\<lparr>iv_pc := iv_pc iv' + 1\<rparr>))"
| "distances_ok h p s (_ # ops) iv \<longleftrightarrow> True"

lemma agree_pc [simp]: "agree (iv\<lparr>iv_pc := n\<rparr>) vm = agree iv vm"
  by (simp add: agree_def)

lemma agree_pc_pred: "agree (iv\<lparr>iv_pc := n\<rparr>) = agree iv"
  by (simp add: fun_eq_iff)

lemma straight_not_nop: "straight_op op \<Longrightarrow> \<not> is_nop op"
  by (auto simp: is_nop_def integer_type_iff elim!: straight_opE)

lemma list_all_pairD: "list_all (\<lambda>(x, y). P x y) xs \<Longrightarrow> (a, b) \<in> set xs \<Longrightarrow> P a b"
  by (auto simp: list_all_iff)

lemma match_loop_straight:
  assumes "ir_match_loop real_eq (riscos_arm2_parsed fp_if other) fuel pc (s, a) = Some (Inr (s', a'))"
    and "vm_run_loop h p steps iv = Some (Inr iv')"
    and "pc \<le> length (vec_items (ir_ops s))" and "list_all straight_op (drop pc (vec_items (ir_ops s)))"
    and "distances_ok h p s (drop pc (vec_items (ir_ops s))) iv"
    and "section_at p (iv_index iv) = Inr s" and "unat (iv_pc iv) = pc" and "\<not> iv_quit iv"
    and "section_ok a" and "length (iv_regs iv) \<le> as_reg_counter a" and "length (vec_items (ir_ops s)) < 2 ^ 32"
  shows "s' = s \<and> appends sar32 a a' (agree iv) (\<lambda>_. agree iv')"
  using assms
proof (induction fuel arbitrary: pc a iv steps)
  case 0
  then show ?case
    by simp
next
  case (Suc fuel)
  let ?ops = "vec_items (ir_ops s)"
  obtain n where steps: "steps = Suc n"
    using Suc.prems(2) by (cases steps) auto
  show ?case
  proof (cases "pc < length ?ops")
    case False
    with Suc.prems(1,2,6,7) have "s' = s" "a' = a" "iv' = iv"
      by (auto simp: steps prv_check_heap_def Let_def split: if_splits)
    moreover have "appends sar32 a a (agree iv) (\<lambda>_. agree iv)"
      using Suc.prems(9) by (simp add: appends_def grows_def code_between_def)
    ultimately show ?thesis
      by simp
  next
    case True
    then have drop: "drop pc ?ops = ?ops ! pc # drop (Suc pc) ?ops"
      by (simp add: Cons_nth_drop_Suc)
    with Suc.prems(4) have straight: "straight_op (?ops ! pc)" "list_all straight_op (drop (Suc pc) ?ops)"
      by simp_all
    from straight(1) obtain instr where op: "?ops ! pc = OP_INSTR instr" and int: "integer_type (ir_number (inst_type instr))"
      and regs: "register_operands_ok (instr_operands (inst_type instr)) instr"
      by (auto elim: straight_opE)
    from int obtain g k where g: "(inst_type instr, g) \<in> set integer_generators"
      and k: "k < length integer_generators" "integer_generators ! k = (inst_type instr, g)"
      by (rule integer_row)
    have first: "first_rule real_eq (riscos_arm2_parsed fp_if other) (drop pc ?ops) = Inr (Some (integer_rule (inst_type instr) g))"
      unfolding drop op by (rule first_rule_straight [OF _ k]) (use straight op in simp)
    obtain b where gen: "g s pc a = Inr ((), b)"
      and rest: "ir_match_loop real_eq (riscos_arm2_parsed fp_if other) fuel (Suc pc) (s, b) = Some (Inr (s', a'))"
      using Suc.prems(1) True straight_not_nop [OF straight(1)] first
      by (auto simp: arm_action_def rbind_eq_Inr Let_def split: sum.splits)
    obtain iv1 where exec: "execute (inst_type instr) h p s instr iv = Inr iv1" and run: "iv_quit iv1 \<or>
        vm_run_loop h p n (iv1\<lparr>iv_pc := iv_pc iv1 + 1\<rparr>) = Some (Inr iv')"
      using Suc.prems(2,6,7) True op by (auto simp: steps execute_op_def split: sum.splits if_splits)
    have "only_registers (execute (inst_type instr) h p s)"
      using integer_only_registers g by (rule list_all_pairD)
    then obtain rs where iv1: "iv1 = iv\<lparr>iv_regs := rs\<rparr>" and len: "length rs = length (iv_regs iv)"
      using exec unfolding only_registers_def by blast
    have dist: "distance_ok (inst_type instr) instr iv"
      and dists: "distances_ok h p s (drop (Suc pc) ?ops) (iv1\<lparr>iv_pc := iv_pc iv1 + 1\<rparr>)"
      using Suc.prems(5) by (simp_all add: drop op exec)
    have "simulates sar32 g (instr_operands (inst_type instr)) (distance_ok (inst_type instr)) (execute (inst_type instr) h p s)"
      using integer_simulates g by (rule list_all_pairD)
    moreover have "ir_inst_at s pc = Inr instr"
      using True op by (simp add: ir_inst_at_def ir_op_at_def)
    ultimately have ab: "appends sar32 a b (agree iv) (\<lambda>_. agree iv1)"
      using gen regs dist exec Suc.prems(10) by (auto simp: simulates_def)
    then have grow: "section_ok b" "as_reg_counter a \<le> as_reg_counter b"
      using Suc.prems(9) by (simp_all add: appends_def grows_def)
    have pc: "unat (iv_pc iv + 1) = Suc pc"
      using Suc.prems(7,11) True by (simp add: unat_word_ariths)
    have "s' = s \<and> appends sar32 b a' (agree (iv1\<lparr>iv_pc := iv_pc iv1 + 1\<rparr>)) (\<lambda>_. agree iv')"
      by (rule Suc.IH [OF rest])
        (use run Suc.prems True straight(2) dists pc grow in \<open>simp_all add: iv1 len\<close>)
    then show ?thesis
      using appends_trans [OF ab, of a' "agree iv1" "\<lambda>_. agree iv'" "\<lambda>_. agree iv'"] by (simp add: agree_pc_pred)
  qed
qed


text \<open>A new section has no operations and no constants.\<close>

lemma new_section_ok:
  assumes "arm_section_new pool pool_max regs fregs labels locals start fp_max al = Inr a" and "4 \<le> regs"
  shows "section_ok a" and "section_ops a = []"
proof -
  have "chained a []" and "as_reg_counter a = regs" and "constants a = []"
    using assms(1) by (auto simp: arm_section_new_def rbind_eq_Inr chained_def vec_empty_def)
  with assms(2) show "section_ok a" and "section_ops a = []"
    using section_ops_chained [of a "[]"] by (auto simp: section_ok_def ops_at_def)
qed

section \<open>Properties\<close>

text \<open>
  C2: the back end for the ARM 2 on a section of the 34 straight-line operations on integers, moves, additions,
  subtractions, multiplications, logic, comparisons and shifts (\<open>straight_op\<close>): no jumps, loads, stores, conditional moves
  or divisions. When it translates the section, reading its table of rules, choosing a rule for each operation and
  appending the instructions, and when the interpreter runs the section to its end without an error, shifting by less
  than 32 and arithmetically by more than 0 (\<open>distances_ok\<close>), then the appended code, before registers are allocated,
  simulates that run as long as there are virtual registers left: started from virtual registers that hold those of the interpreter, which the counter of the
  section of ARM code has left free, and with the constants of the section in its pool, it ends without an error in
  registers that hold what the interpreter computes.
\<close>

theorem integer_section_compiled:
  assumes "subtilis_ir_parse_rules (riscos_arm2_rules fp_if other) = Inr rules"
    and "subtilis_ir_match real_eq rules fuel (s, a) = Some (Inr (s', a'))"
    and "subitlis_vm_run h p steps iv = Some (Inr iv')"
    and "section_at p (iv_index iv) = Inr s" and "\<not> iv_quit iv"
    and "list_all straight_op (vec_items (ir_ops s))" and "length (vec_items (ir_ops s)) < 2 ^ 32"
    and "distances_ok h p s (vec_items (ir_ops s)) (iv\<lparr>iv_pc := 0\<rparr>)"
    and "section_ok a" and "length (iv_regs iv) \<le> as_reg_counter a" and "as_reg_counter a' \<le> 2 ^ 32"
    and "agree iv vm" and "constants_for a' ks"
  shows "\<exists>ops vm'. section_ops a' = section_ops a @ ops \<and> run_ops sar32 ks ops vm = Some (Inr vm') \<and> agree iv' vm'"
proof -
  have rules: "rules = riscos_arm2_parsed fp_if other"
    using assms(1) parse_rules_texts [OF table_texts [of fp_if other]] by (simp add: riscos_arm2_parsed_def)
  have "ir_match_loop real_eq (riscos_arm2_parsed fp_if other) fuel 0 (s, a) = Some (Inr (s', a'))"
    using assms(2) by (simp add: subtilis_ir_match_def rules split: if_splits)
  from match_loop_straight [OF this assms(3) [unfolded subitlis_vm_run_def]] assms
  have app: "appends sar32 a a' (agree iv) (\<lambda>_. agree iv')"
    by (simp add: agree_pc_pred)
  obtain ops where ops: "section_ops a' = section_ops a @ ops"
    using app assms(9) by (auto simp: appends_def grows_def)
  have "\<exists>vm'. run_ops sar32 ks (code_between a a') vm = Some (Inr vm') \<and> agree iv' vm'"
    using app assms(9,11-13) by (simp add: appends_def)
  with ops show ?thesis
    by (simp add: code_between_def)
qed

text \<open>Two operations: a number is moved to a register and added to itself.\<close>

definition example_int_ops :: "ir_op list" where
  "example_int_ops = [OP_INSTR \<lparr>inst_type = IR_MOVI_I32, inst_operands = [Some 4, Some 5, None, None]\<rparr>,
     OP_INSTR \<lparr>inst_type = IR_ADD_I32, inst_operands = [Some 5, Some 4, Some 4, None]\<rparr>]"

definition example_int_section :: ir_section where
  "example_int_section = (prv_ir_section_new \<lparr>ts_ret_val = TYPE_VOID, ts_int_regs = 0, ts_fp_regs = 0\<rparr>)
     \<lparr>ir_reg_counter := 6, ir_ops := \<lparr>vec_items = example_int_ops, vec_max = 4096\<rparr>\<rparr>"

definition example_int_prog :: ir_prog where
  "example_int_prog = \<lparr>ip_sections = [Some example_int_section], ip_max_sections = 64,
     ip_string_pool = vec_empty, ip_constant_pool = vec_empty, ip_lambdas = 0\<rparr>"

definition example_iv :: ir_vm where
  "example_iv = \<lparr>iv_regs = [0, 0, 0, 0, 0, 0], iv_fregs = [], iv_memory = [], iv_index = 0, iv_pc = 0,
     iv_labels = [], iv_top = 0, iv_quit = False, iv_heap = subtilis_vm_heap_init, iv_constants = [],
     iv_cmd_line_ptr = 0, iv_out = subtilis_buffer_init 8, iv_allocs = []\<rparr>"

definition example_arm_section :: arm_s where
  "example_arm_section = \<lparr>as_pool = [], as_pool_max = 4096, as_first = None, as_last = None, as_len = 0, as_reg_counter = 6,
     as_freg_counter = 0, as_label_counter = 1, as_locals = 0, as_no_cleanup_label = 0, as_ui32 = vec_empty,
     as_real = vec_empty, as_ret_sites = vec_empty, as_call_sites = vec_empty, as_start_address = 0, as_fp_max_regs = 8,
     as_allocs = []\<rparr>"

definition cleared_vm :: arm_vm where
  "cleared_vm = \<lparr>vm_regs = (\<lambda>_. 0), vm_negative_flag = False, vm_zero_flag = False, vm_carry_flag = False,
     vm_overflow_flag = False, vm_memory = [], vm_code_size = 0, vm_start_address = 0x8000, vm_fpscr = 0, vm_quit = False,
     vm_vfp = False\<rparr>"

lemma example_int_section_simps:
  "vec_items (ir_ops example_int_section) = example_int_ops" "\<not> ir_in_error_handler example_int_section"
  "section_at example_int_prog 0 = Inr example_int_section"
  by (simp_all add: example_int_section_def example_int_prog_def prv_ir_section_new_def section_at_def)

lemma example_arm_section_new: "arm_section_new [] 4096 6 0 0 0 0 8 [True] = Inr example_arm_section"
  by (simp add: arm_section_new_def example_arm_section_def)

lemma example_straight: "list_all straight_op example_int_ops"
  by (simp add: example_int_ops_def integer_operands integer_type_iff register_operands_ok_def operand_def op_reg_def
      All_less_Suc)

lemma example_run:
  "\<exists>iv'. subitlis_vm_run h example_int_prog 3 example_iv = Some (Inr iv') \<and> iv_regs iv' = [0, 0, 0, 0, 5, 10]"
proof -
  have "vm_run_loop h example_int_prog (Suc (Suc (Suc 0))) (example_iv\<lparr>iv_pc := 0\<rparr>)
      = Some (Inr (example_iv\<lparr>iv_regs := [0, 0, 0, 0, 5, 10], iv_pc := 2\<rparr>))"
    by (simp add: example_iv_def example_int_section_simps example_int_ops_def execute_op_def execute_integer
        prv_movii32_def prv_addi32_def int_op_def src_imm_def src_int_reg_def operand_def op_integer_def op_reg_def put_reg_def
        set_reg_at_def array_at_def i32_def prv_check_heap_def subtilis_vm_heap_init_def)
  then show ?thesis
    by (simp add: subitlis_vm_run_def eval_nat_numeral)
qed


lemma example_translated:
  "\<exists>a'. subtilis_ir_match (=) (riscos_arm2_parsed fp_if other) 3 (example_int_section, example_arm_section) = Some (Inr (example_int_section, a'))
    \<and> constants a' = [] \<and> as_reg_counter a' = 6"
proof -
  let ?i1 = "\<lparr>inst_type = IR_MOVI_I32, inst_operands = [Some 4, Some 5, None, None]\<rparr>"
  let ?i2 = "\<lparr>inst_type = IR_ADD_I32, inst_operands = [Some 5, Some 4, Some 4, None]\<rparr>"
  have g: "13 < length integer_generators" "integer_generators ! 13 = (inst_type ?i1, subtilis_arm_gen_movii32)"
    "19 < length integer_generators" "integer_generators ! 19 = (inst_type ?i2, subtilis_arm_gen_addi32)"
    by (simp_all add: integer_generators_def)
  have rules: "first_rule (=) (riscos_arm2_parsed fp_if other) [OP_INSTR ?i1, OP_INSTR ?i2] = Inr (Some (integer_rule IR_MOVI_I32 subtilis_arm_gen_movii32))"
    "first_rule (=) (riscos_arm2_parsed fp_if other) [OP_INSTR ?i2] = Inr (Some (integer_rule IR_ADD_I32 subtilis_arm_gen_addi32))"
    using first_rule_straight [OF _ g(1,2), of "[OP_INSTR ?i2]" "(=)" fp_if other] first_rule_straight [OF _ g(3,4), of "[]" "(=)" fp_if other]
      example_straight by (simp_all add: example_int_ops_def del: straight_op.simps)
  let ?n1 = "\<lparr>nd_op = Op_instr (Data INSTR_MOV (data CC_AL False 16 0 (OP2_I32 5))), nd_next = None, nd_prev = None\<rparr>"
  let ?n2 = "\<lparr>nd_op = Op_instr (Data INSTR_ADD (data CC_AL False 17 16 (OP2_REG 16))), nd_next = None, nd_prev = Some 0\<rparr>"
  let ?a1 = "example_arm_section\<lparr>as_pool := [?n1], as_first := Some 0, as_last := Some 0, as_len := 1\<rparr>"
  let ?a2 = "example_arm_section\<lparr>as_pool := [?n1\<lparr>nd_next := Some 1\<rparr>, ?n2], as_first := Some 0, as_last := Some 1, as_len := 2\<rparr>"
  have encode: "arm_encode_imm 5 = Some 5"
    by code_simp
  have regs: "arm_ir_to_arm_reg 4 = 16" "arm_ir_to_arm_reg 5 = 17"
    by (simp_all add: arm_ir_to_arm_reg_def SUBTILIS_IR_REG_TEMP_START_def SUBTILIS_ARM_INT_VIRT_REG_START_def)
  have ops_at: "ir_inst_at example_int_section 0 = Inr ?i1" "ir_inst_at example_int_section (Suc 0) = Inr ?i2"
    by (simp_all add: ir_inst_at_def ir_op_at_def example_int_section_simps example_int_ops_def)
  note read = reading_def ops_at arm_reg_operand_def integer_operand_def operand_def op_reg_def op_integer_def regs
  obtain p1 where n1: "arm_section_add_instr (Data INSTR_MOV (data CC_AL False 16 0 (OP2_I32 5))) example_arm_section = Inr (p1, ?a1)"
    by (simp add: arm_section_add_instr_def prv_append_op_def arm_op_pool_alloc_def sbind_def example_arm_section_def)
  obtain p2 where n2: "arm_section_add_instr (Data INSTR_ADD (data CC_AL False 17 16 (OP2_REG 16))) ?a1 = Inr (p2, ?a2)"
    by (simp add: arm_section_add_instr_def prv_append_op_def arm_op_pool_alloc_def sbind_def example_arm_section_def)
  have g1: "subtilis_arm_gen_movii32 example_int_section 0 example_arm_section = Inr ((), ?a1)"
    by (simp add: subtilis_arm_gen_movii32_def read arm_add_mov_imm_def arm_add_movmvn_imm_def encode sthen_def sbind_def n1)
  have "subtilis_arm_gen_addi32 example_int_section (Suc 0) = ignore (arm_section_add_instr (Data INSTR_ADD (data CC_AL False 17 16 (OP2_REG 16))))"
    by (rule ext) (simp add: subtilis_arm_gen_addi32_def prv_data_simple_def read)
  then have g2: "subtilis_arm_gen_addi32 example_int_section (Suc 0) ?a1 = Inr ((), ?a2)"
    by (simp only: n2 ignore_def sthen_def sbind_def) simp
  have "ir_match_loop (=) (riscos_arm2_parsed fp_if other) (Suc (Suc (Suc 0))) 0 (example_int_section, example_arm_section)
      = Some (Inr (example_int_section, ?a2))"
    using rules g1 g2 by (simp add: example_int_section_simps example_int_ops_def is_nop_def arm_action_def)
  then have "subtilis_ir_match (=) (riscos_arm2_parsed fp_if other) 3 (example_int_section, example_arm_section)
      = Some (Inr (example_int_section, ?a2))"
    by (simp add: subtilis_ir_match_def example_int_section_simps eval_nat_numeral)
  moreover have "constants ?a2 = []" and "as_reg_counter ?a2 = 6"
    by (simp_all add: example_arm_section_def vec_empty_def)
  ultimately show ?thesis
    by blast
qed

theorem integer_section_compiled_witness:
  "\<forall>h. \<exists>ops vm' iv'. run_ops id [] ops cleared_vm = Some (Inr vm') \<and> vm_regs vm' 17 = 10
    \<and> subitlis_vm_run h example_int_prog 3 example_iv = Some (Inr iv') \<and> iv_regs iv' ! 5 = 10"
proof
  fix h
  let ?other = "\<lambda>_ _ su. Inr su"
  have parse: "subtilis_ir_parse_rules (riscos_arm2_rules None ?other) = Inr (riscos_arm2_parsed None ?other)"
    using parse_rules_texts [OF table_texts] by (simp add: riscos_arm2_parsed_def)
  obtain a' where trans: "subtilis_ir_match (=) (riscos_arm2_parsed None ?other) 3 (example_int_section, example_arm_section)
      = Some (Inr (example_int_section, a'))" and a': "constants a' = []" "as_reg_counter a' = 6"
    using example_translated by blast
  obtain iv' where run: "subitlis_vm_run h example_int_prog 3 example_iv = Some (Inr iv')" and iv': "iv_regs iv' = [0, 0, 0, 0, 5, 10]"
    using example_run by blast
  have sec: "section_at example_int_prog (iv_index example_iv) = Inr example_int_section" and "\<not> iv_quit example_iv"
    by (simp_all add: example_iv_def example_int_section_simps)
  have dist: "distances_ok h example_int_prog example_int_section (vec_items (ir_ops example_int_section)) (example_iv\<lparr>iv_pc := 0\<rparr>)"
    by (simp add: example_int_section_simps example_int_ops_def distance_ok_def shift_types_def split: sum.splits)
  have regs: "length (iv_regs example_iv) \<le> as_reg_counter example_arm_section" and small: "as_reg_counter a' \<le> 2 ^ 32"
    by (simp_all add: example_iv_def example_arm_section_def a')
  have agree: "agree example_iv cleared_vm"
    using nth_mem [of _ "iv_regs example_iv"] by (fastforce simp: agree_def example_iv_def cleared_vm_def)
  have ks: "constants_for a' []"
    by (simp add: constants_for_def a')
  have ops: "list_all straight_op (vec_items (ir_ops example_int_section))" "length (vec_items (ir_ops example_int_section)) < 2 ^ 32"
    using example_straight by (simp_all add: example_int_section_simps) (simp add: example_int_ops_def)
  from integer_section_compiled [OF parse trans run sec \<open>\<not> iv_quit example_iv\<close> ops dist
      new_section_ok(1) [OF example_arm_section_new] regs small agree ks, of id]
  obtain ops vm' where vm': "run_ops id [] ops cleared_vm = Some (Inr vm')" "agree iv' vm'"
    by auto
  have "vm_regs vm' 17 = 10"
    using agree_reg [OF vm'(2), of 5] by (simp add: iv' arm_ir_to_arm_reg_def SUBTILIS_IR_REG_TEMP_START_def
        SUBTILIS_ARM_INT_VIRT_REG_START_def)
  with vm' run iv' show "\<exists>ops vm' iv'. run_ops id [] ops cleared_vm = Some (Inr vm') \<and> vm_regs vm' 17 = 10
      \<and> subitlis_vm_run h example_int_prog 3 example_iv = Some (Inr iv') \<and> iv_regs iv' ! 5 = 10"
    by (auto intro!: exI)
qed

end
