(* ===== verification/Spec2Isabelle.thy ===== *)
theory Spec2Isabelle
  imports Bitset Arm_Imm Arm_Roundtrip Arm_Encode_Pool Arm_Encode_Branches Arm_Section_Laws Arm_Div_Correct Vm_Heap Buffer Ir_Vm_Laws Arm_Gen_Correct
begin

text \<open>
  Subtilis compiles a dialect of BASIC. A front end (frontend/) parses a program and, with the help of
  the builder in common/ir.c, translates each of its procedures into a section of intermediate
  representation (IR). The IR is either interpreted (frontend/vm.c) or handed to a back end, which
  matches it against rules, generates ARM instructions into sections (arch/arm32/arm_core.c), allocates
  registers, encodes the sections (arm_encode.c, driven by arm_walker.c), links them (arm_link.c) and
  writes an executable. For tests the executable is decoded (arm_disass.c) and run in a simulator
  (arm_vm.c). This development models the IR with its builder and interpreter, the rules with the matcher and the
  generator of ARM instructions for integers and control flow, and the path of ARM instructions from sections over
  encoded words to their execution in the simulator.

  \<^bold>\<open>Conventions.\<close> Fixed width integers are words; registers, indices and counters that the code keeps in
  \<^verbatim>\<open>size_t\<close> and that the model does not let wrap are \<open>nat\<close>. The host is little-endian with 64-bit
  \<^verbatim>\<open>size_t\<close>. A double is its 64 bits, and operations on doubles are parameters. A function that
  reports an error through \<^verbatim>\<open>subtilis_error_t\<close> returns \<open>'a c_result\<close>, whose left side is an error
  of the code (\<open>assertion_failed\<close>, \<open>oom\<close> and others) or \<open>Undefined\<close> where the C standard leaves the
  behaviour undefined: an access outside an array, a division by zero, a signed overflow. Functions
  that change a section thread it with the type \<open>('a, 's) c_state\<close>. Whether an allocation succeeds is read from a list of outcomes, the field
  \<open>allocs\<close> of a state, so that every failure of \<^verbatim>\<open>malloc\<close> and \<^verbatim>\<open>realloc\<close> is a branch of the model; memory that C leaves
  indeterminate is \<open>None\<close>, or the parameters \<open>stale\<close> and \<open>host_fresh\<close>. Freeing memory is modelled only where a field is used afterwards.

  \<^bold>\<open>Theories.\<close>
  \<^item> \<open>Subtilis_Prelude\<close>, \<open>Subtilis_Memory\<close>: errors, results and their monads, bytes and words, growing
    vectors (\<open>vec_push\<close>), and the rules about them that the other theories share.
  \<^item> \<open>Bitset\<close> (common/bitset.c): sets of numbers as arrays of words; the locale \<open>number_store\<close>; the operations refine those on
    sets, and their boundary errors.
  \<^item> \<open>Buffer\<close> (common/buffer.c): byte buffers; they refine lists of bytes.
  \<^item> \<open>Pools\<close> (common/string_pool.c, constant_pool.c, sizet_vector.c): interning. The locale \<open>interner\<close>
    holds what registration promises and is interpreted by both pools.
  \<^item> \<open>Ir\<close> (common/ir.c, common/ir.h): instruction types with the tables indexed by them, operands as the bits
    of a union, sections, programs and the builder.
  \<^item> \<open>Vm_Heap\<close> (common/vm_heap.c): the heap of the interpreter; the reachable heaps are an
    inductive predicate, and the locale \<open>allocator\<close> states the contract that they satisfy.
  \<^item> \<open>Ir_Vm\<close>, \<open>Ir_Vm_Laws\<close> (frontend/vm.c): the interpreter; calls and returns, jumps and
    reference counts.
  \<^item> \<open>Ir_Match\<close>, \<open>Ir_Match_Laws\<close> (common/ir.c): the parser of the rules of the back ends and the matcher that runs
    their actions over a section; what it means that a rule fits, and that the matcher ends.
  \<^item> \<open>Arm_Rules\<close>, \<open>Arm_Rules_Laws\<close> (backends/riscos/riscos_arm2.c): the table of rules of the back end for the
    ARM 2 and what the parser makes of it.
  \<^item> \<open>Arm_Gen\<close> (arm_gen.c): the actions of the rules. \<open>Arm_Emit\<close> states what it means to append code to a section
    (\<open>appends\<close>) and what the code does in the simulator; \<open>Arm_Gen_Laws\<close> proves for every generator of integer
    operations that its code simulates the operation of the interpreter (\<open>simulates\<close>), and \<open>Arm_Gen_Correct\<close> composes
    them over the matcher for sections of such operations. The constants of a section are read there
    from the section itself; that the encoder puts them within reach is the subject of \<open>Arm_Encode_Pool\<close>.
  \<^item> \<open>Arm_Core\<close> (arch/arm32/arm_core.h): ARM instructions; \<open>Arm_Imm\<close> (arm_core.c, arm_vm.c): immediate operands.
  \<^item> \<open>Arm_Section\<close>, \<open>Arm_Section_Laws\<close> (arm_core.c): the pool of operations with the doubly linked lists of the
    sections in it; appending and inserting refine lists (locale \<open>op_sequence\<close>).
  \<^item> \<open>Arm_Encode_Words\<close> and \<open>Arm_Encode\<close> (arm_encode.c, arm_walker.c): the word of every instruction; the
    state of the encoder with its buffer, labels, constant pools and back patches.
    \<open>Arm_Encode_Laws\<close>, \<open>Arm_Encode_Patches\<close>, \<open>Arm_Encode_Pool\<close>, \<open>Arm_Encode_Branches\<close> prove what is in the
    buffer afterwards; the locale \<open>word_store\<close> holds what all patches of written words have in common.
  \<^item> \<open>Arm_Disass\<close> (arm_disass.c): the decoder. \<open>Arm_Operands\<close>, \<open>Arm_Roundtrip_Int\<close>, \<open>Arm_Roundtrip_Fpa\<close>,
    \<open>Arm_Roundtrip_Vfp\<close> and \<open>Arm_Roundtrip\<close> prove that it inverts the encoder, instruction set by instruction
    set, and where it does not.
  \<^item> \<open>Arm_Link\<close> (arm_link.c): the linker.
  \<^item> \<open>Arm_Vm\<close>, \<open>Arm_Vm_Run\<close>, \<open>Arm_Vm_Laws\<close> (arm_vm.c): the simulator, its loop, and what its flags and
    bounds checks guarantee.
  \<^item> \<open>Arm_Div\<close> (arm2_div.c) and \<open>Arm_Div_Run\<close>, \<open>Arm_Div_Loop\<close>, \<open>Arm_Div_Result\<close>, \<open>Arm_Div_Correct\<close>: the
    division routine from its generator over the encoder and the decoder to its result in the simulator.

  \<^bold>\<open>Fuel.\<close> The loops of both machines run programs that need not end; they take a bound on the number of
  operations and return \<open>None\<close> when it does not suffice (\<open>vm_loop\<close>, \<open>vm_run_loop\<close>), and so does the loop of the
  matcher (\<open>ir_match_loop\<close>). Theorems that a run ends
  give the bound: 135 instructions for a division, one round per operation for the matcher. All other recursion is structural or
  has a termination proof.

  \<^bold>\<open>Not modelled.\<close> The lexer, the parser and the type-directed code generation of the front end; the
  generators for floating point, for memory blocks and the heap, and for system calls, which are parameters of the
  table of rules; register allocation and peephole; the inline assembler; floating point instructions and
  system calls in the simulator, which work on the doubles and files of the host (\<open>exec_instr\<close> is \<open>None\<close>
  on them); the files, clock and keyboard of the interpreter (\<open>host_os\<close>); printing and dumping; the
  command line programs; the tests.
\<close>

end
